(* ===== verification/Prelude.thy ===== *)
theory Prelude
  imports Main "HOL-Library.List_Lexorder" "HOL-Library.Char_ord"
begin

text \<open>
  What every component of the operator shares: the errors of the Go code, the calls it makes to the
  outside world, the loops over slices that return early, and the string functions of the standard
  library that the source uses.

  \<^item> Errors. A Go function that returns \<open>(T, error)\<close> is a value of \<open>go_error + 'a\<close>. Sentinel errors
    that the code compares against (\<open>errors.Cause(err) == ErrRegionNotReady\<close>) are constructors of
    their own, \<open>Wrap\<close> is \<open>errors.Wrap\<close>, and \<open>Panic\<close> is a nil dereference: it is a value that no
    error handler of the code can intercept.
  \<^item> Effects. Kubernetes, Cassandra, Jolokia, reaper and remote regions are not part of the
    repository. An operation that talks to them is an \<open>act\<close>: a function of the state \<open>'w\<close> of that
    outside world which returns a result, the list of requests it sent, and the new state. The
    answers are given by functions that are parameters of the model, so a theorem about an \<open>act\<close>
    holds for every behaviour of the outside world.
  \<^item> Strings are lists of bytes, ordered as Go orders them (byte by byte).
\<close>

named_theorems act_simps \<open>result, trace and world of the combinators\<close>
named_theorems only_intros \<open>composition rules for the requests an action may send\<close>

section \<open>Errors\<close>

datatype go_error =
    Panic
  | NotFound
  | Conflict
  | ErrPodNotScheduled
  | ErrRegionNotReady
  | ErrDCDecommissionBlocked
  | ErrTLSSecretNotFound
  | ErrTLSSecretInvalid
  | NetTimeout
  | NoKindMatch
  | ClusterNotFound
  | Err string
  | Wrap string go_error

fun cause :: "go_error \<Rightarrow> go_error" where
  "cause (Wrap _ e) = cause e"
| "cause e = e"

lemma cause_idem [simp]: "cause (cause e) = cause e"
  by (induction e rule: cause.induct) auto

section \<open>Actions on the outside world\<close>

type_synonym ('w, 'q, 'a) act = "'w \<Rightarrow> (go_error + 'a) \<times> 'q list \<times> 'w"

definition result :: "('w, 'q, 'a) act \<Rightarrow> 'w \<Rightarrow> go_error + 'a" where
  "result m w = fst (m w)"

definition trace :: "('w, 'q, 'a) act \<Rightarrow> 'w \<Rightarrow> 'q list" where
  "trace m w = fst (snd (m w))"

definition world :: "('w, 'q, 'a) act \<Rightarrow> 'w \<Rightarrow> 'w" where
  "world m w = snd (snd (m w))"

definition ret :: "'a \<Rightarrow> ('w, 'q, 'a) act" where
  "ret x = (\<lambda>w. (Inr x, [], w))"

definition raise :: "go_error \<Rightarrow> ('w, 'q, 'a) act" where
  "raise e = (\<lambda>w. (Inl e, [], w))"

definition andThen :: "('w, 'q, 'a) act \<Rightarrow> ('a \<Rightarrow> ('w, 'q, 'b) act) \<Rightarrow> ('w, 'q, 'b) act" where
  "andThen m f = (\<lambda>w. case m w of
      (Inl e, t, w1) \<Rightarrow> (Inl e, t, w1)
    | (Inr x, t, w1) \<Rightarrow> (case f x w1 of (r, t2, w2) \<Rightarrow> (r, t @ t2, w2)))"

text \<open>A request \<open>q\<close> answered by the function \<open>h\<close> of the environment.\<close>

definition call :: "'q \<Rightarrow> ('w \<Rightarrow> (go_error + 'a) \<times> 'w) \<Rightarrow> ('w, 'q, 'a) act" where
  "call q h = (\<lambda>w. case h w of (r, w1) \<Rightarrow> (r, [q], w1))"

text \<open>\<open>errors.Wrap(err, msg)\<close> on the error path; a panic is not an error value and passes through.\<close>

fun wrap :: "string \<Rightarrow> go_error \<Rightarrow> go_error" where
  "wrap msg Panic = Panic"
| "wrap msg e = Wrap msg e"

definition wrapErr :: "string \<Rightarrow> ('w, 'q, 'a) act \<Rightarrow> ('w, 'q, 'a) act" where
  "wrapErr msg m = (\<lambda>w. case m w of
      (Inl e, t, w1) \<Rightarrow> (Inl (wrap msg e), t, w1)
    | (Inr x, t, w1) \<Rightarrow> (Inr x, t, w1))"

text \<open>
  \<open>x, err := m()\<close> where the code inspects \<open>err\<close> itself instead of returning it. A panic is not
  inspected: it goes on unwinding.
\<close>

definition attempt :: "('w, 'q, 'a) act \<Rightarrow> ('w, 'q, go_error + 'a) act" where
  "attempt m = (\<lambda>w. case m w of
      (Inl Panic, t, w1) \<Rightarrow> (Inl Panic, t, w1)
    | (r, t, w1) \<Rightarrow> (Inr r, t, w1))"

text \<open>\<open>for _, x := range xs { if err := f(x); err != nil { return err } }\<close>\<close>

fun forEach :: "('a \<Rightarrow> ('w, 'q, unit) act) \<Rightarrow> 'a list \<Rightarrow> ('w, 'q, unit) act" where
  "forEach f [] = ret ()"
| "forEach f (x # xs) = andThen (f x) (\<lambda>_. forEach f xs)"

text \<open>The same loop threading a local variable.\<close>

fun foldAct :: "('a \<Rightarrow> 's \<Rightarrow> ('w, 'q, 's) act) \<Rightarrow> 'a list \<Rightarrow> 's \<Rightarrow> ('w, 'q, 's) act" where
  "foldAct f [] s = ret s"
| "foldAct f (x # xs) s = andThen (f x s) (foldAct f xs)"

lemma andThen_ret_left [simp]: "andThen (ret x) f = f x"
  by (simp add: andThen_def ret_def)

lemma andThen_raise [simp]: "andThen (raise e) f = raise e"
  by (simp add: andThen_def raise_def)

lemma andThen_ret_right [simp]: "andThen m ret = m"
  by (rule ext) (auto simp: andThen_def ret_def split: prod.splits sum.splits)

lemma andThen_assoc: "andThen (andThen m f) g = andThen m (\<lambda>x. andThen (f x) g)"
  by (rule ext) (auto simp: andThen_def split: prod.splits sum.splits)

lemma result_ret [act_simps, simp]: "result (ret x) w = Inr x"
  by (simp add: result_def ret_def)

lemma trace_ret [act_simps, simp]: "trace (ret x) w = []"
  by (simp add: trace_def ret_def)

lemma world_ret [act_simps, simp]: "world (ret x) w = w"
  by (simp add: world_def ret_def)

lemma result_raise [act_simps, simp]: "result (raise e) w = Inl e"
  by (simp add: result_def raise_def)

lemma trace_raise [act_simps, simp]: "trace (raise e) w = []"
  by (simp add: trace_def raise_def)

lemma world_raise [act_simps, simp]: "world (raise e) w = w"
  by (simp add: world_def raise_def)

lemma result_andThen [act_simps, simp]:
  "result (andThen m f) w = (case result m w of Inl e \<Rightarrow> Inl e | Inr x \<Rightarrow> result (f x) (world m w))"
  by (auto simp: result_def world_def andThen_def split: prod.splits sum.splits)

lemma trace_andThen [act_simps, simp]:
  "trace (andThen m f) w =
     trace m w @ (case result m w of Inl e \<Rightarrow> [] | Inr x \<Rightarrow> trace (f x) (world m w))"
  by (auto simp: result_def trace_def world_def andThen_def split: prod.splits sum.splits)

lemma world_andThen [act_simps, simp]:
  "world (andThen m f) w = (case result m w of Inl e \<Rightarrow> world m w | Inr x \<Rightarrow> world (f x) (world m w))"
  by (auto simp: result_def world_def andThen_def split: prod.splits sum.splits)

lemma result_call [act_simps, simp]: "result (call q h) w = fst (h w)"
  by (auto simp: result_def call_def split: prod.splits)

lemma trace_call [act_simps, simp]: "trace (call q h) w = [q]"
  by (auto simp: trace_def call_def split: prod.splits)

lemma world_call [act_simps, simp]: "world (call q h) w = snd (h w)"
  by (auto simp: world_def call_def split: prod.splits)

lemma result_wrapErr [act_simps, simp]:
  "result (wrapErr msg m) w = (case result m w of Inl e \<Rightarrow> Inl (wrap msg e) | Inr x \<Rightarrow> Inr x)"
  by (auto simp: result_def wrapErr_def split: prod.splits sum.splits)

lemma trace_wrapErr [act_simps, simp]: "trace (wrapErr msg m) w = trace m w"
  by (auto simp: trace_def wrapErr_def split: prod.splits sum.splits)

lemma world_wrapErr [act_simps, simp]: "world (wrapErr msg m) w = world m w"
  by (auto simp: world_def wrapErr_def split: prod.splits sum.splits)

lemma result_attempt [act_simps, simp]:
  "result (attempt m) w = (if result m w = Inl Panic then Inl Panic else Inr (result m w))"
  by (auto simp: result_def attempt_def split: prod.splits sum.splits go_error.splits)

lemma trace_attempt [act_simps, simp]: "trace (attempt m) w = trace m w"
  by (auto simp: trace_def attempt_def split: prod.splits sum.splits go_error.splits)

lemma world_attempt [act_simps, simp]: "world (attempt m) w = world m w"
  by (auto simp: world_def attempt_def split: prod.splits sum.splits go_error.splits)

lemma cause_wrap [simp]: "cause (wrap msg e) = cause e"
  by (cases e) auto

lemma wrap_Panic_iff [simp]: "wrap msg e = Panic \<longleftrightarrow> e = Panic"
  by (cases e) auto

text \<open>What a success says about the parts of an action.\<close>

lemma andThen_Inr: "result (andThen m f) w = Inr y \<longleftrightarrow>
    (\<exists>x. result m w = Inr x \<and> result (f x) (world m w) = Inr y)"
  by (cases "result m w") auto

lemma wrapErr_Inr: "result (wrapErr msg m) w = Inr y \<longleftrightarrow> result m w = Inr y"
  by (cases "result m w") auto

lemma forEach_trace:
  assumes "result (forEach f xs) w = Inr ()" "\<And>x v. x \<in> set xs \<Longrightarrow> result (f x) v = Inr () \<Longrightarrow> trace (f x) v = g x"
  shows "trace (forEach f xs) w = concat (map g xs)"
  using assms
proof (induction xs arbitrary: w)
  case (Cons x xs)
  then have "result (f x) w = Inr ()" by (auto split: sum.splits)
  with Cons show ?case by simp
qed simp

subsection \<open>The requests an action may send\<close>

definition only :: "('q \<Rightarrow> bool) \<Rightarrow> ('w, 'q, 'a) act \<Rightarrow> bool" where
  "only P m \<longleftrightarrow> (\<forall>w. \<forall>q \<in> set (trace m w). P q)"

lemma onlyD: "only P m \<Longrightarrow> q \<in> set (trace m w) \<Longrightarrow> P q"
  by (auto simp: only_def)

lemma only_ret [only_intros, simp]: "only P (ret x)"
  by (simp add: only_def)

lemma only_raise [only_intros, simp]: "only P (raise e)"
  by (simp add: only_def)

lemma only_call [only_intros]: "P q \<Longrightarrow> only P (call q h)"
  by (simp add: only_def)

lemma only_andThen [only_intros]:
  "only P m \<Longrightarrow> (\<And>x. only P (f x)) \<Longrightarrow> only P (andThen m f)"
  by (fastforce simp: only_def split: sum.splits)

lemma only_wrapErr [only_intros]: "only P m \<Longrightarrow> only P (wrapErr msg m)"
  by (simp add: only_def)

lemma only_attempt [only_intros]: "only P m \<Longrightarrow> only P (attempt m)"
  by (simp add: only_def)

lemma only_forEach [only_intros]: "(\<And>x. x \<in> set xs \<Longrightarrow> only P (f x)) \<Longrightarrow> only P (forEach f xs)"
  by (induction xs) (auto intro: only_intros)

lemma only_foldAct [only_intros]:
  "(\<And>x s. x \<in> set xs \<Longrightarrow> only P (f x s)) \<Longrightarrow> only P (foldAct f xs s)"
  by (induction xs arbitrary: s) (auto intro: only_intros)

lemma only_if [only_intros]: "(b \<Longrightarrow> only P m) \<Longrightarrow> (\<not> b \<Longrightarrow> only P n) \<Longrightarrow> only P (if b then m else n)"
  by simp

lemma only_case_sum [only_intros]:
  "(\<And>e. r = Inl e \<Longrightarrow> only P (f e)) \<Longrightarrow> (\<And>x. r = Inr x \<Longrightarrow> only P (g x)) \<Longrightarrow>
    only P (case r of Inl e \<Rightarrow> f e | Inr x \<Rightarrow> g x)"
  by (cases r) auto

lemma only_case_option [only_intros]:
  "(r = None \<Longrightarrow> only P m) \<Longrightarrow> (\<And>x. r = Some x \<Longrightarrow> only P (g x)) \<Longrightarrow>
    only P (case r of None \<Rightarrow> m | Some x \<Rightarrow> g x)"
  by (cases r) auto

lemma only_Let [only_intros]: "only P (f x) \<Longrightarrow> only P (let y = x in f y)"
  by simp

section \<open>Maps\<close>

text \<open>Reading an absent key of a Go map gives the zero value of its type, here the empty string.\<close>

definition mget :: "(string \<rightharpoonup> string) \<Rightarrow> string \<Rightarrow> string" where
  "mget m k = (case m k of None \<Rightarrow> '''' | Some v \<Rightarrow> v)"

lemma mget_upd [simp]: "mget (m(k \<mapsto> v)) j = (if j = k then v else mget m j)"
  by (simp add: mget_def)

lemma mget_empty [simp]: "mget Map.empty k = ''''"
  by (simp add: mget_def)

text \<open>\<open>ranges ks m\<close>: a range over the map \<open>m\<close> visits each of its keys once, in the order \<open>ks\<close>.\<close>

definition ranges :: "'k list \<Rightarrow> ('k \<rightharpoonup> 'v) \<Rightarrow> bool" where
  "ranges ks m \<longleftrightarrow> distinct ks \<and> set ks = dom m"

section \<open>Strings\<close>

definition hasPrefix :: "string \<Rightarrow> string \<Rightarrow> bool" where
  "hasPrefix s p \<longleftrightarrow> take (length p) s = p"

text \<open>The ASCII white space of \<open>unicode.IsSpace\<close>: tab, line feed, vertical tab, form feed, carriage
  return and blank. Strings with white space outside ASCII are not covered.\<close>

definition isSpace :: "char \<Rightarrow> bool" where
  "isSpace c \<longleftrightarrow> c \<in> {CHR 0x09, CHR 0x0A, CHR 0x0B, CHR 0x0C, CHR 0x0D, CHR '' ''}"

definition trimLeft :: "(char \<Rightarrow> bool) \<Rightarrow> string \<Rightarrow> string" where
  "trimLeft p s = dropWhile p s"

definition trimRight :: "(char \<Rightarrow> bool) \<Rightarrow> string \<Rightarrow> string" where
  "trimRight p s = rev (dropWhile p (rev s))"

definition trimSpace :: "string \<Rightarrow> string" where
  "trimSpace s = trimRight isSpace (trimLeft isSpace s)"

text \<open>\<open>strings.Split(s, sep)\<close> for a separator of one character.\<close>

fun splitOn :: "char \<Rightarrow> string \<Rightarrow> string list" where
  "splitOn c [] = [[]]"
| "splitOn c (x # xs) =
     (if x = c then [] # splitOn c xs
      else case splitOn c xs of [] \<Rightarrow> [[x]] | y # ys \<Rightarrow> (x # y) # ys)"

fun join :: "string \<Rightarrow> string list \<Rightarrow> string" where
  "join sep [] = []"
| "join sep [x] = x"
| "join sep (x # xs) = x @ sep @ join sep xs"

text \<open>\<open>strings.ToLower\<close> on ASCII.\<close>

definition toLowerChar :: "char \<Rightarrow> char" where
  "toLowerChar c = (let n = of_char c :: nat in if 65 \<le> n \<and> n \<le> 90 then char_of (n + 32) else c)"

definition toLower :: "string \<Rightarrow> string" where
  "toLower s = map toLowerChar s"

fun natToString :: "nat \<Rightarrow> string" where
  "natToString n =
     (if n < 10 then [char_of (48 + n)] else natToString (n div 10) @ [char_of (48 + n mod 10)])"

declare natToString.simps [simp del]

definition itoa :: "int \<Rightarrow> string" where
  "itoa i = (if i < 0 then CHR ''-'' # natToString (nat (- i)) else natToString (nat i))"

definition formatBool :: "bool \<Rightarrow> string" where
  "formatBool b = (if b then ''true'' else ''false'')"

text \<open>The verb \<open>%q\<close> on a string without special characters.\<close>

definition quoted :: "string \<Rightarrow> string" where
  "quoted s = [CHR 0x22] @ s @ [CHR 0x22]"

lemma splitOn_nonempty [simp]: "splitOn c s \<noteq> []"
  by (cases s) (auto split: list.splits)

lemma join_splitOn: "join [c] (splitOn c s) = s"
proof (induction s)
  case (Cons x xs)
  show ?case
  proof (cases "splitOn c xs")
    case Nil
    then show ?thesis by simp
  next
    case (Cons y ys)
    with Cons.IH show ?thesis by (cases ys) auto
  qed
qed simp

lemma splitOn_no_sep: "y \<in> set (splitOn c s) \<Longrightarrow> c \<notin> set y"
  by (induction s arbitrary: y) (auto split: if_splits list.splits)

lemma trimRight_snoc: "\<not> p c \<Longrightarrow> trimRight p (s @ [c]) = s @ [c]"
  by (simp add: trimRight_def)

lemma set_trimLeft: "set (trimLeft p s) \<subseteq> set s"
  by (auto simp: trimLeft_def dest: set_dropWhileD)

lemma set_trimRight: "set (trimRight p s) \<subseteq> set s"
  by (auto simp: trimRight_def dest: set_dropWhileD)

lemma set_trimSpace: "set (trimSpace s) \<subseteq> set s"
  using set_trimLeft [of isSpace s] set_trimRight [of isSpace "trimLeft isSpace s"]
  by (auto simp: trimSpace_def)

text \<open>Decimal notation determines the number.\<close>

definition digitVal :: "char \<Rightarrow> nat" where
  "digitVal c = of_char c - 48"

definition stringToNat :: "string \<Rightarrow> nat" where
  "stringToNat s = foldl (\<lambda>n c. 10 * n + digitVal c) 0 s"

lemma digitVal_char_of: "k < 10 \<Longrightarrow> digitVal (char_of (48 + k)) = k"
  by (simp add: digitVal_def)

lemma stringToNat_natToString: "stringToNat (natToString n) = n"
proof (induction n rule: natToString.induct)
  case (1 n)
  show ?case
  proof (cases "n < 10")
    case True
    then show ?thesis
      by (simp add: natToString.simps [of n] stringToNat_def digitVal_char_of del: of_char_of)
  next
    case False
    with "1.IH" have "stringToNat (natToString (n div 10)) = n div 10" by simp
    moreover have "digitVal (char_of (48 + n mod 10)) = n mod 10"
      by (rule digitVal_char_of) simp
    ultimately show ?thesis
      using False by (simp add: natToString.simps [of n] stringToNat_def)
  qed
qed

lemma natToString_inj: "natToString m = natToString n \<longleftrightarrow> m = n"
  by (metis stringToNat_natToString)

lemma natToString_digits: "c \<in> set (natToString n) \<Longrightarrow> 48 \<le> (of_char c :: nat) \<and> (of_char c :: nat) \<le> 57"
proof (induction n rule: natToString.induct)
  case (1 n)
  have small: "k < 10 \<Longrightarrow> (of_char (char_of (48 + k) :: char) :: nat) = 48 + k" for k
    by simp
  show ?case
  proof (cases "n < 10")
    case True
    with "1.prems" small [of n] show ?thesis by (auto simp: natToString.simps [of n])
  next
    case False
    with "1.prems" have "c \<in> set (natToString (n div 10)) \<or> c = char_of (48 + n mod 10)"
      by (auto simp: natToString.simps [of n])
    then show ?thesis
      using "1.IH" [OF False] small [of "n mod 10"] by auto
  qed
qed

lemma itoa_of_nat_inj: "itoa (int m) = itoa (int n) \<longleftrightarrow> m = n"
  by (simp add: itoa_def natToString_inj)

end
