(* ===== verification/K8s_Objects.thy ===== *)
theory K8s_Objects
  imports Prelude
begin

text \<open>
  The Kubernetes objects that the operator builds: pod templates with their containers, volumes, probes and
  environment, stateful sets, deployments, services, ingresses, the objects of role based access control and the
  unstructured service monitors. One record per Kubernetes struct, with the fields that the source sets or reads;
  a field that no code of the operator touches is not there.
  Metadata that the comparisons of \<open>controllers/compare\<close> ignore (versions, timestamps) is left out, so equality
  of records is the comparison of that package except for the status.
\<close>

type_synonym k8s_value = string
type_synonym strmap = "string \<rightharpoonup> string"

section \<open>Containers\<close>

datatype intOrString = FromInt int | FromString string

datatype envSource = EnvValue string | FieldRef string string | SecretKeyRef string string

record envVar =
  ev_name :: string
  ev_source :: envSource

record volumeMount =
  vm_name :: string
  vm_mountPath :: string
  vm_subPath :: string

datatype volumeSource =
    EmptyDir
  | ConfigMapVolume string int
  | SecretVolume string "(string \<times> string) list" int

record volume =
  vol_name :: string
  vol_source :: volumeSource

record containerPort =
  cp_name :: string
  cp_containerPort :: int
  cp_hostPort :: int
  cp_protocol :: string

datatype probeHandler =
    HTTPGet intOrString string string
  | TCPSocket intOrString
  | ExecAction "string list"

record probe =
  pr_handler :: probeHandler
  pr_initialDelaySeconds :: int
  pr_timeoutSeconds :: int
  pr_periodSeconds :: int
  pr_successThreshold :: int
  pr_failureThreshold :: int

text \<open>Resources are copied from the specification, or requests and limits set by the code.\<close>

datatype resources = SpecResources k8s_value | RequestsLimits "(string \<times> string) list" "(string \<times> string) list"

record securityContext =
  sc_privileged :: bool
  sc_runAsUser :: int
  sc_runAsGroup :: int

record container =
  co_name :: string
  co_image :: string
  co_imagePullPolicy :: string
  co_command :: "string list"
  co_args :: "string list"
  co_workingDir :: string
  co_env :: "envVar list"
  co_resources :: resources
  co_livenessProbe :: "probe option"
  co_readinessProbe :: "probe option"
  co_preStop :: "string list option"
  co_volumeMounts :: "volumeMount list"
  co_ports :: "containerPort list"
  co_securityContext :: "securityContext option"
  co_terminationMessagePath :: string
  co_terminationMessagePolicy :: string

section \<open>Pod templates\<close>

record topologySpreadConstraint =
  tsc_maxSkew :: int
  tsc_topologyKey :: string
  tsc_whenUnsatisfiable :: string
  tsc_labelSelector :: strmap

record podSpec =
  ps_containers :: "container list"
  ps_initContainers :: "container list"
  ps_volumes :: "volume list"
  ps_imagePullSecrets :: "string list"
  ps_serviceAccountName :: string
  ps_affinity :: "k8s_value option"
  ps_tolerations :: "k8s_value list"
  ps_nodeSelector :: strmap
  ps_restartPolicy :: string
  ps_terminationGracePeriodSeconds :: "int option"
  ps_dnsPolicy :: string
  ps_topologySpreadConstraints :: "topologySpreadConstraint list"

text \<open>The code sets the security context of every pod to the empty one, so it has no field.\<close>

record podTemplate =
  pt_labels :: strmap
  pt_annotations :: "strmap option"
  pt_spec :: podSpec

record persistentVolumeClaimSpec =
  pvc_volumeMode :: "string option"
  pvc_accessModes :: "string list"
  pvc_storageClassName :: "string option"
  pvc_rest :: k8s_value

record volumeClaim =
  vc_name :: string
  vc_labels :: strmap
  vc_annotations :: strmap
  vc_spec :: persistentVolumeClaimSpec

section \<open>Workloads\<close>

text \<open>The specification of a stateful set but for its replicas, which are a field of the stateful set itself.\<close>

record stsSpec =
  ss_serviceName :: string
  ss_selector :: strmap
  ss_podManagementPolicy :: string
  ss_updateStrategy :: string
  ss_partition :: int
  ss_revisionHistoryLimit :: int
  ss_template :: podTemplate
  ss_volumeClaimTemplates :: "volumeClaim list"

record deploymentSpec =
  ds_replicas :: int
  ds_selector :: strmap
  ds_strategy :: string
  ds_maxUnavailable :: intOrString
  ds_maxSurge :: intOrString
  ds_revisionHistoryLimit :: int
  ds_progressDeadlineSeconds :: int
  ds_template :: podTemplate

record deployment =
  dep_name :: string
  dep_namespace :: string
  dep_labels :: strmap
  dep_annotations :: "strmap option"
  dep_ownerReferences :: "string list"
  dep_spec :: deploymentSpec
  dep_readyReplicas :: int

section \<open>Services and ingresses\<close>

record servicePort =
  sp_name :: string
  sp_protocol :: string
  sp_port :: int
  sp_targetPort :: intOrString

record serviceSpec =
  svs_ports :: "servicePort list"
  svs_clusterIP :: string
  svs_clusterIPs :: "string list"
  svs_ipFamilies :: "string list"
  svs_ipFamilyPolicy :: "string option"
  svs_internalTrafficPolicy :: "string option"
  svs_type :: string
  svs_sessionAffinity :: string
  svs_publishNotReadyAddresses :: bool
  svs_selector :: strmap

record service =
  svc_name :: string
  svc_namespace :: string
  svc_labels :: strmap
  svc_annotations :: "strmap option"
  svc_ownerReferences :: "string list"
  svc_spec :: serviceSpec

record ingressPath =
  ip_pathType :: string
  ip_path :: string
  ip_serviceName :: string
  ip_servicePort :: int

record ingressSpec =
  is_ingressClassName :: "string option"
  is_tls :: "(string list \<times> string) list"
  is_rules :: "(string \<times> ingressPath list) list"

record ingressObject =
  ig_name :: string
  ig_namespace :: string
  ig_labels :: strmap
  ig_annotations :: strmap
  ig_ownerReferences :: "string list"
  ig_spec :: ingressSpec

section \<open>Role based access control\<close>

record policyRule =
  rul_apiGroups :: "string list"
  rul_resources :: "string list"
  rul_verbs :: "string list"

record k8sRole =
  kr_name :: string
  kr_namespace :: string
  kr_labels :: strmap
  kr_annotations :: "strmap option"
  kr_ownerReferences :: "string list"
  kr_rules :: "policyRule list"

record subject =
  sub_kind :: string
  sub_name :: string
  sub_namespace :: string

record roleRef =
  ref_kind :: string
  ref_name :: string
  ref_apiGroup :: string

record k8sRoleBinding =
  krb_name :: string
  krb_namespace :: string
  krb_labels :: strmap
  krb_annotations :: "strmap option"
  krb_ownerReferences :: "string list"
  krb_subjects :: "subject list"
  krb_roleRef :: roleRef

record k8sServiceAccount =
  ksa_name :: string
  ksa_namespace :: string
  ksa_labels :: strmap
  ksa_annotations :: "strmap option"
  ksa_ownerReferences :: "string list"
  ksa_secrets :: "string list option"

section \<open>Unstructured objects\<close>

datatype tree = Text string | Number int | Sequence "tree list" | Object "string \<rightharpoonup> tree"

record serviceMonitorObject =
  smo_name :: string
  smo_namespace :: string
  smo_labels :: strmap
  smo_ownerReferences :: "string list"
  smo_spec :: tree

end
