(* ===== verification/Api_Types.thy ===== *)
theory Api_Types
  imports K8s_Objects
begin

text \<open>
  The custom resources of the operator, \<open>api/v1alpha1/cassandracluster_types.go\<close>: one record per Go
  struct, one field per Go field. Pointers are options (\<open>nil\<close> is \<open>None\<close>), \<open>int32\<close> and \<open>int64\<close> are
  integers (every value the operator computes from them is smaller than the value it started from,
  see the component theories), maps are partial functions.
  A value of a Kubernetes type that the operator copies without looking inside (tolerations,
  affinity, resource requirements, volume claims) is a \<open>k8s_value\<close>, its serialised form.
  Also here: the parts of the Kubernetes objects (pods, nodes, stateful sets, configmaps, secrets)
  that the operator reads or writes.
\<close>

section \<open>CassandraCluster\<close>

record serviceMonitor =
  sm_enabled :: bool
  sm_namespace :: string
  sm_labels :: strmap
  sm_scrapeInterval :: string

record monitoring =
  mon_enabled :: bool
  mon_agent :: string
  mon_serviceMonitor :: serviceMonitor

record dc =
  dc_name :: string
  dc_replicas :: "int option"
  dc_affinity :: "k8s_value option"
  dc_tolerations :: "k8s_value list"

record persistence =
  pst_enabled :: bool
  pst_commitLogVolume :: bool
  pst_labels :: strmap
  pst_annotations :: strmap
  pst_dataVolumeClaimSpec :: persistentVolumeClaimSpec
  pst_commitLogVolumeClaimSpec :: persistentVolumeClaimSpec

record cassandra =
  cas_image :: string
  cas_imagePullPolicy :: string
  cas_resources :: k8s_value
  cas_logLevel :: string
  cas_numSeeds :: int
  cas_terminationGracePeriodSeconds :: "int option"
  cas_purgeGossip :: "bool option"
  cas_persistence :: persistence
  cas_zonesAsRacks :: bool
  cas_jvmOptions :: "string list"
  cas_sysctls :: "strmap option"
  cas_monitoring :: monitoring
  cas_configOverrides :: string

record icarusSpec =
  ica_image :: string
  ica_imagePullPolicy :: string
  ica_resources :: k8s_value

record jolokiaSpec =
  jol_image :: string
  jol_imagePullPolicy :: string
  jol_resources :: k8s_value

record proberSpec =
  prb_image :: string
  prb_imagePullPolicy :: string
  prb_resources :: k8s_value
  prb_logLevel :: string
  prb_logFormat :: string
  prb_jolokia :: jolokiaSpec
  prb_serviceMonitor :: serviceMonitor
  prb_tolerations :: "k8s_value list"
  prb_nodeSelector :: strmap
  prb_affinity :: "k8s_value option"

record repairSchedule =
  rs_keyspace :: string
  rs_tables :: "string list"
  rs_segmentCountPerNode :: int
  rs_repairParallelism :: string
  rs_intensity :: string
  rs_incrementalRepair :: bool
  rs_scheduleDaysBetween :: int
  rs_scheduleTriggerTime :: string
  rs_nodes :: "string list"
  rs_datacenters :: "string list"
  rs_blacklistedTables :: "string list"
  rs_repairThreadCount :: int

text \<open>The list of repairs is an option: the validating webhook tells a nil slice from an empty one.\<close>

record repairSchedules =
  rss_enabled :: bool
  rss_repairs :: "repairSchedule list option"

record autoScheduling =
  as_enabled :: bool
  as_initialDelayPeriod :: string
  as_periodBetweenPolls :: string
  as_timeBeforeFirstSchedule :: string
  as_scheduleSpreadPeriod :: string
  as_excludedKeyspaces :: "string list"

record reaper =
  rea_image :: string
  rea_imagePullPolicy :: string
  rea_keyspace :: string
  rea_tolerations :: "k8s_value list"
  rea_nodeSelector :: strmap
  rea_hangingRepairTimeoutMins :: int
  rea_incrementalRepair :: bool
  rea_repairIntensity :: string
  rea_repairManagerSchedulingIntervalSeconds :: int
  rea_blacklistTWCS :: bool
  rea_resources :: k8s_value
  rea_serviceMonitor :: serviceMonitor
  rea_repairSchedules :: repairSchedules
  rea_autoScheduling :: autoScheduling
  rea_repairParallelism :: string
  rea_repairRunThreads :: int
  rea_repairThreadCount :: int
  rea_segmentCountPerNode :: int
  rea_maxParallelRepairs :: int

record hostPort =
  hp_enabled :: bool
  hp_useExternalHostIP :: bool
  hp_ports :: "string list"

record caTLSSecret =
  ca_name :: string
  ca_fileKey :: string
  ca_crtFileKey :: string

record nodeTLSSecret =
  node_name :: string
  node_fileKey :: string
  node_crtFileKey :: string
  node_caCrtFileKey :: string
  node_keystoreFileKey :: string
  node_keystorePasswordKey :: string
  node_truststoreFileKey :: string
  node_truststorePasswordKey :: string
  node_generateKeystorePassword :: string

record serverEncryption =
  se_internodeEncryption :: string
  se_caTLSSecret :: caTLSSecret
  se_nodeTLSSecret :: nodeTLSSecret
  se_requireEndpointVerification :: bool
  se_requireClientAuth :: "bool option"
  se_protocol :: string
  se_algorithm :: string
  se_storeType :: string
  se_cipherSuites :: "string list"

record clientEncryption =
  ce_enabled :: bool
  ce_optional :: bool
  ce_caTLSSecret :: caTLSSecret
  ce_nodeTLSSecret :: nodeTLSSecret
  ce_requireClientAuth :: "bool option"
  ce_protocol :: string
  ce_algorithm :: string
  ce_storeType :: string
  ce_cipherSuites :: "string list"

record encryption =
  enc_server :: serverEncryption
  enc_client :: clientEncryption

record managedRegion =
  mr_domain :: string
  mr_namespace :: string

record systemKeyspaceDC =
  skdc_name :: string
  skdc_rf :: int

record unmanagedRegion =
  ur_seeds :: "string list"
  ur_dcs :: "systemKeyspaceDC list"

text \<open>\<open>validateIngress\<close> tells a nil list of managed regions from an empty one, so it is an option.\<close>

record externalRegions =
  er_managed :: "managedRegion list option"
  er_unmanaged :: "unmanagedRegion list"

text \<open>\<open>type PodName string\<close>: a string type of its own, ordered as its string.\<close>

datatype podName = PodName (podString: string)

instantiation podName :: linorder
begin

definition less_eq_podName :: "podName \<Rightarrow> podName \<Rightarrow> bool" where
  "less_eq_podName p q \<longleftrightarrow> podString p \<le> podString q"

definition less_podName :: "podName \<Rightarrow> podName \<Rightarrow> bool" where
  "less_podName p q \<longleftrightarrow> podString p < podString q"

instance
  by standard
    (auto simp: less_eq_podName_def less_podName_def podName.expand)

end

record maintenance =
  mnt_dc :: string
  mnt_pods :: "podName list"

text \<open>The two lists are options: the code tests them against nil.\<close>

record systemKeyspaces =
  sk_keyspaces :: "string list"
  sk_dcs :: "systemKeyspaceDC list option"

record ingress =
  ing_domain :: string
  ing_secret :: string
  ing_annotations :: strmap
  ing_ingressClassName :: "string option"

record networkPolicyRule =
  npr_podSelector :: "k8s_value option"
  npr_namespaceSelector :: "k8s_value option"
  npr_ports :: "int list"

record networkPolicies =
  np_enabled :: bool
  np_allowReaperNodeIPs :: "bool option"
  np_extraIngressRules :: "networkPolicyRule list option"
  np_extraPrometheusRules :: "networkPolicyRule list option"
  np_extraCassandraRules :: "networkPolicyRule list"
  np_extraCassandraIPs :: "string list"

record clusterSpec =
  spec_dcs :: "dc list"
  imagePullSecretName :: string
  cqlConfigMapLabelKey :: string
  cassandraSpec :: "cassandra option"
  adminRoleSecretName :: string
  rolesSecretName :: string
  topologySpreadByZone :: "bool option"
  maintenanceSpec :: "maintenance list"
  systemKeyspacesSpec :: systemKeyspaces
  ingressSpec :: ingress
  externalRegionsSpec :: externalRegions
  icarusOf :: icarusSpec
  proberOf :: proberSpec
  reaperSpec :: "reaper option"
  hostPortSpec :: hostPort
  jmxAuth :: string
  encryptionSpec :: encryption
  networkPoliciesSpec :: networkPolicies

record clusterStatus =
  maintenanceState :: "maintenance list"
  st_ready :: bool

record cassandraCluster =
  cc_name :: string
  cc_namespace :: string
  cc_labels :: strmap
  cc_spec :: clusterSpec
  cc_status :: clusterStatus

text \<open>Ranging over a nil slice is ranging over the empty one.\<close>

definition slice :: "'a list option \<Rightarrow> 'a list" where
  "slice xs = (case xs of None \<Rightarrow> [] | Some ys \<Rightarrow> ys)"

lemma slice_simps [simp]: "slice None = []" "slice (Some xs) = xs"
  by (simp_all add: slice_def)

definition managedRegions :: "cassandraCluster \<Rightarrow> managedRegion list" where
  "managedRegions cc = slice (er_managed (externalRegionsSpec (cc_spec cc)))"

definition unmanagedRegions :: "cassandraCluster \<Rightarrow> unmanagedRegion list" where
  "unmanagedRegions cc = er_unmanaged (externalRegionsSpec (cc_spec cc))"

section \<open>Constants\<close>

definition ClusterInstanceLabel :: string where
  "ClusterInstanceLabel = ''cassandra-cluster-instance''"
definition ClusterComponentLabel :: string where
  "ClusterComponentLabel = ''cassandra-cluster-component''"
definition ClusterDCLabel :: string where
  "ClusterDCLabel = ''cassandra-cluster-dc''"
definition ClusterChecksumLabel :: string where
  "ClusterChecksumLabel = ''cassandra-cluster-checksum''"
definition ClusterSeedLabel :: string where
  "ClusterSeedLabel = ''cassandra-cluster-seed''"

definition ComponentProber :: string where "ComponentProber = ''prober''"
definition ComponentReaper :: string where "ComponentReaper = ''reaper''"
definition ComponentCassandra :: string where "ComponentCassandra = ''cassandra''"
definition ComponentNetworkPolicy :: string where "ComponentNetworkPolicy = ''network-policy''"

definition DefaultRole :: string where "DefaultRole = ''cassandra''"
definition DefaultPassword :: string where "DefaultPassword = ''cassandra''"
definition OperatorAdminRole :: string where "OperatorAdminRole = ''admin-role''"
definition OperatorAdminPassword :: string where "OperatorAdminPassword = ''admin-password''"

definition CassandraAgentTlp :: string where "CassandraAgentTlp = ''tlp''"
definition CassandraAgentInstaclustr :: string where "CassandraAgentInstaclustr = ''instaclustr''"
definition CassandraAgentDatastax :: string where "CassandraAgentDatastax = ''datastax''"

definition ProberContainerPort :: int where "ProberContainerPort = 8888"
definition ReaperAppPort :: int where "ReaperAppPort = 8080"
definition IntraPort :: int where "IntraPort = 7000"
definition TlsPort :: int where "TlsPort = 7001"
definition JmxPort :: int where "JmxPort = 7199"
definition TlpPort :: int where "TlpPort = 8090"
definition CqlPort :: int where "CqlPort = 9042"
definition DatastaxPort :: int where "DatastaxPort = 9103"
definition InstaclustrPort :: int where "InstaclustrPort = 9500"
definition IcarusPort :: int where "IcarusPort = 4567"

definition InternodeEncryptionNone :: string where "InternodeEncryptionNone = ''none''"

definition CassandraOperatorPodLabels :: strmap where
  "CassandraOperatorPodLabels = [''operator'' \<mapsto> ''cassandra-operator'']"

lemma label_keys_distinct:
  "distinct [ClusterInstanceLabel, ClusterComponentLabel, ClusterDCLabel, ClusterChecksumLabel,
     ClusterSeedLabel]"
  by (simp add: ClusterInstanceLabel_def ClusterComponentLabel_def ClusterDCLabel_def
      ClusterChecksumLabel_def ClusterSeedLabel_def)

section \<open>Kubernetes objects\<close>

record containerStatus =
  cst_name :: string
  cst_ready :: bool
  cst_running :: bool

record pod =
  pod_name :: string
  pod_uid :: string
  pod_namespace :: string
  pod_labels :: strmap
  pod_nodeName :: string
  pod_podIP :: string
  pod_hostIP :: string
  pod_phase :: string
  pod_containerStatuses :: "containerStatus list"
  pod_initContainerStatuses :: "containerStatus list"

datatype addressType = NodeExternalIP | NodeInternalIP | NodeHostName

record k8sNode =
  nd_name :: string
  nd_labels :: strmap
  nd_addresses :: "(addressType \<times> string) list"

record statefulSet =
  sts_name :: string
  sts_labels :: strmap
  sts_namespace :: string
  sts_annotations :: "strmap option"
  sts_ownerReferences :: "string list"
  sts_replicas :: "int option"
  sts_spec :: stsSpec
  sts_readyReplicas :: int

record configMap =
  cm_name :: string
  cm_namespace :: string
  cm_labels :: strmap
  cm_annotations :: "strmap option"
  cm_ownerReferences :: "string list"
  cm_data :: "strmap option"

record secret =
  sec_name :: string
  sec_namespace :: string
  sec_labels :: strmap
  sec_annotations :: "strmap option"
  sec_ownerReferences :: "string list"
  sec_data :: "strmap option"

text \<open>
  Network policies. A selector is built from labels by the code or copied from the specification; a peer selects
  pods and namespaces or is a block of addresses. The policy type is always \<open>Ingress\<close> and the protocol TCP.
  The nil and the empty list of peers serialise alike and mean the same to Kubernetes.
\<close>

datatype selector = MatchLabels strmap | UserSelector k8s_value

datatype policyPeer = SelectorPeer "selector option" "selector option" | IPBlock string

record ingressRule =
  ir_ports :: "int list"
  ir_from :: "policyPeer list"

record networkPolicy =
  nwp_name :: string
  nwp_namespace :: string
  nwp_labels :: strmap
  nwp_annotations :: "strmap option"
  nwp_ownerReferences :: "string list"
  nwp_podSelector :: strmap
  nwp_ingress :: "ingressRule list"

text \<open>The DC label of a pod, with Go's zero value for an absent key.\<close>

definition podDC :: "pod \<Rightarrow> string" where
  "podDC p = mget (pod_labels p) ClusterDCLabel"

definition stsDC :: "statefulSet \<Rightarrow> string" where
  "stsDC s = mget (sts_labels s) ClusterDCLabel"

text \<open>The key of an object: its namespace and its name.\<close>

type_synonym key = "string \<times> string"

end
