(* ===== verification/Names.thy ===== *)
theory Names
  imports Api_Types
begin

text \<open>
  Names of the objects the operator owns (\<open>controllers/names/names.go\<close>), their labels
  (\<open>controllers/labels/labels.go\<close>) and the helpers of \<open>controllers/util/utils.go\<close>.
  The lemmas say when two names are equal, that component labels win over inherited ones, and
  what the helpers compute as sets and maps.
\<close>

section \<open>Names\<close>

definition cassandraOperator :: string where "cassandraOperator = ''cassandra-operator''"

definition ProberService :: "string \<Rightarrow> string" where
  "ProberService c = c @ ''-cassandra-prober''"
definition ProberDeployment :: "string \<Rightarrow> string" where
  "ProberDeployment c = c @ ''-cassandra-prober''"
definition ProberRole :: "string \<Rightarrow> string" where
  "ProberRole c = c @ ''-cassandra-prober-role''"
definition ProberRoleBinding :: "string \<Rightarrow> string" where
  "ProberRoleBinding c = c @ ''-cassandra-prober-rolebinding''"
definition ProberServiceAccount :: "string \<Rightarrow> string" where
  "ProberServiceAccount c = c @ ''-cassandra-prober-serviceaccount''"
definition ProberIngress :: "string \<Rightarrow> string" where
  "ProberIngress c = c @ ''-cassandra-prober''"

definition proberIngressSubdomain :: "string \<Rightarrow> string \<Rightarrow> string" where
  "proberIngressSubdomain c namespace = namespace @ ''-'' @ ProberService c"

definition ProberIngressHost :: "string \<Rightarrow> string \<Rightarrow> string \<Rightarrow> string" where
  "ProberIngressHost c namespace domain = proberIngressSubdomain c namespace @ ''.'' @ domain"

definition ProberIngressDomain :: "cassandraCluster \<Rightarrow> managedRegion \<Rightarrow> string" where
  "ProberIngressDomain cc region =
     (let namespace = (if length (mr_namespace region) \<noteq> 0 then mr_namespace region
                       else cc_namespace cc)
      in ProberIngressHost (cc_name cc) namespace (mr_domain region))"

definition DC :: "string \<Rightarrow> string \<Rightarrow> string" where
  "DC c dcName = c @ ''-cassandra-'' @ dcName"
definition DCService :: "string \<Rightarrow> string \<Rightarrow> string" where
  "DCService c dcName = DC c dcName"
definition ReaperDeployment :: "string \<Rightarrow> string \<Rightarrow> string" where
  "ReaperDeployment c dcName = DC c dcName @ ''-reaper''"
definition ReaperService :: "string \<Rightarrow> string" where
  "ReaperService c = c @ ''-reaper''"
definition ShiroConfigMap :: "string \<Rightarrow> string" where
  "ShiroConfigMap c = c @ ''-shiro-configmap''"
definition PrometheusConfigMap :: "string \<Rightarrow> string" where
  "PrometheusConfigMap c = c @ ''-prometheus-configmap''"
definition CollectdConfigMap :: "string \<Rightarrow> string" where
  "CollectdConfigMap c = c @ ''-collectd-configmap''"
definition MaintenanceConfigMap :: "string \<Rightarrow> string" where
  "MaintenanceConfigMap c = c @ ''-maintenance-configmap''"
definition ConfigMapName :: "string \<Rightarrow> string" where
  "ConfigMapName c = c @ ''-cassandra-config''"
definition PodsConfigConfigmap :: "string \<Rightarrow> string" where
  "PodsConfigConfigmap c = c @ ''-pods-config''"
definition ActiveAdminSecret :: "string \<Rightarrow> string" where
  "ActiveAdminSecret c = c @ ''-auth-active-admin''"
definition AdminAuthConfigSecret :: "string \<Rightarrow> string" where
  "AdminAuthConfigSecret c = c @ ''-auth-config-admin''"
definition PodIPsConfigMap :: "string \<Rightarrow> string" where
  "PodIPsConfigMap c = c @ ''-pod-ips''"
definition OperatorCollectdCM :: string where
  "OperatorCollectdCM = cassandraOperator @ ''-collectd-configmap''"
definition OperatorCassandraConfigCM :: string where
  "OperatorCassandraConfigCM = cassandraOperator @ ''-cassandra-init-config''"
definition OperatorPrometheusCM :: string where
  "OperatorPrometheusCM = cassandraOperator @ ''-prometheus-configmap''"
definition OperatorShiroCM :: string where
  "OperatorShiroCM = cassandraOperator @ ''-shiro-configmap''"
definition ValidatingWebhookName :: string where
  "ValidatingWebhookName = cassandraOperator @ ''-cassandracluster-validation''"
definition WebhooksServiceName :: string where
  "WebhooksServiceName = cassandraOperator @ ''-webhooks''"
definition CassandraClusterTLSCA :: "string \<Rightarrow> string" where
  "CassandraClusterTLSCA c = c @ ''-cluster-tls-ca''"
definition CassandraClusterTLSNode :: "string \<Rightarrow> string" where
  "CassandraClusterTLSNode c = c @ ''-cluster-tls-node''"
definition CassandraClientTLSCA :: "string \<Rightarrow> string" where
  "CassandraClientTLSCA c = c @ ''-client-tls-ca''"
definition CassandraClientTLSNode :: "string \<Rightarrow> string" where
  "CassandraClientTLSNode c = c @ ''-client-tls-node''"
definition CassandraRole :: "string \<Rightarrow> string" where
  "CassandraRole c = c @ ''-cassandra-role''"
definition CassandraRoleBinding :: "string \<Rightarrow> string" where
  "CassandraRoleBinding c = c @ ''-cassandra-rolebinding''"
definition CassandraServiceAccount :: "string \<Rightarrow> string" where
  "CassandraServiceAccount c = c @ ''-cassandra-serviceaccount''"
definition CassandraClusterNetworkPolicyName :: "string \<Rightarrow> string" where
  "CassandraClusterNetworkPolicyName c = c @ ''-cassandra-cluster-policies''"
definition CassandraHostPortPolicyName :: "string \<Rightarrow> string" where
  "CassandraHostPortPolicyName c = c @ ''-cassandra-hostport-policies''"
definition CassandraExternalManagedRegionsPolicyName :: "string \<Rightarrow> string" where
  "CassandraExternalManagedRegionsPolicyName c = c @ ''-cassandra-ext-managed-regions-policies''"
definition CassandraHostPortReaperPolicyName :: "string \<Rightarrow> string" where
  "CassandraHostPortReaperPolicyName c = c @ ''-cassandra-hostport-reaper-policies''"
definition CassandraExtraRulesPolicyName :: "string \<Rightarrow> string" where
  "CassandraExtraRulesPolicyName c = c @ ''-cassandra-extra-rules-policies''"
definition CassandraExtraPrometheusRulesPolicyName :: "string \<Rightarrow> string" where
  "CassandraExtraPrometheusRulesPolicyName c = c @ ''-cassandra-prometheus-rules-policies''"
definition CassandraExtraIpsPolicyName :: "string \<Rightarrow> string" where
  "CassandraExtraIpsPolicyName c = c @ ''-cassandra-extra-ips-policies''"
definition ProberNetworkPolicyName :: "string \<Rightarrow> string" where
  "ProberNetworkPolicyName c = c @ ''-prober-policies''"
definition ReaperNetworkPolicyName :: "string \<Rightarrow> string" where
  "ReaperNetworkPolicyName c = c @ ''-reaper-policies''"

lemmas policy_name_defs =
  CassandraClusterNetworkPolicyName_def CassandraHostPortPolicyName_def
  CassandraExternalManagedRegionsPolicyName_def CassandraHostPortReaperPolicyName_def
  CassandraExtraRulesPolicyName_def CassandraExtraPrometheusRulesPolicyName_def
  CassandraExtraIpsPolicyName_def ProberNetworkPolicyName_def ReaperNetworkPolicyName_def

text \<open>The name of the pod with ordinal \<open>i\<close> of a stateful set, \<open>fmt.Sprintf("%s-%d", sts, i)\<close>.\<close>

definition ordinalName :: "string \<Rightarrow> int \<Rightarrow> string" where
  "ordinalName s i = s @ ''-'' @ itoa i"

lemma DC_inj [simp]: "DC c d = DC c e \<longleftrightarrow> d = e"
  by (simp add: DC_def)

lemma ordinalName_inj: "0 \<le> i \<Longrightarrow> 0 \<le> j \<Longrightarrow> ordinalName s i = ordinalName s j \<longleftrightarrow> i = j"
  using itoa_of_nat_inj [of "nat i" "nat j"] by (auto simp: ordinalName_def)

section \<open>Labels\<close>

definition ComponentLabels :: "cassandraCluster \<Rightarrow> string \<Rightarrow> strmap" where
  "ComponentLabels cc cname =
     [ClusterInstanceLabel \<mapsto> cc_name cc, ClusterComponentLabel \<mapsto> cname]"

definition InheritLabels :: "cassandraCluster \<Rightarrow> strmap" where
  "InheritLabels cc = cc_labels cc"

definition CombinedComponentLabels :: "cassandraCluster \<Rightarrow> string \<Rightarrow> strmap" where
  "CombinedComponentLabels cc cname = InheritLabels cc ++ ComponentLabels cc cname"

definition WithDCLabel :: "strmap \<Rightarrow> string \<Rightarrow> strmap" where
  "WithDCLabel ls dcName = ls(ClusterDCLabel \<mapsto> dcName)"

definition CassandraLabels :: "cassandraCluster \<Rightarrow> strmap" where
  "CassandraLabels cc = ComponentLabels cc ComponentCassandra"
definition ProberLabels :: "cassandraCluster \<Rightarrow> strmap" where
  "ProberLabels cc = ComponentLabels cc ComponentProber"
definition ReaperLabels :: "cassandraCluster \<Rightarrow> strmap" where
  "ReaperLabels cc = ComponentLabels cc ComponentReaper"

text \<open>A selector \<open>MatchingLabels(sel)\<close> selects an object that carries every pair of it.\<close>

definition matches :: "strmap \<Rightarrow> strmap \<Rightarrow> bool" where
  "matches sel ls \<longleftrightarrow> sel \<subseteq>\<^sub>m ls"

lemma combined_matches_component: "matches (ComponentLabels cc cname) (CombinedComponentLabels cc cname)"
  by (auto simp: matches_def CombinedComponentLabels_def map_le_def map_add_dom_app_simps)

lemma component_matches_iff:
  "matches (ComponentLabels cc cname) ls \<longleftrightarrow>
     ls ClusterInstanceLabel = Some (cc_name cc) \<and> ls ClusterComponentLabel = Some cname"
  by (auto simp: matches_def ComponentLabels_def map_le_def ClusterInstanceLabel_def
      ClusterComponentLabel_def)

section \<open>Utilities\<close>

text \<open>\<open>util.MergeMap\<close>: the second map wins; nil only if both are nil.\<close>

definition MergeMap :: "strmap option \<Rightarrow> strmap option \<Rightarrow> strmap option" where
  "MergeMap a b =
     (if a = None \<and> b = None then None
      else Some ((case a of None \<Rightarrow> Map.empty | Some m \<Rightarrow> m) ++
                 (case b of None \<Rightarrow> Map.empty | Some m \<Rightarrow> m)))"

fun Contains :: "string list \<Rightarrow> string \<Rightarrow> bool" where
  "Contains [] str = False"
| "Contains (v # s) str = (if v = str then True else Contains s str)"

fun GetNodeIP :: "addressType \<Rightarrow> (addressType \<times> string) list \<Rightarrow> string" where
  "GetNodeIP ty [] = ''''"
| "GetNodeIP ty ((t, addr) # as) = (if t = ty then addr else GetNodeIP ty as)"

definition EmptySecretFields :: "secret \<Rightarrow> string list \<Rightarrow> string list" where
  "EmptySecretFields s fieldNames =
     (case sec_data s of None \<Rightarrow> fieldNames
      | Some d \<Rightarrow> filter (\<lambda>f. length (mget d f) = 0) fieldNames)"

text \<open>\<open>util.Uniq\<close>: the loop carries the set of strings already in the result.\<close>

fun uniqLoop :: "string set \<Rightarrow> string list \<Rightarrow> string list" where
  "uniqLoop seen [] = []"
| "uniqLoop seen (s # ss) = (if s \<in> seen then uniqLoop seen ss else s # uniqLoop (insert s seen) ss)"

definition Uniq :: "string list \<Rightarrow> string list" where
  "Uniq s = uniqLoop {} s"

lemma Contains_iff [simp]: "Contains s x \<longleftrightarrow> x \<in> set s"
  by (induction s) auto

lemma MergeMap_None_left [simp]: "MergeMap None b = b"
  by (cases b) (auto simp: MergeMap_def)

lemma MergeMap_None_right [simp]: "MergeMap a None = a"
  by (cases a) (auto simp: MergeMap_def)

lemma MergeMap_Some [simp]: "MergeMap (Some a) (Some b) = Some (a ++ b)"
  by (simp add: MergeMap_def)

lemma map_add_self: "m ++ m = m"
  by (auto simp: map_add_def fun_eq_iff split: option.splits)

lemma MergeMap_absorb: "MergeMap (MergeMap a b) b = MergeMap a b"
  by (cases a; cases b) (auto simp: map_add_def fun_eq_iff split: option.splits)

lemma uniqLoop_set: "set (uniqLoop seen ss) = set ss - seen"
  by (induction ss arbitrary: seen) auto

lemma uniqLoop_distinct: "distinct (uniqLoop seen ss)"
  by (induction ss arbitrary: seen) (auto simp: uniqLoop_set)

lemma set_Uniq [simp]: "set (Uniq s) = set s"
  by (simp add: Uniq_def uniqLoop_set)

lemma distinct_Uniq [simp]: "distinct (Uniq s)"
  by (simp add: Uniq_def uniqLoop_distinct)

lemma sort_Uniq_cong: "set s = set t \<Longrightarrow> sort (Uniq s) = sort (Uniq t)"
  by (metis distinct_Uniq set_Uniq sorted_list_of_set_sort_remdups distinct_remdups_id)

lemma GetNodeIP_in: "GetNodeIP ty as \<noteq> '''' \<Longrightarrow> (ty, GetNodeIP ty as) \<in> set as"
  by (induction ty as rule: GetNodeIP.induct) auto

end
