(* ===== verification/Prober.thy ===== *)
theory Prober
  imports Names
begin

text \<open>
  The prober, the HTTP service that runs beside each Cassandra datacentre (\<open>prober/prober\<close>) and its
  Jolokia client (\<open>prober/jolokia\<close>).
  State: \<open>proberState\<close> is the Go struct \<open>state\<close>; \<open>proberServer\<close> adds the credentials the server
  accepts, those it presents to Jolokia, and the request counters.
  Operations: one function per HTTP handler, \<open>dispatch\<close> for the route table, \<open>updateNodeStates\<close> for
  one tick of the polling loop, and the two secret watchers.
  A Go map is a partial function. Where the code ranges over a map, the order in which the run time
  visits its keys is a list argument, constrained by \<open>ranges\<close>.
  Parameters: the HTTP answer of Jolokia and the JSON codec (record \<open>codec\<close>).
\<close>

section \<open>State\<close>

record endpointState =
  es_status :: string
  es_dc :: string
  es_rack :: string
  es_internalIP :: string
  es_rpcAddress :: string

definition noEndpoint :: endpointState where
  "noEndpoint = \<lparr>es_status = '''', es_dc = '''', es_rack = '''', es_internalIP = '''',
     es_rpcAddress = ''''\<rparr>"

record nodeState =
  simpleStates :: strmap
  endpointOf :: endpointState

definition emptyNode :: nodeState where
  "emptyNode = \<lparr>simpleStates = Map.empty, endpointOf = noEndpoint\<rparr>"

record proberDC =
  pdc_name :: string
  pdc_replicas :: int

record proberState =
  ps_seeds :: "string list"
  ps_regionReady :: bool
  ps_reaperReady :: bool
  ps_dcs :: "proberDC list"
  ps_nodes :: "string \<rightharpoonup> nodeState"
  ps_podIPs :: "string \<rightharpoonup> string"
  ps_regionIPs :: "string list"
  ps_reaperIPs :: "string list"

record proberServer =
  authUser :: string
  authPassword :: string
  jolokiaUser :: string
  jolokiaPassword :: string
  pstate :: proberState
  totalRequests :: "string \<times> string \<Rightarrow> nat"

definition NewProber :: "string \<Rightarrow> string \<Rightarrow> string \<Rightarrow> string \<Rightarrow> proberServer" where
  "NewProber user password jUser jPassword =
     \<lparr>authUser = user, authPassword = password, jolokiaUser = jUser, jolokiaPassword = jPassword,
      pstate = \<lparr>ps_seeds = [], ps_regionReady = False, ps_reaperReady = False, ps_dcs = [], ps_nodes = Map.empty,
            ps_podIPs = Map.empty, ps_regionIPs = [], ps_reaperIPs = []\<rparr>,
      totalRequests = (\<lambda>_. 0)\<rparr>"

section \<open>Readiness of a node\<close>

definition isUp :: "strmap \<Rightarrow> string \<Rightarrow> bool" where
  "isUp states ip \<longleftrightarrow> toLower (mget states ip) = ''up''"

text \<open>One iteration of the loop of \<open>isNodeReady\<close>; the local variables are the three it fills.\<close>

definition viewStep ::
  "string \<Rightarrow> string \<Rightarrow> nodeState \<Rightarrow> string list \<times> string list \<times> strmap \<Rightarrow>
     string list \<times> string list \<times> strmap" where
  "viewStep ip peer n = (\<lambda>(unready, ignored, view).
     let view' = view(peer \<mapsto> (case simpleStates n ip of None \<Rightarrow> ''?'' | Some s \<Rightarrow> s)) in
     if toLower (es_status (endpointOf n)) \<noteq> ''normal'' \<or> \<not> isUp (simpleStates n) peer
     then (unready, ignored @ [peer], view')
     else if \<not> isUp (simpleStates n) ip then (unready @ [peer], ignored, view')
     else (unready, ignored, view'))"

fun viewLoop ::
  "(string \<rightharpoonup> nodeState) \<Rightarrow> string \<Rightarrow> string list \<Rightarrow> string list \<times> string list \<times> strmap \<Rightarrow>
     string list \<times> string list \<times> strmap" where
  "viewLoop ns ip [] acc = acc"
| "viewLoop ns ip (k # ks) acc =
     viewLoop ns ip ks (case ns k of None \<Rightarrow> acc | Some n \<Rightarrow> viewStep ip k n acc)"

definition isNodeReady :: "string list \<Rightarrow> (string \<rightharpoonup> nodeState) \<Rightarrow> string \<Rightarrow> bool \<times> strmap" where
  "isNodeReady ks ns ip =
     (case viewLoop ns ip ks ([], [], Map.empty) of (unready, ignored, view) \<Rightarrow>
        if length ignored = length ks then (False, view)
        else if length unready > 0 then (False, view)
        else (True, view))"

definition registerNode :: "string \<Rightarrow> string \<Rightarrow> proberState \<Rightarrow> proberState" where
  "registerNode podIP bip s =
     (if ps_nodes s bip = None
      then s\<lparr>ps_nodes := (ps_nodes s)(bip \<mapsto> emptyNode), ps_podIPs := (ps_podIPs s)(bip \<mapsto> ''/'' @ podIP)\<rparr>
      else s)"

definition processReadinessProbe ::
  "string list \<Rightarrow> string \<Rightarrow> string \<Rightarrow> proberState \<Rightarrow> (bool \<times> strmap) \<times> proberState" where
  "processReadinessProbe ks podIP broadcastIP s =
     (let bip = ''/'' @ broadcastIP; s' = registerNode podIP bip s
      in (isNodeReady ks (ps_nodes s') bip, s'))"

subsection \<open>What readiness means\<close>

text \<open>
  The specification reads the reports of the nodes letter by letter and does not mention the code's comparison: a value
  spells a word of lower-case letters when each of its letters is that letter or its capital, 32 code points below it.
\<close>

definition spells :: "string \<Rightarrow> string \<Rightarrow> bool" where
  "spells v word \<longleftrightarrow> list_all2 (\<lambda>a l. a = l \<or> of_char a + 32 = (of_char l :: nat)) v word"

definition reportsUp :: "nodeState \<Rightarrow> string \<Rightarrow> bool" where
  "reportsUp n ip \<longleftrightarrow> (\<exists>v. simpleStates n ip = Some v \<and> spells v ''up'')"

definition healthyPeer :: "(string \<rightharpoonup> nodeState) \<Rightarrow> string \<Rightarrow> bool" where
  "healthyPeer ns p \<longleftrightarrow> (\<exists>n. ns p = Some n \<and> spells (es_status (endpointOf n)) ''normal'' \<and> reportsUp n p)"

definition seesUp :: "(string \<rightharpoonup> nodeState) \<Rightarrow> string \<Rightarrow> string \<Rightarrow> bool" where
  "seesUp ns p ip \<longleftrightarrow> (\<exists>n. ns p = Some n \<and> reportsUp n ip)"

lemma toLowerChar_iff:
  assumes "97 \<le> (of_char l :: nat)" "(of_char l :: nat) \<le> 122"
  shows "toLowerChar c = l \<longleftrightarrow> c = l \<or> of_char c + 32 = (of_char l :: nat)"
proof (cases "65 \<le> (of_char c :: nat) \<and> (of_char c :: nat) \<le> 90")
  case True
  then have "toLowerChar c = char_of (of_char c + 32 :: nat)" by (simp add: toLowerChar_def Let_def)
  moreover have "char_of (of_char c + 32 :: nat) = l \<longleftrightarrow> of_char c + 32 = (of_char l :: nat)"
    using True by (simp add: char_of_eq_iff take_bit_eq_mod)
  ultimately show ?thesis using True assms by auto
qed (use assms in \<open>auto simp: toLowerChar_def Let_def\<close>)

lemma toLower_spells:
  "\<forall>l \<in> set word. 97 \<le> (of_char l :: nat) \<and> (of_char l :: nat) \<le> 122 \<Longrightarrow> toLower v = word \<longleftrightarrow> spells v word"
proof (induction v arbitrary: word)
  case (Cons c v)
  then show ?case by (cases word) (auto simp: toLower_def spells_def toLowerChar_iff)
qed (auto simp: toLower_def spells_def)

lemma toLower_up: "toLower v = ''up'' \<longleftrightarrow> spells v ''up''"
  by (rule toLower_spells) code_simp

lemma toLower_normal: "toLower v = ''normal'' \<longleftrightarrow> spells v ''normal''"
  by (rule toLower_spells) code_simp

lemma isUp_iff: "isUp (simpleStates n) ip \<longleftrightarrow> reportsUp n ip"
  by (auto simp: isUp_def reportsUp_def toLower_up mget_def spells_def split: option.splits)

lemma viewLoop_lists:
  "set ks \<subseteq> dom ns \<Longrightarrow>
     fst (viewLoop ns ip ks acc) =
       fst acc @ filter (\<lambda>p. healthyPeer ns p \<and> \<not> seesUp ns p ip) ks \<and>
     fst (snd (viewLoop ns ip ks acc)) = fst (snd acc) @ filter (\<lambda>p. \<not> healthyPeer ns p) ks"
proof (induction ks arbitrary: acc)
  case (Cons k ks)
  then obtain n where n: "ns k = Some n" by auto
  obtain u i v where acc: "acc = (u, i, v)" by (cases acc) auto
  from Cons n show ?case
    by (auto simp: acc viewStep_def Let_def healthyPeer_def seesUp_def isUp_iff toLower_normal)
qed simp

lemma viewLoop_view:
  "set ks \<subseteq> dom ns \<Longrightarrow>
     snd (snd (viewLoop ns ip ks acc)) p =
       (if p \<in> set ks
        then map_option (\<lambda>n. case simpleStates n ip of None \<Rightarrow> ''?'' | Some s \<Rightarrow> s) (ns p)
        else snd (snd acc) p)"
proof (induction ks arbitrary: acc)
  case (Cons k ks)
  then obtain n where n: "ns k = Some n" by auto
  obtain u i v where acc: "acc = (u, i, v)" by (cases acc) auto
  from Cons n show ?case
    by (auto simp: acc viewStep_def Let_def)
qed simp

lemma filter_all_length: "length (filter P xs) = length xs \<longleftrightarrow> (\<forall>x \<in> set xs. P x)"
  by (metis filter_id_conv length_filter_less less_irrefl)

lemma isNodeReady_fst:
  assumes "ranges ks ns"
  shows "fst (isNodeReady ks ns ip) \<longleftrightarrow>
     (\<exists>p. healthyPeer ns p) \<and> (\<forall>p. healthyPeer ns p \<longrightarrow> seesUp ns p ip)"
proof -
  have sub: "set ks \<subseteq> dom ns" and dom: "set ks = dom ns"
    using assms by (auto simp: ranges_def)
  have healthy: "healthyPeer ns p \<Longrightarrow> p \<in> set ks" for p
    using dom by (auto simp: healthyPeer_def)
  obtain u i v where r: "viewLoop ns ip ks ([], [], Map.empty) = (u, i, v)"
    by (cases "viewLoop ns ip ks ([], [], Map.empty)") auto
  with viewLoop_lists [OF sub, of ip "([], [], Map.empty)"]
  have "u = filter (\<lambda>p. healthyPeer ns p \<and> \<not> seesUp ns p ip) ks"
    and "i = filter (\<lambda>p. \<not> healthyPeer ns p) ks" by auto
  with r healthy show ?thesis
    by (auto simp: isNodeReady_def filter_all_length filter_empty_conv)
qed

lemma isNodeReady_snd:
  assumes "ranges ks ns"
  shows "snd (isNodeReady ks ns ip) p =
     map_option (\<lambda>n. case simpleStates n ip of None \<Rightarrow> ''?'' | Some s \<Rightarrow> s) (ns p)"
proof -
  have sub: "set ks \<subseteq> dom ns" and dom: "set ks = dom ns"
    using assms by (auto simp: ranges_def)
  show ?thesis
    using viewLoop_view [OF sub, of ip "([], [], Map.empty)" p] dom
    by (auto simp: isNodeReady_def split: prod.splits)
qed

section \<open>The Jolokia client\<close>

record jmxRequest =
  jmx_type :: string
  jmx_mbean :: string
  jmx_attribute :: string
  target_url :: string
  target_user :: string
  target_password :: string

record cassandraResponse =
  cr_status :: int
  cr_error :: string
  cr_simpleStates :: strmap
  cr_allEndpointStates :: "(string \<times> endpointState) list"

text \<open>
  \<open>cr_allEndpointStates\<close> is a Go map listed in the order in which the code ranges over it.
  An answer of the Jolokia agent: a transport error, or the status code, the status line and the
  body, which may fail while it is read.
\<close>

record httpAnswer =
  ans_code :: int
  ans_status :: string
  ans_body :: "go_error + string"

definition jmxUrl :: "string \<Rightarrow> int \<Rightarrow> string" where
  "jmxUrl ip port = ''service:jmx:rmi:///jndi/rmi:/'' @ ip @ '':'' @ itoa port @ ''/jmxrmi''"

definition cassandraNodeStateRequest :: "int \<Rightarrow> string \<Rightarrow> string \<Rightarrow> string \<Rightarrow> jmxRequest" where
  "cassandraNodeStateRequest jmxPort user password ip =
     \<lparr>jmx_type = ''read'', jmx_mbean = ''org.apache.cassandra.net:type=FailureDetector'',
      jmx_attribute = ''SimpleStates,AllEndpointStates'', target_url = jmxUrl ip jmxPort,
      target_user = user, target_password = password\<rparr>"

text \<open>The environment of the Jolokia client: the agent, the JSON decoder and the masking of credentials.\<close>

record 'w jolokiaEnv =
  jl_jmxPort :: int
  jl_post :: "jmxRequest \<Rightarrow> 'w \<Rightarrow> (go_error + httpAnswer) \<times> 'w"
  decodeResponses :: "string \<Rightarrow> go_error + cassandraResponse list"
  maskCredentials :: "string \<Rightarrow> string"

definition CassandraNodeState ::
  "'w jolokiaEnv \<Rightarrow> string \<Rightarrow> string \<Rightarrow> string \<Rightarrow> ('w, jmxRequest, cassandraResponse) act" where
  "CassandraNodeState E user password ip =
     (let req = cassandraNodeStateRequest (jl_jmxPort E) user password ip in
      andThen (call req (jl_post E req)) (\<lambda>ans.
        case ans_body ans of
          Inl e \<Rightarrow> raise e
        | Inr body \<Rightarrow>
            if ans_code ans \<noteq> 200
            then raise (Err (ans_status ans @ '': '' @ maskCredentials E body))
            else case decodeResponses E body of
              Inl e \<Rightarrow> raise e
            | Inr [] \<Rightarrow> raise (Err (''empty response. Raw body: '' @ maskCredentials E body))
            | Inr (r # _) \<Rightarrow> ret r))"

definition SetAuth :: "string \<Rightarrow> string \<Rightarrow> proberServer \<Rightarrow> proberServer" where
  "SetAuth user password p = p\<lparr>jolokiaUser := user, jolokiaPassword := password\<rparr>"

section \<open>Polling the nodes\<close>

definition ownedDC :: "proberDC list \<Rightarrow> string \<Rightarrow> bool" where
  "ownedDC ds d \<longleftrightarrow> (\<exists>x \<in> set ds. pdc_name x = d)"

text \<open>\<open>err.Error()\<close> of the errors that the polling records; only the status code is used later.\<close>

fun errText :: "go_error \<Rightarrow> string" where
  "errText (Err m) = m"
| "errText (Wrap m e) = m @ '': '' @ errText e"
| "errText _ = ''''"

definition pollAnswer :: "go_error + cassandraResponse \<Rightarrow> cassandraResponse" where
  "pollAnswer r =
     (case r of
        Inl e \<Rightarrow> \<lparr>cr_status = 500, cr_error = errText e, cr_simpleStates = Map.empty,
                  cr_allEndpointStates = []\<rparr>
      | Inr resp \<Rightarrow> resp)"

definition pollNode ::
  "'w jolokiaEnv \<Rightarrow> proberServer \<Rightarrow> string \<Rightarrow> ('w, jmxRequest, cassandraResponse) act" where
  "pollNode E p nodeIP =
     CassandraNodeState E (jolokiaUser p) (jolokiaPassword p) (mget (ps_podIPs (pstate p)) nodeIP)"

definition allNodesStates ::
  "'w jolokiaEnv \<Rightarrow> proberServer \<Rightarrow> string list \<Rightarrow>
     ('w, jmxRequest, string \<rightharpoonup> cassandraResponse) act" where
  "allNodesStates E p ks =
     foldAct (\<lambda>nodeIP responses.
        andThen (attempt (pollNode E p nodeIP)) (\<lambda>r. ret (responses(nodeIP \<mapsto> pollAnswer r))))
       ks Map.empty"

fun addPeers ::
  "proberDC list \<Rightarrow> (string \<times> endpointState) list \<Rightarrow> (string \<rightharpoonup> nodeState) \<Rightarrow>
     (string \<rightharpoonup> nodeState)" where
  "addPeers ds [] m = m"
| "addPeers ds ((ip, es) # eps) m =
     addPeers ds eps
       (if m ip = None \<and> ownedDC ds (es_dc es) then m(ip \<mapsto> emptyNode\<lparr>endpointOf := es\<rparr>) else m)"

definition addResponse ::
  "proberDC list \<Rightarrow> string \<Rightarrow> cassandraResponse \<Rightarrow> (string \<rightharpoonup> nodeState) \<Rightarrow>
     (string \<rightharpoonup> nodeState)" where
  "addResponse ds polledIP r m =
     (if cr_status r = 200
      then (addPeers ds (cr_allEndpointStates r) m)
             (polledIP \<mapsto> \<lparr>simpleStates = cr_simpleStates r,
                endpointOf = (case map_of (cr_allEndpointStates r) polledIP of
                   None \<Rightarrow> noEndpoint | Some es \<Rightarrow> es)\<rparr>)
      else m(polledIP \<mapsto> emptyNode\<lparr>simpleStates := [polledIP \<mapsto> itoa (cr_status r)]\<rparr>))"

fun addResponses ::
  "proberDC list \<Rightarrow> (string \<rightharpoonup> cassandraResponse) \<Rightarrow> string list \<Rightarrow> (string \<rightharpoonup> nodeState) \<Rightarrow>
     (string \<rightharpoonup> nodeState)" where
  "addResponses ds rs [] m = m"
| "addResponses ds rs (k # ks) m =
     addResponses ds rs ks (case rs k of None \<Rightarrow> m | Some r \<Rightarrow> addResponse ds k r m)"

definition dropUnreferenced :: "(string \<rightharpoonup> nodeState) \<Rightarrow> (string \<rightharpoonup> nodeState)" where
  "dropUnreferenced m =
     (\<lambda>ip. case m ip of None \<Rightarrow> None
        | Some n \<Rightarrow> if es_dc (endpointOf n) = '''' then None else Some n)"

definition newNodeStates ::
  "proberDC list \<Rightarrow> (string \<rightharpoonup> cassandraResponse) \<Rightarrow> string list \<Rightarrow> (string \<rightharpoonup> nodeState)" where
  "newNodeStates ds rs ks = dropUnreferenced (addResponses ds rs ks Map.empty)"

text \<open>
  \<open>updateNodesRequest\<close>: \<open>ks\<close> is the order of the range over \<open>p.state.nodes\<close> and \<open>ks2\<close> the order of the
  range over the responses. Assigning the new map only when it differs from the old one is assigning it.
\<close>

definition updateNodesRequest ::
  "'w jolokiaEnv \<Rightarrow> string list \<Rightarrow> string list \<Rightarrow> proberServer \<Rightarrow> ('w, jmxRequest, proberServer) act" where
  "updateNodesRequest E ks ks2 p =
     andThen (allNodesStates E p ks) (\<lambda>rs.
       ret (p\<lparr>pstate := (pstate p)\<lparr>ps_nodes := newNodeStates (ps_dcs (pstate p)) rs ks2\<rparr>\<rparr>))"

definition updateNodeStates ::
  "'w jolokiaEnv \<Rightarrow> string list \<Rightarrow> string list \<Rightarrow> proberServer \<Rightarrow> ('w, jmxRequest, proberServer) act" where
  "updateNodeStates E ks ks2 p =
     (if length ks > 0 then updateNodesRequest E ks ks2 p else ret p)"

subsection \<open>Which nodes survive a poll\<close>

lemma addPeers_old: "m ip = Some n \<Longrightarrow> addPeers ds eps m ip = Some n"
  by (induction eps arbitrary: m) (auto, metis fun_upd_other option.distinct(1))

lemma addPeers_new:
  "m ip = None \<Longrightarrow> addPeers ds eps m ip =
     map_option (\<lambda>(_, es). emptyNode\<lparr>endpointOf := es\<rparr>)
       (List.find (\<lambda>(j, es). j = ip \<and> ownedDC ds (es_dc es)) eps)"
  by (induction ds eps m rule: addPeers.induct) (auto simp: addPeers_old)

text \<open>The entry of a node that answered the poll, before the unreferenced nodes are dropped.\<close>

definition polledNode :: "string \<Rightarrow> cassandraResponse \<Rightarrow> nodeState" where
  "polledNode ip r =
     (if cr_status r = 200
      then \<lparr>simpleStates = cr_simpleStates r,
            endpointOf = (case map_of (cr_allEndpointStates r) ip of None \<Rightarrow> noEndpoint | Some es \<Rightarrow> es)\<rparr>
      else emptyNode\<lparr>simpleStates := [ip \<mapsto> itoa (cr_status r)]\<rparr>)"

lemma addResponse_self [simp]: "addResponse ds ip r m ip = Some (polledNode ip r)"
  by (simp add: addResponse_def polledNode_def)

lemma addResponse_old: "k \<noteq> ip \<Longrightarrow> m ip = Some n \<Longrightarrow> addResponse ds k r m ip = Some n"
  by (simp add: addResponse_def addPeers_old)

lemma addResponses_old:
  "ip \<notin> set ks \<Longrightarrow> m ip = Some n \<Longrightarrow> addResponses ds rs ks m ip = Some n"
  by (induction ks arbitrary: m) (auto simp: addResponse_old split: option.splits)

lemma addResponses_polled:
  "distinct ks \<Longrightarrow> ip \<in> set ks \<Longrightarrow> rs ip = Some r \<Longrightarrow>
     addResponses ds rs ks m ip = Some (polledNode ip r)"
  by (induction ks arbitrary: m) (auto simp: addResponses_old)

text \<open>\<open>sponsor ds rs ip k es\<close>: the answer of \<open>k\<close> lists the node \<open>ip\<close> with state \<open>es\<close>, in an owned DC.\<close>

definition sponsor ::
  "proberDC list \<Rightarrow> (string \<rightharpoonup> cassandraResponse) \<Rightarrow> string \<Rightarrow> string \<Rightarrow> endpointState \<Rightarrow> bool" where
  "sponsor ds rs ip k es \<longleftrightarrow>
     (\<exists>r. rs k = Some r \<and> cr_status r = 200 \<and> (ip, es) \<in> set (cr_allEndpointStates r) \<and>
        ownedDC ds (es_dc es))"

lemma find_pair_Some:
  "List.find (\<lambda>(j, es). j = ip \<and> P es) xs = Some (j, es) \<Longrightarrow> j = ip \<and> P es \<and> (ip, es) \<in> set xs"
  by (induction xs) (auto split: if_splits)

lemma find_pair_None:
  "List.find (\<lambda>(j, es). j = ip \<and> P es) xs = None \<longleftrightarrow> (\<forall>es. (ip, es) \<in> set xs \<longrightarrow> \<not> P es)"
  by (auto simp: find_None_iff)

lemma addResponse_peer:
  assumes "ip \<noteq> k" "m ip = None" "rs k = Some r"
  shows "(\<exists>es. sponsor ds rs ip k es \<and> addResponse ds k r m ip = Some (emptyNode\<lparr>endpointOf := es\<rparr>))
    \<or> (\<nexists>es. sponsor ds rs ip k es) \<and> addResponse ds k r m ip = None"
proof (cases "List.find (\<lambda>(j, es). j = ip \<and> ownedDC ds (es_dc es)) (cr_allEndpointStates r)")
  case None
  then have "\<nexists>es. sponsor ds rs ip k es"
    using assms(3) by (auto simp: sponsor_def find_pair_None)
  with None assms show ?thesis
    by (auto simp: addResponse_def addPeers_new)
next
  case (Some x)
  obtain j es where j: "x = (j, es)" by (cases x)
  from find_pair_Some [OF Some [unfolded j]]
  have x: "x = (ip, es)" "ownedDC ds (es_dc es)" "(ip, es) \<in> set (cr_allEndpointStates r)"
    by (auto simp: j)
  show ?thesis
  proof (cases "cr_status r = 200")
    case True
    with Some x assms have "addResponse ds k r m ip = Some (emptyNode\<lparr>endpointOf := es\<rparr>)"
      by (simp add: addResponse_def addPeers_new)
    moreover from True x assms have "sponsor ds rs ip k es"
      by (auto simp: sponsor_def)
    ultimately show ?thesis by blast
  next
    case False
    with assms show ?thesis by (simp add: addResponse_def sponsor_def)
  qed
qed

lemma addResponses_peer:
  "ip \<notin> set ks \<Longrightarrow> m ip = None \<Longrightarrow> set ks \<subseteq> dom rs \<Longrightarrow>
     (\<exists>k es. k \<in> set ks \<and> sponsor ds rs ip k es \<and>
        addResponses ds rs ks m ip = Some (emptyNode\<lparr>endpointOf := es\<rparr>)) \<or>
     (\<nexists>k es. k \<in> set ks \<and> sponsor ds rs ip k es) \<and> addResponses ds rs ks m ip = None"
proof (induction ks arbitrary: m)
  case (Cons k ks)
  then obtain r where r: "rs k = Some r" by auto
  consider es where "sponsor ds rs ip k es"
      "addResponse ds k r m ip = Some (emptyNode\<lparr>endpointOf := es\<rparr>)"
    | "\<nexists>es. sponsor ds rs ip k es" "addResponse ds k r m ip = None"
    using addResponse_peer [of ip k m rs r ds] Cons.prems r by auto
  then show ?case
  proof cases
    case 1
    then show ?thesis
      using Cons.prems r addResponses_old [of ip ks "addResponse ds k r m" _ ds rs] by fastforce
  next
    case 2
    then show ?thesis
      using Cons.IH [of "addResponse ds k r m"] Cons.prems r by auto
  qed
qed simp

lemma dom_dropUnreferenced:
  "ip \<in> dom (dropUnreferenced m) \<longleftrightarrow> (\<exists>n. m ip = Some n \<and> es_dc (endpointOf n) \<noteq> '''')"
  by (auto simp: dropUnreferenced_def split: option.splits if_splits)

lemma newNodeStates_polled:
  assumes "ranges ks rs" "rs ip = Some r"
  shows "newNodeStates ds rs ks ip =
     (if es_dc (endpointOf (polledNode ip r)) = '''' then None else Some (polledNode ip r))"
proof -
  have "addResponses ds rs ks Map.empty ip = Some (polledNode ip r)"
    using assms by (intro addResponses_polled) (auto simp: ranges_def)
  then show ?thesis by (simp add: newNodeStates_def dropUnreferenced_def)
qed

lemma newNodeStates_peer:
  assumes "ranges ks rs" "rs ip = None" and "\<not> ownedDC ds ''''"
  shows "ip \<in> dom (newNodeStates ds rs ks) \<longleftrightarrow> (\<exists>k es. sponsor ds rs ip k es)"
proof -
  have ip: "ip \<notin> set ks" and sub: "set ks \<subseteq> dom rs" and all: "\<And>k es. sponsor ds rs ip k es \<Longrightarrow> k \<in> set ks"
    using assms(1,2) by (auto simp: ranges_def sponsor_def)
  have dc: "es_dc es \<noteq> ''''" if "sponsor ds rs ip k es" for k es
    using that assms(3) by (auto simp: sponsor_def)
  from addResponses_peer [OF ip _ sub, of Map.empty ds]
  consider k es where "sponsor ds rs ip k es"
      "addResponses ds rs ks Map.empty ip = Some (emptyNode\<lparr>endpointOf := es\<rparr>)"
    | "\<And>k es. k \<in> set ks \<Longrightarrow> \<not> sponsor ds rs ip k es" "addResponses ds rs ks Map.empty ip = None"
    by auto
  then show ?thesis
  proof cases
    case 1
    with dc [OF 1(1)] show ?thesis
      unfolding newNodeStates_def dom_dropUnreferenced by auto
  next
    case 2
    with all show ?thesis
      unfolding newNodeStates_def dom_dropUnreferenced by auto
  qed
qed

lemma poll_loop:
  "result (foldAct (\<lambda>nodeIP responses.
        andThen (attempt (pollNode E p nodeIP)) (\<lambda>r. ret (responses(nodeIP \<mapsto> pollAnswer r))))
       ks m) w = Inr rs \<Longrightarrow>
   dom rs = dom m \<union> set ks \<and>
   (\<forall>ip \<in> dom rs. rs ip = m ip \<or>
      ip \<in> set ks \<and> (\<exists>w'. rs ip = Some (pollAnswer (result (pollNode E p ip) w'))))"
proof (induction ks arbitrary: m w)
  case (Cons k ks)
  let ?r = "result (pollNode E p k) w"
  from Cons.prems have np: "?r \<noteq> Inl Panic" by (auto split: if_splits)
  then have "result (foldAct (\<lambda>nodeIP responses.
        andThen (attempt (pollNode E p nodeIP)) (\<lambda>r. ret (responses(nodeIP \<mapsto> pollAnswer r))))
       ks (m(k \<mapsto> pollAnswer ?r))) (world (pollNode E p k) w) = Inr rs"
    using Cons.prems by (simp del: fun_upd_apply)
  from Cons.IH [OF this]
  have dom: "dom rs = insert k (dom m \<union> set ks)"
    and other: "\<And>ip. ip \<in> dom rs \<Longrightarrow> rs ip = (m(k \<mapsto> pollAnswer ?r)) ip \<or>
      ip \<in> set ks \<and> (\<exists>w'. rs ip = Some (pollAnswer (result (pollNode E p ip) w')))"
    by (simp_all del: fun_upd_apply)
  have all: "rs ip = m ip \<or>
      ip \<in> set (k # ks) \<and> (\<exists>w'. rs ip = Some (pollAnswer (result (pollNode E p ip) w')))"
    if "ip \<in> dom rs" for ip
  proof (cases "ip = k")
    case True
    then have "rs ip = Some (pollAnswer ?r) \<or>
        (\<exists>w'. rs ip = Some (pollAnswer (result (pollNode E p ip) w')))"
      using other [OF that] by auto
    with True show ?thesis by auto
  next
    case False
    then show ?thesis using other [OF that] by auto
  qed
  have "dom rs = dom m \<union> set (k # ks)" unfolding dom by simp
  with all show ?case by blast
qed simp

lemma allNodesStates_rs:
  assumes "result (allNodesStates E p ks) w = Inr rs"
  shows "dom rs = set ks"
    and "ip \<in> set ks \<Longrightarrow> \<exists>w'. rs ip = Some (pollAnswer (result (pollNode E p ip) w'))"
proof -
  from poll_loop [OF assms [unfolded allNodesStates_def]]
  have dom: "dom rs = set ks" and entry: "\<And>ip. ip \<in> dom rs \<Longrightarrow> rs ip = None \<or>
      ip \<in> set ks \<and> (\<exists>w'. rs ip = Some (pollAnswer (result (pollNode E p ip) w')))"
    by (blast, auto simp del: domIff)
  show "dom rs = set ks" by (rule dom)
  show "\<exists>w'. rs ip = Some (pollAnswer (result (pollNode E p ip) w'))" if "ip \<in> set ks"
    using entry [of ip] that dom by blast
qed

section \<open>The HTTP handlers\<close>

datatype httpMethod = GET | PUT

datatype route =
  Healthz string | Ping | RegionReady | ReaperReady | Seeds | DCs | Metrics | RegionIPs | ReaperIPs

record request =
  rq_method :: httpMethod
  rq_route :: route
  rq_basicAuth :: "(string \<times> string) option"
  rq_remoteAddr :: string
  rq_body :: "go_error + string"

record response =
  rsp_code :: int
  rsp_body :: string

text \<open>
  The libraries behind the handlers: the JSON codec, the page of the metrics handler and the answer
  of the router to a method it has no handler for.
\<close>

record codec =
  marshalStrings :: "string list \<Rightarrow> string"
  unmarshalStrings :: "string \<Rightarrow> string list option"
  marshalDCs :: "proberDC list \<Rightarrow> string"
  unmarshalDCs :: "string \<Rightarrow> proberDC list option"
  marshalStates :: "strmap \<Rightarrow> string"
  metricsPage :: "(string \<times> string \<Rightarrow> nat) \<Rightarrow> string"
  methodNotAllowed :: response

definition reply :: "int \<Rightarrow> string \<Rightarrow> response" where
  "reply code body = \<lparr>rsp_code = code, rsp_body = body\<rparr>"

text \<open>\<open>strconv.ParseBool\<close>\<close>

definition parseBool :: "string \<Rightarrow> bool option" where
  "parseBool s =
     (if s \<in> {''1'', ''t'', ''T'', ''TRUE'', ''true'', ''True''} then Some True
      else if s \<in> {''0'', ''f'', ''F'', ''FALSE'', ''false'', ''False''} then Some False
      else None)"

definition healthCheck :: "codec \<Rightarrow> string list \<Rightarrow> string \<Rightarrow> request \<Rightarrow> proberState \<Rightarrow> response \<times> proberState" where
  "healthCheck C ks broadcastIP r s =
     (let podIP = hd (splitOn CHR '':'' (rq_remoteAddr r)) in
      case processReadinessProbe ks podIP broadcastIP s of ((isReady, states), s') \<Rightarrow>
        (reply (if isReady then 200 else 404) (marshalStates C states), s'))"

text \<open>The shape that the \<open>put\<close> handlers share: read the body, parse it, store the value.\<close>

definition putWith ::
  "(string \<Rightarrow> 'a option) \<Rightarrow> ('a \<Rightarrow> proberState \<Rightarrow> proberState) \<Rightarrow> request \<Rightarrow> proberState \<Rightarrow>
     response \<times> proberState" where
  "putWith parse store r s =
     (case rq_body r of
        Inl e \<Rightarrow> (reply 500 '''', s)
      | Inr body \<Rightarrow> (case parse body of
            None \<Rightarrow> (reply 400 '''', s)
          | Some v \<Rightarrow> (reply 200 '''', store v s)))"

definition ping :: "proberState \<Rightarrow> response \<times> proberState" where
  "ping s = (reply 200 ''pong'', s)"
definition getRegionReady :: "proberState \<Rightarrow> response \<times> proberState" where
  "getRegionReady s = (reply 200 (formatBool (ps_regionReady s)), s)"
definition putRegionReady :: "request \<Rightarrow> proberState \<Rightarrow> response \<times> proberState" where
  "putRegionReady = putWith parseBool (\<lambda>v s. s\<lparr>ps_regionReady := v\<rparr>)"
definition getReaperReady :: "proberState \<Rightarrow> response \<times> proberState" where
  "getReaperReady s = (reply 200 (formatBool (ps_reaperReady s)), s)"
definition putReaperReady :: "request \<Rightarrow> proberState \<Rightarrow> response \<times> proberState" where
  "putReaperReady = putWith parseBool (\<lambda>v s. s\<lparr>ps_reaperReady := v\<rparr>)"
definition getSeeds :: "codec \<Rightarrow> proberState \<Rightarrow> response \<times> proberState" where
  "getSeeds C s = (reply 200 (marshalStrings C (ps_seeds s)), s)"
definition putSeeds :: "codec \<Rightarrow> request \<Rightarrow> proberState \<Rightarrow> response \<times> proberState" where
  "putSeeds C = putWith (unmarshalStrings C) (\<lambda>v s. s\<lparr>ps_seeds := v\<rparr>)"
definition getDCs :: "codec \<Rightarrow> proberState \<Rightarrow> response \<times> proberState" where
  "getDCs C s = (reply 200 (marshalDCs C (ps_dcs s)), s)"
definition putDCs :: "codec \<Rightarrow> request \<Rightarrow> proberState \<Rightarrow> response \<times> proberState" where
  "putDCs C = putWith (unmarshalDCs C) (\<lambda>v s. s\<lparr>ps_dcs := v\<rparr>)"
definition getRegionIPs :: "codec \<Rightarrow> proberState \<Rightarrow> response \<times> proberState" where
  "getRegionIPs C s = (reply 200 (marshalStrings C (ps_regionIPs s)), s)"
definition putRegionIPs :: "codec \<Rightarrow> request \<Rightarrow> proberState \<Rightarrow> response \<times> proberState" where
  "putRegionIPs C = putWith (unmarshalStrings C) (\<lambda>v s. s\<lparr>ps_regionIPs := v\<rparr>)"
definition getReaperIPs :: "codec \<Rightarrow> proberState \<Rightarrow> response \<times> proberState" where
  "getReaperIPs C s = (reply 200 (marshalStrings C (ps_reaperIPs s)), s)"
definition putReaperIPs :: "codec \<Rightarrow> request \<Rightarrow> proberState \<Rightarrow> response \<times> proberState" where
  "putReaperIPs C = putWith (unmarshalStrings C) (\<lambda>v s. s\<lparr>ps_reaperIPs := v\<rparr>)"

fun routePath :: "route \<Rightarrow> string" where
  "routePath (Healthz bip) = ''/healthz/'' @ bip"
| "routePath Ping = ''/ping''"
| "routePath RegionReady = ''/region-ready''"
| "routePath ReaperReady = ''/reaper-ready''"
| "routePath Seeds = ''/seeds''"
| "routePath DCs = ''/dcs''"
| "routePath Metrics = ''/metrics''"
| "routePath RegionIPs = ''/region-ips''"
| "routePath ReaperIPs = ''/reaper-ips''"

text \<open>\<open>prometheusMiddleware\<close>: count the request by the path and the status of the wrapped handler.\<close>

definition prometheusMiddleware ::
  "(proberState \<Rightarrow> response \<times> proberState) \<Rightarrow> request \<Rightarrow> proberServer \<Rightarrow> response \<times> proberServer" where
  "prometheusMiddleware h r p =
     (case h (pstate p) of (rsp, s') \<Rightarrow>
        let label = (routePath (rq_route r),
                     if 100 \<le> rsp_code rsp \<and> rsp_code rsp < 300 then ''success'' else ''fail'') in
        (rsp, p\<lparr>pstate := s', totalRequests := (totalRequests p)(label := Suc (totalRequests p label))\<rparr>))"

definition BasicAuth ::
  "(request \<Rightarrow> proberServer \<Rightarrow> response \<times> proberServer) \<Rightarrow> request \<Rightarrow> proberServer \<Rightarrow>
     response \<times> proberServer" where
  "BasicAuth h r p =
     (case rq_basicAuth r of
        Some (user, password) \<Rightarrow>
          if user = authUser p \<and> password = authPassword p then h r p
          else (reply 401 (''Unauthorized'' @ [CHR 0x0A]), p)
      | None \<Rightarrow> (reply 401 (''Unauthorized'' @ [CHR 0x0A]), p))"

text \<open>The route table of \<open>setupRoutes\<close>.\<close>

fun dispatch :: "codec \<Rightarrow> string list \<Rightarrow> request \<Rightarrow> proberServer \<Rightarrow> response \<times> proberServer" where
  "dispatch C ks r p =
     (case (rq_method r, rq_route r) of
        (GET, Healthz bip) \<Rightarrow> prometheusMiddleware (healthCheck C ks bip r) r p
      | (GET, Ping) \<Rightarrow> prometheusMiddleware ping r p
      | (GET, RegionReady) \<Rightarrow> BasicAuth (prometheusMiddleware getRegionReady) r p
      | (PUT, RegionReady) \<Rightarrow> BasicAuth (prometheusMiddleware (putRegionReady r)) r p
      | (GET, ReaperReady) \<Rightarrow> BasicAuth (prometheusMiddleware getReaperReady) r p
      | (PUT, ReaperReady) \<Rightarrow> BasicAuth (prometheusMiddleware (putReaperReady r)) r p
      | (GET, Seeds) \<Rightarrow> BasicAuth (prometheusMiddleware (getSeeds C)) r p
      | (PUT, Seeds) \<Rightarrow> BasicAuth (prometheusMiddleware (putSeeds C r)) r p
      | (GET, DCs) \<Rightarrow> BasicAuth (prometheusMiddleware (getDCs C)) r p
      | (PUT, DCs) \<Rightarrow> BasicAuth (prometheusMiddleware (putDCs C r)) r p
      | (GET, Metrics) \<Rightarrow> (reply 200 (metricsPage C (totalRequests p)), p)
      | (GET, RegionIPs) \<Rightarrow> BasicAuth (prometheusMiddleware (getRegionIPs C)) r p
      | (PUT, RegionIPs) \<Rightarrow> BasicAuth (prometheusMiddleware (putRegionIPs C r)) r p
      | (GET, ReaperIPs) \<Rightarrow> BasicAuth (prometheusMiddleware (getReaperIPs C)) r p
      | (PUT, ReaperIPs) \<Rightarrow> BasicAuth (prometheusMiddleware (putReaperIPs C r)) r p
      | _ \<Rightarrow> (methodNotAllowed C, p))"

section \<open>The secret watchers\<close>

definition handleAddAuthSecret :: "strmap \<Rightarrow> proberServer \<Rightarrow> proberServer" where
  "handleAddAuthSecret data p = SetAuth (mget data ''admin-role'') (mget data ''admin-password'') p"

definition handleUpdateBaseSecret :: "strmap \<Rightarrow> strmap \<Rightarrow> proberServer \<Rightarrow> proberServer" where
  "handleUpdateBaseSecret oldData newData p =
     (if oldData \<noteq> newData
      then p\<lparr>authUser := mget newData ''admin-role'',
             authPassword := mget newData ''admin-password''\<rparr>
      else p)"

section \<open>Histories of the server\<close>

text \<open>
  The server as a transition system: a request is served, the polling loop ticks, a watcher fires. The
  runtime starts the ticks in goroutines of their own; here every step is atomic.
\<close>

inductive proberStep :: "'w jolokiaEnv \<Rightarrow> codec \<Rightarrow> proberServer \<Rightarrow> proberServer \<Rightarrow> bool"
  for E :: "'w jolokiaEnv" and C :: codec where
  request: "proberStep E C p (snd (dispatch C ks r p))"
| tick: "ranges ks (ps_nodes (pstate p)) \<Longrightarrow> set ks2 = set ks \<Longrightarrow> distinct ks2 \<Longrightarrow>
    result (updateNodeStates E ks ks2 p) w = Inr p' \<Longrightarrow> proberStep E C p p'"
| authSecret: "proberStep E C p (handleAddAuthSecret d p)"
| baseSecret: "proberStep E C p (handleUpdateBaseSecret d d' p)"

inductive proberReachable :: "'w jolokiaEnv \<Rightarrow> codec \<Rightarrow> proberServer \<Rightarrow> bool"
  for E :: "'w jolokiaEnv" and C :: codec where
  start: "proberReachable E C (NewProber u pw ju jpw)"
| step: "proberReachable E C p \<Longrightarrow> proberStep E C p p' \<Longrightarrow> proberReachable E C p'"

inductive_cases proberStepE: "proberStep E C p p'"

text \<open>The region state: what the operators of other regions read and write.\<close>

definition regionState ::
  "proberState \<Rightarrow> string list \<times> bool \<times> bool \<times> proberDC list \<times> string list \<times> string list" where
  "regionState s = (ps_seeds s, ps_regionReady s, ps_reaperReady s, ps_dcs s, ps_regionIPs s, ps_reaperIPs s)"

lemmas handler_defs = getRegionReady_def putRegionReady_def getReaperReady_def putReaperReady_def
  getSeeds_def putSeeds_def getDCs_def putDCs_def getRegionIPs_def putRegionIPs_def
  getReaperIPs_def putReaperIPs_def ping_def putWith_def reply_def

lemmas server_defs = prometheusMiddleware_def BasicAuth_def Let_def

lemma registerNode_simps [simp]:
  "ps_seeds (registerNode a b s) = ps_seeds s" "ps_regionReady (registerNode a b s) = ps_regionReady s"
  "ps_reaperReady (registerNode a b s) = ps_reaperReady s" "ps_dcs (registerNode a b s) = ps_dcs s"
  "ps_regionIPs (registerNode a b s) = ps_regionIPs s" "ps_reaperIPs (registerNode a b s) = ps_reaperIPs s"
  by (simp_all add: registerNode_def)

lemma healthCheck_state:
  "snd (healthCheck C ks bip r s) = registerNode (hd (splitOn CHR '':'' (rq_remoteAddr r))) (''/'' @ bip) s"
  by (simp add: healthCheck_def processReadinessProbe_def Let_def split: prod.splits)

lemma regionState_healthCheck [simp]: "regionState (snd (healthCheck C ks bip r s)) = regionState s"
  by (simp add: healthCheck_state regionState_def)

lemma middleware_snd:
  "snd (prometheusMiddleware h r p) =
     p\<lparr>pstate := snd (h (pstate p)),
       totalRequests := totalRequests (snd (prometheusMiddleware h r p))\<rparr>"
  by (simp add: prometheusMiddleware_def Let_def split: prod.splits)

lemma middleware_fst: "fst (prometheusMiddleware h r p) = fst (h (pstate p))"
  by (simp add: prometheusMiddleware_def Let_def split: prod.splits)

lemma middleware_state [simp]:
  "pstate (snd (prometheusMiddleware h r p)) = snd (h (pstate p))"
  "authUser (snd (prometheusMiddleware h r p)) = authUser p"
  "authPassword (snd (prometheusMiddleware h r p)) = authPassword p"
  by (subst middleware_snd, simp)+

definition authorized :: "request \<Rightarrow> proberServer \<Rightarrow> bool" where
  "authorized r p \<longleftrightarrow> rq_basicAuth r = Some (authUser p, authPassword p)"

lemma BasicAuth_if:
  "BasicAuth h r p = (if authorized r p then h r p else (reply 401 (''Unauthorized'' @ [CHR 0x0A]), p))"
  by (auto simp: BasicAuth_def authorized_def split: option.splits)

lemma putWith_nodes:
  "(\<And>v s. ps_nodes (store v s) = ps_nodes s) \<Longrightarrow> ps_nodes (snd (putWith parse store r s)) = ps_nodes s"
  "(\<And>v s. ps_podIPs (store v s) = ps_podIPs s) \<Longrightarrow> ps_podIPs (snd (putWith parse store r s)) = ps_podIPs s"
  by (auto simp: putWith_def split: sum.splits option.splits)

lemma put_keeps_nodes [simp]:
  "ps_nodes (snd (putRegionReady r s)) = ps_nodes s" "ps_podIPs (snd (putRegionReady r s)) = ps_podIPs s"
  "ps_nodes (snd (putReaperReady r s)) = ps_nodes s" "ps_podIPs (snd (putReaperReady r s)) = ps_podIPs s"
  "ps_nodes (snd (putSeeds C r s)) = ps_nodes s" "ps_podIPs (snd (putSeeds C r s)) = ps_podIPs s"
  "ps_nodes (snd (putDCs C r s)) = ps_nodes s" "ps_podIPs (snd (putDCs C r s)) = ps_podIPs s"
  "ps_nodes (snd (putRegionIPs C r s)) = ps_nodes s" "ps_podIPs (snd (putRegionIPs C r s)) = ps_podIPs s"
  "ps_nodes (snd (putReaperIPs C r s)) = ps_nodes s" "ps_podIPs (snd (putReaperIPs C r s)) = ps_podIPs s"
  by (simp_all add: putRegionReady_def putReaperReady_def putSeeds_def putDCs_def putRegionIPs_def
      putReaperIPs_def putWith_nodes)

lemma get_state [simp]:
  "snd (ping s) = s" "snd (getRegionReady s) = s" "snd (getReaperReady s) = s" "snd (getSeeds C s) = s"
  "snd (getDCs C s) = s" "snd (getRegionIPs C s) = s" "snd (getReaperIPs C s) = s"
  by (simp_all add: handler_defs)

text \<open>What a request does to the node tables: a health check registers its node, nothing else.\<close>

lemma dispatch_nodes:
  obtains "ps_nodes (pstate (snd (dispatch C ks r p))) = ps_nodes (pstate p)"
      "ps_podIPs (pstate (snd (dispatch C ks r p))) = ps_podIPs (pstate p)"
  | a b where "ps_nodes (pstate (snd (dispatch C ks r p))) = ps_nodes (registerNode a b (pstate p))"
      "ps_podIPs (pstate (snd (dispatch C ks r p))) = ps_podIPs (registerNode a b (pstate p))"
  by (cases "rq_method r"; cases "rq_route r") (auto simp: BasicAuth_if healthCheck_state)

lemma dispatch_auth [simp]:
  "authUser (snd (dispatch C ks r p)) = authUser p"
  "authPassword (snd (dispatch C ks r p)) = authPassword p"
  by (cases "rq_method r"; cases "rq_route r"; simp add: BasicAuth_if)+

section \<open>Properties\<close>

lemma healthyPeer_register [simp]:
  "healthyPeer (ps_nodes (registerNode a b s)) p \<longleftrightarrow> healthyPeer (ps_nodes s) p"
  by (auto simp: healthyPeer_def registerNode_def emptyNode_def noEndpoint_def spells_def)

lemma seesUp_register [simp]:
  "healthyPeer (ps_nodes s) p \<Longrightarrow>
     seesUp (ps_nodes (registerNode a b s)) p ip \<longleftrightarrow> seesUp (ps_nodes s) p ip"
  by (auto simp: healthyPeer_def seesUp_def registerNode_def)

text \<open>C1: The readiness endpoint answers 200 exactly when some known node is healthy (its own status is
  NORMAL and it reports itself up) and every healthy node reports the questioned one up, where a report is up or
  NORMAL in any mix of capital and small letters. Registering the node that asks changes neither, and the order of the
  range over the nodes does not matter.\<close>

theorem healthz_ready_iff:
  assumes "ranges ks (ps_nodes (snd (healthCheck C ks bip r s)))"
  shows "rsp_code (fst (healthCheck C ks bip r s)) = 200 \<longleftrightarrow>
    (\<exists>p. healthyPeer (ps_nodes s) p) \<and>
    (\<forall>p. healthyPeer (ps_nodes s) p \<longrightarrow> seesUp (ps_nodes s) p (''/'' @ bip))"
proof -
  let ?s' = "registerNode (hd (splitOn CHR '':'' (rq_remoteAddr r))) (''/'' @ bip) s"
  have "ranges ks (ps_nodes ?s')"
    using assms by (simp add: healthCheck_state)
  from isNodeReady_fst [OF this, of "''/'' @ bip"]
  have "fst (isNodeReady ks (ps_nodes ?s') (''/'' @ bip)) \<longleftrightarrow>
    (\<exists>p. healthyPeer (ps_nodes s) p) \<and>
    (\<forall>p. healthyPeer (ps_nodes s) p \<longrightarrow> seesUp (ps_nodes s) p (''/'' @ bip))"
    by auto
  moreover have "rsp_code (fst (healthCheck C ks bip r s)) = 200 \<longleftrightarrow>
      fst (isNodeReady ks (ps_nodes ?s') (''/'' @ bip))"
    by (simp add: healthCheck_def processReadinessProbe_def Let_def reply_def split: prod.splits)
  ultimately show ?thesis by simp
qed

definition sampleNode :: "string \<Rightarrow> nodeState" where
  "sampleNode ip = \<lparr>simpleStates = [ip \<mapsto> ''UP'', ''/10.0.0.2'' \<mapsto> ''UP''],
     endpointOf = noEndpoint\<lparr>es_status := ''NORMAL'', es_dc := ''dc1''\<rparr>\<rparr>"

definition sampleState :: proberState where
  "sampleState = (pstate (NewProber ''u'' ''p'' '''' ''''))
     \<lparr>ps_nodes := [''/10.0.0.1'' \<mapsto> sampleNode ''/10.0.0.1''], ps_podIPs := [''/10.0.0.1'' \<mapsto> ''/172.0.0.1''],
      ps_dcs := [\<lparr>pdc_name = ''dc1'', pdc_replicas = 2\<rparr>]\<rparr>"

definition sampleRequest :: request where
  "sampleRequest = \<lparr>rq_method = GET, rq_route = Healthz ''10.0.0.2'', rq_basicAuth = None,
     rq_remoteAddr = ''172.0.0.2:4711'', rq_body = Inr ''''\<rparr>"

lemmas sample_defs = sampleNode_def sampleState_def sampleRequest_def NewProber_def

lemma spells_samples [simp]: "spells ''NORMAL'' ''normal''" "spells ''UP'' ''up''"
  by code_simp+

theorem healthz_ready_iff_witness:
  "\<forall>C. rsp_code (fst (healthCheck C [''/10.0.0.1'', ''/10.0.0.2''] ''10.0.0.2'' sampleRequest sampleState)) = 200"
proof
  fix C :: codec
  have "ranges [''/10.0.0.1'', ''/10.0.0.2'']
     (ps_nodes (snd (healthCheck C [''/10.0.0.1'', ''/10.0.0.2''] ''10.0.0.2'' sampleRequest sampleState)))"
    by (auto simp: healthCheck_state ranges_def registerNode_def sample_defs)
  from healthz_ready_iff [OF this]
  show "rsp_code (fst (healthCheck C [''/10.0.0.1'', ''/10.0.0.2''] ''10.0.0.2'' sampleRequest sampleState)) = 200"
    by (auto simp: healthyPeer_def seesUp_def reportsUp_def sample_defs)
qed

text \<open>A poll keeps exactly the nodes that are still part of the ring, whatever the order of the two
  ranges: a polled node stays if it answered 200 and lists itself with a datacentre; a node that was not
  polled enters if some node that answered 200 lists it in a datacentre this prober owns.\<close>

theorem poll_keeps_iff:
  assumes "result (allNodesStates E p ks) w = Inr rs" "ranges ks2 rs"
    and "\<not> ownedDC (ps_dcs (pstate p)) ''''"
    and "result (updateNodesRequest E ks ks2 p) w = Inr p'"
  shows "ip \<in> dom (ps_nodes (pstate p')) \<longleftrightarrow>
    (case rs ip of
       Some r \<Rightarrow> cr_status r = 200 \<and>
         (\<exists>es. map_of (cr_allEndpointStates r) ip = Some es \<and> es_dc es \<noteq> '''')
     | None \<Rightarrow> \<exists>k es. sponsor (ps_dcs (pstate p)) rs ip k es)"
proof -
  have p': "ps_nodes (pstate p') = newNodeStates (ps_dcs (pstate p)) rs ks2"
    using assms(1,4) by (auto simp: updateNodesRequest_def)
  show ?thesis
  proof (cases "rs ip")
    case None
    with newNodeStates_peer [OF assms(2) None assms(3)] show ?thesis by (simp add: p')
  next
    case (Some r)
    with newNodeStates_polled [OF assms(2) Some] show ?thesis
      by (auto simp: p' polledNode_def emptyNode_def noEndpoint_def domIff split: option.splits)
  qed
qed

text \<open>An agent that answers every poll with the view of a healthy two-node ring.\<close>

definition ringEndpoint :: endpointState where
  "ringEndpoint = noEndpoint\<lparr>es_status := ''NORMAL'', es_dc := ''dc1''\<rparr>"

definition ringAnswer :: cassandraResponse where
  "ringAnswer = \<lparr>cr_status = 200, cr_error = '''', cr_simpleStates = [''/10.0.0.1'' \<mapsto> ''UP''],
     cr_allEndpointStates = [(''/10.0.0.1'', ringEndpoint), (''/10.0.0.2'', ringEndpoint)]\<rparr>"

definition ringEnv :: "unit jolokiaEnv" where
  "ringEnv = \<lparr>jl_jmxPort = 7199,
     jl_post = (\<lambda>q w. (Inr \<lparr>ans_code = 200, ans_status = ''200 OK'', ans_body = Inr ''[]''\<rparr>, w)),
     decodeResponses = (\<lambda>_. Inr [ringAnswer]), maskCredentials = (\<lambda>b. b)\<rparr>"

definition downEnv :: "unit jolokiaEnv" where
  "downEnv = ringEnv\<lparr>jl_post := (\<lambda>q w. (Inl (Err ''timeout''), w))\<rparr>"

definition sampleServer :: proberServer where
  "sampleServer = (NewProber ''u'' ''p'' '''' '''')\<lparr>pstate := sampleState\<rparr>"

lemma ringEnv_poll [simp]: "result (pollNode ringEnv p ip) w = Inr ringAnswer"
  by (simp add: pollNode_def CassandraNodeState_def ringEnv_def Let_def)

lemma downEnv_poll [simp]: "result (pollNode downEnv p ip) w = Inl (Err ''timeout'')"
  by (simp add: pollNode_def CassandraNodeState_def ringEnv_def downEnv_def Let_def)

theorem poll_keeps_iff_witness:
  "\<exists>p'. result (updateNodesRequest ringEnv [''/10.0.0.1''] [''/10.0.0.1''] sampleServer) () = Inr p' \<and>
     ''/10.0.0.2'' \<in> dom (ps_nodes (pstate p'))"
proof -
  let ?rs = "[''/10.0.0.1'' \<mapsto> ringAnswer]"
  have rs: "result (allNodesStates ringEnv sampleServer [''/10.0.0.1'']) () = Inr ?rs"
    by (simp add: allNodesStates_def pollAnswer_def)
  then obtain p' where p': "result (updateNodesRequest ringEnv [''/10.0.0.1''] [''/10.0.0.1''] sampleServer) ()
      = Inr p'"
    by (simp add: updateNodesRequest_def)
  have "ranges [''/10.0.0.1''] ?rs" by (simp add: ranges_def)
  moreover have dc: "\<not> ownedDC (ps_dcs (pstate sampleServer)) ''''"
    by (simp add: ownedDC_def sampleServer_def sample_defs)
  moreover have "sponsor (ps_dcs (pstate sampleServer)) ?rs ''/10.0.0.2'' ''/10.0.0.1'' ringEndpoint"
    by (simp add: sponsor_def ownedDC_def sampleServer_def sample_defs ringAnswer_def ringEndpoint_def)
  ultimately show ?thesis
    using poll_keeps_iff [OF rs _ dc p', of "''/10.0.0.2''"] p' by auto
qed

text \<open>C2: A node whose poll fails is forgotten: whatever the other nodes say about it, it is not in the
  table after the tick, because the entry that records the failed status has no datacentre.\<close>

theorem failed_poll_forgets_node:
  assumes "\<And>w'. isl (result (pollNode E p ip) w')"
    and "ranges ks (ps_nodes (pstate p))" "ip \<in> dom (ps_nodes (pstate p))" "set ks2 = set ks" "distinct ks2"
    and "result (updateNodeStates E ks ks2 p) w = Inr p'"
  shows "ip \<notin> dom (ps_nodes (pstate p'))"
proof -
  have ks: "ip \<in> set ks" "length ks > 0"
    using assms(2,3) by (auto simp: ranges_def)
  with assms(6) obtain rs where rs: "result (allNodesStates E p ks) w = Inr rs"
    and p': "ps_nodes (pstate p') = newNodeStates (ps_dcs (pstate p)) rs ks2"
    by (auto simp: updateNodeStates_def updateNodesRequest_def split: sum.splits)
  have ran: "ranges ks2 rs"
    using allNodesStates_rs(1) [OF rs] assms(4,5) by (simp add: ranges_def)
  from allNodesStates_rs(2) [OF rs ks(1)]
  obtain w' where w': "rs ip = Some (pollAnswer (result (pollNode E p ip) w'))" ..
  obtain e where "result (pollNode E p ip) w' = Inl e"
    using assms(1) [of w'] by (auto simp: isl_def)
  then have "es_dc (endpointOf (polledNode ip (pollAnswer (result (pollNode E p ip) w')))) = ''''"
    by (simp add: polledNode_def pollAnswer_def emptyNode_def noEndpoint_def)
  with newNodeStates_polled [OF ran w'] show ?thesis
    by (simp add: p' domIff)
qed

theorem failed_poll_forgets_node_witness:
  "\<exists>p'. result (updateNodeStates downEnv [''/10.0.0.1''] [''/10.0.0.1''] sampleServer) () = Inr p' \<and>
     ''/10.0.0.1'' \<notin> dom (ps_nodes (pstate p'))"
proof -
  obtain p' where p': "result (updateNodeStates downEnv [''/10.0.0.1''] [''/10.0.0.1''] sampleServer) () = Inr p'"
    by (simp add: updateNodeStates_def updateNodesRequest_def allNodesStates_def)
  have "ranges [''/10.0.0.1''] (ps_nodes (pstate sampleServer))"
    by (simp add: ranges_def sampleServer_def sample_defs)
  then have "''/10.0.0.1'' \<notin> dom (ps_nodes (pstate p'))"
    by (intro failed_poll_forgets_node [OF _ _ _ _ _ p'])
      (simp_all add: sampleServer_def sample_defs)
  with p' show ?thesis by blast
qed

text \<open>C3: The region state (seeds, readiness flags, datacentres, addresses) changes only through a PUT that
  carries the current credentials; every other request, health checks included, leaves it as it is, and an
  unauthenticated PUT to one of its routes is answered 401.\<close>

theorem region_state_needs_auth:
  "(\<not> (rq_method r = PUT \<and> authorized r p) \<longrightarrow>
      regionState (pstate (snd (dispatch C ks r p))) = regionState (pstate p)) \<and>
   (rq_method r = PUT \<and> \<not> authorized r p \<and> rq_route r \<in> {RegionReady, ReaperReady, Seeds, DCs, RegionIPs, ReaperIPs}
      \<longrightarrow> rsp_code (fst (dispatch C ks r p)) = 401 \<and> snd (dispatch C ks r p) = p)"
  by (cases "rq_method r"; cases "rq_route r") (auto simp: BasicAuth_if reply_def)

theorem region_state_needs_auth_witness:
  "\<forall>C. rsp_code (fst (dispatch C [] (sampleRequest\<lparr>rq_method := PUT, rq_route := Seeds,
       rq_basicAuth := Some (''u'', ''wrong'')\<rparr>) sampleServer)) = 401"
proof
  fix C
  let ?r = "sampleRequest\<lparr>rq_method := PUT, rq_route := Seeds, rq_basicAuth := Some (''u'', ''wrong'')\<rparr>"
  have "\<not> authorized ?r sampleServer"
    by (simp add: authorized_def sampleServer_def sample_defs)
  with region_state_needs_auth [of ?r sampleServer C "[]"]
  show "rsp_code (fst (dispatch C [] ?r sampleServer)) = 401"
    by simp
qed

definition nodesAccounted :: "proberState \<Rightarrow> bool" where
  "nodesAccounted s \<longleftrightarrow> finite (dom (ps_nodes s)) \<and>
     (\<forall>ip n. ps_nodes s ip = Some n \<longrightarrow> ip \<in> dom (ps_podIPs s) \<or> es_dc (endpointOf n) \<noteq> '''')"

lemma nodesAccounted_register: "nodesAccounted s \<Longrightarrow> nodesAccounted (registerNode a b s)"
  by (auto simp: nodesAccounted_def registerNode_def)

lemma nodesAccounted_cong:
  "ps_nodes s = ps_nodes s' \<Longrightarrow> ps_podIPs s = ps_podIPs s' \<Longrightarrow> nodesAccounted s = nodesAccounted s'"
  by (simp add: nodesAccounted_def)

lemma finite_addPeers: "finite (dom m) \<Longrightarrow> finite (dom (addPeers ds eps m))"
  by (induction ds eps m rule: addPeers.induct) auto

lemma finite_addResponses: "finite (dom m) \<Longrightarrow> finite (dom (addResponses ds rs ks m))"
  by (induction ks arbitrary: m) (auto simp: addResponse_def finite_addPeers split: option.splits)

lemma newNodeStates_accounted:
  "finite (dom (newNodeStates ds rs ks))"
  "newNodeStates ds rs ks ip = Some n \<Longrightarrow> es_dc (endpointOf n) \<noteq> ''''"
proof -
  have "dom (newNodeStates ds rs ks) \<subseteq> dom (addResponses ds rs ks Map.empty)"
    by (auto simp: newNodeStates_def dropUnreferenced_def split: option.splits)
  then show "finite (dom (newNodeStates ds rs ks))"
    using finite_addResponses [of Map.empty ds rs ks] by (simp add: finite_subset)
qed (auto simp: newNodeStates_def dropUnreferenced_def split: option.splits if_splits)

lemma proberStep_accounted:
  assumes "proberStep E C p p'" "nodesAccounted (pstate p)"
  shows "nodesAccounted (pstate p')"
  using assms(1)
proof cases
  case (request ks r)
  show ?thesis unfolding request
    by (rule dispatch_nodes [of C ks r p])
      (use assms(2) nodesAccounted_register in \<open>metis nodesAccounted_cong\<close>)+
next
  case (tick ks ks2 w)
  then show ?thesis
    using assms(2) newNodeStates_accounted
    by (auto simp: updateNodeStates_def updateNodesRequest_def nodesAccounted_def
        split: if_splits sum.splits)
qed (use assms(2) in \<open>auto simp: handleAddAuthSecret_def SetAuth_def handleUpdateBaseSecret_def\<close>)

text \<open>C4: In every reachable state of the server, each known node can be accounted for: either it was
  registered by a readiness probe, so that its pod address is known, or it reported a datacentre; and
  the table is finite, so the range over it ends.\<close>

theorem reachable_nodes_accounted:
  assumes "proberReachable E C p"
  shows "nodesAccounted (pstate p)"
  using assms
proof induction
  case (start u pw ju jpw)
  show ?case by (simp add: nodesAccounted_def NewProber_def)
next
  case (step p p')
  then show ?case by (simp add: proberStep_accounted)
qed

theorem reachable_nodes_accounted_witness:
  "\<forall>C. nodesAccounted (pstate (snd (dispatch C [''/10.0.0.2''] sampleRequest (NewProber ''u'' ''p'' '''' ''''))))"
proof
  fix C
  have "proberReachable ringEnv C (snd (dispatch C [''/10.0.0.2''] sampleRequest (NewProber ''u'' ''p'' '''' '''')))"
    by (rule proberReachable.step [OF proberReachable.start proberStep.request])
  then show "nodesAccounted (pstate (snd (dispatch C [''/10.0.0.2''] sampleRequest (NewProber ''u'' ''p'' '''' ''''))))"
    by (rule reachable_nodes_accounted)
qed

text \<open>The requests served one after the other; each comes with the order of its range over the nodes.\<close>

fun serve :: "codec \<Rightarrow> (string list \<times> request) list \<Rightarrow> proberServer \<Rightarrow> proberServer" where
  "serve C [] p = p"
| "serve C ((ks, r) # rest) p = serve C rest (snd (dispatch C ks r p))"

text \<open>The value of the last PUT to \<open>/region-ready\<close> that was accepted.\<close>

fun lastRegionReady :: "string \<Rightarrow> string \<Rightarrow> (string list \<times> request) list \<Rightarrow> bool \<Rightarrow> bool" where
  "lastRegionReady user password [] v = v"
| "lastRegionReady user password ((ks, r) # rest) v =
     lastRegionReady user password rest
       (if rq_method r = PUT \<and> rq_route r = RegionReady \<and> rq_basicAuth r = Some (user, password)
        then case rq_body r of Inl _ \<Rightarrow> v
          | Inr body \<Rightarrow> (case parseBool body of None \<Rightarrow> v | Some b \<Rightarrow> b)
        else v)"

lemma dispatch_regionReady:
  "ps_regionReady (pstate (snd (dispatch C ks r p))) =
     (if rq_method r = PUT \<and> rq_route r = RegionReady \<and> authorized r p
      then case rq_body r of Inl _ \<Rightarrow> ps_regionReady (pstate p)
        | Inr body \<Rightarrow> (case parseBool body of None \<Rightarrow> ps_regionReady (pstate p) | Some b \<Rightarrow> b)
      else ps_regionReady (pstate p))"
  by (cases "rq_method r"; cases "rq_route r")
    (auto simp: BasicAuth_if healthCheck_state handler_defs split: sum.splits option.splits)

text \<open>The readiness flag of the region is the value of the last accepted PUT, through any sequence of
  requests: refused, malformed and unrelated requests do not disturb it.\<close>

theorem region_ready_is_last_put:
  "ps_regionReady (pstate (serve C reqs p)) =
     lastRegionReady (authUser p) (authPassword p) reqs (ps_regionReady (pstate p))"
proof (induction reqs arbitrary: p)
  case (Cons x reqs)
  obtain ks r where x: "x = (ks, r)" by (cases x)
  show ?case
    unfolding x serve.simps lastRegionReady.simps Cons.IH
    by (simp add: dispatch_regionReady authorized_def del: dispatch.simps)
qed simp

end
