(* ===== verification/Prober_Client.thy ===== *)
theory Prober_Client
  imports Prober
begin

text \<open>
  The operator's client of the probers, \<open>controllers/prober/prober.go\<close>: thirteen methods over an
  HTTP transport and a JSON codec that are parameters (record \<open>httpEnv\<close>).
  The contract the reconciler relies on is the locale \<open>register\<close>: what is put is what is read, by this
  operator and by those of the other regions. It is interpreted for each of the six resources on the
  client methods talking to the prober of theory \<open>Prober\<close> (function \<open>toProber\<close>).
\<close>

section \<open>The client\<close>

record httpRequest =
  hr_method :: httpMethod
  hr_url :: string
  hr_auth :: "(string \<times> string) option"
  hr_body :: string

record 'w httpEnv =
  newRequest :: "httpMethod \<Rightarrow> string \<Rightarrow> go_error + unit"
  transport :: "httpRequest \<Rightarrow> 'w \<Rightarrow> (go_error + httpAnswer) \<times> 'w"
  statusText :: "int \<Rightarrow> string"
  jsonStrings :: "string list \<Rightarrow> string"
  parseStrings :: "string \<Rightarrow> go_error + string list"
  jsonDCs :: "dc list \<Rightarrow> string"
  parseDCs :: "string \<Rightarrow> go_error + dc list"

record proberClient =
  baseUrl :: string
  username :: string
  password :: string

definition NewProberClient :: "string \<Rightarrow> string \<Rightarrow> string \<Rightarrow> proberClient" where
  "NewProberClient u user pw = \<lparr>baseUrl = u, username = user, password = pw\<rparr>"

definition clientUrl :: "proberClient \<Rightarrow> string \<Rightarrow> string" where
  "clientUrl p path = baseUrl p @ path"

definition hostUrl :: "string \<Rightarrow> string \<Rightarrow> string" where
  "hostUrl host path = ''https://'' @ host @ path"

fun methodName :: "httpMethod \<Rightarrow> string" where
  "methodName GET = ''GET''"
| "methodName PUT = ''PUT''"

text \<open>\<open>http.NewRequestWithContext\<close> fails on a bad method or URL; then nothing is sent.\<close>

definition newRequestWithAuth ::
  "'w httpEnv \<Rightarrow> proberClient \<Rightarrow> httpMethod \<Rightarrow> string \<Rightarrow> string \<Rightarrow> ('w, httpRequest, httpRequest) act" where
  "newRequestWithAuth E p m url body =
     (case newRequest E m url of
        Inl err \<Rightarrow> raise (Wrap (''Can't create '' @ methodName m @ '' request to `'' @ url @ ''` endpoint'') err)
      | Inr _ \<Rightarrow> ret \<lparr>hr_method = m, hr_url = url, hr_auth = Some (username p, password p), hr_body = body\<rparr>)"

definition clientDo :: "'w httpEnv \<Rightarrow> httpRequest \<Rightarrow> ('w, httpRequest, httpAnswer) act" where
  "clientDo E r = call r (transport E r)"

definition ProberReady :: "'w httpEnv \<Rightarrow> proberClient \<Rightarrow> ('w, httpRequest, bool) act" where
  "ProberReady E p =
     (case newRequest E GET (clientUrl p ''/ping'') of
        Inl err \<Rightarrow> raise err
      | Inr _ \<Rightarrow> andThen (wrapErr ''GET request to prober's `/ping` endpoint failed''
            (clientDo E \<lparr>hr_method = GET, hr_url = clientUrl p ''/ping'', hr_auth = None, hr_body = ''''\<rparr>))
          (\<lambda>ans. ret (ans_code ans = 200)))"

text \<open>The shape of the four \<open>Update\<close> methods and of the two status updates: the status of the answer is
  not looked at.\<close>

definition putResource ::
  "'w httpEnv \<Rightarrow> proberClient \<Rightarrow> string \<Rightarrow> string \<Rightarrow> string \<Rightarrow> ('w, httpRequest, unit) act" where
  "putResource E p path msg body =
     andThen (newRequestWithAuth E p PUT (clientUrl p path) body) (\<lambda>req.
       andThen (wrapErr msg (clientDo E req)) (\<lambda>_. ret ()))"

definition badStatus :: "'w httpEnv \<Rightarrow> httpAnswer \<Rightarrow> string \<Rightarrow> go_error" where
  "badStatus E ans code =
     Err (''response status '' @ statusText E (ans_code ans) @ '' (code '' @ code @ '') is not '' @ statusText E 200)"

text \<open>The shape of the \<open>Get\<close> methods: \<open>code\<close> is how the error text prints the status, \<open>rmsg\<close> and \<open>pmsg\<close>
  wrap the read and the parse error when the method wraps them.\<close>

definition getResource ::
  "'w httpEnv \<Rightarrow> proberClient \<Rightarrow> string \<Rightarrow> string \<Rightarrow> string \<Rightarrow> (httpAnswer \<Rightarrow> string) \<Rightarrow> string option \<Rightarrow>
     string \<Rightarrow> (string \<Rightarrow> go_error + 'a) \<Rightarrow> ('w, httpRequest, 'a) act" where
  "getResource E p host path msg code rmsg pmsg parse =
     andThen (newRequestWithAuth E p GET (hostUrl host path) '''') (\<lambda>req.
     andThen (wrapErr msg (clientDo E req)) (\<lambda>ans.
       if ans_code ans \<noteq> 200 then raise (badStatus E ans (code ans))
       else case ans_body ans of
         Inl err \<Rightarrow> raise (case rmsg of None \<Rightarrow> err | Some m \<Rightarrow> wrap m err)
       | Inr body \<Rightarrow> (case parse body of
             Inl err \<Rightarrow> raise (wrap pmsg err)
           | Inr v \<Rightarrow> ret v)))"

definition codeNumber :: "httpAnswer \<Rightarrow> string" where
  "codeNumber ans = itoa (ans_code ans)"

definition parseFlag :: "string \<Rightarrow> go_error + bool" where
  "parseFlag body = (case parseBool (trimSpace body) of None \<Rightarrow> Inl (Err ''invalid syntax'') | Some b \<Rightarrow> Inr b)"

definition GetSeeds :: "'w httpEnv \<Rightarrow> proberClient \<Rightarrow> string \<Rightarrow> ('w, httpRequest, string list) act" where
  "GetSeeds E p host =
     getResource E p host ''/seeds'' ''GET request to prober's `/seeds` failed'' codeNumber
       (Some ''Unable to read response body'') ''Error unmarshalling response body'' (parseStrings E)"

definition UpdateSeeds :: "'w httpEnv \<Rightarrow> proberClient \<Rightarrow> string list \<Rightarrow> ('w, httpRequest, unit) act" where
  "UpdateSeeds E p seeds =
     putResource E p ''/seeds'' ''PUT request to prober's `/seeds` endpoint failed'' (jsonStrings E seeds)"

definition GetDCs :: "'w httpEnv \<Rightarrow> proberClient \<Rightarrow> string \<Rightarrow> ('w, httpRequest, dc list) act" where
  "GetDCs E p host =
     getResource E p host ''/dcs'' ''GET request to prober's `/dcs` endpoint failed'' codeNumber
       (Some ''Unable to read response body'') ''Error unmarshalling response body'' (parseDCs E)"

definition UpdateDCs :: "'w httpEnv \<Rightarrow> proberClient \<Rightarrow> dc list \<Rightarrow> ('w, httpRequest, unit) act" where
  "UpdateDCs E p dcs =
     putResource E p ''/dcs'' ''PUT request to prober's `/dcs` endpoint failed'' (jsonDCs E dcs)"

definition UpdateRegionStatus :: "'w httpEnv \<Rightarrow> proberClient \<Rightarrow> bool \<Rightarrow> ('w, httpRequest, unit) act" where
  "UpdateRegionStatus E p ready =
     andThen (wrapErr ''Can't create request''
         (newRequestWithAuth E p PUT (clientUrl p ''/region-ready'') (formatBool ready))) (\<lambda>req.
       andThen (wrapErr ''PUT request to prober's `region-ready` failed'' (clientDo E req)) (\<lambda>_. ret ()))"

definition RegionReadyAt :: "'w httpEnv \<Rightarrow> proberClient \<Rightarrow> string \<Rightarrow> ('w, httpRequest, bool) act" where
  "RegionReadyAt E p host =
     getResource E p host ''/region-ready'' ''GET request to prober's `/region-ready` failed'' codeNumber
       None ''Unexpected response from prober. Expect true or false'' parseFlag"

definition UpdateReaperStatus :: "'w httpEnv \<Rightarrow> proberClient \<Rightarrow> bool \<Rightarrow> ('w, httpRequest, unit) act" where
  "UpdateReaperStatus E p ready =
     putResource E p ''/reaper-ready'' ''PUT request to prober's `/reaper-ready` endpoint failed'' (formatBool ready)"

definition ReaperReadyAt :: "'w httpEnv \<Rightarrow> proberClient \<Rightarrow> string \<Rightarrow> ('w, httpRequest, bool) act" where
  "ReaperReadyAt E p host =
     getResource E p host ''/reaper-ready'' ''GET request to prober's `/reaper-ready` endpoint failed'' codeNumber
       None ''Unexpected response from prober. Expect true or false'' parseFlag"

definition UpdateRegionIPs :: "'w httpEnv \<Rightarrow> proberClient \<Rightarrow> string list \<Rightarrow> ('w, httpRequest, unit) act" where
  "UpdateRegionIPs E p ips =
     putResource E p ''/region-ips'' ''PUT request to prober's `/region-ips` endpoint failed'' (jsonStrings E ips)"

definition GetRegionIPs :: "'w httpEnv \<Rightarrow> proberClient \<Rightarrow> string \<Rightarrow> ('w, httpRequest, string list) act" where
  "GetRegionIPs E p host =
     getResource E p host ''/region-ips'' ''Get request to prober's `/region-ips` failed'' ans_status
       (Some ''Unable to read response body'') ''Error unmarshalling response body'' (parseStrings E)"

definition UpdateReaperIPs :: "'w httpEnv \<Rightarrow> proberClient \<Rightarrow> string list \<Rightarrow> ('w, httpRequest, unit) act" where
  "UpdateReaperIPs E p ips =
     putResource E p ''/reaper-ips'' ''PUT request to prober's `/reaper-ips` endpoint failed'' (jsonStrings E ips)"

definition GetReaperIPs :: "'w httpEnv \<Rightarrow> proberClient \<Rightarrow> string \<Rightarrow> ('w, httpRequest, string list) act" where
  "GetReaperIPs E p host =
     getResource E p host ''/reaper-ips'' ''Get request to prober's `/reaper-ips` failed'' ans_status
       (Some ''Unable to read response body'') ''Error unmarshalling response body'' (parseStrings E)"

lemma result_putResource:
  "result (putResource E p path msg body) w =
     (case newRequest E PUT (clientUrl p path) of
        Inl err \<Rightarrow> Inl (Wrap (''Can't create PUT request to `'' @ clientUrl p path @ ''` endpoint'') err)
      | Inr _ \<Rightarrow> (case fst (transport E \<lparr>hr_method = PUT, hr_url = clientUrl p path,
             hr_auth = Some (username p, password p), hr_body = body\<rparr> w) of
           Inl err \<Rightarrow> Inl (wrap msg err) | Inr _ \<Rightarrow> Inr ()))"
  by (simp add: putResource_def newRequestWithAuth_def clientDo_def split: sum.splits)

section \<open>The contract: a register that other regions read\<close>

locale register =
  fixes put :: "'v \<Rightarrow> ('w, 'q, unit) act"
    and get :: "('w, 'q, 'v) act"
    and ok :: "'w \<Rightarrow> bool"
    and val :: "'w \<Rightarrow> 'v"
    and norm :: "'v \<Rightarrow> 'v"
  assumes put_result: "ok w \<Longrightarrow> result (put v) w = Inr ()"
    and put_ok: "ok w \<Longrightarrow> ok (world (put v) w)"
    and put_val: "ok w \<Longrightarrow> val (world (put v) w) = norm v"
    and get_result: "ok w \<Longrightarrow> result get w = Inr (val w)"
    and get_ok: "ok w \<Longrightarrow> ok (world get w)"
    and get_val: "ok w \<Longrightarrow> val (world get w) = val w"
begin

lemma put_get: "ok w \<Longrightarrow> result (andThen (put v) (\<lambda>_. get)) w = Inr (norm v)"
  by (simp add: put_result put_ok put_val get_result)

lemma reads_agree: "ok w \<Longrightarrow> result (andThen get (\<lambda>v. andThen get (\<lambda>v'. ret (v, v')))) w = Inr (val w, val w)"
  by (simp add: get_result get_ok get_val)

lemma puts_ok:
  "ok w \<Longrightarrow> result (forEach put vs) w = Inr () \<and> ok (world (forEach put vs) w) \<and>
     (vs \<noteq> [] \<longrightarrow> val (world (forEach put vs) w) = norm (last vs))"
proof (induction vs arbitrary: w)
  case (Cons v vs)
  from Cons.IH [OF put_ok [OF Cons.prems]] Cons.prems show ?case
    by (simp add: put_result put_val)
qed simp

lemma last_put_wins:
  "ok w \<Longrightarrow> vs \<noteq> [] \<Longrightarrow> result (andThen (forEach put vs) (\<lambda>_. get)) w = Inr (norm (last vs))"
  using puts_ok [of w vs] by (simp add: get_result)

end

section \<open>The client against the prober\<close>

text \<open>The path of a URL whose path has one segment, and the route it names.\<close>

definition urlPath :: "string \<Rightarrow> string" where
  "urlPath url = CHR ''/'' # rev (takeWhile (\<lambda>c. c \<noteq> CHR ''/'') (rev url))"

definition pathRoute :: "string \<Rightarrow> route option" where
  "pathRoute path =
     List.find (\<lambda>r. routePath r = path) [Ping, RegionReady, ReaperReady, Seeds, DCs, Metrics, RegionIPs, ReaperIPs]"

text \<open>The transport that delivers every request to the one prober whose state is the world.\<close>

definition toProber :: "codec \<Rightarrow> proberServer httpEnv \<Rightarrow> proberServer httpEnv" where
  "toProber C E = E\<lparr>newRequest := (\<lambda>_ _. Inr ()),
     transport := (\<lambda>r p. case pathRoute (urlPath (hr_url r)) of
        None \<Rightarrow> (Inr \<lparr>ans_code = 404, ans_status = statusText E 404, ans_body = Inr ''''\<rparr>, p)
      | Some rt \<Rightarrow>
          (let d = dispatch C [] \<lparr>rq_method = hr_method r, rq_route = rt, rq_basicAuth = hr_auth r,
                      rq_remoteAddr = '''', rq_body = Inr (hr_body r)\<rparr> p
           in (Inr \<lparr>ans_code = rsp_code (fst d), ans_status = statusText E (rsp_code (fst d)),
                    ans_body = Inr (rsp_body (fst d))\<rparr>, snd d)))\<rparr>"

text \<open>A datacentre of the custom resource as the prober stores it, and as it comes back: only the name and
  the replicas travel, and nil replicas come back as zero.\<close>

definition toProberDC :: "dc \<Rightarrow> proberDC" where
  "toProberDC d = \<lparr>pdc_name = dc_name d, pdc_replicas = (case dc_replicas d of None \<Rightarrow> 0 | Some n \<Rightarrow> n)\<rparr>"

definition fromProberDC :: "proberDC \<Rightarrow> dc" where
  "fromProberDC d = \<lparr>dc_name = pdc_name d, dc_replicas = Some (pdc_replicas d), dc_affinity = None, dc_tolerations = []\<rparr>"

text \<open>What the JSON package promises about the values that are exchanged.\<close>

definition codecsAgree :: "codec \<Rightarrow> 'w httpEnv \<Rightarrow> bool" where
  "codecsAgree C E \<longleftrightarrow>
     (\<forall>xs. unmarshalStrings C (jsonStrings E xs) = Some xs) \<and>
     (\<forall>xs. parseStrings E (marshalStrings C xs) = Inr xs) \<and>
     (\<forall>ds. unmarshalDCs C (jsonDCs E ds) = Some (map toProberDC ds)) \<and>
     (\<forall>ds. parseDCs E (marshalDCs C ds) = Inr (map fromProberDC ds))"

definition trusted :: "proberClient \<Rightarrow> proberServer \<Rightarrow> bool" where
  "trusted c p \<longleftrightarrow> username c = authUser p \<and> password c = authPassword p"

lemma urlPath_simps [simp]:
  "urlPath (u @ ''/seeds'') = ''/seeds''" "urlPath (u @ ''/dcs'') = ''/dcs''"
  "urlPath (u @ ''/region-ready'') = ''/region-ready''" "urlPath (u @ ''/reaper-ready'') = ''/reaper-ready''"
  "urlPath (u @ ''/region-ips'') = ''/region-ips''" "urlPath (u @ ''/reaper-ips'') = ''/reaper-ips''"
  by (simp_all add: urlPath_def)

lemma urlPath_hostUrl [simp]:
  "urlPath (hostUrl h ''/seeds'') = ''/seeds''" "urlPath (hostUrl h ''/dcs'') = ''/dcs''"
  "urlPath (hostUrl h ''/region-ready'') = ''/region-ready''"
  "urlPath (hostUrl h ''/reaper-ready'') = ''/reaper-ready''"
  "urlPath (hostUrl h ''/region-ips'') = ''/region-ips''" "urlPath (hostUrl h ''/reaper-ips'') = ''/reaper-ips''"
  by (simp_all add: urlPath_def hostUrl_def)

lemma pathRoute_simps [simp]:
  "pathRoute ''/seeds'' = Some Seeds" "pathRoute ''/dcs'' = Some DCs"
  "pathRoute ''/region-ready'' = Some RegionReady" "pathRoute ''/reaper-ready'' = Some ReaperReady"
  "pathRoute ''/region-ips'' = Some RegionIPs" "pathRoute ''/reaper-ips'' = Some ReaperIPs"
  by (simp_all add: pathRoute_def)

lemma parseBool_formatBool [simp]: "parseBool (formatBool b) = Some b"
  by (simp add: parseBool_def formatBool_def)

lemma trimSpace_formatBool [simp]: "trimSpace (formatBool b) = formatBool b"
  by (cases b) (simp_all add: formatBool_def trimSpace_def trimLeft_def trimRight_def isSpace_def)

lemma parseFlag_formatBool [simp]: "parseFlag (formatBool b) = Inr b"
  by (simp add: parseFlag_def)

lemma middleware_rsp [simp]: "fst (prometheusMiddleware h r p) = fst (h (pstate p))"
  by (rule middleware_fst)

lemmas client_defs = putResource_def getResource_def newRequestWithAuth_def clientDo_def clientUrl_def
  toProber_def UpdateSeeds_def GetSeeds_def UpdateDCs_def GetDCs_def UpdateRegionStatus_def
  RegionReadyAt_def UpdateReaperStatus_def ReaperReadyAt_def UpdateRegionIPs_def GetRegionIPs_def
  UpdateReaperIPs_def GetReaperIPs_def BasicAuth_if authorized_def Let_def

interpretation seedsReg: register "UpdateSeeds (toProber C E) a" "GetSeeds (toProber C E) b host"
  "\<lambda>p. trusted a p \<and> trusted b p \<and> codecsAgree C E" "\<lambda>p. ps_seeds (pstate p)" "\<lambda>v. v" for C E a b host
  by unfold_locales (auto simp: client_defs trusted_def codecsAgree_def handler_defs)

interpretation dcsReg: register "UpdateDCs (toProber C E) a" "GetDCs (toProber C E) b host"
  "\<lambda>p. trusted a p \<and> trusted b p \<and> codecsAgree C E" "\<lambda>p. map fromProberDC (ps_dcs (pstate p))"
  "map (fromProberDC \<circ> toProberDC)" for C E a b host
  by unfold_locales (auto simp: client_defs trusted_def codecsAgree_def handler_defs)

interpretation regionReadyReg: register "UpdateRegionStatus (toProber C E) a" "RegionReadyAt (toProber C E) b host"
  "\<lambda>p. trusted a p \<and> trusted b p" "\<lambda>p. ps_regionReady (pstate p)" "\<lambda>v. v" for C E a b host
  by unfold_locales (auto simp: client_defs trusted_def handler_defs)

interpretation reaperReadyReg: register "UpdateReaperStatus (toProber C E) a" "ReaperReadyAt (toProber C E) b host"
  "\<lambda>p. trusted a p \<and> trusted b p" "\<lambda>p. ps_reaperReady (pstate p)" "\<lambda>v. v" for C E a b host
  by unfold_locales (auto simp: client_defs trusted_def handler_defs)

interpretation regionIPsReg: register "UpdateRegionIPs (toProber C E) a" "GetRegionIPs (toProber C E) b host"
  "\<lambda>p. trusted a p \<and> trusted b p \<and> codecsAgree C E" "\<lambda>p. ps_regionIPs (pstate p)" "\<lambda>v. v" for C E a b host
  by unfold_locales (auto simp: client_defs trusted_def codecsAgree_def handler_defs)

interpretation reaperIPsReg: register "UpdateReaperIPs (toProber C E) a" "GetReaperIPs (toProber C E) b host"
  "\<lambda>p. trusted a p \<and> trusted b p \<and> codecsAgree C E" "\<lambda>p. ps_reaperIPs (pstate p)" "\<lambda>v. v" for C E a b host
  by unfold_locales (auto simp: client_defs trusted_def codecsAgree_def handler_defs)

section \<open>A codec that keeps the promise\<close>

fun encodeString :: "string \<Rightarrow> string" where
  "encodeString [] = ''0''"
| "encodeString (c # s) = CHR ''1'' # c # encodeString s"

fun decodeStrings :: "string \<Rightarrow> string \<Rightarrow> string list" where
  "decodeStrings cur [] = []"
| "decodeStrings cur [x] = [cur]"
| "decodeStrings cur (x # c # r) =
     (if x = CHR ''1'' then decodeStrings (cur @ [c]) r else cur # decodeStrings [] (c # r))"

definition encodeStrings :: "string list \<Rightarrow> string" where
  "encodeStrings xs = concat (map encodeString xs)"

definition decodeInt :: "string \<Rightarrow> int" where
  "decodeInt s = (if take 1 s = ''-'' then - int (stringToNat (drop 1 s)) else int (stringToNat s))"

fun pairUp :: "string list \<Rightarrow> proberDC list" where
  "pairUp (a # b # r) = \<lparr>pdc_name = a, pdc_replicas = decodeInt b\<rparr> # pairUp r"
| "pairUp _ = []"

definition encodeDCs :: "proberDC list \<Rightarrow> string" where
  "encodeDCs ds = encodeStrings (concat (map (\<lambda>d. [pdc_name d, itoa (pdc_replicas d)]) ds))"

definition plainCodec :: codec where
  "plainCodec = \<lparr>marshalStrings = encodeStrings, unmarshalStrings = (\<lambda>s. Some (decodeStrings [] s)),
     marshalDCs = encodeDCs, unmarshalDCs = (\<lambda>s. Some (pairUp (decodeStrings [] s))),
     marshalStates = (\<lambda>_. ''''), metricsPage = (\<lambda>_. ''''), methodNotAllowed = reply 405 ''''\<rparr>"

definition plainEnv :: "proberServer httpEnv" where
  "plainEnv = \<lparr>newRequest = (\<lambda>_ _. Inr ()), transport = (\<lambda>_ p. (Inl (Err ''no route''), p)),
     statusText = (\<lambda>_. ''''), jsonStrings = encodeStrings, parseStrings = (\<lambda>s. Inr (decodeStrings [] s)),
     jsonDCs = (\<lambda>ds. encodeDCs (map toProberDC ds)),
     parseDCs = (\<lambda>s. Inr (map fromProberDC (pairUp (decodeStrings [] s))))\<rparr>"

lemma decode_encodeString: "decodeStrings cur (encodeString s @ r) = (cur @ s) # decodeStrings [] r"
proof (induction s arbitrary: cur)
  case Nil
  show ?case by (cases r) auto
qed simp

lemma decode_encodeStrings [simp]: "decodeStrings [] (encodeStrings xs) = xs"
  by (induction xs) (simp_all add: encodeStrings_def decode_encodeString)

lemma natToString_no_dash: "take (Suc 0) (natToString n) \<noteq> ''-''"
  using natToString_digits [of "hd (natToString n)" n] by (cases "natToString n") auto

lemma decodeInt_itoa [simp]: "decodeInt (itoa n) = n"
  by (auto simp: decodeInt_def itoa_def stringToNat_natToString natToString_no_dash)

lemma decode_encodeDCs [simp]: "pairUp (decodeStrings [] (encodeDCs ds)) = ds"
  unfolding encodeDCs_def decode_encodeStrings by (induction ds) auto

lemma plain_codecs_agree: "codecsAgree plainCodec plainEnv"
  by (simp add: codecsAgree_def plainCodec_def plainEnv_def)

section \<open>Properties\<close>

definition sampleClient :: proberClient where
  "sampleClient = NewProberClient ''http://c-cassandra-prober.ns.svc.cluster.local'' ''u'' ''p''"

lemma sampleClient_trusted: "trusted sampleClient (NewProber ''u'' ''p'' j k)"
  by (simp add: trusted_def sampleClient_def NewProberClient_def NewProber_def)

text \<open>C5: Seeds exchanged between regions: after any sequence of \<open>UpdateSeeds\<close> by the operator of the
  prober's region, \<open>GetSeeds\<close> by any operator that knows the credentials returns the last list, provided
  the JSON package decodes what it encodes.\<close>

theorem seeds_last_update_read_back:
  assumes "codecsAgree C E" "trusted a p" "trusted b p" "updates \<noteq> []"
  shows "result (andThen (forEach (UpdateSeeds (toProber C E) a) updates)
      (\<lambda>_. GetSeeds (toProber C E) b host)) p = Inr (last updates)"
  using assms by (intro seedsReg.last_put_wins) auto

theorem seeds_last_update_read_back_witness:
  "result (andThen (forEach (UpdateSeeds (toProber plainCodec plainEnv) sampleClient) [[''10.0.0.1''], [''10.0.0.2'', ''10.0.0.3'']])
      (\<lambda>_. GetSeeds (toProber plainCodec plainEnv) sampleClient ''prober.example.org''))
     (NewProber ''u'' ''p'' '''' '''') = Inr [''10.0.0.2'', ''10.0.0.3'']"
  using seeds_last_update_read_back [OF plain_codecs_agree sampleClient_trusted sampleClient_trusted,
      of "[[''10.0.0.1''], [''10.0.0.2'', ''10.0.0.3'']]" "''prober.example.org''" "''''" "''''"]
  by (simp only: last.simps list.distinct not_False_eq_True if_True if_False simp_thms)

text \<open>Datacentres exchanged between regions keep their names, order and replica counts; nil replicas come
  back as zero, and affinity and tolerations do not travel.\<close>

theorem dcs_read_back:
  assumes "codecsAgree C E" "trusted a p" "trusted b p"
    and "result (andThen (UpdateDCs (toProber C E) a dcs) (\<lambda>_. GetDCs (toProber C E) b host)) p = Inr dcs'"
  shows "map dc_name dcs' = map dc_name dcs \<and>
    map dc_replicas dcs' = map (\<lambda>d. Some (case dc_replicas d of None \<Rightarrow> 0 | Some n \<Rightarrow> n)) dcs"
proof -
  from assms(1-3) have "result (andThen (UpdateDCs (toProber C E) a dcs) (\<lambda>_. GetDCs (toProber C E) b host)) p
      = Inr (map (fromProberDC \<circ> toProberDC) dcs)"
    by (intro dcsReg.put_get) auto
  with assms(4) have dcs': "dcs' = map (fromProberDC \<circ> toProberDC) dcs" by simp
  show ?thesis
    by (simp add: dcs' fromProberDC_def toProberDC_def)
qed

definition sampleDC :: dc where
  "sampleDC = \<lparr>dc_name = ''dc1'', dc_replicas = None, dc_affinity = Some ''affinity'', dc_tolerations = []\<rparr>"

theorem dcs_read_back_witness:
  "\<exists>dcs'. result (andThen (UpdateDCs (toProber plainCodec plainEnv) sampleClient [sampleDC])
        (\<lambda>_. GetDCs (toProber plainCodec plainEnv) sampleClient ''h'')) (NewProber ''u'' ''p'' '''' '''') = Inr dcs' \<and>
     map dc_replicas dcs' = [Some 0]"
proof -
  let ?p = "NewProber ''u'' ''p'' '''' ''''"
  have "result (andThen (UpdateDCs (toProber plainCodec plainEnv) sampleClient [sampleDC])
        (\<lambda>_. GetDCs (toProber plainCodec plainEnv) sampleClient ''h'')) ?p
      = Inr (map (fromProberDC \<circ> toProberDC) [sampleDC])"
    using plain_codecs_agree sampleClient_trusted by (intro dcsReg.put_get) auto
  from dcs_read_back [OF plain_codecs_agree sampleClient_trusted sampleClient_trusted this] this
  show ?thesis by (simp add: sampleDC_def)
qed

text \<open>The update methods do not look at the status of the answer: with credentials the prober refuses,
  every update reports success although the prober has not changed.\<close>

theorem refused_update_reports_success:
  assumes "\<not> trusted a p"
  shows "result (UpdateSeeds (toProber C E) a seeds) p = Inr () \<and>
    result (UpdateDCs (toProber C E) a dcs) p = Inr () \<and>
    result (UpdateRegionStatus (toProber C E) a ready) p = Inr () \<and>
    world (UpdateSeeds (toProber C E) a seeds) p = p \<and>
    world (UpdateDCs (toProber C E) a dcs) p = p \<and>
    world (UpdateRegionStatus (toProber C E) a ready) p = p"
  using assms by (auto simp: client_defs trusted_def)

theorem refused_update_reports_success_witness:
  "\<forall>C. result (UpdateRegionStatus (toProber C plainEnv) sampleClient True) (NewProber ''u'' ''rotated'' '''' '''') = Inr () \<and>
     world (UpdateRegionStatus (toProber C plainEnv) sampleClient True) (NewProber ''u'' ''rotated'' '''' '''') =
       NewProber ''u'' ''rotated'' '''' ''''"
proof -
  have "\<not> trusted sampleClient (NewProber ''u'' ''rotated'' '''' '''')"
    by (simp add: trusted_def sampleClient_def NewProberClient_def NewProber_def)
  from refused_update_reports_success [OF this] show ?thesis by blast
qed

end
