(* ===== verification/Jobs.thy ===== *)
theory Jobs
  imports Names "HOL-Library.Multiset"
begin

text \<open>
  The job manager, \<open>controllers/jobs/manager.go\<close>: background jobs that the reconciler starts (a node
  decommission) and that send an event back when they end.
  State: \<open>jobsList\<close>, the mutex-protected map of the code, and the goroutines in flight. \<open>Run\<close> starts two
  of them per job; \<open>jm_running\<close> holds the jobs whose function has not returned. When it returns, the two
  meet on the channel \<open>finished\<close>: then one has an event to send (\<open>toNotify\<close>) and the other an exit error to
  record (\<open>toStore\<close>), in any order. \<open>jm_events\<close> is the channel of reconcile requests; \<open>jm_started\<close> is a log
  of the accepted calls, for the statements only.
  The periodic log message of a running job has no effect on the state and is left out.
\<close>

section \<open>State and operations\<close>

record job =
  jb_finished :: "nat option"
  jb_exitErr :: "go_error option"

record 'o jobManager =
  jobsList :: "string \<rightharpoonup> job"
  jm_running :: "(string \<times> 'o) list"
  toNotify :: "'o list"
  toStore :: "(string \<times> go_error option) list"
  jm_events :: "'o list"
  jm_started :: "(string \<times> 'o) list"

definition NewJobManager :: "'o jobManager" where
  "NewJobManager = \<lparr>jobsList = Map.empty, jm_running = [], toNotify = [], toStore = [], jm_events = [], jm_started = []\<rparr>"

definition Run :: "string \<Rightarrow> 'o \<Rightarrow> 'o jobManager \<Rightarrow> (go_error + unit) \<times> 'o jobManager" where
  "Run n notifyObj j =
     (if jobsList j n \<noteq> None then (Inl (Err (''job '' @ n @ '' already exists'')), j)
      else (Inr (), j\<lparr>jm_running := jm_running j @ [(n, notifyObj)], jm_started := jm_started j @ [(n, notifyObj)]\<rparr>))"

definition ExistsJob :: "string \<Rightarrow> 'o jobManager \<Rightarrow> bool" where
  "ExistsJob n j \<longleftrightarrow> jobsList j n \<noteq> None"

definition IsRunning :: "string \<Rightarrow> 'o jobManager \<Rightarrow> bool" where
  "IsRunning n j = (case jobsList j n of None \<Rightarrow> False | Some x \<Rightarrow> jb_finished x = None)"

definition RemoveJob :: "string \<Rightarrow> 'o jobManager \<Rightarrow> (go_error + unit) \<times> 'o jobManager" where
  "RemoveJob n j =
     (case jobsList j n of
        None \<Rightarrow> (Inr (), j)
      | Some x \<Rightarrow>
          if jb_finished x = None
          then (Inl (Err (''job '' @ n @ '' is still running, removing running jobs is not allowed'')), j)
          else (Inr (), j\<lparr>jobsList := (jobsList j)(n := None)\<rparr>))"

text \<open>The end of the inner goroutine: record how the job ended, if the list has it.\<close>

definition storeExit :: "nat \<Rightarrow> string \<Rightarrow> go_error option \<Rightarrow> 'o jobManager \<Rightarrow> 'o jobManager" where
  "storeExit now n e j =
     (case jobsList j n of
        None \<Rightarrow> j
      | Some x \<Rightarrow> j\<lparr>jobsList := (jobsList j)(n \<mapsto> x\<lparr>jb_exitErr := e, jb_finished := Some now\<rparr>)\<rparr>)"

section \<open>Interleavings\<close>

text \<open>The steps of the goroutines: the function of a job returns, its event is sent, its exit is recorded.\<close>

inductive goroutineStep :: "'o jobManager \<Rightarrow> 'o jobManager \<Rightarrow> bool" where
  return: "jm_running j = xs @ (n, obj) # ys \<Longrightarrow>
    goroutineStep j (j\<lparr>jm_running := xs @ ys, toNotify := obj # toNotify j, toStore := (n, e) # toStore j\<rparr>)"
| notify: "toNotify j = xs @ obj # ys \<Longrightarrow> goroutineStep j (j\<lparr>toNotify := xs @ ys, jm_events := jm_events j @ [obj]\<rparr>)"
| store: "toStore j = xs @ (n, e) # ys \<Longrightarrow> goroutineStep j (storeExit now n e (j\<lparr>toStore := xs @ ys\<rparr>))"

inductive_cases goroutineStepE: "goroutineStep j j'"

inductive jobStep :: "'o jobManager \<Rightarrow> 'o jobManager \<Rightarrow> bool" where
  run: "jobStep j (snd (Run n obj j))"
| remove: "jobStep j (snd (RemoveJob n j))"
| goroutine: "goroutineStep j j' \<Longrightarrow> jobStep j j'"

inductive jobsReachable :: "'o jobManager \<Rightarrow> bool" where
  start: "jobsReachable NewJobManager"
| step: "jobsReachable j \<Longrightarrow> jobStep j j' \<Longrightarrow> jobsReachable j'"

inductive_cases jobStepE: "jobStep j j'"

text \<open>Every accepted job is running, waiting to notify, or has notified.\<close>

definition jobsAccounted :: "'o jobManager \<Rightarrow> bool" where
  "jobsAccounted j \<longleftrightarrow>
     image_mset snd (mset (jm_started j)) =
       image_mset snd (mset (jm_running j)) + mset (toNotify j) + mset (jm_events j)"

lemma storeExit_simps [simp]:
  "jm_started (storeExit now n e j) = jm_started j" "jm_running (storeExit now n e j) = jm_running j"
  "toNotify (storeExit now n e j) = toNotify j" "jm_events (storeExit now n e j) = jm_events j"
  "toStore (storeExit now n e j) = toStore j"
  by (auto simp: storeExit_def split: option.splits)

lemma RemoveJob_simps [simp]:
  "jm_started (snd (RemoveJob n j)) = jm_started j" "jm_running (snd (RemoveJob n j)) = jm_running j"
  "toNotify (snd (RemoveJob n j)) = toNotify j" "jm_events (snd (RemoveJob n j)) = jm_events j"
  by (auto simp: RemoveJob_def split: option.splits)

lemma goroutineStep_accounted: "goroutineStep j j' \<Longrightarrow> jobsAccounted j \<Longrightarrow> jobsAccounted j'"
  by (erule goroutineStepE) (auto simp: jobsAccounted_def)

lemma jobStep_accounted: "jobStep j j' \<Longrightarrow> jobsAccounted j \<Longrightarrow> jobsAccounted j'"
  by (erule jobStepE) (auto simp: jobsAccounted_def Run_def dest: goroutineStep_accounted [unfolded jobsAccounted_def])

lemma reachable_accounted: "jobsReachable j \<Longrightarrow> jobsAccounted j"
  by (induction rule: jobsReachable.induct) (auto simp: NewJobManager_def jobsAccounted_def
      intro: jobStep_accounted [unfolded jobsAccounted_def])

lemma goroutineStep_list_empty: "goroutineStep j j' \<Longrightarrow> jobsList j = Map.empty \<Longrightarrow> jobsList j' = Map.empty"
  by (erule goroutineStepE) (auto simp: storeExit_def)

lemma jobStep_list_empty: "jobStep j j' \<Longrightarrow> jobsList j = Map.empty \<Longrightarrow> jobsList j' = Map.empty"
  by (erule jobStepE) (auto simp: Run_def RemoveJob_def goroutineStep_list_empty)

text \<open>What the goroutines have left to do: a running job returns, notifies and records.\<close>

definition jobWork :: "'o jobManager \<Rightarrow> nat" where
  "jobWork j = 3 * length (jm_running j) + length (toNotify j) + length (toStore j)"

lemma goroutineStep_work: "goroutineStep j j' \<Longrightarrow> jobWork j = Suc (jobWork j')"
  by (erule goroutineStepE) (auto simp: jobWork_def)

lemma goroutineStep_started: "goroutineStep j j' \<Longrightarrow> jm_started j' = jm_started j"
  by (erule goroutineStepE) auto

lemma goroutineStep_possible: "jobWork j \<noteq> 0 \<Longrightarrow> \<exists>j'. goroutineStep j j'"
proof (cases "jm_running j", cases "toNotify j", cases "toStore j")
  show "jobWork j \<noteq> 0 \<Longrightarrow> jm_running j = [] \<Longrightarrow> toNotify j = [] \<Longrightarrow> toStore j = [] \<Longrightarrow> \<exists>j'. goroutineStep j j'"
    by (simp add: jobWork_def)
next
  fix q qs assume "toStore j = q # qs"
  then show "\<exists>j'. goroutineStep j j'" using goroutineStep.store [of j "[]" "fst q" "snd q" qs] by auto
next
  fix q qs assume "toNotify j = q # qs"
  then show "\<exists>j'. goroutineStep j j'" using goroutineStep.notify [of j "[]" q qs] by auto
next
  fix q qs assume "jm_running j = q # qs"
  then show "\<exists>j'. goroutineStep j j'" using goroutineStep.return [of j "[]" "fst q" "snd q" qs] by auto
qed

lemma goroutineSteps_run:
  "(goroutineStep ^^ k) j j' \<Longrightarrow>
     jobWork j = k + jobWork j' \<and> jm_started j' = jm_started j \<and> (jobsAccounted j \<longrightarrow> jobsAccounted j')"
  by (induction k arbitrary: j')
    (auto dest: goroutineStep_work goroutineStep_started intro: goroutineStep_accounted)

lemma reachable_list_empty: "jobsReachable j \<Longrightarrow> jobsList j = Map.empty"
  by (induction rule: jobsReachable.induct) (auto simp: NewJobManager_def jobStep_list_empty)

section \<open>Properties\<close>

text \<open>C11: No job is lost and none notifies twice: under every interleaving, the objects of the accepted jobs
  are, with multiplicity, those of the running jobs, of the pending notifications and of the events sent.\<close>

theorem job_notifies_exactly_once:
  assumes "jobsReachable j"
  shows "image_mset snd (mset (jm_started j)) =
    image_mset snd (mset (jm_running j)) + mset (toNotify j) + mset (jm_events j)"
  using reachable_accounted [OF assms] by (simp add: jobsAccounted_def)

lemma sample_jobs_reachable:
  "jobsReachable (snd (Run ''drain'' (7::nat) NewJobManager))"
  by (rule jobsReachable.step [OF jobsReachable.start jobStep.run])

theorem job_notifies_exactly_once_witness:
  "image_mset snd (mset (jm_started (snd (Run ''drain'' (7::nat) NewJobManager)))) =
    image_mset snd (mset (jm_running (snd (Run ''drain'' 7 NewJobManager)))) +
    mset (toNotify (snd (Run ''drain'' 7 NewJobManager))) + mset (jm_events (snd (Run ''drain'' 7 NewJobManager)))"
  by (rule job_notifies_exactly_once [OF sample_jobs_reachable])

text \<open>C21: Every job notifies in the end, whatever the schedule: the goroutines can take only finitely many steps, three for
  a running job, as long as work is left one of them can move, and once they have all stopped the events sent are the
  objects of all the accepted jobs. The functions of the jobs are assumed to return.\<close>

theorem jobs_all_notify:
  assumes "jobsReachable j" "(goroutineStep ^^ k) j j'"
  shows "k \<le> 3 * length (jm_running j) + length (toNotify j) + length (toStore j) \<and>
    ((\<nexists>j''. goroutineStep j' j'') \<longrightarrow> mset (jm_events j') = image_mset snd (mset (jm_started j)))"
proof -
  note run = goroutineSteps_run [OF assms(2)]
  have "jobWork j' = 0" if "\<nexists>j''. goroutineStep j' j''" using goroutineStep_possible that by blast
  with run reachable_accounted [OF assms(1)] show ?thesis by (auto simp: jobWork_def jobsAccounted_def)
qed

theorem jobs_all_notify_witness:
  "\<exists>j'. (goroutineStep ^^ 3) (snd (Run ''drain'' (7::nat) NewJobManager)) j' \<and> jm_events j' = [7]"
proof -
  let ?j = "snd (Run ''drain'' (7::nat) NewJobManager)"
  define a where "a = ?j\<lparr>jm_running := [], toNotify := [7], toStore := [(''drain'', None)]\<rparr>"
  define b where "b = a\<lparr>toNotify := [], jm_events := [7]\<rparr>"
  define c where "c = storeExit 0 ''drain'' None (b\<lparr>toStore := []\<rparr>)"
  have "goroutineStep ?j a" "goroutineStep a b" "goroutineStep b c"
    using goroutineStep.return [of ?j "[]" "''drain''" 7 "[]" None] goroutineStep.notify [of a "[]" 7 "[]"]
      goroutineStep.store [of b "[]" "''drain''" None "[]" 0]
    by (simp_all add: Run_def NewJobManager_def a_def b_def c_def)
  then have run: "(goroutineStep ^^ 3) ?j c" by (auto simp: numeral_3_eq_3 relcompp_apply)
  have "\<nexists>j'. goroutineStep c j'"
    by (auto elim!: goroutineStepE simp: a_def b_def c_def)
  with jobs_all_notify [OF sample_jobs_reachable run] have "mset (jm_events c) = {#7#}"
    by (simp add: Run_def NewJobManager_def)
  with run show ?thesis by (auto simp: mset_single_iff)
qed

text \<open>The manager never refuses a job: \<open>Run\<close> does not enter the job in \<open>jobsList\<close>, so in every reachable
  state \<open>ExistsJob\<close> and \<open>IsRunning\<close> answer no for a job that is running, and a second job of the same name
  is started beside it.\<close>

theorem running_job_started_twice:
  assumes "jobsReachable j" "(n, obj) \<in> set (jm_running j)"
  shows "\<not> ExistsJob n j \<and> \<not> IsRunning n j \<and> fst (Run n obj' j) = Inr () \<and>
    count (mset (map fst (jm_running (snd (Run n obj' j))))) n \<ge> 2"
  using reachable_list_empty [OF assms(1)] assms(2)
  by (auto simp: ExistsJob_def IsRunning_def Run_def in_set_conv_decomp)

theorem running_job_started_twice_witness:
  "count (mset (map fst (jm_running (snd (Run ''drain'' (8::nat) (snd (Run ''drain'' 7 NewJobManager))))))) ''drain'' \<ge> 2"
proof -
  have "(''drain'', 7::nat) \<in> set (jm_running (snd (Run ''drain'' 7 NewJobManager)))"
    by (simp add: Run_def NewJobManager_def)
  from running_job_started_twice [OF sample_jobs_reachable this] show ?thesis by blast
qed

end
