(* ===== verification/Go_Parse.thy ===== *)
theory Go_Parse
  imports Prelude
begin

text \<open>
  What the operator uses of the parsers in Go's standard library: whether \<open>time.ParseDuration\<close> and \<open>time.Parse\<close>
  accept a string, and the value of \<open>strconv.ParseFloat(s, 32)\<close> as far as the range check of the webhook sees it.
  Fractions of a duration are exact here, while Go computes them in floating point; this can only matter within
  a nanosecond of the largest duration. Hexadecimal floating point notation is not covered: it counts as an error. A number too large for 32 bits is an error
  of the parser in Go and out of range here, which the webhook does not tell apart.
\<close>

section \<open>Digits\<close>

definition isDigit :: "char \<Rightarrow> bool" where
  "isDigit c \<longleftrightarrow> 48 \<le> (of_char c :: nat) \<and> (of_char c :: nat) \<le> 57"

definition digits :: "string \<Rightarrow> string" where "digits s = takeWhile isDigit s"
definition afterDigits :: "string \<Rightarrow> string" where "afterDigits s = dropWhile isDigit s"

section \<open>Durations\<close>

definition unitNanos :: "string \<Rightarrow> nat option" where
  "unitNanos u =
     (if u = ''ns'' then Some 1 else if u = ''us'' then Some 1000 else if u = [CHR 0xC2, CHR 0xB5, CHR ''s''] then Some 1000
      else if u = [CHR 0xCE, CHR 0xBC, CHR ''s''] then Some 1000 else if u = ''ms'' then Some 1000000
      else if u = ''s'' then Some 1000000000 else if u = ''m'' then Some 60000000000
      else if u = ''h'' then Some 3600000000000 else None)"

definition maxUint63 :: nat where "maxUint63 = 2 ^ 63"

text \<open>One number with its unit: its nanoseconds and the rest of the string.\<close>

definition durationPart :: "string \<Rightarrow> (nat \<times> string) option" where
  "durationPart s =
     (let whole = digits s; s1 = afterDigits s;
          (frac, s2) = (case s1 of [] \<Rightarrow> ('''', s1)
            | c # r \<Rightarrow> if c = CHR ''.'' then (digits r, afterDigits r) else ('''', s1));
          u = takeWhile (\<lambda>c. c \<noteq> CHR ''.'' \<and> \<not> isDigit c) s2;
          s3 = dropWhile (\<lambda>c. c \<noteq> CHR ''.'' \<and> \<not> isDigit c) s2 in
      if (whole = '''' \<and> frac = '''') \<or> stringToNat whole > maxUint63 then None
      else case unitNanos u of None \<Rightarrow> None
        | Some n \<Rightarrow>
            let v = stringToNat whole * n + (stringToNat frac * n) div 10 ^ length frac in
            if v > maxUint63 then None else Some (v, s3))"

lemma durationPart_shorter: "durationPart s = Some (v, r) \<Longrightarrow> length r < length s"
proof -
  assume a: "durationPart s = Some (v, r)"
  let ?p = "\<lambda>c. c \<noteq> CHR ''.'' \<and> \<not> isDigit c"
  let ?split = "case afterDigits s of [] \<Rightarrow> ('''', afterDigits s)
      | c # r \<Rightarrow> if c = CHR ''.'' then (digits r, afterDigits r) else ('''', afterDigits s)"
  obtain frac s2 where fs: "?split = (frac, s2)" using prod.exhaust by blast
  have d: "length (afterDigits t) \<le> length t" for t
    by (simp add: afterDigits_def length_dropWhile_le)
  have l: "length s2 \<le> length s"
  proof (cases "afterDigits s")
    case (Cons c r)
    then have "length (afterDigits s) = Suc (length r)" by simp
    moreover have "s2 = afterDigits r \<or> s2 = afterDigits s" using fs Cons by (simp split: if_splits)
    ultimately show ?thesis using d [of s] d [of r] by auto
  qed (use fs in simp)
  from a fs have u: "unitNanos (takeWhile ?p s2) \<noteq> None" and r: "r = dropWhile ?p s2"
    by (auto simp: durationPart_def Let_def split: if_splits option.splits)
  from u have "takeWhile ?p s2 \<noteq> []" by (auto simp: unitNanos_def)
  then have "length (takeWhile ?p s2) > 0" by simp
  moreover have "length (takeWhile ?p s2) + length (dropWhile ?p s2) = length s2"
    by (metis length_append takeWhile_dropWhile_id)
  ultimately show ?thesis using l unfolding r by linarith
qed

function durationParts :: "string \<Rightarrow> nat \<Rightarrow> nat option" where
  "durationParts s d =
     (if s = [] then Some d
      else case durationPart s of None \<Rightarrow> None
        | Some (v, r) \<Rightarrow> if d + v > maxUint63 then None else durationParts r (d + v))"
  by auto
termination
  by (relation "measure (\<lambda>(s, d). length s)") (auto simp: durationPart_shorter)

declare durationParts.simps [simp del]

definition ParseDurationOk :: "string \<Rightarrow> bool" where
  "ParseDurationOk s =
     (let neg = (s \<noteq> [] \<and> hd s = CHR ''-'');
          t = (if s \<noteq> [] \<and> (hd s = CHR ''-'' \<or> hd s = CHR ''+'') then tl s else s) in
      if t = ''0'' then True
      else if t = [] then False
      else case durationParts t 0 of None \<Rightarrow> False | Some d \<Rightarrow> neg \<or> d < maxUint63)"

section \<open>Dates in the layout 2006-01-02T15:04:05\<close>

text \<open>\<open>getnum\<close>: two digits, or one where the layout allows it.\<close>

fun getnum :: "bool \<Rightarrow> string \<Rightarrow> (nat \<times> string) option" where
  "getnum fixed (a # b # s) =
     (if \<not> isDigit a then None else if isDigit b then Some (10 * digitVal a + digitVal b, s)
      else if fixed then None else Some (digitVal a, b # s))"
| "getnum fixed [a] = (if isDigit a \<and> \<not> fixed then Some (digitVal a, []) else None)"
| "getnum fixed [] = None"

definition expect :: "char \<Rightarrow> string \<Rightarrow> string option" where
  "expect c s = (case s of [] \<Rightarrow> None | x # r \<Rightarrow> if x = c then Some r else None)"

definition year4 :: "string \<Rightarrow> (nat \<times> string) option" where
  "year4 s = (if length s < 4 \<or> \<not> list_all isDigit (take 4 s) then None else Some (stringToNat (take 4 s), drop 4 s))"

definition leapYear :: "nat \<Rightarrow> bool" where
  "leapYear y \<longleftrightarrow> 4 dvd y \<and> (\<not> 100 dvd y \<or> 400 dvd y)"

definition daysIn :: "nat \<Rightarrow> nat \<Rightarrow> nat" where
  "daysIn m y = (if m = 2 then if leapYear y then 29 else 28 else if m \<in> {4, 6, 9, 11} then 30 else 31)"

text \<open>Seconds may carry a fraction even though the layout has none.\<close>

definition afterFraction :: "string \<Rightarrow> string" where
  "afterFraction s = (case s of c # d # r \<Rightarrow> if (c = CHR ''.'' \<or> c = CHR '','') \<and> isDigit d then afterDigits (d # r) else s
     | _ \<Rightarrow> s)"

definition ParseISO :: "string \<Rightarrow> (nat \<times> nat \<times> nat \<times> nat \<times> nat \<times> nat) option" where
  "ParseISO s =
     Option.bind (year4 s) (\<lambda>(y, s). Option.bind (expect (CHR ''-'') s) (\<lambda>s.
     Option.bind (getnum True s) (\<lambda>(mo, s). Option.bind (expect (CHR ''-'') s) (\<lambda>s.
     Option.bind (getnum True s) (\<lambda>(d, s). Option.bind (expect (CHR ''T'') s) (\<lambda>s.
     Option.bind (getnum False s) (\<lambda>(h, s). Option.bind (expect (CHR '':'') s) (\<lambda>s.
     Option.bind (getnum True s) (\<lambda>(mi, s). Option.bind (expect (CHR '':'') s) (\<lambda>s.
     Option.bind (getnum True s) (\<lambda>(sec, s).
       if 1 \<le> mo \<and> mo \<le> 12 \<and> 1 \<le> d \<and> d \<le> daysIn mo y \<and> h < 24 \<and> mi < 60 \<and> sec < 60 \<and> afterFraction s = []
       then Some (y, mo, d, h, mi, sec) else None)))))))))))"

section \<open>Floating point numbers\<close>

text \<open>A decimal number as an integer and a power of ten; NaN and the infinities.\<close>

datatype floatVal = NaN | Infinity bool | Decimal bool nat int

definition exponentPart :: "string \<Rightarrow> int option" where
  "exponentPart s =
     (case s of [] \<Rightarrow> Some 0
      | e # r \<Rightarrow>
          if e \<noteq> CHR ''e'' \<and> e \<noteq> CHR ''E'' then None
          else let neg = (r \<noteq> [] \<and> hd r = CHR ''-'');
                   t = (if r \<noteq> [] \<and> (hd r = CHR ''-'' \<or> hd r = CHR ''+'') then tl r else r) in
               if t = [] \<or> \<not> list_all isDigit t then None
               else Some (if neg then - int (stringToNat t) else int (stringToNat t)))"

definition ParseFloat :: "string \<Rightarrow> floatVal option" where
  "ParseFloat s =
     (let neg = (s \<noteq> [] \<and> hd s = CHR ''-'');
          t = (if s \<noteq> [] \<and> (hd s = CHR ''-'' \<or> hd s = CHR ''+'') then tl s else s) in
      if toLower s = ''nan'' then Some NaN
      else if toLower t = ''inf'' \<or> toLower t = ''infinity'' then Some (Infinity neg)
      else let whole = digits t; t1 = afterDigits t;
               (frac, t2) = (case t1 of [] \<Rightarrow> ('''', t1)
                 | c # r \<Rightarrow> if c = CHR ''.'' then (digits r, afterDigits r) else ('''', t1)) in
        if whole = '''' \<and> frac = '''' then None
        else map_option (\<lambda>e. Decimal neg (stringToNat (whole @ frac)) (e - int (length frac))) (exponentPart t2))"

text \<open>
  The comparisons of the 32-bit value with the constants 0.1 and 1.0. The 32-bit numbers next to 0.1 are
  13421772 / 2^27 and 13421773 / 2^27, and the tie between them goes to the first, which is below 0.1; the
  32-bit number after 1 is 1 + 2^-23, and the tie goes to 1.
\<close>

definition decimalLe :: "nat \<Rightarrow> int \<Rightarrow> nat \<Rightarrow> nat \<Rightarrow> bool" where
  "decimalLe m e num den \<longleftrightarrow>
     (if e \<ge> 0 then m * 10 ^ nat e * den \<le> num else m * den \<le> num * 10 ^ nat (- e))"

definition below01 :: "floatVal \<Rightarrow> bool" where
  "below01 v \<longleftrightarrow> (case v of NaN \<Rightarrow> False | Infinity neg \<Rightarrow> neg | Decimal neg m e \<Rightarrow> neg \<or> decimalLe m e 26843545 (2 ^ 28))"

definition above1 :: "floatVal \<Rightarrow> bool" where
  "above1 v \<longleftrightarrow> (case v of NaN \<Rightarrow> False | Infinity neg \<Rightarrow> \<not> neg
     | Decimal neg m e \<Rightarrow> \<not> neg \<and> \<not> decimalLe m e (2 ^ 24 + 1) (2 ^ 24))"

text \<open>
  \<open>strconv.ParseFloat(s, 64)\<close>: the value it returns, also next to an error (zero for a syntax error, an infinity for a
  value out of range). A finite value is \<open>F64 neg q k\<close>, the number q 2^k with 53 bits in q unless it is subnormal,
  so that equal values have equal representations. Rounding is to the nearest, ties to even.
\<close>

datatype float64 = F64 bool nat int | F64Infinity bool | F64NaN

fun bitLength :: "nat \<Rightarrow> nat" where
  "bitLength n = (if n = 0 then 0 else Suc (bitLength (n div 2)))"

declare bitLength.simps [simp del]

definition roundHalfEven :: "nat \<Rightarrow> nat \<Rightarrow> nat" where
  "roundHalfEven a b =
     (let q = a div b; r = a mod b in if 2 * r < b \<or> (2 * r = b \<and> even q) then q else q + 1)"

definition round64 :: "bool \<Rightarrow> nat \<Rightarrow> nat \<Rightarrow> float64" where
  "round64 neg num den =
     (if num = 0 then F64 neg 0 0
      else let t = int (bitLength num) - int (bitLength den);
               l = (if (if t \<ge> 0 then num \<ge> den * 2 ^ nat t else num * 2 ^ nat (- t) \<ge> den) then t else t - 1);
               k = max (l - 52) (- 1074);
               q = (if k \<ge> 0 then roundHalfEven num (den * 2 ^ nat k) else roundHalfEven (num * 2 ^ nat (- k)) den);
               (q, k) = (if q = 2 ^ 53 then (2 ^ 52, k + 1) else (q, k)) in
           if k > 971 then F64Infinity neg else F64 neg q k)"

definition ParseFloat64 :: "string \<Rightarrow> float64" where
  "ParseFloat64 s =
     (case ParseFloat s of
        None \<Rightarrow> F64 False 0 0
      | Some NaN \<Rightarrow> F64NaN
      | Some (Infinity neg) \<Rightarrow> F64Infinity neg
      | Some (Decimal neg m e) \<Rightarrow> if e \<ge> 0 then round64 neg (m * 10 ^ nat e) 1 else round64 neg m (10 ^ nat (- e)))"

text \<open>The operator \<open>==\<close> on \<open>float64\<close>: NaN equals nothing, and the two zeros are equal.\<close>

definition float64Eq :: "float64 \<Rightarrow> float64 \<Rightarrow> bool" where
  "float64Eq x y \<longleftrightarrow>
     (case x of F64NaN \<Rightarrow> False
      | F64 neg q k \<Rightarrow> if q = 0 then \<exists>n \<in> {True, False}. y = F64 n 0 0 else y = x
      | F64Infinity _ \<Rightarrow> y = x)"

lemma isDigit_digits [simp]:
  "isDigit (CHR ''0'')" "isDigit (CHR ''1'')" "isDigit (CHR ''2'')" "isDigit (CHR ''3'')" "isDigit (CHR ''4'')"
  "isDigit (CHR ''5'')" "isDigit (CHR ''6'')" "isDigit (CHR ''7'')" "isDigit (CHR ''8'')" "isDigit (CHR ''9'')"
  "\<not> isDigit (CHR ''s'')" "\<not> isDigit (CHR ''.'')" "\<not> isDigit (CHR ''N'')" "\<not> isDigit (CHR ''n'')" "\<not> isDigit (CHR ''-'')"
  by (simp_all add: isDigit_def)

lemmas parse_simps = digits_def afterDigits_def stringToNat_def digitVal_def Let_def

lemma durations: "ParseDurationOk ''30s''" "ParseDurationOk ''60s''" "\<not> ParseDurationOk ''''" "\<not> ParseDurationOk ''30''"
  by (simp_all add: ParseDurationOk_def durationParts.simps [of "''30s''"] durationParts.simps [of "''60s''"]
      durationParts.simps [of "''30''"] durationParts.simps [of "[]"] durationPart_def unitNanos_def maxUint63_def parse_simps)

lemma iso_examples:
  "ParseISO ''2000-01-31T00:00:00'' = Some (2000, 1, 31, 0, 0, 0)" "ParseISO '''' = None" "ParseISO ''2001-02-29T00:00:00'' = None"
  by (simp_all add: ParseISO_def year4_def expect_def daysIn_def leapYear_def afterFraction_def parse_simps)

lemma float_examples:
  "ParseFloat ''1.0'' = Some (Decimal False 10 (- 1))" "\<not> above1 (Decimal False 10 (- 1))" "\<not> below01 (Decimal False 10 (- 1))" "below01 (Decimal False 9 (- 2))"
  by (simp_all add: ParseFloat_def exponentPart_def above1_def below01_def decimalLe_def toLower_def toLowerChar_def parse_simps)

lemma nan_example: "ParseFloat ''NaN'' = Some NaN"
  by code_simp

end
