(* ===== verification/Env.thy ===== *)
theory Env
  imports Names Go_Parse
begin

text \<open>
  The outside world of the reconciler (\<open>controllers/controller.go\<close>, struct \<open>CassandraClusterReconciler\<close>): the
  Kubernetes API, CQL sessions, the reaper, node operations through Jolokia, the probers of all regions,
  the job manager and the event recorder. Each call the code makes is a constructor of \<open>req\<close>, and the
  record \<open>env\<close> holds one function of the world per call: its answer is arbitrary. A theorem about a handler
  quantifies over the record, so it holds for every behaviour of these services.
  \<open>readOnly\<close> separates the calls that only read (and the events, which are informational) from those that
  change something.
\<close>

record cqlRole =
  role_name :: string
  role_super :: bool
  role_login :: bool
  role_password :: string

record keyspace =
  ks_name :: string
  ks_replication :: strmap

record clusterView =
  cv_liveNodes :: "string list"
  cv_leavingNodes :: "string list"
  cv_joiningNodes :: "string list"
  cv_unreachableNodes :: "string list"
  cv_movingNodes :: "string list"

record reaperSchedule =
  rps_id :: string
  rps_owner :: string
  rps_state :: string
  rps_intensity :: float64
  rps_keyspaceName :: string
  rps_columnFamilies :: "string list"
  rps_segmentCount :: int
  rps_repairParallelism :: string
  rps_scheduleDaysBetween :: int
  rps_datacenters :: "string list"
  rps_incrementalRepair :: bool
  rps_tables :: "string list"
  rps_repairThreadCount :: int

datatype objectReq =
    CreateStatefulSet statefulSet
  | CreateDeployment deployment
  | UpdateDeployment deployment
  | CreateService service
  | UpdateService service
  | GetIngress key
  | CreateIngress ingressObject
  | UpdateIngress ingressObject
  | GetK8sRole key
  | CreateK8sRole k8sRole
  | UpdateK8sRole k8sRole
  | GetRoleBinding key
  | CreateRoleBinding k8sRoleBinding
  | UpdateRoleBinding k8sRoleBinding
  | GetServiceAccount key
  | CreateServiceAccount k8sServiceAccount
  | UpdateServiceAccount k8sServiceAccount
  | GetNamespace string
  | GetServiceMonitor key
  | ListServiceMonitors strmap
  | CreateServiceMonitor serviceMonitorObject
  | UpdateServiceMonitor serviceMonitorObject
  | DeleteServiceMonitor serviceMonitorObject
  | DeleteReaperPods
  | MakeDir string
  | WriteFile string string
  | RemoveDir string

datatype reaperReq =
    ReaperSchedules
  | CreateSchedule repairSchedule
  | DeleteSchedule string
  | SetScheduleState string bool
  | ReaperClusterExists
  | ReaperAddCluster string
  | ReaperClusters
  | ReaperDeleteCluster

datatype req =
    GetStatefulSet key
  | ListStatefulSets
  | UpdateStatefulSet statefulSet
  | DeleteStatefulSet string
  | GetDeployment key
  | DeleteDeployment key
  | GetService key
  | DeleteService key
  | ListPods
  | GetPod key
  | UpdatePod pod
  | PatchPodStatus pod pod
  | ListPVCs
  | ListConfigMaps string
  | GetConfigMap key
  | CreateConfigMap configMap
  | UpdateConfigMap configMap
  | PatchConfigMap configMap configMap
  | GetSecret key
  | CreateSecret secret
  | UpdateSecret secret
  | DeleteSecret secret
  | ListNetworkPolicies
  | GetNetworkPolicy key
  | CreateNetworkPolicy networkPolicy
  | UpdateNetworkPolicy networkPolicy
  | DeleteNetworkPolicy networkPolicy
  | ListNodes
  | ListReaperPods
  | GetCluster key
  | UpdateClusterStatus cassandraCluster
  | CqlConnect string string
  | CqlKeyspaces
  | CqlUpdateRF string strmap
  | CqlQuery string
  | CqlRoles
  | CqlCreateRole cqlRole
  | CqlUpdateRole cqlRole
  | CqlDropRole string
  | CqlUpdatePassword string string
  | ReaperIsRunning
  | RunRepair string string
  | OperationMode string
  | ClusterView string
  | JobRun string string
  | JobRemove string
  | PutSeeds "string list"
  | FetchSeeds string
  | FetchDCs string
  | PutRegionStatus bool
  | FetchRegionReady string
  | FetchReaperReady string
  | ProberPing
  | PutDCs "dc list"
  | PutReaperStatus bool
  | PutRegionIPs "string list"
  | FetchRegionIPs string
  | PutReaperIPs "string list"
  | FetchReaperIPs string
  | Objects objectReq
  | Reaper reaperReq
  | Event string string

fun readOnlyObject :: "objectReq \<Rightarrow> bool" where
  "readOnlyObject (GetIngress _) = True"
| "readOnlyObject (GetK8sRole _) = True"
| "readOnlyObject (GetRoleBinding _) = True"
| "readOnlyObject (GetServiceAccount _) = True"
| "readOnlyObject (GetNamespace _) = True"
| "readOnlyObject (GetServiceMonitor _) = True"
| "readOnlyObject (ListServiceMonitors _) = True"
| "readOnlyObject _ = False"

fun readOnlyReaper :: "reaperReq \<Rightarrow> bool" where
  "readOnlyReaper ReaperSchedules = True"
| "readOnlyReaper ReaperClusterExists = True"
| "readOnlyReaper ReaperClusters = True"
| "readOnlyReaper _ = False"

fun readOnly :: "req \<Rightarrow> bool" where
  "readOnly (GetStatefulSet _) = True"
| "readOnly ListStatefulSets = True"
| "readOnly (GetDeployment _) = True"
| "readOnly (GetService _) = True"
| "readOnly ListPods = True"
| "readOnly (GetPod _) = True"
| "readOnly ListPVCs = True"
| "readOnly (ListConfigMaps _) = True"
| "readOnly (GetConfigMap _) = True"
| "readOnly (GetSecret _) = True"
| "readOnly (CqlConnect _ _) = True"
| "readOnly CqlKeyspaces = True"
| "readOnly CqlRoles = True"
| "readOnly ReaperIsRunning = True"
| "readOnly (OperationMode _) = True"
| "readOnly (ClusterView _) = True"
| "readOnly (FetchSeeds _) = True"
| "readOnly (FetchDCs _) = True"
| "readOnly (FetchRegionReady _) = True"
| "readOnly (FetchReaperReady _) = True"
| "readOnly ListNetworkPolicies = True"
| "readOnly (GetNetworkPolicy _) = True"
| "readOnly ListNodes = True"
| "readOnly ListReaperPods = True"
| "readOnly (GetCluster _) = True"
| "readOnly ProberPing = True"
| "readOnly (FetchRegionIPs _) = True"
| "readOnly (FetchReaperIPs _) = True"
| "readOnly (Objects q) = readOnlyObject q"
| "readOnly (Reaper q) = readOnlyReaper q"
| "readOnly (Event _ _) = True"
| "readOnly _ = False"

record 'w objectApi =
  o_createSts :: "statefulSet \<Rightarrow> 'w \<Rightarrow> (go_error + unit) \<times> 'w"
  o_createDeployment :: "deployment \<Rightarrow> 'w \<Rightarrow> (go_error + unit) \<times> 'w"
  o_updateDeployment :: "deployment \<Rightarrow> 'w \<Rightarrow> (go_error + unit) \<times> 'w"
  o_createService :: "service \<Rightarrow> 'w \<Rightarrow> (go_error + unit) \<times> 'w"
  o_updateService :: "service \<Rightarrow> 'w \<Rightarrow> (go_error + unit) \<times> 'w"
  o_getIngress :: "key \<Rightarrow> 'w \<Rightarrow> (go_error + ingressObject) \<times> 'w"
  o_createIngress :: "ingressObject \<Rightarrow> 'w \<Rightarrow> (go_error + unit) \<times> 'w"
  o_updateIngress :: "ingressObject \<Rightarrow> 'w \<Rightarrow> (go_error + unit) \<times> 'w"
  o_getK8sRole :: "key \<Rightarrow> 'w \<Rightarrow> (go_error + k8sRole) \<times> 'w"
  o_createK8sRole :: "k8sRole \<Rightarrow> 'w \<Rightarrow> (go_error + unit) \<times> 'w"
  o_updateK8sRole :: "k8sRole \<Rightarrow> 'w \<Rightarrow> (go_error + unit) \<times> 'w"
  o_getRoleBinding :: "key \<Rightarrow> 'w \<Rightarrow> (go_error + k8sRoleBinding) \<times> 'w"
  o_createRoleBinding :: "k8sRoleBinding \<Rightarrow> 'w \<Rightarrow> (go_error + unit) \<times> 'w"
  o_updateRoleBinding :: "k8sRoleBinding \<Rightarrow> 'w \<Rightarrow> (go_error + unit) \<times> 'w"
  o_getServiceAccount :: "key \<Rightarrow> 'w \<Rightarrow> (go_error + k8sServiceAccount) \<times> 'w"
  o_createServiceAccount :: "k8sServiceAccount \<Rightarrow> 'w \<Rightarrow> (go_error + unit) \<times> 'w"
  o_updateServiceAccount :: "k8sServiceAccount \<Rightarrow> 'w \<Rightarrow> (go_error + unit) \<times> 'w"
  o_getNamespace :: "string \<Rightarrow> 'w \<Rightarrow> (go_error + unit) \<times> 'w"
  o_getServiceMonitor :: "key \<Rightarrow> 'w \<Rightarrow> (go_error + serviceMonitorObject) \<times> 'w"
  o_listServiceMonitors :: "strmap \<Rightarrow> 'w \<Rightarrow> (go_error + (serviceMonitorObject list)) \<times> 'w"
  o_createServiceMonitor :: "serviceMonitorObject \<Rightarrow> 'w \<Rightarrow> (go_error + unit) \<times> 'w"
  o_updateServiceMonitor :: "serviceMonitorObject \<Rightarrow> 'w \<Rightarrow> (go_error + unit) \<times> 'w"
  o_deleteServiceMonitor :: "serviceMonitorObject \<Rightarrow> 'w \<Rightarrow> (go_error + unit) \<times> 'w"
  o_deleteReaperPods :: "'w \<Rightarrow> (go_error + unit) \<times> 'w"
  o_mkdir :: "string \<Rightarrow> 'w \<Rightarrow> (go_error + unit) \<times> 'w"
  o_writeFile :: "string \<Rightarrow> string \<Rightarrow> 'w \<Rightarrow> (go_error + unit) \<times> 'w"
  o_removeDir :: "string \<Rightarrow> 'w \<Rightarrow> (go_error + unit) \<times> 'w"

record 'w reaperApi =
  r_repairSchedules :: "'w \<Rightarrow> (go_error + (reaperSchedule list)) \<times> 'w"
  r_createSchedule :: "repairSchedule \<Rightarrow> 'w \<Rightarrow> (go_error + unit) \<times> 'w"
  r_deleteSchedule :: "string \<Rightarrow> 'w \<Rightarrow> (go_error + unit) \<times> 'w"
  r_setScheduleState :: "string \<Rightarrow> bool \<Rightarrow> 'w \<Rightarrow> (go_error + unit) \<times> 'w"
  r_reaperClusterExists :: "'w \<Rightarrow> (go_error + bool) \<times> 'w"
  r_reaperAddCluster :: "string \<Rightarrow> 'w \<Rightarrow> (go_error + unit) \<times> 'w"
  r_reaperClusters :: "'w \<Rightarrow> (go_error + (string list)) \<times> 'w"
  r_reaperDeleteCluster :: "'w \<Rightarrow> (go_error + unit) \<times> 'w"

record 'w env =
  e_getSts :: "key \<Rightarrow> 'w \<Rightarrow> (go_error + statefulSet) \<times> 'w"
  e_listSts :: "'w \<Rightarrow> (go_error + statefulSet list) \<times> 'w"
  e_updateSts :: "statefulSet \<Rightarrow> 'w \<Rightarrow> (go_error + unit) \<times> 'w"
  e_deleteSts :: "string \<Rightarrow> 'w \<Rightarrow> (go_error + unit) \<times> 'w"
  e_getDeployment :: "key \<Rightarrow> 'w \<Rightarrow> (go_error + deployment) \<times> 'w"
  e_deleteDeployment :: "key \<Rightarrow> 'w \<Rightarrow> (go_error + unit) \<times> 'w"
  e_getService :: "key \<Rightarrow> 'w \<Rightarrow> (go_error + service) \<times> 'w"
  e_deleteService :: "key \<Rightarrow> 'w \<Rightarrow> (go_error + unit) \<times> 'w"
  e_listPods :: "'w \<Rightarrow> (go_error + pod list) \<times> 'w"
  e_getPod :: "key \<Rightarrow> 'w \<Rightarrow> (go_error + pod) \<times> 'w"
  e_updatePod :: "pod \<Rightarrow> 'w \<Rightarrow> (go_error + unit) \<times> 'w"
  e_patchPodStatus :: "pod \<Rightarrow> pod \<Rightarrow> 'w \<Rightarrow> (go_error + unit) \<times> 'w"
  e_listPVCs :: "'w \<Rightarrow> (go_error + string list) \<times> 'w"
  e_listCMs :: "string \<Rightarrow> 'w \<Rightarrow> (go_error + configMap list) \<times> 'w"
  e_getCM :: "key \<Rightarrow> 'w \<Rightarrow> (go_error + configMap) \<times> 'w"
  e_createCM :: "configMap \<Rightarrow> 'w \<Rightarrow> (go_error + unit) \<times> 'w"
  e_updateCM :: "configMap \<Rightarrow> 'w \<Rightarrow> (go_error + unit) \<times> 'w"
  e_patchCM :: "configMap \<Rightarrow> configMap \<Rightarrow> 'w \<Rightarrow> (go_error + unit) \<times> 'w"
  e_getSecret :: "key \<Rightarrow> 'w \<Rightarrow> (go_error + secret) \<times> 'w"
  e_createSecret :: "secret \<Rightarrow> 'w \<Rightarrow> (go_error + unit) \<times> 'w"
  e_updateSecret :: "secret \<Rightarrow> 'w \<Rightarrow> (go_error + unit) \<times> 'w"
  e_deleteSecret :: "secret \<Rightarrow> 'w \<Rightarrow> (go_error + unit) \<times> 'w"
  e_listPolicies :: "'w \<Rightarrow> (go_error + networkPolicy list) \<times> 'w"
  e_getPolicy :: "key \<Rightarrow> 'w \<Rightarrow> (go_error + networkPolicy) \<times> 'w"
  e_createPolicy :: "networkPolicy \<Rightarrow> 'w \<Rightarrow> (go_error + unit) \<times> 'w"
  e_updatePolicy :: "networkPolicy \<Rightarrow> 'w \<Rightarrow> (go_error + unit) \<times> 'w"
  e_deletePolicy :: "networkPolicy \<Rightarrow> 'w \<Rightarrow> (go_error + unit) \<times> 'w"
  e_listNodes :: "'w \<Rightarrow> (go_error + k8sNode list) \<times> 'w"
  e_listReaperPods :: "'w \<Rightarrow> (go_error + pod list) \<times> 'w"
  e_getCluster :: "key \<Rightarrow> 'w \<Rightarrow> (go_error + cassandraCluster) \<times> 'w"
  e_updateStatus :: "cassandraCluster \<Rightarrow> 'w \<Rightarrow> (go_error + unit) \<times> 'w"
  e_cqlConnect :: "string \<Rightarrow> string \<Rightarrow> 'w \<Rightarrow> (go_error + unit) \<times> 'w"
  e_cqlKeyspaces :: "'w \<Rightarrow> (go_error + keyspace list) \<times> 'w"
  e_cqlUpdateRF :: "string \<Rightarrow> strmap \<Rightarrow> 'w \<Rightarrow> (go_error + unit) \<times> 'w"
  e_cqlQuery :: "string \<Rightarrow> 'w \<Rightarrow> (go_error + unit) \<times> 'w"
  e_cqlRoles :: "'w \<Rightarrow> (go_error + cqlRole list) \<times> 'w"
  e_cqlCreateRole :: "cqlRole \<Rightarrow> 'w \<Rightarrow> (go_error + unit) \<times> 'w"
  e_cqlUpdateRole :: "cqlRole \<Rightarrow> 'w \<Rightarrow> (go_error + unit) \<times> 'w"
  e_cqlDropRole :: "string \<Rightarrow> 'w \<Rightarrow> (go_error + unit) \<times> 'w"
  e_cqlUpdatePassword :: "string \<Rightarrow> string \<Rightarrow> 'w \<Rightarrow> (go_error + unit) \<times> 'w"
  e_reaperIsRunning :: "'w \<Rightarrow> (go_error + bool) \<times> 'w"
  e_runRepair :: "string \<Rightarrow> string \<Rightarrow> 'w \<Rightarrow> (go_error + unit) \<times> 'w"
  e_operationMode :: "string \<Rightarrow> 'w \<Rightarrow> (go_error + string) \<times> 'w"
  e_clusterView :: "string \<Rightarrow> 'w \<Rightarrow> (go_error + clusterView) \<times> 'w"
  e_jobExists :: "string \<Rightarrow> 'w \<Rightarrow> bool"
  e_jobIsRunning :: "string \<Rightarrow> 'w \<Rightarrow> bool"
  e_jobRun :: "string \<Rightarrow> string \<Rightarrow> 'w \<Rightarrow> (go_error + unit) \<times> 'w"
  e_jobRemove :: "string \<Rightarrow> 'w \<Rightarrow> (go_error + unit) \<times> 'w"
  e_putSeeds :: "string list \<Rightarrow> 'w \<Rightarrow> (go_error + unit) \<times> 'w"
  e_fetchSeeds :: "string \<Rightarrow> 'w \<Rightarrow> (go_error + string list) \<times> 'w"
  e_fetchDCs :: "string \<Rightarrow> 'w \<Rightarrow> (go_error + dc list) \<times> 'w"
  e_putRegionStatus :: "bool \<Rightarrow> 'w \<Rightarrow> (go_error + unit) \<times> 'w"
  e_fetchRegionReady :: "string \<Rightarrow> 'w \<Rightarrow> (go_error + bool) \<times> 'w"
  e_fetchReaperReady :: "string \<Rightarrow> 'w \<Rightarrow> (go_error + bool) \<times> 'w"
  e_proberPing :: "'w \<Rightarrow> (go_error + bool) \<times> 'w"
  e_putDCs :: "dc list \<Rightarrow> 'w \<Rightarrow> (go_error + unit) \<times> 'w"
  e_putReaperStatus :: "bool \<Rightarrow> 'w \<Rightarrow> (go_error + unit) \<times> 'w"
  e_putRegionIPs :: "string list \<Rightarrow> 'w \<Rightarrow> (go_error + unit) \<times> 'w"
  e_fetchRegionIPs :: "string \<Rightarrow> 'w \<Rightarrow> (go_error + string list) \<times> 'w"
  e_putReaperIPs :: "string list \<Rightarrow> 'w \<Rightarrow> (go_error + unit) \<times> 'w"
  e_fetchReaperIPs :: "string \<Rightarrow> 'w \<Rightarrow> (go_error + string list) \<times> 'w"
  e_objects :: "'w objectApi"
  e_reaper :: "'w reaperApi"
  e_controllerReference :: "cassandraCluster \<Rightarrow> go_error + string list"
  e_sha1 :: "strmap option \<Rightarrow> string"
  e_printMap :: "strmap option \<Rightarrow> string"

text \<open>
  \<open>e_controllerReference\<close> stands for \<open>controllerutil.SetControllerReference\<close> on an object without owners;
  \<open>e_printMap\<close> for the text that \<open>fmt.Sprintf("%v", m)\<close> prints of a map, \<open>e_sha1\<close> for the digest of that text. The reads of the job manager are not calls
  to the outside and leave no trace.
\<close>

type_synonym ('w, 'a) run = "('w, req, 'a) act"

definition emit :: "string \<Rightarrow> string \<Rightarrow> ('w, unit) run" where
  "emit reason msg = call (Event reason msg) (\<lambda>w. (Inr (), w))"

lemma emit_simps [act_simps, simp]:
  "result (emit r m) w = Inr ()" "trace (emit r m) w = [Event r m]" "world (emit r m) w = w"
  by (simp_all add: emit_def)

lemma only_emit [only_intros]: "P (Event r m) \<Longrightarrow> only P (emit r m)"
  by (simp add: emit_def only_call)

definition isNotFound :: "go_error \<Rightarrow> bool" where
  "isNotFound e \<longleftrightarrow> e = NotFound"

text \<open>Reading the world without a call.\<close>

definition peek :: "('w \<Rightarrow> 'a) \<Rightarrow> ('w, 'a) run" where
  "peek f = (\<lambda>w. (Inr (f w), [], w))"

lemma peek_simps [act_simps, simp]:
  "result (peek f) w = Inr (f w)" "trace (peek f) w = []" "world (peek f) w = w"
  by (simp_all add: peek_def result_def trace_def world_def)

lemma only_peek [only_intros]: "only P (peek f)"
  by (simp add: only_def)

text \<open>\<open>return err\<close> of a value that is an error or a result.\<close>

definition lift :: "go_error + 'a \<Rightarrow> ('w, 'a) run" where
  "lift r = (case r of Inl e \<Rightarrow> raise e | Inr x \<Rightarrow> ret x)"

lemma lift_simps [act_simps, simp]:
  "result (lift r) w = r" "trace (lift r) w = []" "world (lift r) w = w"
  by (simp_all add: lift_def split: sum.splits)

lemma only_lift [only_intros]: "only P (lift r)"
  by (simp add: only_def)

lemma lift_Inr [simp]: "lift (Inr x) = ret x" and lift_Inl [simp]: "lift (Inl e) = raise e"
  by (simp_all add: lift_def)

text \<open>Dereferencing a pointer.\<close>

definition deref :: "'a option \<Rightarrow> go_error + 'a" where
  "deref p = (case p of None \<Rightarrow> Inl Panic | Some x \<Rightarrow> Inr x)"

lemma deref_simps [simp]: "deref None = Inl Panic" "deref (Some x) = Inr x"
  by (simp_all add: deref_def)

text \<open>Sequencing of computations that do not call out.\<close>

definition bindE :: "go_error + 'a \<Rightarrow> ('a \<Rightarrow> go_error + 'b) \<Rightarrow> go_error + 'b" where
  "bindE r f = (case r of Inl e \<Rightarrow> Inl e | Inr x \<Rightarrow> f x)"

lemma bindE_simps [simp]: "bindE (Inl e) f = Inl e" "bindE (Inr x) f = f x"
  by (simp_all add: bindE_def)

lemma bindE_Inr_iff: "bindE r f = Inr y \<longleftrightarrow> (\<exists>x. r = Inr x \<and> f x = Inr y)"
  by (cases r) auto

fun mapE :: "('a \<Rightarrow> go_error + 'b) \<Rightarrow> 'a list \<Rightarrow> go_error + 'b list" where
  "mapE f [] = Inr []"
| "mapE f (x # xs) = bindE (f x) (\<lambda>y. bindE (mapE f xs) (\<lambda>ys. Inr (y # ys)))"

lemma mapE_Inr: "(\<And>x. x \<in> set xs \<Longrightarrow> f x = Inr (g x)) \<Longrightarrow> mapE f xs = Inr (map g xs)"
  by (induction xs) auto

section \<open>A world in which nothing happens\<close>

text \<open>Used by examples, which override the answers they are about.\<close>

definition quietObjects :: "'w objectApi" where
  "quietObjects = \<lparr>o_createSts = (\<lambda>_ w. (Inr (), w)),
     o_createDeployment = (\<lambda>_ w. (Inr (), w)),
     o_updateDeployment = (\<lambda>_ w. (Inr (), w)),
     o_createService = (\<lambda>_ w. (Inr (), w)),
     o_updateService = (\<lambda>_ w. (Inr (), w)),
     o_getIngress = (\<lambda>_ w. (Inl NotFound, w)),
     o_createIngress = (\<lambda>_ w. (Inr (), w)),
     o_updateIngress = (\<lambda>_ w. (Inr (), w)),
     o_getK8sRole = (\<lambda>_ w. (Inl NotFound, w)),
     o_createK8sRole = (\<lambda>_ w. (Inr (), w)),
     o_updateK8sRole = (\<lambda>_ w. (Inr (), w)),
     o_getRoleBinding = (\<lambda>_ w. (Inl NotFound, w)),
     o_createRoleBinding = (\<lambda>_ w. (Inr (), w)),
     o_updateRoleBinding = (\<lambda>_ w. (Inr (), w)),
     o_getServiceAccount = (\<lambda>_ w. (Inl NotFound, w)),
     o_createServiceAccount = (\<lambda>_ w. (Inr (), w)),
     o_updateServiceAccount = (\<lambda>_ w. (Inr (), w)),
     o_getNamespace = (\<lambda>_ w. (Inl NotFound, w)),
     o_getServiceMonitor = (\<lambda>_ w. (Inl NotFound, w)),
     o_listServiceMonitors = (\<lambda>_ w. (Inr [], w)),
     o_createServiceMonitor = (\<lambda>_ w. (Inr (), w)),
     o_updateServiceMonitor = (\<lambda>_ w. (Inr (), w)),
     o_deleteServiceMonitor = (\<lambda>_ w. (Inr (), w)),
     o_deleteReaperPods = (\<lambda>w. (Inr (), w)),
     o_mkdir = (\<lambda>_ w. (Inr (), w)),
     o_writeFile = (\<lambda>_ _ w. (Inr (), w)),
     o_removeDir = (\<lambda>_ w. (Inr (), w))\<rparr>"

definition quietReaper :: "'w reaperApi" where
  "quietReaper = \<lparr>r_repairSchedules = (\<lambda>w. (Inr [], w)),
     r_createSchedule = (\<lambda>_ w. (Inr (), w)),
     r_deleteSchedule = (\<lambda>_ w. (Inr (), w)),
     r_setScheduleState = (\<lambda>_ _ w. (Inr (), w)),
     r_reaperClusterExists = (\<lambda>w. (Inr True, w)),
     r_reaperAddCluster = (\<lambda>_ w. (Inr (), w)),
     r_reaperClusters = (\<lambda>w. (Inr [], w)),
     r_reaperDeleteCluster = (\<lambda>w. (Inr (), w))\<rparr>"

definition quietEnv :: "'w env" where
  "quietEnv = \<lparr>e_getSts = (\<lambda>_ w. (Inl NotFound, w)), e_listSts = (\<lambda>w. (Inr [], w)),
     e_updateSts = (\<lambda>_ w. (Inr (), w)), e_deleteSts = (\<lambda>_ w. (Inr (), w)),
     e_getDeployment = (\<lambda>_ w. (Inl NotFound, w)), e_deleteDeployment = (\<lambda>_ w. (Inr (), w)),
     e_getService = (\<lambda>_ w. (Inl NotFound, w)), e_deleteService = (\<lambda>_ w. (Inr (), w)),
     e_listPods = (\<lambda>w. (Inr [], w)), e_getPod = (\<lambda>_ w. (Inl NotFound, w)),
     e_updatePod = (\<lambda>_ w. (Inr (), w)), e_patchPodStatus = (\<lambda>_ _ w. (Inr (), w)),
     e_listPVCs = (\<lambda>w. (Inr [], w)), e_listCMs = (\<lambda>_ w. (Inr [], w)),
     e_getCM = (\<lambda>_ w. (Inl NotFound, w)), e_createCM = (\<lambda>_ w. (Inr (), w)),
     e_updateCM = (\<lambda>_ w. (Inr (), w)), e_patchCM = (\<lambda>_ _ w. (Inr (), w)),
     e_getSecret = (\<lambda>_ w. (Inl NotFound, w)), e_createSecret = (\<lambda>_ w. (Inr (), w)),
     e_updateSecret = (\<lambda>_ w. (Inr (), w)),
     e_deleteSecret = (\<lambda>_ w. (Inr (), w)),
     e_listPolicies = (\<lambda>w. (Inr [], w)),
     e_getPolicy = (\<lambda>_ w. (Inl NotFound, w)),
     e_createPolicy = (\<lambda>_ w. (Inr (), w)),
     e_updatePolicy = (\<lambda>_ w. (Inr (), w)),
     e_deletePolicy = (\<lambda>_ w. (Inr (), w)),
     e_listNodes = (\<lambda>w. (Inr [], w)),
     e_listReaperPods = (\<lambda>w. (Inr [], w)),
     e_getCluster = (\<lambda>_ w. (Inl NotFound, w)),
     e_updateStatus = (\<lambda>_ w. (Inr (), w)),
     e_cqlConnect = (\<lambda>_ _ w. (Inr (), w)), e_cqlKeyspaces = (\<lambda>w. (Inr [], w)),
     e_cqlUpdateRF = (\<lambda>_ _ w. (Inr (), w)), e_cqlQuery = (\<lambda>_ w. (Inr (), w)),
     e_cqlRoles = (\<lambda>w. (Inr [], w)), e_cqlCreateRole = (\<lambda>_ w. (Inr (), w)),
     e_cqlUpdateRole = (\<lambda>_ w. (Inr (), w)), e_cqlDropRole = (\<lambda>_ w. (Inr (), w)),
     e_cqlUpdatePassword = (\<lambda>_ _ w. (Inr (), w)),
     e_reaperIsRunning = (\<lambda>w. (Inr False, w)), e_runRepair = (\<lambda>_ _ w. (Inr (), w)),
     e_operationMode = (\<lambda>_ w. (Inr ''NORMAL'', w)), e_clusterView = (\<lambda>_ w. (Inr \<lparr>cv_liveNodes = [],
       cv_leavingNodes = [], cv_joiningNodes = [], cv_unreachableNodes = [], cv_movingNodes = []\<rparr>, w)),
     e_jobExists = (\<lambda>_ _. False), e_jobIsRunning = (\<lambda>_ _. False),
     e_jobRun = (\<lambda>_ _ w. (Inr (), w)), e_jobRemove = (\<lambda>_ w. (Inr (), w)),
     e_putSeeds = (\<lambda>_ w. (Inr (), w)), e_fetchSeeds = (\<lambda>_ w. (Inr [], w)),
     e_fetchDCs = (\<lambda>_ w. (Inr [], w)), e_putRegionStatus = (\<lambda>_ w. (Inr (), w)),
     e_fetchRegionReady = (\<lambda>_ w. (Inr True, w)), e_fetchReaperReady = (\<lambda>_ w. (Inr True, w)),
     e_proberPing = (\<lambda>w. (Inr True, w)),
     e_putDCs = (\<lambda>_ w. (Inr (), w)),
     e_putReaperStatus = (\<lambda>_ w. (Inr (), w)),
     e_putRegionIPs = (\<lambda>_ w. (Inr (), w)),
     e_fetchRegionIPs = (\<lambda>_ w. (Inr [], w)),
     e_putReaperIPs = (\<lambda>_ w. (Inr (), w)),
     e_fetchReaperIPs = (\<lambda>_ w. (Inr [], w)),
     e_objects = quietObjects, e_reaper = quietReaper,
     e_controllerReference = (\<lambda>cc. Inr [cc_name cc]), e_sha1 = (\<lambda>_. ''sum''), e_printMap = (\<lambda>_. ''map[]'')\<rparr>"

end
