(* ===== verification/Samples.thy ===== *)
theory Samples
  imports Env
begin

text \<open>Concrete values for the examples: a cluster with one datacentre of three nodes in one region.\<close>

definition plainPodSpec :: podSpec where
  "plainPodSpec = \<lparr>ps_containers = [], ps_initContainers = [], ps_volumes = [], ps_imagePullSecrets = [],
     ps_serviceAccountName = '''', ps_affinity = None, ps_tolerations = [], ps_nodeSelector = Map.empty,
     ps_restartPolicy = ''Always'', ps_terminationGracePeriodSeconds = None, ps_dnsPolicy = ''ClusterFirst'',
     ps_topologySpreadConstraints = []\<rparr>"

definition plainTemplate :: podTemplate where
  "plainTemplate = \<lparr>pt_labels = Map.empty, pt_annotations = None, pt_spec = plainPodSpec\<rparr>"

definition plainStsSpec :: stsSpec where
  "plainStsSpec = \<lparr>ss_serviceName = '''', ss_selector = Map.empty, ss_podManagementPolicy = ''Parallel'',
     ss_updateStrategy = ''RollingUpdate'', ss_partition = 0, ss_revisionHistoryLimit = 10, ss_template = plainTemplate,
     ss_volumeClaimTemplates = []\<rparr>"

definition plainService :: service where
  "plainService = \<lparr>svc_name = '''', svc_namespace = '''', svc_labels = Map.empty, svc_annotations = None,
     svc_ownerReferences = [], svc_spec = \<lparr>svs_ports = [], svs_clusterIP = '''', svs_clusterIPs = [], svs_ipFamilies = [],
       svs_ipFamilyPolicy = None, svs_internalTrafficPolicy = None, svs_type = ''ClusterIP'', svs_sessionAffinity = ''None'',
       svs_publishNotReadyAddresses = False, svs_selector = Map.empty\<rparr>\<rparr>"

definition sampleCluster :: cassandraCluster where
  "sampleCluster = \<lparr>cc_name = ''c'', cc_namespace = ''ns'', cc_labels = Map.empty,
     cc_spec = \<lparr>spec_dcs = [\<lparr>dc_name = ''dc1'', dc_replicas = Some 3, dc_affinity = None, dc_tolerations = []\<rparr>],
       imagePullSecretName = '''', cqlConfigMapLabelKey = ''cql-scripts'',
       cassandraSpec = None, adminRoleSecretName = ''admin'', rolesSecretName = '''', topologySpreadByZone = None,
       maintenanceSpec = [], systemKeyspacesSpec = \<lparr>sk_keyspaces = [], sk_dcs = None\<rparr>,
       ingressSpec = \<lparr>ing_domain = ''example.org'', ing_secret = '''', ing_annotations = Map.empty, ing_ingressClassName = None\<rparr>,
       externalRegionsSpec = \<lparr>er_managed = None, er_unmanaged = []\<rparr>,
       icarusOf = \<lparr>ica_image = '''', ica_imagePullPolicy = '''', ica_resources = ''''\<rparr>,
       proberOf = \<lparr>prb_image = '''', prb_imagePullPolicy = '''', prb_resources = '''', prb_logLevel = '''', prb_logFormat = '''',
         prb_jolokia = \<lparr>jol_image = '''', jol_imagePullPolicy = '''', jol_resources = ''''\<rparr>,
         prb_serviceMonitor = \<lparr>sm_enabled = False, sm_namespace = '''', sm_labels = Map.empty, sm_scrapeInterval = ''''\<rparr>,
         prb_tolerations = [], prb_nodeSelector = Map.empty, prb_affinity = None\<rparr>,
       reaperSpec = Some \<lparr>rea_image = '''', rea_imagePullPolicy = '''', rea_keyspace = ''reaper'', rea_tolerations = [],
         rea_nodeSelector = Map.empty, rea_hangingRepairTimeoutMins = 30, rea_incrementalRepair = False,
         rea_repairIntensity = ''1.0'', rea_repairManagerSchedulingIntervalSeconds = 10, rea_blacklistTWCS = False,
         rea_resources = '''', rea_serviceMonitor = \<lparr>sm_enabled = False, sm_namespace = '''', sm_labels = Map.empty, sm_scrapeInterval = ''''\<rparr>,
         rea_repairSchedules = \<lparr>rss_enabled = False, rss_repairs = None\<rparr>,
         rea_autoScheduling = \<lparr>as_enabled = False, as_initialDelayPeriod = '''', as_periodBetweenPolls = '''',
           as_timeBeforeFirstSchedule = '''', as_scheduleSpreadPeriod = '''', as_excludedKeyspaces = []\<rparr>,
         rea_repairParallelism = '''', rea_repairRunThreads = 1, rea_repairThreadCount = 0, rea_segmentCountPerNode = 0,
         rea_maxParallelRepairs = 0\<rparr>,
       hostPortSpec = \<lparr>hp_enabled = False, hp_useExternalHostIP = False, hp_ports = []\<rparr>, jmxAuth = '''',
       encryptionSpec = \<lparr>enc_server = \<lparr>se_internodeEncryption = '''', se_caTLSSecret = \<lparr>ca_name = '''', ca_fileKey = '''', ca_crtFileKey = ''''\<rparr>,
           se_nodeTLSSecret = \<lparr>node_name = '''', node_fileKey = '''', node_crtFileKey = '''', node_caCrtFileKey = '''',
             node_keystoreFileKey = '''', node_keystorePasswordKey = '''', node_truststoreFileKey = '''',
             node_truststorePasswordKey = '''', node_generateKeystorePassword = ''''\<rparr>,
           se_requireEndpointVerification = False, se_requireClientAuth = None, se_protocol = '''', se_algorithm = '''',
           se_storeType = '''', se_cipherSuites = []\<rparr>,
         enc_client = \<lparr>ce_enabled = False, ce_optional = False, ce_caTLSSecret = \<lparr>ca_name = '''', ca_fileKey = '''', ca_crtFileKey = ''''\<rparr>,
           ce_nodeTLSSecret = \<lparr>node_name = '''', node_fileKey = '''', node_crtFileKey = '''', node_caCrtFileKey = '''',
             node_keystoreFileKey = '''', node_keystorePasswordKey = '''', node_truststoreFileKey = '''',
             node_truststorePasswordKey = '''', node_generateKeystorePassword = ''''\<rparr>,
           ce_requireClientAuth = None, ce_protocol = '''', ce_algorithm = '''', ce_storeType = '''', ce_cipherSuites = []\<rparr>\<rparr>,
       networkPoliciesSpec = \<lparr>np_enabled = False, np_allowReaperNodeIPs = None, np_extraIngressRules = None,
         np_extraPrometheusRules = None, np_extraCassandraRules = [], np_extraCassandraIPs = []\<rparr>\<rparr>,
     cc_status = \<lparr>maintenanceState = [], st_ready = False\<rparr>\<rparr>"

end
