(* ===== verification/Keyspaces.thy ===== *)
theory Keyspaces
  imports Samples
begin

text \<open>
  Replication of the system keyspaces: \<open>controllers/keyspaces.go\<close>, \<open>controllers/reaper_keyspace.go\<close> and the
  statements of \<open>controllers/cql/cql.go\<close>.
  \<open>desiredReplicationOptions\<close> computes the replication of a keyspace from the datacentres of all regions,
  \<open>desiredKeyspacesToReconcile\<close> the keyspaces to manage; the three reconcilers bring the cluster there.
  The lemmas say what the options are, that reconciling reaches them and then rests, and which keyspaces
  are touched.
\<close>

section \<open>Desired state\<close>

definition defaultRF :: int where "defaultRF = 3"
definition keyspaceSystemAuth :: string where "keyspaceSystemAuth = ''system_auth''"
definition keyspaceSystemDistributed :: string where "keyspaceSystemDistributed = ''system_distributed''"
definition keyspaceSystemTraces :: string where "keyspaceSystemTraces = ''system_traces''"
definition repairCauseKeyspacesInit :: string where "repairCauseKeyspacesInit = ''keyspaces-init''"

definition ReplicationClassNetworkTopologyStrategy :: string where
  "ReplicationClassNetworkTopologyStrategy = ''org.apache.cassandra.locator.NetworkTopologyStrategy''"

fun getKeyspaceByName :: "keyspace list \<Rightarrow> string \<Rightarrow> keyspace option" where
  "getKeyspaceByName [] n = None"
| "getKeyspaceByName (k # ks) n = (if ks_name k = n then Some k else getKeyspaceByName ks n)"

fun keyspaceExists :: "string list \<Rightarrow> string \<Rightarrow> bool" where
  "keyspaceExists [] n = False"
| "keyspaceExists (k # ks) n = (if k = n then True else keyspaceExists ks n)"

definition dcRF :: "dc \<Rightarrow> string" where
  "dcRF d = (case dc_replicas d of
      Some n \<Rightarrow> if n < defaultRF then itoa n else itoa defaultRF
    | None \<Rightarrow> itoa defaultRF)"

definition desiredReplicationOptions :: "cassandraCluster \<Rightarrow> string \<Rightarrow> dc list \<Rightarrow> strmap" where
  "desiredReplicationOptions cc ks allDCs =
     (let sys = systemKeyspacesSpec (cc_spec cc);
          options =
            (if length (slice (sk_dcs sys)) > 0 \<and> keyspaceExists (sk_keyspaces sys) ks
             then foldl (\<lambda>m d. m(skdc_name d \<mapsto> itoa (skdc_rf d))) Map.empty (slice (sk_dcs sys))
             else foldl (\<lambda>m d. m(dc_name d \<mapsto> dcRF d)) Map.empty allDCs)
      in options(''class'' \<mapsto> ReplicationClassNetworkTopologyStrategy))"

text \<open>\<open>cc.Spec.Reaper\<close> is a pointer; dereferencing nil panics.\<close>

definition reaperKeyspaceName :: "cassandraCluster \<Rightarrow> go_error + string" where
  "reaperKeyspaceName cc = bindE (deref (reaperSpec (cc_spec cc))) (\<lambda>r. Inr (rea_keyspace r))"

fun addKeyspaces :: "string list \<Rightarrow> string list \<Rightarrow> string list" where
  "addKeyspaces [] acc = acc"
| "addKeyspaces (k # ks) acc = addKeyspaces ks (if keyspaceExists acc k then acc else acc @ [k])"

definition desiredKeyspacesToReconcile :: "cassandraCluster \<Rightarrow> go_error + string list" where
  "desiredKeyspacesToReconcile cc =
     bindE (reaperKeyspaceName cc) (\<lambda>rk.
       let ks = [keyspaceSystemAuth, keyspaceSystemDistributed, keyspaceSystemTraces, rk];
           extra = sk_keyspaces (systemKeyspacesSpec (cc_spec cc)) in
       if length extra = 0 then Inr ks else Inr (addKeyspaces extra ks))"

lemma keyspaceExists_iff [simp]: "keyspaceExists ks n \<longleftrightarrow> n \<in> set ks"
  by (induction ks) auto

lemma getKeyspaceByName_map_of:
  "map_option ks_replication (getKeyspaceByName ks n) = map_of (map (\<lambda>k. (ks_name k, ks_replication k)) ks) n"
  by (induction ks) auto

lemma set_addKeyspaces [simp]: "set (addKeyspaces ks acc) = set ks \<union> set acc"
  by (induction ks acc rule: addKeyspaces.induct) auto

lemma addKeyspaces_append: "\<exists>ys. addKeyspaces ks acc = acc @ ys"
  by (induction ks acc rule: addKeyspaces.induct) auto

lemma foldl_upd_other: "k \<notin> f ` set xs \<Longrightarrow> foldl (\<lambda>m d. m(f d \<mapsto> g d)) m xs k = m k"
  by (induction xs arbitrary: m) auto

lemma foldl_upd_in:
  "distinct (map f xs) \<Longrightarrow> d \<in> set xs \<Longrightarrow> foldl (\<lambda>m d. m(f d \<mapsto> g d)) m xs (f d) = Some (g d)"
  by (induction xs arbitrary: m) (auto simp: foldl_upd_other)

lemma dom_foldl_upd: "dom (foldl (\<lambda>m d. m(f d \<mapsto> g d)) m xs) = f ` set xs \<union> dom m"
  by (induction xs arbitrary: m) auto

section \<open>Reconcilers\<close>

definition cqlUpdateRF :: "'w env \<Rightarrow> string \<Rightarrow> strmap \<Rightarrow> ('w, unit) run" where
  "cqlUpdateRF E k opts = call (CqlUpdateRF k opts) (e_cqlUpdateRF E k opts)"

definition runRepair :: "'w env \<Rightarrow> string \<Rightarrow> string \<Rightarrow> ('w, unit) run" where
  "runRepair E k why = call (RunRepair k why) (e_runRepair E k why)"

definition reconcileKeyspace ::
  "'w env \<Rightarrow> cassandraCluster \<Rightarrow> dc list \<Rightarrow> keyspace list \<Rightarrow> string \<Rightarrow> ('w, unit) run" where
  "reconcileKeyspace E cc allDCs currentKeyspaces k =
     (case getKeyspaceByName currentKeyspaces k of
        None \<Rightarrow> ret ()
      | Some info \<Rightarrow>
          (let desiredOptions = desiredReplicationOptions cc k allDCs in
           if ks_replication info \<noteq> desiredOptions
           then andThen (wrapErr (''failed to alter '' @ quoted k @ '' keyspace'') (cqlUpdateRF E k desiredOptions)) (\<lambda>_.
                  wrapErr (''failed to run repair on '' @ quoted k @ '' keyspace'')
                    (runRepair E k repairCauseKeyspacesInit))
           else ret ()))"

definition reconcileKeyspaces :: "'w env \<Rightarrow> cassandraCluster \<Rightarrow> dc list \<Rightarrow> ('w, unit) run" where
  "reconcileKeyspaces E cc allDCs =
     andThen (lift (desiredKeyspacesToReconcile cc)) (\<lambda>keyspacesToReconcile.
     andThen (wrapErr ''can't get keyspace info'' (call CqlKeyspaces (e_cqlKeyspaces E))) (\<lambda>currentKeyspaces.
       forEach (reconcileKeyspace E cc allDCs currentKeyspaces) keyspacesToReconcile))"

definition reconcileSystemAuthKeyspace :: "'w env \<Rightarrow> cassandraCluster \<Rightarrow> dc list \<Rightarrow> ('w, unit) run" where
  "reconcileSystemAuthKeyspace E cc allDCs =
     andThen (wrapErr ''can't get keyspace info'' (call CqlKeyspaces (e_cqlKeyspaces E))) (\<lambda>currentKeyspaces.
     case getKeyspaceByName currentKeyspaces keyspaceSystemAuth of
       None \<Rightarrow> raise (Err (''keyspace '' @ keyspaceSystemAuth @ '' doesn't exist''))
     | Some info \<Rightarrow>
         (let desiredOptions = desiredReplicationOptions cc keyspaceSystemAuth allDCs in
          if ks_replication info \<noteq> desiredOptions
          then andThen (wrapErr (''failed to alter '' @ keyspaceSystemAuth @ '' keyspace'')
                         (cqlUpdateRF E keyspaceSystemAuth desiredOptions)) (\<lambda>_.
               andThen (lift (deref (reaperSpec (cc_spec cc)))) (\<lambda>_.
               andThen (attempt (call ReaperIsRunning (e_reaperIsRunning E))) (\<lambda>isRunning.
                 if isRunning = Inr True
                 then wrapErr ''Can't run repair for system_auth keyspace''
                        (runRepair E keyspaceSystemAuth repairCauseKeyspacesInit)
                 else ret ())))
          else ret ()))"

definition reconcileSystemAuthIfReady :: "'w env \<Rightarrow> cassandraCluster \<Rightarrow> dc list \<Rightarrow> ('w, unit) run" where
  "reconcileSystemAuthIfReady E cc allDCs =
     (let k = (cc_namespace cc, adminRoleSecretName (cc_spec cc)) in
      andThen (call (GetSecret k) (e_getSecret E k)) (\<lambda>adminRoleSecret.
        let data = (case sec_data adminRoleSecret of None \<Rightarrow> Map.empty | Some d \<Rightarrow> d);
            role = mget data OperatorAdminRole; pw = mget data OperatorAdminPassword in
        andThen (attempt (call (CqlConnect role pw) (e_cqlConnect E role pw))) (\<lambda>r.
          case r of Inl _ \<Rightarrow> ret () | Inr _ \<Rightarrow> reconcileSystemAuthKeyspace E cc allDCs)))"

subsection \<open>The statements sent to Cassandra\<close>

text \<open>\<open>ReplicationQuery\<close>: the options in the order in which the code ranges over the map.\<close>

fun optionsLoop :: "(string \<times> string) list \<Rightarrow> string \<Rightarrow> string" where
  "optionsLoop [] query = query"
| "optionsLoop ((k, v) # opts) query =
     optionsLoop opts ((if query \<noteq> '''' then query @ '','' else query) @
       [CHR 0x27] @ k @ [CHR 0x27] @ '' : '' @ [CHR 0x27] @ v @ [CHR 0x27])"

definition ReplicationQuery :: "(string \<times> string) list \<Rightarrow> string" where
  "ReplicationQuery opts = ''WITH replication = { '' @ optionsLoop opts '''' @ '' }''"

definition UpdateRFQuery :: "string \<Rightarrow> (string \<times> string) list \<Rightarrow> string" where
  "UpdateRFQuery k opts = ''ALTER KEYSPACE '' @ k @ '' '' @ ReplicationQuery opts @ '' ;''"

definition inOrder :: "string list \<Rightarrow> strmap \<Rightarrow> (string \<times> string) list" where
  "inOrder ks m = map (\<lambda>k. (k, mget m k)) ks"

definition reconcileReaperKeyspace :: "'w env \<Rightarrow> string list \<Rightarrow> cassandraCluster \<Rightarrow> dc list \<Rightarrow> ('w, unit) run" where
  "reconcileReaperKeyspace E ord cc allDCs =
     andThen (wrapErr ''failed to get keyspaces info'' (call CqlKeyspaces (e_cqlKeyspaces E))) (\<lambda>keyspaces.
     andThen (lift (reaperKeyspaceName cc)) (\<lambda>rk.
       let options = desiredReplicationOptions cc rk allDCs in
       case getKeyspaceByName keyspaces rk of
         None \<Rightarrow>
           (let query = ''CREATE KEYSPACE '' @ rk @ '' '' @ ReplicationQuery (inOrder ord options) in
            wrapErr ''failed to create reaper keyspace'' (call (CqlQuery query) (e_cqlQuery E query)))
       | Some info \<Rightarrow>
           if options \<noteq> ks_replication info
           then (let query = ''ALTER KEYSPACE '' @ rk @ '' '' @ ReplicationQuery (inOrder ord options) in
                 wrapErr ''failed to create reaper keyspace'' (call (CqlQuery query) (e_cqlQuery E query)))
           else ret ()))"

definition optionText :: "string \<times> string \<Rightarrow> string" where
  "optionText = (\<lambda>(k, v). [CHR 0x27] @ k @ [CHR 0x27] @ '' : '' @ [CHR 0x27] @ v @ [CHR 0x27])"

lemma join_merge: "join sep ((q @ sep @ x) # ys) = join sep (q # x # ys)"
  by (cases ys) simp_all

lemma optionsLoop_join: "q \<noteq> '''' \<Longrightarrow> optionsLoop opts q = join '','' (q # map optionText opts)"
proof (induction opts arbitrary: q)
  case (Cons x opts)
  obtain k v where x: "x = (k, v)" by (cases x)
  have "optionsLoop (x # opts) q = optionsLoop opts (q @ '','' @ optionText x)"
    using Cons.prems by (simp add: x optionText_def)
  also have "\<dots> = join '','' ((q @ '','' @ optionText x) # map optionText opts)"
    by (rule Cons.IH) simp
  also have "\<dots> = join '','' (q # optionText x # map optionText opts)"
    by (rule join_merge)
  finally show ?case by simp
qed simp

lemma ReplicationQuery_join:
  "ReplicationQuery opts = ''WITH replication = { '' @ join '','' (map optionText opts) @ '' }''"
proof (cases opts)
  case (Cons x rest)
  obtain k v where x: "x = (k, v)" by (cases x)
  have "optionsLoop opts '''' = optionsLoop rest (optionText x)"
    by (simp add: Cons x optionText_def)
  also have "\<dots> = join '','' (optionText x # map optionText rest)"
    by (rule optionsLoop_join) (simp add: x optionText_def)
  finally show ?thesis by (simp add: ReplicationQuery_def Cons)
qed (simp add: ReplicationQuery_def)

section \<open>Properties\<close>

lemma desired_cases:
  "desiredReplicationOptions cc ks allDCs = (let sys = systemKeyspacesSpec (cc_spec cc) in
     (if slice (sk_dcs sys) \<noteq> [] \<and> ks \<in> set (sk_keyspaces sys)
      then foldl (\<lambda>m d. m(skdc_name d \<mapsto> itoa (skdc_rf d))) Map.empty (slice (sk_dcs sys))
      else foldl (\<lambda>m d. m(dc_name d \<mapsto> dcRF d)) Map.empty allDCs)
     (''class'' \<mapsto> ReplicationClassNetworkTopologyStrategy))"
  by (simp add: desiredReplicationOptions_def Let_def)

text \<open>Replication of a keyspace that the user does not manage: one entry per datacentre of the cluster,
  all regions included, with the smaller of three and its size as replication factor, under the network
  topology strategy, and nothing else.\<close>

theorem desired_replication_per_dc:
  assumes "ks \<notin> set (sk_keyspaces (systemKeyspacesSpec (cc_spec cc))) \<or> slice (sk_dcs (systemKeyspacesSpec (cc_spec cc))) = []"
    and "distinct (map dc_name allDCs)" "''class'' \<notin> dc_name ` set allDCs"
  shows "dom (desiredReplicationOptions cc ks allDCs) = insert ''class'' (dc_name ` set allDCs) \<and>
    desiredReplicationOptions cc ks allDCs ''class'' = Some ReplicationClassNetworkTopologyStrategy \<and>
    (\<forall>d \<in> set allDCs. desiredReplicationOptions cc ks allDCs (dc_name d) =
       Some (itoa (case dc_replicas d of None \<Rightarrow> 3 | Some n \<Rightarrow> min 3 n)))"
proof -
  let ?m = "foldl (\<lambda>m d. m(dc_name d \<mapsto> dcRF d)) Map.empty allDCs"
  have m: "desiredReplicationOptions cc ks allDCs = ?m(''class'' \<mapsto> ReplicationClassNetworkTopologyStrategy)"
    using assms(1) by (auto simp: desired_cases Let_def)
  have rf: "dcRF d = itoa (case dc_replicas d of None \<Rightarrow> 3 | Some n \<Rightarrow> min 3 n)" for d
    by (auto simp: dcRF_def defaultRF_def min_def split: option.splits)
  have "?m (dc_name d) = Some (itoa (case dc_replicas d of None \<Rightarrow> 3 | Some n \<Rightarrow> min 3 n))"
    if "d \<in> set allDCs" for d
    using foldl_upd_in [OF assms(2) that, of dcRF Map.empty] by (simp only: rf)
  moreover have "dc_name d \<noteq> ''class''" if "d \<in> set allDCs" for d
    using assms(3) that by force
  ultimately show ?thesis
    unfolding m by (auto simp: dom_foldl_upd)
qed

theorem desired_replication_per_dc_witness:
  "desiredReplicationOptions sampleCluster ''system_auth'' (spec_dcs (cc_spec sampleCluster)) ''dc1'' = Some ''3''"
proof -
  have "itoa 3 = ''3''" by code_simp
  then show ?thesis
    using desired_replication_per_dc [of "''system_auth''" sampleCluster "spec_dcs (cc_spec sampleCluster)"]
    by (auto simp: sampleCluster_def)
qed

text \<open>
  What Cassandra does with the statements: \<open>repl w\<close> is the replication of each keyspace. Listing returns it,
  a successful alteration of an existing keyspace sets it, a refused one and a repair leave it. Any call may
  fail.
\<close>

definition cassandraBehaves :: "'w env \<Rightarrow> ('w \<Rightarrow> string \<rightharpoonup> strmap) \<Rightarrow> bool" where
  "cassandraBehaves E repl \<longleftrightarrow>
     (\<forall>w. repl (snd (e_cqlKeyspaces E w)) = repl w \<and>
        (\<forall>kss. fst (e_cqlKeyspaces E w) = Inr kss \<longrightarrow>
           map_of (map (\<lambda>k. (ks_name k, ks_replication k)) kss) = repl w)) \<and>
     (\<forall>k opts w. repl (snd (e_cqlUpdateRF E k opts w)) =
        (if fst (e_cqlUpdateRF E k opts w) = Inr () \<and> k \<in> dom (repl w) then (repl w)(k \<mapsto> opts) else repl w)) \<and>
     (\<forall>k why w. repl (snd (e_runRepair E k why w)) = repl w)"

lemma reconcileKeyspace_repl:
  assumes "cassandraBehaves E repl"
    and "\<And>j. map_option ks_replication (getKeyspaceByName cur j) = r0 j"
    and "dom (repl w) = dom r0"
    and "result (reconcileKeyspace E cc allDCs cur k) w = Inr ()"
  shows "repl (world (reconcileKeyspace E cc allDCs cur k) w) =
    (if k \<in> dom r0 \<and> r0 k \<noteq> Some (desiredReplicationOptions cc k allDCs)
     then (repl w)(k \<mapsto> desiredReplicationOptions cc k allDCs) else repl w)"
proof (cases "getKeyspaceByName cur k")
  case None
  with assms(2) [of k] show ?thesis by (auto simp: reconcileKeyspace_def)
next
  case (Some info)
  with assms(2) [of k] have r0: "r0 k = Some (ks_replication info)" by simp
  with assms(3) have "k \<in> dom (repl w)" by auto
  with assms(1,4) Some r0 show ?thesis
    by (auto simp: reconcileKeyspace_def cassandraBehaves_def cqlUpdateRF_def runRepair_def Let_def
        split: if_splits sum.splits)
qed

lemma reconcileKeyspaces_loop:
  assumes "cassandraBehaves E repl" "\<And>j. map_option ks_replication (getKeyspaceByName cur j) = r0 j"
  shows "result (forEach (reconcileKeyspace E cc allDCs cur) ks) w = Inr () \<Longrightarrow> dom (repl w) = dom r0 \<Longrightarrow>
    (\<forall>j. repl w j = r0 j \<or> repl w j = Some (desiredReplicationOptions cc j allDCs)) \<Longrightarrow>
    dom (repl (world (forEach (reconcileKeyspace E cc allDCs cur) ks) w)) = dom r0 \<and>
    (\<forall>j. j \<notin> set ks \<longrightarrow> repl (world (forEach (reconcileKeyspace E cc allDCs cur) ks) w) j = repl w j) \<and>
    (\<forall>j \<in> set ks. j \<in> dom r0 \<longrightarrow> repl (world (forEach (reconcileKeyspace E cc allDCs cur) ks) w) j =
       Some (desiredReplicationOptions cc j allDCs))"
proof (induction ks arbitrary: w)
  case (Cons k ks)
  let ?m = "reconcileKeyspace E cc allDCs cur k"
  from Cons.prems(1) have ok: "result ?m w = Inr ()"
    by (auto split: sum.splits)
  have step: "repl (world ?m w) = (if k \<in> dom r0 \<and> r0 k \<noteq> Some (desiredReplicationOptions cc k allDCs)
     then (repl w)(k \<mapsto> desiredReplicationOptions cc k allDCs) else repl w)"
    by (rule reconcileKeyspace_repl [OF assms Cons.prems(2) ok])
  have dom: "dom (repl (world ?m w)) = dom r0"
    using Cons.prems(2) unfolding step by auto
  have inv: "\<forall>j. repl (world ?m w) j = r0 j \<or> repl (world ?m w) j = Some (desiredReplicationOptions cc j allDCs)"
    using Cons.prems(3) unfolding step by auto
  have k: "k \<in> dom r0 \<Longrightarrow> repl (world ?m w) k = Some (desiredReplicationOptions cc k allDCs)"
    using Cons.prems(3) [rule_format, of k] unfolding step by auto
  have "result (forEach (reconcileKeyspace E cc allDCs cur) ks) (world ?m w) = Inr ()"
    using Cons.prems(1) ok by simp
  note IH = Cons.IH [OF this dom inv]
  have other: "j \<noteq> k \<Longrightarrow> repl (world ?m w) j = repl w j" for j
    unfolding step by simp
  show ?case
    using IH ok k other by (simp, metis)
qed simp

lemma keyspaces_reached:
  assumes "cassandraBehaves E repl" "desiredKeyspacesToReconcile cc = Inr ks"
    and "result (reconcileKeyspaces E cc allDCs) w = Inr ()"
  shows "dom (repl (world (reconcileKeyspaces E cc allDCs) w)) = dom (repl w) \<and>
    (\<forall>j. j \<in> set ks \<and> j \<in> dom (repl w) \<longrightarrow>
       repl (world (reconcileKeyspaces E cc allDCs) w) j = Some (desiredReplicationOptions cc j allDCs)) \<and>
    (\<forall>j. j \<notin> set ks \<longrightarrow> repl (world (reconcileKeyspaces E cc allDCs) w) j = repl w j)"
proof -
  from assms(2,3) obtain cur where cur: "fst (e_cqlKeyspaces E w) = Inr cur"
    and loop: "result (forEach (reconcileKeyspace E cc allDCs cur) ks) (snd (e_cqlKeyspaces E w)) = Inr ()"
    by (auto simp: reconcileKeyspaces_def split: sum.splits)
  have r0: "map_option ks_replication (getKeyspaceByName cur j) = repl w j" for j
    using assms(1) cur unfolding getKeyspaceByName_map_of cassandraBehaves_def by auto
  have w1: "repl (snd (e_cqlKeyspaces E w)) = repl w"
    using assms(1) by (auto simp: cassandraBehaves_def)
  have world: "world (reconcileKeyspaces E cc allDCs) w =
      world (forEach (reconcileKeyspace E cc allDCs cur) ks) (snd (e_cqlKeyspaces E w))"
    using assms(2) cur by (simp add: reconcileKeyspaces_def)
  from reconcileKeyspaces_loop [OF assms(1) r0 loop] show ?thesis
    unfolding world w1 by auto
qed

text \<open>C12: When reconciling the keyspaces reports success, every managed keyspace that exists has the desired
  replication, the others are as before, and no keyspace was created or dropped.\<close>

theorem keyspaces_reach_desired:
  assumes "cassandraBehaves E repl" "desiredKeyspacesToReconcile cc = Inr ks"
    and "result (reconcileKeyspaces E cc allDCs) w = Inr ()"
  shows "dom (repl (world (reconcileKeyspaces E cc allDCs) w)) = dom (repl w) \<and>
    (\<forall>j. j \<in> set ks \<and> j \<in> dom (repl w) \<longrightarrow>
       repl (world (reconcileKeyspaces E cc allDCs) w) j = Some (desiredReplicationOptions cc j allDCs)) \<and>
    (\<forall>j. j \<notin> set ks \<longrightarrow> repl (world (reconcileKeyspaces E cc allDCs) w) j = repl w j)"
  by (rule keyspaces_reached [OF assms])

text \<open>A Cassandra cluster whose only state is the replication of its keyspaces, listed by name.\<close>

definition replOf :: "(string \<times> strmap) list \<Rightarrow> string \<rightharpoonup> strmap" where
  "replOf w = map_of w"

definition cassandraEnv :: "(string \<times> strmap) list env" where
  "cassandraEnv = quietEnv\<lparr>
     e_cqlKeyspaces := (\<lambda>w. (Inr (map (\<lambda>(n, r). \<lparr>ks_name = n, ks_replication = r\<rparr>) w), w)),
     e_cqlUpdateRF := (\<lambda>k opts w. if k \<in> fst ` set w then (Inr (), (k, opts) # w)
                                  else (Inl (Err ''unknown keyspace''), w))\<rparr>"

lemma cassandraEnv_behaves: "cassandraBehaves cassandraEnv replOf"
  by (auto simp: cassandraBehaves_def cassandraEnv_def quietEnv_def replOf_def comp_def case_prod_beta
      dom_map_of_conv_image_fst)

definition sampleKeyspaces :: "(string \<times> strmap) list" where
  "sampleKeyspaces = [(''system_auth'', [''class'' \<mapsto> ''SimpleStrategy'']), (''app'', [''dc1'' \<mapsto> ''3''])]"

lemma sampleDesired:
  "desiredKeyspacesToReconcile sampleCluster =
     Inr [''system_auth'', ''system_distributed'', ''system_traces'', ''reaper'']"
  by (simp add: desiredKeyspacesToReconcile_def reaperKeyspaceName_def sampleCluster_def
      keyspaceSystemAuth_def keyspaceSystemDistributed_def keyspaceSystemTraces_def)

theorem keyspaces_reach_desired_witness:
  "replOf (world (reconcileKeyspaces cassandraEnv sampleCluster []) sampleKeyspaces) ''system_auth'' =
     Some (desiredReplicationOptions sampleCluster ''system_auth'' []) \<and>
   replOf (world (reconcileKeyspaces cassandraEnv sampleCluster []) sampleKeyspaces) ''app'' = Some [''dc1'' \<mapsto> ''3'']"
proof -
  have ok: "result (reconcileKeyspaces cassandraEnv sampleCluster []) sampleKeyspaces = Inr ()"
    by (simp add: reconcileKeyspaces_def sampleDesired cassandraEnv_def quietEnv_def sampleKeyspaces_def
        reconcileKeyspace_def cqlUpdateRF_def runRepair_def Let_def)
  from keyspaces_reach_desired [OF cassandraEnv_behaves sampleDesired ok] show ?thesis
    by (simp add: replOf_def sampleKeyspaces_def)
qed

lemma reconcileKeyspace_rest:
  "map_option ks_replication (getKeyspaceByName cur k) \<in> {None, Some (desiredReplicationOptions cc k allDCs)} \<Longrightarrow>
     reconcileKeyspace E cc allDCs cur k = ret ()"
  by (auto simp: reconcileKeyspace_def split: option.splits)

lemma forEach_ret: "(\<And>x. x \<in> set xs \<Longrightarrow> f x = ret ()) \<Longrightarrow> forEach f xs = ret ()"
  by (induction xs) auto

text \<open>After a successful pass the next one only lists the keyspaces: it alters and repairs nothing.\<close>

theorem keyspaces_second_pass_rests:
  assumes "cassandraBehaves E repl" "result (reconcileKeyspaces E cc allDCs) w = Inr ()"
  shows "trace (reconcileKeyspaces E cc allDCs) (world (reconcileKeyspaces E cc allDCs) w) = [CqlKeyspaces]"
proof -
  let ?w = "world (reconcileKeyspaces E cc allDCs) w"
  from assms(2) obtain ks where ks: "desiredKeyspacesToReconcile cc = Inr ks"
    by (auto simp: reconcileKeyspaces_def split: sum.splits)
  have desired: "repl ?w j \<in> {None, Some (desiredReplicationOptions cc j allDCs)}" if "j \<in> set ks" for j
    using keyspaces_reached [OF assms(1) ks assms(2)] that by (cases "j \<in> dom (repl w)") auto
  show ?thesis
  proof (cases "fst (e_cqlKeyspaces E ?w)")
    case (Inr cur)
    then have "map_option ks_replication (getKeyspaceByName cur j) = repl ?w j" for j
      using assms(1) unfolding getKeyspaceByName_map_of cassandraBehaves_def by auto
    with desired have "forEach (reconcileKeyspace E cc allDCs cur) ks = ret ()"
      by (intro forEach_ret reconcileKeyspace_rest) simp
    with ks Inr show ?thesis by (simp add: reconcileKeyspaces_def)
  qed (simp add: reconcileKeyspaces_def ks)
qed

theorem keyspaces_second_pass_rests_witness:
  "trace (reconcileKeyspaces cassandraEnv sampleCluster [])
     (world (reconcileKeyspaces cassandraEnv sampleCluster []) sampleKeyspaces) = [CqlKeyspaces]"
proof -
  have "result (reconcileKeyspaces cassandraEnv sampleCluster []) sampleKeyspaces = Inr ()"
    by (simp add: reconcileKeyspaces_def sampleDesired cassandraEnv_def quietEnv_def sampleKeyspaces_def
        reconcileKeyspace_def cqlUpdateRF_def runRepair_def Let_def)
  from keyspaces_second_pass_rests [OF cassandraEnv_behaves this] show ?thesis .
qed

text \<open>Before the cluster is ready, the \<open>system_auth\<close> reconciliation touches that keyspace only, and only when
  its replication differs: it sets the desired options and, if that succeeded and the reaper runs, repairs it.\<close>

theorem system_auth_touches_only_itself:
  "(\<exists>tail. trace (reconcileSystemAuthKeyspace E cc allDCs) w = CqlKeyspaces # tail \<and>
     tail \<in> {[],
       [CqlUpdateRF keyspaceSystemAuth (desiredReplicationOptions cc keyspaceSystemAuth allDCs)],
       [CqlUpdateRF keyspaceSystemAuth (desiredReplicationOptions cc keyspaceSystemAuth allDCs), ReaperIsRunning],
       [CqlUpdateRF keyspaceSystemAuth (desiredReplicationOptions cc keyspaceSystemAuth allDCs), ReaperIsRunning,
        RunRepair keyspaceSystemAuth repairCauseKeyspacesInit]})"
  by (auto simp: reconcileSystemAuthKeyspace_def cqlUpdateRF_def runRepair_def Let_def split: sum.splits option.splits)

text \<open>The reaper keyspace is created when it does not exist, altered when its replication differs, and left
  alone otherwise; the statement carries each option once, in the order of the range over the options.\<close>

theorem reaper_keyspace_statement:
  assumes "fst (e_cqlKeyspaces E w) = Inr cur" "reaperKeyspaceName cc = Inr rk"
    and "ranges ord (desiredReplicationOptions cc rk allDCs)"
  shows "trace (reconcileReaperKeyspace E ord cc allDCs) w = CqlKeyspaces #
    (let opts = desiredReplicationOptions cc rk allDCs;
         body = '' KEYSPACE '' @ rk @ '' WITH replication = { '' @
           join '','' (map (\<lambda>k. [CHR 0x27] @ k @ [CHR 0x27] @ '' : '' @ [CHR 0x27] @ the (opts k) @ [CHR 0x27]) ord) @ '' }''
     in case getKeyspaceByName cur rk of
          None \<Rightarrow> [CqlQuery (''CREATE'' @ body)]
        | Some info \<Rightarrow> if ks_replication info = opts then [] else [CqlQuery (''ALTER'' @ body)])"
proof -
  let ?opts = "desiredReplicationOptions cc rk allDCs"
  have "map optionText (inOrder ord ?opts) =
      map (\<lambda>k. [CHR 0x27] @ k @ [CHR 0x27] @ '' : '' @ [CHR 0x27] @ the (?opts k) @ [CHR 0x27]) ord"
    using assms(3) by (auto simp: inOrder_def optionText_def ranges_def mget_def)
  with assms(1,2) show ?thesis
    by (simp add: reconcileReaperKeyspace_def ReplicationQuery_join Let_def split: option.splits)
qed

theorem reaper_keyspace_statement_witness:
  "trace (reconcileReaperKeyspace cassandraEnv [''class''] sampleCluster []) sampleKeyspaces =
     [CqlKeyspaces, CqlQuery (''CREATE KEYSPACE reaper WITH replication = { '' @
        [CHR 0x27] @ ''class'' @ [CHR 0x27] @ '' : '' @ [CHR 0x27] @ ReplicationClassNetworkTopologyStrategy @
        [CHR 0x27] @ '' }'')]"
proof -
  have cur: "fst (e_cqlKeyspaces cassandraEnv sampleKeyspaces) =
      Inr (map (\<lambda>(n, r). \<lparr>ks_name = n, ks_replication = r\<rparr>) sampleKeyspaces)"
    by (simp add: cassandraEnv_def quietEnv_def)
  have rk: "reaperKeyspaceName sampleCluster = Inr ''reaper''"
    by (simp add: reaperKeyspaceName_def sampleCluster_def)
  have opts: "desiredReplicationOptions sampleCluster ''reaper'' [] = [''class'' \<mapsto> ReplicationClassNetworkTopologyStrategy]"
    by (simp add: desired_cases sampleCluster_def)
  have "ranges [''class''] (desiredReplicationOptions sampleCluster ''reaper'' [])"
    by (simp add: opts ranges_def)
  from reaper_keyspace_statement [OF cur rk this] show ?thesis
    by (simp add: opts sampleKeyspaces_def Let_def)
qed

end
