(* ===== verification/Helpers.thy ===== *)
theory Helpers
  imports Samples
begin

text \<open>
  What the reconcilers share: \<open>controllers/helpers.go\<close> and the comparison of \<open>controllers/compare\<close>.
  \<open>reconcileConfigMap\<close> and \<open>reconcileSecret\<close> bring one object of the API server to a desired state. Their
  contract is the locale \<open>reconciler\<close>: success means the stored object agrees with the desired one, no other
  object changes, and an object that agrees is not written again. The locale is interpreted for both on the
  code's model, for every client that behaves as the API documents (\<open>cmApi\<close>, \<open>secretApi\<close>).
  Also here: the retry loop and the list of datacentres of all regions.
\<close>

section \<open>ConfigMaps and secrets\<close>

definition cmKey :: "configMap \<Rightarrow> key" where
  "cmKey cm = (cm_namespace cm, cm_name cm)"

definition secKey :: "secret \<Rightarrow> key" where
  "secKey s = (sec_namespace s, sec_name s)"

definition getConfigMap :: "'w env \<Rightarrow> string \<Rightarrow> string \<Rightarrow> ('w, configMap) run" where
  "getConfigMap E n namespace =
     andThen (attempt (call (GetConfigMap (namespace, n)) (e_getCM E (namespace, n)))) (\<lambda>r.
       case r of Inr cm \<Rightarrow> ret cm
       | Inl e \<Rightarrow> if isNotFound e then raise (Wrap (n @ '' configmap doesn't exist'') e)
                  else raise (Wrap (''can't get '' @ n) e))"

definition getSecret :: "'w env \<Rightarrow> string \<Rightarrow> string \<Rightarrow> ('w, secret) run" where
  "getSecret E n namespace =
     andThen (attempt (call (GetSecret (namespace, n)) (e_getSecret E (namespace, n)))) (\<lambda>r.
       case r of Inr s \<Rightarrow> ret s
       | Inl e \<Rightarrow> if isNotFound e then raise (Wrap (n @ '' secret doesn't exist'') e)
                  else raise (Wrap (''can't get '' @ n) e))"

text \<open>\<open>compare.EqualConfigMap\<close> and \<open>EqualSecret\<close> ignore the server's bookkeeping only, which the records do not have.\<close>

definition EqualConfigMap :: "configMap \<Rightarrow> configMap \<Rightarrow> bool" where
  "EqualConfigMap actual desired \<longleftrightarrow> actual = desired"

definition EqualSecret :: "secret \<Rightarrow> secret \<Rightarrow> bool" where
  "EqualSecret actual desired \<longleftrightarrow> actual = desired"

definition reconcileConfigMap :: "'w env \<Rightarrow> configMap \<Rightarrow> ('w, unit) run" where
  "reconcileConfigMap E desiredCM =
     (let n = cm_name desiredCM in
      andThen (attempt (call (GetConfigMap (cmKey desiredCM)) (e_getCM E (cmKey desiredCM)))) (\<lambda>r.
        case r of
          Inl e \<Rightarrow>
            if isNotFound e
            then wrapErr (''Unable to create '' @ n) (call (CreateConfigMap desiredCM) (e_createCM E desiredCM))
            else raise (Wrap (''Could not get '' @ n) e)
        | Inr actualCM \<Rightarrow>
            (let desired = desiredCM\<lparr>cm_annotations := MergeMap (cm_annotations actualCM) (cm_annotations desiredCM)\<rparr> in
             if \<not> EqualConfigMap actualCM desired
             then (let actual = actualCM\<lparr>cm_labels := cm_labels desired, cm_data := cm_data desired,
                          cm_annotations := cm_annotations desired, cm_ownerReferences := cm_ownerReferences desired\<rparr> in
                   wrapErr (''Could not update '' @ n) (call (UpdateConfigMap actual) (e_updateCM E actual)))
             else ret ())))"

definition reconcileSecret :: "'w env \<Rightarrow> secret \<Rightarrow> ('w, unit) run" where
  "reconcileSecret E desiredSecret =
     (let n = sec_name desiredSecret in
      andThen (attempt (call (GetSecret (secKey desiredSecret)) (e_getSecret E (secKey desiredSecret)))) (\<lambda>r.
        case r of
          Inl e \<Rightarrow>
            if isNotFound e
            then wrapErr (''Unable to create secret '' @ n) (call (CreateSecret desiredSecret) (e_createSecret E desiredSecret))
            else raise (Wrap (''Could not get secret '' @ n) e)
        | Inr actualSecret \<Rightarrow>
            (let desired = desiredSecret\<lparr>sec_annotations := MergeMap (sec_annotations actualSecret) (sec_annotations desiredSecret)\<rparr> in
             if \<not> EqualSecret actualSecret desired
             then (let actual = actualSecret\<lparr>sec_labels := sec_labels desired, sec_data := sec_data desired,
                          sec_annotations := MergeMap (sec_annotations actualSecret) (sec_annotations desired),
                          sec_ownerReferences := sec_ownerReferences desired\<rparr> in
                   wrapErr (''Could not update secret '' @ n) (call (UpdateSecret actual) (e_updateSecret E actual)))
             else ret ())))"

text \<open>\<open>reconcileAnnotations\<close> on a secret, the only kind the reconciler calls it for.\<close>

definition reconcileAnnotations :: "'w env \<Rightarrow> secret \<Rightarrow> strmap \<Rightarrow> ('w, unit) run" where
  "reconcileAnnotations E object annotations =
     (let object' = object\<lparr>sec_annotations :=
            (case sec_annotations object of None \<Rightarrow> Some annotations
             | Some cur \<Rightarrow> MergeMap (Some cur) (Some annotations))\<rparr>
      in call (UpdateSecret object') (e_updateSecret E object'))"

section \<open>The contract of a reconciler\<close>

definition writes :: "req list \<Rightarrow> req list" where
  "writes t = filter (\<lambda>q. \<not> readOnly q) t"

lemma writes_simps [simp]: "writes [] = []" "writes (xs @ ys) = writes xs @ writes ys"
  "writes (q # t) = (if readOnly q then writes t else q # writes t)"
  by (simp_all add: writes_def)

locale reconciler =
  fixes reconcile :: "'o \<Rightarrow> ('w, unit) run"
    and store :: "'w \<Rightarrow> key \<rightharpoonup> 'o"
    and keyOf :: "'o \<Rightarrow> key"
    and agrees :: "'o \<Rightarrow> 'o \<Rightarrow> bool"
    and served :: bool
  assumes reaches: "served \<Longrightarrow> result (reconcile d) w = Inr () \<Longrightarrow>
      \<exists>a. store (world (reconcile d) w) (keyOf d) = Some a \<and> agrees a d"
    and rests: "served \<Longrightarrow> store w (keyOf d) = Some a \<Longrightarrow> agrees a d \<Longrightarrow>
      writes (trace (reconcile d) w) = [] \<and> store (world (reconcile d) w) = store w"
    and frame: "served \<Longrightarrow> k \<noteq> keyOf d \<Longrightarrow> store (world (reconcile d) w) k = store w k"
begin

lemma second_pass_rests:
  "served \<Longrightarrow> result (reconcile d) w = Inr () \<Longrightarrow> writes (trace (reconcile d) (world (reconcile d) w)) = []"
  using reaches [of d w] rests [of "world (reconcile d) w" d] by blast

lemma frame_many:
  "served \<Longrightarrow> k \<notin> keyOf ` set ds \<Longrightarrow> store (world (forEach reconcile ds) w) k = store w k"
  by (induction ds arbitrary: w) (auto simp: frame split: sum.splits)

lemma reaches_all:
  "served \<Longrightarrow> distinct (map keyOf ds) \<Longrightarrow> result (forEach reconcile ds) w = Inr () \<Longrightarrow> d \<in> set ds \<Longrightarrow>
     \<exists>a. store (world (forEach reconcile ds) w) (keyOf d) = Some a \<and> agrees a d"
proof (induction ds arbitrary: w)
  case (Cons x ds)
  then have x: "result (reconcile x) w = Inr ()"
    and rest: "result (forEach reconcile ds) (world (reconcile x) w) = Inr ()"
    by (auto split: sum.splits)
  show ?case
  proof (cases "d = x")
    case True
    with Cons.prems(2) have "keyOf x \<notin> keyOf ` set ds" by auto
    with reaches [OF Cons.prems(1) x] frame_many [OF Cons.prems(1)] x True show ?thesis by auto
  next
    case False
    with Cons.IH [OF Cons.prems(1) _ rest] Cons.prems(2,4) x show ?thesis by auto
  qed
qed simp

end

text \<open>What the API server promises about the objects of one kind: \<open>store w\<close> is what it holds.\<close>

definition cmApi :: "'w env \<Rightarrow> ('w \<Rightarrow> key \<rightharpoonup> configMap) \<Rightarrow> bool" where
  "cmApi E store \<longleftrightarrow>
     (\<forall>w k cm. store w k = Some cm \<longrightarrow> cmKey cm = k) \<and>
     (\<forall>k w. store (snd (e_getCM E k w)) = store w \<and>
        (case fst (e_getCM E k w) of
           Inr cm \<Rightarrow> store w k = Some cm
         | Inl e \<Rightarrow> e = NotFound \<longrightarrow> store w k = None)) \<and>
     (\<forall>cm w. store (snd (e_createCM E cm w)) =
        (if fst (e_createCM E cm w) = Inr () then (store w)(cmKey cm \<mapsto> cm) else store w)) \<and>
     (\<forall>cm w. store (snd (e_updateCM E cm w)) =
        (if fst (e_updateCM E cm w) = Inr () then (store w)(cmKey cm \<mapsto> cm) else store w))"

definition secretApi :: "'w env \<Rightarrow> ('w \<Rightarrow> key \<rightharpoonup> secret) \<Rightarrow> bool" where
  "secretApi E store \<longleftrightarrow>
     (\<forall>w k s. store w k = Some s \<longrightarrow> secKey s = k) \<and>
     (\<forall>k w. store (snd (e_getSecret E k w)) = store w \<and>
        (case fst (e_getSecret E k w) of
           Inr s \<Rightarrow> store w k = Some s
         | Inl e \<Rightarrow> e = NotFound \<longrightarrow> store w k = None)) \<and>
     (\<forall>s w. store (snd (e_createSecret E s w)) =
        (if fst (e_createSecret E s w) = Inr () then (store w)(secKey s \<mapsto> s) else store w)) \<and>
     (\<forall>s w. store (snd (e_updateSecret E s w)) =
        (if fst (e_updateSecret E s w) = Inr () then (store w)(secKey s \<mapsto> s) else store w))"

definition cmAgrees :: "configMap \<Rightarrow> configMap \<Rightarrow> bool" where
  "cmAgrees a d \<longleftrightarrow> cmKey a = cmKey d \<and> cm_labels a = cm_labels d \<and> cm_data a = cm_data d \<and>
     cm_ownerReferences a = cm_ownerReferences d \<and>
     MergeMap (cm_annotations a) (cm_annotations d) = cm_annotations a"

definition secAgrees :: "secret \<Rightarrow> secret \<Rightarrow> bool" where
  "secAgrees a d \<longleftrightarrow> secKey a = secKey d \<and> sec_labels a = sec_labels d \<and> sec_data a = sec_data d \<and>
     sec_ownerReferences a = sec_ownerReferences d \<and>
     MergeMap (sec_annotations a) (sec_annotations d) = sec_annotations a"

lemma MergeMap_self [simp]: "MergeMap a a = a"
  by (cases a) (auto simp: map_add_def fun_eq_iff split: option.splits)

lemma MergeMap_left_absorb [simp]: "MergeMap a (MergeMap a b) = MergeMap a b"
  by (cases a; cases b) (auto simp: map_add_def fun_eq_iff split: option.splits)

declare MergeMap_absorb [simp]

lemma configMap_eqI:
  "cmKey (a :: configMap) = cmKey d \<Longrightarrow> cm_labels a = cm_labels d \<Longrightarrow> cm_data a = cm_data d \<Longrightarrow>
     cm_ownerReferences a = cm_ownerReferences d \<Longrightarrow> cm_annotations a = cm_annotations d \<Longrightarrow> a = d"
  by (cases a; cases d) (simp add: cmKey_def)

lemma secret_eqI:
  "secKey (a :: secret) = secKey d \<Longrightarrow> sec_labels a = sec_labels d \<Longrightarrow> sec_data a = sec_data d \<Longrightarrow>
     sec_ownerReferences a = sec_ownerReferences d \<Longrightarrow> sec_annotations a = sec_annotations d \<Longrightarrow> a = d"
  by (cases a; cases d) (simp add: secKey_def)

lemma cmAgrees_equal:
  "cmAgrees a d \<longleftrightarrow> cmKey a = cmKey d \<and> a = d\<lparr>cm_annotations := MergeMap (cm_annotations a) (cm_annotations d)\<rparr>"
  by (cases a; cases d) (auto simp: cmAgrees_def cmKey_def)

lemma secAgrees_equal:
  "secAgrees a d \<longleftrightarrow> secKey a = secKey d \<and> a = d\<lparr>sec_annotations := MergeMap (sec_annotations a) (sec_annotations d)\<rparr>"
  by (cases a; cases d) (auto simp: secAgrees_def secKey_def)

lemma cmApi_key: "cmApi E store \<Longrightarrow> store w k = Some cm \<Longrightarrow> cmKey cm = k"
  unfolding cmApi_def by blast

lemma cmApi_get: "cmApi E store \<Longrightarrow> store (snd (e_getCM E k w)) = store w"
  unfolding cmApi_def by blast

lemma cmApi_found: "cmApi E store \<Longrightarrow> fst (e_getCM E k w) = Inr cm \<Longrightarrow> store w k = Some cm"
  by (metis (mono_tags, lifting) cmApi_def sum.simps(6))

lemma cmApi_write:
  "cmApi E store \<Longrightarrow> store (snd (e_createCM E cm w)) =
        (if fst (e_createCM E cm w) = Inr () then (store w)(cmKey cm \<mapsto> cm) else store w)"
  "cmApi E store \<Longrightarrow> store (snd (e_updateCM E cm w)) =
        (if fst (e_updateCM E cm w) = Inr () then (store w)(cmKey cm \<mapsto> cm) else store w)"
  by (auto simp: cmApi_def)

lemma secretApi_key: "secretApi E store \<Longrightarrow> store w k = Some s \<Longrightarrow> secKey s = k"
  unfolding secretApi_def by blast

lemma secretApi_get: "secretApi E store \<Longrightarrow> store (snd (e_getSecret E k w)) = store w"
  unfolding secretApi_def by blast

lemma secretApi_found: "secretApi E store \<Longrightarrow> fst (e_getSecret E k w) = Inr s \<Longrightarrow> store w k = Some s"
  by (metis (mono_tags, lifting) secretApi_def sum.simps(6))

lemma secretApi_write:
  "secretApi E store \<Longrightarrow> store (snd (e_createSecret E s w)) =
        (if fst (e_createSecret E s w) = Inr () then (store w)(secKey s \<mapsto> s) else store w)"
  "secretApi E store \<Longrightarrow> store (snd (e_updateSecret E s w)) =
        (if fst (e_updateSecret E s w) = Inr () then (store w)(secKey s \<mapsto> s) else store w)"
  by (auto simp: secretApi_def)

lemma cmKey_simps [simp]:
  "cmKey (cm\<lparr>cm_labels := l\<rparr>) = cmKey cm" "cmKey (cm\<lparr>cm_data := d\<rparr>) = cmKey cm"
  "cmKey (cm\<lparr>cm_annotations := a\<rparr>) = cmKey cm" "cmKey (cm\<lparr>cm_ownerReferences := rs\<rparr>) = cmKey cm"
  by (simp_all add: cmKey_def)

lemma secKey_simps [simp]:
  "secKey (s\<lparr>sec_labels := l\<rparr>) = secKey s" "secKey (s\<lparr>sec_data := d\<rparr>) = secKey s"
  "secKey (s\<lparr>sec_annotations := a\<rparr>) = secKey s" "secKey (s\<lparr>sec_ownerReferences := rs\<rparr>) = secKey s"
  by (simp_all add: secKey_def)

lemmas reconcile_defs = reconcileConfigMap_def reconcileSecret_def EqualConfigMap_def EqualSecret_def Let_def

interpretation cmRec: reconciler "reconcileConfigMap E" store cmKey cmAgrees "cmApi E store" for E store
proof
  fix d w
  assume api: "cmApi E store" and ok: "result (reconcileConfigMap E d) w = Inr ()"
  let ?g = "e_getCM E (cmKey d) w"
  show "\<exists>a. store (world (reconcileConfigMap E d) w) (cmKey d) = Some a \<and> cmAgrees a d"
  proof (cases "fst ?g")
    case (Inl e)
    with ok show ?thesis
      by (auto simp: reconcile_defs cmApi_write [OF api] cmAgrees_def split: if_splits sum.splits)
  next
    case (Inr a)
    from cmApi_key [OF api cmApi_found [OF api Inr]] have key: "cmKey a = cmKey d" .
    let ?d = "d\<lparr>cm_annotations := MergeMap (cm_annotations a) (cm_annotations d)\<rparr>"
    show ?thesis
    proof (cases "a = ?d")
      case True
      with key have "cmAgrees a d" by (simp add: cmAgrees_equal)
      with Inr True cmApi_found [OF api Inr] show ?thesis
        by (auto simp: reconcile_defs cmApi_get [OF api])
    next
      case False
      with Inr ok key show ?thesis
        by (auto simp: reconcile_defs cmApi_write [OF api] cmAgrees_def split: if_splits sum.splits)
    qed
  qed
next
  fix d w a
  assume api: "cmApi E store" and st: "store w (cmKey d) = Some a" and ag: "cmAgrees a d"
  show "writes (trace (reconcileConfigMap E d) w) = [] \<and> store (world (reconcileConfigMap E d) w) = store w"
  proof (cases "fst (e_getCM E (cmKey d) w)")
    case (Inl e)
    moreover have "e \<noteq> NotFound"
      using api st Inl by (metis (mono_tags, lifting) cmApi_def option.distinct(1) sum.simps(5))
    ultimately show ?thesis
      by (auto simp: reconcile_defs isNotFound_def cmApi_get [OF api])
  next
    case (Inr b)
    with cmApi_found [OF api Inr] st have "b = a" by simp
    with Inr ag show ?thesis
      by (auto simp: reconcile_defs cmApi_get [OF api] cmAgrees_equal)
  qed
next
  fix k d w
  assume api: "cmApi E store" and k: "k \<noteq> cmKey d"
  show "store (world (reconcileConfigMap E d) w) k = store w k"
  proof (cases "fst (e_getCM E (cmKey d) w)")
    case (Inl e)
    with k show ?thesis
      by (auto simp: reconcile_defs cmApi_write [OF api] cmApi_get [OF api])
  next
    case (Inr b)
    with cmApi_key [OF api cmApi_found [OF api Inr]] k show ?thesis
      by (auto simp: reconcile_defs cmApi_write [OF api] cmApi_get [OF api])
  qed
qed

interpretation secRec: reconciler "reconcileSecret E" store secKey secAgrees "secretApi E store" for E store
proof
  fix d w
  assume api: "secretApi E store" and ok: "result (reconcileSecret E d) w = Inr ()"
  let ?g = "e_getSecret E (secKey d) w"
  show "\<exists>a. store (world (reconcileSecret E d) w) (secKey d) = Some a \<and> secAgrees a d"
  proof (cases "fst ?g")
    case (Inl e)
    with ok show ?thesis
      by (auto simp: reconcile_defs secretApi_write [OF api] secAgrees_def split: if_splits sum.splits)
  next
    case (Inr a)
    from secretApi_key [OF api secretApi_found [OF api Inr]] have key: "secKey a = secKey d" .
    let ?d = "d\<lparr>sec_annotations := MergeMap (sec_annotations a) (sec_annotations d)\<rparr>"
    show ?thesis
    proof (cases "a = ?d")
      case True
      with key have "secAgrees a d" by (simp add: secAgrees_equal)
      with Inr True secretApi_found [OF api Inr] show ?thesis
        by (auto simp: reconcile_defs secretApi_get [OF api])
    next
      case False
      with Inr ok key show ?thesis
        by (auto simp: reconcile_defs secretApi_write [OF api] secAgrees_def split: if_splits sum.splits)
    qed
  qed
next
  fix d w a
  assume api: "secretApi E store" and st: "store w (secKey d) = Some a" and ag: "secAgrees a d"
  show "writes (trace (reconcileSecret E d) w) = [] \<and> store (world (reconcileSecret E d) w) = store w"
  proof (cases "fst (e_getSecret E (secKey d) w)")
    case (Inl e)
    moreover have "e \<noteq> NotFound"
      using api st Inl by (metis (mono_tags, lifting) secretApi_def option.distinct(1) sum.simps(5))
    ultimately show ?thesis
      by (auto simp: reconcile_defs isNotFound_def secretApi_get [OF api])
  next
    case (Inr b)
    with secretApi_found [OF api Inr] st have "b = a" by simp
    with Inr ag show ?thesis
      by (auto simp: reconcile_defs secretApi_get [OF api] secAgrees_equal)
  qed
next
  fix k d w
  assume api: "secretApi E store" and k: "k \<noteq> secKey d"
  show "store (world (reconcileSecret E d) w) k = store w k"
  proof (cases "fst (e_getSecret E (secKey d) w)")
    case (Inl e)
    with k show ?thesis
      by (auto simp: reconcile_defs secretApi_write [OF api] secretApi_get [OF api])
  next
    case (Inr b)
    with secretApi_key [OF api secretApi_found [OF api Inr]] k show ?thesis
      by (auto simp: reconcile_defs secretApi_write [OF api] secretApi_get [OF api])
  qed
qed

section \<open>Retries\<close>

definition retryAttempts :: nat where "retryAttempts = 3"

text \<open>The loop of \<open>doWithRetry\<close> with \<open>n\<close> attempts left; the delays between attempts are not modelled.\<close>

fun retryLoop :: "nat \<Rightarrow> go_error option \<Rightarrow> ('w, unit) run \<Rightarrow> ('w, unit) run" where
  "retryLoop 0 err f = (case err of None \<Rightarrow> ret () | Some e \<Rightarrow> raise e)"
| "retryLoop (Suc n) err f =
     andThen (attempt f) (\<lambda>r. case r of Inl e \<Rightarrow> retryLoop n (Some e) f | Inr _ \<Rightarrow> ret ())"

definition doWithRetry :: "('w, unit) run \<Rightarrow> ('w, unit) run" where
  "doWithRetry f = retryLoop retryAttempts None f"

text \<open>The world after \<open>n\<close> runs of an action.\<close>

fun after :: "nat \<Rightarrow> ('w, unit) run \<Rightarrow> 'w \<Rightarrow> 'w" where
  "after 0 f w = w"
| "after (Suc n) f w = after n f (world f w)"

lemma retryLoop_result:
  assumes "\<And>v. result f v \<noteq> Inl Panic"
  shows "result (retryLoop (Suc n) err f) w =
    (if \<exists>i < Suc n. result f (after i f w) = Inr () then Inr () else result f (after n f w))"
proof (induction n arbitrary: err w)
  case 0
  show ?case using assms [of w] by (cases "result f w") auto
next
  case (Suc n)
  have split: "(\<exists>i < Suc (Suc n). result f (after i f w) = Inr ()) \<longleftrightarrow>
      result f w = Inr () \<or> (\<exists>i < Suc n. result f (after i f (world f w)) = Inr ())"
    by (metis after.simps less_Suc_eq_0_disj)
  show ?case
  proof (cases "result f w")
    case (Inl e)
    then have "result (retryLoop (Suc (Suc n)) err f) w = result (retryLoop (Suc n) (Some e) f) (world f w)"
      using assms [of w] by simp
    with Inl split Suc.IH [of "Some e" "world f w"] show ?thesis by (auto simp del: retryLoop.simps)
  next
    case (Inr u)
    with split show ?thesis by simp
  qed
qed

lemma retryLoop_trace:
  assumes "\<And>v. result f v \<noteq> Inl Panic"
  shows "\<exists>k \<le> n. trace (retryLoop n err f) w = concat (map (\<lambda>i. trace f (after i f w)) [0..<k])"
proof (induction n arbitrary: err w)
  case 0
  show ?case by (cases err) auto
next
  case (Suc n)
  show ?case
  proof (cases "result f w")
    case (Inl e)
    from Suc.IH [of "Some e" "world f w"] obtain k where k: "k \<le> n"
      "trace (retryLoop n (Some e) f) (world f w) = concat (map (\<lambda>i. trace f (after i f (world f w))) [0..<k])"
      by blast
    have "map (\<lambda>i. trace f (after i f w)) [0..<Suc k] =
        trace f w # map (\<lambda>i. trace f (after i f (world f w))) [0..<k]"
      by (simp add: upt_conv_Cons map_Suc_upt [symmetric] comp_def del: upt_Suc)
    with k Inl assms [of w] show ?thesis by (intro exI [of _ "Suc k"]) simp
  next
    case (Inr u)
    then show ?thesis by (intro exI [of _ 1]) simp
  qed
qed

section \<open>The datacentres of all regions\<close>

definition unmanagedDC :: "systemKeyspaceDC \<Rightarrow> dc" where
  "unmanagedDC d = \<lparr>dc_name = skdc_name d, dc_replicas = Some (if skdc_rf d < 3 then skdc_rf d else 3),
     dc_affinity = None, dc_tolerations = []\<rparr>"

definition fetchRegionDCs :: "'w env \<Rightarrow> cassandraCluster \<Rightarrow> managedRegion \<Rightarrow> dc list \<Rightarrow> ('w, dc list) run" where
  "fetchRegionDCs E cc region allDCs =
     (let regionURL = ProberIngressDomain cc region in
      andThen (wrapErr (''can't get dcs list from region '' @ regionURL)
          (call (FetchDCs regionURL) (e_fetchDCs E regionURL))) (\<lambda>externalDCs.
        if length externalDCs = 0 then raise ErrRegionNotReady else ret (allDCs @ externalDCs)))"

definition getAllDCs :: "'w env \<Rightarrow> cassandraCluster \<Rightarrow> ('w, dc list) run" where
  "getAllDCs E cc =
     (let allDCs = spec_dcs (cc_spec cc) in
      if length (managedRegions cc) = 0 \<and> length (unmanagedRegions cc) = 0 then ret allDCs
      else andThen (foldAct (fetchRegionDCs E cc) (managedRegions cc) allDCs) (\<lambda>dcs.
             ret (dcs @ concat (map (\<lambda>u. map unmanagedDC (ur_dcs u)) (unmanagedRegions cc)))))"

lemma fetchRegionDCs_result:
  "result (fetchRegionDCs E cc r acc) w = Inr x \<Longrightarrow> \<exists>ds. ds \<noteq> [] \<and> x = acc @ ds"
  by (auto simp: fetchRegionDCs_def Let_def split: sum.splits if_splits)

lemma fetchRegions_result:
  "result (foldAct (fetchRegionDCs E cc) rs acc) w = Inr dcs \<Longrightarrow>
     \<exists>dss. length dss = length rs \<and> dcs = acc @ concat dss \<and> [] \<notin> set dss"
proof (induction rs arbitrary: acc w)
  case (Cons r rs)
  then obtain x where x: "result (fetchRegionDCs E cc r acc) w = Inr x"
    and rest: "result (foldAct (fetchRegionDCs E cc) rs x) (world (fetchRegionDCs E cc r acc) w) = Inr dcs"
    by (auto split: sum.splits)
  from fetchRegionDCs_result [OF x] obtain ds where ds: "ds \<noteq> []" "x = acc @ ds" by blast
  from Cons.IH [OF rest] obtain dss where
    "length dss = length rs" "dcs = x @ concat dss" "[] \<notin> set dss" by blast
  with ds show ?case by (intro exI [of _ "ds # dss"]) auto
qed simp

section \<open>Properties\<close>

text \<open>Reconciling any list of distinct configmaps: if it reports success, the API server holds each of them with
  the desired data, labels and owners and at least the desired annotations, and every other configmap is as it was.\<close>

theorem configmaps_reconciled:
  assumes "cmApi E store" "distinct (map cmKey ds)" "result (forEach (reconcileConfigMap E) ds) w = Inr ()"
  shows "(\<forall>d \<in> set ds. \<exists>a. store (world (forEach (reconcileConfigMap E) ds) w) (cmKey d) = Some a \<and> cmAgrees a d) \<and>
    (\<forall>k. k \<notin> cmKey ` set ds \<longrightarrow> store (world (forEach (reconcileConfigMap E) ds) w) k = store w k)"
  using cmRec.reaches_all [OF assms] cmRec.frame_many [OF assms(1)] by blast

text \<open>An API server whose state is the map of its configmaps and that never fails.\<close>

definition cmsOf :: "(key \<rightharpoonup> configMap) \<Rightarrow> key \<rightharpoonup> configMap" where
  "cmsOf w = (\<lambda>k. case w k of None \<Rightarrow> None | Some cm \<Rightarrow> if cmKey cm = k then Some cm else None)"

definition cmServer :: "(key \<rightharpoonup> configMap) env" where
  "cmServer = quietEnv\<lparr>e_getCM := (\<lambda>k w. (case cmsOf w k of None \<Rightarrow> Inl NotFound | Some cm \<Rightarrow> Inr cm, w)),
     e_createCM := (\<lambda>cm w. (Inr (), w(cmKey cm \<mapsto> cm))), e_updateCM := (\<lambda>cm w. (Inr (), w(cmKey cm \<mapsto> cm)))\<rparr>"

lemma cmsOf_upd [simp]: "cmsOf (w(cmKey cm \<mapsto> cm)) = (cmsOf w)(cmKey cm \<mapsto> cm)"
  by (auto simp: cmsOf_def fun_eq_iff)

lemma cmServer_api: "cmApi cmServer cmsOf"
proof -
  have "cmsOf w k = Some cm \<Longrightarrow> cmKey cm = k" for w k cm
    by (auto simp: cmsOf_def split: option.splits if_splits)
  then show ?thesis
    unfolding cmApi_def by (auto simp: cmServer_def quietEnv_def simp del: fun_upd_apply split: option.splits)
qed

definition sampleCM :: "string \<Rightarrow> configMap" where
  "sampleCM n = \<lparr>cm_name = n, cm_namespace = ''ns'', cm_labels = Map.empty, cm_annotations = Some [''a'' \<mapsto> ''1''],
     cm_ownerReferences = [''c''], cm_data = Some [''k'' \<mapsto> ''v'']\<rparr>"

theorem configmaps_reconciled_witness:
  "\<exists>a. cmsOf (world (forEach (reconcileConfigMap cmServer) [sampleCM ''x'', sampleCM ''y'']) Map.empty) (''ns'', ''x'') = Some a \<and>
     cmAgrees a (sampleCM ''x'')"
proof -
  have "result (forEach (reconcileConfigMap cmServer) [sampleCM ''x'', sampleCM ''y'']) Map.empty = Inr ()"
    by (simp add: reconcileConfigMap_def cmServer_def quietEnv_def sampleCM_def cmKey_def Let_def
        isNotFound_def cmsOf_def)
  from configmaps_reconciled [OF cmServer_api _ this] show ?thesis
    by (simp add: cmKey_def sampleCM_def)
qed

text \<open>Reconciling a secret is idempotent: after a success the server holds the desired data and a second pass
  writes nothing.\<close>

theorem secret_second_pass_rests:
  assumes "secretApi E store" "result (reconcileSecret E d) w = Inr ()"
  shows "(\<exists>a. store (world (reconcileSecret E d) w) (secKey d) = Some a \<and> sec_data a = sec_data d) \<and>
    writes (trace (reconcileSecret E d) (world (reconcileSecret E d) w)) = []"
  using secRec.reaches [OF assms] secRec.second_pass_rests [OF assms] by (auto simp: secAgrees_def)

definition secretServer :: "secret option env" where
  "secretServer = quietEnv\<lparr>
     e_getSecret := (\<lambda>k w. (case w of None \<Rightarrow> Inl NotFound | Some s \<Rightarrow> if secKey s = k then Inr s else Inl NotFound, w)),
     e_createSecret := (\<lambda>s w. if w = None then (Inr (), Some s) else (Inl Conflict, w)),
     e_updateSecret := (\<lambda>s w. if map_option secKey w = Some (secKey s) then (Inr (), Some s) else (Inl NotFound, w))\<rparr>"

definition secretOf :: "secret option \<Rightarrow> key \<rightharpoonup> secret" where
  "secretOf w = (case w of None \<Rightarrow> Map.empty | Some s \<Rightarrow> [secKey s \<mapsto> s])"

lemma secretServer_api: "secretApi secretServer secretOf"
  unfolding secretApi_def
  by (auto simp: secretServer_def quietEnv_def secretOf_def split: option.splits if_splits)

definition sampleSecret :: secret where
  "sampleSecret = \<lparr>sec_name = ''s'', sec_namespace = ''ns'', sec_labels = Map.empty, sec_annotations = None,
     sec_ownerReferences = [], sec_data = Some [OperatorAdminRole \<mapsto> ''admin'', OperatorAdminPassword \<mapsto> ''pw'']\<rparr>"

theorem secret_second_pass_rests_witness:
  "writes (trace (reconcileSecret secretServer sampleSecret)
     (world (reconcileSecret secretServer sampleSecret) (Some (sampleSecret\<lparr>sec_data := None\<rparr>)))) = []"
proof -
  have "result (reconcileSecret secretServer sampleSecret) (Some (sampleSecret\<lparr>sec_data := None\<rparr>)) = Inr ()"
    by (simp add: reconcileSecret_def EqualSecret_def secretServer_def quietEnv_def sampleSecret_def secKey_def Let_def)
  from secret_second_pass_rests [OF secretServer_api this] show ?thesis by blast
qed

text \<open>C22: A retried action runs at most three times: it succeeds exactly when one of the three runs does, otherwise the
  error of the third run is returned, and what was sent is what the runs sent.\<close>

theorem retry_three_attempts:
  assumes "\<And>v. result f v \<noteq> Inl Panic"
  shows "result (doWithRetry f) w =
      (if \<exists>i < 3. result f (after i f w) = Inr () then Inr () else result f (after 2 f w)) \<and>
    (\<exists>k \<le> 3. trace (doWithRetry f) w = concat (map (\<lambda>i. trace f (after i f w)) [0..<k]))"
  using retryLoop_result [OF assms, of 2 None w] retryLoop_trace [OF assms, of 3 None w]
  by (simp add: doWithRetry_def retryAttempts_def numeral_3_eq_3 numeral_2_eq_2)

theorem retry_three_attempts_witness:
  "result (doWithRetry (call CqlRoles (\<lambda>n. (if n < (2::nat) then Inl (Err ''down'') else Inr (), Suc n)))) 0 = Inr ()"
proof -
  let ?f = "call CqlRoles (\<lambda>n. (if n < (2::nat) then Inl (Err ''down'') else Inr (), Suc n))"
  have "result ?f (after 2 ?f 0) = Inr ()" by (simp add: numeral_2_eq_2)
  then have "\<exists>i < 3. result ?f (after i ?f 0) = Inr ()" by (intro exI [of _ 2]) simp
  then show ?thesis using retry_three_attempts [of ?f 0] by simp
qed

text \<open>The datacentres of all regions are the local ones, then those each managed region reports, then those of the
  unmanaged regions with at most three replicas; a managed region that reports none stops the reconciliation.\<close>

theorem all_dcs_by_region:
  assumes "result (getAllDCs E cc) w = Inr dcs"
  shows "\<exists>dss. length dss = length (managedRegions cc) \<and> [] \<notin> set dss \<and>
    dcs = spec_dcs (cc_spec cc) @ concat dss @
      map (\<lambda>d. \<lparr>dc_name = skdc_name d, dc_replicas = Some (min 3 (skdc_rf d)), dc_affinity = None, dc_tolerations = []\<rparr>)
        (concat (map ur_dcs (unmanagedRegions cc)))"
proof -
  have u: "unmanagedDC = (\<lambda>d. \<lparr>dc_name = skdc_name d, dc_replicas = Some (min 3 (skdc_rf d)),
      dc_affinity = None, dc_tolerations = []\<rparr>)"
    by (auto simp: unmanagedDC_def min_def fun_eq_iff)
  show ?thesis
  proof (cases "managedRegions cc = [] \<and> unmanagedRegions cc = []")
    case True
    with assms show ?thesis by (simp add: getAllDCs_def)
  next
    case False
    with assms obtain ds where "result (foldAct (fetchRegionDCs E cc) (managedRegions cc) (spec_dcs (cc_spec cc))) w = Inr ds"
      and "dcs = ds @ concat (map (\<lambda>u. map unmanagedDC (ur_dcs u)) (unmanagedRegions cc))"
      by (auto simp: getAllDCs_def Let_def split: sum.splits if_splits)
    with fetchRegions_result show ?thesis unfolding u map_concat map_map comp_def by fastforce
  qed
qed

theorem all_dcs_by_region_witness:
  "result (getAllDCs quietEnv sampleCluster) () = Inr (spec_dcs (cc_spec sampleCluster)) \<and>
   (\<exists>dss. spec_dcs (cc_spec sampleCluster) = spec_dcs (cc_spec sampleCluster) @ concat dss)"
proof -
  have r: "result (getAllDCs quietEnv sampleCluster) () = Inr (spec_dcs (cc_spec sampleCluster))"
    by (simp add: getAllDCs_def managedRegions_def unmanagedRegions_def sampleCluster_def)
  from all_dcs_by_region [OF r] r show ?thesis by auto
qed

end
