(* ===== verification/Readiness.thy ===== *)
theory Readiness
  imports Helpers
begin

text \<open>
  Readiness of datacentres, regions and the cluster: \<open>controllers/readiness.go\<close>, with the order of the
  regions from \<open>controllers/cassandra_pods_config.go\<close> (\<open>getAllRegionsHosts\<close>).
  The operator of each region publishes whether its own datacentres are ready and reads the flags of the
  others. The lemmas say when the cluster counts as ready and which flag is published.
\<close>

section \<open>Datacentres\<close>

definition dcReady :: "int \<Rightarrow> int \<Rightarrow> bool" where
  "dcReady replicas ready \<longleftrightarrow> \<not> (replicas \<noteq> ready \<or> (ready = 0 \<and> replicas \<noteq> 0))"

definition checkDC :: "'w env \<Rightarrow> cassandraCluster \<Rightarrow> dc \<Rightarrow> string list \<Rightarrow> ('w, string list) run" where
  "checkDC E cc d unready =
     (let k = (cc_namespace cc, DC (cc_name cc) (dc_name d)) in
      andThen (attempt (call (GetStatefulSet k) (e_getSts E k))) (\<lambda>r.
        case r of
          Inl e \<Rightarrow> if isNotFound e then ret (unready @ [dc_name d])
                   else raise (Wrap ''failed to get statefulset: '' e)
        | Inr sts \<Rightarrow>
            andThen (lift (deref (dc_replicas d))) (\<lambda>replicas.
              if \<not> dcReady replicas (sts_readyReplicas sts) then ret (unready @ [dc_name d]) else ret unready)))"

definition unreadyDCs :: "'w env \<Rightarrow> cassandraCluster \<Rightarrow> ('w, string list) run" where
  "unreadyDCs E cc = foldAct (checkDC E cc) (spec_dcs (cc_spec cc)) []"

section \<open>Regions\<close>

definition currentRegionHost :: "cassandraCluster \<Rightarrow> string" where
  "currentRegionHost cc = ProberIngressHost (cc_name cc) (cc_namespace cc) (ing_domain (ingressSpec (cc_spec cc)))"

definition checkRegion :: "'w env \<Rightarrow> cassandraCluster \<Rightarrow> managedRegion \<Rightarrow> string list \<Rightarrow> ('w, string list) run" where
  "checkRegion E cc region unready =
     (let proberHost = ProberIngressDomain cc region in
      andThen (attempt (call (FetchRegionReady proberHost) (e_fetchRegionReady E proberHost))) (\<lambda>r.
        case r of
          Inl _ \<Rightarrow> raise ErrRegionNotReady
        | Inr regionReady \<Rightarrow> ret (if \<not> regionReady then unready @ [proberHost] else unready)))"

definition unreadyRegions :: "'w env \<Rightarrow> cassandraCluster \<Rightarrow> ('w, string list) run" where
  "unreadyRegions E cc = foldAct (checkRegion E cc) (managedRegions cc) []"

definition putRegionStatus :: "'w env \<Rightarrow> bool \<Rightarrow> ('w, unit) run" where
  "putRegionStatus E b = call (PutRegionStatus b) (e_putRegionStatus E b)"

definition clusterReady :: "'w env \<Rightarrow> cassandraCluster \<Rightarrow> ('w, bool) run" where
  "clusterReady E cc =
     andThen (wrapErr ''Failed to check DCs readiness'' (unreadyDCs E cc)) (\<lambda>unready.
     if length unready > 0
     then andThen (wrapErr ''Failed to set DC status to not ready for prober'' (putRegionStatus E False)) (\<lambda>_. ret False)
     else andThen (wrapErr ''Failed to set DC's status to ready'' (putRegionStatus E True)) (\<lambda>_.
          andThen (wrapErr ''Failed to check region readiness'' (unreadyRegions E cc)) (\<lambda>regions.
            if hp_enabled (hostPortSpec (cc_spec cc)) \<and> length regions \<noteq> 0 then ret False else ret True)))"

text \<open>The hosts of all regions in the order in which they are initialised.\<close>

definition getAllRegionsHosts :: "cassandraCluster \<Rightarrow> string list" where
  "getAllRegionsHosts cc =
     sort (map (ProberIngressDomain cc) (filter (\<lambda>r. length (mr_domain r) > 0) (managedRegions cc)) @
           [currentRegionHost cc])"

definition waitForFirstRegionReaper :: "'w env \<Rightarrow> cassandraCluster \<Rightarrow> ('w, bool) run" where
  "waitForFirstRegionReaper E cc =
     (if length (managedRegions cc) = 0 then ret False
      else let firstRegion = getAllRegionsHosts cc ! 0 in
        if firstRegion = currentRegionHost cc then ret False
        else andThen (wrapErr (''Can't get reaper status from region '' @ firstRegion)
               (call (FetchReaperReady firstRegion) (e_fetchReaperReady E firstRegion))) (\<lambda>reaperReady.
               if \<not> reaperReady then ret True else ret False))"

section \<open>Lemmas\<close>

lemma getAllRegionsHosts_nonempty [simp]: "getAllRegionsHosts cc \<noteq> []"
  by (simp add: getAllRegionsHosts_def) (metis length_0_conv length_sort snoc_eq_iff_butlast)

lemma current_in_hosts [simp]: "currentRegionHost cc \<in> set (getAllRegionsHosts cc)"
  by (simp add: getAllRegionsHosts_def)

lemma sorted_getAllRegionsHosts [simp]: "sorted (getAllRegionsHosts cc)"
  by (simp add: getAllRegionsHosts_def)

text \<open>\<open>dcUp E cc d w\<close>: asked in the world \<open>w\<close>, the API server answers that the stateful set of the datacentre has all its
  replicas ready.\<close>

definition dcUp :: "'w env \<Rightarrow> cassandraCluster \<Rightarrow> dc \<Rightarrow> 'w \<Rightarrow> bool" where
  "dcUp E cc d w \<longleftrightarrow> (\<exists>sts. fst (e_getSts E (cc_namespace cc, DC (cc_name cc) (dc_name d)) w) = Inr sts \<and>
     dc_replicas d = Some (sts_readyReplicas sts))"

lemma dcReady_iff [simp]: "dcReady replicas ready \<longleftrightarrow> replicas = ready"
  by (auto simp: dcReady_def)

lemma checkDC_result:
  "result (checkDC E cc d acc) w = Inr u \<Longrightarrow> u = (if dcUp E cc d w then acc else acc @ [dc_name d])"
  by (auto simp: checkDC_def Let_def dcUp_def deref_def split: sum.splits if_splits option.splits)

lemma only_checkDC [only_intros]:
  "(\<And>k. P (GetStatefulSet k)) \<Longrightarrow> only P (checkDC E cc d acc)"
  unfolding checkDC_def Let_def by (intro only_intros) auto

lemma only_unreadyDCs [only_intros]: "(\<And>k. P (GetStatefulSet k)) \<Longrightarrow> only P (unreadyDCs E cc)"
  unfolding unreadyDCs_def by (intro only_intros) auto

lemma checkRegion_result:
  "result (checkRegion E cc r acc) w = Inr u \<Longrightarrow>
     \<exists>b. fst (e_fetchRegionReady E (ProberIngressDomain cc r) w) = Inr b \<and>
       u = (if b then acc else acc @ [ProberIngressDomain cc r])"
  by (auto simp: checkRegion_def Let_def split: sum.splits if_splits)

lemma only_unreadyRegions [only_intros]: "(\<And>h. P (FetchRegionReady h)) \<Longrightarrow> only P (unreadyRegions E cc)"
  unfolding unreadyRegions_def checkRegion_def Let_def by (intro only_intros) auto

lemma foldAct_checkDC:
  "result (foldAct (checkDC E cc) ds acc) w = Inr u \<Longrightarrow>
     \<exists>ws. length ws = length ds \<and> u = acc @ map dc_name (map fst (filter (\<lambda>(d, w'). \<not> dcUp E cc d w') (zip ds ws)))"
proof (induction ds arbitrary: acc w)
  case (Cons d ds)
  then obtain x where x: "result (checkDC E cc d acc) w = Inr x"
    and rest: "result (foldAct (checkDC E cc) ds x) (world (checkDC E cc d acc) w) = Inr u"
    by (auto split: sum.splits)
  from Cons.IH [OF rest] obtain ws where "length ws = length ds"
    "u = x @ map dc_name (map fst (filter (\<lambda>(d, w'). \<not> dcUp E cc d w') (zip ds ws)))" by blast
  with checkDC_result [OF x] show ?case by (intro exI [of _ "w # ws"]) auto
qed simp

lemma foldAct_checkRegion:
  "result (foldAct (checkRegion E cc) rs acc) w = Inr u \<Longrightarrow>
     \<exists>bs. length bs = length rs \<and>
       u = acc @ map (ProberIngressDomain cc) (map fst (filter (\<lambda>(r, b). \<not> b) (zip rs bs))) \<and>
       (\<forall>i < length rs. \<exists>w'. fst (e_fetchRegionReady E (ProberIngressDomain cc (rs ! i)) w') = Inr (bs ! i))"
proof (induction rs arbitrary: acc w)
  case (Cons r rs)
  then obtain x where x: "result (checkRegion E cc r acc) w = Inr x"
    and rest: "result (foldAct (checkRegion E cc) rs x) (world (checkRegion E cc r acc) w) = Inr u"
    by (auto split: sum.splits)
  from checkRegion_result [OF x] obtain b where b:
    "fst (e_fetchRegionReady E (ProberIngressDomain cc r) w) = Inr b"
    "x = (if b then acc else acc @ [ProberIngressDomain cc r])" by blast
  from Cons.IH [OF rest] obtain bs where bs: "length bs = length rs"
    "u = x @ map (ProberIngressDomain cc) (map fst (filter (\<lambda>(r, b). \<not> b) (zip rs bs)))"
    "\<forall>i < length rs. \<exists>w'. fst (e_fetchRegionReady E (ProberIngressDomain cc (rs ! i)) w') = Inr (bs ! i)"
    by blast
  with b show ?case
    by (intro exI [of _ "b # bs"]) (auto simp: nth_Cons split: nat.splits)
qed simp

lemma writes_only: "only P m \<Longrightarrow> (\<And>q. P q \<Longrightarrow> readOnly q) \<Longrightarrow> writes (trace m w) = []"
  by (auto simp: writes_def filter_empty_conv only_def)

lemma writes_unreadyDCs [simp]: "writes (trace (unreadyDCs E cc) w) = []"
  by (rule writes_only [of readOnly]) (auto intro: only_intros)

lemma writes_unreadyRegions [simp]: "writes (trace (unreadyRegions E cc) w) = []"
  by (rule writes_only [of readOnly]) (auto intro: only_intros)

lemma unreadyDCs_empty:
  "result (unreadyDCs E cc) w = Inr u \<Longrightarrow>
     \<exists>ws. length ws = length (spec_dcs (cc_spec cc)) \<and>
       (u = [] \<longleftrightarrow> (\<forall>i < length ws. dcUp E cc (spec_dcs (cc_spec cc) ! i) (ws ! i)))"
  unfolding unreadyDCs_def
  by (drule foldAct_checkDC, elim exE conjE, rule exI, rule conjI, assumption)
    (auto simp: filter_empty_conv set_zip)

section \<open>Properties\<close>

text \<open>Whenever the reconciler publishes a readiness flag, it publishes one, and the flag is true exactly when every
  datacentre of the region was found with all its replicas ready; it writes nothing else.\<close>

theorem published_flag_is_readiness:
  "writes (trace (clusterReady E cc) w) = [] \<or>
   (\<exists>b ws. writes (trace (clusterReady E cc) w) = [PutRegionStatus b] \<and>
      length ws = length (spec_dcs (cc_spec cc)) \<and>
      (b \<longleftrightarrow> (\<forall>i \<in> {..<length ws}. dcUp E cc (spec_dcs (cc_spec cc) ! i) (ws ! i))))"
proof (cases "result (unreadyDCs E cc) w")
  case (Inl e)
  then show ?thesis by (simp add: clusterReady_def)
next
  case (Inr u)
  from unreadyDCs_empty [OF Inr] obtain ws where ws: "length ws = length (spec_dcs (cc_spec cc))"
    "u = [] \<longleftrightarrow> (\<forall>i < length ws. dcUp E cc (spec_dcs (cc_spec cc) ! i) (ws ! i))" by blast
  have "writes (trace (clusterReady E cc) w) = [PutRegionStatus (u = [])]"
    using Inr by (auto simp: clusterReady_def putRegionStatus_def split: sum.splits)
  with ws show ?thesis by auto
qed

theorem published_flag_is_readiness_witness:
  "\<exists>b. writes (trace (clusterReady quietEnv sampleCluster) ()) = [PutRegionStatus b]"
proof -
  have "writes (trace (clusterReady quietEnv sampleCluster) ()) \<noteq> []"
    by (simp add: clusterReady_def putRegionStatus_def unreadyDCs_def checkDC_def quietEnv_def sampleCluster_def
        isNotFound_def Let_def)
  with published_flag_is_readiness [of quietEnv sampleCluster "()"] show ?thesis by auto
qed

text \<open>C13: The cluster counts as ready only if every datacentre of this region was found ready and, with host ports,
  every managed region answered that it is ready.\<close>

theorem cluster_ready_sound:
  assumes "result (clusterReady E cc) w = Inr True"
  shows "(\<forall>d \<in> set (spec_dcs (cc_spec cc)). \<exists>w'. dcUp E cc d w') \<and>
    (hp_enabled (hostPortSpec (cc_spec cc)) \<longrightarrow>
      (\<forall>r \<in> set (managedRegions cc). \<exists>w'. fst (e_fetchRegionReady E (ProberIngressDomain cc r) w') = Inr True))"
proof -
  from assms obtain u where u: "result (unreadyDCs E cc) w = Inr u"
    by (auto simp: clusterReady_def split: sum.splits)
  with assms have "u = []"
    by (auto simp: clusterReady_def split: sum.splits if_splits)
  with unreadyDCs_empty [OF u] have up: "\<forall>d \<in> set (spec_dcs (cc_spec cc)). \<exists>w'. dcUp E cc d w'"
    by (metis in_set_conv_nth)
  from assms u \<open>u = []\<close> obtain rs w1 where rs: "result (unreadyRegions E cc) w1 = Inr rs"
    and hp: "hp_enabled (hostPortSpec (cc_spec cc)) \<longrightarrow> rs = []"
    by (auto simp: clusterReady_def split: sum.splits if_splits)
  from foldAct_checkRegion [OF rs [unfolded unreadyRegions_def]] obtain bs where
    bs: "length bs = length (managedRegions cc)"
      "rs = map (ProberIngressDomain cc) (map fst (filter (\<lambda>(r, b). \<not> b) (zip (managedRegions cc) bs)))"
      "\<forall>i < length (managedRegions cc). \<exists>w'. fst (e_fetchRegionReady E (ProberIngressDomain cc (managedRegions cc ! i)) w') = Inr (bs ! i)"
    by auto
  have "\<forall>r \<in> set (managedRegions cc). \<exists>w'. fst (e_fetchRegionReady E (ProberIngressDomain cc r) w') = Inr True"
    if "rs = []"
  proof
    fix r assume "r \<in> set (managedRegions cc)"
    then obtain i where i: "i < length (managedRegions cc)" "r = managedRegions cc ! i"
      by (auto simp: in_set_conv_nth)
    with that bs(1,2) have "bs ! i" by (auto simp: filter_empty_conv set_zip)
    with bs(3) i show "\<exists>w'. fst (e_fetchRegionReady E (ProberIngressDomain cc r) w') = Inr True" by fastforce
  qed
  with up hp show ?thesis by blast
qed

definition readySts :: statefulSet where
  "readySts = \<lparr>sts_name = ''c-cassandra-dc1'', sts_labels = [ClusterDCLabel \<mapsto> ''dc1''], sts_namespace = ''ns'',
     sts_annotations = None, sts_ownerReferences = [], sts_replicas = Some 3, sts_spec = plainStsSpec,
     sts_readyReplicas = 3\<rparr>"

theorem cluster_ready_sound_witness:
  "set (spec_dcs (cc_spec sampleCluster)) \<subseteq>
     {d. \<exists>w'. dcUp (quietEnv\<lparr>e_getSts := (\<lambda>_ w. (Inr readySts, w))\<rparr>) sampleCluster d (w' :: unit)}"
proof -
  have "result (clusterReady (quietEnv\<lparr>e_getSts := (\<lambda>_ w. (Inr readySts, w))\<rparr>) sampleCluster) () = Inr True"
    by (simp add: clusterReady_def putRegionStatus_def unreadyDCs_def unreadyRegions_def checkDC_def quietEnv_def
        sampleCluster_def managedRegions_def readySts_def Let_def)
  from cluster_ready_sound [OF this] show ?thesis by blast
qed

text \<open>The reaper of a region waits only for the first region in the common order: the least host among all regions,
  when that is another region and its reaper is not ready. The first region itself never waits.\<close>

theorem reaper_waits_for_first_region:
  assumes "result (waitForFirstRegionReaper E cc) w = Inr b"
  shows "(b \<longrightarrow> Min (set (getAllRegionsHosts cc)) \<noteq> currentRegionHost cc \<and>
      fst (e_fetchReaperReady E (Min (set (getAllRegionsHosts cc))) w) = Inr False) \<and>
    (Min (set (getAllRegionsHosts cc)) = currentRegionHost cc \<longrightarrow> \<not> b \<and> trace (waitForFirstRegionReaper E cc) w = [])"
proof -
  have "getAllRegionsHosts cc ! 0 = Min (set (getAllRegionsHosts cc))"
    using sorted_getAllRegionsHosts [of cc] getAllRegionsHosts_nonempty [of cc]
    by (cases "getAllRegionsHosts cc") (auto intro!: Min_eqI [symmetric])
  with assms show ?thesis
    by (auto simp: waitForFirstRegionReaper_def Let_def split: if_splits sum.splits)
qed

definition twoRegions :: cassandraCluster where
  "twoRegions = sampleCluster\<lparr>cc_spec := (cc_spec sampleCluster)\<lparr>externalRegionsSpec :=
     \<lparr>er_managed = Some [\<lparr>mr_domain = ''a.org'', mr_namespace = ''east''\<rparr>], er_unmanaged = []\<rparr>\<rparr>\<rparr>"

theorem reaper_waits_for_first_region_witness:
  "fst (e_fetchReaperReady (quietEnv\<lparr>e_fetchReaperReady := (\<lambda>_ w. (Inr False, w))\<rparr>)
     (Min (set (getAllRegionsHosts twoRegions))) ()) = Inr False \<and>
   Min (set (getAllRegionsHosts twoRegions)) \<noteq> currentRegionHost twoRegions"
proof -
  let ?E = "quietEnv\<lparr>e_fetchReaperReady := (\<lambda>_ w. (Inr False, w))\<rparr>"
  have hosts: "getAllRegionsHosts twoRegions =
      [''east-c-cassandra-prober.a.org'', ''ns-c-cassandra-prober.example.org'']"
    by code_simp
  have cur: "currentRegionHost twoRegions = ''ns-c-cassandra-prober.example.org''"
    by code_simp
  have "result (waitForFirstRegionReaper ?E twoRegions) () = Inr True"
    by (simp add: waitForFirstRegionReaper_def hosts cur Let_def)
      (simp add: twoRegions_def sampleCluster_def managedRegions_def)
  from reaper_waits_for_first_region [OF this] show ?thesis by simp
qed

end
