(* ===== verification/Pods_Config.thy ===== *)
theory Pods_Config
  imports Readiness
begin

text \<open>
  What each Cassandra pod is told when it starts: \<open>controllers/cassandra_pods_config.go\<close>,
  \<open>cassandra_pod_ips.go\<close> and \<open>cassandra_pod_labels.go\<close>.
  Every pod has an entry in a configmap with its addresses, the seeds of all regions, its previous address
  and whether it must wait. Pods start region by region, datacentre by datacentre, seeds first and then the
  other nodes one at a time. The lemmas state that order, the number of seeds, and which labels and recorded
  addresses change.
\<close>

section \<open>Pods and nodes\<close>

fun getNodeByName :: "k8sNode list \<Rightarrow> string \<Rightarrow> k8sNode option" where
  "getNodeByName [] n = None"
| "getNodeByName (x # xs) n = (if nd_name x = n then Some x else getNodeByName xs n)"

definition getPodBroadcastAddress :: "cassandraCluster \<Rightarrow> pod \<Rightarrow> k8sNode list \<Rightarrow> go_error + string" where
  "getPodBroadcastAddress cc p ns =
     (if \<not> hp_enabled (hostPortSpec (cc_spec cc))
      then (if length (pod_podIP p) = 0 then Inl ErrPodNotScheduled else Inr (pod_podIP p))
      else if pod_nodeName p = '''' then Inl ErrPodNotScheduled
      else case getNodeByName ns (pod_nodeName p) of
          None \<Rightarrow> Inl (Err (''Node '' @ quoted (pod_nodeName p) @ '' not found''))
        | Some node \<Rightarrow>
            if hp_useExternalHostIP (hostPortSpec (cc_spec cc))
            then Inr (GetNodeIP NodeExternalIP (nd_addresses node))
            else Inr (GetNodeIP NodeInternalIP (nd_addresses node)))"

fun broadcastLoop :: "cassandraCluster \<Rightarrow> k8sNode list \<Rightarrow> pod list \<Rightarrow> strmap \<Rightarrow> go_error + strmap" where
  "broadcastLoop cc ns [] m = Inr m"
| "broadcastLoop cc ns (p # ps) m =
     (case getPodBroadcastAddress cc p ns of
        Inl e \<Rightarrow> Inl (Wrap ''cannot get pod's broadcast address'' e)
      | Inr addr \<Rightarrow> broadcastLoop cc ns ps (m(pod_name p \<mapsto> addr)))"

definition getBroadcastAddresses :: "cassandraCluster \<Rightarrow> pod list \<Rightarrow> k8sNode list \<Rightarrow> go_error + strmap" where
  "getBroadcastAddresses cc ps ns = broadcastLoop cc ns ps Map.empty"

definition isSeedPod :: "pod \<Rightarrow> bool" where
  "isSeedPod p \<longleftrightarrow> pod_labels p ClusterSeedLabel \<noteq> None"

definition podReady :: "pod \<Rightarrow> bool" where
  "podReady p \<longleftrightarrow> length (pod_containerStatuses p) \<noteq> 0 \<and> (\<forall>c \<in> set (pod_containerStatuses p). cst_ready c)"

fun dcSeedPodsReadyLoop :: "pod list \<Rightarrow> string \<Rightarrow> bool" where
  "dcSeedPodsReadyLoop [] d = True"
| "dcSeedPodsReadyLoop (p # ps) d =
     (if podDC p = d \<and> isSeedPod p \<and> (\<exists>c \<in> set (pod_containerStatuses p). \<not> cst_ready c) then False
      else dcSeedPodsReadyLoop ps d)"

definition dcSeedPodsReady :: "pod list \<Rightarrow> string \<Rightarrow> bool" where
  "dcSeedPodsReady ps d = (if length ps = 0 then False else dcSeedPodsReadyLoop ps d)"

text \<open>\<open>nextNonSeedPodToInit\<close>: the pods of the datacentre by name (a map, later pods win), visited in the order of the
  names.\<close>

definition nextNonSeedPodToInit :: "pod list \<Rightarrow> string \<Rightarrow> string" where
  "nextNonSeedPodToInit existingPods nextDC =
     (let sel = filter (\<lambda>p. \<not> (nextDC \<noteq> '''' \<and> podDC p \<noteq> nextDC)) existingPods;
          byName = map_of (rev (map (\<lambda>p. (pod_name p, p)) sel))
      in case List.find (\<lambda>n. case byName n of None \<Rightarrow> False | Some p \<Rightarrow> \<not> isSeedPod p \<and> \<not> podReady p)
                (sort (map pod_name sel)) of
           None \<Rightarrow> ''''
         | Some n \<Rightarrow> n)"

section \<open>Seeds\<close>

definition dcNumberOfSeeds :: "cassandraCluster \<Rightarrow> dc \<Rightarrow> go_error + int" where
  "dcNumberOfSeeds cc d =
     bindE (deref (cassandraSpec (cc_spec cc))) (\<lambda>cas.
     bindE (deref (dc_replicas d)) (\<lambda>replicas.
       let numSeeds = cas_numSeeds cas in
       Inr (if numSeeds \<ge> replicas then (if replicas \<le> 1 then replicas else replicas - 1) else numSeeds)))"

definition getSeedHostname :: "cassandraCluster \<Rightarrow> string \<Rightarrow> int \<Rightarrow> bool \<Rightarrow> string" where
  "getSeedHostname cc dcName podSuffix isFQDN =
     (let svc = DC (cc_name cc) dcName in
      if isFQDN then ordinalName svc podSuffix @ ''.'' @ svc @ ''.'' @ cc_namespace cc @ ''.svc.cluster.local''
      else ordinalName svc podSuffix)"

text \<open>\<open>for i := int32(0); i < n; i++\<close>\<close>

definition below :: "int \<Rightarrow> int list" where
  "below n = map int [0..<nat n]"

definition dcSeeds :: "cassandraCluster \<Rightarrow> strmap \<Rightarrow> dc \<Rightarrow> go_error + string list" where
  "dcSeeds cc addrs d =
     bindE (dcNumberOfSeeds cc d) (\<lambda>numSeeds.
       Inr (map (\<lambda>i.
          let hp = hp_enabled (hostPortSpec (cc_spec cc)); seed = getSeedHostname cc (dc_name d) i (\<not> hp) in
          if hp then mget addrs seed else seed) (below numSeeds)))"

definition getLocalSeedsHostnames :: "cassandraCluster \<Rightarrow> strmap \<Rightarrow> go_error + string list" where
  "getLocalSeedsHostnames cc addrs =
     bindE (mapE (dcSeeds cc addrs) (spec_dcs (cc_spec cc))) (\<lambda>sss. Inr (concat sss))"

definition fetchRegionSeeds :: "'w env \<Rightarrow> cassandraCluster \<Rightarrow> managedRegion \<Rightarrow> string list \<Rightarrow> ('w, string list) run" where
  "fetchRegionSeeds E cc region acc =
     (let host = ProberIngressDomain cc region in
      andThen (attempt (call (FetchSeeds host) (e_fetchSeeds E host))) (\<lambda>r.
        case r of
          Inl _ \<Rightarrow> raise ErrRegionNotReady
        | Inr seeds \<Rightarrow> if length seeds = 0 then raise ErrRegionNotReady else ret (acc @ seeds)))"

definition getSeedsList :: "'w env \<Rightarrow> cassandraCluster \<Rightarrow> strmap \<Rightarrow> ('w, string list) run" where
  "getSeedsList E cc addrs =
     andThen (lift (getLocalSeedsHostnames cc addrs)) (\<lambda>local.
     andThen (wrapErr ''Prober request to update region seeds failed.'' (call (PutSeeds local) (e_putSeeds E local))) (\<lambda>_.
       if hp_enabled (hostPortSpec (cc_spec cc))
       then andThen (foldAct (fetchRegionSeeds E cc) (managedRegions cc) local) (\<lambda>seeds.
              ret (seeds @ concat (map ur_seeds (unmanagedRegions cc))))
       else ret local))"

section \<open>The order of initialisation\<close>

fun getNextLocalDCToInit :: "dc list \<Rightarrow> string list \<Rightarrow> string" where
  "getNextLocalDCToInit [] unready = ''''"
| "getNextLocalDCToInit (d # ds) unready =
     (if Contains unready (dc_name d) then dc_name d else getNextLocalDCToInit ds unready)"

definition statusOf :: "(string \<rightharpoonup> bool) \<Rightarrow> string \<Rightarrow> bool" where
  "statusOf m h = (case m h of None \<Rightarrow> False | Some b \<Rightarrow> b)"

definition getNextRegionToInit :: "cassandraCluster \<Rightarrow> (string \<rightharpoonup> bool) \<Rightarrow> string" where
  "getNextRegionToInit cc statuses =
     (case List.find (\<lambda>h. \<not> statusOf statuses h) (getAllRegionsHosts cc) of None \<Rightarrow> '''' | Some h \<Rightarrow> h)"

definition fetchRegionStatus ::
  "'w env \<Rightarrow> cassandraCluster \<Rightarrow> managedRegion \<Rightarrow> (string \<rightharpoonup> bool) \<Rightarrow> ('w, string \<rightharpoonup> bool) run" where
  "fetchRegionStatus E cc region m =
     (let host = ProberIngressDomain cc region in
      andThen (attempt (call (FetchRegionReady host) (e_fetchRegionReady E host))) (\<lambda>r.
        case r of Inl _ \<Rightarrow> raise ErrRegionNotReady | Inr b \<Rightarrow> ret (m(host \<mapsto> b))))"

definition getRemoteClusterRegionsStatuses :: "'w env \<Rightarrow> cassandraCluster \<Rightarrow> ('w, string \<rightharpoonup> bool) run" where
  "getRemoteClusterRegionsStatuses E cc = foldAct (fetchRegionStatus E cc) (managedRegions cc) Map.empty"

definition EventDCInit :: string where "EventDCInit = ''DCInit''"
definition EventRegionInit :: string where "EventRegionInit = ''RegionInit''"

definition getInitOrderInfo :: "'w env \<Rightarrow> cassandraCluster \<Rightarrow> ('w, bool \<times> string) run" where
  "getInitOrderInfo E cc =
     andThen (wrapErr ''Can't get not ready DCs info'' (unreadyDCs E cc)) (\<lambda>unreadyLocalDCs.
     let nextDC = getNextLocalDCToInit (spec_dcs (cc_spec cc)) unreadyLocalDCs in
     if \<not> hp_enabled (hostPortSpec (cc_spec cc))
     then andThen (if nextDC \<noteq> '''' then emit EventDCInit (''initializing dc '' @ quoted nextDC) else ret ()) (\<lambda>_.
            ret (False, nextDC))
     else if length (managedRegions cc) = 0 then ret (False, '''')
     else andThen (getRemoteClusterRegionsStatuses E cc) (\<lambda>remote.
       let current = currentRegionHost cc;
           statuses = remote(current \<mapsto> (length unreadyLocalDCs = 0));
           nextRegion = getNextRegionToInit cc statuses
       in if nextRegion = '''' then ret (False, '''')
          else if statusOf statuses current then ret (False, '''')
          else if nextRegion \<noteq> current
          then andThen (emit EventRegionInit (''Current region initialization is paused. Waiting for region '' @ quoted nextRegion
                 @ '' to be ready'')) (\<lambda>_. ret (True, ''''))
          else andThen (emit EventRegionInit (''Current region ('' @ quoted current @ '') is initializing. DC '' @ quoted nextDC
                 @ '' is initializing'')) (\<lambda>_. ret (False, nextDC))))"

definition pausePodInit :: "pod \<Rightarrow> string \<Rightarrow> bool \<Rightarrow> bool \<Rightarrow> string \<Rightarrow> bool \<times> string" where
  "pausePodInit p nextDC regionPaused seedNodesReady nextNonSeed =
     (if regionPaused then (True, ''waiting for other regions to init'')
      else if nextDC = '''' then (False, ''pod is not paused'')
      else if nextDC \<noteq> podDC p then (True, ''waiting for other DCs to init'')
      else if \<not> seedNodesReady \<and> \<not> isSeedPod p then (True, ''waiting for seed nodes to init'')
      else if seedNodesReady \<and> \<not> isSeedPod p \<and> length nextNonSeed \<noteq> 0 \<and> \<not> (nextNonSeed = pod_name p \<or> podReady p)
      then (True, ''waiting for other non seed nodes since only one non seed node can start at a time'')
      else (False, ''pod is not paused''))"

section \<open>Recorded pod addresses\<close>

definition podIPsData :: "strmap \<Rightarrow> pod list \<Rightarrow> strmap \<Rightarrow> strmap" where
  "podIPsData addrs ps data0 =
     foldl (\<lambda>data p. if mget data (pod_name p) \<noteq> mget addrs (pod_name p) \<and> mget addrs (pod_name p) \<noteq> '''' \<and> podReady p
                then data(pod_name p \<mapsto> mget addrs (pod_name p)) else data) data0 ps"

definition reconcilePodIPsConfigMap :: "'w env \<Rightarrow> cassandraCluster \<Rightarrow> pod list \<Rightarrow> strmap \<Rightarrow> ('w, strmap) run" where
  "reconcilePodIPsConfigMap E cc ps addrs =
     andThen (wrapErr ''can't set controller reference'' (lift (e_controllerReference E cc))) (\<lambda>owners.
     let desiredCM = \<lparr>cm_name = PodIPsConfigMap (cc_name cc), cm_namespace = cc_namespace cc, cm_labels = Map.empty,
             cm_annotations = None, cm_ownerReferences = owners, cm_data = None\<rparr>;
         k = cmKey desiredCM in
     andThen (attempt (call (GetConfigMap k) (e_getCM E k))) (\<lambda>r.
       case r of
         Inl e \<Rightarrow>
           if isNotFound e
           then andThen (wrapErr ''can't create pod IPs configmap'' (call (CreateConfigMap desiredCM) (e_createCM E desiredCM)))
                  (\<lambda>_. ret Map.empty)
           else raise (Wrap ''can't get pod IPs configmap'' e)
       | Inr cm \<Rightarrow>
           (let data0 = (case cm_data cm of None \<Rightarrow> Map.empty | Some d \<Rightarrow> d);
                actualCM = cm\<lparr>cm_data := Some data0\<rparr>;
                data = podIPsData addrs ps data0;
                desired = desiredCM\<lparr>cm_annotations := MergeMap (cm_annotations actualCM) (cm_annotations desiredCM),
                            cm_data := Some data\<rparr>
            in if \<not> EqualConfigMap actualCM desired
               then (let new = actualCM\<lparr>cm_data := Some data, cm_labels := cm_labels desired,
                            cm_ownerReferences := cm_ownerReferences desired, cm_annotations := cm_annotations desired\<rparr>
                     in andThen (wrapErr ''can't update pod IPs configmap'' (call (UpdateConfigMap new) (e_updateCM E new)))
                          (\<lambda>_. ret data))
               else ret data0)))"

section \<open>The configmap of the pods\<close>

definition LabelTopologyZone :: string where "LabelTopologyZone = ''topology.kubernetes.io/zone''"

definition println :: "string \<Rightarrow> string" where "println s = s @ [CHR 0x0A]"

definition entryName :: "pod \<Rightarrow> string" where
  "entryName p = pod_name p @ ''_'' @ pod_uid p @ ''.sh''"

definition rackLines :: "cassandraCluster \<Rightarrow> k8sNode list \<Rightarrow> pod \<Rightarrow> go_error + string" where
  "rackLines cc ns p =
     bindE (deref (cassandraSpec (cc_spec cc))) (\<lambda>cas.
       if cas_zonesAsRacks cas
       then (case getNodeByName ns (pod_nodeName p) of
               None \<Rightarrow> Inl (Err (''Node '' @ quoted (pod_nodeName p) @ '' not found''))
             | Some node \<Rightarrow> Inr (println (''export CASSANDRA_RACK='' @ mget (nd_labels node) LabelTopologyZone) @
                 println ''export CASSANDRA_ENDPOINT_SNITCH=GossipingPropertyFileSnitch''))
       else Inr '''')"

definition addressLines :: "string \<Rightarrow> string \<Rightarrow> string list \<Rightarrow> string \<Rightarrow> bool \<times> string \<Rightarrow> string" where
  "addressLines addr podIP seeds previousIP pause =
     println (''export CASSANDRA_BROADCAST_ADDRESS='' @ addr) @
     println (''export CASSANDRA_BROADCAST_RPC_ADDRESS='' @ podIP) @
     println (''export CASSANDRA_SEEDS='' @ join '','' seeds) @
     println (''export CASSANDRA_NODE_PREVIOUS_IP='' @ previousIP) @
     println (''export PAUSE_INIT='' @ formatBool (fst pause)) @
     println (''export PAUSE_REASON='' @ quoted (snd pause))"

text \<open>
  The loop over the pods. The value \<open>Inr None\<close> is the code's \<open>return nil, nil\<close>: for a pod without a broadcast
  address it returns \<open>errors.Wrap(err, ...)\<close> of an \<open>err\<close> that is nil, which is nil.
\<close>

fun entriesLoop ::
  "cassandraCluster \<Rightarrow> k8sNode list \<Rightarrow> strmap \<Rightarrow> string list \<Rightarrow> strmap \<Rightarrow> (pod \<Rightarrow> bool \<times> string) \<Rightarrow>
     pod list \<Rightarrow> strmap \<Rightarrow> go_error + strmap option" where
  "entriesLoop cc ns addrs seeds ips pause [] m = Inr (Some m)"
| "entriesLoop cc ns addrs seeds ips pause (p # ps) m =
     (if length (pod_podIP p) = 0 then Inl ErrPodNotScheduled
      else bindE (rackLines cc ns p) (\<lambda>rack.
        let addr = mget addrs (pod_name p) in
        if length addr = 0 then Inr None
        else entriesLoop cc ns addrs seeds ips pause ps
          (m(entryName p \<mapsto> mget m (entryName p) @ rack @
               addressLines addr (pod_podIP p) seeds (mget ips (pod_name p)) (pause p)))))"

definition podsConfigMapData ::
  "'w env \<Rightarrow> cassandraCluster \<Rightarrow> pod list \<Rightarrow> k8sNode list \<Rightarrow> ('w, strmap option) run" where
  "podsConfigMapData E cc ps ns =
     (if length ps = 0 then ret None
      else andThen (wrapErr ''error getting broadcast addresses'' (lift (getBroadcastAddresses cc ps ns))) (\<lambda>addrs.
           andThen (wrapErr ''failed to get seeds list'' (getSeedsList E cc addrs)) (\<lambda>seeds.
           andThen (wrapErr ''failed to get init order info'' (getInitOrderInfo E cc)) (\<lambda>(regionPaused, nextDC).
           andThen (wrapErr ''can't get the list of pod IPs'' (reconcilePodIPsConfigMap E cc ps addrs)) (\<lambda>ips.
             lift (entriesLoop cc ns addrs seeds ips
               (\<lambda>p. pausePodInit p nextDC regionPaused (dcSeedPodsReady ps nextDC) (nextNonSeedPodToInit ps nextDC))
               ps Map.empty))))))"

definition reconcileCassandraPodsConfigMap ::
  "'w env \<Rightarrow> cassandraCluster \<Rightarrow> pod list \<Rightarrow> k8sNode list \<Rightarrow> ('w, unit) run" where
  "reconcileCassandraPodsConfigMap E cc ps ns =
     andThen (wrapErr ''Cannot set controller reference'' (lift (e_controllerReference E cc))) (\<lambda>owners.
     andThen (podsConfigMapData E cc ps ns) (\<lambda>data.
       reconcileConfigMap E \<lparr>cm_name = PodsConfigConfigmap (cc_name cc), cm_namespace = cc_namespace cc,
         cm_labels = CombinedComponentLabels cc ComponentCassandra, cm_annotations = None,
         cm_ownerReferences = owners, cm_data = data\<rparr>))"

section \<open>Seed labels\<close>

definition getCassandraPods :: "'w env \<Rightarrow> ('w, pod list) run" where
  "getCassandraPods E = wrapErr ''Could not list Cassandra pods'' (call ListPods (e_listPods E))"

definition seedPodNames :: "cassandraCluster \<Rightarrow> go_error + string list" where
  "seedPodNames cc =
     bindE (mapE (\<lambda>d. bindE (dcNumberOfSeeds cc d) (\<lambda>n. Inr (map (ordinalName (DC (cc_name cc) (dc_name d))) (below n))))
             (spec_dcs (cc_spec cc))) (\<lambda>nss. Inr (concat nss))"

definition relabel :: "string list \<Rightarrow> pod \<Rightarrow> pod option" where
  "relabel seedNames p =
     (if pod_labels p ClusterSeedLabel \<noteq> None
      then (if \<not> Contains seedNames (pod_name p)
            then Some (p\<lparr>pod_labels := (pod_labels p)(ClusterSeedLabel := None)\<rparr>) else None)
      else (if Contains seedNames (pod_name p)
            then Some (p\<lparr>pod_labels := (pod_labels p)(ClusterSeedLabel \<mapsto> pod_name p)\<rparr>) else None))"

definition relabelPod :: "'w env \<Rightarrow> string list \<Rightarrow> pod \<Rightarrow> ('w, unit) run" where
  "relabelPod E seedNames p =
     (case relabel seedNames p of
        None \<Rightarrow> ret ()
      | Some p' \<Rightarrow> wrapErr (''can't update labels for pod '' @ pod_namespace p @ ''/'' @ pod_name p)
                    (call (UpdatePod p') (e_updatePod E p')))"

definition reconcileCassandraPodLabels :: "'w env \<Rightarrow> cassandraCluster \<Rightarrow> ('w, unit) run" where
  "reconcileCassandraPodLabels E cc =
     andThen (getCassandraPods E) (\<lambda>ps.
       if length ps = 0 then ret ()
       else andThen (lift (seedPodNames cc)) (\<lambda>names. forEach (relabelPod E names) ps))"

section \<open>Lemmas\<close>

lemma set_below: "i \<in> set (below n) \<longleftrightarrow> 0 \<le> i \<and> i < n"
  by (auto simp: below_def image_int_atLeastLessThan)

lemma length_below [simp]: "length (below n) = nat n"
  by (simp add: below_def)

lemma distinct_below [simp]: "distinct (below n)"
  by (simp add: below_def distinct_map)

lemma find_None_iff': "List.find P xs = None \<longleftrightarrow> (\<forall>x \<in> set xs. \<not> P x)"
  by (auto simp: find_None_iff)

lemma find_Some_sorted:
  "sorted xs \<Longrightarrow> List.find P xs = Some x \<Longrightarrow> P x \<and> x \<in> set xs \<and> (\<forall>y \<in> set xs. P y \<longrightarrow> x \<le> y)"
  by (induction xs) (auto split: if_splits)

lemma nextRegion_first:
  "getNextRegionToInit cc m = h \<Longrightarrow> h \<noteq> '''' \<Longrightarrow>
     h \<in> set (getAllRegionsHosts cc) \<and> \<not> statusOf m h \<and>
     (\<forall>k \<in> set (getAllRegionsHosts cc). \<not> statusOf m k \<longrightarrow> h \<le> k)"
  using find_Some_sorted [OF sorted_getAllRegionsHosts, of "\<lambda>h. \<not> statusOf m h" cc h]
  by (auto simp: getNextRegionToInit_def split: option.splits)

lemma currentRegionHost_nonempty [simp]: "currentRegionHost cc \<noteq> ''''"
  by (simp add: currentRegionHost_def ProberIngressHost_def proberIngressSubdomain_def)

lemma only_if_event: "only P m \<Longrightarrow> only P (if b then m else ret x)"
  by simp

lemma nextNonSeed_props:
  assumes "nextNonSeedPodToInit ps d = n" "n \<noteq> ''''"
  shows "\<exists>p \<in> set ps. pod_name p = n \<and> \<not> isSeedPod p \<and> \<not> podReady p \<and> (d \<noteq> '''' \<longrightarrow> podDC p = d)"
proof -
  let ?sel = "filter (\<lambda>p. \<not> (d \<noteq> '''' \<and> podDC p \<noteq> d)) ps"
  let ?m = "map_of (rev (map (\<lambda>p. (pod_name p, p)) ?sel))"
  let ?P = "\<lambda>n. case ?m n of None \<Rightarrow> False | Some p \<Rightarrow> \<not> isSeedPod p \<and> \<not> podReady p"
  from assms have "List.find ?P (sort (map pod_name ?sel)) = Some n"
    by (auto simp: nextNonSeedPodToInit_def Let_def split: option.splits)
  then have "?P n" using find_Some_sorted [of "sort (map pod_name ?sel)" ?P n] by simp
  then obtain p where p: "?m n = Some p" "\<not> isSeedPod p" "\<not> podReady p"
    by (auto split: option.splits)
  from map_of_SomeD [OF p(1)] have "p \<in> set ?sel" "pod_name p = n" by auto
  with p show ?thesis by auto
qed

lemma nextNonSeed_empty:
  assumes "nextNonSeedPodToInit ps d = ''''" "p \<in> set ps" "distinct (map pod_name ps)" "'''' \<notin> pod_name ` set ps"
    and "d \<noteq> '''' \<longrightarrow> podDC p = d" "\<not> isSeedPod p"
  shows "podReady p"
proof (rule ccontr)
  assume nr: "\<not> podReady p"
  let ?sel = "filter (\<lambda>p. \<not> (d \<noteq> '''' \<and> podDC p \<noteq> d)) ps"
  let ?m = "map_of (rev (map (\<lambda>p. (pod_name p, p)) ?sel))"
  let ?P = "\<lambda>n. case ?m n of None \<Rightarrow> False | Some p \<Rightarrow> \<not> isSeedPod p \<and> \<not> podReady p"
  have sel: "p \<in> set ?sel" using assms(2,5) by auto
  have dist: "distinct (map fst (rev (map (\<lambda>p. (pod_name p, p)) ?sel)))"
    using assms(3) by (simp add: rev_map [symmetric] comp_def distinct_map_filter)
  have "?m (pod_name p) = Some p"
    using sel by (intro map_of_is_SomeI [OF dist]) auto
  with nr assms(6) have P: "?P (pod_name p)" by simp
  show False
  proof (cases "List.find ?P (sort (map pod_name ?sel))")
    case None
    with P sel show False by (auto simp: find_None_iff)
  next
    case (Some n)
    with assms(1) have "n = ''''"
      by (simp add: nextNonSeedPodToInit_def Let_def)
    moreover have "n \<in> pod_name ` set ps"
      using find_Some_sorted [OF _ Some] by auto
    ultimately show False using assms(4) by simp
  qed
qed

section \<open>Properties\<close>

lemma mapE_all: "(\<And>x. x \<in> set xs \<Longrightarrow> f x = Inr (g x)) \<Longrightarrow> mapE f xs = Inr (map g xs)"
  by (induction xs) auto

lemma below_nat: "below (int n) = map int [0..<n]"
  by (simp add: below_def)

text \<open>The number of seeds: the largest one that respects the configuration, the replicas and the node kept back.\<close>

definition fewestNonSeeds :: "int \<Rightarrow> int \<Rightarrow> int \<Rightarrow> bool" where
  "fewestNonSeeds configured replicas n \<longleftrightarrow>
     (let fits = (\<lambda>m. m \<le> configured \<and> m \<le> replicas \<and> (1 < replicas \<longrightarrow> m < replicas))
      in fits n \<and> (\<forall>m. fits m \<longrightarrow> m \<le> n))"

lemma dcNumberOfSeeds_count:
  assumes "cassandraSpec (cc_spec cc) = Some cas" "dc_replicas d = Some r" "0 \<le> r" "0 \<le> cas_numSeeds cas"
  shows "\<exists>n. dcNumberOfSeeds cc d = Inr (int n) \<and> fewestNonSeeds (cas_numSeeds cas) r (int n)"
proof -
  let ?m = "if cas_numSeeds cas \<ge> r then (if r \<le> 1 then r else r - 1) else cas_numSeeds cas"
  have "dcNumberOfSeeds cc d = Inr (int (nat ?m))" "fewestNonSeeds (cas_numSeeds cas) r (int (nat ?m))"
    using assms by (auto simp: dcNumberOfSeeds_def fewestNonSeeds_def Let_def)
  then show ?thesis by blast
qed

text \<open>C6: The seeds of a datacentre are its first nodes, by the address that is broadcast or by their host names, and the
  pods that get the seed label are the same nodes. There are as many as configured, but never more than the datacentre
  has replicas and never all of them when it has more than one: the last node is then not a seed.\<close>

theorem seeds_bounded:
  assumes "cassandraSpec (cc_spec cc) = Some cas" "0 \<le> cas_numSeeds cas"
    and "\<forall>d \<in> set (spec_dcs (cc_spec cc)). \<exists>r. dc_replicas d = Some r \<and> 0 \<le> r"
  shows "\<exists>count.
    (\<forall>d \<in> set (spec_dcs (cc_spec cc)). \<exists>r. dc_replicas d = Some r \<and> fewestNonSeeds (cas_numSeeds cas) r (int (count d))) \<and>
    seedPodNames cc = Inr (concat (map (\<lambda>d.
       map (\<lambda>i. DC (cc_name cc) (dc_name d) @ ''-'' @ itoa (int i)) [0..<count d]) (spec_dcs (cc_spec cc)))) \<and>
    getLocalSeedsHostnames cc addrs = Inr (concat (map (\<lambda>d.
       map (\<lambda>i. let name = DC (cc_name cc) (dc_name d) @ ''-'' @ itoa (int i) in
         if hp_enabled (hostPortSpec (cc_spec cc)) then mget addrs name
         else name @ ''.'' @ DC (cc_name cc) (dc_name d) @ ''.'' @ cc_namespace cc @ ''.svc.cluster.local'')
       [0..<count d]) (spec_dcs (cc_spec cc))))"
proof -
  from assms(3) obtain r where r: "\<forall>d \<in> set (spec_dcs (cc_spec cc)). dc_replicas d = Some (r d) \<and> 0 \<le> r d" by metis
  with dcNumberOfSeeds_count [OF assms(1) _ _ assms(2)] have
    "\<forall>d \<in> set (spec_dcs (cc_spec cc)). \<exists>n. dcNumberOfSeeds cc d = Inr (int n) \<and> fewestNonSeeds (cas_numSeeds cas) (r d) (int n)"
    by blast
  then obtain count where c: "\<forall>d \<in> set (spec_dcs (cc_spec cc)). dcNumberOfSeeds cc d = Inr (int (count d)) \<and>
      fewestNonSeeds (cas_numSeeds cas) (r d) (int (count d))" by metis
  have "seedPodNames cc = Inr (concat (map (\<lambda>d.
       map (\<lambda>i. DC (cc_name cc) (dc_name d) @ ''-'' @ itoa (int i)) [0..<count d]) (spec_dcs (cc_spec cc))))"
    unfolding seedPodNames_def
    by (subst mapE_all [where g = "\<lambda>d. map (\<lambda>i. DC (cc_name cc) (dc_name d) @ ''-'' @ itoa (int i)) [0..<count d]"])
      (use c in \<open>auto simp: below_nat ordinalName_def\<close>)
  moreover have "dcSeeds cc addrs d = Inr (map (\<lambda>i. let name = DC (cc_name cc) (dc_name d) @ ''-'' @ itoa (int i) in
         if hp_enabled (hostPortSpec (cc_spec cc)) then mget addrs name
         else name @ ''.'' @ DC (cc_name cc) (dc_name d) @ ''.'' @ cc_namespace cc @ ''.svc.cluster.local'') [0..<count d])"
    if "d \<in> set (spec_dcs (cc_spec cc))" for d
    using c that by (auto simp: dcSeeds_def below_nat getSeedHostname_def ordinalName_def Let_def)
  note local = mapE_all [OF this]
  ultimately show ?thesis
    using r c by (intro exI [of _ count]) (auto simp: getLocalSeedsHostnames_def local)
qed

definition sampleCassandra :: cassandra where
  "sampleCassandra = \<lparr>cas_image = '''', cas_imagePullPolicy = '''', cas_resources = '''', cas_logLevel = '''', cas_numSeeds = 2,
     cas_terminationGracePeriodSeconds = None, cas_purgeGossip = None,
     cas_persistence = \<lparr>pst_enabled = False, pst_commitLogVolume = False, pst_labels = Map.empty, pst_annotations = Map.empty,
       pst_dataVolumeClaimSpec = \<lparr>pvc_volumeMode = None, pvc_accessModes = [], pvc_storageClassName = None, pvc_rest = ''''\<rparr>,
       pst_commitLogVolumeClaimSpec = \<lparr>pvc_volumeMode = None, pvc_accessModes = [], pvc_storageClassName = None, pvc_rest = ''''\<rparr>\<rparr>,
     cas_zonesAsRacks = False, cas_jvmOptions = [], cas_sysctls = None,
     cas_monitoring = \<lparr>mon_enabled = False, mon_agent = '''',
       mon_serviceMonitor = \<lparr>sm_enabled = False, sm_namespace = '''', sm_labels = Map.empty, sm_scrapeInterval = ''''\<rparr>\<rparr>,
     cas_configOverrides = ''''\<rparr>"

definition runningCluster :: cassandraCluster where
  "runningCluster = sampleCluster\<lparr>cc_spec := (cc_spec sampleCluster)\<lparr>cassandraSpec := Some sampleCassandra\<rparr>\<rparr>"

lemma runningCluster_simps [simp]:
  "cc_name runningCluster = ''c''" "cc_namespace runningCluster = ''ns''" "cc_labels runningCluster = Map.empty"
  "cassandraSpec (cc_spec runningCluster) = Some sampleCassandra"
  "spec_dcs (cc_spec runningCluster) = [\<lparr>dc_name = ''dc1'', dc_replicas = Some 3, dc_affinity = None, dc_tolerations = []\<rparr>]"
  "hostPortSpec (cc_spec runningCluster) = \<lparr>hp_enabled = False, hp_useExternalHostIP = False, hp_ports = []\<rparr>"
  "managedRegions runningCluster = []" "unmanagedRegions runningCluster = []"
  by (simp_all add: runningCluster_def sampleCluster_def managedRegions_def unmanagedRegions_def)

theorem seeds_bounded_witness:
  "\<exists>n. seedPodNames runningCluster = Inr (map (\<lambda>i. ''c-cassandra-dc1-'' @ itoa (int i)) [0..<n]) \<and> n = 2"
proof -
  have "\<exists>r. dc_replicas d = Some r \<and> 0 \<le> r" if "d \<in> set (spec_dcs (cc_spec runningCluster))" for d
    using that by simp
  from seeds_bounded [of runningCluster sampleCassandra, OF _ _ ballI [OF this]] obtain count where
    "fewestNonSeeds 2 3 (int (count (hd (spec_dcs (cc_spec runningCluster)))))"
    and "seedPodNames runningCluster =
      Inr (map (\<lambda>i. DC ''c'' ''dc1'' @ ''-'' @ itoa (int i)) [0..<count (hd (spec_dcs (cc_spec runningCluster)))])"
    by (auto simp: sampleCassandra_def)
  moreover from this(1) have "count (hd (spec_dcs (cc_spec runningCluster))) = 2"
    unfolding fewestNonSeeds_def Let_def by (elim conjE allE [of _ 2]) simp
  ultimately show ?thesis by (simp add: DC_def)
qed

definition podWaits :: "pod list \<Rightarrow> string \<Rightarrow> bool \<Rightarrow> pod \<Rightarrow> bool" where
  "podWaits ps nextDC regionPaused p \<longleftrightarrow>
     fst (pausePodInit p nextDC regionPaused (dcSeedPodsReady ps nextDC) (nextNonSeedPodToInit ps nextDC))"

text \<open>C7: While a datacentre initialises, the pods of the others wait, its own non-seed pods wait until the seeds are
  ready, and then at most one non-seed pod that is not ready yet may start.\<close>

theorem one_node_starts_at_a_time:
  assumes "nextDC \<noteq> ''''" "distinct (map pod_name ps)" "'''' \<notin> pod_name ` set ps"
  shows "(\<forall>p \<in> set ps. podDC p \<noteq> nextDC \<longrightarrow> podWaits ps nextDC paused p) \<and>
    (\<not> dcSeedPodsReady ps nextDC \<longrightarrow> (\<forall>p \<in> set ps. \<not> isSeedPod p \<longrightarrow> podWaits ps nextDC paused p)) \<and>
    (\<forall>p \<in> set ps. \<forall>q \<in> set ps. \<not> podWaits ps nextDC paused p \<and> \<not> podWaits ps nextDC paused q \<and>
       \<not> isSeedPod p \<and> \<not> isSeedPod q \<and> \<not> podReady p \<and> \<not> podReady q \<longrightarrow> p = q)"
proof -
  have start: "pod_name p = nextNonSeedPodToInit ps nextDC"
    if "p \<in> set ps" "\<not> podWaits ps nextDC paused p" "\<not> isSeedPod p" "\<not> podReady p" for p
  proof (rule ccontr)
    assume other: "pod_name p \<noteq> nextNonSeedPodToInit ps nextDC"
    with that(2-4) assms(1) have "nextNonSeedPodToInit ps nextDC = ''''" "podDC p = nextDC"
      by (auto simp: podWaits_def pausePodInit_def split: if_splits)
    with nextNonSeed_empty [OF _ that(1) assms(2,3)] that(3,4) show False by auto
  qed
  have inj: "p = q" if "p \<in> set ps" "q \<in> set ps" "pod_name p = pod_name q" for p q
    using assms(2) that by (auto simp: distinct_map inj_on_def)
  have "\<forall>p \<in> set ps. podDC p \<noteq> nextDC \<longrightarrow> podWaits ps nextDC paused p"
    and "\<not> dcSeedPodsReady ps nextDC \<longrightarrow> (\<forall>p \<in> set ps. \<not> isSeedPod p \<longrightarrow> podWaits ps nextDC paused p)"
    using assms(1) by (auto simp: podWaits_def pausePodInit_def)
  moreover have "\<forall>p \<in> set ps. \<forall>q \<in> set ps. \<not> podWaits ps nextDC paused p \<and> \<not> podWaits ps nextDC paused q \<and>
       \<not> isSeedPod p \<and> \<not> isSeedPod q \<and> \<not> podReady p \<and> \<not> podReady q \<longrightarrow> p = q"
    using start inj by (intro ballI impI) (elim conjE, simp)
  ultimately show ?thesis by blast
qed

definition samplePod :: "string \<Rightarrow> bool \<Rightarrow> pod" where
  "samplePod n ready = \<lparr>pod_name = n, pod_uid = ''u'', pod_namespace = ''ns'', pod_labels = [ClusterDCLabel \<mapsto> ''dc1''],
     pod_nodeName = ''node1'', pod_podIP = ''10.0.0.1'', pod_hostIP = '''', pod_phase = '''',
     pod_containerStatuses = [\<lparr>cst_name = ''cassandra'', cst_ready = ready, cst_running = True\<rparr>],
     pod_initContainerStatuses = []\<rparr>"

theorem one_node_starts_at_a_time_witness:
  "\<not> (\<not> podWaits [samplePod ''c-0'' True, samplePod ''c-1'' False, samplePod ''c-2'' False] ''dc1'' False (samplePod ''c-1'' False) \<and>
     \<not> podWaits [samplePod ''c-0'' True, samplePod ''c-1'' False, samplePod ''c-2'' False] ''dc1'' False (samplePod ''c-2'' False))"
proof
  let ?ps = "[samplePod ''c-0'' True, samplePod ''c-1'' False, samplePod ''c-2'' False]"
  let ?p = "samplePod ''c-1'' False" and ?q = "samplePod ''c-2'' False"
  assume run: "\<not> podWaits ?ps ''dc1'' False ?p \<and> \<not> podWaits ?ps ''dc1'' False ?q"
  have ps: "distinct (map pod_name ?ps)" "'''' \<notin> pod_name ` set ?ps"
    by (simp_all add: samplePod_def)
  have s: "\<not> isSeedPod (samplePod n b)" "podReady (samplePod n b) = b" for n b
    by (simp_all add: samplePod_def isSeedPod_def podReady_def ClusterSeedLabel_def ClusterDCLabel_def)
  have dc: "''dc1'' \<noteq> ''''" by simp
  have "?p = ?q"
    using one_node_starts_at_a_time [OF dc ps, of False] run s by (metis list.set_intros(1,2))
  then show False by (simp add: samplePod_def)
qed

lemma fetchRegionStatus_result:
  "result (fetchRegionStatus E cc r m) w = Inr x \<Longrightarrow>
     \<exists>b. fst (e_fetchRegionReady E (ProberIngressDomain cc r) w) = Inr b \<and> x = m(ProberIngressDomain cc r \<mapsto> b)"
  by (auto simp: fetchRegionStatus_def Let_def split: sum.splits if_splits)

lemma foldAct_fetchRegionStatus:
  "result (foldAct (fetchRegionStatus E cc) rs m) w = Inr m' \<Longrightarrow> m' h = m h \<or>
     (\<exists>b w'. fst (e_fetchRegionReady E h w') = Inr b \<and> m' h = Some b)"
proof (induction rs arbitrary: m w)
  case (Cons r rs)
  then obtain x where x: "result (fetchRegionStatus E cc r m) w = Inr x"
    and rest: "result (foldAct (fetchRegionStatus E cc) rs x) (world (fetchRegionStatus E cc r m) w) = Inr m'"
    by (auto split: sum.splits)
  from fetchRegionStatus_result [OF x] Cons.IH [OF rest] show ?case
    by (cases "h = ProberIngressDomain cc r") auto
qed simp

text \<open>Regions start in the order of their hosts: with host ports and managed regions, a region initialises one of its
  datacentres only after every region whose host comes before its own has answered that it is ready.\<close>

theorem regions_start_in_order:
  assumes "hp_enabled (hostPortSpec (cc_spec cc))" "managedRegions cc \<noteq> []"
    and "result (getInitOrderInfo E cc) w = Inr (False, d)" "d \<noteq> ''''"
    and "h \<in> set (getAllRegionsHosts cc)" "h < currentRegionHost cc"
  shows "\<exists>w'. fst (e_fetchRegionReady E h w') = Inr True"
proof -
  from assms(3) obtain u where u: "result (unreadyDCs E cc) w = Inr u"
    by (auto simp: getInitOrderInfo_def split: sum.splits)
  let ?w = "world (unreadyDCs E cc) w"
  from assms(1-3) u obtain remote where remote: "result (getRemoteClusterRegionsStatuses E cc) ?w = Inr remote"
    by (auto simp: getInitOrderInfo_def Let_def split: sum.splits if_splits)
  with assms(1-4) u have nxt: "getNextRegionToInit cc (remote(currentRegionHost cc \<mapsto> (length u = 0))) = currentRegionHost cc"
    by (auto simp: getInitOrderInfo_def Let_def split: if_splits)
  let ?m = "remote(currentRegionHost cc \<mapsto> (length u = 0))"
  have "statusOf ?m h"
    using nextRegion_first [OF nxt] assms(5,6) by (meson currentRegionHost_nonempty leD)
  with assms(6) have "remote h = Some True"
    by (auto simp: statusOf_def split: option.splits if_splits)
  with foldAct_fetchRegionStatus [OF remote [unfolded getRemoteClusterRegionsStatuses_def], of h]
  show ?thesis by auto
qed

definition hostPortRegions :: cassandraCluster where
  "hostPortRegions = twoRegions\<lparr>cc_spec := (cc_spec twoRegions)\<lparr>hostPortSpec :=
     \<lparr>hp_enabled = True, hp_useExternalHostIP = True, hp_ports = []\<rparr>, cassandraSpec := Some sampleCassandra\<rparr>\<rparr>"

theorem regions_start_in_order_witness:
  "\<exists>w'. fst (e_fetchRegionReady (quietEnv :: unit env) ''east-c-cassandra-prober.a.org'' w') = Inr True"
proof -
  have hosts: "getAllRegionsHosts hostPortRegions =
      [''east-c-cassandra-prober.a.org'', ''ns-c-cassandra-prober.example.org'']"
    and cur: "currentRegionHost hostPortRegions = ''ns-c-cassandra-prober.example.org''"
    and dom: "ProberIngressDomain hostPortRegions \<lparr>mr_domain = ''a.org'', mr_namespace = ''east''\<rparr> = ''east-c-cassandra-prober.a.org''"
    by code_simp+
  have managed: "managedRegions hostPortRegions = [\<lparr>mr_domain = ''a.org'', mr_namespace = ''east''\<rparr>]"
    by (simp add: managedRegions_def hostPortRegions_def twoRegions_def sampleCluster_def)
  have hp: "hp_enabled (hostPortSpec (cc_spec hostPortRegions))"
    by (simp add: hostPortRegions_def)
  have dcs: "spec_dcs (cc_spec hostPortRegions) = [\<lparr>dc_name = ''dc1'', dc_replicas = Some 3, dc_affinity = None, dc_tolerations = []\<rparr>]"
    by (simp add: hostPortRegions_def twoRegions_def sampleCluster_def)
  have "result (unreadyDCs quietEnv hostPortRegions) () = Inr [''dc1'']"
    by (simp add: unreadyDCs_def dcs checkDC_def quietEnv_def isNotFound_def Let_def)
  then have "result (getInitOrderInfo quietEnv hostPortRegions) () = Inr (False, ''dc1'')"
    by (simp add: getInitOrderInfo_def hp managed getRemoteClusterRegionsStatuses_def fetchRegionStatus_def Let_def
        quietEnv_def dom cur dcs getNextRegionToInit_def hosts statusOf_def)
  from regions_start_in_order [OF hp _ this, of "''east-c-cassandra-prober.a.org''"] show ?thesis
    by (simp add: managed hosts cur)
qed

lemma rackLines_total:
  "cassandraSpec (cc_spec cc) = Some cas \<Longrightarrow> (cas_zonesAsRacks cas \<longrightarrow> getNodeByName ns (pod_nodeName p) \<noteq> None) \<Longrightarrow>
     \<exists>l. rackLines cc ns p = Inr l"
  by (auto simp: rackLines_def)

lemma entriesLoop_missing:
  assumes "cassandraSpec (cc_spec cc) = Some cas"
    and "\<forall>q \<in> set ps. pod_podIP q \<noteq> '''' \<and> (cas_zonesAsRacks cas \<longrightarrow> getNodeByName ns (pod_nodeName q) \<noteq> None)"
    and "p \<in> set ps" "mget addrs (pod_name p) = ''''"
  shows "entriesLoop cc ns addrs seeds ips pause ps m = Inr None"
  using assms(2,3)
proof (induction ps arbitrary: m)
  case (Cons q ps)
  then have "cas_zonesAsRacks cas \<longrightarrow> getNodeByName ns (pod_nodeName q) \<noteq> None" by simp
  from rackLines_total [OF assms(1) this] obtain l where "rackLines cc ns q = Inr l" by blast
  with Cons assms(4) show ?case by (auto simp: Let_def)
qed simp

text \<open>An API server that answers: a configmap is found or not, and no write of one fails.\<close>

definition configMapsServed :: "'w env \<Rightarrow> bool" where
  "configMapsServed E \<longleftrightarrow>
     (\<forall>k v. case fst (e_getCM E k v) of Inl e \<Rightarrow> e = NotFound | Inr cm \<Rightarrow> True) \<and>
     (\<forall>cm v. fst (e_createCM E cm v) = Inr () \<and> fst (e_updateCM E cm v) = Inr ())"

lemma served_get: "configMapsServed E \<Longrightarrow> fst (e_getCM E k v) = Inl e \<Longrightarrow> e = NotFound"
  unfolding configMapsServed_def by (metis (mono_tags, lifting) sum.simps(5))

lemma served_write:
  "configMapsServed E \<Longrightarrow> fst (e_createCM E cm v) = Inr ()" "configMapsServed E \<Longrightarrow> fst (e_updateCM E cm v) = Inr ()"
  by (simp_all add: configMapsServed_def)

lemma served_reconcile: "configMapsServed E \<Longrightarrow> result (reconcileConfigMap E d) v = Inr ()"
  by (auto simp: reconcileConfigMap_def isNotFound_def Let_def served_write dest: served_get split: sum.splits)

lemma served_podIPs:
  "configMapsServed E \<Longrightarrow> e_controllerReference E cc = Inr owners \<Longrightarrow>
     \<exists>ips. result (reconcilePodIPsConfigMap E cc ps addrs) v = Inr ips"
  by (auto simp: reconcilePodIPsConfigMap_def isNotFound_def Let_def served_write dest: served_get split: sum.splits)

lemma podsConfigMapData_missing:
  assumes "configMapsServed E" "e_controllerReference E cc = Inr owners" "cassandraSpec (cc_spec cc) = Some cas"
    and "\<forall>q \<in> set ps. pod_podIP q \<noteq> '''' \<and> (cas_zonesAsRacks cas \<longrightarrow> getNodeByName ns (pod_nodeName q) \<noteq> None)"
    and "p \<in> set ps" "getBroadcastAddresses cc ps ns = Inr addrs" "mget addrs (pod_name p) = ''''"
    and "result (getSeedsList E cc addrs) w = Inr seeds"
    and "result (getInitOrderInfo E cc) (world (getSeedsList E cc addrs) w) = Inr order"
  shows "result (podsConfigMapData E cc ps ns) w = Inr None"
proof -
  let ?v = "world (getInitOrderInfo E cc) (world (getSeedsList E cc addrs) w)"
  from served_podIPs [OF assms(1,2)] obtain ips where ips: "result (reconcilePodIPsConfigMap E cc ps addrs) ?v = Inr ips" by blast
  from assms(5) have "length ps \<noteq> 0" by auto
  then show ?thesis
    using assms(6,8,9) ips
    by (cases order) (simp add: podsConfigMapData_def entriesLoop_missing [OF assms(3,4,5,7)])
qed

text \<open>C8: If one pod has no address of the kind that is broadcast, and everything the reconciliation asks the other services
  for is answered, then the reconciliation does not fail, as a missing address should make it: it reports success and leaves
  the configmap of all pods without any data.\<close>

theorem missing_address_wipes_config:
  assumes "cmApi E store" "configMapsServed E" "e_controllerReference E cc = Inr owners" "cassandraSpec (cc_spec cc) = Some cas"
    and "\<forall>q \<in> set ps. pod_podIP q \<noteq> '''' \<and> (cas_zonesAsRacks cas \<longrightarrow> getNodeByName ns (pod_nodeName q) \<noteq> None)"
    and "p \<in> set ps" "getBroadcastAddresses cc ps ns = Inr addrs" "mget addrs (pod_name p) = ''''"
    and "result (getSeedsList E cc addrs) w = Inr seeds"
    and "result (getInitOrderInfo E cc) (world (getSeedsList E cc addrs) w) = Inr order"
  shows "result (reconcileCassandraPodsConfigMap E cc ps ns) w = Inr () \<and>
    (\<exists>cm. store (world (reconcileCassandraPodsConfigMap E cc ps ns) w)
      (cc_namespace cc, PodsConfigConfigmap (cc_name cc)) = Some cm \<and> cm_data cm = None)"
proof -
  note none = podsConfigMapData_missing [OF assms(2-10)]
  let ?d = "\<lparr>cm_name = PodsConfigConfigmap (cc_name cc), cm_namespace = cc_namespace cc,
         cm_labels = CombinedComponentLabels cc ComponentCassandra, cm_annotations = None,
         cm_ownerReferences = owners, cm_data = None\<rparr>"
  let ?w = "world (podsConfigMapData E cc ps ns) w"
  note ok = served_reconcile [OF assms(2), of ?d ?w]
  have run: "result (reconcileCassandraPodsConfigMap E cc ps ns) w = Inr ()"
    "world (reconcileCassandraPodsConfigMap E cc ps ns) w = world (reconcileConfigMap E ?d) ?w"
    using assms(3) none ok by (simp_all add: reconcileCassandraPodsConfigMap_def)
  from cmRec.reaches [OF assms(1) ok] show ?thesis
    unfolding run by (auto simp: cmAgrees_def cmKey_def)
qed

text \<open>A node that has an internal address only, in a cluster that broadcasts external ones.\<close>

definition internalNode :: k8sNode where
  "internalNode = \<lparr>nd_name = ''node1'', nd_labels = Map.empty, nd_addresses = [(NodeInternalIP, ''192.168.0.1'')]\<rparr>"

definition externalCluster :: cassandraCluster where
  "externalCluster = runningCluster\<lparr>cc_spec := (cc_spec runningCluster)\<lparr>hostPortSpec :=
     \<lparr>hp_enabled = True, hp_useExternalHostIP = True, hp_ports = []\<rparr>\<rparr>\<rparr>"

lemma externalCluster_simps [simp]:
  "cc_name externalCluster = ''c''" "cc_namespace externalCluster = ''ns''"
  "cassandraSpec (cc_spec externalCluster) = Some sampleCassandra"
  "spec_dcs (cc_spec externalCluster) = [\<lparr>dc_name = ''dc1'', dc_replicas = Some 3, dc_affinity = None, dc_tolerations = []\<rparr>]"
  "hostPortSpec (cc_spec externalCluster) = \<lparr>hp_enabled = True, hp_useExternalHostIP = True, hp_ports = []\<rparr>"
  "managedRegions externalCluster = []" "unmanagedRegions externalCluster = []"
  by (simp_all add: externalCluster_def runningCluster_def sampleCluster_def managedRegions_def unmanagedRegions_def)

lemma cmServer_served: "configMapsServed cmServer"
  by (auto simp: configMapsServed_def cmServer_def split: option.splits sum.splits)

theorem missing_address_wipes_config_witness:
  "result (reconcileCassandraPodsConfigMap cmServer externalCluster [samplePod ''c-0'' True] [internalNode]) Map.empty = Inr () \<and>
   (\<exists>cm. cmsOf (world (reconcileCassandraPodsConfigMap cmServer externalCluster [samplePod ''c-0'' True] [internalNode]) Map.empty)
     (''ns'', ''c-pods-config'') = Some cm \<and> cm_data cm = None)"
proof -
  have addrs: "getBroadcastAddresses externalCluster [samplePod ''c-0'' True] [internalNode] = Inr [''c-0'' \<mapsto> '''']"
    by (simp add: getBroadcastAddresses_def getPodBroadcastAddress_def samplePod_def internalNode_def)
  have "\<exists>s. getLocalSeedsHostnames externalCluster a = Inr s" for a
    by (simp add: getLocalSeedsHostnames_def dcSeeds_def dcNumberOfSeeds_def sampleCassandra_def Let_def)
  then obtain s where s: "getLocalSeedsHostnames externalCluster [''c-0'' \<mapsto> ''''] = Inr s" by blast
  have l: "result (getSeedsList cmServer externalCluster [''c-0'' \<mapsto> '''']) Map.empty = Inr s"
    "world (getSeedsList cmServer externalCluster [''c-0'' \<mapsto> '''']) Map.empty = Map.empty"
    by (simp_all add: getSeedsList_def s cmServer_def quietEnv_def)
  have i: "result (getInitOrderInfo cmServer externalCluster) (world (getSeedsList cmServer externalCluster [''c-0'' \<mapsto> '''']) Map.empty) =
      Inr (False, '''')"
    unfolding l by (simp add: getInitOrderInfo_def unreadyDCs_def checkDC_def cmServer_def quietEnv_def isNotFound_def Let_def)
  have o: "e_controllerReference cmServer externalCluster = Inr [''c'']"
    by (simp add: cmServer_def quietEnv_def)
  have c: "cassandraSpec (cc_spec externalCluster) = Some sampleCassandra" by simp
  from missing_address_wipes_config [OF cmServer_api cmServer_served o c _ _ addrs _ l(1) i, of "samplePod ''c-0'' True"]
  show ?thesis by (simp add: samplePod_def PodsConfigConfigmap_def sampleCassandra_def)
qed

lemma podIPsData_entry:
  "distinct (map pod_name ps) \<Longrightarrow> mget (podIPsData addrs ps m) n =
     (if \<exists>p \<in> set ps. pod_name p = n \<and> podReady p \<and> mget addrs n \<noteq> '''' then mget addrs n else mget m n)"
proof (induction ps arbitrary: m)
  case (Cons p ps)
  let ?m = "if mget m (pod_name p) \<noteq> mget addrs (pod_name p) \<and> mget addrs (pod_name p) \<noteq> '''' \<and> podReady p
                then m(pod_name p \<mapsto> mget addrs (pod_name p)) else m"
  have step: "podIPsData addrs (p # ps) m = podIPsData addrs ps ?m"
    by (simp add: podIPsData_def)
  have "mget ?m n = (if n = pod_name p \<and> podReady p \<and> mget addrs n \<noteq> '''' then mget addrs n else mget m n)"
    by auto
  with Cons show ?case unfolding step by (subst Cons.IH) auto
qed (simp add: podIPsData_def)

lemma cm_data_eqD: "a\<lparr>cm_data := x\<rparr> = b \<Longrightarrow> cm_data b = x"
  by auto

text \<open>The recorded address of a pod, from which a restarted node learns its previous identity, changes only while the pod
  is ready and has an address, and then becomes that address; pods that no longer exist keep theirs.\<close>

theorem pod_ips_remembered:
  assumes "result (reconcilePodIPsConfigMap E cc ps addrs) w = Inr ips" "distinct (map pod_name ps)"
    and "fst (e_getCM E (cc_namespace cc, PodIPsConfigMap (cc_name cc)) w) = Inr cm" "cm_data cm = Some old"
  shows "mget ips n =
    (if \<exists>p \<in> set ps. pod_name p = n \<and> podReady p \<and> mget addrs n \<noteq> '''' then mget addrs n else mget old n)"
proof -
  from assms(1,3,4) have "ips = podIPsData addrs ps old"
    by (auto simp: reconcilePodIPsConfigMap_def Let_def cmKey_def EqualConfigMap_def dest!: cm_data_eqD
        split: sum.splits if_splits)
  with podIPsData_entry [OF assms(2)] show ?thesis by simp
qed

definition podIPsCM :: configMap where
  "podIPsCM = \<lparr>cm_name = ''c-pod-ips'', cm_namespace = ''ns'', cm_labels = Map.empty, cm_annotations = None,
     cm_ownerReferences = [''c''], cm_data = Some [''c-9'' \<mapsto> ''10.0.0.9'']\<rparr>"

theorem pod_ips_remembered_witness:
  "\<exists>ips. result (reconcilePodIPsConfigMap cmServer runningCluster [samplePod ''c-0'' True] [''c-0'' \<mapsto> ''10.0.0.1''])
      [(''ns'', ''c-pod-ips'') \<mapsto> podIPsCM] = Inr ips \<and>
     mget ips ''c-9'' = ''10.0.0.9'' \<and> mget ips ''c-0'' = ''10.0.0.1''"
proof -
  let ?w = "[(''ns'', ''c-pod-ips'') \<mapsto> podIPsCM]"
  have cm: "fst (e_getCM cmServer (cc_namespace runningCluster, PodIPsConfigMap (cc_name runningCluster)) ?w) = Inr podIPsCM"
    by (simp add: cmServer_def cmsOf_def PodIPsConfigMap_def podIPsCM_def cmKey_def)
  have "\<exists>ips. result (reconcilePodIPsConfigMap cmServer runningCluster [samplePod ''c-0'' True] [''c-0'' \<mapsto> ''10.0.0.1'']) ?w = Inr ips"
    using cm by (simp add: reconcilePodIPsConfigMap_def cmKey_def Let_def) (simp add: cmServer_def quietEnv_def Let_def)
  then obtain ips where ips: "result (reconcilePodIPsConfigMap cmServer runningCluster [samplePod ''c-0'' True]
      [''c-0'' \<mapsto> ''10.0.0.1'']) ?w = Inr ips" by blast
  have old: "cm_data podIPsCM = Some [''c-9'' \<mapsto> ''10.0.0.9'']" by (simp add: podIPsCM_def)
  from pod_ips_remembered [OF ips _ cm old] show ?thesis
    using ips by (auto simp: samplePod_def podReady_def)
qed

lemma relabel_some: "relabel ns p = Some q \<Longrightarrow> isSeedPod q \<longleftrightarrow> pod_name q \<in> set ns"
  by (auto simp: relabel_def isSeedPod_def split: if_splits)

lemma relabel_none: "relabel ns p = None \<longleftrightarrow> (isSeedPod p \<longleftrightarrow> pod_name p \<in> set ns)"
  by (auto simp: relabel_def isSeedPod_def)

lemma relabelPod_trace: "trace (relabelPod E ns p) w = (case relabel ns p of None \<Rightarrow> [] | Some q \<Rightarrow> [UpdatePod q])"
  by (simp add: relabelPod_def split: option.splits)

lemma relabel_loop:
  "result (forEach (relabelPod E ns) ps) w = Inr () \<Longrightarrow>
     trace (forEach (relabelPod E ns) ps) w = map UpdatePod (List.map_filter (relabel ns) ps)"
  by (induction ps arbitrary: w) (auto simp: relabelPod_trace List.map_filter_simps split: sum.splits option.splits)

text \<open>The seed label of a pod is made to agree with the seeds of its datacentre: exactly the pods on which it differs
  are updated, each once, and an updated pod carries the label if and only if it is a seed.\<close>

theorem seed_labels_converge:
  assumes "result (reconcileCassandraPodLabels E cc) w = Inr ()"
    and "fst (e_listPods E w) = Inr ps" "seedPodNames cc = Inr names"
  shows "trace (reconcileCassandraPodLabels E cc) w =
      ListPods # map UpdatePod (List.map_filter (relabel names) ps) \<and>
    (\<forall>p \<in> set ps. case relabel names p of
        None \<Rightarrow> isSeedPod p \<longleftrightarrow> pod_name p \<in> set names
      | Some q \<Rightarrow> (isSeedPod q \<longleftrightarrow> pod_name p \<in> set names) \<and> (isSeedPod p \<longleftrightarrow> pod_name p \<notin> set names) \<and>
          pod_name q = pod_name p)"
proof -
  have "result (forEach (relabelPod E names) ps) (snd (e_listPods E w)) = Inr ()"
    using assms by (cases ps) (auto simp: reconcileCassandraPodLabels_def getCassandraPods_def)
  from relabel_loop [OF this] have
    "trace (reconcileCassandraPodLabels E cc) w = ListPods # map UpdatePod (List.map_filter (relabel names) ps)"
    using assms by (cases ps) (auto simp: reconcileCassandraPodLabels_def getCassandraPods_def List.map_filter_simps)
  moreover have "pod_name q = pod_name p" "isSeedPod p \<longleftrightarrow> pod_name p \<notin> set names" if "relabel names p = Some q" for p q
    using that by (auto simp: relabel_def isSeedPod_def split: if_splits)
  ultimately show ?thesis
    by (auto simp: relabel_none relabel_some split: option.splits)
qed

theorem seed_labels_converge_witness:
  "trace (reconcileCassandraPodLabels (quietEnv\<lparr>e_listPods := (\<lambda>w. (Inr [samplePod ''c-cassandra-dc1-0'' True], w))\<rparr>) runningCluster) () =
     [ListPods, UpdatePod ((samplePod ''c-cassandra-dc1-0'' True)\<lparr>pod_labels :=
        [ClusterDCLabel \<mapsto> ''dc1'', ClusterSeedLabel \<mapsto> ''c-cassandra-dc1-0'']\<rparr>)]"
proof -
  let ?E = "quietEnv\<lparr>e_listPods := (\<lambda>w. (Inr [samplePod ''c-cassandra-dc1-0'' True], w))\<rparr>"
  have i: "itoa 0 = ''0''" "itoa 1 = ''1''" by code_simp+
  have "below 2 = [0, 1]" by code_simp
  then have names: "seedPodNames runningCluster = Inr [''c-cassandra-dc1-0'', ''c-cassandra-dc1-1'']"
    by (simp add: seedPodNames_def dcNumberOfSeeds_def sampleCassandra_def ordinalName_def DC_def i Let_def)
  have ls: "ClusterDCLabel \<noteq> ClusterSeedLabel" by (simp add: ClusterDCLabel_def ClusterSeedLabel_def)
  have rl: "relabel [''c-cassandra-dc1-0'', ''c-cassandra-dc1-1''] (samplePod ''c-cassandra-dc1-0'' True) =
      Some ((samplePod ''c-cassandra-dc1-0'' True)\<lparr>pod_labels :=
        [ClusterDCLabel \<mapsto> ''dc1'', ClusterSeedLabel \<mapsto> ''c-cassandra-dc1-0'']\<rparr>)"
    using ls by (simp add: relabel_def samplePod_def)
  have "result (reconcileCassandraPodLabels ?E runningCluster) () = Inr ()"
    by (simp add: reconcileCassandraPodLabels_def getCassandraPods_def names relabelPod_def rl) (simp add: quietEnv_def)
  from seed_labels_converge [OF this _ names] show ?thesis
    by (simp add: rl List.map_filter_simps)
qed

end
