(* ===== verification/Scaling.thy ===== *)
theory Scaling
  imports Keyspaces Pods_Config
begin

text \<open>
  Scaling the Cassandra stateful sets: \<open>controllers/cassandra_scaling.go\<close>, with the credentials from
  \<open>controllers/admin_auth.go\<close>.
  A datacentre is scaled up at once and down one node at a time: the last node is told to leave the ring by a
  background job, and the stateful set shrinks only when the node no longer answers and its peers no longer
  see it. A datacentre that left the specification is drained the same way and then removed, unless a user
  keyspace still replicates to it.
  The lemmas state which stateful sets are written and how, and what a write presupposes.
\<close>

section \<open>Credentials\<close>

definition secretValue :: "secret \<Rightarrow> string \<Rightarrow> string" where
  "secretValue s k = mget (case sec_data s of None \<Rightarrow> Map.empty | Some d \<Rightarrow> d) k"

definition extractCredentials :: "secret \<Rightarrow> go_error + string \<times> string" where
  "extractCredentials s =
     (let role = secretValue s OperatorAdminRole; pw = secretValue s OperatorAdminPassword in
      if length role = 0 \<or> length pw = 0 then Inl (Err ''admin role or password is empty'') else Inr (role, pw))"

definition adminRoleSecret :: "'w env \<Rightarrow> cassandraCluster \<Rightarrow> ('w, secret) run" where
  "adminRoleSecret E cc =
     (let k = (cc_namespace cc, adminRoleSecretName (cc_spec cc)) in
      wrapErr ''can't get base admin secret'' (call (GetSecret k) (e_getSecret E k)))"

section \<open>Stateful sets by datacentre\<close>

fun dcsMapLoop :: "dc list \<Rightarrow> (string \<rightharpoonup> int) \<Rightarrow> go_error + (string \<rightharpoonup> int)" where
  "dcsMapLoop [] m = Inr m"
| "dcsMapLoop (d # ds) m = bindE (deref (dc_replicas d)) (\<lambda>n. dcsMapLoop ds (m(dc_name d \<mapsto> n)))"

definition dcsMap :: "cassandraCluster \<Rightarrow> go_error + (string \<rightharpoonup> int)" where
  "dcsMap cc = dcsMapLoop (spec_dcs (cc_spec cc)) Map.empty"

definition inSpec :: "cassandraCluster \<Rightarrow> string \<Rightarrow> bool" where
  "inSpec cc d \<longleftrightarrow> (\<exists>x \<in> set (spec_dcs (cc_spec cc)). d = dc_name x)"

definition byName :: "statefulSet list \<Rightarrow> string \<rightharpoonup> statefulSet" where
  "byName stss = map_of (rev (map (\<lambda>s. (sts_name s, s)) stss))"

definition desiredDCsSTS :: "cassandraCluster \<Rightarrow> statefulSet list \<Rightarrow> string list \<times> (string \<rightharpoonup> statefulSet)" where
  "desiredDCsSTS cc allSTS =
     (let sel = filter (\<lambda>s. inSpec cc (stsDC s)) allSTS in (sort (map sts_name sel), byName sel))"

definition decommissionDCsSTS :: "cassandraCluster \<Rightarrow> statefulSet list \<Rightarrow> string list \<times> (string \<rightharpoonup> statefulSet)" where
  "decommissionDCsSTS cc allSTS =
     (let sel = filter (\<lambda>s. \<not> inSpec cc (stsDC s)) allSTS in (sort (map sts_name sel), byName sel))"

section \<open>Decommissioning a node\<close>

definition NodeOperationModeLeaving :: string where "NodeOperationModeLeaving = ''LEAVING''"

text \<open>The loop over the peers: \<open>n\<close> counts those that do not see the address \<open>target\<close> as live.\<close>

definition askPeer ::
  "'w env \<Rightarrow> (string \<rightharpoonup> int) \<Rightarrow> strmap \<Rightarrow> pod \<Rightarrow> pod \<Rightarrow> nat \<Rightarrow> ('w, nat) run" where
  "askPeer E desiredDCs addrs target p n =
     (if pod_name p = pod_name target \<or> desiredDCs (podDC p) = None then ret n
      else let ip = mget addrs (pod_name p) in
        andThen (wrapErr ''can't get cluster view'' (call (ClusterView ip) (e_clusterView E ip))) (\<lambda>view.
          ret (if \<not> Contains (cv_liveNodes view) (mget addrs (pod_name target)) then Suc n else n)))"

definition podDecommissioned ::
  "'w env \<Rightarrow> cassandraCluster \<Rightarrow> pod list \<Rightarrow> pod \<Rightarrow> strmap \<Rightarrow> ('w, bool) run" where
  "podDecommissioned E cc ps target addrs =
     (let quorum = int (length (filter (\<lambda>p. inSpec cc (podDC p)) ps)) - 1 in
      andThen (lift (dcsMap cc)) (\<lambda>desiredDCs.
      andThen (foldAct (askPeer E desiredDCs addrs target) ps 0) (\<lambda>notLiveView.
        ret (int notLiveView \<ge> quorum))))"

definition jobNameOf :: "string \<Rightarrow> string" where
  "jobNameOf podName = ''pod-decommission-'' @ podName"

text \<open>
  \<open>handlePodDecommission\<close>. When the admin secret cannot be read the code logs \<open>adminSecret.Name\<close> of a nil
  pointer; when it holds no credentials the code goes on with empty ones.
\<close>

definition handlePodDecommission ::
  "'w env \<Rightarrow> cassandraCluster \<Rightarrow> statefulSet \<Rightarrow> strmap \<Rightarrow> string \<Rightarrow> pod list \<Rightarrow> ('w, unit) run" where
  "handlePodDecommission E cc sts addrs podName ps =
     (let jobName = jobNameOf podName in
      andThen (peek (\<lambda>w. e_jobExists E jobName w \<and> e_jobIsRunning E jobName w)) (\<lambda>inProgress.
      if inProgress then ret ()
      else case List.find (\<lambda>p. pod_name p = podName) ps of
        None \<Rightarrow> raise (Err (''couldn't find pod '' @ quoted podName @ '' to start the decommission''))
      | Some target \<Rightarrow>
          andThen (attempt (adminRoleSecret E cc)) (\<lambda>secretOrErr.
          case secretOrErr of
            Inl _ \<Rightarrow> raise Panic
          | Inr _ \<Rightarrow>
            (let ip = mget addrs (pod_name target) in
             andThen (attempt (call (OperationMode ip) (e_operationMode E ip))) (\<lambda>opMode.
             case opMode of
               Inl opModeErr \<Rightarrow>
                 andThen (wrapErr ''failed to check if the pod is decommissioned''
                     (podDecommissioned E cc ps target addrs)) (\<lambda>decommissioned.
                   if decommissioned
                   then andThen (lift (deref (sts_replicas sts))) (\<lambda>n.
                          let smaller = sts\<lparr>sts_replicas := Some (n - 1)\<rparr> in
                          andThen (wrapErr ''couldn't scale down the statefulset to remove the decommissioned node''
                              (call (UpdateStatefulSet smaller) (e_updateSts E smaller))) (\<lambda>_.
                            wrapErr ''can't remove job'' (call (JobRemove jobName) (e_jobRemove E jobName))))
                   else raise (Wrap ''failed to get operation mode, but some peer node(s) still see the node as ready'' opModeErr))
             | Inr mode \<Rightarrow>
                 if mode = NodeOperationModeLeaving then ret ()
                 else wrapErr (''failed to start job to decommission pod '' @ podName)
                        (call (JobRun jobName ip) (e_jobRun E jobName ip)))))))"

section \<open>Decommissioning a datacentre\<close>

text \<open>\<open>removeDC\<close>. The second test is the code's \<open>if err == nil { return err }\<close>.\<close>

definition removeDC :: "'w env \<Rightarrow> cassandraCluster \<Rightarrow> statefulSet \<Rightarrow> ('w, unit) run" where
  "removeDC E cc sts =
     (let dcName = stsDC sts;
          deploy = (cc_namespace cc, ReaperDeployment (cc_name cc) dcName);
          svc = (cc_namespace cc, DCService (cc_name cc) dcName);
          deleteSts = call (DeleteStatefulSet (sts_name sts)) (e_deleteSts E (sts_name sts)) in
      andThen (attempt (call (GetDeployment deploy) (e_getDeployment E deploy))) (\<lambda>d.
      andThen (case d of Inr _ \<Rightarrow> call (DeleteDeployment deploy) (e_deleteDeployment E deploy) | Inl _ \<Rightarrow> ret ()) (\<lambda>_.
      andThen (attempt (call (GetService svc) (e_getService E svc))) (\<lambda>s.
        case s of
          Inl _ \<Rightarrow> deleteSts
        | Inr _ \<Rightarrow> andThen (attempt (call (DeleteService svc) (e_deleteService E svc))) (\<lambda>r.
            case r of Inr _ \<Rightarrow> ret () | Inl _ \<Rightarrow> deleteSts)))))"

definition EventDCDecommissionBlocked :: string where "EventDCDecommissionBlocked = ''DCDecommissionBlocked''"

definition blockedMsg :: "string \<Rightarrow> string \<Rightarrow> string" where
  "blockedMsg d k = ''Can't decommission DC '' @ quoted d @ '' since keyspace '' @ quoted k @
     '' still replicates to that DC. Remove that DC from replication settings for the decommission to proceed.''"

text \<open>The check that no user keyspace replicates to a datacentre that goes away; \<open>ord\<close> is the order of the range over the
  stateful sets.\<close>

fun blockedLoop :: "string list \<Rightarrow> statefulSet list \<Rightarrow> keyspace list \<Rightarrow> ('w, unit) run" where
  "blockedLoop managed ord [] = ret ()"
| "blockedLoop managed ord (k # ks) =
     (if \<not> keyspaceExists managed (ks_name k)
      then case List.find (\<lambda>s. ks_replication k (stsDC s) \<noteq> None) ord of
          None \<Rightarrow> blockedLoop managed ord ks
        | Some s \<Rightarrow> andThen (emit EventDCDecommissionBlocked (blockedMsg (stsDC s) (ks_name k)))
                    (\<lambda>_. raise ErrDCDecommissionBlocked)
      else blockedLoop managed ord ks)"

definition prepareKeyspace ::
  "'w env \<Rightarrow> cassandraCluster \<Rightarrow> dc list \<Rightarrow> keyspace list \<Rightarrow> string \<Rightarrow> ('w, unit) run" where
  "prepareKeyspace E cc allDCs current k =
     (if k = keyspaceSystemAuth then ret ()
      else case getKeyspaceByName current k of
          None \<Rightarrow> ret ()
        | Some info \<Rightarrow>
            (let desired = desiredReplicationOptions cc k allDCs in
             if ks_replication info \<noteq> desired
             then wrapErr (''failed to alter '' @ quoted k @ '' keyspace'') (cqlUpdateRF E k desired)
             else ret ()))"

fun decommissionLoop ::
  "'w env \<Rightarrow> cassandraCluster \<Rightarrow> strmap \<Rightarrow> pod list \<Rightarrow> (string \<rightharpoonup> statefulSet) \<Rightarrow> string list \<Rightarrow> ('w, unit) run" where
  "decommissionLoop E cc addrs ps stss [] = ret ()"
| "decommissionLoop E cc addrs ps stss (n # ns) =
     (case stss n of
        None \<Rightarrow> decommissionLoop E cc addrs ps stss ns
      | Some sts \<Rightarrow>
          if sts_replicas sts = Some 0
          then wrapErr (''failed to remove dc '' @ stsDC sts) (removeDC E cc sts)
          else andThen (lift (deref (sts_replicas sts))) (\<lambda>r.
               andThen (wrapErr ''failed to handle pod decommission''
                   (handlePodDecommission E cc sts addrs (ordinalName (sts_name sts) (r - 1)) ps)) (\<lambda>_.
                 decommissionLoop E cc addrs ps stss ns)))"

definition handleDCsDecommission ::
  "'w env \<Rightarrow> statefulSet list \<Rightarrow> cassandraCluster \<Rightarrow> string list \<Rightarrow> (string \<rightharpoonup> statefulSet) \<Rightarrow> dc list \<Rightarrow> secret \<Rightarrow>
     strmap \<Rightarrow> pod list \<Rightarrow> ('w, unit) run" where
  "handleDCsDecommission E ord cc stsNames stss allDCs adminSecret addrs ps =
     andThen (lift (desiredKeyspacesToReconcile cc)) (\<lambda>managed.
     andThen (lift (extractCredentials adminSecret)) (\<lambda>(role, pw).
     andThen (wrapErr ''can't create cql client'' (call (CqlConnect role pw) (e_cqlConnect E role pw))) (\<lambda>_.
     andThen (wrapErr ''can't get keyspace info'' (call CqlKeyspaces (e_cqlKeyspaces E))) (\<lambda>current.
     andThen (blockedLoop managed ord current) (\<lambda>_.
     andThen (forEach (prepareKeyspace E cc allDCs current) managed) (\<lambda>_.
       decommissionLoop E cc addrs ps stss stsNames))))))"

section \<open>The reconciler\<close>

text \<open>The loop over the datacentres of the specification: \<open>Some b\<close> is the code's \<open>return b, nil\<close>, \<open>None\<close> the end of the loop.\<close>

fun scaleLoop ::
  "'w env \<Rightarrow> cassandraCluster \<Rightarrow> strmap \<Rightarrow> pod list \<Rightarrow> (string \<rightharpoonup> int) \<Rightarrow> (string \<rightharpoonup> statefulSet) \<Rightarrow> string list \<Rightarrow>
     ('w, bool option) run" where
  "scaleLoop E cc addrs ps replicasOf stss [] = ret None"
| "scaleLoop E cc addrs ps replicasOf stss (n # ns) =
     (case stss n of
        None \<Rightarrow> scaleLoop E cc addrs ps replicasOf stss ns
      | Some sts \<Rightarrow>
          (let oldReplicas = (case sts_replicas sts of None \<Rightarrow> 1 | Some r \<Rightarrow> r);
               newReplicas = (case replicasOf (stsDC sts) of None \<Rightarrow> 0 | Some r \<Rightarrow> r) in
           if oldReplicas = newReplicas then scaleLoop E cc addrs ps replicasOf stss ns
           else if oldReplicas < newReplicas
           then (let larger = sts\<lparr>sts_replicas := Some newReplicas\<rparr> in
                 andThen (wrapErr ''can't update replicas number for statefulset''
                     (call (UpdateStatefulSet larger) (e_updateSts E larger))) (\<lambda>_.
                   scaleLoop E cc addrs ps replicasOf stss ns))
           else if length ps = 0 then scaleLoop E cc addrs ps replicasOf stss ns
           else andThen (wrapErr ''failed to handle pod decommission''
                  (handlePodDecommission E cc sts addrs (ordinalName (sts_name sts) (oldReplicas - 1)) ps)) (\<lambda>_.
                  ret (Some True))))"

definition reconcileCassandraScaling ::
  "'w env \<Rightarrow> statefulSet list \<Rightarrow> cassandraCluster \<Rightarrow> pod list \<Rightarrow> k8sNode list \<Rightarrow> dc list \<Rightarrow> secret \<Rightarrow> ('w, bool) run" where
  "reconcileCassandraScaling E ord cc ps ns allDCs adminSecret =
     andThen (wrapErr ''can't get broadcast addresses'' (lift (getBroadcastAddresses cc ps ns))) (\<lambda>addrs.
     andThen (wrapErr ''can't get statefulsets'' (call ListStatefulSets (e_listSts E))) (\<lambda>stss.
       if length stss = 0 then ret False
       else andThen (lift (dcsMap cc)) (\<lambda>replicasOf.
         case desiredDCsSTS cc stss of (desiredNames, desiredSts) \<Rightarrow>
         case decommissionDCsSTS cc stss of (oldNames, oldSts) \<Rightarrow>
           andThen (scaleLoop E cc addrs ps replicasOf desiredSts desiredNames) (\<lambda>returned.
             case returned of
               Some b \<Rightarrow> ret b
             | None \<Rightarrow>
                 if length oldNames = 0 then ret False
                 else andThen (wrapErr ''failed to decommission DCs''
                        (handleDCsDecommission E ord cc oldNames oldSts allDCs adminSecret addrs ps)) (\<lambda>_. ret True)))))"

section \<open>Lemmas\<close>

lemma blockedLoop_trace: "writes (trace (blockedLoop managed ord ks) w) = []"
  by (induction ks) (auto split: option.splits)

lemma blockedLoop_result:
  "result (blockedLoop managed ord ks) w =
     (if \<exists>k \<in> set ks. ks_name k \<notin> set managed \<and> (\<exists>s \<in> set ord. ks_replication k (stsDC s) \<noteq> None)
      then Inl ErrDCDecommissionBlocked else Inr ())"
  by (induction ks) (auto simp: find_None_iff dest!: find_Some_iff [THEN iffD1] split: option.splits)

lemma dcsMapLoop_dom: "dcsMapLoop ds m = Inr m' \<Longrightarrow> dom m' = dom m \<union> dc_name ` set ds"
proof (induction ds arbitrary: m)
  case (Cons d ds)
  then obtain n where "dcsMapLoop ds (m(dc_name d \<mapsto> n)) = Inr m'"
    by (auto simp: bindE_Inr_iff)
  from Cons.IH [OF this] show ?case by (simp del: fun_upd_apply)
qed simp

lemma dcsMap_dom: "dcsMap cc = Inr m \<Longrightarrow> m d = None \<longleftrightarrow> \<not> inSpec cc d"
  using dcsMapLoop_dom [of "spec_dcs (cc_spec cc)" Map.empty m]
  by (auto simp: dcsMap_def inSpec_def domIff [symmetric])

text \<open>The peers that are asked, and what their answers say.\<close>

definition peersOf :: "cassandraCluster \<Rightarrow> pod list \<Rightarrow> pod \<Rightarrow> pod list" where
  "peersOf cc ps target = filter (\<lambda>p. pod_name p \<noteq> pod_name target \<and> inSpec cc (podDC p)) ps"

definition doesNotSee :: "'w env \<Rightarrow> strmap \<Rightarrow> pod \<Rightarrow> pod \<Rightarrow> 'w \<Rightarrow> bool" where
  "doesNotSee E addrs target p w \<longleftrightarrow>
     (\<exists>view. fst (e_clusterView E (mget addrs (pod_name p)) w) = Inr view \<and>
        mget addrs (pod_name target) \<notin> set (cv_liveNodes view))"

text \<open>The worlds in which the peers answer: each one is asked after those before it.\<close>

fun askedIn :: "'w env \<Rightarrow> strmap \<Rightarrow> pod list \<Rightarrow> 'w \<Rightarrow> 'w list" where
  "askedIn E addrs [] w = []"
| "askedIn E addrs (p # ps) w = w # askedIn E addrs ps (snd (e_clusterView E (mget addrs (pod_name p)) w))"

lemma length_askedIn [simp]: "length (askedIn E addrs ps w) = length ps"
  by (induction ps arbitrary: w) auto

lemma askPeer_skip:
  "\<not> (pod_name p \<noteq> pod_name target \<and> m (podDC p) \<noteq> None) \<Longrightarrow> askPeer E m addrs target p n = ret n"
  by (auto simp: askPeer_def)

lemma askPeer_result:
  "pod_name p \<noteq> pod_name target \<Longrightarrow> m (podDC p) \<noteq> None \<Longrightarrow> result (askPeer E m addrs target p n) w = Inr x \<Longrightarrow>
     x = (if doesNotSee E addrs target p w then Suc n else n) \<and>
     world (askPeer E m addrs target p n) w = snd (e_clusterView E (mget addrs (pod_name p)) w)"
  by (auto simp: askPeer_def doesNotSee_def Let_def split: sum.splits if_splits)

lemma askPeers:
  assumes "\<And>d. m d = None \<longleftrightarrow> \<not> inSpec cc d"
  shows "result (foldAct (askPeer E m addrs target) ps n) w = Inr x \<Longrightarrow>
    x = n + length (filter (\<lambda>(p, w'). doesNotSee E addrs target p w')
      (zip (peersOf cc ps target) (askedIn E addrs (peersOf cc ps target) w)))"
proof (induction ps arbitrary: n w)
  case (Cons p ps)
  show ?case
  proof (cases "pod_name p \<noteq> pod_name target \<and> m (podDC p) \<noteq> None")
    case False
    then have "askPeer E m addrs target p n = ret n" by (rule askPeer_skip)
    moreover from False have "peersOf cc (p # ps) target = peersOf cc ps target"
      using assms by (auto simp: peersOf_def)
    ultimately show ?thesis using Cons.IH [of n w] Cons.prems by simp
  next
    case True
    from Cons.prems obtain y where y: "result (askPeer E m addrs target p n) w = Inr y"
      and rest: "result (foldAct (askPeer E m addrs target) ps y) (world (askPeer E m addrs target p n) w) = Inr x"
      by (auto split: sum.splits)
    from True have p: "peersOf cc (p # ps) target = p # peersOf cc ps target"
      using assms by (auto simp: peersOf_def)
    from askPeer_result [OF _ _ y] True
    have y: "y = (if doesNotSee E addrs target p w then Suc n else n)"
      and v: "world (askPeer E m addrs target p n) w = snd (e_clusterView E (mget addrs (pod_name p)) w)" by blast+
    from Cons.IH [OF rest] show ?thesis by (simp add: p y v)
  qed
qed (simp add: peersOf_def)

text \<open>\<open>stillSeen\<close>: how many peers answered that they see the target as live.\<close>

definition stillSeen :: "'w env \<Rightarrow> strmap \<Rightarrow> pod \<Rightarrow> pod list \<Rightarrow> 'w list \<Rightarrow> nat" where
  "stillSeen E addrs target peers ws =
     length (filter (\<lambda>(p, w'). \<not> doesNotSee E addrs target p w') (zip peers ws))"

lemma filter_not_length: "length (filter P xs) + length (filter (\<lambda>x. \<not> P x) xs) = length xs"
  by (induction xs) auto

lemma peers_length:
  assumes "distinct (map pod_name ps)" "target \<in> set ps"
  shows "length (peersOf cc ps target) + (if inSpec cc (podDC target) then 1 else 0) =
    length (filter (\<lambda>p. inSpec cc (podDC p)) ps)"
  using assms
proof (induction ps)
  case (Cons p ps)
  show ?case
  proof (cases "target = p")
    case True
    from Cons.prems(1) have "pod_name p \<notin> pod_name ` set ps" by simp
    with True have "\<forall>q \<in> set ps. pod_name q \<noteq> pod_name target" by (metis imageI)
    then have "peersOf cc ps target = filter (\<lambda>q. inSpec cc (podDC q)) ps"
      by (auto simp: peersOf_def intro: filter_cong)
    with True show ?thesis by (auto simp: peersOf_def)
  next
    case False
    with Cons have "target \<in> set ps" "pod_name p \<noteq> pod_name target" by auto
    with Cons show ?thesis by (auto simp: peersOf_def)
  qed
qed simp

lemma podDecommissioned_seen:
  assumes "result (podDecommissioned E cc ps target addrs) w = Inr True"
    and "distinct (map pod_name ps)" "target \<in> set ps"
  shows "stillSeen E addrs target (peersOf cc ps target) (askedIn E addrs (peersOf cc ps target) w) \<le>
    (if inSpec cc (podDC target) then 0 else 1)"
proof -
  let ?peers = "peersOf cc ps target" and ?ws = "askedIn E addrs (peersOf cc ps target) w"
  from assms(1) obtain m x where m: "dcsMap cc = Inr m"
    and x: "result (foldAct (askPeer E m addrs target) ps 0) w = Inr x"
    and q: "int x \<ge> int (length (filter (\<lambda>p. inSpec cc (podDC p)) ps)) - 1"
    by (auto simp: podDecommissioned_def Let_def split: sum.splits)
  from askPeers [OF dcsMap_dom [OF m] x]
  have ws: "x = length (filter (\<lambda>(p, w'). doesNotSee E addrs target p w') (zip ?peers ?ws))" by simp
  have "x + stillSeen E addrs target ?peers ?ws = length ?peers"
    unfolding stillSeen_def ws using filter_not_length [of "\<lambda>(p, w'). doesNotSee E addrs target p w'"
        "zip ?peers ?ws"] by (simp add: case_prod_unfold)
  with q peers_length [OF assms(2,3), of cc] show ?thesis by (auto split: if_splits)
qed

text \<open>What decommissioning one node may write.\<close>

definition shrinksByOne :: "statefulSet \<Rightarrow> statefulSet \<Rightarrow> bool" where
  "shrinksByOne s s' \<longleftrightarrow> (\<exists>n. sts_replicas s = Some n \<and> s' = s\<lparr>sts_replicas := Some (n - 1)\<rparr>)"

lemma only_podDecommissioned [only_intros]:
  "(\<And>ip. P (ClusterView ip)) \<Longrightarrow> only P (podDecommissioned E cc ps target addrs)"
  unfolding podDecommissioned_def askPeer_def Let_def by (intro only_intros) auto

lemma only_adminRoleSecret [only_intros]: "(\<And>k. P (GetSecret k)) \<Longrightarrow> only P (adminRoleSecret E cc)"
  unfolding adminRoleSecret_def Let_def by (intro only_intros) auto

lemma writes_podDecommissioned [simp]: "writes (trace (podDecommissioned E cc ps target addrs) w) = []"
  by (rule writes_only [of readOnly]) (auto intro: only_intros)

lemma writes_adminRoleSecret [simp]: "writes (trace (adminRoleSecret E cc) w) = []"
  by (rule writes_only [of readOnly]) (auto intro: only_intros)

lemma handlePodDecommission_writes:
  "writes (trace (handlePodDecommission E cc sts addrs n ps) w) \<in>
     {[], [JobRun (jobNameOf n) (mget addrs n)]} \<union>
     {t. \<exists>s'. shrinksByOne sts s' \<and> (t = [UpdateStatefulSet s'] \<or> t = [UpdateStatefulSet s', JobRemove (jobNameOf n)])}"
proof (cases "e_jobExists E (jobNameOf n) w \<and> e_jobIsRunning E (jobNameOf n) w")
  case False
  show ?thesis
  proof (cases "List.find (\<lambda>p. pod_name p = n) ps")
    case (Some target)
    then have "pod_name target = n"
      by (auto simp: find_Some_iff)
    with False Some show ?thesis
      by (auto simp: handlePodDecommission_def Let_def shrinksByOne_def deref_def split: sum.splits option.splits)
  qed (use False in \<open>auto simp: handlePodDecommission_def Let_def\<close>)
qed (simp add: handlePodDecommission_def Let_def)

text \<open>What the reconciler may do to stateful sets, given those it listed.\<close>

definition grownTo :: "cassandraCluster \<Rightarrow> statefulSet \<Rightarrow> statefulSet \<Rightarrow> bool" where
  "grownTo cc s s' \<longleftrightarrow> (\<exists>d \<in> set (spec_dcs (cc_spec cc)). \<exists>r. dc_name d = stsDC s \<and> dc_replicas d = Some r \<and>
     (case sts_replicas s of None \<Rightarrow> 1 | Some n \<Rightarrow> n) < r \<and> s' = s\<lparr>sts_replicas := Some r\<rparr>)"

definition overSpecified :: "cassandraCluster \<Rightarrow> statefulSet \<Rightarrow> bool" where
  "overSpecified cc s \<longleftrightarrow> (\<exists>n. sts_replicas s = Some n \<and>
     (inSpec cc (stsDC s) \<longrightarrow> (\<exists>d \<in> set (spec_dcs (cc_spec cc)). \<exists>r. dc_name d = stsDC s \<and> dc_replicas d = Some r \<and> r < n)))"

fun allowedWrite :: "cassandraCluster \<Rightarrow> statefulSet list \<Rightarrow> req \<Rightarrow> bool" where
  "allowedWrite cc stss (UpdateStatefulSet s') \<longleftrightarrow> (\<exists>s \<in> set stss. overSpecified cc s \<and> shrinksByOne s s' \<or> grownTo cc s s')"
| "allowedWrite cc stss (DeleteStatefulSet n) \<longleftrightarrow>
     (\<exists>s \<in> set stss. sts_name s = n \<and> \<not> inSpec cc (stsDC s) \<and> sts_replicas s = Some 0)"
| "allowedWrite cc stss _ \<longleftrightarrow> True"

lemma byName_SomeD: "byName stss n = Some s \<Longrightarrow> s \<in> set stss \<and> sts_name s = n"
  by (auto simp: byName_def dest!: map_of_SomeD)

lemma dcsMapLoop_SomeD:
  "dcsMapLoop ds m = Inr m' \<Longrightarrow> m' d = Some r \<Longrightarrow>
     m d = Some r \<or> (\<exists>x \<in> set ds. dc_name x = d \<and> dc_replicas x = Some r)"
proof (induction ds arbitrary: m)
  case (Cons x ds)
  then obtain n where n: "dc_replicas x = Some n" "dcsMapLoop ds (m(dc_name x \<mapsto> n)) = Inr m'"
    by (auto simp: bindE_Inr_iff deref_def split: option.splits)
  from Cons.IH [OF n(2) Cons.prems(2)] n(1) show ?case by (auto split: if_splits)
qed simp

lemma only_handlePodDecommission [only_intros]:
  assumes "s \<in> set stss" "sts_replicas s \<noteq> None \<Longrightarrow> overSpecified cc s"
  shows "only (allowedWrite cc stss) (handlePodDecommission E cc s addrs n ps)"
proof -
  have "allowedWrite cc stss (UpdateStatefulSet (s\<lparr>sts_replicas := Some (r - 1)\<rparr>))" if "sts_replicas s = Some r" for r
    using assms that by (auto simp: shrinksByOne_def)
  then have shrink: "only (allowedWrite cc stss) (andThen (lift (deref (sts_replicas s))) (\<lambda>n.
        let smaller = s\<lparr>sts_replicas := Some (n - 1)\<rparr> in
        andThen (wrapErr msg (call (UpdateStatefulSet smaller) (e_updateSts E smaller))) (\<lambda>_.
          wrapErr msg2 (call (JobRemove j) (e_jobRemove E j)))))" for msg msg2 j
    by (cases "sts_replicas s") (auto simp: Let_def intro!: only_intros simp del: allowedWrite.simps(1))
  show ?thesis
    unfolding handlePodDecommission_def Let_def
    by (intro only_intros shrink [unfolded Let_def]) auto
qed

lemma only_removeDC [only_intros]:
  assumes "s \<in> set stss" "\<not> inSpec cc (stsDC s)" "sts_replicas s = Some 0"
  shows "only (allowedWrite cc stss) (removeDC E cc s)"
  unfolding removeDC_def Let_def
  by (intro only_intros) (use assms in auto)

lemma only_decommissionLoop [only_intros]:
  assumes "\<And>n s. m n = Some s \<Longrightarrow> s \<in> set stss \<and> \<not> inSpec cc (stsDC s)"
  shows "only (allowedWrite cc stss) (decommissionLoop E cc addrs ps m ns)"
proof (induction ns)
  case (Cons n ns)
  show ?case
  proof (cases "m n")
    case (Some s)
    with assms [of n s] have "s \<in> set stss" "\<not> inSpec cc (stsDC s)" "sts_replicas s \<noteq> None \<Longrightarrow> overSpecified cc s"
      by (auto simp: overSpecified_def)
    with Some Cons show ?thesis by (auto intro!: only_intros)
  qed (use Cons in simp)
qed simp

lemma only_blockedLoop [only_intros]: "(\<And>r m. P (Event r m)) \<Longrightarrow> only P (blockedLoop managed ord ks)"
  by (induction ks) (auto intro!: only_intros split: option.splits)

lemma only_handleDCsDecommission [only_intros]:
  assumes "\<And>n s. m n = Some s \<Longrightarrow> s \<in> set stss \<and> \<not> inSpec cc (stsDC s)"
  shows "only (allowedWrite cc stss) (handleDCsDecommission E ord cc names m allDCs adminSecret addrs ps)"
  unfolding handleDCsDecommission_def prepareKeyspace_def cqlUpdateRF_def Let_def case_prod_beta
  by (intro only_intros) (use assms in auto)

lemma only_scaleLoop [only_intros]:
  assumes "dcsMap cc = Inr m" "\<And>n s. stsOf n = Some s \<Longrightarrow> s \<in> set stss \<and> inSpec cc (stsDC s)"
  shows "only (allowedWrite cc stss) (scaleLoop E cc addrs ps m stsOf ns)"
proof (induction ns)
  case (Cons n ns)
  show ?case
  proof (cases "stsOf n")
    case (Some s)
    with assms(2) have s: "s \<in> set stss" "inSpec cc (stsDC s)" by auto
    with dcsMap_dom [OF assms(1)] obtain r where r: "m (stsDC s) = Some r" by blast
    with dcsMapLoop_SomeD [of "spec_dcs (cc_spec cc)" Map.empty m] assms(1)
    obtain d where d: "d \<in> set (spec_dcs (cc_spec cc))" "dc_name d = stsDC s" "dc_replicas d = Some r"
      by (auto simp: dcsMap_def)
    have "allowedWrite cc stss (UpdateStatefulSet (s\<lparr>sts_replicas := Some r\<rparr>))"
      if "(case sts_replicas s of None \<Rightarrow> 1 | Some n \<Rightarrow> n) < r"
      using s(1) d that by (auto simp: grownTo_def)
    moreover have "overSpecified cc s" if "sts_replicas s = Some n" "r < n" for n
      using s(2) d that by (auto simp: overSpecified_def)
    ultimately    show ?thesis using Some r s(1) Cons
      by (auto simp: Let_def intro!: only_intros simp del: allowedWrite.simps(1))
  qed (use Cons in simp)
qed simp

section \<open>Properties\<close>

text \<open>C9: Stateful sets are written with care: one that is updated was in the list that the pass read and either grows to
  the replicas its datacentre specifies, or had more than that (or a datacentre that left the specification) and loses
  exactly one; and one that is deleted belongs to a datacentre that left the specification and had no replicas.\<close>

theorem scaling_writes_allowed:
  assumes "fst (e_listSts E w) = Inr stss"
  shows "\<forall>q \<in> set (trace (reconcileCassandraScaling E ord cc ps ns allDCs adminSecret) w). allowedWrite cc stss q"
proof -
  let ?body = "\<lambda>addrs stss. if length stss = 0 then ret False
       else andThen (lift (dcsMap cc)) (\<lambda>replicasOf.
         case desiredDCsSTS cc stss of (desiredNames, desiredSts) \<Rightarrow>
         case decommissionDCsSTS cc stss of (oldNames, oldSts) \<Rightarrow>
           andThen (scaleLoop E cc addrs ps replicasOf desiredSts desiredNames) (\<lambda>returned.
             case returned of
               Some b \<Rightarrow> ret b
             | None \<Rightarrow>
                 if length oldNames = 0 then ret False
                 else andThen (wrapErr ''failed to decommission DCs''
                        (handleDCsDecommission E ord cc oldNames oldSts allDCs adminSecret addrs ps)) (\<lambda>_. ret True)))"
  have body: "only (allowedWrite cc stss) (?body addrs stss)" for addrs
  proof (cases "dcsMap cc")
    case (Inr m)
    then show ?thesis
      by (auto simp: desiredDCsSTS_def decommissionDCsSTS_def Let_def intro!: only_intros
          dest!: byName_SomeD split: option.splits)
  qed (simp add: only_def)
  show ?thesis
  proof (cases "getBroadcastAddresses cc ps ns")
    case (Inr addrs)
    then have "trace (reconcileCassandraScaling E ord cc ps ns allDCs adminSecret) w =
        ListStatefulSets # trace (?body addrs stss) (snd (e_listSts E w))"
      using assms by (simp add: reconcileCassandraScaling_def)
    with body [of addrs] show ?thesis by (auto simp: only_def)
  qed (simp add: reconcileCassandraScaling_def)
qed

text \<open>An example: datacentre \<open>dc1\<close> runs four nodes, three are specified; the last node has left the ring.\<close>

definition wideSts :: statefulSet where
  "wideSts = \<lparr>sts_name = ''c-cassandra-dc1'', sts_labels = [ClusterDCLabel \<mapsto> ''dc1''], sts_namespace = ''ns'',
     sts_annotations = None, sts_ownerReferences = [], sts_replicas = Some 4, sts_spec = plainStsSpec,
     sts_readyReplicas = 3\<rparr>"

definition leavingEnv :: "unit env" where
  "leavingEnv = quietEnv\<lparr>e_listSts := \<lambda>w. (Inr [wideSts], w),
     e_getSecret := \<lambda>k w. (Inr \<lparr>sec_name = snd k, sec_namespace = fst k, sec_labels = Map.empty, sec_annotations = None,
       sec_ownerReferences = [], sec_data = Some [OperatorAdminRole \<mapsto> ''admin'', OperatorAdminPassword \<mapsto> ''pw'']\<rparr>, w),
     e_operationMode := \<lambda>_ w. (Inl (Err ''no answer''), w)\<rparr>"

text \<open>Another: \<open>dc1\<close> has two nodes of its three, and \<open>dc0\<close>, which left the specification, has none any more.\<close>

definition shortSts :: statefulSet where
  "shortSts = wideSts\<lparr>sts_replicas := Some 2\<rparr>"

definition emptiedSts :: statefulSet where
  "emptiedSts = wideSts\<lparr>sts_name := ''c-cassandra-dc0'', sts_labels := [ClusterDCLabel \<mapsto> ''dc0''], sts_replicas := Some 0\<rparr>"

definition adminCredentials :: secret where
  "adminCredentials = \<lparr>sec_name = ''admin'', sec_namespace = ''ns'', sec_labels = Map.empty, sec_annotations = None,
     sec_ownerReferences = [], sec_data = Some [OperatorAdminRole \<mapsto> ''admin'', OperatorAdminPassword \<mapsto> ''pw'']\<rparr>"

definition movingEnv :: "unit env" where
  "movingEnv = leavingEnv\<lparr>e_listSts := \<lambda>w. (Inr [shortSts, emptiedSts], w)\<rparr>"

abbreviation movingPass :: "(unit, bool) run" where
  "movingPass \<equiv> reconcileCassandraScaling movingEnv [] runningCluster [] [] [] adminCredentials"

lemma movingEnv_simps:
  "e_listSts movingEnv w = (Inr [shortSts, emptiedSts], w)" "e_updateSts movingEnv s w = (Inr (), w)"
  "e_deleteSts movingEnv k w = (Inr (), w)" "e_getDeployment movingEnv d w = (Inl NotFound, w)"
  "e_getService movingEnv d w = (Inl NotFound, w)" "e_cqlConnect movingEnv r pw w = (Inr (), w)"
  "e_cqlKeyspaces movingEnv w = (Inr [], w)"
  by (simp_all add: movingEnv_def leavingEnv_def quietEnv_def)

lemma movingPass_writes:
  "UpdateStatefulSet (shortSts\<lparr>sts_replicas := Some 3\<rparr>) \<in> set (trace movingPass ()) \<and>
   DeleteStatefulSet ''c-cassandra-dc0'' \<in> set (trace movingPass ())"
proof -
  have spec: "inSpec runningCluster d \<longleftrightarrow> d = ''dc1''" for d by (auto simp: inSpec_def)
  have sets: "desiredDCsSTS runningCluster [shortSts, emptiedSts] = ([''c-cassandra-dc1''], [''c-cassandra-dc1'' \<mapsto> shortSts])"
    "decommissionDCsSTS runningCluster [shortSts, emptiedSts] = ([''c-cassandra-dc0''], [''c-cassandra-dc0'' \<mapsto> emptiedSts])"
    by (simp_all add: desiredDCsSTS_def decommissionDCsSTS_def spec byName_def stsDC_def shortSts_def emptiedSts_def wideSts_def)
  have creds: "extractCredentials adminCredentials = Inr (''admin'', ''pw'')"
    by (simp add: extractCredentials_def secretValue_def adminCredentials_def OperatorAdminRole_def OperatorAdminPassword_def Let_def)
  have managed: "\<exists>ks. desiredKeyspacesToReconcile runningCluster = Inr ks"
    by (simp add: desiredKeyspacesToReconcile_def reaperKeyspaceName_def runningCluster_def sampleCluster_def)
  then obtain ks where ks: "desiredKeyspacesToReconcile runningCluster = Inr ks" ..
  have none: "result (forEach (prepareKeyspace movingEnv runningCluster [] []) l) v = Inr ()"
    "trace (forEach (prepareKeyspace movingEnv runningCluster [] []) l) v = []" for l v
    by (induction l arbitrary: v) (auto simp: prepareKeyspace_def)
  have addrs: "getBroadcastAddresses runningCluster [] [] = Inr Map.empty"
    by (simp add: getBroadcastAddresses_def)
  have larger: "stsDC shortSts = ''dc1''" "sts_replicas shortSts = Some 2" "sts_replicas emptiedSts = Some 0"
    "sts_name emptiedSts = ''c-cassandra-dc0''"
    by (simp_all add: shortSts_def emptiedSts_def wideSts_def stsDC_def)
  show ?thesis
    by (simp add: reconcileCassandraScaling_def addrs sets dcsMap_def larger handleDCsDecommission_def ks creds none removeDC_def
        movingEnv_simps Let_def)
qed

theorem scaling_writes_allowed_witness:
  "UpdateStatefulSet (shortSts\<lparr>sts_replicas := Some 3\<rparr>) \<in> set (trace movingPass ()) \<and>
   DeleteStatefulSet ''c-cassandra-dc0'' \<in> set (trace movingPass ()) \<and>
   set (trace movingPass ()) \<subseteq> Collect (allowedWrite runningCluster [shortSts, emptiedSts])"
proof -
  have "fst (e_listSts movingEnv ()) = Inr [shortSts, emptiedSts]" by (simp add: movingEnv_def)
  from scaling_writes_allowed [OF this] have
    "set (trace movingPass ()) \<subseteq> Collect (allowedWrite runningCluster [shortSts, emptiedSts])" by blast
  with movingPass_writes show ?thesis by blast
qed

lemma handlePodDecommission_update:
  assumes "UpdateStatefulSet s' \<in> set (trace (handlePodDecommission E cc sts addrs n ps) w)"
  obtains target e where "target \<in> set ps" "pod_name target = n"
    "fst (e_operationMode E (mget addrs n) (world (adminRoleSecret E cc) w)) = Inl e"
    "result (podDecommissioned E cc ps target addrs)
       (snd (e_operationMode E (mget addrs n) (world (adminRoleSecret E cc) w))) = Inr True"
proof -
  have idle: "\<not> (e_jobExists E (jobNameOf n) w \<and> e_jobIsRunning E (jobNameOf n) w)"
    using assms by (auto simp: handlePodDecommission_def Let_def)
  obtain target where t: "List.find (\<lambda>p. pod_name p = n) ps = Some target"
    using assms idle by (auto simp: handlePodDecommission_def Let_def split: option.splits)
  then have tn: "target \<in> set ps" "pod_name target = n" by (auto simp: find_Some_iff)
  have ro: "UpdateStatefulSet s' \<notin> set (trace (podDecommissioned E cc ps target addrs) v)"
    "UpdateStatefulSet s' \<notin> set (trace (adminRoleSecret E cc) v)" for v
    by (blast dest: onlyD [OF only_podDecommissioned [of "\<lambda>q. q \<noteq> UpdateStatefulSet s'"], rotated])
       (blast dest: onlyD [OF only_adminRoleSecret [of "\<lambda>q. q \<noteq> UpdateStatefulSet s'"], rotated])
  let ?w0 = "world (adminRoleSecret E cc) w"
  let ?w1 = "snd (e_operationMode E (mget addrs n) ?w0)"
  note h = assms [unfolded handlePodDecommission_def Let_def]
  obtain sec where sec: "result (adminRoleSecret E cc) w = Inr sec"
    using h idle t ro by (cases "result (adminRoleSecret E cc) w") (auto split: if_splits)
  obtain e where e: "fst (e_operationMode E (mget addrs n) ?w0) = Inl e" "e \<noteq> Panic"
    using h idle t tn(2) ro sec by (cases "fst (e_operationMode E (mget addrs n) ?w0)") (auto split: if_splits)
  obtain b where "result (podDecommissioned E cc ps target addrs) ?w1 = Inr b"
    using h idle t tn(2) ro sec e by (cases "result (podDecommissioned E cc ps target addrs) ?w1") auto
  with h idle t tn(2) ro sec e have "\<exists>e. fst (e_operationMode E (mget addrs n) ?w0) = Inl e \<and>
      result (podDecommissioned E cc ps target addrs) ?w1 = Inr True" by (cases b) auto
  then show thesis using that tn by blast
qed

lemma handlePodDecommission_shrinks:
  "UpdateStatefulSet s' \<in> set (trace (handlePodDecommission E cc sts addrs n ps) w) \<Longrightarrow> shrinksByOne sts s'"
proof -
  assume "UpdateStatefulSet s' \<in> set (trace (handlePodDecommission E cc sts addrs n ps) w)"
  then have "UpdateStatefulSet s' \<in> set (writes (trace (handlePodDecommission E cc sts addrs n ps) w))"
    by (simp add: writes_def)
  with handlePodDecommission_writes [of E cc sts addrs n ps w] show "shrinksByOne sts s'" by auto
qed

text \<open>C10: A stateful set loses exactly one node, and only after the node stopped answering the query of its operation mode
  and its peers, asked next and one after the other, no longer see it: none of those in the specification still sees a node
  of a specified datacentre as live, at most one still sees a node of a datacentre that is going away. Whether a
  decommission job is running at that moment is not part of the claim: the job manager never records the jobs it runs.\<close>

theorem node_removed_only_when_gone:
  assumes "UpdateStatefulSet s' \<in> set (trace (handlePodDecommission E cc sts addrs n ps) w)"
    and "distinct (map pod_name ps)"
  shows "shrinksByOne sts s' \<and> (\<exists>target e. target \<in> set ps \<and> pod_name target = n \<and>
     fst (e_operationMode E (mget addrs n) (world (adminRoleSecret E cc) w)) = Inl e \<and>
     stillSeen E addrs target (peersOf cc ps target) (askedIn E addrs (peersOf cc ps target)
       (snd (e_operationMode E (mget addrs n) (world (adminRoleSecret E cc) w)))) \<le>
       (if inSpec cc (podDC target) then 0 else 1))"
  using handlePodDecommission_update [OF assms(1)] handlePodDecommission_shrinks [OF assms(1)]
    podDecommissioned_seen [OF _ assms(2)] by metis

definition leftPods :: "pod list" where
  "leftPods = [samplePod ''c-0'' True, samplePod ''c-3'' False]"

theorem node_removed_only_when_gone_witness:
  "shrinksByOne wideSts (wideSts\<lparr>sts_replicas := Some 3\<rparr>) \<and>
   (\<exists>target e. target \<in> set leftPods \<and> pod_name target = ''c-3'' \<and>
     fst (e_operationMode leavingEnv (mget Map.empty ''c-3'') ()) = Inl e \<and>
     stillSeen leavingEnv Map.empty target (peersOf runningCluster leftPods target)
       (askedIn leavingEnv Map.empty (peersOf runningCluster leftPods target) ()) \<le>
       (if inSpec runningCluster (podDC target) then 0 else 1))"
proof -
  have "UpdateStatefulSet (wideSts\<lparr>sts_replicas := Some 3\<rparr>) \<in>
      set (trace (handlePodDecommission leavingEnv runningCluster wideSts Map.empty ''c-3'' leftPods) ())"
    by (simp add: handlePodDecommission_def adminRoleSecret_def podDecommissioned_def askPeer_def leavingEnv_def
        quietEnv_def dcsMap_def inSpec_def wideSts_def leftPods_def samplePod_def podDC_def Let_def)
  from node_removed_only_when_gone [OF this] show ?thesis by (simp add: leftPods_def samplePod_def)
qed

text \<open>A datacentre is not touched while a user keyspace replicates to it: if any keyspace outside the managed ones
  names it, the decommission writes nothing and ends with the error for blocked decommissions.\<close>

theorem blocked_decommission_writes_nothing:
  assumes "desiredKeyspacesToReconcile cc = Inr managed" "extractCredentials adminSecret = Inr (role, pw)"
    and "fst (e_cqlConnect E role pw w) = Inr ()" "fst (e_cqlKeyspaces E (snd (e_cqlConnect E role pw w))) = Inr current"
    and "k \<in> set current" "ks_name k \<notin> set managed" "s \<in> set ord" "ks_replication k (stsDC s) \<noteq> None"
  shows "result (handleDCsDecommission E ord cc stsNames stss allDCs adminSecret addrs ps) w = Inl ErrDCDecommissionBlocked \<and>
    writes (trace (handleDCsDecommission E ord cc stsNames stss allDCs adminSecret addrs ps) w) = []"
proof -
  have "result (blockedLoop managed ord current) w' = Inl ErrDCDecommissionBlocked" for w' :: 'a
    using assms(5-8) by (auto simp: blockedLoop_result)
  then show ?thesis
    using assms(1-4) by (simp add: handleDCsDecommission_def blockedLoop_trace)
qed

text \<open>Removing a datacentre handles the deletion of its service the wrong way round: when the service is deleted the
  stateful set stays, and when deleting the service fails the failure is not reported and the stateful set goes.\<close>

theorem service_delete_swapped:
  assumes "fst (e_getDeployment E (cc_namespace cc, ReaperDeployment (cc_name cc) (stsDC s)) w) = Inl NotFound"
    and "\<And>w'. fst (e_getService E (cc_namespace cc, DCService (cc_name cc) (stsDC s)) w') = Inr svc"
    and "\<And>w'. fst (e_deleteService E (cc_namespace cc, DCService (cc_name cc) (stsDC s)) w') = r"
    and "\<And>w'. fst (e_deleteSts E (sts_name s) w') = Inr ()" "r \<noteq> Inl Panic"
  shows "result (removeDC E cc s) w = Inr () \<and>
    (DeleteStatefulSet (sts_name s) \<in> set (trace (removeDC E cc s) w) \<longleftrightarrow> isl r)"
  using assms by (cases r) (auto simp: removeDC_def Let_def)

theorem blocked_decommission_writes_nothing_witness:
  "\<exists>w. writes (trace (handleDCsDecommission
      (leavingEnv\<lparr>e_cqlKeyspaces := \<lambda>w. (Inr [\<lparr>ks_name = ''shop'', ks_replication = [''dc1'' \<mapsto> ''3'']\<rparr>], w)\<rparr>)
      [wideSts] runningCluster [sts_name wideSts] [sts_name wideSts \<mapsto> wideSts] []
      \<lparr>sec_name = ''admin'', sec_namespace = ''ns'', sec_labels = Map.empty, sec_annotations = None,
       sec_ownerReferences = [], sec_data = Some [OperatorAdminRole \<mapsto> ''admin'', OperatorAdminPassword \<mapsto> ''pw'']\<rparr>
      Map.empty []) w) = []"
  by (rule exI [of _ "()"], rule blocked_decommission_writes_nothing
        [where k = "\<lparr>ks_name = ''shop'', ks_replication = [''dc1'' \<mapsto> ''3'']\<rparr>" and s = wideSts, THEN conjunct2])
    (auto simp: leavingEnv_def quietEnv_def wideSts_def stsDC_def extractCredentials_def secretValue_def Let_def
      OperatorAdminRole_def OperatorAdminPassword_def desiredKeyspacesToReconcile_def reaperKeyspaceName_def
      runningCluster_def sampleCluster_def keyspaceSystemAuth_def keyspaceSystemDistributed_def keyspaceSystemTraces_def)

theorem service_delete_swapped_witness:
  "DeleteStatefulSet (sts_name wideSts) \<in>
     set (trace (removeDC (quietEnv\<lparr>e_getService := \<lambda>_ w. (Inr plainService, w), e_deleteService := \<lambda>_ w. (Inl Conflict, w)\<rparr>)
       runningCluster wideSts) ())"
  using service_delete_swapped [of "quietEnv\<lparr>e_getService := \<lambda>_ w. (Inr plainService, w), e_deleteService := \<lambda>_ w. (Inl Conflict, w)\<rparr>"
      runningCluster wideSts "()" plainService "Inl Conflict"] by (simp add: quietEnv_def)

end
