(* ===== verification/Maintenance.thy ===== *)
theory Maintenance
  imports Scaling
begin

text \<open>
  The maintenance mode of pods: \<open>controllers/maintenance.go\<close>.
  The specification lists pods per datacentre; a listed pod is marked in a configmap and its phase set to
  failed, so that it restarts into an init container that only waits. One pod is changed per pass, the first
  whose state differs from the specification. The status lists the pods that wait, by datacentre and in order.
  The lemmas say which pod is changed and how, and what the status contains.
\<close>

section \<open>Pods in maintenance\<close>

definition checkMaintenanceRunning :: "pod \<Rightarrow> bool" where
  "checkMaintenanceRunning p \<longleftrightarrow>
     (\<exists>c \<in> set (pod_initContainerStatuses p). cst_name c = ''maintenance-mode'' \<and> cst_running c)"

definition checkCassandraRunning :: "pod \<Rightarrow> bool" where
  "checkCassandraRunning p \<longleftrightarrow> (\<exists>c \<in> set (pod_containerStatuses p). cst_name c = ''cassandra'' \<and> cst_running c)"

definition inMaintenanceSpec :: "maintenance list \<Rightarrow> string \<Rightarrow> bool" where
  "inMaintenanceSpec m n \<longleftrightarrow> (\<exists>e \<in> set m. \<exists>p \<in> set (mnt_pods e). podString p = n)"

definition containsDc :: "maintenance list \<Rightarrow> string \<Rightarrow> bool" where
  "containsDc m d \<longleftrightarrow> (\<exists>e \<in> set m. mnt_dc e = d)"

section \<open>Changing a pod\<close>

definition getPod :: "'w env \<Rightarrow> string \<Rightarrow> string \<Rightarrow> ('w, pod) run" where
  "getPod E namespace n =
     wrapErr (''Could not get pod '' @ n) (call (GetPod (namespace, n)) (e_getPod E (namespace, n)))"

definition PodFailed :: string where "PodFailed = ''Failed''"

definition patchPodStatusPhase :: "'w env \<Rightarrow> string \<Rightarrow> string \<Rightarrow> string \<Rightarrow> ('w, unit) run" where
  "patchPodStatusPhase E namespace n phase =
     andThen (getPod E namespace n) (\<lambda>p.
       let p' = p\<lparr>pod_phase := phase\<rparr> in call (PatchPodStatus p p') (e_patchPodStatus E p p'))"

definition patchConfigMap :: "'w env \<Rightarrow> string \<Rightarrow> string \<Rightarrow> strmap \<Rightarrow> ('w, unit) run" where
  "patchConfigMap E namespace mapName d =
     andThen (getConfigMap E mapName namespace) (\<lambda>cm.
       let cm' = cm\<lparr>cm_data := Some d\<rparr> in call (PatchConfigMap cm cm') (e_patchCM E cm cm'))"

definition updateMaintenanceConfigMap :: "'w env \<Rightarrow> string \<Rightarrow> string \<Rightarrow> bool \<Rightarrow> string \<Rightarrow> ('w, unit) run" where
  "updateMaintenanceConfigMap E namespace cmName enabled p =
     andThen (getConfigMap E cmName namespace) (\<lambda>cm.
       let d = (case cm_data cm of None \<Rightarrow> Map.empty | Some m \<Rightarrow> m);
           d' = (if enabled then d(p \<mapsto> ''true'') else d(p := None)) in
       patchConfigMap E namespace (cm_name cm) d')"

definition updateMaintenanceMode :: "'w env \<Rightarrow> cassandraCluster \<Rightarrow> bool \<Rightarrow> pod \<Rightarrow> ('w, unit) run" where
  "updateMaintenanceMode E cc enabled p =
     andThen (updateMaintenanceConfigMap E (cc_namespace cc) (MaintenanceConfigMap (cc_name cc)) enabled (pod_name p)) (\<lambda>_.
       if enabled \<and> checkCassandraRunning p
       then patchPodStatusPhase E (cc_namespace cc) (pod_name p) PodFailed else ret ())"

fun requestLoop :: "'w env \<Rightarrow> cassandraCluster \<Rightarrow> pod list \<Rightarrow> ('w, unit) run" where
  "requestLoop E cc [] = ret ()"
| "requestLoop E cc (p # ps) =
     (let isRunning = checkMaintenanceRunning p; wanted = inMaintenanceSpec (maintenanceSpec (cc_spec cc)) (pod_name p) in
      if wanted \<and> \<not> isRunning then updateMaintenanceMode E cc True p
      else if \<not> wanted \<and> isRunning then updateMaintenanceMode E cc False p
      else requestLoop E cc ps)"

definition processMaintenanceRequest :: "'w env \<Rightarrow> cassandraCluster \<Rightarrow> ('w, unit) run" where
  "processMaintenanceRequest E cc = andThen (getCassandraPods E) (requestLoop E cc)"

section \<open>The status\<close>

fun appendPod :: "string \<Rightarrow> podName \<Rightarrow> maintenance list \<Rightarrow> maintenance list" where
  "appendPod d n [] = []"
| "appendPod d n (e # es) =
     (if mnt_dc e = d then e\<lparr>mnt_pods := mnt_pods e @ [n]\<rparr> # es else e # appendPod d n es)"

fun statusLoop :: "pod list \<Rightarrow> maintenance list \<Rightarrow> maintenance list" where
  "statusLoop [] st = st"
| "statusLoop (p # ps) st =
     statusLoop ps
       (if checkMaintenanceRunning p
        then if containsDc st (podDC p) then appendPod (podDC p) (PodName (pod_name p)) st
             else st @ [\<lparr>mnt_dc = podDC p, mnt_pods = [PodName (pod_name p)]\<rparr>]
        else st)"

definition statusOfPods :: "pod list \<Rightarrow> maintenance list" where
  "statusOfPods ps = map (\<lambda>e. e\<lparr>mnt_pods := sort (mnt_pods e)\<rparr>) (statusLoop ps [])"

definition generateMaintenanceStatus :: "'w env \<Rightarrow> ('w, maintenance list) run" where
  "generateMaintenanceStatus E = andThen (getCassandraPods E) (\<lambda>ps. ret (statusOfPods ps))"

definition reconcileMaintenance :: "'w env \<Rightarrow> cassandraCluster \<Rightarrow> ('w, unit) run" where
  "reconcileMaintenance E cc =
     andThen (wrapErr ''Failed to process maintenance mode request'' (processMaintenanceRequest E cc)) (\<lambda>_.
     andThen (wrapErr ''Failed to generate status'' (generateMaintenanceStatus E)) (\<lambda>st.
       let actual = cc\<lparr>cc_status := (cc_status cc)\<lparr>maintenanceState := st\<rparr>\<rparr> in
       call (UpdateClusterStatus actual) (e_updateStatus E actual)))"

definition reconcileMaintenanceConfigMap :: "'w env \<Rightarrow> cassandraCluster \<Rightarrow> ('w, unit) run" where
  "reconcileMaintenanceConfigMap E cc =
     andThen (wrapErr ''Cannot set controller reference'' (lift (e_controllerReference E cc))) (\<lambda>owners.
       let desired = \<lparr>cm_name = MaintenanceConfigMap (cc_name cc), cm_namespace = cc_namespace cc,
             cm_labels = CombinedComponentLabels cc ComponentCassandra, cm_annotations = None,
             cm_ownerReferences = owners, cm_data = Some Map.empty\<rparr>;
           k = (cm_namespace desired, cm_name desired) in
       andThen (attempt (call (GetConfigMap k) (e_getCM E k))) (\<lambda>r.
         case r of
           Inr _ \<Rightarrow> ret ()
         | Inl e \<Rightarrow> if isNotFound e then call (CreateConfigMap desired) (e_createCM E desired)
                    else raise (Wrap (''Could not get '' @ cm_name desired) e)))"

section \<open>Lemmas\<close>

lemma containsDc_iff: "containsDc m d \<longleftrightarrow> d \<in> mnt_dc ` set m"
  by (auto simp: containsDc_def)

lemma appendPod_dcs [simp]: "map mnt_dc (appendPod d n es) = map mnt_dc es"
  by (induction es) auto

text \<open>Which pods a status lists for which datacentre.\<close>

definition listed :: "maintenance list \<Rightarrow> (string \<times> podName) set" where
  "listed st = {(mnt_dc e, n) | e n. e \<in> set st \<and> n \<in> set (mnt_pods e)}"

lemma listed_simps [simp]:
  "listed [] = {}" "listed (e # es) = {mnt_dc e} \<times> set (mnt_pods e) \<union> listed es"
  "listed (xs @ ys) = listed xs \<union> listed ys"
  by (auto simp: listed_def)

lemma listed_sorted [simp]: "listed (map (\<lambda>e. e\<lparr>mnt_pods := sort (mnt_pods e)\<rparr>) st) = listed st"
  by (induction st) auto

lemma listed_appendPod: "containsDc st d \<Longrightarrow> listed (appendPod d n st) = insert (d, n) (listed st)"
  by (induction st) (auto simp: containsDc_def)

lemma statusLoop_listed:
  "listed (statusLoop ps st) =
     listed st \<union> {(podDC p, PodName (pod_name p)) | p. p \<in> set ps \<and> checkMaintenanceRunning p}"
proof (induction ps arbitrary: st)
  case (Cons p ps)
  show ?case by (auto simp: Cons.IH listed_appendPod)
qed simp

lemma statusLoop_distinct: "distinct (map mnt_dc st) \<Longrightarrow> distinct (map mnt_dc (statusLoop ps st))"
  by (induction ps arbitrary: st) (auto simp: containsDc_iff)

lemma only_updateMaintenanceConfigMap [only_intros]:
  assumes "\<And>k. P (GetConfigMap k)"
    and "\<And>o' m. P (PatchConfigMap o' (o'\<lparr>cm_data := Some (if enabled then m(n \<mapsto> ''true'') else m(n := None))\<rparr>))"
  shows "only P (updateMaintenanceConfigMap E ns cm enabled n)"
  unfolding updateMaintenanceConfigMap_def patchConfigMap_def getConfigMap_def Let_def
  by (intro only_intros assms)

lemma only_patchPodStatusPhase [only_intros]:
  assumes "\<And>k. P (GetPod k)" "\<And>p. P (PatchPodStatus p (p\<lparr>pod_phase := phase\<rparr>))"
  shows "only P (patchPodStatusPhase E ns n phase)"
  unfolding patchPodStatusPhase_def getPod_def Let_def by (intro only_intros assms)

definition differs :: "cassandraCluster \<Rightarrow> pod \<Rightarrow> bool" where
  "differs cc p \<longleftrightarrow> inMaintenanceSpec (maintenanceSpec (cc_spec cc)) (pod_name p) \<noteq> checkMaintenanceRunning p"

lemma requestLoop_find:
  "requestLoop E cc ps = (case List.find (differs cc) ps of None \<Rightarrow> ret ()
     | Some p \<Rightarrow> updateMaintenanceMode E cc (inMaintenanceSpec (maintenanceSpec (cc_spec cc)) (pod_name p)) p)"
  by (induction ps) (auto simp: differs_def Let_def)

text \<open>The writes that put one pod into the state it should be in.\<close>

fun movesPod :: "cassandraCluster \<Rightarrow> pod \<Rightarrow> req \<Rightarrow> bool" where
  "movesPod cc p (PatchConfigMap o' n') \<longleftrightarrow>
     (\<exists>m. n' = o'\<lparr>cm_data := Some m\<rparr> \<and>
        m (pod_name p) = (if inMaintenanceSpec (maintenanceSpec (cc_spec cc)) (pod_name p) then Some ''true'' else None))"
| "movesPod cc p (PatchPodStatus o' n') \<longleftrightarrow>
     n' = o'\<lparr>pod_phase := PodFailed\<rparr> \<and> inMaintenanceSpec (maintenanceSpec (cc_spec cc)) (pod_name p) \<and> checkCassandraRunning p"
| "movesPod cc p q \<longleftrightarrow> readOnly q"

lemma only_updateMaintenanceMode:
  "only (movesPod cc p) (updateMaintenanceMode E cc (inMaintenanceSpec (maintenanceSpec (cc_spec cc)) (pod_name p)) p)"
  unfolding updateMaintenanceMode_def
  by (intro only_intros) (auto intro!: exI)

section \<open>Properties\<close>

text \<open>The status lists exactly the pods whose maintenance container runs, each under its datacentre; a datacentre
  has one entry and the pods of an entry are in order.\<close>

theorem maintenance_status_exact:
  "listed (statusOfPods ps) = {(podDC p, PodName (pod_name p)) | p. p \<in> set ps \<and> checkMaintenanceRunning p} \<and>
   distinct (map mnt_dc (statusOfPods ps)) \<and> list_all (\<lambda>e. sorted (mnt_pods e)) (statusOfPods ps)"
  by (auto simp: statusOfPods_def statusLoop_listed statusLoop_distinct comp_def list_all_iff)

text \<open>One pass of the maintenance mode moves one pod: the first whose state differs from the specification gets its
  entry in the configmap set or removed, and its phase set to failed only when it must enter maintenance while
  Cassandra runs in it. When no pod differs nothing is written.\<close>

theorem maintenance_moves_first_difference:
  assumes "fst (e_listPods E w) = Inr ps"
  shows "case List.find (\<lambda>p. inMaintenanceSpec (maintenanceSpec (cc_spec cc)) (pod_name p) \<noteq> checkMaintenanceRunning p) ps of
      None \<Rightarrow> trace (processMaintenanceRequest E cc) w = [ListPods] \<and> result (processMaintenanceRequest E cc) w = Inr ()
    | Some p \<Rightarrow> (\<forall>q \<in> set (trace (processMaintenanceRequest E cc) w). movesPod cc p q)"
proof -
  have d: "differs cc = (\<lambda>p. inMaintenanceSpec (maintenanceSpec (cc_spec cc)) (pod_name p) \<noteq> checkMaintenanceRunning p)"
    by (simp add: differs_def fun_eq_iff)
  show ?thesis
    unfolding d [symmetric] using assms only_updateMaintenanceMode [of cc _ E]
    by (auto simp: processMaintenanceRequest_def getCassandraPods_def requestLoop_find only_def split: option.splits)
qed

text \<open>An example: the second pod is to go into maintenance.\<close>

definition maintainedCluster :: cassandraCluster where
  "maintainedCluster = runningCluster\<lparr>cc_spec := (cc_spec runningCluster)\<lparr>maintenanceSpec :=
     [\<lparr>mnt_dc = ''dc1'', mnt_pods = [PodName ''c-1'']\<rparr>]\<rparr>\<rparr>"

theorem maintenance_moves_first_difference_witness:
  "\<forall>q \<in> set (trace (processMaintenanceRequest
      (quietEnv\<lparr>e_listPods := \<lambda>w. (Inr [samplePod ''c-0'' True, samplePod ''c-1'' True], w)\<rparr>) maintainedCluster) ()).
     movesPod maintainedCluster (samplePod ''c-1'' True) q"
  using maintenance_moves_first_difference
    [of "quietEnv\<lparr>e_listPods := \<lambda>w. (Inr [samplePod ''c-0'' True, samplePod ''c-1'' True], w)\<rparr>" "()"
      "[samplePod ''c-0'' True, samplePod ''c-1'' True]" maintainedCluster]
  by (simp add: inMaintenanceSpec_def maintainedCluster_def checkMaintenanceRunning_def samplePod_def)

end
