(* ===== verification/Cql_Scripts.thy ===== *)
theory Cql_Scripts
  imports Maintenance
begin

text \<open>
  CQL scripts from configmaps: \<open>controllers/cql_configmaps.go\<close>.
  The keys of a configmap are scripts, run in the order of the keys; a script is cut into queries at the
  semicolons, line by line. A checksum in the annotations remembers what was run.
  The lemmas give the queries of a well-formed script, the order of execution and what is stored afterwards.
  Lines of 64 KiB and more end the script, as \<open>bufio.Scanner\<close> stops there and its error is not read.
\<close>

section \<open>Cutting a script into queries\<close>

definition maxLineBytes :: nat where "maxLineBytes = 65535"

definition dropCR :: "string \<Rightarrow> string" where
  "dropCR s = (if s \<noteq> [] \<and> last s = CHR 0x0D then butlast s else s)"

text \<open>The tokens of \<open>bufio.ScanLines\<close>: a final line feed does not start another line.\<close>

definition scanLines :: "string \<Rightarrow> string list" where
  "scanLines script =
     (let raw = splitOn (CHR 0x0A) script;
          ls = (if last raw = [] then butlast raw else raw)
      in map dropCR (takeWhile (\<lambda>l. length l \<le> maxLineBytes) ls))"

text \<open>One line with a semicolon: the queries it completes and the query that stays open.\<close>

definition semicolonLine :: "string \<Rightarrow> string \<Rightarrow> string list \<times> string" where
  "semicolonLine query line =
     (let lineQueries = filter (\<lambda>q. length (trimSpace q) \<noteq> 0) (splitOn (CHR '';'') line);
          begun = (\<lambda>q. if length query > 0 then query @ [CHR 0x0A] @ q else q) in
      case lineQueries of
        [] \<Rightarrow> ([], query)
      | [q] \<Rightarrow> ([begun q], if length query > 0 then '''' else query)
      | q # q' # qs \<Rightarrow>
          (let middle = map trimSpace (butlast (q' # qs)); lastElement = last (q' # qs) in
           if last (trimSpace line) = CHR '';''
           then (begun q # middle @ [trimSpace lastElement], '''')
           else (begun q # middle, trimLeft (\<lambda>c. c = CHR '' '') lastElement)))"

definition parseLine :: "string \<Rightarrow> string \<Rightarrow> string list \<times> string" where
  "parseLine query line =
     (let trimmedLine = trimSpace line in
      if hasPrefix trimmedLine ''--'' then ([], query)
      else if length trimmedLine = 0 then ([], query)
      else if CHR '';'' \<in> set line then semicolonLine query line
      else if length query > 0 then ([], query @ [CHR 0x0A] @ line)
      else ([], line))"

fun parseLoop :: "string \<Rightarrow> string list \<Rightarrow> string list \<times> string" where
  "parseLoop query [] = ([], query)"
| "parseLoop query (l # ls) =
     (let (done, query') = parseLine query l; (rest, query'') = parseLoop query' ls in (done @ rest, query''))"

definition parseCQLQueries :: "string \<Rightarrow> string list" where
  "parseCQLQueries script =
     (let (queries, query) = parseLoop '''' (scanLines script); final = trimSpace query in
      if length final > 0 then queries @ [final] else queries)"

section \<open>Running the scripts\<close>

definition annotationRepairKeyspace :: string where "annotationRepairKeyspace = ''cql-repairKeyspace''"
definition annotationCQLChecksum :: string where "annotationCQLChecksum = ''cql-checksum''"
definition repairCauseCQLConfigMap :: string where "repairCauseCQLConfigMap = ''cql-configmap''"
definition EventCQLScriptFailed :: string where "EventCQLScriptFailed = ''CQLScriptFailed''"
definition EventCQLScriptSuccess :: string where "EventCQLScriptSuccess = ''CQLScriptSuccess''"

definition dataOf :: "configMap \<Rightarrow> strmap" where
  "dataOf cm = (case cm_data cm of None \<Rightarrow> Map.empty | Some d \<Rightarrow> d)"

definition annotationsOf :: "configMap \<Rightarrow> strmap" where
  "annotationsOf cm = (case cm_annotations cm of None \<Rightarrow> Map.empty | Some a \<Rightarrow> a)"

definition queryFailedMsg :: "nat \<Rightarrow> string \<Rightarrow> configMap \<Rightarrow> string" where
  "queryFailedMsg i k cm = ''Query #'' @ natToString i @ '' from script with key '' @ quoted k @ '' in ConfigMap '' @
     cm_namespace cm @ ''/'' @ cm_name cm @ '' failed''"

definition queriesDoneMsg :: "configMap \<Rightarrow> string" where
  "queriesDoneMsg cm = ''All CQL queries from ConfgiMap '' @ cm_namespace cm @ ''/'' @ cm_name cm @ '' were executed successfully''"

fun runQueries :: "'w env \<Rightarrow> configMap \<Rightarrow> string \<Rightarrow> nat \<Rightarrow> string list \<Rightarrow> ('w, unit) run" where
  "runQueries E cm k i [] = ret ()"
| "runQueries E cm k i (q # qs) =
     andThen (attempt (call (CqlQuery q) (e_cqlQuery E q))) (\<lambda>r.
       case r of
         Inr _ \<Rightarrow> runQueries E cm k (Suc i) qs
       | Inl e \<Rightarrow> andThen (emit EventCQLScriptFailed (queryFailedMsg i k cm)) (\<lambda>_.
                  raise (Wrap (queryFailedMsg i k cm) e)))"

text \<open>\<open>executeCQLCMScripts\<close>; \<open>ks\<close> is the order of the range over the data of the configmap.\<close>

definition executeCQLCMScripts :: "'w env \<Rightarrow> string list \<Rightarrow> configMap \<Rightarrow> ('w, unit) run" where
  "executeCQLCMScripts E ks cm =
     forEach (\<lambda>k. andThen (runQueries E cm k 1 (parseCQLQueries (mget (dataOf cm) k))) (\<lambda>_.
        emit EventCQLScriptSuccess (queriesDoneMsg cm))) (sort ks)"

definition withChecksum :: "configMap \<Rightarrow> string \<Rightarrow> configMap" where
  "withChecksum cm checksum =
     (let anns = (if length (mget (annotationsOf cm) ''cql-checksum'') = 0 then Map.empty else annotationsOf cm) in
      cm\<lparr>cm_annotations := Some (anns(''cql-checksum'' \<mapsto> checksum))\<rparr>)"

definition reconcileCQLConfigMap :: "'w env \<Rightarrow> (configMap \<Rightarrow> string list) \<Rightarrow> configMap \<Rightarrow> ('w, unit) run" where
  "reconcileCQLConfigMap E ord cm =
     (let lastChecksum = mget (annotationsOf cm) annotationCQLChecksum; checksum = e_sha1 E (cm_data cm) in
      if lastChecksum = checksum then ret ()
      else andThen (wrapErr (''failed to execute CQL scripts from ConfigMap '' @ cm_namespace cm @ ''/'' @ cm_name cm)
               (executeCQLCMScripts E (ord cm) cm)) (\<lambda>_.
        let ks = mget (annotationsOf cm) annotationRepairKeyspace in
        andThen (if length ks > 0
                 then wrapErr (''failed to run repair on '' @ quoted ks @ '' keyspace'') (runRepair E ks repairCauseCQLConfigMap)
                 else ret ()) (\<lambda>_.
          let cm' = withChecksum cm checksum in
          wrapErr (''Failed to update CM '' @ quoted (cm_name cm)) (call (UpdateConfigMap cm') (e_updateCM E cm')))))"

definition reconcileCQLConfigMaps :: "'w env \<Rightarrow> (configMap \<Rightarrow> string list) \<Rightarrow> cassandraCluster \<Rightarrow> ('w, unit) run" where
  "reconcileCQLConfigMaps E ord cc =
     (let label = cqlConfigMapLabelKey (cc_spec cc) in
      andThen (wrapErr ''Can't get list of config maps'' (call (ListConfigMaps label) (e_listCMs E label))) (\<lambda>cms.
        if length cms = 0 then ret () else forEach (reconcileCQLConfigMap E ord) cms))"

section \<open>Lemmas on scripts\<close>

text \<open>A line of a query: it has a character that is not white space, no semicolon or line break, and is no comment.\<close>

definition queryLine :: "string \<Rightarrow> bool" where
  "queryLine l \<longleftrightarrow> trimSpace l \<noteq> [] \<and> CHR '';'' \<notin> set l \<and> CHR 0x0A \<notin> set l \<and> CHR 0x0D \<notin> set l \<and>
     \<not> hasPrefix (trimSpace l) ''--'' \<and> length l < maxLineBytes"

lemma queryLine_nonempty: "queryLine l \<Longrightarrow> l \<noteq> []"
  by (auto simp: queryLine_def trimSpace_def trimLeft_def trimRight_def)

lemma parseLine_open: "queryLine l \<Longrightarrow> parseLine q l = ([], if q = [] then l else q @ [CHR 0x0A] @ l)"
  by (simp add: parseLine_def queryLine_def Let_def)

lemma splitOn_append: "c \<notin> set l \<Longrightarrow> splitOn c (l @ c # s) = l # splitOn c s"
  by (induction l) auto

lemma isSpace_semicolon [simp]: "\<not> isSpace (CHR '';'')"
  by (simp add: isSpace_def)

lemma trimSpace_blank: "trimSpace s = [] \<longleftrightarrow> (\<forall>c \<in> set s. isSpace c)"
  by (auto simp: trimSpace_def trimLeft_def trimRight_def dropWhile_eq_Nil_conv
      dest: set_dropWhileD) (metis append_Nil2 takeWhile_dropWhile_id set_takeWhileD Un_iff set_append)

lemma dropWhile_snoc: "\<exists>x \<in> set xs. \<not> p x \<Longrightarrow> dropWhile p (xs @ [y]) = dropWhile p xs @ [y]"
  by (induction xs) auto

lemma hasPrefix_append: "hasPrefix (s @ t) p \<Longrightarrow> length p \<le> length s \<Longrightarrow> hasPrefix s p"
  by (simp add: hasPrefix_def)

lemma trimRight_split: "\<exists>sp. s = trimRight p s @ sp \<and> (\<forall>c \<in> set sp. p c)"
  by (rule exI [of _ "rev (takeWhile p (rev s))"])
    (auto simp: trimRight_def rev_append [symmetric] dest: set_takeWhileD)

lemma trimSpace_close: "trimSpace l \<noteq> [] \<Longrightarrow> trimSpace (l @ [CHR '';'']) = trimLeft isSpace l @ [CHR '';'']"
proof -
  assume "trimSpace l \<noteq> []"
  then have "\<exists>x \<in> set l. \<not> isSpace x" by (simp add: trimSpace_blank)
  then have "trimLeft isSpace (l @ [CHR '';'']) = trimLeft isSpace l @ [CHR '';'']"
    by (simp only: trimLeft_def dropWhile_snoc)
  then show ?thesis by (simp add: trimSpace_def trimRight_def)
qed

lemma comment_close:
  assumes "queryLine l"
  shows "\<not> hasPrefix (trimSpace (l @ [CHR '';''])) ''--''"
proof
  assume a: "hasPrefix (trimSpace (l @ [CHR '';''])) ''--''"
  from assms have l: "trimSpace l \<noteq> []" "\<not> hasPrefix (trimSpace l) ''--''" by (auto simp: queryLine_def)
  obtain sp where sp: "trimLeft isSpace l = trimSpace l @ sp" "\<forall>c \<in> set sp. isSpace c"
    using trimRight_split [of "trimLeft isSpace l" isSpace] by (auto simp: trimSpace_def)
  have "hasPrefix (trimSpace l @ sp @ [CHR '';'']) ''--''" using a l(1) sp by (simp add: trimSpace_close)
  moreover have "\<not> isSpace (CHR ''-'')" by (simp add: isSpace_def)
  ultimately show False
    using l sp(2) by (cases "trimSpace l"; cases "tl (trimSpace l)"; cases sp) (auto simp: hasPrefix_def)
qed

lemma parseLine_close:
  assumes "queryLine l"
  shows "parseLine q (l @ [CHR '';'']) = ([if q = [] then l else q @ [CHR 0x0A] @ l], [])"
proof -
  have "splitOn (CHR '';'') (l @ [CHR '';'']) = [l, []]"
    using splitOn_append [of "CHR '';''" l "[]"] assms by (simp add: queryLine_def)
  moreover have "trimSpace [] = []" by (simp add: trimSpace_def trimLeft_def trimRight_def)
  moreover have "trimSpace (l @ [CHR '';'']) \<noteq> []" using assms by (simp add: trimSpace_close queryLine_def)
  ultimately show ?thesis
    using comment_close [OF assms] assms by (simp add: parseLine_def semicolonLine_def queryLine_def Let_def)
qed

text \<open>A query as its lines, the last one closed by a semicolon, and a script as text.\<close>

fun queryLines :: "string list \<Rightarrow> string list" where
  "queryLines [] = []"
| "queryLines [l] = [l @ [CHR '';'']]"
| "queryLines (l # ls) = l # queryLines ls"

definition asText :: "string list \<Rightarrow> string" where
  "asText ls = concat (map (\<lambda>l. l @ [CHR 0x0A]) ls)"

definition scriptOf :: "string list list \<Rightarrow> string" where
  "scriptOf qs = asText (concat (map queryLines qs))"

lemma splitOn_asText: "\<forall>l \<in> set ls. CHR 0x0A \<notin> set l \<Longrightarrow> splitOn (CHR 0x0A) (asText ls) = ls @ [[]]"
  by (induction ls) (auto simp: asText_def splitOn_append)

lemma scanLines_asText:
  assumes "\<forall>l \<in> set ls. CHR 0x0A \<notin> set l \<and> CHR 0x0D \<notin> set l \<and> length l \<le> maxLineBytes"
  shows "scanLines (asText ls) = ls"
proof -
  have "splitOn (CHR 0x0A) (asText ls) = ls @ [[]]" using assms by (simp add: splitOn_asText)
  moreover have "map dropCR ls = ls" using assms last_in_set by (intro map_idI) (fastforce simp: dropCR_def)
  ultimately show ?thesis using assms by (simp add: scanLines_def takeWhile_eq_all_conv [THEN iffD2])
qed

lemma parseLoop_append:
  "parseLoop q (xs @ ys) = (let (a, q1) = parseLoop q xs; (b, q2) = parseLoop q1 ys in (a @ b, q2))"
  by (induction xs arbitrary: q) (auto simp: split: prod.splits)

lemma parseLoop_query:
  assumes "ls \<noteq> []" "\<forall>l \<in> set ls. queryLine l"
  shows "parseLoop q (queryLines ls) = ([join [CHR 0x0A] (if q = [] then ls else q # ls)], [])"
  using assms
proof (induction ls arbitrary: q rule: queryLines.induct)
  case (2 l)
  then show ?case by (simp add: parseLine_close)
next
  case (3 l l' ls)
  have l: "queryLine l" using 3(3) by simp
  have "parseLoop x (queryLines (l' # ls)) = ([join [CHR 0x0A] (if x = [] then l' # ls else x # l' # ls)], [])" for x
    by (rule 3(1)) (use 3(3) in auto)
  then show ?case using queryLine_nonempty [OF l] by (cases "q = []") (simp_all add: parseLine_open l)
qed simp

lemma parseLoop_queries:
  assumes "\<forall>ls \<in> set qs. ls \<noteq> [] \<and> (\<forall>l \<in> set ls. queryLine l)"
  shows "parseLoop [] (concat (map queryLines qs)) = (map (join [CHR 0x0A]) qs, [])"
  using assms
proof (induction qs)
  case (Cons ls qs)
  then have "parseLoop [] (queryLines ls) = ([join [CHR 0x0A] ls], [])" by (subst parseLoop_query) auto
  with Cons show ?case by (simp add: parseLoop_append)
qed simp

lemma queryLines_clean:
  "\<forall>l \<in> set ls. queryLine l \<Longrightarrow> l \<in> set (queryLines ls) \<Longrightarrow>
     CHR 0x0A \<notin> set l \<and> CHR 0x0D \<notin> set l \<and> length l \<le> maxLineBytes"
  by (induction ls rule: queryLines.induct) (auto simp: queryLine_def)

lemma trimSpace_Nil [simp]: "trimSpace [] = []"
  by (simp add: trimSpace_def trimLeft_def trimRight_def)

section \<open>Running and recording\<close>

text \<open>The CQL statements among the requests.\<close>

fun statements :: "req list \<Rightarrow> string list" where
  "statements [] = []"
| "statements (CqlQuery q # t) = q # statements t"
| "statements (_ # t) = statements t"

lemma statements_append [simp]: "statements (t @ u) = statements t @ statements u"
  by (induction t rule: statements.induct) auto

lemma runQueries_statements:
  "result (runQueries E cm k i qs) w = Inr () \<Longrightarrow> statements (trace (runQueries E cm k i qs) w) = qs"
  by (induction qs arbitrary: i w) (auto split: sum.splits if_splits)

lemma executeCQLCMScripts_statements:
  "result (executeCQLCMScripts E ks cm) w = Inr () \<Longrightarrow>
    statements (trace (executeCQLCMScripts E ks cm) w) = concat (map (\<lambda>k. parseCQLQueries (mget (dataOf cm) k)) (sort ks))"
proof -
  let ?f = "\<lambda>k. andThen (runQueries E cm k 1 (parseCQLQueries (mget (dataOf cm) k))) (\<lambda>_.
        emit EventCQLScriptSuccess (queriesDoneMsg cm))"
  have "result (forEach ?f xs) w = Inr () \<Longrightarrow>
      statements (trace (forEach ?f xs) w) = concat (map (\<lambda>k. parseCQLQueries (mget (dataOf cm) k)) xs)" for xs w
    by (induction xs arbitrary: w) (auto simp: runQueries_statements split: sum.splits)
  then show "result (executeCQLCMScripts E ks cm) w = Inr () \<Longrightarrow> ?thesis"
    by (simp add: executeCQLCMScripts_def)
qed

section \<open>Properties\<close>

text \<open>C14: A script whose queries each end with a semicolon at the end of a line is cut into exactly these queries, in
  order, also when queries extend over several lines.\<close>

theorem parse_script_roundtrip:
  assumes "\<forall>ls \<in> set qs. ls \<noteq> [] \<and> (\<forall>l \<in> set ls. queryLine l)"
  shows "parseCQLQueries (scriptOf qs) = map (join [CHR 0x0A]) qs"
proof -
  have "scanLines (scriptOf qs) = concat (map queryLines qs)"
    unfolding scriptOf_def using assms by (intro scanLines_asText) (auto dest!: queryLines_clean [rotated])
  with parseLoop_queries [OF assms] show ?thesis by (simp add: parseCQLQueries_def)
qed

theorem parse_script_roundtrip_witness:
  "parseCQLQueries (scriptOf [[''USE shop''], [''SELECT *'', ''  FROM t'']]) =
     [''USE shop'', ''SELECT *'' @ [CHR 0x0A] @ ''  FROM t'']"
  using parse_script_roundtrip [of "[[''USE shop''], [''SELECT *'', ''  FROM t'']]"]
  by (simp add: queryLine_def trimSpace_def trimLeft_def trimRight_def isSpace_def hasPrefix_def maxLineBytes_def)

text \<open>A semicolon on a line of its own does not end the query before it: the two queries around it are sent to
  Cassandra as one statement.\<close>

theorem semicolon_line_merges_queries:
  assumes "queryLine a" "queryLine b"
  shows "parseCQLQueries (asText [a, '';'', b @ '';'']) = [a @ [CHR 0x0A] @ b]"
proof -
  have "scanLines (asText [a, '';'', b @ '';'']) = [a, '';'', b @ '';'']"
    using assms by (intro scanLines_asText) (auto simp: queryLine_def maxLineBytes_def)
  moreover have "parseLine a '';'' = ([], a)"
    by (simp add: parseLine_def semicolonLine_def hasPrefix_def trimSpace_def trimLeft_def trimRight_def)
  ultimately show ?thesis
    using assms queryLine_nonempty [of a] by (simp add: parseCQLQueries_def parseLine_open parseLine_close)
qed

theorem semicolon_line_merges_queries_witness:
  "parseCQLQueries (asText [''SELECT 1'', '';'', ''SELECT 2'' @ '';'']) = [''SELECT 1'' @ [CHR 0x0A] @ ''SELECT 2'']"
  by (rule semicolon_line_merges_queries)
    (simp_all add: queryLine_def trimSpace_def trimLeft_def trimRight_def isSpace_def hasPrefix_def maxLineBytes_def)

text \<open>Scripts run once, in the order of their keys: a configmap whose checksum is recorded is left alone; another one,
  when its reconciliation succeeds, has sent exactly the queries of its scripts by ascending key and then recorded the
  checksum of its data.\<close>

theorem scripts_run_in_key_order:
  assumes "result (reconcileCQLConfigMap E ord cm) w = Inr ()"
  shows "if mget (annotationsOf cm) annotationCQLChecksum = e_sha1 E (cm_data cm)
    then trace (reconcileCQLConfigMap E ord cm) w = []
    else statements (trace (reconcileCQLConfigMap E ord cm) w) =
           concat (map (\<lambda>k. parseCQLQueries (mget (dataOf cm) k)) (sort (ord cm))) \<and>
         UpdateConfigMap (withChecksum cm (e_sha1 E (cm_data cm))) \<in> set (trace (reconcileCQLConfigMap E ord cm) w) \<and>
         mget (annotationsOf (withChecksum cm (e_sha1 E (cm_data cm)))) annotationCQLChecksum = e_sha1 E (cm_data cm)"
proof -
  have "mget (annotationsOf (withChecksum cm x)) annotationCQLChecksum = x" for x
    by (simp add: withChecksum_def annotationsOf_def annotationCQLChecksum_def Let_def)
  then show ?thesis
    using assms executeCQLCMScripts_statements [of E "ord cm" cm w]
    by (auto simp: reconcileCQLConfigMap_def runRepair_def Let_def split: sum.splits if_splits)
qed

definition scriptsMap :: configMap where
  "scriptsMap = \<lparr>cm_name = ''scripts'', cm_namespace = ''ns'', cm_labels = Map.empty,
     cm_annotations = Some [annotationRepairKeyspace \<mapsto> ''shop''], cm_ownerReferences = [],
     cm_data = Some [''1'' \<mapsto> ''SELECT 1'']\<rparr>"

definition reapEnv :: "unit env" where
  "reapEnv = quietEnv\<lparr>e_reaperIsRunning := \<lambda>w. (Inr True, w)\<rparr>"

lemma scriptsMap_result: "result (reconcileCQLConfigMap reapEnv (\<lambda>_. [''1'']) scriptsMap) () = Inr ()"
proof -
  have "result (runQueries reapEnv cm k i qs) () = Inr ()" for cm k i qs
    by (induction qs arbitrary: i) (simp_all add: reapEnv_def quietEnv_def)
  then show ?thesis
    by (simp add: reconcileCQLConfigMap_def executeCQLCMScripts_def scriptsMap_def runRepair_def Let_def)
       (simp add: reapEnv_def quietEnv_def)
qed

theorem scripts_run_in_key_order_witness:
  "statements (trace (reconcileCQLConfigMap reapEnv (\<lambda>_. [''1'']) scriptsMap) ()) = parseCQLQueries ''SELECT 1''"
  using scripts_run_in_key_order [OF scriptsMap_result]
  by (auto simp: scriptsMap_def annotationsOf_def dataOf_def reapEnv_def quietEnv_def annotationCQLChecksum_def
      annotationRepairKeyspace_def split: if_splits)

text \<open>Recording the first checksum throws the other annotations away: the stored configmap no longer names the
  keyspace to repair, so when its scripts change later no repair is started for them.\<close>

theorem first_checksum_drops_repair_annotation:
  assumes "mget (annotationsOf cm) annotationCQLChecksum = ''''"
  shows "annotationsOf (withChecksum cm digest) = [annotationCQLChecksum \<mapsto> digest] \<and>
    only (\<lambda>q. \<forall>k c. q \<noteq> RunRepair k c)
      (reconcileCQLConfigMap E ord ((withChecksum cm digest)\<lparr>cm_data := newData\<rparr>))"
proof -
  have a: "annotationsOf (withChecksum cm digest) = [annotationCQLChecksum \<mapsto> digest]"
    using assms by (simp add: withChecksum_def annotationsOf_def annotationCQLChecksum_def Let_def)
  then have "mget (annotationsOf ((withChecksum cm digest)\<lparr>cm_data := newData\<rparr>)) annotationRepairKeyspace = ''''"
    by (simp add: annotationsOf_def annotationRepairKeyspace_def annotationCQLChecksum_def mget_def)
  moreover have "only (\<lambda>q. \<forall>k c. q \<noteq> RunRepair k c) (runQueries E cm' k i qs)" for cm' k i qs
    by (induction qs arbitrary: i) (auto intro!: only_intros)
  ultimately have "only (\<lambda>q. \<forall>k c. q \<noteq> RunRepair k c)
      (reconcileCQLConfigMap E ord ((withChecksum cm digest)\<lparr>cm_data := newData\<rparr>))"
    unfolding reconcileCQLConfigMap_def executeCQLCMScripts_def Let_def by (auto intro!: only_intros)
  with a show ?thesis by blast
qed

theorem first_checksum_drops_repair_annotation_witness:
  "annotationsOf scriptsMap annotationRepairKeyspace = Some ''shop'' \<and>
   annotationsOf (withChecksum scriptsMap ''sum'') = [annotationCQLChecksum \<mapsto> ''sum'']"
proof
  have e: "mget (annotationsOf scriptsMap) annotationCQLChecksum = ''''"
    by (simp add: scriptsMap_def annotationsOf_def annotationRepairKeyspace_def annotationCQLChecksum_def)
  show "annotationsOf (withChecksum scriptsMap ''sum'') = [annotationCQLChecksum \<mapsto> ''sum'']"
    by (rule first_checksum_drops_repair_annotation [OF e, THEN conjunct1])
qed (simp add: scriptsMap_def annotationsOf_def annotationRepairKeyspace_def)

end
