(* ===== verification/Admin_Auth.thy ===== *)
theory Admin_Auth
  imports Scaling
begin

text \<open>
  The credentials of the operator: \<open>controllers/admin_auth.go\<close>, \<open>role_admin.go\<close> and \<open>default_role.go\<close>.
  The user's secret names the desired role; a second secret records the role that is active in Cassandra. A new
  cluster starts with the default role \<open>cassandra\<close>, unless it joins or resumes an existing one; when it is ready
  the desired role is created, recorded and the default role dropped. A later change of the user's secret is
  carried into Cassandra first and recorded after a login with it.
  The lemmas say which credentials are active when, and that secrets follow Cassandra.
  The \<open>Immutable\<close> flag and the type of the secrets, which each writer sets to one value, are left out, as are the
  hosts and the TLS settings of a CQL session.
\<close>

record credentials =
  activeRole :: string
  activePassword :: string
  desiredRole :: string
  desiredPassword :: string

section \<open>The secrets\<close>

definition activeAdminSecretFor :: "cassandraCluster \<Rightarrow> credentials \<Rightarrow> string list \<Rightarrow> secret" where
  "activeAdminSecretFor cc auth owners =
     \<lparr>sec_name = ActiveAdminSecret (cc_name cc), sec_namespace = cc_namespace cc,
      sec_labels = CombinedComponentLabels cc ComponentCassandra, sec_annotations = None, sec_ownerReferences = owners,
      sec_data = Some [OperatorAdminRole \<mapsto> activeRole auth, OperatorAdminPassword \<mapsto> activePassword auth]\<rparr>"

definition reconcileActiveAdminSecret :: "'w env \<Rightarrow> cassandraCluster \<Rightarrow> credentials \<Rightarrow> ('w, unit) run" where
  "reconcileActiveAdminSecret E cc auth =
     andThen (wrapErr ''Cannot set controller reference'' (lift (e_controllerReference E cc))) (\<lambda>owners.
       let desired = activeAdminSecretFor cc auth owners; n = sec_name desired in
       andThen (attempt (call (GetSecret (secKey desired)) (e_getSecret E (secKey desired)))) (\<lambda>r.
         case r of
           Inl e \<Rightarrow>
             if isNotFound e
             then wrapErr (''Unable to create secret '' @ n) (call (CreateSecret desired) (e_createSecret E desired))
             else raise (Wrap (''Could not get secret '' @ n) e)
         | Inr actual \<Rightarrow>
             if \<not> EqualSecret actual desired
             then andThen (call (DeleteSecret actual) (e_deleteSecret E actual)) (\<lambda>_.
                    call (CreateSecret desired) (e_createSecret E desired))
             else ret ()))"

definition cassandraClientTLSDir :: string where "cassandraClientTLSDir = ''/etc/cassandra-client-tls''"
definition jmxAuthenticationLocalFiles :: string where "jmxAuthenticationLocalFiles = ''local_files''"

definition LF :: string where "LF = [CHR 0x0A]"
definition backslash :: string where "backslash = [CHR 0x5C]"

definition icarusJmx :: "credentials \<Rightarrow> string" where
  "icarusJmx auth = ''username='' @ desiredRole auth @ LF @ ''password='' @ desiredPassword auth @ LF"

definition jmxremotePassword :: "credentials \<Rightarrow> string" where
  "jmxremotePassword auth = desiredRole auth @ '' '' @ desiredPassword auth @ LF"

definition jmxremoteAccess :: "credentials \<Rightarrow> string" where
  "jmxremoteAccess auth = desiredRole auth @ '' readwrite '' @ backslash @ LF @
     ''create javax.management.monitor.*, javax.management.timer.* '' @ backslash @ LF @ ''unregister'' @ LF"

text \<open>\<open>tlsJVMArgs\<close> of \<open>controllers/cassandra_statefulset.go\<close>.\<close>

definition chomp :: "string \<Rightarrow> string" where
  "chomp s = trimRight (\<lambda>c. c = CHR 0x0D \<or> c = CHR 0x0A) s"

definition tlsJVMArgs :: "cassandraCluster \<Rightarrow> secret \<Rightarrow> string" where
  "tlsJVMArgs cc s =
     (let n = ce_nodeTLSSecret (enc_client (encryptionSpec (cc_spec cc))) in
      ''-Djavax.net.ssl.keyStore='' @ cassandraClientTLSDir @ ''/'' @ node_keystoreFileKey n @
      '' -Djavax.net.ssl.keyStorePassword='' @ chomp (secretValue s (node_keystorePasswordKey n)) @
      '' -Djavax.net.ssl.trustStore='' @ cassandraClientTLSDir @ ''/'' @ node_truststoreFileKey n @
      '' -Djavax.net.ssl.trustStorePassword='' @ chomp (secretValue s (node_truststorePasswordKey n)))"

definition cqlshConfig :: "cassandraCluster \<Rightarrow> bool \<Rightarrow> string" where
  "cqlshConfig cc clientAuth =
     (let n = ce_nodeTLSSecret (enc_client (encryptionSpec (cc_spec cc))) in
      ''[connection]'' @ LF @ ''factory = cqlshlib.ssl.ssl_transport_factory'' @ LF @ ''ssl = true'' @ LF @ ''[ssl]'' @ LF @
      ''certfile = '' @ cassandraClientTLSDir @ ''/'' @ node_caCrtFileKey n @ LF @
      '';; Optional, true by default'' @ LF @ ''validate = true'' @ LF @ ''version = SSLv23'' @ LF @
      (if clientAuth
       then LF @ '';; The next 2 lines must be provided when require_client_auth = true in the cassandra.yaml file'' @ LF @
            ''userkey = '' @ cassandraClientTLSDir @ ''/'' @ node_fileKey n @ LF @
            ''usercert = '' @ cassandraClientTLSDir @ ''/'' @ node_crtFileKey n @ LF
       else ''''))"

definition nodetoolSsl :: "cassandraCluster \<Rightarrow> bool \<Rightarrow> secret \<Rightarrow> string" where
  "nodetoolSsl cc clientAuth s =
     ''-Dcom.sun.management.jmxremote.ssl=true -Dcom.sun.management.jmxremote.ssl.need.client.auth='' @
     formatBool clientAuth @ '' -Dcom.sun.management.jmxremote.registry.ssl=true '' @ tlsJVMArgs cc s"

definition jmxData :: "cassandraCluster \<Rightarrow> credentials \<Rightarrow> strmap" where
  "jmxData cc auth =
     (let m = [''icarus-jmx'' \<mapsto> icarusJmx auth] in
      if jmxAuth (cc_spec cc) = jmxAuthenticationLocalFiles
      then m(''jmxremote.password'' \<mapsto> jmxremotePassword auth, ''jmxremote.access'' \<mapsto> jmxremoteAccess auth) else m)"

definition authConfigData :: "'w env \<Rightarrow> cassandraCluster \<Rightarrow> credentials \<Rightarrow> ('w, strmap) run" where
  "authConfigData E cc auth =
     (let client = enc_client (encryptionSpec (cc_spec cc)); base = jmxData cc auth in
      andThen
        (if ce_enabled client
         then andThen (lift (deref (ce_requireClientAuth client))) (\<lambda>clientAuth.
              andThen (getSecret E (node_name (ce_nodeTLSSecret client)) (cc_namespace cc)) (\<lambda>tls.
                ret (base(''nodetool-ssl.properties'' \<mapsto> nodetoolSsl cc clientAuth tls, ''cqlshrc'' \<mapsto> cqlshConfig cc clientAuth))))
         else ret base) (\<lambda>m.
        ret (m(OperatorAdminRole \<mapsto> activeRole auth, OperatorAdminPassword \<mapsto> activePassword auth))))"

definition reconcileAdminAuthConfigSecret :: "'w env \<Rightarrow> cassandraCluster \<Rightarrow> credentials \<Rightarrow> ('w, unit) run" where
  "reconcileAdminAuthConfigSecret E cc auth =
     andThen (authConfigData E cc auth) (\<lambda>m.
     andThen (wrapErr ''Cannot set controller reference'' (lift (e_controllerReference E cc))) (\<lambda>owners.
       wrapErr (''Unable to create Secret '' @ ActiveAdminSecret (cc_name cc))
         (reconcileSecret E \<lparr>sec_name = AdminAuthConfigSecret (cc_name cc), sec_namespace = cc_namespace cc,
            sec_labels = CombinedComponentLabels cc ComponentCassandra, sec_annotations = None,
            sec_ownerReferences = owners, sec_data = Some m\<rparr>)))"

definition reconcileAdminSecrets :: "'w env \<Rightarrow> cassandraCluster \<Rightarrow> credentials \<Rightarrow> ('w, unit) run" where
  "reconcileAdminSecrets E cc auth =
     andThen (wrapErr ''failed to update active admin secret'' (reconcileActiveAdminSecret E cc auth)) (\<lambda>_.
       wrapErr ''failed to reconcile admin auth secret'' (reconcileAdminAuthConfigSecret E cc auth))"

section \<open>Changing the admin role\<close>

definition EventAdminRoleUpdateFailed :: string where "EventAdminRoleUpdateFailed = ''AdminRoleUpdateFailed''"
definition EventAdminRoleChanged :: string where "EventAdminRoleChanged = ''AdminRoleChanged''"
definition EventAdminRoleCreated :: string where "EventAdminRoleCreated = ''AdminRoleCreated''"
definition EventInsecureSetup :: string where "EventInsecureSetup = ''InsecureSetup''"
definition EventDefaultAdminRoleDropped :: string where "EventDefaultAdminRoleDropped = ''DefaultAdminRoleRemoved''"

definition login :: "'w env \<Rightarrow> string \<Rightarrow> string \<Rightarrow> ('w, unit) run" where
  "login E role pw = call (CqlConnect role pw) (e_cqlConnect E role pw)"

definition adminRole :: "string \<Rightarrow> string \<Rightarrow> cqlRole" where
  "adminRole role pw = \<lparr>role_name = role, role_super = True, role_login = True, role_password = pw\<rparr>"

definition createRole :: "'w env \<Rightarrow> cqlRole \<Rightarrow> ('w, unit) run" where
  "createRole E r = call (CqlCreateRole r) (e_cqlCreateRole E r)"

definition updateAdminRoleInCassandra :: "'w env \<Rightarrow> credentials \<Rightarrow> ('w, unit) run" where
  "updateAdminRoleInCassandra E auth =
     andThen (attempt (login E (desiredRole auth) (desiredPassword auth))) (\<lambda>r.
     case r of
       Inr _ \<Rightarrow> ret ()
     | Inl _ \<Rightarrow>
         andThen (wrapErr ''Could not log in with existing credentials'' (login E (activeRole auth) (activePassword auth))) (\<lambda>_.
           if activeRole auth = desiredRole auth
           then wrapErr (''Can't update role'' @ activeRole auth)
                  (call (CqlUpdatePassword (activeRole auth) (desiredPassword auth))
                     (e_cqlUpdatePassword E (activeRole auth) (desiredPassword auth)))
           else wrapErr (''Can't create admin role '' @ desiredRole auth)
                  (createRole E (adminRole (desiredRole auth) (desiredPassword auth)))))"

definition roleUpdateFailedMsg :: string where
  "roleUpdateFailedMsg = ''failed to update admin role in cassandra''"

definition newLoginFailedMsg :: string where
  "newLoginFailedMsg = ''Couldn't log in with new credentials. Either the role failed to change or the the cluster didn't propagate the role change in timely manner.''"

text \<open>\<open>reporting\<close>: the handler of a failed step, which reports the failure as an event.\<close>

definition reporting :: "string \<Rightarrow> string \<Rightarrow> ('w, unit) run \<Rightarrow> ('w, unit) run" where
  "reporting event msg m = andThen (attempt m) (\<lambda>r.
     case r of Inr _ \<Rightarrow> ret () | Inl e \<Rightarrow> andThen (emit event msg) (\<lambda>_. raise (Wrap msg e)))"

definition handleAdminRoleChange :: "'w env \<Rightarrow> cassandraCluster \<Rightarrow> credentials \<Rightarrow> ('w, unit) run" where
  "handleAdminRoleChange E cc auth =
     andThen (reporting EventAdminRoleUpdateFailed roleUpdateFailedMsg (updateAdminRoleInCassandra E auth)) (\<lambda>_.
     andThen (reporting EventAdminRoleUpdateFailed newLoginFailedMsg
                (doWithRetry (login E (desiredRole auth) (desiredPassword auth)))) (\<lambda>_.
     andThen (emit EventAdminRoleChanged ''admin role has been successfully changed'') (\<lambda>_.
       wrapErr ''failed to update admin secret''
         (reconcileAdminSecrets E cc (auth\<lparr>activeRole := desiredRole auth, activePassword := desiredPassword auth\<rparr>)))))"

section \<open>The first credentials\<close>

text \<open>The loop over the managed regions: is one of them ready?\<close>

fun someRegionReady :: "'w env \<Rightarrow> cassandraCluster \<Rightarrow> managedRegion list \<Rightarrow> ('w, bool) run" where
  "someRegionReady E cc [] = ret False"
| "someRegionReady E cc (r # rs) =
     (let host = ProberIngressDomain cc r in
      andThen (attempt (call (FetchRegionReady host) (e_fetchRegionReady E host))) (\<lambda>ready.
        if ready = Inr True then ret True else someRegionReady E cc rs))"

definition insecureRegionsMsg :: string where
  "insecureRegionsMsg = ''Running a multi-region setup without server encryption is insecure. Enabling it is highly recommended''"

definition createClusterAdminSecrets ::
  "'w env \<Rightarrow> cassandraCluster \<Rightarrow> string \<Rightarrow> string \<Rightarrow> ('w, string \<times> string) run" where
  "createClusterAdminSecrets E cc role pw =
     andThen (if (length (managedRegions cc) > 0 \<or> length (unmanagedRegions cc) > 0) \<and>
                 se_internodeEncryption (enc_server (encryptionSpec (cc_spec cc))) = InternodeEncryptionNone
              then emit EventInsecureSetup insecureRegionsMsg else ret ()) (\<lambda>_.
     andThen (lift (deref (cassandraSpec (cc_spec cc)))) (\<lambda>cas.
     andThen (if pst_enabled (cas_persistence cas)
              then andThen (wrapErr ''can't get pvcs'' (call ListPVCs (e_listPVCs E))) (\<lambda>pvcs. ret (length pvcs > 0))
              else ret False) (\<lambda>storageExists.
     andThen (if length (managedRegions cc) > 0 then someRegionReady E cc (managedRegions cc) else ret False) (\<lambda>joining.
       let (r, p) = (if storageExists \<or> length (unmanagedRegions cc) > 0 \<or> joining then (role, pw)
                     else (DefaultRole, DefaultPassword)) in
       andThen (wrapErr ''failed to reconcile active admin secrets''
           (reconcileAdminSecrets E cc \<lparr>activeRole = r, activePassword = p, desiredRole = role, desiredPassword = pw\<rparr>)) (\<lambda>_.
         ret (r, p))))))"

definition reconcileAdminAuth :: "'w env \<Rightarrow> cassandraCluster \<Rightarrow> string \<Rightarrow> string \<Rightarrow> ('w, credentials) run" where
  "reconcileAdminAuth E cc role pw =
     (let k = (cc_namespace cc, ActiveAdminSecret (cc_name cc)) in
      andThen (attempt (call (GetSecret k) (e_getSecret E k))) (\<lambda>r.
      case r of
        Inl e \<Rightarrow>
          if isNotFound e
          then andThen (wrapErr ''failed to create admin secrets for newly created cluster''
                 (createClusterAdminSecrets E cc role pw)) (\<lambda>(ar, ap).
                 ret \<lparr>activeRole = ar, activePassword = ap, desiredRole = role, desiredPassword = pw\<rparr>)
          else raise (Wrap (''failed to get active admin Secret '' @ ActiveAdminSecret (cc_name cc)) e)
      | Inr s \<Rightarrow>
          (let auth = \<lparr>activeRole = secretValue s OperatorAdminRole, activePassword = secretValue s OperatorAdminPassword,
                 desiredRole = role, desiredPassword = pw\<rparr>;
               defaultRoleInUse = activeRole auth = DefaultRole \<and> activePassword auth = DefaultPassword;
               defaultRoleIsDesired = role = DefaultRole \<and> pw = DefaultPassword in
           if defaultRoleInUse \<and> defaultRoleIsDesired then ret auth
           else if defaultRoleInUse then ret auth
           else if activeRole auth \<noteq> role \<or> activePassword auth \<noteq> pw
           then andThen (wrapErr ''failed to update operator admin role'' (handleAdminRoleChange E cc auth)) (\<lambda>_.
                  ret (auth\<lparr>activeRole := role, activePassword := pw\<rparr>))
           else ret auth)))"

section \<open>Creating the admin role, dropping the default one\<close>

definition createAdminRoleInCassandra ::
  "'w env \<Rightarrow> cassandraCluster \<Rightarrow> string \<Rightarrow> string \<Rightarrow> dc list \<Rightarrow> ('w, unit) run" where
  "createAdminRoleInCassandra E cc role pw allDCs =
     andThen (wrapErr (''Can't create cql session with role '' @ DefaultRole) (login E DefaultRole DefaultPassword)) (\<lambda>_.
     andThen (reconcileSystemAuthKeyspace E cc allDCs) (\<lambda>_.
       wrapErr (''Can't create role '' @ role) (createRole E (adminRole role pw))))"

text \<open>
  \<open>reconcileAdminRole\<close> returns the session: \<open>True\<close> when it is a session with the desired role, \<open>False\<close> when it is
  the nil session that the failed logins of \<open>doWithRetry\<close> leave behind, because their error is overwritten.
\<close>

definition reconcileAdminRole :: "'w env \<Rightarrow> cassandraCluster \<Rightarrow> credentials \<Rightarrow> dc list \<Rightarrow> ('w, bool) run" where
  "reconcileAdminRole E cc auth allDCs =
     (let auth' = auth\<lparr>activeRole := desiredRole auth, activePassword := desiredPassword auth\<rparr>;
          desiredLogin = login E (desiredRole auth) (desiredPassword auth) in
      andThen (attempt desiredLogin) (\<lambda>r.
      case r of
        Inr _ \<Rightarrow> andThen (reconcileSystemAuthKeyspace E cc allDCs) (\<lambda>_.
                 andThen (reconcileAdminSecrets E cc auth') (\<lambda>_. ret True))
      | Inl _ \<Rightarrow>
          andThen (wrapErr ''can't establish cql connection both with default and desired admin roles''
                     (login E DefaultRole DefaultPassword)) (\<lambda>_.
          andThen (wrapErr ''can't create admin role''
                     (createAdminRoleInCassandra E cc (desiredRole auth) (desiredPassword auth) allDCs)) (\<lambda>_.
          andThen (attempt (doWithRetry desiredLogin)) (\<lambda>session.
          andThen (emit EventAdminRoleCreated ''secure admin role is created'') (\<lambda>_.
          andThen (wrapErr ''failed to update admin secrets with new password'' (reconcileAdminSecrets E cc auth')) (\<lambda>_.
            ret (case session of Inr _ \<Rightarrow> True | Inl _ \<Rightarrow> False))))))))"

definition removeDefaultRoleIfExists :: "'w env \<Rightarrow> cassandraCluster \<Rightarrow> ('w, unit) run" where
  "removeDefaultRoleIfExists E cc =
     (let k = (cc_namespace cc, adminRoleSecretName (cc_spec cc)) in
      andThen (call CqlRoles (e_cqlRoles E)) (\<lambda>existingRoles.
        if \<not> (\<exists>r \<in> set existingRoles. role_name r = DefaultRole) then ret ()
        else andThen (attempt (login E DefaultRole DefaultPassword)) (\<lambda>session.
          case session of
            Inl _ \<Rightarrow> ret ()
          | Inr _ \<Rightarrow>
              andThen (wrapErr ''can't get admin secret'' (call (GetSecret k) (e_getSecret E k))) (\<lambda>s.
                if secretValue s OperatorAdminRole = DefaultRole \<and> secretValue s OperatorAdminPassword = DefaultPassword
                then ret ()
                else andThen (wrapErr (''Can't drop role '' @ DefaultRole)
                       (call (CqlDropRole DefaultRole) (e_cqlDropRole E DefaultRole))) (\<lambda>_.
                     emit EventDefaultAdminRoleDropped ''default admin role is removed'')))))"

section \<open>Lemmas\<close>

fun secretWrite :: "req \<Rightarrow> bool" where
  "secretWrite (CreateSecret _) = True"
| "secretWrite (UpdateSecret _) = True"
| "secretWrite (DeleteSecret _) = True"
| "secretWrite _ = False"

lemma only_login [only_intros]: "P (CqlConnect role pw) \<Longrightarrow> only P (login E role pw)"
  by (simp add: login_def only_call)

lemma only_retryLoop [only_intros]: "only P f \<Longrightarrow> only P (retryLoop n err f)"
  by (induction n arbitrary: err) (auto intro!: only_intros split: option.splits)

lemma only_doWithRetry [only_intros]: "only P f \<Longrightarrow> only P (doWithRetry f)"
  by (simp add: doWithRetry_def only_intros)

lemma only_reporting [only_intros]: "only P m \<Longrightarrow> (\<And>r t. P (Event r t)) \<Longrightarrow> only P (reporting ev msg m)"
  unfolding reporting_def by (intro only_intros) auto

lemma reporting_result [simp]:
  "result (reporting ev msg m) w = Inr () \<longleftrightarrow> result m w = Inr ()"
  by (auto simp: reporting_def split: sum.splits)

lemma failing_login_result:
  assumes "\<And>v. fst (e_cqlConnect E role pw v) \<noteq> Inr ()"
  shows "result (doWithRetry (login E role pw)) w \<noteq> Inr ()"
proof -
  have "result (retryLoop n err (login E role pw)) v \<noteq> Inr ()" if "n > 0 \<or> err \<noteq> None" for n err v
    using that
  proof (induction n arbitrary: err v)
    case 0
    then show ?case by (cases err) auto
  next
    case (Suc n)
    then show ?case using assms [of v] by (auto simp: login_def split: sum.splits)
  qed
  then show ?thesis by (simp add: doWithRetry_def retryAttempts_def del: retryLoop.simps)
qed

lemma retryLoop_login:
  "result (retryLoop n err (login E role pw)) v = Inr () \<Longrightarrow> n > 0 \<or> err \<noteq> None \<Longrightarrow>
     \<exists>i < n. fst (e_cqlConnect E role pw (after i (login E role pw) v)) = Inr ()"
proof (induction n arbitrary: err v)
  case 0
  then show ?case by (cases err) auto
next
  case (Suc n)
  show ?case
  proof (cases "fst (e_cqlConnect E role pw v)")
    case (Inl e)
    with Suc.prems(1) have "result (retryLoop n (Some e) (login E role pw)) (snd (e_cqlConnect E role pw v)) = Inr ()"
      by (auto simp: login_def split: if_splits)
    from Suc.IH [OF this] obtain i where "i < n"
      "fst (e_cqlConnect E role pw (after (Suc i) (login E role pw) v)) = Inr ()"
      by (auto simp: login_def)
    then show ?thesis by (intro exI [of _ "Suc i"]) simp
  qed (intro exI [of _ 0], simp)
qed

lemma doWithRetry_login:
  "result (doWithRetry (login E role pw)) v = Inr () \<Longrightarrow>
     \<exists>i < 3. fst (e_cqlConnect E role pw (after i (login E role pw) v)) = Inr ()"
  using retryLoop_login [of retryAttempts None E role pw v] by (simp add: doWithRetry_def retryAttempts_def del: retryLoop.simps)

lemma failing_login_panic:
  assumes "\<And>v. fst (e_cqlConnect E role pw v) \<noteq> Inl Panic"
  shows "result (doWithRetry (login E role pw)) w \<noteq> Inl Panic"
proof -
  have "result (retryLoop n err (login E role pw)) v \<noteq> Inl Panic" if "err \<noteq> Some Panic" for n err v
    using that
  proof (induction n arbitrary: err v)
    case 0
    then show ?case by (cases err) auto
  next
    case (Suc n)
    then show ?case using assms [of v] by (auto simp: login_def split: sum.splits)
  qed
  then show ?thesis by (simp add: doWithRetry_def del: retryLoop.simps)
qed

lemma only_updateAdminRoleInCassandra: "only (\<lambda>q. \<not> secretWrite q) (updateAdminRoleInCassandra E auth)"
  unfolding updateAdminRoleInCassandra_def createRole_def by (intro only_intros) auto

lemma someRegionReady_result:
  assumes "\<And>h v. fst (e_fetchRegionReady E h v) = ready h" "\<And>h. ready h \<noteq> Inl Panic"
  shows "result (someRegionReady E cc rs) w = Inr (\<exists>r \<in> set rs. ready (ProberIngressDomain cc r) = Inr True)"
  using assms by (induction rs arbitrary: w) (auto simp: Let_def)

section \<open>Properties\<close>

text \<open>A new cluster starts with the credentials of the user's secret exactly when its data may already exist: its
  volumes are there, an unmanaged region is named, or a managed region answers that it is ready. Otherwise it starts
  with the default role of Cassandra.\<close>

theorem bootstrap_credentials:
  assumes "cassandraSpec (cc_spec cc) = Some cas" "\<And>v. fst (e_listPVCs E v) = Inr pvcs"
    and "\<And>h v. fst (e_fetchRegionReady E h v) = ready h" "\<And>h. ready h \<noteq> Inl Panic"
    and "result (createClusterAdminSecrets E cc role pw) w = Inr rp"
  shows "rp = (if (pst_enabled (cas_persistence cas) \<and> pvcs \<noteq> []) \<or> unmanagedRegions cc \<noteq> [] \<or>
                  (\<exists>r \<in> set (managedRegions cc). ready (ProberIngressDomain cc r) = Inr True)
               then (role, pw) else (DefaultRole, DefaultPassword))"
proof -
  note region = someRegionReady_result [OF assms(3,4)]
  show ?thesis
    using assms(1,2,5) by (auto simp: createClusterAdminSecrets_def region Let_def split: if_splits sum.splits)
qed

lemma role_change_without_login:
  assumes "\<forall>i < 3. fst (e_cqlConnect E (desiredRole auth) (desiredPassword auth)
      (after i (login E (desiredRole auth) (desiredPassword auth)) (world (updateAdminRoleInCassandra E auth) w))) \<noteq> Inr ()"
  shows "result (handleAdminRoleChange E cc auth) w \<noteq> Inr () \<and>
    (\<forall>q \<in> set (trace (handleAdminRoleChange E cc auth) w). \<not> secretWrite q)"
proof -
  let ?update = "reporting EventAdminRoleUpdateFailed roleUpdateFailedMsg (updateAdminRoleInCassandra E auth)"
  let ?check = "reporting EventAdminRoleUpdateFailed newLoginFailedMsg
     (doWithRetry (login E (desiredRole auth) (desiredPassword auth)))"
  have same: "result ?update w = Inr () \<Longrightarrow> world ?update w = world (updateAdminRoleInCassandra E auth) w"
    by (auto simp: reporting_def split: sum.splits if_splits)
  have fails: "result ?check (world (updateAdminRoleInCassandra E auth) w) \<noteq> Inr ()"
    using doWithRetry_login [of E "desiredRole auth" "desiredPassword auth"] assms by (metis reporting_result)
  have "only (\<lambda>q. \<not> secretWrite q) ?update" "only (\<lambda>q. \<not> secretWrite q) ?check"
    by (intro only_intros only_updateAdminRoleInCassandra; simp)+
  then have "\<not> secretWrite q" if "q \<in> set (trace ?update v) \<or> q \<in> set (trace ?check v)" for q v
    using that by (auto dest: onlyD)
  with fails same show ?thesis
    unfolding handleAdminRoleChange_def by (auto split: sum.splits)
qed

text \<open>C15: In a cluster whose active admin secret exists, the secrets follow Cassandra: while the active credentials are the
  default ones or already the user's, nothing is written and they are returned; otherwise a secret is only written, and the
  user's credentials are only returned as the active ones, after one of three logins with them, made after the change of
  the role in Cassandra, succeeded. The first creation of the secrets and the bootstrap of the role are not covered.\<close>

theorem secrets_follow_cassandra:
  assumes "e_getSecret E (cc_namespace cc, ActiveAdminSecret (cc_name cc)) w = (Inr s, w1)"
    and "auth = \<lparr>activeRole = secretValue s OperatorAdminRole, activePassword = secretValue s OperatorAdminPassword,
       desiredRole = role, desiredPassword = pw\<rparr>"
  shows "if (activeRole auth, activePassword auth) \<in> {(DefaultRole, DefaultPassword), (role, pw)}
    then reconcileAdminAuth E cc role pw w = (Inr auth, [GetSecret (cc_namespace cc, ActiveAdminSecret (cc_name cc))], w1)
    else (\<exists>c. result (reconcileAdminAuth E cc role pw) w = Inr c) \<or>
         (\<exists>q. q \<in> set (trace (reconcileAdminAuth E cc role pw) w) \<and> secretWrite q) \<longrightarrow>
      (\<exists>i < 3. fst (e_cqlConnect E role pw (after i (login E role pw)
         (world (updateAdminRoleInCassandra E auth) w1))) = Inr ())"
proof (cases "(activeRole auth, activePassword auth) \<in> {(DefaultRole, DefaultPassword), (role, pw)}")
  case True
  with assms have "result (reconcileAdminAuth E cc role pw) w = Inr auth"
    "trace (reconcileAdminAuth E cc role pw) w = [GetSecret (cc_namespace cc, ActiveAdminSecret (cc_name cc))]"
    "world (reconcileAdminAuth E cc role pw) w = w1"
    by (auto simp: reconcileAdminAuth_def Let_def)
  then have "reconcileAdminAuth E cc role pw w = (Inr auth, [GetSecret (cc_namespace cc, ActiveAdminSecret (cc_name cc))], w1)"
    by (cases "reconcileAdminAuth E cc role pw w") (auto simp: result_def trace_def world_def)
  with True show ?thesis by simp
next
  case False
  with assms have run: "result (reconcileAdminAuth E cc role pw) w = Inr c \<Longrightarrow> result (handleAdminRoleChange E cc auth) w1 = Inr ()"
    "trace (reconcileAdminAuth E cc role pw) w =
       GetSecret (cc_namespace cc, ActiveAdminSecret (cc_name cc)) # trace (handleAdminRoleChange E cc auth) w1" for c
    by (auto simp: reconcileAdminAuth_def Let_def split: sum.splits if_splits)
  have "desiredRole auth = role" "desiredPassword auth = pw" using assms(2) by simp_all
  with role_change_without_login [of E auth w1 cc] run False show ?thesis by auto
qed

text \<open>The default role is dropped only when it exists, a login with the default password still works, and the user's
  secret was read and asks for other credentials; no other role is dropped.\<close>

theorem default_role_dropped_when_replaced:
  assumes "CqlDropRole r \<in> set (trace (removeDefaultRoleIfExists E cc) w)"
  shows "r = DefaultRole \<and>
    (\<exists>roles v1 s v2. fst (e_cqlRoles E w) = Inr roles \<and> DefaultRole \<in> role_name ` set roles \<and>
       fst (e_cqlConnect E DefaultRole DefaultPassword v1) = Inr () \<and>
       fst (e_getSecret E (cc_namespace cc, adminRoleSecretName (cc_spec cc)) v2) = Inr s \<and>
       \<not> (secretValue s OperatorAdminRole = DefaultRole \<and> secretValue s OperatorAdminPassword = DefaultPassword))"
proof -
  obtain roles where r1: "fst (e_cqlRoles E w) = Inr roles"
    using assms by (cases "fst (e_cqlRoles E w)") (auto simp: removeDefaultRoleIfExists_def Let_def)
  have r2: "\<exists>r \<in> set roles. role_name r = DefaultRole"
    using assms r1 by (rule_tac ccontr) (simp add: removeDefaultRoleIfExists_def Let_def)
  then have "(\<forall>r \<in> set roles. role_name r \<noteq> DefaultRole) = False" by blast
  note roles = r1 this
  let ?v1 = "snd (e_cqlRoles E w)"
  have con: "fst (e_cqlConnect E DefaultRole DefaultPassword ?v1) = Inr ()"
    using assms roles by (cases "fst (e_cqlConnect E DefaultRole DefaultPassword ?v1)")
      (auto simp: removeDefaultRoleIfExists_def login_def Let_def split: if_splits)
  let ?k = "(cc_namespace cc, adminRoleSecretName (cc_spec cc))"
  let ?v2 = "snd (e_cqlConnect E DefaultRole DefaultPassword ?v1)"
  obtain s where s: "fst (e_getSecret E ?k ?v2) = Inr s"
    using assms roles con by (cases "fst (e_getSecret E ?k ?v2)")
      (auto simp: removeDefaultRoleIfExists_def login_def Let_def)
  have "r = DefaultRole \<and> \<not> (secretValue s OperatorAdminRole = DefaultRole \<and> secretValue s OperatorAdminPassword = DefaultPassword)"
    using assms roles con s by (auto simp: removeDefaultRoleIfExists_def login_def Let_def split: if_splits sum.splits)
  moreover have "DefaultRole \<in> role_name ` set roles" using r2 by (metis imageI)
  ultimately show ?thesis using r1 con s by blast
qed

text \<open>When the admin role has been created but no login with it works, the failure is lost: the role is reported as
  created, the secrets are updated and the caller gets a nil session instead of an error.\<close>

theorem admin_role_login_failure_lost:
  assumes "\<And>v. fst (e_cqlConnect E (desiredRole auth) (desiredPassword auth) v) \<noteq> Inr ()"
    and "result (reconcileAdminRole E cc auth allDCs) w = Inr session"
  shows "session = False \<and>
    Event EventAdminRoleCreated ''secure admin role is created'' \<in> set (trace (reconcileAdminRole E cc auth allDCs) w)"
proof -
  have "result (login E (desiredRole auth) (desiredPassword auth)) v \<noteq> Inr ()" for v
    using assms(1) by (simp add: login_def)
  moreover have "result (doWithRetry (login E (desiredRole auth) (desiredPassword auth))) v \<noteq> Inr ()" for v
    by (rule failing_login_result [OF assms(1)])
  ultimately show ?thesis
    using assms(2) unfolding reconcileAdminRole_def Let_def by (auto split: sum.splits if_splits)
qed

section \<open>Examples\<close>

definition adminSecret :: secret where
  "adminSecret = \<lparr>sec_name = ''admin'', sec_namespace = ''ns'', sec_labels = Map.empty, sec_annotations = None,
     sec_ownerReferences = [], sec_data = Some [OperatorAdminRole \<mapsto> ''op'', OperatorAdminPassword \<mapsto> ''pw'']\<rparr>"

definition newCredentials :: credentials where
  "newCredentials = \<lparr>activeRole = DefaultRole, activePassword = DefaultPassword, desiredRole = ''op'', desiredPassword = ''pw''\<rparr>"

text \<open>Only the default role can log in.\<close>

definition defaultOnly :: "unit env" where
  "defaultOnly = quietEnv\<lparr>e_cqlConnect := \<lambda>r p w. (if r = DefaultRole then Inr () else Inl (Err ''refused''), w),
     e_cqlRoles := \<lambda>w. (Inr [\<lparr>role_name = DefaultRole, role_super = True, role_login = True, role_password = ''''\<rparr>], w),
     e_getSecret := \<lambda>k w. (if snd k = ''admin'' then Inr adminSecret else Inl NotFound, w),
     e_cqlKeyspaces := \<lambda>w. (Inr [\<lparr>ks_name = keyspaceSystemAuth, ks_replication = Map.empty\<rparr>], w)\<rparr>"

lemma defaultOnly_simps [simp]:
  "e_cqlConnect defaultOnly r p w = (if r = DefaultRole then Inr () else Inl (Err ''refused''), w)"
  "e_cqlRoles defaultOnly w = (Inr [\<lparr>role_name = DefaultRole, role_super = True, role_login = True, role_password = ''''\<rparr>], w)"
  "e_getSecret defaultOnly k w = (if snd k = ''admin'' then Inr adminSecret else Inl NotFound, w)"
  "e_cqlKeyspaces defaultOnly w = (Inr [\<lparr>ks_name = keyspaceSystemAuth, ks_replication = Map.empty\<rparr>], w)"
  "e_controllerReference defaultOnly cc = Inr [cc_name cc]" "e_createSecret defaultOnly s w = (Inr (), w)"
  "e_cqlUpdateRF defaultOnly kn m w = (Inr (), w)" "e_cqlCreateRole defaultOnly c w = (Inr (), w)"
  "e_reaperIsRunning defaultOnly w = (Inr False, w)" "e_listPVCs defaultOnly w = (Inr [], w)"
  "e_fetchRegionReady defaultOnly h w = (Inr True, w)"
  by (simp_all add: defaultOnly_def quietEnv_def)

lemma role_names: "DefaultRole = ''cassandra''" "DefaultPassword = ''cassandra''"
  by (simp_all add: DefaultRole_def DefaultPassword_def)

lemma runningCluster_secrets [simp]:
  "adminRoleSecretName (cc_spec runningCluster) = ''admin''" "ce_enabled (enc_client (encryptionSpec (cc_spec runningCluster))) = False"
  "\<exists>r. reaperSpec (cc_spec runningCluster) = Some r"
  by (simp_all add: runningCluster_def sampleCluster_def)

lemma secrets_written: "result (reconcileAdminSecrets defaultOnly runningCluster auth) w = Inr ()"
proof -
  have n: "ActiveAdminSecret ''c'' \<noteq> ''admin''" "AdminAuthConfigSecret ''c'' \<noteq> ''admin''"
    by (simp_all add: ActiveAdminSecret_def AdminAuthConfigSecret_def)
  show ?thesis
    by (simp add: reconcileAdminSecrets_def reconcileActiveAdminSecret_def activeAdminSecretFor_def authConfigData_def
        reconcileAdminAuthConfigSecret_def reconcileSecret_def secKey_def isNotFound_def n Let_def)
qed

theorem bootstrap_credentials_witness:
  "result (createClusterAdminSecrets defaultOnly runningCluster ''op'' ''pw'') () = Inr (DefaultRole, DefaultPassword)"
proof -
  have "\<exists>rp. result (createClusterAdminSecrets defaultOnly runningCluster ''op'' ''pw'') () = Inr rp"
    by (simp add: createClusterAdminSecrets_def secrets_written Let_def)
  then obtain rp where rp: "result (createClusterAdminSecrets defaultOnly runningCluster ''op'' ''pw'') () = Inr rp" by blast
  from bootstrap_credentials [of runningCluster sampleCassandra defaultOnly "[]" "\<lambda>_. Inr True", OF _ _ _ _ rp] rp
  show ?thesis by simp
qed

text \<open>A cluster that runs with the role \<open>old\<close>; the state is whether the role \<open>op\<close> has been created.\<close>

definition oldSecret :: secret where
  "oldSecret = adminSecret\<lparr>sec_data := Some [OperatorAdminRole \<mapsto> ''old'', OperatorAdminPassword \<mapsto> ''pw0'']\<rparr>"

definition changingEnv :: "bool env" where
  "changingEnv = quietEnv\<lparr>e_getSecret := \<lambda>k w. (Inr oldSecret, w),
     e_cqlConnect := \<lambda>r p w. (if r = ''old'' \<or> w then Inr () else Inl (Err ''refused''), w),
     e_cqlCreateRole := \<lambda>r w. (Inr (), True)\<rparr>"

lemma changingEnv_simps [simp]:
  "e_getSecret changingEnv k w = (Inr oldSecret, w)" "e_cqlCreateRole changingEnv c w = (Inr (), True)"
  "e_cqlConnect changingEnv r p w = (if r = ''old'' \<or> w then Inr () else Inl (Err ''refused''), w)"
  "e_controllerReference changingEnv cc = Inr [cc_name cc]" "e_deleteSecret changingEnv t w = (Inr (), w)"
  by (simp_all add: changingEnv_def quietEnv_def)

definition oldCredentials :: credentials where
  "oldCredentials = \<lparr>activeRole = secretValue oldSecret OperatorAdminRole,
     activePassword = secretValue oldSecret OperatorAdminPassword, desiredRole = ''op'', desiredPassword = ''pw''\<rparr>"

lemma oldSecret_values: "secretValue oldSecret OperatorAdminRole = ''old''" "secretValue oldSecret OperatorAdminPassword = ''pw0''"
  by (simp_all add: oldSecret_def secretValue_def OperatorAdminRole_def OperatorAdminPassword_def)

lemma oldCredentials_simps [simp]:
  "activeRole oldCredentials = ''old''" "activePassword oldCredentials = ''pw0''"
  "desiredRole oldCredentials = ''op''" "desiredPassword oldCredentials = ''pw''"
  by (simp_all add: oldCredentials_def oldSecret_values)

lemma changing_writes:
  "\<exists>q. q \<in> set (trace (reconcileAdminAuth changingEnv runningCluster ''op'' ''pw'') False) \<and> secretWrite q"
proof -
  have c: "\<lparr>activeRole = secretValue oldSecret OperatorAdminRole, activePassword = secretValue oldSecret OperatorAdminPassword,
      desiredRole = ''op'', desiredPassword = ''pw''\<rparr> = oldCredentials" by (simp add: oldCredentials_def)
  have u: "result (updateAdminRoleInCassandra changingEnv oldCredentials) False = Inr ()"
    "world (updateAdminRoleInCassandra changingEnv oldCredentials) False = True"
    by (simp_all add: updateAdminRoleInCassandra_def login_def createRole_def)
  have l: "result (doWithRetry (login changingEnv ''op'' ''pw'')) True = Inr ()"
    "world (doWithRetry (login changingEnv ''op'' ''pw'')) True = True"
    by (simp_all add: doWithRetry_def retryAttempts_def login_def eval_nat_numeral)
  have "\<not> EqualSecret oldSecret (activeAdminSecretFor runningCluster a owners)" for a owners
    by (simp add: EqualSecret_def oldSecret_def adminSecret_def activeAdminSecretFor_def ActiveAdminSecret_def)
  then have "DeleteSecret oldSecret \<in> set (trace (reconcileAdminSecrets changingEnv runningCluster auth) v)" for auth v
    by (simp add: reconcileAdminSecrets_def reconcileActiveAdminSecret_def Let_def)
  then have "DeleteSecret oldSecret \<in> set (trace (handleAdminRoleChange changingEnv runningCluster oldCredentials) False)"
    by (simp add: handleAdminRoleChange_def reporting_def u l)
  then have "DeleteSecret oldSecret \<in> set (trace (reconcileAdminAuth changingEnv runningCluster ''op'' ''pw'') False)"
    unfolding reconcileAdminAuth_def Let_def by (simp add: c) (simp add: oldSecret_values role_names)
  then show ?thesis by (intro exI [of _ "DeleteSecret oldSecret"]) simp
qed

theorem secrets_follow_cassandra_witness:
  "(\<exists>q. q \<in> set (trace (reconcileAdminAuth changingEnv runningCluster ''op'' ''pw'') False) \<and> secretWrite q) \<and>
   (\<exists>i < 3. fst (e_cqlConnect changingEnv ''op'' ''pw'' (after i (login changingEnv ''op'' ''pw'')
      (world (updateAdminRoleInCassandra changingEnv oldCredentials) False))) = Inr ())"
  using secrets_follow_cassandra [OF _ oldCredentials_def, of changingEnv runningCluster False False] changing_writes
  by (simp add: role_names del: changingEnv_simps(3))

theorem default_role_dropped_when_replaced_witness:
  "\<exists>s v. fst (e_getSecret defaultOnly (''ns'', ''admin'') v) = Inr s \<and>
     \<not> (secretValue s OperatorAdminRole = DefaultRole \<and> secretValue s OperatorAdminPassword = DefaultPassword)"
proof -
  have "CqlDropRole DefaultRole \<in> set (trace (removeDefaultRoleIfExists defaultOnly runningCluster) ())"
    by (simp add: removeDefaultRoleIfExists_def login_def adminSecret_def secretValue_def role_names Let_def
        OperatorAdminRole_def OperatorAdminPassword_def)
  from default_role_dropped_when_replaced [OF this] show ?thesis by auto
qed

theorem admin_role_login_failure_lost_witness:
  "Event EventAdminRoleCreated ''secure admin role is created'' \<in>
     set (trace (reconcileAdminRole defaultOnly runningCluster newCredentials []) ())"
proof -
  have "result (reconcileAdminRole defaultOnly runningCluster newCredentials []) () = Inr False"
  proof -
    obtain r where r: "reaperSpec (cc_spec runningCluster) = Some r" using runningCluster_secrets(3) by blast
    have s: "result (reconcileSystemAuthKeyspace defaultOnly runningCluster []) w = Inr ()" for w
      by (simp add: reconcileSystemAuthKeyspace_def cqlUpdateRF_def r Let_def)
    have n: "result (login defaultOnly (desiredRole newCredentials) (desiredPassword newCredentials)) w = Inl (Err ''refused'')"
      "result (login defaultOnly DefaultRole DefaultPassword) w = Inr ()" for w
      by (simp_all add: login_def newCredentials_def role_names)
    have "result (doWithRetry (login defaultOnly (desiredRole newCredentials) (desiredPassword newCredentials))) w \<noteq> Inr ()"
      "result (doWithRetry (login defaultOnly (desiredRole newCredentials) (desiredPassword newCredentials))) w \<noteq> Inl Panic" for w
      by (rule failing_login_result, simp add: newCredentials_def role_names)
        (rule failing_login_panic, simp)
    then show ?thesis
      by (auto simp: reconcileAdminRole_def createAdminRoleInCassandra_def createRole_def n s secrets_written Let_def
          split: sum.splits)
  qed
  from admin_role_login_failure_lost [OF _ this] show ?thesis by (simp add: newCredentials_def role_names)
qed

end
