(* ===== verification/Roles.thy ===== *)
theory Roles
  imports Admin_Auth
begin

text \<open>
  The roles a user asks for: \<open>controllers/roles.go\<close>, with the statements of \<open>controllers/cql/cql.go\<close>.
  Each key of the user's secret is a role, described in YAML (the parser is the parameter \<open>unmarshal\<close>); the
  reconciler creates, updates or drops it in Cassandra and records a checksum of the secret.
  The lemmas say which statement each role leads to, which entries are ignored, and when nothing is done.
\<close>

section \<open>Roles\<close>

record userRole =
  usr_name :: string
  usr_password :: string
  usr_super :: "bool option"
  usr_login :: "bool option"
  usr_delete :: bool

definition toCassandraRole :: "userRole \<Rightarrow> cqlRole" where
  "toCassandraRole r =
     \<lparr>role_name = usr_name r, role_super = (case usr_super r of None \<Rightarrow> False | Some b \<Rightarrow> b),
      role_login = (case usr_login r of None \<Rightarrow> True | Some b \<Rightarrow> b), role_password = usr_password r\<rparr>"

fun getRoleByName :: "cqlRole list \<Rightarrow> string \<Rightarrow> cqlRole option" where
  "getRoleByName [] n = None"
| "getRoleByName (r # rs) n = (if role_name r = n then Some r else getRoleByName rs n)"

definition reconcileRole :: "'w env \<Rightarrow> cqlRole list \<Rightarrow> userRole \<Rightarrow> ('w, unit) run" where
  "reconcileRole E cassandraRoles r =
     (case getRoleByName cassandraRoles (usr_name r) of
        Some role \<Rightarrow>
          if usr_delete r
          then wrapErr ''can't drop role'' (call (CqlDropRole (role_name role)) (e_cqlDropRole E (role_name role)))
          else wrapErr ''Can't update role'' (call (CqlUpdateRole (toCassandraRole r)) (e_cqlUpdateRole E (toCassandraRole r)))
      | None \<Rightarrow>
          if \<not> usr_delete r then wrapErr ''Can't create role'' (createRole E (toCassandraRole r)) else ret ())"

definition reconcileRolesInCassandra :: "'w env \<Rightarrow> userRole list \<Rightarrow> ('w, unit) run" where
  "reconcileRolesInCassandra E desiredRoles =
     andThen (wrapErr ''can't get current roles info'' (call CqlRoles (e_cqlRoles E))) (\<lambda>cassandraRoles.
       forEach (reconcileRole E cassandraRoles) desiredRoles)"

section \<open>The user's secret\<close>

definition EventInvalidRole :: string where "EventInvalidRole = ''InvalidRole''"
definition EventRoleSecretNotFound :: string where "EventRoleSecretNotFound = ''RolesSecretNotFound''"

definition unparsableMsg :: "string \<Rightarrow> string" where
  "unparsableMsg s = ''can't unmarshal one of the roles from '' @ quoted s @ '' secret''"

definition noPasswordMsg :: "string \<Rightarrow> string" where
  "noPasswordMsg s = ''one of the roles in secret '' @ quoted s @ '' have no field `password` defined''"

definition rolesNotFoundMsg :: "string \<Rightarrow> string" where
  "rolesNotFoundMsg s = ''roles secret '' @ quoted s @ '' not found''"

definition extractRole :: "(string \<Rightarrow> go_error + userRole) \<Rightarrow> secret \<Rightarrow> string \<Rightarrow> userRole list \<Rightarrow> ('w, userRole list) run" where
  "extractRole unmarshal s k desiredRoles =
     (case unmarshal (secretValue s k) of
        Inl _ \<Rightarrow> andThen (emit EventInvalidRole (unparsableMsg (sec_name s))) (\<lambda>_. ret desiredRoles)
      | Inr r \<Rightarrow>
          if length (usr_password r) = 0
          then andThen (emit EventInvalidRole (noPasswordMsg (sec_name s))) (\<lambda>_. ret desiredRoles)
          else ret (desiredRoles @ [r\<lparr>usr_name := k\<rparr>]))"

text \<open>\<open>ks\<close> is the order of the range over the data of the secret.\<close>

definition extractRolesFromSecret ::
  "(string \<Rightarrow> go_error + userRole) \<Rightarrow> string list \<Rightarrow> secret \<Rightarrow> ('w, userRole list) run" where
  "extractRolesFromSecret unmarshal ks s = foldAct (extractRole unmarshal s) ks []"

definition reconcileRoles ::
  "'w env \<Rightarrow> (string \<Rightarrow> go_error + userRole) \<Rightarrow> string list \<Rightarrow> cassandraCluster \<Rightarrow> ('w, unit) run" where
  "reconcileRoles E unmarshal ks cc =
     (let n = rolesSecretName (cc_spec cc); k = (cc_namespace cc, n) in
      if n = '''' then ret ()
      else andThen (attempt (call (GetSecret k) (e_getSecret E k))) (\<lambda>r.
        case r of
          Inl e \<Rightarrow>
            if isNotFound e then emit EventRoleSecretNotFound (rolesNotFoundMsg n)
            else raise (Wrap ''failed to get roles secret'' e)
        | Inr s \<Rightarrow>
            (let anns = (case sec_annotations s of None \<Rightarrow> Map.empty | Some a \<Rightarrow> a);
                 s' = s\<lparr>sec_annotations := Some anns\<rparr>;
                 newChecksum = e_sha1 E (sec_data s') in
             if mget anns ClusterChecksumLabel = newChecksum then ret ()
             else andThen (extractRolesFromSecret unmarshal ks s') (\<lambda>desiredRoles.
                  andThen (wrapErr ''failed to reconcile roles in cassandra'' (reconcileRolesInCassandra E desiredRoles)) (\<lambda>_.
                    wrapErr (''Failed to reconcile Annotations for Secret '' @ sec_name s')
                      (reconcileAnnotations E s' [ClusterChecksumLabel \<mapsto> newChecksum, ClusterInstanceLabel \<mapsto> cc_name cc]))))))"

section \<open>The statements sent to Cassandra\<close>

definition apo :: "string \<Rightarrow> string" where "apo s = [CHR 0x27] @ s @ [CHR 0x27]"

definition CreateRoleQuery :: "cqlRole \<Rightarrow> string" where
  "CreateRoleQuery r = ''CREATE ROLE '' @ apo (role_name r) @ '' WITH PASSWORD = '' @ apo (role_password r) @
     '' AND LOGIN = '' @ formatBool (role_login r) @ '' AND SUPERUSER= '' @ formatBool (role_super r)"

definition UpdateRoleQuery :: "cqlRole \<Rightarrow> string" where
  "UpdateRoleQuery r =
     (let passwordQuery = (if role_password r \<noteq> '''' then ''AND PASSWORD = '' @ apo (role_password r) else '''') in
      ''ALTER ROLE '' @ apo (role_name r) @ '' WITH SUPERUSER = '' @ formatBool (role_super r) @
      '' AND LOGIN = '' @ formatBool (role_login r) @ '' '' @ passwordQuery)"

definition UpdateRolePasswordQuery :: "string \<Rightarrow> string \<Rightarrow> string" where
  "UpdateRolePasswordQuery n pw = ''ALTER ROLE '' @ apo n @ '' WITH PASSWORD = '' @ apo pw"

definition DropRoleQuery :: "cqlRole \<Rightarrow> string" where
  "DropRoleQuery r = ''DROP ROLE IF EXISTS '' @ role_name r"

section \<open>Lemmas\<close>

lemma getRoleByName_None: "getRoleByName rs n = None \<longleftrightarrow> n \<notin> role_name ` set rs"
  by (induction rs) auto

lemma getRoleByName_Some: "getRoleByName rs n = Some r \<Longrightarrow> r \<in> set rs \<and> role_name r = n"
  by (induction rs) (auto split: if_splits)

text \<open>What a desired role asks of Cassandra, given the roles there.\<close>

definition roleRequest :: "string set \<Rightarrow> userRole \<Rightarrow> req list" where
  "roleRequest present r =
     (if usr_name r \<in> present
      then [if usr_delete r then CqlDropRole (usr_name r) else CqlUpdateRole (toCassandraRole r)]
      else if usr_delete r then [] else [CqlCreateRole (toCassandraRole r)])"

lemma reconcileRole_trace: "trace (reconcileRole E rs r) w = roleRequest (role_name ` set rs) r"
proof (cases "getRoleByName rs (usr_name r)")
  case None
  then have "usr_name r \<notin> role_name ` set rs" by (rule getRoleByName_None [THEN iffD1])
  with None show ?thesis by (simp add: reconcileRole_def roleRequest_def createRole_def)
next
  case (Some role)
  then have "getRoleByName rs (usr_name r) \<noteq> None" by simp
  then have "usr_name r \<in> role_name ` set rs" by (simp only: getRoleByName_None not_not)
  with Some getRoleByName_Some [OF Some] show ?thesis by (auto simp: reconcileRole_def roleRequest_def)
qed

lemma roles_loop_trace:
  "result (forEach (reconcileRole E rs) ds) w = Inr () \<Longrightarrow>
     trace (forEach (reconcileRole E rs) ds) w = concat (map (roleRequest (role_name ` set rs)) ds)"
  by (induction ds arbitrary: w) (auto simp: reconcileRole_trace split: sum.splits)

text \<open>The roles that an entry of the secret describes.\<close>

definition roleOf :: "(string \<Rightarrow> go_error + userRole) \<Rightarrow> secret \<Rightarrow> string \<Rightarrow> userRole list" where
  "roleOf unmarshal s k = (case unmarshal (secretValue s k) of Inl _ \<Rightarrow> []
     | Inr r \<Rightarrow> if usr_password r = '''' then [] else [r\<lparr>usr_name := k\<rparr>])"

lemma extractRole_result:
  "result (extractRole unmarshal s k ds) w = Inr (ds @ roleOf unmarshal s k)"
  "world (extractRole unmarshal s k ds) w = w" "writes (trace (extractRole unmarshal s k ds) w) = []"
  by (auto simp: extractRole_def roleOf_def split: sum.splits)

lemma extract_loop:
  "result (foldAct (extractRole unmarshal s) ks ds) w = Inr (ds @ concat (map (roleOf unmarshal s) ks))"
  "world (foldAct (extractRole unmarshal s) ks ds) w = w"
  "writes (trace (foldAct (extractRole unmarshal s) ks ds) w) = []"
  by (induction ks arbitrary: ds) (auto simp: extractRole_result)

lemma writes_roleRequest [simp]: "writes (roleRequest P r) = roleRequest P r"
  by (auto simp: roleRequest_def)

lemma writes_concat [simp]: "writes (concat (map (roleRequest P) ds)) = concat (map (roleRequest P) ds)"
  by (induction ds) auto

section \<open>Properties\<close>

text \<open>Each valid entry of the roles secret leads to one statement: its role is created when Cassandra does not have it,
  updated when it has, dropped when it has and the entry asks for that; entries that cannot be parsed or have no
  password lead to none. After that only the annotations of the secret are written.\<close>

theorem roles_reconciled:
  assumes "rolesSecretName (cc_spec cc) \<noteq> ''''"
    and "fst (e_getSecret E (cc_namespace cc, rolesSecretName (cc_spec cc)) w) = Inr s"
    and "mget (case sec_annotations s of None \<Rightarrow> Map.empty | Some a \<Rightarrow> a) ClusterChecksumLabel \<noteq> e_sha1 E (sec_data s)"
    and "fst (e_cqlRoles E (snd (e_getSecret E (cc_namespace cc, rolesSecretName (cc_spec cc)) w))) = Inr present"
    and "result (reconcileRoles E unmarshal ks cc) w = Inr ()"
  shows "\<exists>s'. sec_data s' = sec_data s \<and>
    mget (case sec_annotations s' of None \<Rightarrow> Map.empty | Some a \<Rightarrow> a) ClusterChecksumLabel = e_sha1 E (sec_data s) \<and>
    writes (trace (reconcileRoles E unmarshal ks cc) w) =
      concat (map (roleRequest (role_name ` set present)) (concat (map (roleOf unmarshal s) ks))) @ [UpdateSecret s']"
proof -
  let ?anns = "case sec_annotations s of None \<Rightarrow> Map.empty | Some a \<Rightarrow> a"
  let ?s1 = "s\<lparr>sec_annotations := Some ?anns\<rparr>"
  let ?w1 = "snd (e_getSecret E (cc_namespace cc, rolesSecretName (cc_spec cc)) w)"
  let ?ds = "concat (map (roleOf unmarshal s) ks)"
  have ro: "roleOf unmarshal ?s1 = roleOf unmarshal s" by (simp add: roleOf_def secretValue_def fun_eq_iff)
  have ch: "ClusterInstanceLabel \<noteq> ClusterChecksumLabel" using label_keys_distinct by auto
  let ?new = "[ClusterChecksumLabel \<mapsto> e_sha1 E (sec_data s), ClusterInstanceLabel \<mapsto> cc_name cc]"
  let ?s2 = "?s1\<lparr>sec_annotations := MergeMap (Some ?anns) (Some ?new)\<rparr>"
  have loop: "result (forEach (reconcileRole E present) ?ds) (snd (e_cqlRoles E ?w1)) = Inr ()"
    using assms by (auto simp: reconcileRoles_def extractRolesFromSecret_def extract_loop reconcileRolesInCassandra_def
        ro Let_def split: sum.splits)
  have "writes (trace (reconcileRoles E unmarshal ks cc) w) =
      concat (map (roleRequest (role_name ` set present)) ?ds) @ [UpdateSecret ?s2]"
    using assms loop by (simp add: reconcileRoles_def extractRolesFromSecret_def extract_loop reconcileRolesInCassandra_def
        reconcileAnnotations_def ro Let_def roles_loop_trace [OF loop])
  moreover have "mget (case sec_annotations ?s2 of None \<Rightarrow> Map.empty | Some a \<Rightarrow> a) ClusterChecksumLabel = e_sha1 E (sec_data s)"
    using ch by (simp add: MergeMap_def mget_def)
  ultimately show ?thesis by (intro exI [of _ ?s2]) simp
qed

definition rolesCluster :: cassandraCluster where
  "rolesCluster = runningCluster\<lparr>cc_spec := (cc_spec runningCluster)\<lparr>rolesSecretName := ''roles''\<rparr>\<rparr>"

definition rolesSecret :: secret where
  "rolesSecret = \<lparr>sec_name = ''roles'', sec_namespace = ''ns'', sec_labels = Map.empty, sec_annotations = None,
     sec_ownerReferences = [], sec_data = Some [''alice'' \<mapsto> ''secret'', ''bob'' \<mapsto> '''']\<rparr>"

text \<open>A parser for which the whole entry is the password.\<close>

definition plainRole :: "string \<Rightarrow> go_error + userRole" where
  "plainRole t = Inr \<lparr>usr_name = '''', usr_password = t, usr_super = None, usr_login = None, usr_delete = False\<rparr>"

definition rolesEnv :: "unit env" where
  "rolesEnv = quietEnv\<lparr>e_getSecret := \<lambda>_ w. (Inr rolesSecret, w)\<rparr>"

theorem roles_reconciled_witness:
  "\<exists>s'. writes (trace (reconcileRoles rolesEnv plainRole [''alice'', ''bob''] rolesCluster) ()) =
     [CqlCreateRole \<lparr>role_name = ''alice'', role_super = False, role_login = True, role_password = ''secret''\<rparr>, UpdateSecret s']"
proof -
  have c: "rolesSecretName (cc_spec rolesCluster) = ''roles''" by (simp add: rolesCluster_def)
  have r: "result (reconcileRoles rolesEnv plainRole [''alice'', ''bob''] rolesCluster) () = Inr ()"
    by (simp add: reconcileRoles_def c rolesEnv_def quietEnv_def extractRolesFromSecret_def extractRole_result
        reconcileRolesInCassandra_def reconcileRole_def reconcileAnnotations_def createRole_def roleOf_def plainRole_def
        rolesSecret_def secretValue_def toCassandraRole_def Let_def)
  have "\<exists>s'. sec_data s' = sec_data rolesSecret \<and>
      mget (case sec_annotations s' of None \<Rightarrow> Map.empty | Some a \<Rightarrow> a) ClusterChecksumLabel = e_sha1 rolesEnv (sec_data rolesSecret) \<and>
      writes (trace (reconcileRoles rolesEnv plainRole [''alice'', ''bob''] rolesCluster) ()) =
        concat (map (roleRequest (role_name ` set ([] :: cqlRole list))) (concat (map (roleOf plainRole rolesSecret) [''alice'', ''bob'']))) @ [UpdateSecret s']"
    by (rule roles_reconciled [OF _ _ _ _ r]) (simp_all add: c rolesEnv_def quietEnv_def rolesSecret_def)
  then show ?thesis
    by (auto simp: roleRequest_def roleOf_def plainRole_def rolesSecret_def secretValue_def toCassandraRole_def)
qed

end
