(* ===== verification/Network_Policies.thy ===== *)
theory Network_Policies
  imports Scaling
begin

text \<open>
  Network policies: \<open>controllers/network_policies.go\<close>, with \<open>getJavaAgentPort\<close> of \<open>cassandra_service.go\<close>.
  Each policy selects the pods of one component and lists who may connect to which ports: components by labels,
  nodes of this and other regions by address, and the peers that the specification adds.
  To Kubernetes a rule without peers admits every source; the lemmas say when the written rules have peers
  and when they do not.
  \<open>opNs\<close> is the namespace of the operator (\<open>r.Cfg.Namespace\<close>).
\<close>

section \<open>Rules\<close>

definition LabelMetadataName :: string where "LabelMetadataName = ''kubernetes.io/metadata.name''"

definition nwPolicyPeer :: "strmap \<Rightarrow> string \<Rightarrow> policyPeer" where
  "nwPolicyPeer componentLabels namespace =
     SelectorPeer (Some (MatchLabels componentLabels)) (Some (MatchLabels [LabelMetadataName \<mapsto> namespace]))"

definition userPeer :: "networkPolicyRule \<Rightarrow> policyPeer" where
  "userPeer r = SelectorPeer (map_option UserSelector (npr_podSelector r)) (map_option UserSelector (npr_namespaceSelector r))"

definition generatePeers :: "string list \<Rightarrow> policyPeer list" where
  "generatePeers ips = map (\<lambda>ip. IPBlock (ip @ ''/32'')) (sort (Uniq ips))"

definition componentPeer :: "cassandraCluster \<Rightarrow> string \<Rightarrow> policyPeer" where
  "componentPeer cc component = nwPolicyPeer [ClusterComponentLabel \<mapsto> component] (cc_namespace cc)"

definition operatorPeer :: "string \<Rightarrow> policyPeer" where
  "operatorPeer opNs = nwPolicyPeer CassandraOperatorPodLabels opNs"

definition rule :: "int list \<Rightarrow> policyPeer list \<Rightarrow> ingressRule" where
  "rule ports from = \<lparr>ir_ports = ports, ir_from = from\<rparr>"

definition getJavaAgentPort :: "string \<Rightarrow> int" where
  "getJavaAgentPort agent =
     (if agent = CassandraAgentInstaclustr then InstaclustrPort
      else if agent = CassandraAgentDatastax then DatastaxPort
      else if agent = CassandraAgentTlp then TlpPort else 0)"

definition policyFor :: "cassandraCluster \<Rightarrow> string \<Rightarrow> string \<Rightarrow> ingressRule list \<Rightarrow> networkPolicy" where
  "policyFor cc n component rules =
     \<lparr>nwp_name = n, nwp_namespace = cc_namespace cc, nwp_labels = CombinedComponentLabels cc ComponentNetworkPolicy,
      nwp_annotations = None, nwp_ownerReferences = [], nwp_podSelector = [ClusterComponentLabel \<mapsto> component],
      nwp_ingress = rules\<rparr>"

section \<open>Writing a policy\<close>

definition EqualNetworkPolicy :: "networkPolicy \<Rightarrow> networkPolicy \<Rightarrow> bool" where
  "EqualNetworkPolicy actual desired \<longleftrightarrow> actual = desired"

definition reconcileNetworkPolicy :: "'w env \<Rightarrow> cassandraCluster \<Rightarrow> networkPolicy \<Rightarrow> ('w, unit) run" where
  "reconcileNetworkPolicy E cc desiredPolicy =
     andThen (lift (e_controllerReference E cc)) (\<lambda>owners.
       let desired = desiredPolicy\<lparr>nwp_ownerReferences := owners\<rparr>; k = (cc_namespace cc, nwp_name desired) in
       andThen (attempt (call (GetNetworkPolicy k) (e_getPolicy E k))) (\<lambda>r.
         case r of
           Inl e \<Rightarrow> if isNotFound e then call (CreateNetworkPolicy desired) (e_createPolicy E desired) else raise e
         | Inr actual \<Rightarrow>
             if \<not> EqualNetworkPolicy actual desired
             then let new = actual\<lparr>nwp_podSelector := nwp_podSelector desired, nwp_ingress := nwp_ingress desired,
                        nwp_labels := nwp_labels desired, nwp_annotations := nwp_annotations desired\<rparr> in
                  call (UpdateNetworkPolicy new) (e_updatePolicy E new)
             else ret ()))"

definition writePolicy :: "'w env \<Rightarrow> cassandraCluster \<Rightarrow> networkPolicy \<Rightarrow> ('w, unit) run" where
  "writePolicy E cc p =
     wrapErr (''Failed to create/update network policy `'' @ nwp_name p @ ''`'') (reconcileNetworkPolicy E cc p)"

definition cleanupNetworkPolicies :: "'w env \<Rightarrow> cassandraCluster \<Rightarrow> ('w, unit) run" where
  "cleanupNetworkPolicies E cc =
     (if \<not> np_enabled (networkPoliciesSpec (cc_spec cc))
      then andThen (wrapErr ''Failed to list network policies'' (call ListNetworkPolicies (e_listPolicies E)))
             (forEach (\<lambda>p. wrapErr (''Failed to delete network policy '' @ nwp_name p)
                (call (DeleteNetworkPolicy p) (e_deletePolicy E p))))
      else ret ())"

section \<open>Policies of the Cassandra pods\<close>

definition clusterRules :: "string \<Rightarrow> cassandraCluster \<Rightarrow> ingressRule list" where
  "clusterRules opNs cc =
     [rule [TlsPort, IntraPort, IcarusPort] [componentPeer cc ComponentCassandra],
      rule [CqlPort, IcarusPort] [operatorPeer opNs],
      rule [JmxPort] [componentPeer cc ComponentProber],
      rule [CqlPort, JmxPort] [componentPeer cc ComponentReaper]]"

definition cassandraClusterPolicy :: "'w env \<Rightarrow> string \<Rightarrow> cassandraCluster \<Rightarrow> ('w, unit) run" where
  "cassandraClusterPolicy E opNs cc =
     writePolicy E cc (policyFor cc (CassandraClusterNetworkPolicyName (cc_name cc)) ComponentCassandra (clusterRules opNs cc))"

text \<open>The two errors of the code for a missing list of pods, nil and empty, are one here.\<close>

definition cassandraClusterHostportPolicy :: "'w env \<Rightarrow> cassandraCluster \<Rightarrow> pod list \<Rightarrow> ('w, unit) run" where
  "cassandraClusterHostportPolicy E cc ps =
     (if hp_enabled (hostPortSpec (cc_spec cc))
      then if ps = [] then raise (Err ''Pod list is empty'')
           else let ips = map pod_hostIP ps in
             andThen (call (PutRegionIPs ips) (e_putRegionIPs E ips)) (\<lambda>_.
               writePolicy E cc (policyFor cc (CassandraHostPortPolicyName (cc_name cc)) ComponentCassandra
                 [rule [TlsPort, IntraPort, IcarusPort] (generatePeers ips)]))
      else ret ())"

definition addRegionIPs :: "'w env \<Rightarrow> cassandraCluster \<Rightarrow> managedRegion \<Rightarrow> string list \<Rightarrow> ('w, string list) run" where
  "addRegionIPs E cc r ips =
     (let host = ProberIngressDomain cc r in
      andThen (attempt (call (FetchRegionIPs host) (e_fetchRegionIPs E host))) (\<lambda>a.
        case a of Inr found \<Rightarrow> ret (ips @ found) | Inl _ \<Rightarrow> ret ips))"

definition getExternalCassandraIPs :: "'w env \<Rightarrow> cassandraCluster \<Rightarrow> ('w, string list) run" where
  "getExternalCassandraIPs E cc = foldAct (addRegionIPs E cc) (managedRegions cc) []"

definition cassandraClusterExternalManagedRegionsPolicy :: "'w env \<Rightarrow> cassandraCluster \<Rightarrow> ('w, unit) run" where
  "cassandraClusterExternalManagedRegionsPolicy E cc =
     (if hp_enabled (hostPortSpec (cc_spec cc)) \<and> length (managedRegions cc) > 0
      then andThen (getExternalCassandraIPs E cc) (\<lambda>casIPs.
             writePolicy E cc (policyFor cc (CassandraExternalManagedRegionsPolicyName (cc_name cc)) ComponentCassandra
               [rule [TlsPort, IntraPort, IcarusPort] (generatePeers casIPs)]))
      else ret ())"

definition addReaperIPs :: "'w env \<Rightarrow> cassandraCluster \<Rightarrow> managedRegion \<Rightarrow> string list \<Rightarrow> ('w, string list) run" where
  "addReaperIPs E cc r ips =
     (let host = ProberIngressDomain cc r in
      andThen (attempt (call (FetchReaperIPs host) (e_fetchReaperIPs E host))) (\<lambda>a.
        case a of Inr found \<Rightarrow> ret (ips @ found) | Inl _ \<Rightarrow> ret ips))"

definition getExternalReaperIPs :: "'w env \<Rightarrow> cassandraCluster \<Rightarrow> ('w, string list) run" where
  "getExternalReaperIPs E cc =
     andThen (attempt (call ListReaperPods (e_listReaperPods E))) (\<lambda>r.
       let ips = (case r of Inr ps \<Rightarrow> map pod_hostIP ps | Inl _ \<Rightarrow> []) in
       andThen (wrapErr ''Failed to update reaper ips'' (call (PutReaperIPs ips) (e_putReaperIPs E ips))) (\<lambda>_.
         foldAct (addReaperIPs E cc) (managedRegions cc) ips))"

definition cassandraClusterHostPortReaperPolicy :: "'w env \<Rightarrow> cassandraCluster \<Rightarrow> ('w, unit) run" where
  "cassandraClusterHostPortReaperPolicy E cc =
     andThen (lift (deref (np_allowReaperNodeIPs (networkPoliciesSpec (cc_spec cc))))) (\<lambda>allowed.
       if \<not> allowed \<or> \<not> hp_enabled (hostPortSpec (cc_spec cc)) then ret ()
       else andThen (getExternalReaperIPs E cc) (\<lambda>reaperIPs.
              writePolicy E cc (policyFor cc (CassandraHostPortReaperPolicyName (cc_name cc)) ComponentCassandra
                [rule [JmxPort] (generatePeers reaperIPs)])))"

definition extraRule :: "networkPolicyRule \<Rightarrow> ingressRule" where
  "extraRule r = rule (if length (npr_ports r) = 0 then [CqlPort] else npr_ports r) [userPeer r]"

definition cassandraClusterExtraRulesPolicy :: "'w env \<Rightarrow> cassandraCluster \<Rightarrow> ('w, unit) run" where
  "cassandraClusterExtraRulesPolicy E cc =
     (let extra = np_extraCassandraRules (networkPoliciesSpec (cc_spec cc)) in
      if length extra > 0
      then writePolicy E cc (policyFor cc (CassandraExtraRulesPolicyName (cc_name cc)) ComponentCassandra (map extraRule extra))
      else ret ())"

definition cassandraClusterExtraPrometheusRulesPolicy :: "'w env \<Rightarrow> cassandraCluster \<Rightarrow> ('w, unit) run" where
  "cassandraClusterExtraPrometheusRulesPolicy E cc =
     (let extra = slice (np_extraPrometheusRules (networkPoliciesSpec (cc_spec cc))) in
      if length extra = 0 then ret ()
      else andThen (lift (deref (cassandraSpec (cc_spec cc)))) (\<lambda>cas.
        if mon_enabled (cas_monitoring cas)
        then writePolicy E cc (policyFor cc (CassandraExtraPrometheusRulesPolicyName (cc_name cc)) ComponentCassandra
               (map (\<lambda>r. rule [getJavaAgentPort (mon_agent (cas_monitoring cas))] [userPeer r]) extra))
        else ret ()))"

definition cassandraClusterExtraIPsPolicy :: "'w env \<Rightarrow> cassandraCluster \<Rightarrow> ('w, unit) run" where
  "cassandraClusterExtraIPsPolicy E cc =
     (let ips = np_extraCassandraIPs (networkPoliciesSpec (cc_spec cc)) in
      if length ips > 0
      then writePolicy E cc (policyFor cc (CassandraExtraIpsPolicyName (cc_name cc)) ComponentCassandra
             [rule [TlsPort, IntraPort] (generatePeers ips)])
      else ret ())"

definition reconcileCassandraNetworkPolicies :: "'w env \<Rightarrow> string \<Rightarrow> cassandraCluster \<Rightarrow> pod list \<Rightarrow> ('w, unit) run" where
  "reconcileCassandraNetworkPolicies E opNs cc ps =
     forEach (wrapErr ''Failed to reconcile network policy'')
       [cassandraClusterPolicy E opNs cc, cassandraClusterHostportPolicy E cc ps,
        cassandraClusterExternalManagedRegionsPolicy E cc, cassandraClusterHostPortReaperPolicy E cc,
        cassandraClusterExtraRulesPolicy E cc, cassandraClusterExtraPrometheusRulesPolicy E cc,
        cassandraClusterExtraIPsPolicy E cc]"

section \<open>Policies of the prober and the reaper\<close>

definition insecureProberMsg :: string where
  "insecureProberMsg = ''Prober is not secured by network policies. You may setup `networkPolicies.extraIngressRules` to enable network policies for prober component''"

definition proberRules :: "string \<Rightarrow> cassandraCluster \<Rightarrow> networkPolicyRule list \<Rightarrow> ingressRule list" where
  "proberRules opNs cc extraIngress =
     (let np = networkPoliciesSpec (cc_spec cc) in
      [rule [ProberContainerPort] [componentPeer cc ComponentCassandra], rule [ProberContainerPort] [operatorPeer opNs]] @
      (if np_extraPrometheusRules np \<noteq> None \<and> sm_enabled (prb_serviceMonitor (proberOf (cc_spec cc)))
       then map (\<lambda>r. rule [ProberContainerPort] [userPeer r]) (slice (np_extraPrometheusRules np)) else []) @
      (if hp_enabled (hostPortSpec (cc_spec cc))
       then map (\<lambda>r. rule [ProberContainerPort] [userPeer r]) extraIngress else []))"

definition reconcileProberNetworkPolicies :: "'w env \<Rightarrow> string \<Rightarrow> cassandraCluster \<Rightarrow> ('w, unit) run" where
  "reconcileProberNetworkPolicies E opNs cc =
     (case np_extraIngressRules (networkPoliciesSpec (cc_spec cc)) of
        None \<Rightarrow> emit ''InsecureSetup'' insecureProberMsg
      | Some extraIngress \<Rightarrow>
          writePolicy E cc (policyFor cc (ProberNetworkPolicyName (cc_name cc)) ComponentProber (proberRules opNs cc extraIngress)))"

definition reconcileReaperNetworkPolicies :: "'w env \<Rightarrow> string \<Rightarrow> cassandraCluster \<Rightarrow> ('w, unit) run" where
  "reconcileReaperNetworkPolicies E opNs cc =
     (let np = networkPoliciesSpec (cc_spec cc); base = [rule [ReaperAppPort] [operatorPeer opNs]] in
      andThen
        (case np_extraPrometheusRules np of
           None \<Rightarrow> ret base
         | Some extra \<Rightarrow> andThen (lift (deref (reaperSpec (cc_spec cc)))) (\<lambda>reaper.
             ret (base @ (if sm_enabled (rea_serviceMonitor reaper)
                          then map (\<lambda>r. rule [ReaperAppPort] [userPeer r]) extra else [])))) (\<lambda>rules.
        writePolicy E cc (policyFor cc (ReaperNetworkPolicyName (cc_name cc)) ComponentReaper rules)))"

definition reconcileNetworkPolicies :: "'w env \<Rightarrow> string \<Rightarrow> cassandraCluster \<Rightarrow> pod list \<Rightarrow> ('w, unit) run" where
  "reconcileNetworkPolicies E opNs cc ps =
     (if np_enabled (networkPoliciesSpec (cc_spec cc))
      then andThen (wrapErr ''Failed to reconcile Cassandra Kubernetes Network Policies''
             (reconcileCassandraNetworkPolicies E opNs cc ps)) (\<lambda>_.
           andThen (wrapErr ''Failed to reconcile Prober Kubernetes Network Policies''
             (reconcileProberNetworkPolicies E opNs cc)) (\<lambda>_.
             wrapErr ''Failed to reconcile Repaer Kubernetes Network Policies'' (reconcileReaperNetworkPolicies E opNs cc)))
      else ret ())"

section \<open>Lemmas\<close>

lemma generatePeers_empty [simp]: "generatePeers ips = [] \<longleftrightarrow> ips = []"
proof -
  have "sort (Uniq ips) = [] \<longleftrightarrow> set (Uniq ips) = {}" by (metis set_empty set_sort)
  then show ?thesis by (simp add: generatePeers_def)
qed

lemma generatePeers_Nil [simp]: "generatePeers [] = []"
  by (simp add: generatePeers_def Uniq_def)

lemma rule_simps [simp]: "ir_from (rule ports from) = from" "ir_ports (rule ports from) = ports"
  by (simp_all add: rule_def)

text \<open>A policy whose rules all name their sources.\<close>

definition restricts :: "networkPolicy \<Rightarrow> bool" where
  "restricts p \<longleftrightarrow> (\<forall>r \<in> set (nwp_ingress p). ir_from r \<noteq> [])"

fun restrictedWrite :: "req \<Rightarrow> bool" where
  "restrictedWrite (CreateNetworkPolicy p) = restricts p"
| "restrictedWrite (UpdateNetworkPolicy p) = restricts p"
| "restrictedWrite _ = True"

lemma only_andThen_result:
  assumes "only P m" "\<And>x w. result m w = Inr x \<Longrightarrow> only P (f x)"
  shows "only P (andThen m f)"
  unfolding only_def
proof
  fix w
  show "\<forall>q \<in> set (trace (andThen m f) w). P q"
  proof (cases "result m w")
    case (Inr x)
    with assms(1) assms(2) [OF Inr] show ?thesis by (auto simp: only_def)
  qed (use assms(1) in \<open>simp add: only_def\<close>)
qed

lemma only_writePolicy [only_intros]:
  "restricts p \<Longrightarrow> only restrictedWrite (writePolicy E cc p)"
  unfolding writePolicy_def reconcileNetworkPolicy_def Let_def
  by (intro only_intros) (auto simp: restricts_def)

lemma restricts_policyFor [simp]: "restricts (policyFor cc n c rules) \<longleftrightarrow> (\<forall>r \<in> set rules. ir_from r \<noteq> [])"
  by (simp add: restricts_def policyFor_def)

lemma addIPs_grow:
  assumes "ips \<noteq> []"
  shows "result (addRegionIPs E cc r ips) w = Inr x \<Longrightarrow> x \<noteq> []"
    and "result (addReaperIPs E cc r ips) w = Inr x \<Longrightarrow> x \<noteq> []"
  using assms by (auto simp: addRegionIPs_def addReaperIPs_def Let_def split: sum.splits if_splits)

lemma casIPs_loop:
  "result (foldAct (addRegionIPs E cc) rs ips) w = Inr x \<Longrightarrow> ips \<noteq> [] \<Longrightarrow> x \<noteq> []"
proof (induction rs arbitrary: ips w)
  case (Cons r rs)
  from Cons.prems(1) obtain y where y: "result (addRegionIPs E cc r ips) w = Inr y"
    and rest: "result (foldAct (addRegionIPs E cc) rs y) (world (addRegionIPs E cc r ips) w) = Inr x"
    by (auto split: sum.splits)
  show ?case by (rule Cons.IH [OF rest addIPs_grow(1) [OF Cons.prems(2) y]])
qed simp

lemma reaperIPs_loop:
  "result (foldAct (addReaperIPs E cc) rs ips) w = Inr x \<Longrightarrow> ips \<noteq> [] \<Longrightarrow> x \<noteq> []"
proof (induction rs arbitrary: ips w)
  case (Cons r rs)
  from Cons.prems(1) obtain y where y: "result (addReaperIPs E cc r ips) w = Inr y"
    and rest: "result (foldAct (addReaperIPs E cc) rs y) (world (addReaperIPs E cc r ips) w) = Inr x"
    by (auto split: sum.splits)
  show ?case by (rule Cons.IH [OF rest addIPs_grow(2) [OF Cons.prems(2) y]])
qed simp

lemma getExternalCassandraIPs_nonempty:
  assumes "\<And>h v. \<exists>ips. fst (e_fetchRegionIPs E h v) = Inr ips \<and> ips \<noteq> []"
    and "managedRegions cc \<noteq> []" "result (getExternalCassandraIPs E cc) w = Inr casIPs"
  shows "casIPs \<noteq> []"
proof -
  obtain r rs where r: "managedRegions cc = r # rs" using assms(2) by (cases "managedRegions cc") auto
  obtain ips where ips: "fst (e_fetchRegionIPs E (ProberIngressDomain cc r) w) = Inr ips" "ips \<noteq> []" using assms(1) by blast
  then have "result (addRegionIPs E cc r []) w = Inr ips" by (simp add: addRegionIPs_def Let_def)
  with assms(3) r obtain v where "result (foldAct (addRegionIPs E cc) rs ips) v = Inr casIPs"
    by (auto simp: getExternalCassandraIPs_def)
  from casIPs_loop [OF this ips(2)] show ?thesis .
qed

lemma getExternalReaperIPs_nonempty:
  assumes "\<And>v. \<exists>p ps. fst (e_listReaperPods E v) = Inr (p # ps)"
    and "result (getExternalReaperIPs E cc) w = Inr ips"
  shows "ips \<noteq> []"
proof -
  obtain p ps where "fst (e_listReaperPods E w) = Inr (p # ps)" using assms(1) by blast
  with assms(2) obtain v where v: "result (foldAct (addReaperIPs E cc) (managedRegions cc) (map pod_hostIP (p # ps))) v = Inr ips"
    by (auto simp: getExternalReaperIPs_def Let_def split: sum.splits)
  from reaperIPs_loop [OF v] show ?thesis by simp
qed

lemma only_getExternal [only_intros]:
  "(\<And>h. P (FetchRegionIPs h)) \<Longrightarrow> only P (getExternalCassandraIPs E cc)"
  "(\<And>h. P (FetchReaperIPs h)) \<Longrightarrow> P ListReaperPods \<Longrightarrow> (\<And>ips. P (PutReaperIPs ips)) \<Longrightarrow> only P (getExternalReaperIPs E cc)"
  unfolding getExternalCassandraIPs_def getExternalReaperIPs_def addRegionIPs_def addReaperIPs_def Let_def
  by (intro only_intros; simp)+

lemma only_regionsPolicy:
  assumes "\<And>h v. \<exists>ips. fst (e_fetchRegionIPs E h v) = Inr ips \<and> ips \<noteq> []"
  shows "only restrictedWrite (cassandraClusterExternalManagedRegionsPolicy E cc)"
  unfolding cassandraClusterExternalManagedRegionsPolicy_def
  by (intro only_intros only_andThen_result) (use getExternalCassandraIPs_nonempty [OF assms] in auto)

lemma only_reaperPolicy:
  assumes "\<And>v. \<exists>p ps. fst (e_listReaperPods E v) = Inr (p # ps)"
  shows "only restrictedWrite (cassandraClusterHostPortReaperPolicy E cc)"
  unfolding cassandraClusterHostPortReaperPolicy_def
  by (intro only_intros only_andThen_result) (use getExternalReaperIPs_nonempty [OF assms] in auto)

lemma only_clusterPolicies:
  "only restrictedWrite (cassandraClusterPolicy E opNs cc)"
  "only restrictedWrite (cassandraClusterHostportPolicy E cc ps)"
  unfolding cassandraClusterPolicy_def clusterRules_def cassandraClusterHostportPolicy_def Let_def
  by (intro only_intros; simp)+

lemma only_extraPolicies:
  "only restrictedWrite (cassandraClusterExtraRulesPolicy E cc)"
  "only restrictedWrite (cassandraClusterExtraPrometheusRulesPolicy E cc)"
  "only restrictedWrite (cassandraClusterExtraIPsPolicy E cc)"
  unfolding cassandraClusterExtraRulesPolicy_def cassandraClusterExtraPrometheusRulesPolicy_def
    cassandraClusterExtraIPsPolicy_def extraRule_def Let_def
  by (intro only_intros; auto)+

lemma proberRules_from: "r \<in> set (proberRules opNs cc extra) \<Longrightarrow> ir_from r \<noteq> []"
  by (auto simp: proberRules_def Let_def split: if_splits)

lemma only_proberPolicies: "only restrictedWrite (reconcileProberNetworkPolicies E opNs cc)"
  unfolding reconcileProberNetworkPolicies_def by (intro only_intros) (simp_all add: proberRules_from)

lemma only_reaperPolicies: "only restrictedWrite (reconcileReaperNetworkPolicies E opNs cc)"
  unfolding reconcileReaperNetworkPolicies_def Let_def
proof (intro only_andThen_result, goal_cases)
  case 1
  show ?case by (intro only_intros)
next
  case (2 rules w)
  then have "\<forall>r \<in> set rules. ir_from r \<noteq> []" by (auto split: option.splits sum.splits if_splits)
  then show ?case by (intro only_intros) simp
qed

section \<open>Properties\<close>

text \<open>C16: When every managed region reports addresses of its nodes and the reaper pods are listed, each rule of each policy
  that is written names the peers it admits.\<close>

theorem policies_name_their_sources:
  assumes "\<And>h v. \<exists>ips. fst (e_fetchRegionIPs E h v) = Inr ips \<and> ips \<noteq> []"
    and "\<And>v. \<exists>p ps. fst (e_listReaperPods E v) = Inr (p # ps)"
  shows "\<forall>q \<in> set (trace (reconcileNetworkPolicies E opNs cc ps) w). restrictedWrite q"
proof -
  have "only restrictedWrite (reconcileNetworkPolicies E opNs cc ps)"
    unfolding reconcileNetworkPolicies_def reconcileCassandraNetworkPolicies_def
    by (intro only_intros) (use only_regionsPolicy [OF assms(1)] only_reaperPolicy [OF assms(2)] only_clusterPolicies
        only_extraPolicies only_proberPolicies only_reaperPolicies         in \<open>auto intro: only_intros\<close>)
  then show ?thesis by (simp add: only_def)
qed

text \<open>When no managed region answers, the policy for their nodes is written all the same, with a rule that names no
  peer: it admits every source to the ports between nodes and of the sidecar, although the log says that no rule is
  created for these regions.\<close>

theorem silent_regions_admit_everyone:
  assumes "hp_enabled (hostPortSpec (cc_spec cc))" "managedRegions cc \<noteq> []"
    and "\<And>h v. fst (e_fetchRegionIPs E h v) = Inl (Err msg)"
    and "e_controllerReference E cc = Inr owners" "\<And>k v. fst (e_getPolicy E k v) = Inl NotFound"
  shows "\<exists>p. CreateNetworkPolicy p \<in> set (trace (cassandraClusterExternalManagedRegionsPolicy E cc) w) \<and>
    nwp_podSelector p = [ClusterComponentLabel \<mapsto> ComponentCassandra] \<and>
    nwp_ingress p = [\<lparr>ir_ports = [TlsPort, IntraPort, IcarusPort], ir_from = []\<rparr>]"
proof -
  have "result (addRegionIPs E cc r []) v = Inr []" for r v
    using assms(3) by (simp add: addRegionIPs_def Let_def)
  then have "result (foldAct (addRegionIPs E cc) rs []) v = Inr []" for rs v
    by (induction rs arbitrary: v) auto
  then have ips: "result (getExternalCassandraIPs E cc) v = Inr []" for v
    by (simp add: getExternalCassandraIPs_def)
  let ?p = "(policyFor cc (CassandraExternalManagedRegionsPolicyName (cc_name cc)) ComponentCassandra
      [rule [TlsPort, IntraPort, IcarusPort] (generatePeers [])])\<lparr>nwp_ownerReferences := owners\<rparr>"
  have "CreateNetworkPolicy ?p \<in> set (trace (cassandraClusterExternalManagedRegionsPolicy E cc) w)"
    using assms(1,2,4,5) by (simp add: cassandraClusterExternalManagedRegionsPolicy_def ips writePolicy_def
        reconcileNetworkPolicy_def isNotFound_def policyFor_def Let_def)
  then show ?thesis by (intro exI [of _ ?p]) (simp add: policyFor_def rule_def)
qed

text \<open>Once network policies are switched off, a successful pass has deleted every policy of the cluster and writes none.\<close>

theorem disabled_policies_removed:
  assumes "\<not> np_enabled (networkPoliciesSpec (cc_spec cc))" "fst (e_listPolicies E w) = Inr nps"
    and "result (cleanupNetworkPolicies E cc) w = Inr ()"
  shows "trace (cleanupNetworkPolicies E cc) w = ListNetworkPolicies # map DeleteNetworkPolicy nps \<and>
    trace (reconcileNetworkPolicies E opNs cc ps) v = []"
proof -
  let ?del = "\<lambda>p. wrapErr (''Failed to delete network policy '' @ nwp_name p) (call (DeleteNetworkPolicy p) (e_deletePolicy E p))"
  have "result (forEach ?del xs) u = Inr () \<Longrightarrow> trace (forEach ?del xs) u = map DeleteNetworkPolicy xs" for xs u
    by (induction xs arbitrary: u) (auto split: sum.splits)
  then show ?thesis
    using assms by (simp add: cleanupNetworkPolicies_def reconcileNetworkPolicies_def)
qed

section \<open>Examples\<close>

definition policyRegions :: cassandraCluster where
  "policyRegions = runningCluster\<lparr>cc_spec := (cc_spec runningCluster)
     \<lparr>hostPortSpec := \<lparr>hp_enabled = True, hp_useExternalHostIP = False, hp_ports = []\<rparr>,
      externalRegionsSpec := \<lparr>er_managed = Some [\<lparr>mr_domain = ''east.org'', mr_namespace = ''ns''\<rparr>], er_unmanaged = []\<rparr>\<rparr>\<rparr>"

definition securedRegions :: cassandraCluster where
  "securedRegions = policyRegions\<lparr>cc_spec := (cc_spec policyRegions)\<lparr>networkPoliciesSpec :=
     (networkPoliciesSpec (cc_spec policyRegions))\<lparr>np_enabled := True, np_allowReaperNodeIPs := Some True\<rparr>\<rparr>\<rparr>"

definition answeringRegions :: "unit env" where
  "answeringRegions = quietEnv\<lparr>e_fetchRegionIPs := \<lambda>_ w. (Inr [''10.1.1.1''], w),
     e_listReaperPods := \<lambda>w. (Inr [samplePod ''r'' True], w)\<rparr>"

lemma answeringRegions_simps:
  "e_fetchRegionIPs answeringRegions h w = (Inr [''10.1.1.1''], w)" "e_listReaperPods answeringRegions w = (Inr [samplePod ''r'' True], w)"
  "e_controllerReference answeringRegions cc = Inr [cc_name cc]" "e_getPolicy answeringRegions k w = (Inl NotFound, w)"
  "e_createPolicy answeringRegions p w = (Inr (), w)" "e_putRegionIPs answeringRegions ips w = (Inr (), w)"
  by (simp_all add: answeringRegions_def quietEnv_def)

abbreviation policyPass :: "(unit, unit) run" where
  "policyPass \<equiv> reconcileNetworkPolicies answeringRegions ''op'' securedRegions [samplePod ''c-0'' True]"

lemma policyPass_writes:
  "FetchRegionIPs (ProberIngressDomain securedRegions \<lparr>mr_domain = ''east.org'', mr_namespace = ''ns''\<rparr>) \<in> set (trace policyPass ()) \<and>
   ListReaperPods \<in> set (trace policyPass ()) \<and>
   (\<exists>p. CreateNetworkPolicy p \<in> set (trace policyPass ()) \<and>
      nwp_ingress p = [rule [TlsPort, IntraPort, IcarusPort] (generatePeers [''10.1.1.1''])])"
proof -
  have cc: "np_enabled (networkPoliciesSpec (cc_spec securedRegions))" "hp_enabled (hostPortSpec (cc_spec securedRegions))"
    "np_allowReaperNodeIPs (networkPoliciesSpec (cc_spec securedRegions)) = Some True"
    "managedRegions securedRegions = [\<lparr>mr_domain = ''east.org'', mr_namespace = ''ns''\<rparr>]"
    by (simp_all add: securedRegions_def policyRegions_def managedRegions_def)
  have w: "result (writePolicy answeringRegions cc p) () = Inr ()"
    "trace (writePolicy answeringRegions cc p) () =
       [GetNetworkPolicy (cc_namespace cc, nwp_name p), CreateNetworkPolicy (p\<lparr>nwp_ownerReferences := [cc_name cc]\<rparr>)]" for cc p
    by (simp_all add: writePolicy_def reconcileNetworkPolicy_def answeringRegions_simps isNotFound_def Let_def)
  let ?p = "(policyFor securedRegions (CassandraExternalManagedRegionsPolicyName (cc_name securedRegions)) ComponentCassandra
      [rule [TlsPort, IntraPort, IcarusPort] (generatePeers [''10.1.1.1''])])\<lparr>nwp_ownerReferences := [cc_name securedRegions]\<rparr>"
  have "FetchRegionIPs (ProberIngressDomain securedRegions \<lparr>mr_domain = ''east.org'', mr_namespace = ''ns''\<rparr>) \<in> set (trace policyPass ()) \<and>
     ListReaperPods \<in> set (trace policyPass ()) \<and> CreateNetworkPolicy ?p \<in> set (trace policyPass ())"
    by (simp add: reconcileNetworkPolicies_def reconcileCassandraNetworkPolicies_def cassandraClusterPolicy_def
        cassandraClusterHostportPolicy_def cassandraClusterExternalManagedRegionsPolicy_def
        cassandraClusterHostPortReaperPolicy_def getExternalCassandraIPs_def getExternalReaperIPs_def addRegionIPs_def
        cc w answeringRegions_simps Let_def)
  moreover have "nwp_ingress ?p = [rule [TlsPort, IntraPort, IcarusPort] (generatePeers [''10.1.1.1''])]"
    by (simp add: policyFor_def)
  ultimately show ?thesis by blast
qed

theorem policies_name_their_sources_witness:
  "FetchRegionIPs (ProberIngressDomain securedRegions \<lparr>mr_domain = ''east.org'', mr_namespace = ''ns''\<rparr>) \<in> set (trace policyPass ()) \<and>
   ListReaperPods \<in> set (trace policyPass ()) \<and>
   (\<exists>p. CreateNetworkPolicy p \<in> set (trace policyPass ()) \<and>
      nwp_ingress p = [rule [TlsPort, IntraPort, IcarusPort] (generatePeers [''10.1.1.1''])]) \<and>
   set (trace policyPass ()) \<subseteq> Collect restrictedWrite"
proof -
  have "set (trace policyPass ()) \<subseteq> Collect restrictedWrite"
    by (rule subsetI, rule CollectI, rule policies_name_their_sources [THEN bspec]) (simp_all add: answeringRegions_simps)
  with policyPass_writes show ?thesis by blast
qed

theorem silent_regions_admit_everyone_witness:
  "\<exists>p. CreateNetworkPolicy p \<in> set (trace (cassandraClusterExternalManagedRegionsPolicy
      (quietEnv\<lparr>e_fetchRegionIPs := \<lambda>_ w. (Inl (Err ''timeout''), w)\<rparr>) policyRegions) ()) \<and>
    nwp_podSelector p = [ClusterComponentLabel \<mapsto> ComponentCassandra] \<and>
    nwp_ingress p = [\<lparr>ir_ports = [TlsPort, IntraPort, IcarusPort], ir_from = []\<rparr>]"
  by (rule silent_regions_admit_everyone) (simp_all add: policyRegions_def managedRegions_def quietEnv_def)

theorem disabled_policies_removed_witness:
  "trace (cleanupNetworkPolicies quietEnv runningCluster) () = [ListNetworkPolicies]"
  using disabled_policies_removed [of runningCluster quietEnv "()" "[]"]
  by (simp add: runningCluster_def sampleCluster_def cleanupNetworkPolicies_def) (simp add: quietEnv_def)

end
