(* ===== verification/Defaults.thy ===== *)
theory Defaults
  imports Scaling Go_Parse
begin

text \<open>
  The values the operator fills into the specification before it reconciles: \<open>controllers/defaults.go\<close>, with the
  configuration of \<open>controllers/config/config.go\<close>.
  The lemmas say that filling in twice is filling in once, that what the user set stays, and that the pointers the
  reconcilers dereference are set afterwards.
\<close>

section \<open>Configuration and constants\<close>

record operatorConfig =
  cfg_namespace :: string
  cfg_defaultCassandraImage :: string
  cfg_defaultProberImage :: string
  cfg_defaultJolokiaImage :: string
  cfg_defaultReaperImage :: string
  cfg_defaultIcarusImage :: string
  cfg_retryDelay :: int

definition defaultCQLConfigMapLabelKey :: string where "defaultCQLConfigMapLabelKey = ''cql-scripts''"
definition jmxAuthenticationInternal :: string where "jmxAuthenticationInternal = ''internal''"
definition PullIfNotPresent :: string where "PullIfNotPresent = ''IfNotPresent''"

definition defaultCipherSuites :: "string list" where
  "defaultCipherSuites =
     [''TLS_ECDHE_RSA_WITH_AES_128_CBC_SHA'', ''TLS_ECDH_RSA_WITH_AES_128_CBC_SHA'',
      ''TLS_ECDH_ECDSA_WITH_AES_256_CBC_SHA'', ''TLS_ECDHE_ECDSA_WITH_AES_128_CBC_SHA'',
      ''TLS_RSA_WITH_AES_128_CBC_SHA'', ''TLS_RSA_WITH_AES_256_CBC_SHA'',
      ''TLS_ECDHE_ECDSA_WITH_AES_256_CBC_SHA'', ''TLS_ECDHE_RSA_WITH_AES_256_CBC_SHA'']"

definition orDefault :: "string \<Rightarrow> string \<Rightarrow> string" where
  "orDefault s d = (if s = '''' then d else s)"

definition orSome :: "'a option \<Rightarrow> 'a \<Rightarrow> 'a option" where
  "orSome p d = (case p of None \<Rightarrow> Some d | Some x \<Rightarrow> Some x)"

definition orNumber :: "int \<Rightarrow> int \<Rightarrow> int" where
  "orNumber n d = (if n = 0 then d else n)"

text \<open>The interval of a service monitor that is enabled, unless the user's can be parsed.\<close>

definition defaultInterval :: "string \<Rightarrow> serviceMonitor \<Rightarrow> serviceMonitor" where
  "defaultInterval d sm =
     (if sm_enabled sm \<and> \<not> ParseDurationOk (sm_scrapeInterval sm) then sm\<lparr>sm_scrapeInterval := d\<rparr> else sm)"

section \<open>Cassandra\<close>

definition defaultMonitoring :: "monitoring \<Rightarrow> monitoring" where
  "defaultMonitoring m =
     (if \<not> mon_enabled m then m
      else m\<lparr>mon_agent := orDefault (mon_agent m) ''tlp'', mon_serviceMonitor := defaultInterval ''30s'' (mon_serviceMonitor m)\<rparr>)"

definition defaultClaim :: "persistentVolumeClaimSpec \<Rightarrow> persistentVolumeClaimSpec" where
  "defaultClaim c = c\<lparr>pvc_volumeMode := orSome (pvc_volumeMode c) ''Filesystem'', pvc_accessModes := [''ReadWriteOnce'']\<rparr>"

definition defaultPersistence :: "persistence \<Rightarrow> persistence" where
  "defaultPersistence p =
     p\<lparr>pst_dataVolumeClaimSpec := defaultClaim (pst_dataVolumeClaimSpec p),
       pst_commitLogVolumeClaimSpec := defaultClaim (pst_commitLogVolumeClaimSpec p)\<rparr>"

definition noMonitor :: serviceMonitor where
  "noMonitor = \<lparr>sm_enabled = False, sm_namespace = '''', sm_labels = Map.empty, sm_scrapeInterval = ''''\<rparr>"

definition noClaim :: persistentVolumeClaimSpec where
  "noClaim = \<lparr>pvc_volumeMode = None, pvc_accessModes = [], pvc_storageClassName = None, pvc_rest = ''''\<rparr>"

text \<open>The zero value \<open>Cassandra{}\<close>.\<close>

definition emptyCassandra :: cassandra where
  "emptyCassandra = \<lparr>cas_image = '''', cas_imagePullPolicy = '''', cas_resources = '''', cas_logLevel = '''', cas_numSeeds = 0,
     cas_terminationGracePeriodSeconds = None, cas_purgeGossip = None,
     cas_persistence = \<lparr>pst_enabled = False, pst_commitLogVolume = False, pst_labels = Map.empty, pst_annotations = Map.empty,
       pst_dataVolumeClaimSpec = noClaim, pst_commitLogVolumeClaimSpec = noClaim\<rparr>,
     cas_zonesAsRacks = False, cas_jvmOptions = [], cas_sysctls = None,
     cas_monitoring = \<lparr>mon_enabled = False, mon_agent = '''', mon_serviceMonitor = noMonitor\<rparr>, cas_configOverrides = ''''\<rparr>"

definition defaultCassandra :: "operatorConfig \<Rightarrow> cassandra option \<Rightarrow> cassandra" where
  "defaultCassandra cfg p =
     (let c = (case p of None \<Rightarrow> emptyCassandra | Some c \<Rightarrow> c) in
      c\<lparr>cas_image := orDefault (cas_image c) (cfg_defaultCassandraImage cfg),
        cas_imagePullPolicy := orDefault (cas_imagePullPolicy c) PullIfNotPresent,
        cas_numSeeds := orNumber (cas_numSeeds c) 2, cas_purgeGossip := orSome (cas_purgeGossip c) True,
        cas_logLevel := orDefault (cas_logLevel c) ''info'',
        cas_terminationGracePeriodSeconds := orSome (cas_terminationGracePeriodSeconds c) 300,
        cas_persistence := defaultPersistence (cas_persistence c), cas_monitoring := defaultMonitoring (cas_monitoring c)\<rparr>)"

definition theSysctls :: strmap where
  "theSysctls = [''net.ipv4.ip_local_port_range'' \<mapsto> ''1025 65535'', ''net.ipv4.tcp_rmem'' \<mapsto> ''4096 87380 16777216'',
     ''net.ipv4.tcp_wmem'' \<mapsto> ''4096 65536 16777216'', ''net.core.somaxconn'' \<mapsto> ''65000'', ''net.ipv4.tcp_ecn'' \<mapsto> ''0'',
     ''net.ipv4.tcp_window_scaling'' \<mapsto> ''1'', ''vm.dirty_background_bytes'' \<mapsto> ''10485760'',
     ''vm.dirty_bytes'' \<mapsto> ''1073741824'', ''vm.zone_reclaim_mode'' \<mapsto> ''0'', ''fs.file-max'' \<mapsto> ''1073741824'',
     ''vm.max_map_count'' \<mapsto> ''1073741824'', ''vm.swappiness'' \<mapsto> ''1'']"

definition defaultSysctls :: "cassandra \<Rightarrow> cassandra" where
  "defaultSysctls c = c\<lparr>cas_sysctls := (case cas_sysctls c of None \<Rightarrow> Some theSysctls | Some m \<Rightarrow> Some (theSysctls ++ m))\<rparr>"

section \<open>Prober, sidecar and reaper\<close>

definition defaultProber :: "operatorConfig \<Rightarrow> proberSpec \<Rightarrow> proberSpec" where
  "defaultProber cfg p =
     p\<lparr>prb_image := orDefault (prb_image p) (cfg_defaultProberImage cfg),
       prb_imagePullPolicy := orDefault (prb_imagePullPolicy p) PullIfNotPresent,
       prb_logLevel := orDefault (prb_logLevel p) ''info'', prb_logFormat := orDefault (prb_logFormat p) ''json'',
       prb_jolokia := (prb_jolokia p)\<lparr>jol_image := orDefault (jol_image (prb_jolokia p)) (cfg_defaultJolokiaImage cfg),
         jol_imagePullPolicy := orDefault (jol_imagePullPolicy (prb_jolokia p)) PullIfNotPresent\<rparr>,
       prb_serviceMonitor := defaultInterval ''30s'' (prb_serviceMonitor p)\<rparr>"

definition defaultIcarus :: "operatorConfig \<Rightarrow> icarusSpec \<Rightarrow> icarusSpec" where
  "defaultIcarus cfg i =
     i\<lparr>ica_image := orDefault (ica_image i) (cfg_defaultIcarusImage cfg),
       ica_imagePullPolicy := orDefault (ica_imagePullPolicy i) PullIfNotPresent\<rparr>"

text \<open>The zero value \<open>Reaper{}\<close>.\<close>

definition emptyReaper :: reaper where
  "emptyReaper = \<lparr>rea_image = '''', rea_imagePullPolicy = '''', rea_keyspace = '''', rea_tolerations = [],
     rea_nodeSelector = Map.empty, rea_hangingRepairTimeoutMins = 0, rea_incrementalRepair = False,
     rea_repairIntensity = '''', rea_repairManagerSchedulingIntervalSeconds = 0, rea_blacklistTWCS = False,
     rea_resources = '''', rea_serviceMonitor = noMonitor, rea_repairSchedules = \<lparr>rss_enabled = False, rss_repairs = None\<rparr>,
     rea_autoScheduling = \<lparr>as_enabled = False, as_initialDelayPeriod = '''', as_periodBetweenPolls = '''',
       as_timeBeforeFirstSchedule = '''', as_scheduleSpreadPeriod = '''', as_excludedKeyspaces = []\<rparr>,
     rea_repairParallelism = '''', rea_repairRunThreads = 0, rea_repairThreadCount = 0, rea_segmentCountPerNode = 0,
     rea_maxParallelRepairs = 0\<rparr>"

text \<open>An incremental repair runs in parallel, whatever the user set.\<close>

definition defaultRepair :: "dc list \<Rightarrow> repairSchedule \<Rightarrow> repairSchedule" where
  "defaultRepair dcs r =
     r\<lparr>rs_repairParallelism := (if rs_incrementalRepair r then ''PARALLEL''
         else orDefault (rs_repairParallelism r) ''DATACENTER_AWARE''),
       rs_scheduleDaysBetween := orNumber (rs_scheduleDaysBetween r) 7, rs_intensity := orDefault (rs_intensity r) ''1.0'',
       rs_datacenters := (if length (rs_datacenters r) = 0 \<and> length (rs_nodes r) = 0 then map dc_name dcs else rs_datacenters r),
       rs_repairThreadCount := orNumber (rs_repairThreadCount r) 2\<rparr>"

definition defaultReaper :: "operatorConfig \<Rightarrow> dc list \<Rightarrow> reaper option \<Rightarrow> reaper" where
  "defaultReaper cfg dcs p =
     (let r = (case p of None \<Rightarrow> emptyReaper | Some r \<Rightarrow> r) in
      r\<lparr>rea_serviceMonitor := defaultInterval ''60s'' (rea_serviceMonitor r), rea_keyspace := orDefault (rea_keyspace r) ''reaper'',
        rea_image := orDefault (rea_image r) (cfg_defaultReaperImage cfg),
        rea_imagePullPolicy := orDefault (rea_imagePullPolicy r) PullIfNotPresent,
        rea_repairIntensity := orDefault (rea_repairIntensity r) ''1.0'',
        rea_repairParallelism := orDefault (rea_repairParallelism r) ''DATACENTER_AWARE'',
        rea_repairThreadCount := orNumber (rea_repairThreadCount r) 1,
        rea_repairSchedules := (rea_repairSchedules r)
          \<lparr>rss_repairs := map_option (map (defaultRepair dcs)) (rss_repairs (rea_repairSchedules r))\<rparr>\<rparr>)"

section \<open>Encryption\<close>

definition defaultCATLSKeys :: "caTLSSecret \<Rightarrow> caTLSSecret" where
  "defaultCATLSKeys c = c\<lparr>ca_fileKey := orDefault (ca_fileKey c) ''ca.key'', ca_crtFileKey := orDefault (ca_crtFileKey c) ''ca.crt''\<rparr>"

definition defaultNodeTLSKeys :: "nodeTLSSecret \<Rightarrow> nodeTLSSecret" where
  "defaultNodeTLSKeys n =
     n\<lparr>node_fileKey := orDefault (node_fileKey n) ''tls.key'', node_crtFileKey := orDefault (node_crtFileKey n) ''tls.crt'',
       node_caCrtFileKey := orDefault (node_caCrtFileKey n) ''ca.crt'',
       node_keystoreFileKey := orDefault (node_keystoreFileKey n) ''keystore.p12'',
       node_keystorePasswordKey := orDefault (node_keystorePasswordKey n) ''keystore.password'',
       node_truststoreFileKey := orDefault (node_truststoreFileKey n) ''truststore.p12'',
       node_truststorePasswordKey := orDefault (node_truststorePasswordKey n) ''truststore.password'',
       node_generateKeystorePassword := orDefault (node_generateKeystorePassword n) ''cassandra''\<rparr>"

definition defaultServerTLS :: "serverEncryption \<Rightarrow> serverEncryption" where
  "defaultServerTLS s =
     s\<lparr>se_internodeEncryption := orDefault (se_internodeEncryption s) InternodeEncryptionNone,
       se_requireClientAuth := orSome (se_requireClientAuth s) True, se_protocol := orDefault (se_protocol s) ''TLS'',
       se_algorithm := orDefault (se_algorithm s) ''SunX509'', se_storeType := orDefault (se_storeType s) ''PKCS12'',
       se_cipherSuites := (if length (se_cipherSuites s) = 0 then defaultCipherSuites else se_cipherSuites s),
       se_caTLSSecret := defaultCATLSKeys (se_caTLSSecret s), se_nodeTLSSecret := defaultNodeTLSKeys (se_nodeTLSSecret s)\<rparr>"

definition defaultClientTLS :: "clientEncryption \<Rightarrow> clientEncryption" where
  "defaultClientTLS c =
     c\<lparr>ce_requireClientAuth := orSome (ce_requireClientAuth c) True, ce_protocol := orDefault (ce_protocol c) ''TLS'',
       ce_algorithm := orDefault (ce_algorithm c) ''SunX509'', ce_storeType := orDefault (ce_storeType c) ''PKCS12'',
       ce_cipherSuites := (if length (ce_cipherSuites c) = 0 then defaultCipherSuites else ce_cipherSuites c),
       ce_caTLSSecret := defaultCATLSKeys (ce_caTLSSecret c), ce_nodeTLSSecret := defaultNodeTLSKeys (ce_nodeTLSSecret c)\<rparr>"

section \<open>The cluster\<close>

text \<open>A maintenance entry without pods stands for all pods of its datacentre.\<close>

fun dcPods :: "string \<Rightarrow> string \<Rightarrow> dc list \<Rightarrow> go_error + podName list" where
  "dcPods c entryDC [] = Inr []"
| "dcPods c entryDC (d # ds) =
     (if entryDC = dc_name d
      then bindE (deref (dc_replicas d)) (\<lambda>n. bindE (dcPods c entryDC ds) (\<lambda>rest.
             Inr (map (\<lambda>j. PodName (ordinalName (DC c (dc_name d)) j)) (below n) @ rest)))
      else dcPods c entryDC ds)"

definition defaultMaintenance :: "string \<Rightarrow> dc list \<Rightarrow> maintenance \<Rightarrow> go_error + maintenance" where
  "defaultMaintenance c ds e =
     (if length (mnt_pods e) = 0 then bindE (dcPods c (mnt_dc e) ds) (\<lambda>ps. Inr (e\<lparr>mnt_pods := ps\<rparr>)) else Inr e)"

definition defaultCassandraCluster :: "operatorConfig \<Rightarrow> cassandraCluster \<Rightarrow> go_error + cassandraCluster" where
  "defaultCassandraCluster cfg cc =
     (let s = cc_spec cc; np = networkPoliciesSpec s; enc = encryptionSpec s in
      bindE (mapE (defaultMaintenance (cc_name cc) (spec_dcs s)) (maintenanceSpec s)) (\<lambda>m.
        Inr (cc\<lparr>cc_spec := s\<lparr>
          cqlConfigMapLabelKey := orDefault (cqlConfigMapLabelKey s) defaultCQLConfigMapLabelKey,
          cassandraSpec := Some (defaultSysctls (defaultCassandra cfg (cassandraSpec s))),
          proberOf := defaultProber cfg (proberOf s), icarusOf := defaultIcarus cfg (icarusOf s),
          reaperSpec := Some (defaultReaper cfg (spec_dcs s) (reaperSpec s)),
          maintenanceSpec := m, jmxAuth := orDefault (jmxAuth s) jmxAuthenticationInternal,
          topologySpreadByZone := orSome (topologySpreadByZone s) True,
          networkPoliciesSpec := np\<lparr>np_allowReaperNodeIPs := orSome (np_allowReaperNodeIPs np) True\<rparr>,
          encryptionSpec := \<lparr>enc_server = defaultServerTLS (enc_server enc), enc_client = defaultClientTLS (enc_client enc)\<rparr>\<rparr>\<rparr>)))"

section \<open>Lemmas\<close>

lemma orDefault_idem [simp]: "orDefault (orDefault s d) d = orDefault s d"
  by (simp add: orDefault_def)

lemma orDefault_set [simp]: "s \<noteq> '''' \<Longrightarrow> orDefault s d = s"
  by (simp add: orDefault_def)

lemma orSome_idem [simp]: "orSome (orSome p d) d = orSome p d"
  by (simp add: orSome_def split: option.splits)

lemma orSome_set [simp]: "orSome (Some x) d = Some x" "orSome p d \<noteq> None"
  by (simp_all add: orSome_def split: option.splits)

lemma orNumber_idem [simp]: "orNumber (orNumber n d) d = orNumber n d"
  by (simp add: orNumber_def)

lemma defaultInterval_idem [simp]: "ParseDurationOk d \<Longrightarrow> defaultInterval d (defaultInterval d sm) = defaultInterval d sm"
  by (simp add: defaultInterval_def)

lemma defaultMonitoring_idem [simp]: "defaultMonitoring (defaultMonitoring m) = defaultMonitoring m"
  using durations(1) by (simp add: defaultMonitoring_def)

lemma defaultClaim_idem [simp]: "defaultClaim (defaultClaim c) = defaultClaim c"
  by (simp add: defaultClaim_def)

lemma defaultPersistence_idem [simp]: "defaultPersistence (defaultPersistence p) = defaultPersistence p"
  by (simp add: defaultPersistence_def)

lemma map_add_absorb [simp]: "m ++ (m ++ n) = m ++ n"
  by (auto simp: map_add_def fun_eq_iff split: option.splits)

declare map_add_self [simp]

lemma defaultCassandra_idem [simp]:
  "defaultSysctls (defaultCassandra cfg (Some (defaultSysctls (defaultCassandra cfg p)))) = defaultSysctls (defaultCassandra cfg p)"
  by (simp add: defaultCassandra_def defaultSysctls_def Let_def split: option.splits)

lemma defaultProber_idem [simp]: "defaultProber cfg (defaultProber cfg p) = defaultProber cfg p"
  using durations(1) by (simp add: defaultProber_def)

lemma defaultIcarus_idem [simp]: "defaultIcarus cfg (defaultIcarus cfg p) = defaultIcarus cfg p"
  by (simp add: defaultIcarus_def)

lemma defaultRepair_idem [simp]: "defaultRepair dcs (defaultRepair dcs r) = defaultRepair dcs r"
  by (simp add: defaultRepair_def)

lemma defaultReaper_idem [simp]:
  "defaultReaper cfg dcs (Some (defaultReaper cfg dcs p)) = defaultReaper cfg dcs p"
  using durations(2) by (simp add: defaultReaper_def Let_def option.map_comp comp_def split: option.splits)

lemma defaultCATLSKeys_idem [simp]: "defaultCATLSKeys (defaultCATLSKeys c) = defaultCATLSKeys c"
  by (simp add: defaultCATLSKeys_def)

lemma defaultNodeTLSKeys_idem [simp]: "defaultNodeTLSKeys (defaultNodeTLSKeys n) = defaultNodeTLSKeys n"
  by (simp add: defaultNodeTLSKeys_def)

lemma defaultCipherSuites_nonempty [simp]: "defaultCipherSuites \<noteq> []"
  by (simp add: defaultCipherSuites_def)

lemma defaultTLS_idem [simp]:
  "defaultServerTLS (defaultServerTLS s) = defaultServerTLS s" "defaultClientTLS (defaultClientTLS c) = defaultClientTLS c"
  by (simp_all add: defaultServerTLS_def defaultClientTLS_def)

lemma defaultMaintenance_idem:
  "defaultMaintenance c ds e = Inr e' \<Longrightarrow> defaultMaintenance c ds e' = Inr e'"
  by (auto simp: defaultMaintenance_def bindE_Inr_iff split: if_splits)

lemma mapE_idem: "(\<And>x y. f x = Inr y \<Longrightarrow> f y = Inr y) \<Longrightarrow> mapE f xs = Inr ys \<Longrightarrow> mapE f ys = Inr ys"
  by (induction xs arbitrary: ys) (auto simp: bindE_Inr_iff)

text \<open>What must be there for the reconcilers not to dereference nil.\<close>

definition cassandraComplete :: "cassandra \<Rightarrow> bool" where
  "cassandraComplete c \<longleftrightarrow> cas_numSeeds c \<noteq> 0 \<and> cas_purgeGossip c \<noteq> None \<and>
     cas_terminationGracePeriodSeconds c \<noteq> None \<and> cas_sysctls c \<noteq> None"

definition reaperComplete :: "reaper \<Rightarrow> bool" where
  "reaperComplete r \<longleftrightarrow> rea_keyspace r \<noteq> '''' \<and> rea_repairThreadCount r \<noteq> 0 \<and>
     (\<forall>s \<in> set (slice (rss_repairs (rea_repairSchedules r))). rs_incrementalRepair s \<longrightarrow> rs_repairParallelism s = ''PARALLEL'')"

definition complete :: "cassandraCluster \<Rightarrow> bool" where
  "complete cc \<longleftrightarrow>
     (\<exists>c. cassandraSpec (cc_spec cc) = Some c \<and> cassandraComplete c) \<and>
     (\<exists>r. reaperSpec (cc_spec cc) = Some r \<and> reaperComplete r) \<and>
     np_allowReaperNodeIPs (networkPoliciesSpec (cc_spec cc)) \<noteq> None \<and>
     topologySpreadByZone (cc_spec cc) \<noteq> None \<and>
     se_requireClientAuth (enc_server (encryptionSpec (cc_spec cc))) \<noteq> None \<and>
     ce_requireClientAuth (enc_client (encryptionSpec (cc_spec cc))) \<noteq> None \<and>
     (\<forall>d \<in> set (spec_dcs (cc_spec cc)). dc_replicas d \<noteq> None)"

lemma cassandraComplete_default: "cassandraComplete (defaultSysctls (defaultCassandra cfg p))"
  by (simp add: cassandraComplete_def defaultSysctls_def defaultCassandra_def orNumber_def Let_def split: option.splits)

lemma reaperComplete_default: "reaperComplete (defaultReaper cfg ds p)"
  by (auto simp: reaperComplete_def defaultReaper_def defaultRepair_def orNumber_def orDefault_def slice_def Let_def
      split: option.splits)

lemma orSome_ex [simp]: "\<exists>x. orSome p d = Some x"
  by (simp add: orSome_def split: option.splits)

section \<open>Properties\<close>

text \<open>C17: Filling in the defaults a second time changes nothing.\<close>

theorem defaults_idempotent:
  assumes "defaultCassandraCluster cfg cc = Inr cc'"
  shows "defaultCassandraCluster cfg cc' = Inr cc'"
proof -
  obtain m where m: "mapE (defaultMaintenance (cc_name cc) (spec_dcs (cc_spec cc))) (maintenanceSpec (cc_spec cc)) = Inr m"
    using assms by (auto simp: defaultCassandraCluster_def Let_def bindE_Inr_iff)
  have "mapE (defaultMaintenance (cc_name cc) (spec_dcs (cc_spec cc))) m = Inr m"
    by (rule mapE_idem [OF defaultMaintenance_idem m])
  with assms m show ?thesis
    by (auto simp: defaultCassandraCluster_def Let_def bindE_Inr_iff)
qed

text \<open>C18: After the defaults are filled in, every pointer of the specification that the reconcilers dereference is set, the
  numbers of seeds and of repair threads are not zero, and every incremental repair is scheduled as a parallel one. The
  replicas of the datacentres have no default: the schema of the custom resource requires them (\<open>required: name, replicas\<close>
  under \<open>dcs\<close> in \<open>config/crd/bases/db.ibm.com_cassandraclusters.yaml\<close>), and the defaults keep them.\<close>

theorem defaults_complete:
  assumes "defaultCassandraCluster cfg cc = Inr cc'" "\<forall>d \<in> set (spec_dcs (cc_spec cc)). dc_replicas d \<noteq> None"
  shows "complete cc'"
proof -
  from assms obtain m where "cc' = cc\<lparr>cc_spec := cc_spec cc'\<rparr>"
    and spec: "cassandraSpec (cc_spec cc') = Some (defaultSysctls (defaultCassandra cfg (cassandraSpec (cc_spec cc))))"
      "reaperSpec (cc_spec cc') = Some (defaultReaper cfg (spec_dcs (cc_spec cc)) (reaperSpec (cc_spec cc)))"
      "topologySpreadByZone (cc_spec cc') = orSome (topologySpreadByZone (cc_spec cc)) True"
      "np_allowReaperNodeIPs (networkPoliciesSpec (cc_spec cc')) = orSome (np_allowReaperNodeIPs (networkPoliciesSpec (cc_spec cc))) True"
      "encryptionSpec (cc_spec cc') = \<lparr>enc_server = defaultServerTLS (enc_server (encryptionSpec (cc_spec cc))),
         enc_client = defaultClientTLS (enc_client (encryptionSpec (cc_spec cc)))\<rparr>"
      "spec_dcs (cc_spec cc') = spec_dcs (cc_spec cc)"
    by (auto simp: defaultCassandraCluster_def Let_def bindE_Inr_iff)
  with assms(2) show ?thesis
    by (simp add: complete_def cassandraComplete_default reaperComplete_default defaultServerTLS_def defaultClientTLS_def)
qed

section \<open>Examples\<close>

definition sampleConfig :: operatorConfig where
  "sampleConfig = \<lparr>cfg_namespace = ''op'', cfg_defaultCassandraImage = ''cassandra'', cfg_defaultProberImage = ''prober'',
     cfg_defaultJolokiaImage = ''jolokia'', cfg_defaultReaperImage = ''reaper'', cfg_defaultIcarusImage = ''icarus'',
     cfg_retryDelay = 10000000000\<rparr>"

lemma sampleCluster_defaults: "\<exists>cc'. defaultCassandraCluster sampleConfig sampleCluster = Inr cc'"
  by (simp add: defaultCassandraCluster_def sampleCluster_def Let_def)

theorem defaults_idempotent_witness:
  "\<exists>cc'. defaultCassandraCluster sampleConfig sampleCluster = Inr cc' \<and> defaultCassandraCluster sampleConfig cc' = Inr cc'"
proof -
  obtain cc' where cc': "defaultCassandraCluster sampleConfig sampleCluster = Inr cc'" using sampleCluster_defaults by blast
  with defaults_idempotent [OF cc'] show ?thesis by blast
qed

theorem defaults_complete_witness:
  "\<exists>cc'. defaultCassandraCluster sampleConfig sampleCluster = Inr cc' \<and> complete cc'"
proof -
  obtain cc' where cc': "defaultCassandraCluster sampleConfig sampleCluster = Inr cc'" using sampleCluster_defaults by blast
  moreover have "\<forall>d \<in> set (spec_dcs (cc_spec sampleCluster)). dc_replicas d \<noteq> None" by (simp add: sampleCluster_def)
  ultimately show ?thesis using defaults_complete by blast
qed

end
