(* ===== verification/Objects.thy ===== *)
theory Objects
  imports Helpers
begin

text \<open>
  The pattern with which the reconcilers bring an object to a desired state: get it, create it if it does not exist,
  otherwise compare it with the desired one and, if they differ, write the fields that the desired one sets into the
  actual object. \<open>createOrUpdate\<close> is the pattern; what varies between its uses are three functions: \<open>keep\<close> copies
  immutable fields of the actual object into the desired one, \<open>equal\<close> is the comparison of \<open>controllers/compare\<close> and
  \<open>adopt\<close> overwrites the actual object.
  The locale \<open>writer\<close> is the contract of the three, with \<open>foreign\<close> for what an update leaves as it is. It yields
  whether a second pass rests: an object that differs in a foreign field is written again in every pass.
\<close>

section \<open>Ports\<close>

definition ThriftPort :: int where "ThriftPort = 9160"
definition ProberServicePort :: int where "ProberServicePort = 80"
definition JolokiaContainerPort :: int where "JolokiaContainerPort = 8080"
definition ReaperAdminPort :: int where "ReaperAdminPort = 8081"

section \<open>Steps that leave a part of the state as it is\<close>

definition keeps :: "('w \<Rightarrow> 's) \<Rightarrow> ('w, 'q, 'a) act \<Rightarrow> bool" where
  "keeps store m \<longleftrightarrow> (\<forall>w. store (world m w) = store w)"

named_theorems keeps_intros \<open>composition rules for \<open>keeps\<close>\<close>

lemma keepsD: "keeps store m \<Longrightarrow> store (world m w) = store w"
  by (simp add: keeps_def)

lemma keeps_basic [keeps_intros]:
  "keeps store (ret x)" "keeps store (raise e)" "keeps store (lift r)" "keeps store (emit a b)" "keeps store (peek f)"
  by (simp_all add: keeps_def)

lemma keeps_andThen [keeps_intros]: "keeps store m \<Longrightarrow> (\<And>x. keeps store (f x)) \<Longrightarrow> keeps store (andThen m f)"
  by (auto simp: keeps_def split: sum.splits)

lemma keeps_wrapErr [keeps_intros]: "keeps store m \<Longrightarrow> keeps store (wrapErr msg m)"
  by (simp add: keeps_def)

lemma keeps_attempt [keeps_intros]: "keeps store m \<Longrightarrow> keeps store (attempt m)"
  by (simp add: keeps_def)

lemma keeps_if [keeps_intros]: "(b \<Longrightarrow> keeps store m) \<Longrightarrow> (\<not> b \<Longrightarrow> keeps store n) \<Longrightarrow> keeps store (if b then m else n)"
  by simp

lemma keeps_sum [keeps_intros]:
  "(\<And>e. r = Inl e \<Longrightarrow> keeps store (f e)) \<Longrightarrow> (\<And>x. r = Inr x \<Longrightarrow> keeps store (g x)) \<Longrightarrow>
    keeps store (case r of Inl e \<Rightarrow> f e | Inr x \<Rightarrow> g x)"
  by (cases r) simp_all

lemma keeps_option [keeps_intros]:
  "(r = None \<Longrightarrow> keeps store m) \<Longrightarrow> (\<And>x. r = Some x \<Longrightarrow> keeps store (g x)) \<Longrightarrow>
    keeps store (case r of None \<Rightarrow> m | Some x \<Rightarrow> g x)"
  by (cases r) simp_all

lemma keeps_prod [keeps_intros]: "(\<And>a b. keeps store (f a b)) \<Longrightarrow> keeps store (case p of (a, b) \<Rightarrow> f a b)"
  by (cases p) simp

lemma keeps_foldAct [keeps_intros]: "(\<And>x s. keeps store (f x s)) \<Longrightarrow> keeps store (foldAct f xs s)"
  unfolding keeps_def by (induction xs arbitrary: s) (auto split: sum.splits)

lemma keeps_forEach [keeps_intros]: "(\<And>x. keeps store (f x)) \<Longrightarrow> keeps store (forEach f xs)"
  unfolding keeps_def by (induction xs) (auto split: sum.splits)

lemma keeps_call: "(\<And>w. store (snd (f w)) = store w) \<Longrightarrow> keeps store (call q f)"
  by (simp add: keeps_def)

section \<open>Successful runs\<close>

text \<open>\<open>yields m w x v\<close>: the action \<open>m\<close> succeeds in \<open>w\<close>, returns \<open>x\<close> and leads to \<open>v\<close>. By its rules a successful run
  of a composed action is decomposed into those of its parts.\<close>

definition yields :: "('w, 'q, 'a) act \<Rightarrow> 'w \<Rightarrow> 'a \<Rightarrow> 'w \<Rightarrow> bool" where
  "yields m w x v \<longleftrightarrow> result m w = Inr x \<and> world m w = v"

named_theorems yields_simps \<open>successful runs of the combinators\<close>

lemma yieldsI: "result m w = Inr x \<Longrightarrow> v = world m w \<Longrightarrow> yields m w x v"
  by (simp add: yields_def)

lemma yields_result: "yields m w x v \<Longrightarrow> result m w = Inr x"
  and yields_world: "yields m w x v \<Longrightarrow> v = world m w"
  by (simp_all add: yields_def)

lemma yields_basic [yields_simps]:
  "yields (ret a) w x v \<longleftrightarrow> x = a \<and> v = w" "\<not> yields (raise e) w x v" "yields (lift r) w x v \<longleftrightarrow> r = Inr x \<and> v = w"
  "yields (emit q t) w y v \<longleftrightarrow> y = () \<and> v = w" "yields (peek f) w z v \<longleftrightarrow> z = f w \<and> v = w"
  by (auto simp: yields_def)

lemma yields_call [yields_simps]: "yields (call q f) w x v \<longleftrightarrow> f w = (Inr x, v)"
  by (cases "f w") (auto simp: yields_def)

lemma yields_andThen [yields_simps]: "yields (andThen m f) w y v \<longleftrightarrow> (\<exists>x u. yields m w x u \<and> yields (f x) u y v)"
  by (cases "result m w") (auto simp: yields_def)

lemma yields_wrapErr [yields_simps]: "yields (wrapErr msg m) w x v \<longleftrightarrow> yields m w x v"
  by (cases "result m w") (auto simp: yields_def)

lemma yields_attempt [yields_simps]: "yields (attempt m) w r v \<longleftrightarrow> r = result m w \<and> result m w \<noteq> Inl Panic \<and> v = world m w"
  by (cases "result m w") (auto simp: yields_def)

lemma yields_sum [yields_simps]:
  "yields (case r of Inl e \<Rightarrow> f e | Inr x \<Rightarrow> g x) w y v \<longleftrightarrow>
     (\<exists>e. r = Inl e \<and> yields (f e) w y v) \<or> (\<exists>x. r = Inr x \<and> yields (g x) w y v)"
  by (cases r) simp_all

lemma yields_prod [yields_simps]:
  "yields (case p of (a, b) \<Rightarrow> f a b) w x v \<longleftrightarrow> (\<exists>a b. p = (a, b) \<and> yields (f a b) w x v)"
  by (cases p) simp

section \<open>Kinds of objects\<close>

record ('w, 'o) kind =
  kd_get :: "key \<Rightarrow> 'w \<Rightarrow> (go_error + 'o) \<times> 'w"
  kd_create :: "'o \<Rightarrow> 'w \<Rightarrow> (go_error + unit) \<times> 'w"
  kd_update :: "'o \<Rightarrow> 'w \<Rightarrow> (go_error + unit) \<times> 'w"
  kd_getReq :: "key \<Rightarrow> req"
  kd_createReq :: "'o \<Rightarrow> req"
  kd_updateReq :: "'o \<Rightarrow> req"
  kd_key :: "'o \<Rightarrow> key"

text \<open>The texts of the errors: of a failed get, create and update.\<close>

record texts =
  tx_get :: string
  tx_create :: string
  tx_update :: string

definition createOrUpdate ::
  "('w, 'o) kind \<Rightarrow> texts \<Rightarrow> ('o \<Rightarrow> 'o \<Rightarrow> 'o) \<Rightarrow> ('o \<Rightarrow> 'o \<Rightarrow> bool) \<Rightarrow> ('o \<Rightarrow> 'o \<Rightarrow> 'o) \<Rightarrow> 'o \<Rightarrow> ('w, unit) run" where
  "createOrUpdate K T keep equal adopt desired =
     (let k = kd_key K desired in
      andThen (attempt (call (kd_getReq K k) (kd_get K k))) (\<lambda>r.
        case r of
          Inl e \<Rightarrow>
            if isNotFound e then wrapErr (tx_create T) (call (kd_createReq K desired) (kd_create K desired))
            else raise (Wrap (tx_get T) e)
        | Inr actual \<Rightarrow>
            (let wanted = keep actual desired in
             if \<not> equal wanted actual
             then (let new = adopt actual wanted in
                   wrapErr (tx_update T) (call (kd_updateReq K new) (kd_update K new)))
             else ret ())))"

text \<open>What the API server promises about the objects of a kind: \<open>store w\<close> is what it holds.\<close>

definition kindApi :: "('w, 'o) kind \<Rightarrow> ('w \<Rightarrow> key \<rightharpoonup> 'o) \<Rightarrow> bool" where
  "kindApi K store \<longleftrightarrow>
     (\<forall>w k x. store w k = Some x \<longrightarrow> kd_key K x = k) \<and>
     (\<forall>k w. store (snd (kd_get K k w)) = store w \<and>
        (case fst (kd_get K k w) of
           Inr x \<Rightarrow> store w k = Some x
         | Inl e \<Rightarrow> e = NotFound \<longrightarrow> store w k = None)) \<and>
     (\<forall>x w. store (snd (kd_create K x w)) =
        (if fst (kd_create K x w) = Inr () then (store w)(kd_key K x \<mapsto> x) else store w)) \<and>
     (\<forall>x w. store (snd (kd_update K x w)) =
        (if fst (kd_update K x w) = Inr () then (store w)(kd_key K x \<mapsto> x) else store w))"

lemma kindApi_key: "kindApi K store \<Longrightarrow> store w k = Some x \<Longrightarrow> kd_key K x = k"
  unfolding kindApi_def by blast

lemma kindApi_get: "kindApi K store \<Longrightarrow> store (snd (kd_get K k w)) = store w"
  unfolding kindApi_def by blast

lemma kindApi_answer: "kindApi K store \<Longrightarrow>
    (case fst (kd_get K k w) of Inr x \<Rightarrow> store w k = Some x | Inl e \<Rightarrow> e = NotFound \<longrightarrow> store w k = None)"
  unfolding kindApi_def by blast

lemma kindApi_found: "kindApi K store \<Longrightarrow> fst (kd_get K k w) = Inr x \<Longrightarrow> store w k = Some x"
  using kindApi_answer [where K = K and store = store and k = k and w = w] by simp

lemma kindApi_missing: "kindApi K store \<Longrightarrow> fst (kd_get K k w) = Inl NotFound \<Longrightarrow> store w k = None"
  using kindApi_answer [where K = K and store = store and k = k and w = w] by simp

lemma kindApi_write:
  "kindApi K store \<Longrightarrow> store (snd (kd_create K x w)) =
        (if fst (kd_create K x w) = Inr () then (store w)(kd_key K x \<mapsto> x) else store w)"
  "kindApi K store \<Longrightarrow> store (snd (kd_update K x w)) =
        (if fst (kd_update K x w) = Inr () then (store w)(kd_key K x \<mapsto> x) else store w)"
  by (auto simp: kindApi_def)

text \<open>The calls on the objects of a kind leave another part of the state as it is.\<close>

definition untouched :: "('w, 'o) kind \<Rightarrow> ('w \<Rightarrow> 's) \<Rightarrow> bool" where
  "untouched K store \<longleftrightarrow>
     (\<forall>k w. store (snd (kd_get K k w)) = store w) \<and> (\<forall>x w. store (snd (kd_create K x w)) = store w) \<and>
     (\<forall>x w. store (snd (kd_update K x w)) = store w)"

lemma createOrUpdate_untouched:
  "untouched K store \<Longrightarrow> store (world (createOrUpdate K T keep equal adopt d) w) = store w"
  by (simp add: createOrUpdate_def Let_def untouched_def del: split_paired_All split: sum.split)

lemma createOrUpdate_succeeds:
  assumes "\<And>k v e. fst (kd_get K k v) = Inl e \<Longrightarrow> e = NotFound"
    and "\<And>x v. fst (kd_create K x v) = Inr ()" "\<And>x v. fst (kd_update K x v) = Inr ()"
  shows "result (createOrUpdate K T keep equal adopt d) w = Inr ()"
proof (cases "fst (kd_get K (kd_key K d) w)")
  case (Inl e)
  with assms(1) [OF Inl] assms(2) show ?thesis by (simp add: createOrUpdate_def Let_def isNotFound_def)
next
  case (Inr a)
  with assms(3) show ?thesis by (simp add: createOrUpdate_def Let_def)
qed

text \<open>The owner of a new object is the cluster.\<close>

definition withOwners :: "'w env \<Rightarrow> cassandraCluster \<Rightarrow> (string list \<Rightarrow> ('w, unit) run) \<Rightarrow> ('w, unit) run" where
  "withOwners E cc f = andThen (wrapErr ''Cannot set controller reference'' (lift (e_controllerReference E cc))) f"

lemma withOwners_Inr:
  "result (withOwners E cc f) w = Inr x \<longleftrightarrow> (\<exists>owners. e_controllerReference E cc = Inr owners \<and> result (f owners) w = Inr x)"
  by (auto simp: withOwners_def split: sum.splits)

lemma withOwners_run:
  "e_controllerReference E cc = Inr owners \<Longrightarrow> world (withOwners E cc f) w = world (f owners) w"
  "e_controllerReference E cc = Inr owners \<Longrightarrow> trace (withOwners E cc f) w = trace (f owners) w"
  "e_controllerReference E cc = Inr owners \<Longrightarrow> result (withOwners E cc f) w = result (f owners) w"
  by (simp_all add: withOwners_def)

lemma yields_withOwners [yields_simps]:
  "yields (withOwners E cc f) w x v \<longleftrightarrow> (\<exists>owners. e_controllerReference E cc = Inr owners \<and> yields (f owners) w x v)"
  by (auto simp: withOwners_def yields_simps)

section \<open>The contract of an update\<close>

locale writer =
  fixes keep :: "'o \<Rightarrow> 'o \<Rightarrow> 'o"
    and equal :: "'o \<Rightarrow> 'o \<Rightarrow> bool"
    and adopt :: "'o \<Rightarrow> 'o \<Rightarrow> 'o"
    and keyOf :: "'o \<Rightarrow> key"
    and foreign :: "'o \<Rightarrow> 'o \<Rightarrow> bool"
  assumes key_adopt: "keyOf (adopt a d) = keyOf a"
    and settles: "keyOf a = keyOf d \<Longrightarrow>
      equal (keep (adopt a (keep a d)) d) (adopt a (keep a d)) \<longleftrightarrow> foreign a d"
    and equal_foreign: "keyOf a = keyOf d \<Longrightarrow> equal (keep a d) a \<Longrightarrow> foreign a d"
    and fresh: "equal (keep d d) d"
begin

text \<open>The state after a successful pass.\<close>

lemma reaches:
  assumes api: "kindApi K store" and key: "kd_key K = keyOf"
    and ok: "result (createOrUpdate K T keep equal adopt d) w = Inr ()"
  shows "store (world (createOrUpdate K T keep equal adopt d) w) =
      (case fst (kd_get K (keyOf d) w) of
         Inl _ \<Rightarrow> (store w)(keyOf d \<mapsto> d)
       | Inr a \<Rightarrow> if equal (keep a d) a then store w else (store w)(keyOf d \<mapsto> adopt a (keep a d)))"
proof (cases "fst (kd_get K (keyOf d) w)")
  case (Inl e)
  with ok show ?thesis
    by (auto simp: createOrUpdate_def Let_def key kindApi_write [OF api] kindApi_get [OF api] split: if_splits sum.splits)
next
  case (Inr a)
  from kindApi_key [OF api kindApi_found [OF api Inr]] key have "keyOf a = keyOf d" by simp
  with Inr ok show ?thesis
    by (auto simp: createOrUpdate_def Let_def key key_adopt kindApi_write [OF api] kindApi_get [OF api]
        split: if_splits sum.splits)
qed

text \<open>What is there then: the desired object if there was none, the one that was there if the comparison held, otherwise
  the one that took over the fields.\<close>

lemma held:
  assumes api: "kindApi K store" and key: "kd_key K = keyOf"
    and ok: "result (createOrUpdate K T keep equal adopt d) w = Inr ()"
  shows "\<exists>x. store (world (createOrUpdate K T keep equal adopt d) w) (keyOf d) = Some x \<and>
      (case store w (keyOf d) of
         None \<Rightarrow> x = d
       | Some a \<Rightarrow> if equal (keep a d) a then x = a else x = adopt a (keep a d))"
proof (cases "fst (kd_get K (keyOf d) w)")
  case (Inl e)
  with ok have "e = NotFound" by (auto simp: createOrUpdate_def Let_def key isNotFound_def split: if_splits)
  with Inl kindApi_missing [OF api] have "store w (keyOf d) = None" by simp
  with reaches [OF api key ok] Inl show ?thesis by simp
next
  case (Inr a)
  note old = kindApi_found [OF api Inr]
  with reaches [OF api key ok] Inr show ?thesis by simp
qed

text \<open>Whatever happens, other objects stay.\<close>

lemma frame:
  assumes api: "kindApi K store" and key: "kd_key K = keyOf" and k: "k \<noteq> keyOf d"
  shows "store (world (createOrUpdate K T keep equal adopt d) w) k = store w k"
proof (cases "fst (kd_get K (keyOf d) w)")
  case (Inl e)
  with k show ?thesis
    by (auto simp: createOrUpdate_def Let_def key kindApi_write [OF api] kindApi_get [OF api])
next
  case (Inr a)
  from kindApi_key [OF api kindApi_found [OF api Inr]] key have "keyOf a = keyOf d" by simp
  with Inr k show ?thesis
    by (auto simp: createOrUpdate_def Let_def key key_adopt kindApi_write [OF api] kindApi_get [OF api])
qed

text \<open>What the pass after a successful one sends, if the get of it succeeds: only that get, exactly if no foreign field of
  the object that was there differs.\<close>

lemma second_pass:
  assumes api: "kindApi K store" and key: "kd_key K = keyOf"
    and ok: "result (createOrUpdate K T keep equal adopt d) w = Inr ()"
    and found: "fst (kd_get K (keyOf d) (world (createOrUpdate K T keep equal adopt d) w)) = Inr b"
  shows "trace (createOrUpdate K T keep equal adopt d) (world (createOrUpdate K T keep equal adopt d) w) =
      [kd_getReq K (keyOf d)] \<longleftrightarrow> (\<forall>a. store w (keyOf d) = Some a \<longrightarrow> foreign a d)"
proof -
  let ?w = "world (createOrUpdate K T keep equal adopt d) w"
  have st: "store ?w (keyOf d) = Some b" using kindApi_found [OF api found] .
  have "trace (createOrUpdate K T keep equal adopt d) ?w = [kd_getReq K (keyOf d)] \<longleftrightarrow> equal (keep b d) b"
    using found by (simp add: createOrUpdate_def Let_def key)
  also have "\<dots> \<longleftrightarrow> (\<forall>a. store w (keyOf d) = Some a \<longrightarrow> foreign a d)"
  proof (cases "fst (kd_get K (keyOf d) w)")
    case (Inl e)
    with ok have "e = NotFound" by (auto simp: createOrUpdate_def Let_def key isNotFound_def split: if_splits)
    with Inl kindApi_missing [OF api] have "store w (keyOf d) = None" by simp
    moreover from reaches [OF api key ok] Inl st have "b = d" by simp
    ultimately show ?thesis using fresh by simp
  next
    case (Inr a)
    note old = kindApi_found [OF api Inr]
    from kindApi_key [OF api old] key have ka: "keyOf a = keyOf d" by simp
    show ?thesis
    proof (cases "equal (keep a d) a")
      case True
      with reaches [OF api key ok] Inr st old have "b = a" by simp
      with True old equal_foreign [OF ka] show ?thesis by simp
    next
      case False
      with reaches [OF api key ok] Inr st have "b = adopt a (keep a d)" by simp
      with settles [OF ka] old show ?thesis by simp
    qed
  qed
  finally show ?thesis .
qed

end

section \<open>Servers that hold a map\<close>

definition keyed :: "('o \<Rightarrow> key) \<Rightarrow> (key \<rightharpoonup> 'o) \<Rightarrow> key \<rightharpoonup> 'o" where
  "keyed keyOf m = (\<lambda>k. case m k of None \<Rightarrow> None | Some x \<Rightarrow> if keyOf x = k then Some x else None)"

lemma keyed_upd [simp]: "keyed f (m(f x \<mapsto> x)) = (keyed f m)(f x \<mapsto> x)"
  by (auto simp: keyed_def fun_eq_iff)

lemma keyed_key: "keyed f m k = Some x \<Longrightarrow> f x = k"
  by (auto simp: keyed_def split: option.splits if_splits)

definition answer :: "'o option \<Rightarrow> go_error + 'o" where
  "answer r = (case r of None \<Rightarrow> Inl NotFound | Some x \<Rightarrow> Inr x)"

lemma answer_cases: "(case answer r of Inl e \<Rightarrow> e = NotFound \<longrightarrow> r = None | Inr x \<Rightarrow> r = Some x)"
  by (cases r) (simp_all add: answer_def)

lemma answer_Inl: "answer r = Inl e \<Longrightarrow> e = NotFound"
  by (cases r) (simp_all add: answer_def)

section \<open>Equality of objects\<close>

lemma serviceSpec_iff: "(x :: serviceSpec) = y \<longleftrightarrow>
     svs_ports x = svs_ports y \<and> svs_clusterIP x = svs_clusterIP y \<and> svs_clusterIPs x = svs_clusterIPs
     y \<and> svs_ipFamilies x = svs_ipFamilies y \<and> svs_ipFamilyPolicy x = svs_ipFamilyPolicy y \<and>
     svs_internalTrafficPolicy x = svs_internalTrafficPolicy y \<and> svs_type x = svs_type y \<and>
     svs_sessionAffinity x = svs_sessionAffinity y \<and> svs_publishNotReadyAddresses x =
     svs_publishNotReadyAddresses y \<and> svs_selector x = svs_selector y"
  by (cases x; cases y) auto

lemma service_iff: "(x :: service) = y \<longleftrightarrow>
     svc_name x = svc_name y \<and> svc_namespace x = svc_namespace y \<and> svc_labels x = svc_labels y \<and>
     svc_annotations x = svc_annotations y \<and> svc_ownerReferences x = svc_ownerReferences y \<and> svc_spec x
     = svc_spec y"
  by (cases x; cases y) auto

lemma stsSpec_iff: "(x :: stsSpec) = y \<longleftrightarrow>
     ss_serviceName x = ss_serviceName y \<and> ss_selector x = ss_selector y \<and> ss_podManagementPolicy x =
     ss_podManagementPolicy y \<and> ss_updateStrategy x = ss_updateStrategy y \<and> ss_partition x =
     ss_partition y \<and> ss_revisionHistoryLimit x = ss_revisionHistoryLimit y \<and> ss_template x =
     ss_template y \<and> ss_volumeClaimTemplates x = ss_volumeClaimTemplates y"
  by (cases x; cases y) auto

lemma podTemplate_iff: "(x :: podTemplate) = y \<longleftrightarrow>
     pt_labels x = pt_labels y \<and> pt_annotations x = pt_annotations y \<and> pt_spec x = pt_spec y"
  by (cases x; cases y) auto

lemma statefulSet_iff: "(x :: statefulSet) = y \<longleftrightarrow>
     sts_name x = sts_name y \<and> sts_labels x = sts_labels y \<and> sts_namespace x = sts_namespace y \<and>
     sts_annotations x = sts_annotations y \<and> sts_ownerReferences x = sts_ownerReferences y \<and>
     sts_replicas x = sts_replicas y \<and> sts_spec x = sts_spec y \<and> sts_readyReplicas x =
     sts_readyReplicas y"
  by (cases x; cases y) auto

lemma deploymentSpec_iff: "(x :: deploymentSpec) = y \<longleftrightarrow>
     ds_replicas x = ds_replicas y \<and> ds_selector x = ds_selector y \<and> ds_strategy x = ds_strategy y
     \<and> ds_maxUnavailable x = ds_maxUnavailable y \<and> ds_maxSurge x = ds_maxSurge y \<and>
     ds_revisionHistoryLimit x = ds_revisionHistoryLimit y \<and> ds_progressDeadlineSeconds x =
     ds_progressDeadlineSeconds y \<and> ds_template x = ds_template y"
  by (cases x; cases y) auto

lemma deployment_iff: "(x :: deployment) = y \<longleftrightarrow>
     dep_name x = dep_name y \<and> dep_namespace x = dep_namespace y \<and> dep_labels x = dep_labels y \<and>
     dep_annotations x = dep_annotations y \<and> dep_ownerReferences x = dep_ownerReferences y \<and> dep_spec x
     = dep_spec y \<and> dep_readyReplicas x = dep_readyReplicas y"
  by (cases x; cases y) auto

lemma k8sRole_iff: "(x :: k8sRole) = y \<longleftrightarrow>
     kr_name x = kr_name y \<and> kr_namespace x = kr_namespace y \<and> kr_labels x = kr_labels y \<and>
     kr_annotations x = kr_annotations y \<and> kr_ownerReferences x = kr_ownerReferences y \<and> kr_rules x =
     kr_rules y"
  by (cases x; cases y) auto

lemma k8sRoleBinding_iff: "(x :: k8sRoleBinding) = y \<longleftrightarrow>
     krb_name x = krb_name y \<and> krb_namespace x = krb_namespace y \<and> krb_labels x = krb_labels y \<and>
     krb_annotations x = krb_annotations y \<and> krb_ownerReferences x = krb_ownerReferences y \<and>
     krb_subjects x = krb_subjects y \<and> krb_roleRef x = krb_roleRef y"
  by (cases x; cases y) auto

lemma k8sServiceAccount_iff: "(x :: k8sServiceAccount) = y \<longleftrightarrow>
     ksa_name x = ksa_name y \<and> ksa_namespace x = ksa_namespace y \<and> ksa_labels x = ksa_labels y \<and>
     ksa_annotations x = ksa_annotations y \<and> ksa_ownerReferences x = ksa_ownerReferences y \<and>
     ksa_secrets x = ksa_secrets y"
  by (cases x; cases y) auto

lemma ingressObject_iff: "(x :: ingressObject) = y \<longleftrightarrow>
     ig_name x = ig_name y \<and> ig_namespace x = ig_namespace y \<and> ig_labels x = ig_labels y \<and>
     ig_annotations x = ig_annotations y \<and> ig_ownerReferences x = ig_ownerReferences y \<and> ig_spec x =
     ig_spec y"
  by (cases x; cases y) auto

lemmas object_iffs = serviceSpec_iff service_iff stsSpec_iff podTemplate_iff statefulSet_iff deploymentSpec_iff deployment_iff
  k8sRole_iff k8sRoleBinding_iff k8sServiceAccount_iff ingressObject_iff

section \<open>Services\<close>

definition svcKey :: "service \<Rightarrow> key" where
  "svcKey s = (svc_namespace s, svc_name s)"

definition serviceKind :: "'w env \<Rightarrow> ('w, service) kind" where
  "serviceKind E = \<lparr>kd_get = e_getService E, kd_create = o_createService (e_objects E), kd_update = o_updateService (e_objects E),
     kd_getReq = GetService, kd_createReq = (\<lambda>s. Objects (CreateService s)), kd_updateReq = (\<lambda>s. Objects (UpdateService s)),
     kd_key = svcKey\<rparr>"

lemma serviceKind_key: "kd_key (serviceKind E) = svcKey"
  by (simp add: serviceKind_def)

text \<open>The server chooses the addresses of a service; they are kept.\<close>

definition keepService :: "service \<Rightarrow> service \<Rightarrow> service" where
  "keepService actual desired =
     desired\<lparr>svc_spec := (svc_spec desired)
       \<lparr>svs_clusterIP := svs_clusterIP (svc_spec actual), svs_clusterIPs := svs_clusterIPs (svc_spec actual),
        svs_ipFamilies := svs_ipFamilies (svc_spec actual), svs_ipFamilyPolicy := svs_ipFamilyPolicy (svc_spec actual),
        svs_internalTrafficPolicy := svs_internalTrafficPolicy (svc_spec actual)\<rparr>\<rparr>"

definition EqualService :: "service \<Rightarrow> service \<Rightarrow> bool" where
  "EqualService actual desired \<longleftrightarrow> actual = desired"

definition adoptService :: "service \<Rightarrow> service \<Rightarrow> service" where
  "adoptService actual desired =
     actual\<lparr>svc_spec := svc_spec desired, svc_labels := svc_labels desired, svc_annotations := svc_annotations desired\<rparr>"

definition foreignService :: "service \<Rightarrow> service \<Rightarrow> bool" where
  "foreignService actual desired \<longleftrightarrow> svc_ownerReferences actual = svc_ownerReferences desired"

interpretation svc: writer keepService EqualService adoptService svcKey foreignService
  by unfold_locales
    (auto simp: svcKey_def keepService_def EqualService_def adoptService_def foreignService_def object_iffs)

lemma service_selects:
  assumes "case old of None \<Rightarrow> x = d
     | Some a \<Rightarrow> if EqualService (keepService a d) a then x = a else x = adoptService a (keepService a d)"
  shows "svs_selector (svc_spec x) = svs_selector (svc_spec d)" "svs_ports (svc_spec x) = svs_ports (svc_spec d)"
  using assms
  by (auto simp: EqualService_def keepService_def adoptService_def service_iff serviceSpec_iff split: option.splits if_splits)

section \<open>Stateful sets\<close>

definition stsKey :: "statefulSet \<Rightarrow> key" where
  "stsKey s = (sts_namespace s, sts_name s)"

definition stsKind :: "'w env \<Rightarrow> ('w, statefulSet) kind" where
  "stsKind E = \<lparr>kd_get = e_getSts E, kd_create = o_createSts (e_objects E), kd_update = e_updateSts E,
     kd_getReq = GetStatefulSet, kd_createReq = (\<lambda>s. Objects (CreateStatefulSet s)), kd_updateReq = UpdateStatefulSet,
     kd_key = stsKey\<rparr>"

lemma stsKind_key: "kd_key (stsKind E) = stsKey"
  by (simp add: stsKind_def)

text \<open>The selector is immutable, the labels of the pods follow it, replicas are changed by the scaling alone.\<close>

definition keepSts :: "statefulSet \<Rightarrow> statefulSet \<Rightarrow> statefulSet" where
  "keepSts actual desired =
     desired\<lparr>sts_annotations := sts_annotations actual, sts_replicas := sts_replicas actual,
       sts_spec := (sts_spec desired)\<lparr>ss_selector := ss_selector (sts_spec actual),
         ss_template := (ss_template (sts_spec desired))
           \<lparr>pt_labels := pt_labels (ss_template (sts_spec actual)),
            pt_annotations := MergeMap (pt_annotations (ss_template (sts_spec actual)))
              (pt_annotations (ss_template (sts_spec desired)))\<rparr>\<rparr>\<rparr>"

text \<open>The comparison ignores the status.\<close>

definition EqualStatefulSet :: "statefulSet \<Rightarrow> statefulSet \<Rightarrow> bool" where
  "EqualStatefulSet actual desired \<longleftrightarrow> actual\<lparr>sts_readyReplicas := 0\<rparr> = desired\<lparr>sts_readyReplicas := 0\<rparr>"

definition adoptSts :: "statefulSet \<Rightarrow> statefulSet \<Rightarrow> statefulSet" where
  "adoptSts actual desired =
     actual\<lparr>sts_spec := sts_spec desired, sts_replicas := sts_replicas desired, sts_labels := sts_labels desired\<rparr>"

definition foreignSts :: "statefulSet \<Rightarrow> statefulSet \<Rightarrow> bool" where
  "foreignSts actual desired \<longleftrightarrow> sts_ownerReferences actual = sts_ownerReferences desired"

interpretation sts: writer keepSts EqualStatefulSet adoptSts stsKey foreignSts
  by unfold_locales
    (auto simp: stsKey_def keepSts_def EqualStatefulSet_def adoptSts_def foreignSts_def object_iffs)

section \<open>Deployments\<close>

definition depKey :: "deployment \<Rightarrow> key" where
  "depKey d = (dep_namespace d, dep_name d)"

definition deploymentKind :: "'w env \<Rightarrow> ('w, deployment) kind" where
  "deploymentKind E = \<lparr>kd_get = e_getDeployment E, kd_create = o_createDeployment (e_objects E),
     kd_update = o_updateDeployment (e_objects E), kd_getReq = GetDeployment,
     kd_createReq = (\<lambda>d. Objects (CreateDeployment d)), kd_updateReq = (\<lambda>d. Objects (UpdateDeployment d)), kd_key = depKey\<rparr>"

lemma deploymentKind_key: "kd_key (deploymentKind E) = depKey"
  by (simp add: deploymentKind_def)

text \<open>The comparison ignores the status.\<close>

definition EqualDeployment :: "deployment \<Rightarrow> deployment \<Rightarrow> bool" where
  "EqualDeployment actual desired \<longleftrightarrow> actual\<lparr>dep_readyReplicas := 0\<rparr> = desired\<lparr>dep_readyReplicas := 0\<rparr>"

definition keepDeployment :: "deployment \<Rightarrow> deployment \<Rightarrow> deployment" where
  "keepDeployment actual desired = desired\<lparr>dep_annotations := dep_annotations actual\<rparr>"

definition adoptDeployment :: "deployment \<Rightarrow> deployment \<Rightarrow> deployment" where
  "adoptDeployment actual desired = actual\<lparr>dep_spec := dep_spec desired, dep_labels := dep_labels desired\<rparr>"

definition foreignDeployment :: "deployment \<Rightarrow> deployment \<Rightarrow> bool" where
  "foreignDeployment actual desired \<longleftrightarrow> dep_ownerReferences actual = dep_ownerReferences desired"

interpretation deploy: writer keepDeployment EqualDeployment adoptDeployment depKey foreignDeployment
  by unfold_locales
    (auto simp: depKey_def keepDeployment_def EqualDeployment_def adoptDeployment_def foreignDeployment_def object_iffs)

lemma deployment_runs:
  assumes "case old of None \<Rightarrow> x = d
     | Some a \<Rightarrow> if EqualDeployment (keepDeployment a d) a then x = a else x = adoptDeployment a (keepDeployment a d)"
  shows "dep_spec x = dep_spec d"
  using assms
  by (auto simp: EqualDeployment_def keepDeployment_def adoptDeployment_def deployment_iff split: option.splits if_splits)

text \<open>The deployments of Reaper are written in another way: the annotations are merged in the comparison, the labels only
  when they are written. A label that the desired deployment does not have is foreign.\<close>

definition keepReaperDeployment :: "deployment \<Rightarrow> deployment \<Rightarrow> deployment" where
  "keepReaperDeployment actual desired = desired\<lparr>dep_annotations := MergeMap (dep_annotations actual) (dep_annotations desired)\<rparr>"

definition adoptReaperDeployment :: "deployment \<Rightarrow> deployment \<Rightarrow> deployment" where
  "adoptReaperDeployment actual desired =
     actual\<lparr>dep_labels := dep_labels actual ++ dep_labels desired, dep_spec := dep_spec desired\<rparr>"

definition foreignReaperDeployment :: "deployment \<Rightarrow> deployment \<Rightarrow> bool" where
  "foreignReaperDeployment actual desired \<longleftrightarrow> dep_ownerReferences actual = dep_ownerReferences desired \<and>
     dep_labels actual ++ dep_labels desired = dep_labels desired \<and>
     MergeMap (dep_annotations actual) (dep_annotations desired) = dep_annotations actual"

declare map_add_self [simp]

interpretation reaperDeploy: writer keepReaperDeployment EqualDeployment adoptReaperDeployment depKey foreignReaperDeployment
  by unfold_locales
    (auto simp: depKey_def keepReaperDeployment_def EqualDeployment_def adoptReaperDeployment_def foreignReaperDeployment_def
      object_iffs)

section \<open>Ingresses\<close>

definition ingKey :: "ingressObject \<Rightarrow> key" where
  "ingKey i = (ig_namespace i, ig_name i)"

definition ingressKind :: "'w env \<Rightarrow> ('w, ingressObject) kind" where
  "ingressKind E = \<lparr>kd_get = o_getIngress (e_objects E), kd_create = o_createIngress (e_objects E),
     kd_update = o_updateIngress (e_objects E), kd_getReq = (\<lambda>k. Objects (GetIngress k)),
     kd_createReq = (\<lambda>i. Objects (CreateIngress i)), kd_updateReq = (\<lambda>i. Objects (UpdateIngress i)), kd_key = ingKey\<rparr>"

lemma ingressKind_key: "kd_key (ingressKind E) = ingKey"
  by (simp add: ingressKind_def)

definition EqualIngress :: "ingressObject \<Rightarrow> ingressObject \<Rightarrow> bool" where
  "EqualIngress actual desired \<longleftrightarrow> actual = desired"

definition adoptIngress :: "ingressObject \<Rightarrow> ingressObject \<Rightarrow> ingressObject" where
  "adoptIngress actual desired =
     actual\<lparr>ig_spec := ig_spec desired, ig_labels := ig_labels desired, ig_annotations := ig_annotations desired\<rparr>"

definition foreignIngress :: "ingressObject \<Rightarrow> ingressObject \<Rightarrow> bool" where
  "foreignIngress actual desired \<longleftrightarrow> ig_ownerReferences actual = ig_ownerReferences desired"

definition keepNothing :: "'o \<Rightarrow> 'o \<Rightarrow> 'o" where
  "keepNothing actual desired = desired"

interpretation ing: writer keepNothing EqualIngress adoptIngress ingKey foreignIngress
  by unfold_locales (auto simp: ingKey_def keepNothing_def EqualIngress_def adoptIngress_def foreignIngress_def object_iffs)

section \<open>Objects of role based access control\<close>

definition roleKind :: "'w env \<Rightarrow> ('w, k8sRole) kind" where
  "roleKind E = \<lparr>kd_get = o_getK8sRole (e_objects E), kd_create = o_createK8sRole (e_objects E),
     kd_update = o_updateK8sRole (e_objects E), kd_getReq = (\<lambda>k. Objects (GetK8sRole k)),
     kd_createReq = (\<lambda>r. Objects (CreateK8sRole r)), kd_updateReq = (\<lambda>r. Objects (UpdateK8sRole r)),
     kd_key = (\<lambda>r. (kr_namespace r, kr_name r))\<rparr>"

lemma roleKind_key: "kd_key (roleKind E) = (\<lambda>r. (kr_namespace r, kr_name r))"
  by (simp add: roleKind_def)

definition EqualRole :: "k8sRole \<Rightarrow> k8sRole \<Rightarrow> bool" where
  "EqualRole actual desired \<longleftrightarrow> actual = desired"

definition adoptRole :: "k8sRole \<Rightarrow> k8sRole \<Rightarrow> k8sRole" where
  "adoptRole actual desired = actual\<lparr>kr_rules := kr_rules desired, kr_labels := kr_labels desired\<rparr>"

definition foreignRole :: "k8sRole \<Rightarrow> k8sRole \<Rightarrow> bool" where
  "foreignRole actual desired \<longleftrightarrow>
     kr_ownerReferences actual = kr_ownerReferences desired \<and> kr_annotations actual = kr_annotations desired"

interpretation role: writer keepNothing EqualRole adoptRole "\<lambda>r. (kr_namespace r, kr_name r)" foreignRole
  by unfold_locales (auto simp: keepNothing_def EqualRole_def adoptRole_def foreignRole_def object_iffs)

definition bindingKind :: "'w env \<Rightarrow> ('w, k8sRoleBinding) kind" where
  "bindingKind E = \<lparr>kd_get = o_getRoleBinding (e_objects E), kd_create = o_createRoleBinding (e_objects E),
     kd_update = o_updateRoleBinding (e_objects E), kd_getReq = (\<lambda>k. Objects (GetRoleBinding k)),
     kd_createReq = (\<lambda>r. Objects (CreateRoleBinding r)), kd_updateReq = (\<lambda>r. Objects (UpdateRoleBinding r)),
     kd_key = (\<lambda>r. (krb_namespace r, krb_name r))\<rparr>"

lemma bindingKind_key: "kd_key (bindingKind E) = (\<lambda>r. (krb_namespace r, krb_name r))"
  by (simp add: bindingKind_def)

definition EqualRoleBinding :: "k8sRoleBinding \<Rightarrow> k8sRoleBinding \<Rightarrow> bool" where
  "EqualRoleBinding actual desired \<longleftrightarrow> actual = desired"

definition adoptBinding :: "k8sRoleBinding \<Rightarrow> k8sRoleBinding \<Rightarrow> k8sRoleBinding" where
  "adoptBinding actual desired =
     actual\<lparr>krb_subjects := krb_subjects desired, krb_roleRef := krb_roleRef desired, krb_labels := krb_labels desired\<rparr>"

definition foreignBinding :: "k8sRoleBinding \<Rightarrow> k8sRoleBinding \<Rightarrow> bool" where
  "foreignBinding actual desired \<longleftrightarrow>
     krb_ownerReferences actual = krb_ownerReferences desired \<and> krb_annotations actual = krb_annotations desired"

interpretation binding: writer keepNothing EqualRoleBinding adoptBinding "\<lambda>r. (krb_namespace r, krb_name r)" foreignBinding
  by unfold_locales (auto simp: keepNothing_def EqualRoleBinding_def adoptBinding_def foreignBinding_def object_iffs)

definition accountKind :: "'w env \<Rightarrow> ('w, k8sServiceAccount) kind" where
  "accountKind E = \<lparr>kd_get = o_getServiceAccount (e_objects E), kd_create = o_createServiceAccount (e_objects E),
     kd_update = o_updateServiceAccount (e_objects E), kd_getReq = (\<lambda>k. Objects (GetServiceAccount k)),
     kd_createReq = (\<lambda>r. Objects (CreateServiceAccount r)), kd_updateReq = (\<lambda>r. Objects (UpdateServiceAccount r)),
     kd_key = (\<lambda>r. (ksa_namespace r, ksa_name r))\<rparr>"

lemma accountKind_key: "kd_key (accountKind E) = (\<lambda>r. (ksa_namespace r, ksa_name r))"
  by (simp add: accountKind_def)

text \<open>\<open>withServiceAccountInheritance\<close>: the token secrets that the server adds are not compared.\<close>

definition withServiceAccountInheritance :: "k8sServiceAccount \<Rightarrow> k8sServiceAccount \<Rightarrow> k8sServiceAccount" where
  "withServiceAccountInheritance actual desired =
     (if ksa_secrets desired = None then desired\<lparr>ksa_secrets := ksa_secrets actual\<rparr> else desired)"

definition EqualServiceAccount :: "k8sServiceAccount \<Rightarrow> k8sServiceAccount \<Rightarrow> bool" where
  "EqualServiceAccount actual desired \<longleftrightarrow> actual = withServiceAccountInheritance actual desired"

definition adoptAccount :: "k8sServiceAccount \<Rightarrow> k8sServiceAccount \<Rightarrow> k8sServiceAccount" where
  "adoptAccount actual desired = actual\<lparr>ksa_labels := ksa_labels desired\<rparr>"

definition foreignAccount :: "k8sServiceAccount \<Rightarrow> k8sServiceAccount \<Rightarrow> bool" where
  "foreignAccount actual desired \<longleftrightarrow>
     ksa_ownerReferences actual = ksa_ownerReferences desired \<and> ksa_annotations actual = ksa_annotations desired \<and>
     (ksa_secrets desired \<noteq> None \<longrightarrow> ksa_secrets actual = ksa_secrets desired)"

lemma EqualServiceAccount_iff: "EqualServiceAccount x y \<longleftrightarrow>
    ksa_name x = ksa_name y \<and> ksa_namespace x = ksa_namespace y \<and> ksa_labels x = ksa_labels y \<and>
    ksa_annotations x = ksa_annotations y \<and> ksa_ownerReferences x = ksa_ownerReferences y \<and>
    (ksa_secrets y = None \<or> ksa_secrets x = ksa_secrets y)"
  unfolding EqualServiceAccount_def withServiceAccountInheritance_def k8sServiceAccount_iff
  by (cases "ksa_secrets y") simp_all

interpretation account: writer keepNothing "\<lambda>wanted actual. EqualServiceAccount actual wanted" adoptAccount
    "\<lambda>r. (ksa_namespace r, ksa_name r)" foreignAccount
  by unfold_locales
    (auto simp: keepNothing_def EqualServiceAccount_iff adoptAccount_def foreignAccount_def)

end
