(* ===== verification/Webhook.thy ===== *)
theory Webhook
  imports Defaults Objects
begin

text \<open>
  The validating webhook: \<open>api/v1alpha1/cassandracluster_webhook.go\<close>.
  A request is refused when the list of errors is not empty; each message of the code is a constructor of
  \<open>violation\<close>. A nil dereference in the webhook makes the request fail as well and is kept apart as \<open>Panic\<close>.
  The YAML parser is the parameter \<open>validYaml\<close>.
  The lemmas characterise the accepted specifications and say when the webhook panics.
\<close>

section \<open>Violations\<close>

datatype violation =
    PersistenceChanged
  | StorageClassChanged string string
  | NoReplicas string
  | TooManySeeds int int string
  | ReplicationTooHigh int int string
  | ServerSecretsBoth
  | ClientSecretsBoth
  | ConfigOverridesInvalid
  | ScrapeIntervalInvalid
  | ParallelismRequired
  | IntensityInvalid string
  | RepairsMissing
  | RepairParallelismRequired string "string list"
  | TriggerTimeInvalid string
  | IngressSecretMissing
  | HostPortRequired
  | IngressDomainMissing
  | RegionNamespaceMissing
  | PortNotAllowed int

type_synonym verdict = "go_error + violation list"

definition report :: "bool \<Rightarrow> violation \<Rightarrow> violation list" where
  "report b v = (if b then [v] else [])"

text \<open>Appending the errors of two checks; a panic in the first prevents the second.\<close>

definition alsoCheck :: "verdict \<Rightarrow> verdict \<Rightarrow> verdict" where
  "alsoCheck a b = bindE a (\<lambda>xs. bindE b (\<lambda>ys. Inr (xs @ ys)))"

section \<open>The checks\<close>

definition storageClass :: "cassandra \<Rightarrow> string option" where
  "storageClass c = pvc_storageClassName (pst_dataVolumeClaimSpec (cas_persistence c))"

definition storageChanged :: "cassandra \<Rightarrow> cassandra \<Rightarrow> verdict" where
  "storageChanged old new =
     (if storageClass old \<noteq> storageClass new
      then bindE (deref (storageClass old)) (\<lambda>a. bindE (deref (storageClass new)) (\<lambda>b. Inr [StorageClassChanged a b]))
      else Inr [])"

definition validateImmutableFields :: "cassandraCluster \<Rightarrow> cassandraCluster option \<Rightarrow> verdict" where
  "validateImmutableFields cc ccOld =
     (case (Option.bind ccOld (\<lambda>o'. cassandraSpec (cc_spec o')), cassandraSpec (cc_spec cc)) of
        (Some old, Some new) \<Rightarrow>
          alsoCheck
            (Inr (report (pst_enabled (cas_persistence old) \<noteq> pst_enabled (cas_persistence new)) PersistenceChanged))
            (if pst_enabled (cas_persistence new)
             then alsoCheck (storageChanged old new)
               (Inr (case (storageClass old, storageClass new) of
                  (Some a, Some b) \<Rightarrow> report (a \<noteq> b) (StorageClassChanged a b) | _ \<Rightarrow> []))
             else Inr [])
      | _ \<Rightarrow> Inr [])"

definition checkSeeds :: "int \<Rightarrow> dc \<Rightarrow> verdict" where
  "checkSeeds numSeeds d =
     bindE (deref (dc_replicas d)) (\<lambda>n.
       Inr (report (n = 0) (NoReplicas (dc_name d)) @
            (if numSeeds = 1 \<and> n = 1 then [] else report (numSeeds > n) (TooManySeeds numSeeds n (dc_name d)))))"

fun getSystemKeyspaceDCByName :: "systemKeyspaceDC list \<Rightarrow> string \<Rightarrow> systemKeyspaceDC option" where
  "getSystemKeyspaceDCByName [] n = None"
| "getSystemKeyspaceDCByName (d # ds) n = (if skdc_name d = n then Some d else getSystemKeyspaceDCByName ds n)"

definition checkReplication :: "systemKeyspaceDC list \<Rightarrow> dc \<Rightarrow> verdict" where
  "checkReplication sks d =
     bindE (deref (getSystemKeyspaceDCByName sks (dc_name d))) (\<lambda>k.
     bindE (deref (dc_replicas d)) (\<lambda>n.
       Inr (report (skdc_rf k > n) (ReplicationTooHigh (skdc_rf k) n (dc_name d)))))"

text \<open>A loop over the datacentres that appends the errors of each.\<close>

fun checkAll :: "('a \<Rightarrow> verdict) \<Rightarrow> 'a list \<Rightarrow> verdict" where
  "checkAll f [] = Inr []"
| "checkAll f (x # xs) = alsoCheck (f x) (checkAll f xs)"

text \<open>\<open>generalValidation\<close>; a nil list of datacentres and an empty one lead to the same checks.\<close>

definition generalValidation :: "cassandraCluster \<Rightarrow> verdict" where
  "generalValidation cc =
     (let s = cc_spec cc; enc = encryptionSpec s in
      alsoCheck
        (case cassandraSpec s of None \<Rightarrow> Inr []
         | Some c \<Rightarrow> if cas_numSeeds c > 0 then checkAll (checkSeeds (cas_numSeeds c)) (spec_dcs s) else Inr [])
        (alsoCheck
          (case sk_dcs (systemKeyspacesSpec s) of None \<Rightarrow> Inr [] | Some sks \<Rightarrow> checkAll (checkReplication sks) (spec_dcs s))
          (Inr (report (node_name (se_nodeTLSSecret (enc_server enc)) \<noteq> '''' \<and> ca_name (se_caTLSSecret (enc_server enc)) \<noteq> '''')
                  ServerSecretsBoth @
                report (ca_name (ce_caTLSSecret (enc_client enc)) \<noteq> '''' \<and> node_name (ce_nodeTLSSecret (enc_client enc)) \<noteq> '''')
                  ClientSecretsBoth))))"

definition intervalInvalid :: "serviceMonitor \<Rightarrow> bool" where
  "intervalInvalid sm \<longleftrightarrow> sm_scrapeInterval sm \<noteq> '''' \<and> \<not> ParseDurationOk (sm_scrapeInterval sm)"

definition validateCassandra :: "(string \<Rightarrow> bool) \<Rightarrow> cassandra \<Rightarrow> violation list" where
  "validateCassandra validYaml c =
     report (length (cas_configOverrides c) > 0 \<and> \<not> validYaml (cas_configOverrides c)) ConfigOverridesInvalid @
     report (intervalInvalid (mon_serviceMonitor (cas_monitoring c))) ScrapeIntervalInvalid"

definition checkRepairIntensity :: "string \<Rightarrow> violation list" where
  "checkRepairIntensity s =
     (case ParseFloat s of None \<Rightarrow> [IntensityInvalid s] | Some v \<Rightarrow> report (below01 v \<or> above1 v) (IntensityInvalid s))"

definition validateRepair :: "repairSchedule \<Rightarrow> violation list" where
  "validateRepair r =
     report (rs_incrementalRepair r \<and> rs_repairParallelism r \<noteq> ''PARALLEL'') (RepairParallelismRequired (rs_keyspace r) (rs_tables r)) @
     (if length (rs_intensity r) > 0 then checkRepairIntensity (rs_intensity r) else []) @
     report (ParseISO (rs_scheduleTriggerTime r) = None) (TriggerTimeInvalid (rs_scheduleTriggerTime r))"

definition validateReaper :: "reaper \<Rightarrow> violation list" where
  "validateReaper r =
     (let rss = rea_repairSchedules r in
      report (rea_incrementalRepair r \<and> rea_repairParallelism r \<noteq> ''PARALLEL'') ParallelismRequired @
      report (intervalInvalid (rea_serviceMonitor r)) ScrapeIntervalInvalid @
      (if length (rea_repairIntensity r) > 0 then checkRepairIntensity (rea_repairIntensity r) else []) @
      report (rss_enabled rss \<and> rss_repairs rss = None) RepairsMissing @
      (if rss_enabled rss then concat (map validateRepair (slice (rss_repairs rss))) else []))"

definition validateProber :: "cassandraCluster \<Rightarrow> violation list" where
  "validateProber cc = report (intervalInvalid (prb_serviceMonitor (proberOf (cc_spec cc)))) ScrapeIntervalInvalid"

definition validateIngress :: "cassandraCluster \<Rightarrow> violation list" where
  "validateIngress cc =
     (let ing = ingressSpec (cc_spec cc) in
      (if length (ing_domain ing) > 0
       then report (length (ing_secret ing) = 0) IngressSecretMissing @
            report (\<not> hp_enabled (hostPortSpec (cc_spec cc))) HostPortRequired
       else []) @
      report (er_managed (externalRegionsSpec (cc_spec cc)) \<noteq> None \<and> length (ing_domain ing) = 0) IngressDomainMissing @
      concat (map (\<lambda>r. report (mr_domain r = ing_domain ing \<and> mr_namespace r = '''') RegionNamespaceMissing) (managedRegions cc)))"


definition cassandraAllowedPorts :: "string list" where
  "cassandraAllowedPorts = map itoa [IntraPort, TlsPort, JmxPort, CqlPort, ThriftPort, IcarusPort]"

definition validateNetworkPolicies :: "cassandraCluster \<Rightarrow> violation list" where
  "validateNetworkPolicies cc =
     (let np = networkPoliciesSpec (cc_spec cc) in
      if \<not> np_enabled np then []
      else concat (map (\<lambda>r. concat (map (\<lambda>p. report (\<not> Contains cassandraAllowedPorts (itoa p)) (PortNotAllowed p)) (npr_ports r)))
             (np_extraCassandraRules np)))"

definition validateClusterCreateUpdate ::
  "(string \<Rightarrow> bool) \<Rightarrow> cassandraCluster \<Rightarrow> cassandraCluster option \<Rightarrow> verdict" where
  "validateClusterCreateUpdate validYaml cc ccOld =
     alsoCheck (validateImmutableFields cc ccOld)
       (alsoCheck (generalValidation cc)
         (Inr ((case cassandraSpec (cc_spec cc) of None \<Rightarrow> [] | Some c \<Rightarrow> validateCassandra validYaml c) @
               (case reaperSpec (cc_spec cc) of None \<Rightarrow> [] | Some r \<Rightarrow> validateReaper r) @
               validateProber cc @ validateIngress cc @ validateNetworkPolicies cc)))"

definition ValidateCreate :: "(string \<Rightarrow> bool) \<Rightarrow> cassandraCluster \<Rightarrow> verdict" where
  "ValidateCreate validYaml cc = validateClusterCreateUpdate validYaml cc None"

text \<open>\<open>ValidateUpdate\<close>; \<open>None\<close> is an old object of another type, which the code reports with the name of a nil pointer.\<close>

definition ValidateUpdate :: "(string \<Rightarrow> bool) \<Rightarrow> cassandraCluster \<Rightarrow> cassandraCluster option \<Rightarrow> verdict" where
  "ValidateUpdate validYaml cc old =
     (case old of None \<Rightarrow> Inl Panic | Some ccOld \<Rightarrow> validateClusterCreateUpdate validYaml cc (Some ccOld))"

section \<open>Lemmas\<close>

lemma report_Nil [simp]: "report b v = [] \<longleftrightarrow> \<not> b"
  by (simp add: report_def)

lemma alsoCheck_Nil: "alsoCheck a b = Inr [] \<longleftrightarrow> a = Inr [] \<and> b = Inr []"
  by (cases a; cases b) (auto simp: alsoCheck_def)

lemma alsoCheck_Inr [simp]: "alsoCheck (Inr xs) (Inr ys) = Inr (xs @ ys)"
  by (simp add: alsoCheck_def)

lemma alsoCheck_Panic [simp]: "alsoCheck (Inl Panic) b = Inl Panic" "alsoCheck (Inr xs) (Inl Panic) = Inl Panic"
  by (simp_all add: alsoCheck_def)

lemma checkAll_Nil: "checkAll f xs = Inr [] \<longleftrightarrow> (\<forall>x \<in> set xs. f x = Inr [])"
  by (induction xs) (auto simp: alsoCheck_Nil)

lemma checkSeeds_Nil:
  "checkSeeds k d = Inr [] \<longleftrightarrow> (\<exists>n. dc_replicas d = Some n \<and> n \<noteq> 0 \<and> k \<le> n)"
  by (cases "dc_replicas d") (auto simp: checkSeeds_def)

lemma getSystemKeyspaceDCByName_Some:
  "getSystemKeyspaceDCByName ks n = Some k \<Longrightarrow> k \<in> set ks \<and> skdc_name k = n"
  by (induction ks) (auto split: if_splits)

lemma getSystemKeyspaceDCByName_None:
  "getSystemKeyspaceDCByName ks n = None \<longleftrightarrow> n \<notin> skdc_name ` set ks"
  by (induction ks) auto

lemma checkReplication_Nil:
  "checkReplication ks d = Inr [] \<longleftrightarrow>
     (\<exists>k n. getSystemKeyspaceDCByName ks (dc_name d) = Some k \<and> dc_replicas d = Some n \<and> skdc_rf k \<le> n)"
  by (cases "getSystemKeyspaceDCByName ks (dc_name d)"; cases "dc_replicas d") (auto simp: checkReplication_def)

lemma checkIntensity_Nil:
  "checkRepairIntensity s = [] \<longleftrightarrow> (\<exists>v. ParseFloat s = Some v \<and> \<not> below01 v \<and> \<not> above1 v)"
  by (auto simp: checkRepairIntensity_def split: option.splits)

lemma itoa_inj: "0 \<le> i \<Longrightarrow> 0 \<le> j \<Longrightarrow> itoa i = itoa j \<longleftrightarrow> i = j"
  using itoa_of_nat_inj [of "nat i" "nat j"] by (simp add: eq_nat_nat_iff)

text \<open>The only failure of a check is a panic.\<close>

definition panicsOnly :: "verdict \<Rightarrow> bool" where
  "panicsOnly v \<longleftrightarrow> (case v of Inl e \<Rightarrow> e = Panic | Inr _ \<Rightarrow> True)"

lemma panicsOnly_simps [simp]: "panicsOnly (Inr xs)" "panicsOnly (Inl e) \<longleftrightarrow> e = Panic"
  by (simp_all add: panicsOnly_def)

lemma panicsOnly_alsoCheck: "panicsOnly a \<Longrightarrow> panicsOnly b \<Longrightarrow> panicsOnly (alsoCheck a b)"
  by (cases a; cases b) (auto simp: alsoCheck_def)

lemma panicsOnly_checkAll: "(\<And>x. panicsOnly (f x)) \<Longrightarrow> panicsOnly (checkAll f xs)"
  by (induction xs) (auto intro: panicsOnly_alsoCheck)

lemma panicsOnly_checks: "panicsOnly (checkSeeds k d)" "panicsOnly (checkReplication ks d)" "panicsOnly (storageChanged old new)"
  by (simp_all add: checkSeeds_def checkReplication_def storageChanged_def bindE_def deref_def split: option.splits)

lemma panicsOnly_general: "panicsOnly (generalValidation cc)"
  unfolding generalValidation_def Let_def
  by (intro panicsOnly_alsoCheck) (auto intro: panicsOnly_checkAll panicsOnly_checks split: option.splits)

lemma checkAll_Panic:
  assumes "x \<in> set xs" "f x = Inl Panic" "\<And>y. panicsOnly (f y)"
  shows "checkAll f xs = Inl Panic"
  using assms(1)
proof (induction xs)
  case (Cons y ys)
  have "panicsOnly (f y)" by (rule assms(3))
  with Cons assms(2) show ?case by (cases "f y") auto
qed simp

section \<open>The accepted specifications\<close>

definition seedsFit :: "cassandraCluster \<Rightarrow> bool" where
  "seedsFit cc \<longleftrightarrow> (\<forall>c d. cassandraSpec (cc_spec cc) = Some c \<longrightarrow> cas_numSeeds c > 0 \<longrightarrow> d \<in> set (spec_dcs (cc_spec cc)) \<longrightarrow>
     (\<exists>n. dc_replicas d = Some n \<and> n \<noteq> 0 \<and> cas_numSeeds c \<le> n))"

definition replicationFits :: "cassandraCluster \<Rightarrow> bool" where
  "replicationFits cc \<longleftrightarrow> (\<forall>ks d. sk_dcs (systemKeyspacesSpec (cc_spec cc)) = Some ks \<longrightarrow> d \<in> set (spec_dcs (cc_spec cc)) \<longrightarrow>
     (\<exists>k n. getSystemKeyspaceDCByName ks (dc_name d) = Some k \<and> dc_replicas d = Some n \<and> skdc_rf k \<le> n))"

definition oneSecretEach :: "cassandraCluster \<Rightarrow> bool" where
  "oneSecretEach cc \<longleftrightarrow> (let enc = encryptionSpec (cc_spec cc) in
     (node_name (se_nodeTLSSecret (enc_server enc)) = '''' \<or> ca_name (se_caTLSSecret (enc_server enc)) = '''') \<and>
     (node_name (ce_nodeTLSSecret (enc_client enc)) = '''' \<or> ca_name (ce_caTLSSecret (enc_client enc)) = ''''))"

definition intensityOk :: "string \<Rightarrow> bool" where
  "intensityOk s \<longleftrightarrow> s = '''' \<or> (\<exists>v. ParseFloat s = Some v \<and> \<not> below01 v \<and> \<not> above1 v)"

definition reaperOk :: "reaper \<Rightarrow> bool" where
  "reaperOk r \<longleftrightarrow>
     (rea_incrementalRepair r \<longrightarrow> rea_repairParallelism r = ''PARALLEL'') \<and> intensityOk (rea_repairIntensity r) \<and>
     \<not> intervalInvalid (rea_serviceMonitor r) \<and>
     (rss_enabled (rea_repairSchedules r) \<longrightarrow> (\<exists>rs. rss_repairs (rea_repairSchedules r) = Some rs \<and>
        (\<forall>x \<in> set rs. (rs_incrementalRepair x \<longrightarrow> rs_repairParallelism x = ''PARALLEL'') \<and> intensityOk (rs_intensity x) \<and>
           ParseISO (rs_scheduleTriggerTime x) \<noteq> None)))"

definition exposureOk :: "cassandraCluster \<Rightarrow> bool" where
  "exposureOk cc \<longleftrightarrow> (let ing = ingressSpec (cc_spec cc) in
     (ing_domain ing \<noteq> '''' \<longrightarrow> ing_secret ing \<noteq> '''' \<and> hp_enabled (hostPortSpec (cc_spec cc))) \<and>
     (er_managed (externalRegionsSpec (cc_spec cc)) \<noteq> None \<longrightarrow> ing_domain ing \<noteq> '''') \<and>
     (\<forall>r \<in> set (managedRegions cc). mr_domain r = ing_domain ing \<longrightarrow> mr_namespace r \<noteq> ''''))"

definition portsOk :: "cassandraCluster \<Rightarrow> bool" where
  "portsOk cc \<longleftrightarrow> np_enabled (networkPoliciesSpec (cc_spec cc)) \<longrightarrow>
     (\<forall>r \<in> set (np_extraCassandraRules (networkPoliciesSpec (cc_spec cc))). \<forall>p \<in> set (npr_ports r).
        itoa p \<in> set (map itoa [7000, 7001, 7199, 9042, 9160, 4567]))"

definition acceptable :: "(string \<Rightarrow> bool) \<Rightarrow> cassandraCluster \<Rightarrow> bool" where
  "acceptable validYaml cc \<longleftrightarrow>
     seedsFit cc \<and> replicationFits cc \<and> oneSecretEach cc \<and>
     (\<forall>c. cassandraSpec (cc_spec cc) = Some c \<longrightarrow>
        (cas_configOverrides c = '''' \<or> validYaml (cas_configOverrides c)) \<and> \<not> intervalInvalid (mon_serviceMonitor (cas_monitoring c))) \<and>
     (\<forall>r. reaperSpec (cc_spec cc) = Some r \<longrightarrow> reaperOk r) \<and>
     \<not> intervalInvalid (prb_serviceMonitor (proberOf (cc_spec cc))) \<and> exposureOk cc \<and> portsOk cc"

lemma general_accepted: "generalValidation cc = Inr [] \<longleftrightarrow> seedsFit cc \<and> replicationFits cc \<and> oneSecretEach cc"
  by (auto simp: generalValidation_def alsoCheck_Nil checkAll_Nil checkSeeds_Nil checkReplication_Nil seedsFit_def
      replicationFits_def oneSecretEach_def Let_def split: option.splits)

lemma repair_accepted: "validateRepair x = [] \<longleftrightarrow>
    (rs_incrementalRepair x \<longrightarrow> rs_repairParallelism x = ''PARALLEL'') \<and> intensityOk (rs_intensity x) \<and>
    ParseISO (rs_scheduleTriggerTime x) \<noteq> None"
  by (auto simp: validateRepair_def checkIntensity_Nil intensityOk_def)

lemma reaper_accepted: "validateReaper r = [] \<longleftrightarrow> reaperOk r"
  by (cases "rss_repairs (rea_repairSchedules r)")
    (auto simp: validateReaper_def reaperOk_def checkIntensity_Nil intensityOk_def repair_accepted Let_def)

lemma ingress_accepted: "validateIngress cc = [] \<longleftrightarrow> exposureOk cc"
  by (auto simp: validateIngress_def exposureOk_def Let_def)

lemma ports_accepted: "validateNetworkPolicies cc = [] \<longleftrightarrow> portsOk cc"
proof -
  have p: "cassandraAllowedPorts = map itoa [7000, 7001, 7199, 9042, 9160, 4567]"
    by (simp add: cassandraAllowedPorts_def IntraPort_def TlsPort_def JmxPort_def CqlPort_def ThriftPort_def IcarusPort_def)
  show ?thesis by (auto simp: validateNetworkPolicies_def portsOk_def p Let_def)
qed

lemma cassandra_accepted: "validateCassandra validYaml c = [] \<longleftrightarrow>
    (cas_configOverrides c = '''' \<or> validYaml (cas_configOverrides c)) \<and> \<not> intervalInvalid (mon_serviceMonitor (cas_monitoring c))"
  by (auto simp: validateCassandra_def)

section \<open>Properties\<close>

text \<open>C19: The webhook accepts a new cluster exactly when the specification is acceptable: the seeds fit the replicas, the
  replication of the system keyspaces fits the datacentres, there is one TLS secret per side, intervals, intensities
  and trigger times can be read, incremental repairs are parallel, exposed clusters have an ingress secret and host
  ports, and additional rules open only the ports of Cassandra.\<close>

theorem create_accepted_iff: "ValidateCreate validYaml cc = Inr [] \<longleftrightarrow> acceptable validYaml cc"
proof -
  have "validateImmutableFields cc None = Inr []" by (simp add: validateImmutableFields_def)
  then show ?thesis
    by (auto simp: ValidateCreate_def validateClusterCreateUpdate_def alsoCheck_Nil general_accepted reaper_accepted
        ingress_accepted ports_accepted cassandra_accepted validateProber_def acceptable_def split: option.splits)
qed

text \<open>An update that the webhook accepts keeps the choice between persistent and other storage, and with persistent
  storage it keeps the storage class.\<close>

theorem update_keeps_storage:
  assumes "ValidateUpdate validYaml cc (Some ccOld) = Inr []"
    and "cassandraSpec (cc_spec ccOld) = Some old" "cassandraSpec (cc_spec cc) = Some new"
  shows "pst_enabled (cas_persistence old) = pst_enabled (cas_persistence new) \<and>
    (pst_enabled (cas_persistence new) \<longrightarrow> storageClass old = storageClass new)"
  using assms by (auto simp: ValidateUpdate_def validateClusterCreateUpdate_def validateImmutableFields_def alsoCheck_Nil
      storageChanged_def bindE_Inr_iff split: if_splits)

text \<open>C20: The webhook panics instead of reporting a violation in two cases: the replication of the system keyspaces is set
  but does not name a datacentre of the specification, and an update of a cluster with persistent storage sets or
  removes the storage class.\<close>

theorem webhook_panics:
  "(sk_dcs (systemKeyspacesSpec (cc_spec cc)) = Some ks \<longrightarrow> d \<in> set (spec_dcs (cc_spec cc)) \<longrightarrow>
      dc_name d \<notin> skdc_name ` set ks \<longrightarrow> ValidateCreate validYaml cc = Inl Panic) \<and>
   (cassandraSpec (cc_spec ccOld) = Some old \<longrightarrow> cassandraSpec (cc_spec cc) = Some new \<longrightarrow>
      pst_enabled (cas_persistence new) \<longrightarrow> (storageClass old = None) \<noteq> (storageClass new = None) \<longrightarrow>
      ValidateUpdate validYaml cc (Some ccOld) = Inl Panic)"
proof (intro conjI impI)
  assume ks: "sk_dcs (systemKeyspacesSpec (cc_spec cc)) = Some ks" and d: "d \<in> set (spec_dcs (cc_spec cc))"
    and n: "dc_name d \<notin> skdc_name ` set ks"
  from n have "checkReplication ks d = Inl Panic"
    by (simp add: checkReplication_def getSystemKeyspaceDCByName_None [THEN iffD2])
  from checkAll_Panic [where f = "checkReplication ks", OF d this panicsOnly_checks(2)]
  have "checkAll (checkReplication ks) (spec_dcs (cc_spec cc)) = Inl Panic" .
  then have "generalValidation cc \<noteq> Inr xs" for xs
    using ks by (auto simp: generalValidation_def alsoCheck_def bindE_Inr_iff Let_def)
  then have "generalValidation cc = Inl Panic"
    using panicsOnly_general [of cc] by (cases "generalValidation cc") auto
  then show "ValidateCreate validYaml cc = Inl Panic"
    by (simp add: ValidateCreate_def validateClusterCreateUpdate_def validateImmutableFields_def)
next
  assume "cassandraSpec (cc_spec ccOld) = Some old" "cassandraSpec (cc_spec cc) = Some new"
    "pst_enabled (cas_persistence new)" and c: "(storageClass old = None) \<noteq> (storageClass new = None)"
  moreover from c have "storageChanged old new = Inl Panic"
    by (cases "storageClass old"; cases "storageClass new") (auto simp: storageChanged_def)
  ultimately show "ValidateUpdate validYaml cc (Some ccOld) = Inl Panic"
    by (simp add: ValidateUpdate_def validateClusterCreateUpdate_def validateImmutableFields_def)
qed

text \<open>A repair intensity is accepted when it is a decimal number that rounds to a value from 0.1 to 1.0, and also when
  it is not a number at all: the string \<open>NaN\<close> passes the range check.\<close>

theorem intensity_accepted_iff:
  "(checkRepairIntensity s = [] \<longleftrightarrow> (\<exists>v. ParseFloat s = Some v \<and> (v = NaN \<or>
      (\<exists>m e. v = Decimal False m e \<and> \<not> decimalLe m e 26843545 (2 ^ 28) \<and> decimalLe m e (2 ^ 24 + 1) (2 ^ 24))))) \<and>
   checkRepairIntensity ''NaN'' = [] \<and> checkRepairIntensity ''0.05'' \<noteq> []"
proof -
  have v: "\<not> below01 v \<and> \<not> above1 v \<longleftrightarrow> v = NaN \<or>
      (\<exists>m e. v = Decimal False m e \<and> \<not> decimalLe m e 26843545 (2 ^ 28) \<and> decimalLe m e (2 ^ 24 + 1) (2 ^ 24))" for v
    by (cases v) (auto simp: below01_def above1_def)
  have "ParseFloat ''0.05'' = Some (Decimal False 5 (- 2))" by code_simp
  then have "checkRepairIntensity ''0.05'' \<noteq> []"
    by (simp add: checkIntensity_Nil below01_def decimalLe_def)
  then show ?thesis
    unfolding checkIntensity_Nil v using nan_example by auto
qed

section \<open>Examples\<close>

definition noStorage :: cassandra where
  "noStorage = sampleCassandra\<lparr>cas_persistence := (cas_persistence sampleCassandra)\<lparr>pst_enabled := True,
     pst_dataVolumeClaimSpec := noClaim\<rparr>\<rparr>"

definition fastStorage :: cassandra where
  "fastStorage = sampleCassandra\<lparr>cas_persistence := (cas_persistence sampleCassandra)\<lparr>pst_enabled := True,
     pst_dataVolumeClaimSpec := noClaim\<lparr>pvc_storageClassName := Some ''fast''\<rparr>\<rparr>\<rparr>"

definition withStorage :: "cassandra \<Rightarrow> cassandraCluster" where
  "withStorage c = runningCluster\<lparr>cc_spec := (cc_spec runningCluster)\<lparr>cassandraSpec := Some c\<rparr>\<rparr>"

theorem webhook_panics_witness:
  "ValidateUpdate (\<lambda>_. True) (withStorage fastStorage) (Some (withStorage noStorage)) = Inl Panic"
  by (rule webhook_panics [THEN conjunct2, rule_format, where old = noStorage and new = fastStorage])
    (simp_all add: withStorage_def noStorage_def fastStorage_def storageClass_def noClaim_def)

definition hiddenCluster :: cassandraCluster where
  "hiddenCluster = runningCluster\<lparr>cc_spec := (cc_spec runningCluster)\<lparr>reaperSpec := None, cassandraSpec := Some fastStorage,
     ingressSpec := \<lparr>ing_domain = '''', ing_secret = '''', ing_annotations = Map.empty, ing_ingressClassName = None\<rparr>\<rparr>\<rparr>"

theorem update_keeps_storage_witness:
  "\<exists>new. cassandraSpec (cc_spec hiddenCluster) = Some new \<and> pst_enabled (cas_persistence new) \<and>
     storageClass fastStorage = storageClass new"
proof -
  have c: "cassandraSpec (cc_spec hiddenCluster) = Some fastStorage" by (simp add: hiddenCluster_def)
  have "ValidateUpdate (\<lambda>_. True) hiddenCluster (Some hiddenCluster) = Inr []"
    by (simp add: ValidateUpdate_def validateClusterCreateUpdate_def validateImmutableFields_def storageChanged_def
        generalValidation_def validateCassandra_def validateProber_def validateIngress_def validateNetworkPolicies_def
        checkSeeds_def intervalInvalid_def report_def hiddenCluster_def runningCluster_def sampleCluster_def
        fastStorage_def sampleCassandra_def managedRegions_def Let_def split: option.splits)
  from update_keeps_storage [OF this c c] show ?thesis using c by (auto simp: fastStorage_def)
qed

end
