(* ===== verification/Reaper_Client.thy ===== *)
theory Reaper_Client
  imports Prober Env
begin

text \<open>
  The operator's client of Cassandra Reaper: \<open>controllers/reaper/reaper.go\<close>, \<open>repairs.go\<close> and
  \<open>repair_schedules.go\<close>. The HTTP transport, the JSON decoder and the encoder of a schedule as query values (a
  third-party package) are parameters (record \<open>reaperHttp\<close>). A request is its method, its URL and the values of
  its query; their order on the wire is that of the encoder.
  The lemmas state how repairs and clusters are handled for any transport, and what a repair service that behaves as
  Reaper documents holds afterwards (\<open>reaperServes\<close>).
\<close>

section \<open>Requests and answers\<close>

datatype httpVerb = GetVerb | PutVerb | PostVerb | DeleteVerb

record reaperRequest =
  rr_method :: httpVerb
  rr_url :: string
  rr_query :: "(string \<times> string) list"

record repairRun =
  run_id :: string
  run_state :: string
  run_duration :: string
  run_clusterName :: string
  run_keyspaceName :: string
  run_owner :: string
  run_cause :: string

record 'w reaperHttp =
  rh_newRequest :: "httpVerb \<Rightarrow> string \<Rightarrow> go_error + unit"
  rh_do :: "reaperRequest \<Rightarrow> 'w \<Rightarrow> (go_error + httpAnswer) \<times> 'w"
  rh_decodeStrings :: "string \<Rightarrow> go_error + string list"
  rh_decodeRun :: "string \<Rightarrow> go_error + repairRun"
  rh_decodeRuns :: "string \<Rightarrow> go_error + repairRun list"
  rh_decodeSchedules :: "string \<Rightarrow> go_error + reaperSchedule list"
  rh_scheduleValues :: "repairSchedule \<Rightarrow> (string \<times> string) list"

record reaperClient =
  rc_baseUrl :: string
  rc_clusterName :: string
  rc_repairThreadCount :: int

definition RepairStateRunning :: string where "RepairStateRunning = ''RUNNING''"
definition RepairStatePaused :: string where "RepairStatePaused = ''PAUSED''"
definition OwnerCassandraOperator :: string where "OwnerCassandraOperator = ''cassandra-operator''"

definition NewReaperClient :: "string \<Rightarrow> string \<Rightarrow> int \<Rightarrow> reaperClient" where
  "NewReaperClient u clusterName threads =
     \<lparr>rc_baseUrl = u, rc_clusterName = clusterName, rc_repairThreadCount = threads\<rparr>"

definition reaperUrl :: "reaperClient \<Rightarrow> string \<Rightarrow> string" where
  "reaperUrl c path = rc_baseUrl c @ path"

text \<open>\<open>http.NewRequestWithContext\<close> and \<open>client.Do\<close>: a bad method or URL is an error before anything is sent.\<close>

definition send ::
  "'w reaperHttp \<Rightarrow> httpVerb \<Rightarrow> string \<Rightarrow> (string \<times> string) list \<Rightarrow> ('w, reaperRequest, httpAnswer) act" where
  "send H m url query =
     (case rh_newRequest H m url of
        Inl e \<Rightarrow> raise e
      | Inr _ \<Rightarrow> let r = \<lparr>rr_method = m, rr_url = url, rr_query = query\<rparr> in call r (rh_do H r))"

text \<open>\<open>b, _ := io.ReadAll(resp.Body)\<close>: a read error leaves what was read so far, here nothing.\<close>

definition readIgnoringError :: "httpAnswer \<Rightarrow> string" where
  "readIgnoringError ans = (case ans_body ans of Inl _ \<Rightarrow> '''' | Inr b \<Rightarrow> b)"

definition requestFailedWithStatus :: "int \<Rightarrow> string \<Rightarrow> go_error" where
  "requestFailedWithStatus code message =
     Err (''Request failed with status code '' @ itoa code @ ''. Response body: '' @ message)"

text \<open>What most methods do with an answer: a status from 300 on is an error.\<close>

definition failBadStatus :: "httpAnswer \<Rightarrow> ('w, reaperRequest, unit) act" where
  "failBadStatus ans =
     (if ans_code ans \<ge> 300 then raise (requestFailedWithStatus (ans_code ans) (readIgnoringError ans)) else ret ())"

definition liftR :: "go_error + 'a \<Rightarrow> ('w, reaperRequest, 'a) act" where
  "liftR r = (case r of Inl e \<Rightarrow> raise e | Inr x \<Rightarrow> ret x)"

lemma liftR_simps [act_simps, simp]:
  "result (liftR r) w = r" "trace (liftR r) w = []" "world (liftR r) w = w"
  by (simp_all add: liftR_def split: sum.splits)

text \<open>What the methods that decode the answer do: read, check the status, decode.\<close>

definition decodeAnswer :: "(string \<Rightarrow> go_error + 'a) \<Rightarrow> httpAnswer \<Rightarrow> ('w, reaperRequest, 'a) act" where
  "decodeAnswer decode ans =
     andThen (liftR (ans_body ans)) (\<lambda>body.
       if ans_code ans \<ge> 300 then raise (requestFailedWithStatus (ans_code ans) body) else liftR (decode body))"

section \<open>Clusters\<close>

definition reaperIsRunning :: "'w reaperHttp \<Rightarrow> reaperClient \<Rightarrow> ('w, reaperRequest, bool) act" where
  "reaperIsRunning H c =
     andThen (send H GetVerb (reaperUrl c ''/ping'') []) (\<lambda>ans. ret (ans_code ans = 204))"

definition clusterUrl :: "reaperClient \<Rightarrow> string" where
  "clusterUrl c = reaperUrl c (''/cluster/'' @ rc_clusterName c)"

definition ClusterExists :: "'w reaperHttp \<Rightarrow> reaperClient \<Rightarrow> ('w, reaperRequest, bool) act" where
  "ClusterExists H c =
     andThen (send H GetVerb (clusterUrl c) []) (\<lambda>ans.
       if ans_code ans = 404 then ret False else andThen (failBadStatus ans) (\<lambda>_. ret True))"

definition AddCluster :: "'w reaperHttp \<Rightarrow> reaperClient \<Rightarrow> string \<Rightarrow> ('w, reaperRequest, unit) act" where
  "AddCluster H c seed =
     andThen (send H PutVerb (clusterUrl c) [(''seedHost'', seed)]) (\<lambda>ans.
       if ans_code ans = 404 then raise ClusterNotFound else failBadStatus ans)"

definition Clusters :: "'w reaperHttp \<Rightarrow> reaperClient \<Rightarrow> ('w, reaperRequest, string list) act" where
  "Clusters H c =
     andThen (send H GetVerb (reaperUrl c ''/cluster'') []) (\<lambda>ans.
     andThen (failBadStatus ans) (\<lambda>_. liftR (rh_decodeStrings H (readIgnoringError ans))))"

section \<open>Repair runs\<close>

definition getRepairRuns :: "'w reaperHttp \<Rightarrow> reaperClient \<Rightarrow> string \<Rightarrow> ('w, reaperRequest, repairRun list) act" where
  "getRepairRuns H c keyspaceName =
     andThen (send H GetVerb (reaperUrl c ''/repair_run'')
         ((''cluster_name'', rc_clusterName c) # (if length keyspaceName > 0 then [(''keyspace_name'', keyspaceName)] else [])))
       (decodeAnswer (rh_decodeRuns H))"

definition createRepairRun :: "'w reaperHttp \<Rightarrow> reaperClient \<Rightarrow> string \<Rightarrow> string \<Rightarrow> ('w, reaperRequest, repairRun) act" where
  "createRepairRun H c keyspaceName why =
     andThen (send H PostVerb (reaperUrl c ''/repair_run'')
         [(''clusterName'', rc_clusterName c), (''keyspace'', keyspaceName), (''owner'', OwnerCassandraOperator),
          (''cause'', why), (''repairThreadCount'', itoa (rc_repairThreadCount c))])
       (decodeAnswer (rh_decodeRun H))"

definition setRepairState :: "'w reaperHttp \<Rightarrow> reaperClient \<Rightarrow> string \<Rightarrow> string \<Rightarrow> ('w, reaperRequest, unit) act" where
  "setRepairState H c runID state =
     andThen (send H PutVerb (reaperUrl c (''/repair_run/'' @ runID @ ''/state/'' @ state)) []) failBadStatus"

text \<open>\<open>activeRun\<close>: a repair of the keyspace is running or scheduled.\<close>

definition activeRun :: "string \<Rightarrow> repairRun \<Rightarrow> bool" where
  "activeRun keyspaceName r \<longleftrightarrow>
     run_keyspaceName r = keyspaceName \<and> (run_state r = ''RUNNING'' \<or> run_state r = ''NOT_STARTED'')"

definition RunRepair :: "'w reaperHttp \<Rightarrow> reaperClient \<Rightarrow> string \<Rightarrow> string \<Rightarrow> ('w, reaperRequest, unit) act" where
  "RunRepair H c keyspaceName why =
     andThen (getRepairRuns H c keyspaceName) (\<lambda>existing.
       if \<exists>r \<in> set existing. activeRun keyspaceName r then ret ()
       else andThen (createRepairRun H c keyspaceName why) (\<lambda>r. setRepairState H c (run_id r) RepairStateRunning))"

definition pauseRun :: "'w reaperHttp \<Rightarrow> reaperClient \<Rightarrow> repairRun \<Rightarrow> ('w, reaperRequest, unit) act" where
  "pauseRun H c r =
     (if run_state r = RepairStateRunning
      then wrapErr (''can't pause repair run '' @ run_id r @ '' for keyspace '' @ run_keyspaceName r)
             (setRepairState H c (run_id r) RepairStatePaused)
      else ret ())"

definition deleteRepairRun :: "'w reaperHttp \<Rightarrow> reaperClient \<Rightarrow> repairRun \<Rightarrow> ('w, reaperRequest, unit) act" where
  "deleteRepairRun H c r =
     andThen (pauseRun H c r) (\<lambda>_.
     andThen (send H DeleteVerb (reaperUrl c (''/repair_run/'' @ run_id r)) [(''owner'', run_owner r)]) failBadStatus)"

section \<open>Repair schedules\<close>

definition CreateRepairSchedule :: "'w reaperHttp \<Rightarrow> reaperClient \<Rightarrow> repairSchedule \<Rightarrow> ('w, reaperRequest, unit) act" where
  "CreateRepairSchedule H c repair =
     andThen (send H PostVerb (reaperUrl c ''/repair_schedule'')
         (rh_scheduleValues H repair @ [(''clusterName'', rc_clusterName c), (''owner'', OwnerCassandraOperator)]))
       failBadStatus"

definition RepairSchedules :: "'w reaperHttp \<Rightarrow> reaperClient \<Rightarrow> ('w, reaperRequest, reaperSchedule list) act" where
  "RepairSchedules H c =
     andThen (send H GetVerb (reaperUrl c ''/repair_schedule'') [(''clusterName'', rc_clusterName c)])
       (decodeAnswer (rh_decodeSchedules H))"

definition scheduleUrl :: "reaperClient \<Rightarrow> string \<Rightarrow> string" where
  "scheduleUrl c scheduleID = reaperUrl c (''/repair_schedule/'' @ scheduleID)"

definition DeleteRepairSchedule :: "'w reaperHttp \<Rightarrow> reaperClient \<Rightarrow> string \<Rightarrow> ('w, reaperRequest, unit) act" where
  "DeleteRepairSchedule H c scheduleID =
     andThen (send H DeleteVerb (scheduleUrl c scheduleID) [(''owner'', OwnerCassandraOperator)]) failBadStatus"

definition SetRepairScheduleState :: "'w reaperHttp \<Rightarrow> reaperClient \<Rightarrow> string \<Rightarrow> bool \<Rightarrow> ('w, reaperRequest, unit) act" where
  "SetRepairScheduleState H c scheduleID active =
     andThen (send H PutVerb (scheduleUrl c scheduleID) [(''state'', if active then ''ACTIVE'' else ''PAUSED'')]) failBadStatus"

section \<open>Deleting a cluster\<close>

definition deleteRun :: "'w reaperHttp \<Rightarrow> reaperClient \<Rightarrow> repairRun \<Rightarrow> ('w, reaperRequest, unit) act" where
  "deleteRun H c r =
     wrapErr (''can't delete repair run '' @ run_id r @ '' for keyspace '' @ run_keyspaceName r) (deleteRepairRun H c r)"

definition deleteSchedule :: "'w reaperHttp \<Rightarrow> reaperClient \<Rightarrow> reaperSchedule \<Rightarrow> ('w, reaperRequest, unit) act" where
  "deleteSchedule H c s =
     wrapErr (''can't delete repair schedule '' @ rps_id s @ '' for keyspace '' @ rps_keyspaceName s)
       (DeleteRepairSchedule H c (rps_id s))"

definition DeleteCluster :: "'w reaperHttp \<Rightarrow> reaperClient \<Rightarrow> ('w, reaperRequest, unit) act" where
  "DeleteCluster H c =
     andThen (getRepairRuns H c '''') (\<lambda>runs.
     andThen (forEach (deleteRun H c) runs) (\<lambda>_.
     andThen (RepairSchedules H c) (\<lambda>schedules.
     andThen (forEach (deleteSchedule H c) schedules) (\<lambda>_.
     andThen (send H DeleteVerb (clusterUrl c) []) failBadStatus))))"

section \<open>What the methods send\<close>

lemma send_Inr: "result (send H m url qs) w = Inr a \<Longrightarrow>
    trace (send H m url qs) w = [\<lparr>rr_method = m, rr_url = url, rr_query = qs\<rparr>] \<and>
    rh_do H \<lparr>rr_method = m, rr_url = url, rr_query = qs\<rparr> w = (Inr a, world (send H m url qs) w)"
  by (cases "rh_newRequest H m url") (auto simp: send_def Let_def prod_eq_iff)

lemma failBadStatus_Inr [simp]: "result (failBadStatus a) w = Inr x \<longleftrightarrow> ans_code a < 300"
  by (simp add: failBadStatus_def)

lemma failBadStatus_quiet [simp]: "trace (failBadStatus a) w = []" "world (failBadStatus a) w = w"
  by (simp_all add: failBadStatus_def)

lemma decodeAnswer_Inr: "result (decodeAnswer d a) w = Inr x \<longleftrightarrow>
    (\<exists>b. ans_body a = Inr b \<and> ans_code a < 300 \<and> d b = Inr x)"
  by (cases "ans_body a") (auto simp: decodeAnswer_def)

lemma decodeAnswer_quiet [simp]: "trace (decodeAnswer d a) w = []" "world (decodeAnswer d a) w = w"
  by (cases "ans_body a"; simp add: decodeAnswer_def)+

definition runsRequest :: "reaperClient \<Rightarrow> string \<Rightarrow> reaperRequest" where
  "runsRequest c k = \<lparr>rr_method = GetVerb, rr_url = reaperUrl c ''/repair_run'',
     rr_query = (''cluster_name'', rc_clusterName c) # (if k = '''' then [] else [(''keyspace_name'', k)])\<rparr>"

definition createRequest :: "reaperClient \<Rightarrow> string \<Rightarrow> string \<Rightarrow> reaperRequest" where
  "createRequest c k why = \<lparr>rr_method = PostVerb, rr_url = reaperUrl c ''/repair_run'',
     rr_query = [(''clusterName'', rc_clusterName c), (''keyspace'', k), (''owner'', OwnerCassandraOperator),
       (''cause'', why), (''repairThreadCount'', itoa (rc_repairThreadCount c))]\<rparr>"

definition stateRequest :: "reaperClient \<Rightarrow> string \<Rightarrow> string \<Rightarrow> reaperRequest" where
  "stateRequest c i st = \<lparr>rr_method = PutVerb, rr_url = reaperUrl c (''/repair_run/'' @ i @ ''/state/'' @ st), rr_query = []\<rparr>"

definition deleteRunRequests :: "reaperClient \<Rightarrow> repairRun \<Rightarrow> reaperRequest list" where
  "deleteRunRequests c r =
     (if run_state r = ''RUNNING'' then [stateRequest c (run_id r) ''PAUSED''] else []) @
     [\<lparr>rr_method = DeleteVerb, rr_url = reaperUrl c (''/repair_run/'' @ run_id r), rr_query = [(''owner'', run_owner r)]\<rparr>]"

definition schedulesRequest :: "reaperClient \<Rightarrow> reaperRequest" where
  "schedulesRequest c = \<lparr>rr_method = GetVerb, rr_url = reaperUrl c ''/repair_schedule'',
     rr_query = [(''clusterName'', rc_clusterName c)]\<rparr>"

definition deleteScheduleRequest :: "reaperClient \<Rightarrow> reaperSchedule \<Rightarrow> reaperRequest" where
  "deleteScheduleRequest c s = \<lparr>rr_method = DeleteVerb, rr_url = scheduleUrl c (rps_id s),
     rr_query = [(''owner'', OwnerCassandraOperator)]\<rparr>"

definition deleteClusterRequest :: "reaperClient \<Rightarrow> reaperRequest" where
  "deleteClusterRequest c = \<lparr>rr_method = DeleteVerb, rr_url = clusterUrl c, rr_query = []\<rparr>"

lemma getRepairRuns_Inr:
  assumes "result (getRepairRuns H c k) w = Inr rs"
  shows "\<exists>a b. rh_do H (runsRequest c k) w = (Inr a, world (getRepairRuns H c k) w) \<and> ans_body a = Inr b \<and>
      rh_decodeRuns H b = Inr rs \<and> trace (getRepairRuns H c k) w = [runsRequest c k]"
proof -
  let ?s = "send H GetVerb (reaperUrl c ''/repair_run'') (rr_query (runsRequest c k))"
  have g: "getRepairRuns H c k = andThen ?s (decodeAnswer (rh_decodeRuns H))"
    by (simp add: getRepairRuns_def runsRequest_def)
  from assms obtain a where a: "result ?s w = Inr a" by (auto simp: g split: sum.splits)
  from send_Inr [OF this] show ?thesis
    using assms a by (auto simp: g decodeAnswer_Inr runsRequest_def)
qed

lemma createRepairRun_Inr:
  assumes "result (createRepairRun H c k why) w = Inr r"
  shows "\<exists>a b. rh_do H (createRequest c k why) w = (Inr a, world (createRepairRun H c k why) w) \<and> ans_code a < 300 \<and>
      ans_body a = Inr b \<and> rh_decodeRun H b = Inr r"
proof -
  let ?s = "send H PostVerb (reaperUrl c ''/repair_run'') (rr_query (createRequest c k why))"
  have g: "createRepairRun H c k why = andThen ?s (decodeAnswer (rh_decodeRun H))"
    by (simp add: createRepairRun_def createRequest_def)
  from assms obtain a where a: "result ?s w = Inr a" by (auto simp: g split: sum.splits)
  from send_Inr [OF this] show ?thesis
    using assms a by (auto simp: g decodeAnswer_Inr createRequest_def)
qed

lemma setRepairState_Inr:
  assumes "result (setRepairState H c i st) w = Inr ()"
  shows "\<exists>a. rh_do H (stateRequest c i st) w = (Inr a, world (setRepairState H c i st) w) \<and> ans_code a < 300 \<and>
      trace (setRepairState H c i st) w = [stateRequest c i st]"
proof -
  let ?s = "send H PutVerb (rr_url (stateRequest c i st)) []"
  have g: "setRepairState H c i st = andThen ?s failBadStatus"
    by (simp add: setRepairState_def stateRequest_def)
  from assms obtain a where a: "result ?s w = Inr a" by (auto simp: g split: sum.splits)
  from send_Inr [OF this] show ?thesis
    using assms a by (auto simp: g stateRequest_def)
qed

lemma pauseRun_trace:
  assumes "result (pauseRun H c r) w = Inr ()"
  shows "trace (pauseRun H c r) w = (if run_state r = ''RUNNING'' then [stateRequest c (run_id r) ''PAUSED''] else [])"
proof (cases "run_state r = ''RUNNING''")
  case True
  with assms have "result (setRepairState H c (run_id r) RepairStatePaused) w = Inr ()"
    by (simp add: pauseRun_def RepairStateRunning_def wrapErr_Inr del: result_wrapErr)
  from setRepairState_Inr [OF this] True show ?thesis
    by (auto simp: pauseRun_def RepairStateRunning_def RepairStatePaused_def)
qed (simp add: pauseRun_def RepairStateRunning_def)

lemma deleteRun_trace:
  assumes "result (deleteRun H c r) w = Inr ()"
  shows "trace (deleteRun H c r) w = deleteRunRequests c r"
proof -
  let ?s = "send H DeleteVerb (reaperUrl c (''/repair_run/'' @ run_id r)) [(''owner'', run_owner r)]"
  from assms obtain a where p: "result (pauseRun H c r) w = Inr ()" and s: "result ?s (world (pauseRun H c r) w) = Inr a"
    by (auto simp: deleteRun_def deleteRepairRun_def wrapErr_Inr andThen_Inr simp del: result_wrapErr result_andThen)
  show ?thesis
    using pauseRun_trace [OF p] p s send_Inr [OF s]
    by (simp add: deleteRun_def deleteRepairRun_def deleteRunRequests_def)
qed

lemma deleteSchedule_trace:
  assumes "result (deleteSchedule H c x) w = Inr ()"
  shows "trace (deleteSchedule H c x) w = [deleteScheduleRequest c x]"
proof -
  let ?s = "send H DeleteVerb (scheduleUrl c (rps_id x)) [(''owner'', OwnerCassandraOperator)]"
  from assms obtain a where s: "result ?s w = Inr a"
    by (auto simp: deleteSchedule_def DeleteRepairSchedule_def wrapErr_Inr andThen_Inr simp del: result_wrapErr result_andThen)
  show ?thesis
    using s send_Inr [OF s] by (simp add: deleteSchedule_def DeleteRepairSchedule_def deleteScheduleRequest_def)
qed

lemma RepairSchedules_trace:
  assumes "result (RepairSchedules H c) w = Inr xs"
  shows "trace (RepairSchedules H c) w = [schedulesRequest c]"
proof -
  let ?s = "send H GetVerb (reaperUrl c ''/repair_schedule'') [(''clusterName'', rc_clusterName c)]"
  from assms obtain a where s: "result ?s w = Inr a"
    by (auto simp: RepairSchedules_def andThen_Inr simp del: result_andThen)
  show ?thesis
    using s send_Inr [OF s] by (simp add: RepairSchedules_def schedulesRequest_def)
qed

section \<open>Properties\<close>

text \<open>A cluster is removed from Reaper last: when its removal succeeds, every repair run that Reaper listed has been
  deleted before, a running one paused first, and then every schedule of the cluster.\<close>

theorem cluster_deleted_last:
  assumes "result (DeleteCluster H c) w = Inr ()"
  shows "\<exists>runs schedules. result (getRepairRuns H c '''') w = Inr runs \<and>
    trace (DeleteCluster H c) w =
      runsRequest c '''' # concat (map (deleteRunRequests c) runs) @
      schedulesRequest c # map (deleteScheduleRequest c) schedules @ [deleteClusterRequest c]"
proof -
  let ?runs = "getRepairRuns H c ''''"
  let ?del = "\<lambda>rs. forEach (deleteRun H c) rs"
  let ?s = "send H DeleteVerb (clusterUrl c) []"
  from assms obtain rs xs a where
      r: "result ?runs w = Inr rs" and d: "result (?del rs) (world ?runs w) = Inr ()" and
      x: "result (RepairSchedules H c) (world (?del rs) (world ?runs w)) = Inr xs" and
      e: "result (forEach (deleteSchedule H c) xs)
            (world (RepairSchedules H c) (world (?del rs) (world ?runs w))) = Inr ()" and
      s: "result ?s (world (forEach (deleteSchedule H c) xs)
            (world (RepairSchedules H c) (world (?del rs) (world ?runs w)))) = Inr a"
    by (auto simp: DeleteCluster_def andThen_Inr simp del: result_andThen)
  have "concat (map (\<lambda>x. [deleteScheduleRequest c x]) xs) = map (deleteScheduleRequest c) xs" by (induction xs) auto
  then show ?thesis
    using r d x e s getRepairRuns_Inr [OF r] forEach_trace [OF d deleteRun_trace] RepairSchedules_trace [OF x]
      forEach_trace [OF e deleteSchedule_trace] send_Inr [OF s]
    by (auto simp: DeleteCluster_def deleteClusterRequest_def intro!: exI [of _ rs])
qed

text \<open>Example: a Reaper that lists one run and one schedule and accepts every request.\<close>

definition sampleReaperClient :: reaperClient where
  "sampleReaperClient = NewReaperClient ''http://reaper:8080'' ''c'' 1"

definition sampleRun :: "string \<Rightarrow> repairRun" where
  "sampleRun state = \<lparr>run_id = ''1'', run_state = state, run_duration = '''', run_clusterName = ''c'',
     run_keyspaceName = ''ks'', run_owner = ''o'', run_cause = ''''\<rparr>"

definition sampleSchedule :: reaperSchedule where
  "sampleSchedule = \<lparr>rps_id = ''s'', rps_owner = ''o'', rps_state = ''ACTIVE'', rps_intensity = F64 False (2 ^ 52) (- 52),
     rps_keyspaceName = ''ks'', rps_columnFamilies = [], rps_segmentCount = 0, rps_repairParallelism = ''PARALLEL'',
     rps_scheduleDaysBetween = 7, rps_datacenters = [], rps_incrementalRepair = False, rps_tables = [],
     rps_repairThreadCount = 1\<rparr>"

definition busyReaper :: "unit reaperHttp" where
  "busyReaper = \<lparr>rh_newRequest = \<lambda>_ _. Inr (),
     rh_do = \<lambda>_ w. (Inr \<lparr>ans_code = 200, ans_status = ''OK'', ans_body = Inr ''''\<rparr>, w),
     rh_decodeStrings = \<lambda>_. Inr [], rh_decodeRun = \<lambda>_. Inr (sampleRun ''NOT_STARTED''),
     rh_decodeRuns = \<lambda>_. Inr [sampleRun ''RUNNING''], rh_decodeSchedules = \<lambda>_. Inr [sampleSchedule],
     rh_scheduleValues = \<lambda>_. []\<rparr>"

theorem cluster_deleted_last_witness:
  "\<exists>runs schedules. trace (DeleteCluster busyReaper sampleReaperClient) () =
      runsRequest sampleReaperClient '''' # concat (map (deleteRunRequests sampleReaperClient) runs) @
      schedulesRequest sampleReaperClient # map (deleteScheduleRequest sampleReaperClient) schedules @
      [deleteClusterRequest sampleReaperClient]"
proof -
  have "result (DeleteCluster busyReaper sampleReaperClient) () = Inr ()"
    by (simp add: DeleteCluster_def getRepairRuns_def RepairSchedules_def send_def busyReaper_def Let_def decodeAnswer_def
      deleteRun_def deleteRepairRun_def pauseRun_def setRepairState_def deleteSchedule_def DeleteRepairSchedule_def
      failBadStatus_def)
  from cluster_deleted_last [OF this] show ?thesis by blast
qed

text \<open>A repair service as Reaper documents it: \<open>runs\<close> are the repair runs it knows. Listing answers with those of the
  keyspace, creating adds one that has not started under a new identifier, and a state is set on the run it names.\<close>

definition reaperServes :: "'w reaperHttp \<Rightarrow> reaperClient \<Rightarrow> ('w \<Rightarrow> repairRun list) \<Rightarrow> bool" where
  "reaperServes H c runs \<longleftrightarrow>
     (\<forall>k w a w' b rs. k \<noteq> '''' \<and> rh_do H (runsRequest c k) w = (Inr a, w') \<and> ans_body a = Inr b \<and> rh_decodeRuns H b = Inr rs \<longrightarrow>
        w' = w \<and> rs = filter (\<lambda>r. run_keyspaceName r = k) (runs w)) \<and>
     (\<forall>k why w a w' b r. rh_do H (createRequest c k why) w = (Inr a, w') \<and> ans_code a < 300 \<and> ans_body a = Inr b \<and>
        rh_decodeRun H b = Inr r \<longrightarrow>
        runs w' = runs w @ [r] \<and> run_keyspaceName r = k \<and> run_state r = ''NOT_STARTED'' \<and> run_id r \<notin> run_id ` set (runs w)) \<and>
     (\<forall>i st w a w'. rh_do H (stateRequest c i st) w = (Inr a, w') \<and> ans_code a < 300 \<longrightarrow>
        runs w' = map (\<lambda>r. if run_id r = i then r\<lparr>run_state := st\<rparr> else r) (runs w))"

text \<open>A repair is not doubled: after a successful \<open>RunRepair\<close> the keyspace has an active run, a new one only when it had
  none, and the runs of other keyspaces are as before.\<close>

theorem repair_not_doubled:
  assumes "reaperServes H c runs" "k \<noteq> ''''" "result (RunRepair H c k why) w = Inr ()"
  shows "length (filter (activeRun k) (runs (world (RunRepair H c k why) w))) = max 1 (length (filter (activeRun k) (runs w))) \<and>
    filter (\<lambda>r. run_keyspaceName r \<noteq> k) (runs (world (RunRepair H c k why) w)) =
      filter (\<lambda>r. run_keyspaceName r \<noteq> k) (runs w)"
proof -
  from assms(3) obtain rs where rs: "result (getRepairRuns H c k) w = Inr rs"
    by (auto simp: RunRepair_def andThen_Inr simp del: result_andThen)
  from getRepairRuns_Inr [OF rs] assms(1,2)
  have w1: "world (getRepairRuns H c k) w = w" and rsf: "rs = filter (\<lambda>r. run_keyspaceName r = k) (runs w)"
    unfolding reaperServes_def by blast+
  have act: "filter (activeRun k) (runs w) = filter (activeRun k) rs"
    by (auto simp: rsf activeRun_def intro!: filter_cong)
  show ?thesis
  proof (cases "\<exists>r \<in> set rs. activeRun k r")
    case True
    then have "filter (activeRun k) rs \<noteq> []" by (simp add: filter_empty_conv)
    then have "length (filter (activeRun k) (runs w)) \<ge> 1" by (simp add: act Suc_le_eq)
    moreover have "world (RunRepair H c k why) w = w" using rs w1 True by (simp add: RunRepair_def)
    ultimately show ?thesis by simp
  next
    case False
    let ?w1 = "world (createRepairRun H c k why) w"
    from False assms(3) rs w1 obtain r where r: "result (createRepairRun H c k why) w = Inr r"
      and st: "result (setRepairState H c (run_id r) RepairStateRunning) ?w1 = Inr ()"
      by (auto simp: RunRepair_def andThen_Inr simp del: result_andThen)
    let ?w2 = "world (setRepairState H c (run_id r) RepairStateRunning) ?w1"
    from createRepairRun_Inr [OF r] assms(1)
    have c: "runs ?w1 = runs w @ [r]" "run_keyspaceName r = k" "run_id r \<notin> run_id ` set (runs w)"
      unfolding reaperServes_def by blast+
    from setRepairState_Inr [OF st] assms(1)
    have "runs ?w2 = map (\<lambda>x. if run_id x = run_id r then x\<lparr>run_state := RepairStateRunning\<rparr> else x) (runs ?w1)"
      unfolding reaperServes_def by blast
    also have "\<dots> = runs w @ [r\<lparr>run_state := RepairStateRunning\<rparr>]"
      using c by (auto intro!: map_idI simp: image_iff dest: sym)
    finally have "runs ?w2 = runs w @ [r\<lparr>run_state := RepairStateRunning\<rparr>]" .
    moreover have "world (RunRepair H c k why) w = ?w2"
      using rs w1 False r by (simp add: RunRepair_def)
    moreover have "filter (activeRun k) (runs w) = []" using False by (simp add: act filter_empty_conv)
    ultimately show ?thesis using c by (simp add: activeRun_def RepairStateRunning_def)
  qed
qed

text \<open>Example: a Reaper with one keyspace. Its state is 0 without a repair run, 1 when one is created, 2 when it runs.\<close>

definition sampleRuns :: "nat \<Rightarrow> repairRun list" where
  "sampleRuns n = (if n = 0 then [] else if n = 1 then [sampleRun ''NOT_STARTED''] else [sampleRun ''RUNNING''])"

definition sampleBody :: "nat \<Rightarrow> string" where
  "sampleBody n = (if n = 0 then ''a'' else if n = 1 then ''b'' else ''c'')"

definition sampleReaper :: "nat reaperHttp" where
  "sampleReaper = \<lparr>rh_newRequest = \<lambda>_ _. Inr (),
     rh_do = \<lambda>r n.
       if r = runsRequest sampleReaperClient ''ks''
       then (Inr \<lparr>ans_code = 200, ans_status = ''OK'', ans_body = Inr (sampleBody n)\<rparr>, n)
       else if r = createRequest sampleReaperClient ''ks'' ''why'' \<and> n = 0
       then (Inr \<lparr>ans_code = 200, ans_status = ''OK'', ans_body = Inr ''''\<rparr>, 1)
       else if r = stateRequest sampleReaperClient ''1'' ''RUNNING'' \<and> n = 1
       then (Inr \<lparr>ans_code = 200, ans_status = ''OK'', ans_body = Inr ''''\<rparr>, 2)
       else (Inl NetTimeout, n),
     rh_decodeStrings = \<lambda>_. Inr [], rh_decodeRun = \<lambda>_. Inr (sampleRun ''NOT_STARTED''),
     rh_decodeRuns = \<lambda>b. Inr (if b = ''a'' then [] else if b = ''b'' then sampleRuns 1 else sampleRuns 2),
     rh_decodeSchedules = \<lambda>_. Inr [], rh_scheduleValues = \<lambda>_. []\<rparr>"

lemma sampleReaper_serves: "reaperServes sampleReaper sampleReaperClient sampleRuns"
  unfolding reaperServes_def
proof (intro conjI allI impI)
  fix k w a w' b rs
  assume "k \<noteq> '''' \<and> rh_do sampleReaper (runsRequest sampleReaperClient k) w = (Inr a, w') \<and> ans_body a = Inr b \<and>
    rh_decodeRuns sampleReaper b = Inr rs"
  then show "w' = w" "rs = filter (\<lambda>r. run_keyspaceName r = k) (sampleRuns w)"
    by (auto simp: sampleReaper_def runsRequest_def createRequest_def stateRequest_def sampleBody_def sampleRuns_def
      sampleRun_def split: if_splits)
next
  fix k why w a w' b r
  assume "rh_do sampleReaper (createRequest sampleReaperClient k why) w = (Inr a, w') \<and> ans_code a < 300 \<and>
    ans_body a = Inr b \<and> rh_decodeRun sampleReaper b = Inr r"
  then show "sampleRuns w' = sampleRuns w @ [r]" "run_keyspaceName r = k" "run_state r = ''NOT_STARTED''"
      "run_id r \<notin> run_id ` set (sampleRuns w)"
    by (auto simp: sampleReaper_def runsRequest_def createRequest_def stateRequest_def sampleRuns_def sampleRun_def
      split: if_splits)
next
  fix i st w a w'
  assume "rh_do sampleReaper (stateRequest sampleReaperClient i st) w = (Inr a, w') \<and> ans_code a < 300"
  then have e: "stateRequest sampleReaperClient i st = stateRequest sampleReaperClient ''1'' ''RUNNING''" and "w = 1" "w' = 2"
    by (auto simp: sampleReaper_def runsRequest_def createRequest_def stateRequest_def split: if_splits)
  moreover from e have "i = ''1'' \<and> st = ''RUNNING''"
    by (auto simp: stateRequest_def reaperUrl_def append_eq_Cons_conv)
  ultimately show "sampleRuns w' = map (\<lambda>r. if run_id r = i then r\<lparr>run_state := st\<rparr> else r) (sampleRuns w)"
    by (simp add: sampleRuns_def sampleRun_def)
qed

theorem repair_not_doubled_witness:
  "length (filter (activeRun ''ks'') (sampleRuns (world (RunRepair sampleReaper sampleReaperClient ''ks'' ''why'') 0))) =
     max 1 (length (filter (activeRun ''ks'') (sampleRuns 0)))"
proof -
  have "result (RunRepair sampleReaper sampleReaperClient ''ks'' ''why'') 0 = Inr ()"
    by (simp add: RunRepair_def getRepairRuns_def createRepairRun_def setRepairState_def send_def sampleReaper_def Let_def
      decodeAnswer_def failBadStatus_def runsRequest_def createRequest_def stateRequest_def sampleBody_def sampleRuns_def
      sampleRun_def RepairStateRunning_def)
  from repair_not_doubled [OF sampleReaper_serves _ this] show ?thesis by simp
qed

end
