(* ===== verification/Repair_Schedules.thy ===== *)
theory Repair_Schedules
  imports Reaper_Client Defaults "HOL-Library.Multiset"
begin

text \<open>
  Repair schedules: \<open>controllers/repair_schedules.go\<close>. The schedules that the operator owns in Reaper are made to
  agree with the specification; a trigger time in the past is moved to the next occurrence of its weekday.
  The calendar of Go's \<open>time\<close> package is modelled with day numbers; \<open>clock\<close> reads the time in Unix seconds and
  \<open>zone\<close> is the offset of the local time zone in seconds.
  Sorting the tables of a schedule in place, which \<open>sameRepair\<close> does to the slices that its arguments share with the
  caller, is written out where the sorted slice is used later.
\<close>

section \<open>Calendar\<close>

text \<open>Days from the first of January of year 0.\<close>

definition yearLength :: "nat \<Rightarrow> nat" where
  "yearLength y = (if leapYear y then 366 else 365)"

definition daysBeforeYear :: "nat \<Rightarrow> nat" where
  "daysBeforeYear y = 365 * y + (y + 3) div 4 + (y + 399) div 400 - (y + 99) div 100"

definition daysBeforeMonth :: "nat \<Rightarrow> nat \<Rightarrow> nat" where
  "daysBeforeMonth m y = sum_list (map (\<lambda>k. daysIn k y) [1..<m])"

definition epochDay :: nat where "epochDay = 719528"

definition dayNumber :: "nat \<Rightarrow> nat \<Rightarrow> nat \<Rightarrow> nat" where
  "dayNumber y m d = daysBeforeYear y + daysBeforeMonth m y + d - 1"

text \<open>\<open>time.Weekday\<close>: Sunday is 0. The first of January of year 0 was a Saturday.\<close>

definition weekday :: "nat \<Rightarrow> nat" where
  "weekday n = (n + 6) mod 7"

function yearFrom :: "nat \<Rightarrow> nat \<Rightarrow> nat \<times> nat" where
  "yearFrom y n = (if n < yearLength y then (y, n) else yearFrom (y + 1) (n - yearLength y))"
  by auto
termination
  by (relation "measure snd") (auto simp: yearLength_def split: if_splits)

declare yearFrom.simps [simp del]

function monthFrom :: "nat \<Rightarrow> nat \<Rightarrow> nat \<Rightarrow> nat \<times> nat" where
  "monthFrom y m n = (if m \<ge> 12 \<or> n < daysIn m y then (m, n) else monthFrom y (m + 1) (n - daysIn m y))"
  by auto
termination
  by (relation "measure (\<lambda>(y, m, n). 12 - m)") auto

declare monthFrom.simps [simp del]

definition dateOf :: "nat \<Rightarrow> nat \<times> nat \<times> nat" where
  "dateOf n =
     (let (y, k) = yearFrom (400 * (n div 146097)) (n mod 146097); (m, d) = monthFrom y 1 k in (y, m, d + 1))"

definition digit :: "nat \<Rightarrow> char" where "digit n = char_of (48 + n mod 10)"
definition pad2 :: "nat \<Rightarrow> string" where "pad2 n = [digit (n div 10), digit n]"
definition pad4 :: "nat \<Rightarrow> string" where "pad4 n = pad2 (n div 100) @ pad2 n"

text \<open>The layouts \<open>2006-01-02\<close> (for years of four digits) and \<open>15:04:05\<close>.\<close>

definition formatDate :: "nat \<Rightarrow> string" where
  "formatDate n = (let (y, m, d) = dateOf n in pad4 y @ ''-'' @ pad2 m @ ''-'' @ pad2 d)"

definition formatHMS :: "nat \<Rightarrow> string" where
  "formatHMS s = pad2 (s div 3600) @ '':'' @ pad2 (s div 60 mod 60) @ '':'' @ pad2 (s mod 60)"

section \<open>Trigger times\<close>

definition checkSunday :: "nat \<Rightarrow> int" where
  "checkSunday day = (if day = 0 then 7 else int day)"

definition secondOfDay :: "nat \<Rightarrow> nat \<Rightarrow> nat \<Rightarrow> nat" where
  "secondOfDay h mi s = 3600 * h + 60 * mi + s"

definition unixOf :: "nat \<Rightarrow> nat \<Rightarrow> int" where
  "unixOf day sec = 86400 * (int day - int epochDay) + int sec"

text \<open>The day and the second of the day of a time in Unix seconds.\<close>

definition dayAt :: "int \<Rightarrow> nat" where "dayAt t = nat (t div 86400 + int epochDay)"
definition secondAt :: "int \<Rightarrow> nat" where "secondAt t = nat (t mod 86400)"

definition dateShift :: "int \<Rightarrow> int \<Rightarrow> string \<Rightarrow> string \<Rightarrow> int" where
  "dateShift dowNow dowScheduler timestampScheduler timestampActual =
     (let dowDiff = dowNow - dowScheduler in
      if dowDiff > 0 then 7 - dowDiff
      else if dowDiff < 0 then \<bar>dowDiff\<bar>
      else if timestampScheduler > timestampActual then 0
      else if timestampScheduler < timestampActual then 7 - dowDiff
      else 0)"

definition rescheduleTimestamp :: "int \<Rightarrow> int \<Rightarrow> repairSchedule \<Rightarrow> go_error + repairSchedule" where
  "rescheduleTimestamp now zone r =
     (if length (rs_scheduleTriggerTime r) = 0 then Inr r
      else case ParseISO (rs_scheduleTriggerTime r) of
        None \<Rightarrow> Inl (Err ''cannot parse the time'')
      | Some (y, mo, d, h, mi, s) \<Rightarrow>
          let schedDay = dayNumber y mo d; sec = secondOfDay h mi s; today = dayAt (now + zone) in
          if now > unixOf schedDay sec
          then let shift = dateShift (checkSunday (weekday today)) (checkSunday (weekday schedDay))
                     (formatHMS sec) (formatHMS (secondAt (now + zone))) in
               Inr (r\<lparr>rs_scheduleTriggerTime := formatDate (today + nat shift) @ ''T'' @ formatHMS sec\<rparr>)
          else Inr r)"

section \<open>Comparison of schedules\<close>

definition sortTables :: "reaperSchedule \<Rightarrow> reaperSchedule" where
  "sortTables s = s\<lparr>rps_tables := sort (rps_tables s)\<rparr>"

definition sortRepair :: "repairSchedule \<Rightarrow> repairSchedule" where
  "sortRepair r = r\<lparr>rs_tables := sort (rs_tables r)\<rparr>"

definition sameRepair :: "reaperSchedule \<Rightarrow> repairSchedule \<Rightarrow> bool" where
  "sameRepair x d \<longleftrightarrow> rps_keyspaceName x = rs_keyspace d \<and>
     (sort (rps_tables x) = sort (rs_tables d) \<or> (length (rs_tables d) = 0 \<and> length (rps_tables x) = 0))"

definition repairSchedulesEqual :: "reaperSchedule \<Rightarrow> reaperSchedule \<Rightarrow> bool" where
  "repairSchedulesEqual x y \<longleftrightarrow>
     rps_owner x = rps_owner y \<and> float64Eq (rps_intensity x) (rps_intensity y) \<and>
     rps_keyspaceName x = rps_keyspaceName y \<and> rps_columnFamilies x = rps_columnFamilies y \<and>
     rps_segmentCount x = rps_segmentCount y \<and> rps_repairParallelism x = rps_repairParallelism y \<and>
     rps_scheduleDaysBetween x = rps_scheduleDaysBetween y \<and> rps_datacenters x = rps_datacenters y \<and>
     rps_incrementalRepair x = rps_incrementalRepair y \<and> rps_tables x = rps_tables y \<and>
     rps_repairThreadCount x = rps_repairThreadCount y"

definition toReaperRepair :: "repairSchedule \<Rightarrow> reaperSchedule" where
  "toReaperRepair r =
     \<lparr>rps_id = '''', rps_owner = OwnerCassandraOperator, rps_state = '''',
      rps_intensity = (if length (rs_intensity r) > 0 then ParseFloat64 (rs_intensity r) else F64 False 0 0),
      rps_keyspaceName = rs_keyspace r, rps_columnFamilies = [], rps_segmentCount = 0,
      rps_repairParallelism = rs_repairParallelism r, rps_scheduleDaysBetween = rs_scheduleDaysBetween r,
      rps_datacenters = rs_datacenters r, rps_incrementalRepair = rs_incrementalRepair r, rps_tables = rs_tables r,
      rps_repairThreadCount = rs_repairThreadCount r\<rparr>"

definition filterOperatorRepairSchedules :: "reaperSchedule list \<Rightarrow> reaperSchedule list" where
  "filterOperatorRepairSchedules existing = filter (\<lambda>s. rps_owner s = OwnerCassandraOperator) existing"

definition repairsToDelete :: "reaperSchedule list \<Rightarrow> repairSchedule list \<Rightarrow> reaperSchedule list" where
  "repairsToDelete existing desired = filter (\<lambda>x. \<not> (\<exists>d \<in> set desired. sameRepair x d)) existing"

section \<open>Reconciliation\<close>

definition removeRepairSchedule :: "'w env \<Rightarrow> string \<Rightarrow> ('w, unit) run" where
  "removeRepairSchedule E i =
     andThen (wrapErr ''failed to stop repair schedule''
         (call (Reaper (SetScheduleState i False)) (r_setScheduleState (e_reaper E) i False))) (\<lambda>_.
       wrapErr ''failed to delete repair schedule'' (call (Reaper (DeleteSchedule i)) (r_deleteSchedule (e_reaper E) i)))"

text \<open>The schedule as it is sent: an unreadable trigger time is dropped.\<close>

definition withTrigger :: "int \<Rightarrow> int \<Rightarrow> repairSchedule \<Rightarrow> repairSchedule" where
  "withTrigger now zone d =
     (case rescheduleTimestamp now zone d of Inl _ \<Rightarrow> d\<lparr>rs_scheduleTriggerTime := ''''\<rparr> | Inr d' \<Rightarrow> d')"

definition createRepairSchedule :: "'w env \<Rightarrow> ('w \<Rightarrow> int) \<Rightarrow> int \<Rightarrow> repairSchedule \<Rightarrow> ('w, unit) run" where
  "createRepairSchedule E clock zone d =
     andThen (peek clock) (\<lambda>now. let d' = withTrigger now zone d in
       wrapErr ''failed to create a repair schedule''
         (call (Reaper (CreateSchedule d')) (r_createSchedule (e_reaper E) d')))"

text \<open>One existing schedule against one desired repair, whose tables \<open>sameRepair\<close> has sorted; the result says
  whether they are the same repair.\<close>

definition reconcileExisting ::
  "'w env \<Rightarrow> ('w \<Rightarrow> int) \<Rightarrow> int \<Rightarrow> repairSchedule \<Rightarrow> reaperSchedule \<Rightarrow> bool \<Rightarrow> ('w, bool) run" where
  "reconcileExisting E clock zone d x found =
     (if sameRepair x d
      then if \<not> repairSchedulesEqual (sortTables x) (toReaperRepair d)
           then andThen (removeRepairSchedule E (rps_id x)) (\<lambda>_.
                andThen (wrapErr ''failed to create a repair schedule'' (createRepairSchedule E clock zone d)) (\<lambda>_. ret True))
           else ret True
      else ret found)"

definition reconcileDesired ::
  "'w env \<Rightarrow> ('w \<Rightarrow> int) \<Rightarrow> int \<Rightarrow> reaperSchedule list \<Rightarrow> repairSchedule \<Rightarrow> ('w, unit) run" where
  "reconcileDesired E clock zone existing d =
     andThen (foldAct (reconcileExisting E clock zone (sortRepair d)) existing False) (\<lambda>found.
       if found then ret ()
       else wrapErr ''failed to create a repair schedule''
              (createRepairSchedule E clock zone (if existing = [] then d else sortRepair d)))"

definition reconcileRepairSchedules :: "'w env \<Rightarrow> ('w \<Rightarrow> int) \<Rightarrow> int \<Rightarrow> cassandraCluster \<Rightarrow> ('w, unit) run" where
  "reconcileRepairSchedules E clock zone cc =
     andThen (wrapErr ''failed to get repair schedules''
         (call (Reaper ReaperSchedules) (r_repairSchedules (e_reaper E)))) (\<lambda>schedules.
     let existing = filterOperatorRepairSchedules schedules in
     andThen (lift (deref (reaperSpec (cc_spec cc)))) (\<lambda>rea.
       let spec = rea_repairSchedules rea; desired = slice (rss_repairs spec) in
       if \<not> rss_enabled spec
       then forEach (\<lambda>s. wrapErr ''failed to remove a repair schedule'' (removeRepairSchedule E (rps_id s))) existing
       else andThen (forEach (\<lambda>s. removeRepairSchedule E (rps_id s)) (repairsToDelete existing desired)) (\<lambda>_.
            forEach (reconcileDesired E clock zone existing) desired)))"

section \<open>The calendar computes dates\<close>

lemma daysBeforeYear_Suc: "daysBeforeYear (Suc y) = daysBeforeYear y + yearLength y"
proof -
  have step: "(Suc y + k) div n = (y + k) div n + (if n dvd (Suc y + k) then 1 else 0)" if "n > 0" for n k :: nat
    using that by (simp add: div_Suc dvd_eq_mod_eq_0)
  have 4: "4 dvd (Suc y + 3) \<longleftrightarrow> 4 dvd y" and 100: "100 dvd (Suc y + 99) \<longleftrightarrow> 100 dvd y"
    and 400: "400 dvd (Suc y + 399) \<longleftrightarrow> 400 dvd y"
    using dvd_add_triv_right_iff [of 4 y] dvd_add_triv_right_iff [of 100 y] dvd_add_triv_right_iff [of 400 y]
    by simp_all
  have "(y + 99) div 100 < Suc y" by (rule less_mult_imp_div_less) simp
  then have le: "(y + 99) div 100 \<le> 365 * y + (y + 3) div 4" by linarith
  define u v x where "u = (y + 3) div 4" and "v = (y + 99) div 100" and "x = (y + 399) div 400"
  have "(Suc y + 3) div 4 = u + (if 4 dvd y then 1 else 0)" "(Suc y + 99) div 100 = v + (if 100 dvd y then 1 else 0)"
    "(Suc y + 399) div 400 = x + (if 400 dvd y then 1 else 0)"
    unfolding u_def v_def x_def using step [of 4 3] step [of 100 99] step [of 400 399] 4 100 400 by simp_all
  then have "daysBeforeYear (Suc y) = 365 * Suc y + (u + (if 4 dvd y then 1 else 0)) + (x + (if 400 dvd y then 1 else 0)) -
      (v + (if 100 dvd y then 1 else 0))"
    by (simp only: daysBeforeYear_def)
  moreover have "daysBeforeYear y = 365 * y + u + x - v" by (simp only: daysBeforeYear_def u_def v_def x_def)
  moreover have "v \<le> 365 * y + u" using le by (simp only: u_def v_def)
  moreover have "100 dvd y \<Longrightarrow> 4 dvd y" "400 dvd y \<Longrightarrow> 100 dvd y"
    using dvd_trans [of 4 100 y] dvd_trans [of 100 400 y] by simp_all
  ultimately show ?thesis
    by (cases "4 dvd y"; cases "100 dvd y"; cases "400 dvd y"; simp add: yearLength_def leapYear_def)
qed

lemma daysBeforeYear_cycle: "daysBeforeYear (400 * q + y) = 146097 * q + daysBeforeYear y"
proof (induction y)
  case 0
  have "(400 * q + 3) div 4 = 100 * q" "(400 * q + 399) div 400 = q" "(400 * q + 99) div 100 = 4 * q" by presburger+
  then show ?case by (simp add: daysBeforeYear_def)
next
  case (Suc y)
  have "yearLength (400 * q + y) = yearLength y"
  proof -
    have "4 dvd (400 * q + y) \<longleftrightarrow> 4 dvd y" "100 dvd (400 * q + y) \<longleftrightarrow> 100 dvd y" "400 dvd (400 * q + y) \<longleftrightarrow> 400 dvd y"
      by (rule dvd_add_right_iff, rule dvd_mult2, simp)+
    then show ?thesis by (simp add: yearLength_def leapYear_def)
  qed
  with Suc show ?case by (simp add: daysBeforeYear_Suc)
qed

lemma yearFrom_props: "yearFrom y n = (y', n') \<Longrightarrow>
    daysBeforeYear y' + n' = daysBeforeYear y + n \<and> n' < yearLength y' \<and> y \<le> y'"
proof (induction y n arbitrary: y' n' rule: yearFrom.induct)
  case (1 y n)
  show ?case
  proof (cases "n < yearLength y")
    case True
    with "1.prems" show ?thesis by (simp add: yearFrom.simps [of y n])
  next
    case False
    with "1.prems" have "yearFrom (y + 1) (n - yearLength y) = (y', n')" by (simp add: yearFrom.simps [of y n])
    from "1.IH" [OF False this] False show ?thesis by (simp add: daysBeforeYear_Suc)
  qed
qed

lemma daysBeforeMonth_Suc: "1 \<le> m \<Longrightarrow> daysBeforeMonth (Suc m) y = daysBeforeMonth m y + daysIn m y"
  by (simp add: daysBeforeMonth_def)

lemma daysBeforeMonth_year: "daysBeforeMonth 12 y + daysIn 12 y = yearLength y"
  by (simp add: daysBeforeMonth_def daysIn_def yearLength_def upt_rec)

lemma monthFrom_props:
  "monthFrom y m n = (m', n') \<Longrightarrow> 1 \<le> m \<Longrightarrow> m \<le> 12 \<Longrightarrow> daysBeforeMonth m y + n < yearLength y \<Longrightarrow>
    daysBeforeMonth m' y + n' = daysBeforeMonth m y + n \<and> n' < daysIn m' y \<and> 1 \<le> m' \<and> m' \<le> 12"
proof (induction y m n arbitrary: m' n' rule: monthFrom.induct)
  case (1 y m n)
  show ?case
  proof (cases "m \<ge> 12 \<or> n < daysIn m y")
    case True
    with "1.prems" daysBeforeMonth_year [of y] show ?thesis by (auto simp: monthFrom.simps [of y m n])
  next
    case False
    with "1.prems" have "monthFrom y (m + 1) (n - daysIn m y) = (m', n')" by (simp add: monthFrom.simps [of y m n])
    with "1.IH" [OF False this] "1.prems" False show ?thesis by (auto simp: daysBeforeMonth_Suc)
  qed
qed

text \<open>\<open>dateOf\<close> inverts \<open>dayNumber\<close>.\<close>

lemma dateOf_props:
  assumes "dateOf n = (y, m, d)"
  shows "dayNumber y m d = n \<and> 1 \<le> m \<and> m \<le> 12 \<and> 1 \<le> d \<and> d \<le> daysIn m y"
proof -
  obtain y' k where yk: "yearFrom (400 * (n div 146097)) (n mod 146097) = (y', k)" by fastforce
  obtain m' d' where md: "monthFrom y' 1 k = (m', d')" by fastforce
  from assms yk md have e: "y' = y" "m' = m" "d = d' + 1" by (auto simp: dateOf_def)
  have "daysBeforeYear (400 * (n div 146097)) = 146097 * (n div 146097)"
    using daysBeforeYear_cycle [of "n div 146097" 0] by (simp add: daysBeforeYear_def)
  with yearFrom_props [OF yk] have "daysBeforeYear y' + k = n" "k < yearLength y'" by simp_all
  moreover have "daysBeforeMonth 1 y' = 0" by (simp add: daysBeforeMonth_def)
  ultimately show ?thesis
    using monthFrom_props [OF md] e by (auto simp: dayNumber_def)
qed

section \<open>Formatted times are read back\<close>

lemma digit_simps [simp]: "isDigit (digit k)" "digitVal (digit k) = k mod 10" "digit a = digit b \<longleftrightarrow> a mod 10 = b mod 10"
proof -
  have c: "(of_char (digit k) :: nat) = 48 + k mod 10" for k by (simp add: digit_def)
  show "isDigit (digit k)" "digitVal (digit k) = k mod 10"
    unfolding isDigit_def digitVal_def c by auto
  show "digit a = digit b \<longleftrightarrow> a mod 10 = b mod 10"
    using c [of a] c [of b] by (auto simp: digit_def)
qed

lemma digit_less [simp]: "digit a < digit b \<longleftrightarrow> a mod 10 < b mod 10"
  by (simp add: digit_def less_char_def)

lemma getnum_pad2: "k < 100 \<Longrightarrow> getnum f (pad2 k @ r) = Some (k, r)"
  by (simp add: pad2_def)

lemma year4_pad4: "y < 10000 \<Longrightarrow> year4 (pad4 y @ r) = Some (y, r)"
proof -
  assume y: "y < 10000"
  have two: "10 * (k div 10 mod 10) + k mod 10 = k mod 100" for k :: nat
    using mod_mult2_eq [of k 10 10] by simp
  have e: "10 * (10 * (10 * a + b) + c) + d = 100 * (10 * a + b) + (10 * c + d)" for a b c d :: nat by simp
  have "100 * (y div 100 mod 100) + y mod 100 = y"
    using mod_mult2_eq [of y 100 100] y by simp
  then have "10 * (10 * (10 * (y div 100 div 10 mod 10) + y div 100 mod 10) + y div 10 mod 10) + y mod 10 = y"
    unfolding e unfolding two .
  moreover have "y div 100 div 10 mod 10 = y div 1000" using y by (simp add: div_mult2_eq [symmetric] div_less_iff_less_mult)
  ultimately show ?thesis by (simp add: year4_def pad4_def pad2_def stringToNat_def div_mult2_eq [symmetric])
qed

lemma expect_Cons: "expect c (c # r) = Some r"
  by (simp add: expect_def)

lemma pad2_less: "a < 100 \<Longrightarrow> b < 100 \<Longrightarrow> pad2 a @ r < pad2 b @ r' \<longleftrightarrow> a < b \<or> (a = b \<and> r < r')"
proof -
  assume ab: "a < 100" "b < 100"
  have "a = 10 * (a div 10) + a mod 10" "b = 10 * (b div 10) + b mod 10" "a mod 10 < 10" "b mod 10 < 10" by simp_all
  then have "a < b \<longleftrightarrow> a div 10 < b div 10 \<or> (a div 10 = b div 10 \<and> a mod 10 < b mod 10)" by linarith
  moreover have "a = b \<longleftrightarrow> a div 10 = b div 10 \<and> a mod 10 = b mod 10" by (metis div_mult_mod_eq)
  ultimately have "a < b \<longleftrightarrow> a div 10 < b div 10 \<or> (a div 10 = b div 10 \<and> a mod 10 < b mod 10)"
    and "a = b \<longleftrightarrow> a div 10 = b div 10 \<and> a mod 10 = b mod 10" .
  with ab show ?thesis by (auto simp add: pad2_def)
qed

text \<open>The order of two times of a day is that of their parts.\<close>

lemma hms_less:
  fixes h m s h' m' s' :: nat
  assumes "m < 60" "s < 60" "m' < 60" "s' < 60"
  shows "3600 * h + 60 * m + s < 3600 * h' + 60 * m' + s' \<longleftrightarrow> h < h' \<or> h = h' \<and> (m < m' \<or> m = m' \<and> s < s')"
proof (cases h h' rule: linorder_cases)
  case equal
  then show ?thesis using assms by (cases m m' rule: linorder_cases) auto
qed (use assms in auto)

lemma hms_parts: "3600 * (x div 3600) + 60 * (x div 60 mod 60) + x mod 60 = x" for x :: nat
  using mod_mult2_eq [of x 60 60] mult_div_mod_eq [of 3600 x] by simp

lemma formatHMS_less:
  assumes "s < 86400" "t < 86400"
  shows "formatHMS s < formatHMS t \<longleftrightarrow> s < t"
proof -
  have b: "x div 3600 < 100 \<and> x div 60 mod 60 < 100 \<and> x mod 60 < 100" if "x < 86400" for x :: nat
    using that by (auto simp: div_less_iff_less_mult less_trans [OF mod_less_divisor])
  have l: "pad2 a < pad2 c \<longleftrightarrow> a < c" if "a < 100" "c < 100" for a c
    using pad2_less [OF that, of "[]" "[]"] by simp
  have "s < t \<longleftrightarrow> s div 3600 < t div 3600 \<or> s div 3600 = t div 3600 \<and>
      (s div 60 mod 60 < t div 60 mod 60 \<or> s div 60 mod 60 = t div 60 mod 60 \<and> s mod 60 < t mod 60)"
    using hms_less [of "s div 60 mod 60" "s mod 60" "t div 60 mod 60" "t mod 60" "s div 3600" "t div 3600"]
    by (simp only: hms_parts mod_less_divisor zero_less_numeral simp_thms)
  then show ?thesis
    using b [OF assms(1)] b [OF assms(2)] by (simp add: formatHMS_def pad2_less l)
qed

text \<open>The time of a day and its parts.\<close>

lemma secondOfDay_parts:
  assumes "h < 24" "mi < 60" "s < 60"
  shows "secondOfDay h mi s < 86400" "secondOfDay h mi s div 3600 = h" "secondOfDay h mi s div 60 mod 60 = mi"
    "secondOfDay h mi s mod 60 = s"
proof -
  have a: "secondOfDay h mi s = (60 * mi + s) + h * 3600" "secondOfDay h mi s = s + (h * 60 + mi) * 60"
    by (simp_all add: secondOfDay_def)
  show "secondOfDay h mi s < 86400" using assms by (simp add: secondOfDay_def)
  show "secondOfDay h mi s div 3600 = h" unfolding a(1) using assms by simp
  show "secondOfDay h mi s div 60 mod 60 = mi"
    unfolding a(2) div_mult_self1 [of 60 s "h * 60 + mi", OF zero_neq_numeral [symmetric]] using assms by simp
  show "secondOfDay h mi s mod 60 = s" unfolding a(2) mod_mult_self1 using assms by simp
qed

lemma parse_formatted:
  assumes "dateOf n = (y, m, d)" "y < 10000" "h < 24" "mi < 60" "s < 60"
  shows "ParseISO (formatDate n @ ''T'' @ formatHMS (secondOfDay h mi s)) = Some (y, m, d, h, mi, s)"
proof -
  note p = dateOf_props [OF assms(1)]
  have dm: "daysIn m y \<le> 31" by (simp add: daysIn_def)
  have g: "getnum f (pad2 s) = Some (s, [])" for f
    using getnum_pad2 [of s f "[]"] assms by simp
  show ?thesis
    using assms p dm secondOfDay_parts [OF assms(3-5)]
    by (simp add: formatDate_def formatHMS_def ParseISO_def year4_pad4 getnum_pad2 g expect_Cons afterFraction_def)
qed

lemma ParseISO_bounds: "ParseISO t = Some (y, mo, d, h, mi, s) \<Longrightarrow> h < 24 \<and> mi < 60 \<and> s < 60"
  by (auto simp: ParseISO_def bind_eq_Some_conv split: if_splits prod.splits)

section \<open>Rescheduling\<close>

text \<open>The shift leads to the first day from today that has the weekday of the schedule and whose time has not passed.\<close>

lemma dateShift_props:
  fixes a b today sched :: nat
  assumes "a < 86400" "b < 86400"
  defines "sh \<equiv> dateShift (checkSunday (weekday today)) (checkSunday (weekday sched)) (formatHMS a) (formatHMS b)"
  shows "0 \<le> sh" "weekday (today + nat sh) = weekday sched"
    "int b \<le> 86400 * sh + int a" "86400 * sh + int a < int b + 604800"
proof -
  define P Q where "P = checkSunday (weekday today)" and "Q = checkSunday (weekday sched)"
  have PQ: "1 \<le> P" "P \<le> 7" "1 \<le> Q" "Q \<le> 7" "P mod 7 = int (weekday today)" "Q mod 7 = int (weekday sched)"
    by (auto simp: P_def Q_def checkSunday_def weekday_def)
  have sh: "sh = (if P - Q > 0 then 7 - (P - Q) else if P - Q < 0 then Q - P else if b < a then 0 else if a < b then 7 else 0)"
    using assms(1,2) by (simp add: sh_def P_def Q_def dateShift_def Let_def formatHMS_less)
  then show "0 \<le> sh" "int b \<le> 86400 * sh + int a" "86400 * sh + int a < int b + 604800"
    using PQ(1-4) assms(1,2) by (auto split: if_splits)
  have "(P + sh) mod 7 = Q mod 7" unfolding sh using PQ(1-4) by (auto split: if_splits)
  then have "(int (weekday today) + sh) mod 7 = int (weekday sched)"
    using PQ(5,6) by (metis mod_add_left_eq)
  with \<open>0 \<le> sh\<close> have "int ((weekday today + nat sh) mod 7) = int (weekday sched)" by (simp add: zmod_int)
  then have "(weekday today + nat sh) mod 7 = weekday sched" by (simp only: of_nat_eq_iff)
  then show "weekday (today + nat sh) = weekday sched"
    unfolding weekday_def mod_add_left_eq by (simp only: ac_simps)
qed

text \<open>C23: A trigger time in the past moves to the next time, within a week, that has the weekday and the clock time it asks
  for, both read in the local time of the operator; a time in the future stays. The new text can be read back.\<close>

theorem rescheduled_to_next_weekday:
  assumes "ParseISO (rs_scheduleTriggerTime r) = Some (y, mo, d, h, mi, s)"
    and "now > unixOf (dayNumber y mo d) (secondOfDay h mi s)"
    and "rescheduleTimestamp now zone r = Inr r'" "0 \<le> now + zone"
    and "\<forall>k < 8. fst (dateOf (dayAt (now + zone) + k)) < 10000"
  shows "\<exists>y' mo' d'. ParseISO (rs_scheduleTriggerTime r') = Some (y', mo', d', h, mi, s) \<and>
    weekday (dayNumber y' mo' d') = weekday (dayNumber y mo d) \<and>
    now + zone \<le> unixOf (dayNumber y' mo' d') (secondOfDay h mi s) \<and>
    unixOf (dayNumber y' mo' d') (secondOfDay h mi s) < now + zone + 7 * 86400"
proof -
  define today where "today = dayAt (now + zone)"
  define b where "b = secondAt (now + zone)"
  define a where "a = secondOfDay h mi s"
  define sh where "sh = dateShift (checkSunday (weekday today)) (checkSunday (weekday (dayNumber y mo d))) (formatHMS a) (formatHMS b)"
  from ParseISO_bounds [OF assms(1)] have hms: "h < 24" "mi < 60" "s < 60" by auto
  have a: "a < 86400" using secondOfDay_parts [OF hms] by (simp add: a_def)
  have b: "b < 86400" by (simp add: b_def secondAt_def nat_less_iff)
  have t: "now + zone = 86400 * (int today - int epochDay) + int b"
    using assms(4) by (simp add: today_def b_def dayAt_def secondAt_def epochDay_def)
  note sh = dateShift_props [OF a b, of today "dayNumber y mo d", folded sh_def]
  have n: "rs_scheduleTriggerTime r \<noteq> []" using assms(1) by (auto simp: ParseISO_def year4_def)
  then have r': "rs_scheduleTriggerTime r' = formatDate (today + nat sh) @ ''T'' @ formatHMS a"
    using assms(1-3) by (auto simp: rescheduleTimestamp_def Let_def today_def b_def a_def sh_def)
  obtain y' mo' d' where dt: "dateOf (today + nat sh) = (y', mo', d')" using prod_cases3 by blast
  have "sh < 8" using sh(4) a b by linarith
  then have "nat sh < 8" by simp
  with assms(5) have "fst (dateOf (today + nat sh)) < 10000" by (auto simp: today_def)
  with dt have "y' < 10000" by simp
  from parse_formatted [OF dt this hms] have "ParseISO (rs_scheduleTriggerTime r') = Some (y', mo', d', h, mi, s)"
    by (simp add: r' a_def)
  moreover have "dayNumber y' mo' d' = today + nat sh" using dateOf_props [OF dt] by simp
  ultimately show ?thesis
    using sh t by (auto simp: unixOf_def a_def [symmetric])
qed

text \<open>Example: the trigger time 2000-01-31T00:00:00, a Monday, at 2001-09-09T01:46:40, a Sunday, moves to the next day.\<close>

definition sampleRepair :: repairSchedule where
  "sampleRepair = \<lparr>rs_keyspace = ''ks'', rs_tables = [''b'', ''a''], rs_segmentCountPerNode = 0,
     rs_repairParallelism = ''PARALLEL'', rs_intensity = ''1.0'', rs_incrementalRepair = False, rs_scheduleDaysBetween = 7,
     rs_scheduleTriggerTime = ''2000-01-31T00:00:00'', rs_nodes = [], rs_datacenters = [], rs_blacklistedTables = [],
     rs_repairThreadCount = 1\<rparr>"

theorem rescheduled_to_next_weekday_witness:
  "\<exists>r'. rescheduleTimestamp 1000000000 0 sampleRepair = Inr r' \<and>
     (\<exists>y' mo' d'. ParseISO (rs_scheduleTriggerTime r') = Some (y', mo', d', 0, 0, 0) \<and> weekday (dayNumber y' mo' d') = 1)"
proof -
  have p: "ParseISO (rs_scheduleTriggerTime sampleRepair) = Some (2000, 1, 31, 0, 0, 0)"
    by (simp add: sampleRepair_def ParseISO_def year4_def expect_def daysIn_def leapYear_def afterFraction_def parse_simps)
  have t: "dayNumber 2000 1 31 = 730515" "dayAt 1000000000 = 731102" "secondAt 1000000000 = 6400"
    by (simp_all add: dayNumber_def daysBeforeYear_def daysBeforeMonth_def dayAt_def epochDay_def secondAt_def)
  then have n: "(1000000000 :: int) > unixOf (dayNumber 2000 1 31) (secondOfDay 0 0 0)"
    by (simp add: unixOf_def secondOfDay_def epochDay_def)
  have "fst (dateOf (731102 + k)) = 2001" if "k < 8" for k
  proof -
    have "(731102 + k) div 146097 = 5" by (rule div_nat_eqI) (use that in simp_all)
    moreover from this have "(731102 + k) mod 146097 = 617 + k" by (simp add: minus_div_mult_eq_mod [symmetric])
    moreover have "yearFrom 2000 (617 + k) = (2001, 251 + k)"
      using that by (simp add: yearFrom.simps [of 2000] yearFrom.simps [of 2001] yearLength_def leapYear_def)
    ultimately show ?thesis by (simp add: dateOf_def split: prod.split)
  qed
  then have y: "\<forall>k < 8. fst (dateOf (dayAt (1000000000 + 0) + k)) < 10000" using t by simp
  have "rs_scheduleTriggerTime sampleRepair \<noteq> []" by (simp add: sampleRepair_def)
  with p n obtain r' where r: "rescheduleTimestamp 1000000000 0 sampleRepair = Inr r'"
    by (simp add: rescheduleTimestamp_def Let_def)
  have "weekday (dayNumber 2000 1 31) = 1" unfolding t weekday_def by simp
  with rescheduled_to_next_weekday [OF p n r _ y] r show ?thesis by auto
qed

section \<open>What the reconciliation sends\<close>

definition removal :: "string \<Rightarrow> req list" where
  "removal i = [Reaper (SetScheduleState i False), Reaper (DeleteSchedule i)]"

text \<open>
  The specification of the difference, field by field and without the code's comparisons: which schedule of Reaper is
  for which desired repair, when it already says what is desired, and what is sent for a new one.
\<close>

definition forRepair :: "reaperSchedule \<Rightarrow> repairSchedule \<Rightarrow> bool" where
  "forRepair x d \<longleftrightarrow> rps_keyspaceName x = rs_keyspace d \<and> mset (rps_tables x) = mset (rs_tables d)"

definition upToDate :: "reaperSchedule \<Rightarrow> repairSchedule \<Rightarrow> bool" where
  "upToDate x d \<longleftrightarrow>
     rps_keyspaceName x = rs_keyspace d \<and> mset (rps_tables x) = mset (rs_tables d) \<and>
     rps_owner x = ''cassandra-operator'' \<and> rps_columnFamilies x = [] \<and> rps_segmentCount x = 0 \<and>
     float64Eq (rps_intensity x) (if rs_intensity d = '''' then F64 False 0 0 else ParseFloat64 (rs_intensity d)) \<and>
     rps_repairParallelism x = rs_repairParallelism d \<and> rps_scheduleDaysBetween x = rs_scheduleDaysBetween d \<and>
     rps_datacenters x = rs_datacenters d \<and> rps_incrementalRepair x = rs_incrementalRepair d \<and>
     rps_repairThreadCount x = rs_repairThreadCount d"

definition timed :: "int \<Rightarrow> int \<Rightarrow> repairSchedule \<Rightarrow> repairSchedule" where
  "timed now zone d =
     (case rescheduleTimestamp now zone d of Inl e \<Rightarrow> d\<lparr>rs_scheduleTriggerTime := ''''\<rparr> | Inr d' \<Rightarrow> d')"

text \<open>The requests for one desired repair at the time \<open>now\<close>; comparing it with any schedule sorts its tables.\<close>

definition settling :: "int \<Rightarrow> int \<Rightarrow> reaperSchedule list \<Rightarrow> repairSchedule \<Rightarrow> req list" where
  "settling now zone existing d =
     (let sent = (if existing = [] then d else d\<lparr>rs_tables := sort (rs_tables d)\<rparr>);
          create = [Reaper (CreateSchedule (timed now zone sent))] in
      concat (map (\<lambda>x. if forRepair x d \<and> \<not> upToDate x d then removal (rps_id x) @ create else []) existing) @
      (if \<exists>x \<in> set existing. forRepair x d then [] else create))"

lemma sort_eq_mset: "sort xs = sort ys \<longleftrightarrow> mset xs = mset ys" for xs ys :: "string list"
  by (metis mset_sort sort_key_simps(1) properties_for_sort sorted_sort)

lemma sameRepair_iff: "sameRepair x d \<longleftrightarrow> forRepair x d"
  by (auto simp: sameRepair_def forRepair_def sort_eq_mset)

lemma equal_iff_upToDate:
  "forRepair x d \<Longrightarrow> repairSchedulesEqual (sortTables x) (toReaperRepair (sortRepair d)) \<longleftrightarrow> upToDate x d"
  by (auto simp: forRepair_def upToDate_def repairSchedulesEqual_def sortTables_def toReaperRepair_def sortRepair_def
      sort_eq_mset OwnerCassandraOperator_def)

lemma withTrigger_timed: "withTrigger = timed"
  by (intro ext) (simp add: withTrigger_def timed_def)

lemma settling_code:
  "concat (map (\<lambda>x. if sameRepair x d \<and> \<not> repairSchedulesEqual (sortTables x) (toReaperRepair (sortRepair d))
                 then removal (rps_id x) @ [Reaper (CreateSchedule (withTrigger now zone (sortRepair d)))] else []) existing) @
   (if \<exists>x \<in> set existing. sameRepair x d then []
    else [Reaper (CreateSchedule (withTrigger now zone (if existing = [] then d else sortRepair d)))]) =
   settling now zone existing d"
proof -
  have same: "sameRepair x d \<and> \<not> repairSchedulesEqual (sortTables x) (toReaperRepair (sortRepair d)) \<longleftrightarrow>
      forRepair x d \<and> \<not> upToDate x d" for x
    by (auto simp: sameRepair_iff equal_iff_upToDate)
  have sorted: "sortRepair d = d\<lparr>rs_tables := sort (rs_tables d)\<rparr>" by (simp add: sortRepair_def)
  show ?thesis
    unfolding settling_def Let_def same unfolding withTrigger_timed sameRepair_iff sorted by simp
qed

lemma filterOperator_iff: "filterOperatorRepairSchedules ss = filter (\<lambda>s. rps_owner s = ''cassandra-operator'') ss"
  by (simp add: filterOperatorRepairSchedules_def OwnerCassandraOperator_def)

lemma repairsToDelete_iff: "repairsToDelete existing desired = filter (\<lambda>x. \<forall>d \<in> set desired. \<not> forRepair x d) existing"
  by (simp add: repairsToDelete_def sameRepair_iff)

lemma sameRepair_sortRepair [simp]: "sameRepair x (sortRepair d) = sameRepair x d"
  by (auto simp: sameRepair_def sortRepair_def sorted_sort_id)

lemma removeRepairSchedule_trace:
  "result (removeRepairSchedule E i) w = Inr () \<Longrightarrow> trace (removeRepairSchedule E i) w = removal i"
  by (auto simp: removeRepairSchedule_def removal_def split: sum.splits)

lemma removeWrapped_trace:
  "result (wrapErr m (removeRepairSchedule E i)) w = Inr () \<Longrightarrow> trace (wrapErr m (removeRepairSchedule E i)) w = removal i"
  by (simp add: wrapErr_Inr removeRepairSchedule_trace del: result_wrapErr)

lemma createRepairSchedule_trace:
  "trace (createRepairSchedule E clock zone d) w = [Reaper (CreateSchedule (withTrigger (clock w) zone d))]"
  by (simp add: createRepairSchedule_def Let_def)

lemma reconcileExisting_result:
  "result (reconcileExisting E clock zone d x found) w = Inr found' \<Longrightarrow> found' \<longleftrightarrow> sameRepair x d \<or> found"
  by (auto simp: reconcileExisting_def split: sum.splits if_splits)

lemma reconcileExisting_trace:
  assumes "\<And>v. clock v = now" "result (reconcileExisting E clock zone (sortRepair d) x found) w = Inr found'"
  shows "trace (reconcileExisting E clock zone (sortRepair d) x found) w =
    (if sameRepair x d \<and> \<not> repairSchedulesEqual (sortTables x) (toReaperRepair (sortRepair d))
     then removal (rps_id x) @ [Reaper (CreateSchedule (withTrigger now zone (sortRepair d)))] else [])"
proof (cases "sameRepair x d \<and> \<not> repairSchedulesEqual (sortTables x) (toReaperRepair (sortRepair d))")
  case True
  with assms(2) have "result (removeRepairSchedule E (rps_id x)) w = Inr ()"
    by (auto simp: reconcileExisting_def split: sum.splits)
  with True removeRepairSchedule_trace [OF this] show ?thesis
    by (simp add: reconcileExisting_def createRepairSchedule_trace assms(1) split: sum.splits)
qed (auto simp: reconcileExisting_def)

lemma existing_loop:
  assumes "\<And>v. clock v = now" "result (foldAct (reconcileExisting E clock zone (sortRepair d)) xs found) w = Inr found'"
  shows "trace (foldAct (reconcileExisting E clock zone (sortRepair d)) xs found) w =
      concat (map (\<lambda>x. if sameRepair x d \<and> \<not> repairSchedulesEqual (sortTables x) (toReaperRepair (sortRepair d))
        then removal (rps_id x) @ [Reaper (CreateSchedule (withTrigger now zone (sortRepair d)))] else []) xs) \<and>
    (found' \<longleftrightarrow> found \<or> (\<exists>x \<in> set xs. sameRepair x d))"
  using assms(2)
proof (induction xs arbitrary: found w)
  case (Cons x xs)
  let ?m = "reconcileExisting E clock zone (sortRepair d) x found"
  from Cons.prems obtain f where f: "result ?m w = Inr f"
    "result (foldAct (reconcileExisting E clock zone (sortRepair d)) xs f) (world ?m w) = Inr found'"
    by (auto split: sum.splits)
  from Cons.IH [OF f(2)] reconcileExisting_trace [OF assms(1) f(1)] reconcileExisting_result [OF f(1)] f(1)
  show ?case by auto
qed simp

lemma reconcileDesired_trace:
  assumes "\<And>v. clock v = now" "result (reconcileDesired E clock zone existing d) w = Inr ()"
  shows "trace (reconcileDesired E clock zone existing d) w = settling now zone existing d"
proof -
  let ?f = "foldAct (reconcileExisting E clock zone (sortRepair d)) existing False"
  from assms(2) obtain found where f: "result ?f w = Inr found" by (auto simp: reconcileDesired_def split: sum.splits)
  from existing_loop [OF assms(1) f] f show ?thesis
    by (auto simp: reconcileDesired_def settling_code [symmetric] createRepairSchedule_trace assms(1))
qed

section \<open>Properties of the reconciliation\<close>

text \<open>C24: A successful reconciliation lists the schedules once and then sends exactly what the difference asks for. Only the
  schedules whose owner is the operator count. With schedules disabled each of them is stopped and deleted; otherwise those
  for which no repair with the same keyspace and tables is desired are, and then each desired repair is settled: a schedule
  for it that differs in some field is replaced, one that agrees is left alone, and a repair without a schedule is created,
  with a trigger time in the past moved.\<close>

theorem schedules_reconciled:
  assumes "\<And>v. clock v = now" "result (reconcileRepairSchedules E clock zone cc) w = Inr ()"
  shows "\<exists>rea schedules. reaperSpec (cc_spec cc) = Some rea \<and> fst (r_repairSchedules (e_reaper E) w) = Inr schedules \<and>
    trace (reconcileRepairSchedules E clock zone cc) w =
      Reaper ReaperSchedules #
      (let existing = filter (\<lambda>s. rps_owner s = ''cassandra-operator'') schedules;
           desired = (case rss_repairs (rea_repairSchedules rea) of None \<Rightarrow> [] | Some ds \<Rightarrow> ds) in
       if \<not> rss_enabled (rea_repairSchedules rea) then concat (map (\<lambda>s. removal (rps_id s)) existing)
       else concat (map (\<lambda>s. removal (rps_id s)) (filter (\<lambda>x. \<forall>d \<in> set desired. \<not> forRepair x d) existing)) @
            concat (map (settling now zone existing) desired))"
proof -
  let ?list = "call (Reaper ReaperSchedules) (r_repairSchedules (e_reaper E))"
  let ?w = "world ?list w"
  from assms(2) obtain schedules rea where s: "result ?list w = Inr schedules" and r: "reaperSpec (cc_spec cc) = Some rea"
    by (cases "reaperSpec (cc_spec cc)") (auto simp: reconcileRepairSchedules_def andThen_Inr wrapErr_Inr deref_def Let_def
      simp del: result_andThen result_wrapErr)
  let ?existing = "filterOperatorRepairSchedules schedules" and ?desired = "slice (rss_repairs (rea_repairSchedules rea))"
  show ?thesis
  proof (cases "rss_enabled (rea_repairSchedules rea)")
    case False
    with assms(2) s r have "result (forEach (\<lambda>s. wrapErr ''failed to remove a repair schedule''
        (removeRepairSchedule E (rps_id s))) ?existing) ?w = Inr ()"
      by (simp add: reconcileRepairSchedules_def deref_def)
    from forEach_trace [OF this removeWrapped_trace] show ?thesis using False s r
      by (simp add: reconcileRepairSchedules_def deref_def filterOperator_iff Let_def)
  next
    case True
    let ?remove = "forEach (\<lambda>s. removeRepairSchedule E (rps_id s)) (repairsToDelete ?existing ?desired)"
    let ?settle = "forEach (reconcileDesired E clock zone ?existing) ?desired"
    from assms(2) s r True have rm: "result ?remove ?w = Inr ()" and st: "result ?settle (world ?remove ?w) = Inr ()"
      by (auto simp: reconcileRepairSchedules_def deref_def Let_def split: sum.splits)
    from forEach_trace [OF rm removeRepairSchedule_trace] forEach_trace [OF st reconcileDesired_trace [OF assms(1)]]
    show ?thesis using True s r rm
      by (simp add: reconcileRepairSchedules_def deref_def filterOperator_iff repairsToDelete_iff slice_def Let_def)
  qed
qed

text \<open>Example: Reaper lists a schedule of the operator that is not desired and one of somebody else.\<close>

definition schedulesEnv :: "unit env" where
  "schedulesEnv = quietEnv\<lparr>e_reaper := quietReaper\<lparr>r_repairSchedules :=
     \<lambda>w. (Inr [sampleSchedule\<lparr>rps_owner := ''cassandra-operator''\<rparr>, sampleSchedule], w)\<rparr>\<rparr>"

definition repairingCluster :: cassandraCluster where
  "repairingCluster = sampleCluster\<lparr>cc_spec := (cc_spec sampleCluster)
     \<lparr>reaperSpec := Some ((the (reaperSpec (cc_spec sampleCluster)))
        \<lparr>rea_repairSchedules := \<lparr>rss_enabled = True, rss_repairs = Some [sampleRepair]\<rparr>\<rparr>)\<rparr>\<rparr>"

lemma repairingCluster_reaper: "\<exists>rea. reaperSpec (cc_spec repairingCluster) = Some rea \<and>
    rea_repairSchedules rea = \<lparr>rss_enabled = True, rss_repairs = Some [sampleRepair]\<rparr>"
  by (simp add: repairingCluster_def)

lemma schedulesEnv_lists:
  "result (call (Reaper ReaperSchedules) (r_repairSchedules (e_reaper schedulesEnv))) () =
    Inr [sampleSchedule\<lparr>rps_owner := ''cassandra-operator''\<rparr>, sampleSchedule]"
  by (simp add: schedulesEnv_def)

lemma schedules_example: "result (reconcileRepairSchedules schedulesEnv (\<lambda>_. 0) 0 repairingCluster) () = Inr ()"
proof -
  obtain rea where "reaperSpec (cc_spec repairingCluster) = Some rea"
    "rea_repairSchedules rea = \<lparr>rss_enabled = True, rss_repairs = Some [sampleRepair]\<rparr>"
    using repairingCluster_reaper by blast
  then show ?thesis
    by (simp add: reconcileRepairSchedules_def deref_def filterOperatorRepairSchedules_def OwnerCassandraOperator_def
      repairsToDelete_def removeRepairSchedule_def reconcileDesired_def reconcileExisting_def createRepairSchedule_def
      schedulesEnv_def quietReaper_def slice_def sameRepair_def sampleSchedule_def sampleRepair_def sortRepair_def Let_def)
qed

lemma schedules_trace_example:
  "\<exists>rest. trace (reconcileRepairSchedules schedulesEnv (\<lambda>_. 0) 0 repairingCluster) () =
    Reaper ReaperSchedules # removal ''s'' @ rest"
proof -
  obtain rea where "reaperSpec (cc_spec repairingCluster) = Some rea"
    "rea_repairSchedules rea = \<lparr>rss_enabled = True, rss_repairs = Some [sampleRepair]\<rparr>"
    using repairingCluster_reaper by blast
  then show ?thesis
    by (simp add: reconcileRepairSchedules_def deref_def filterOperatorRepairSchedules_def OwnerCassandraOperator_def
      repairsToDelete_def removeRepairSchedule_def removal_def
      schedulesEnv_def quietReaper_def slice_def sameRepair_def sampleSchedule_def sampleRepair_def Let_def)
qed

theorem schedules_reconciled_witness:
  "\<exists>d. trace (reconcileRepairSchedules schedulesEnv (\<lambda>_. 0) 0 repairingCluster) () =
    Reaper ReaperSchedules # removal ''s'' @ [Reaper (CreateSchedule d)]"
proof -
  obtain rea where r: "reaperSpec (cc_spec repairingCluster) = Some rea"
    "rea_repairSchedules rea = \<lparr>rss_enabled = True, rss_repairs = Some [sampleRepair]\<rparr>"
    using repairingCluster_reaper by blast
  from schedules_reconciled [OF _ schedules_example, of 0] r schedulesEnv_lists
  show ?thesis
    by (auto simp: settling_def forRepair_def sampleSchedule_def sampleRepair_def Let_def)
qed

text \<open>The schedules of others are left alone, whatever fails: a schedule that is stopped or deleted is one that Reaper
  listed with the operator as its owner.\<close>

definition ownedRequest :: "reaperSchedule list \<Rightarrow> req \<Rightarrow> bool" where
  "ownedRequest schedules q \<longleftrightarrow>
     (\<forall>i. q = Reaper (DeleteSchedule i) \<or> (\<exists>b. q = Reaper (SetScheduleState i b)) \<longrightarrow>
        (\<exists>s \<in> set schedules. rps_id s = i \<and> rps_owner s = ''cassandra-operator''))"

lemma only_remove: "s \<in> set schedules \<Longrightarrow> rps_owner s = ''cassandra-operator'' \<Longrightarrow>
    only (ownedRequest schedules) (removeRepairSchedule E (rps_id s))"
  unfolding removeRepairSchedule_def by (intro only_intros) (auto simp: ownedRequest_def)

lemma only_create: "only (ownedRequest schedules) (createRepairSchedule E clock zone d)"
  unfolding createRepairSchedule_def Let_def by (intro only_intros) (auto simp: ownedRequest_def only_def)

lemma only_existing:
  assumes "x \<in> set schedules" "rps_owner x = ''cassandra-operator''"
  shows "only (ownedRequest schedules) (reconcileExisting E clock zone d x found)"
  unfolding reconcileExisting_def by (intro only_intros only_remove only_create assms)

lemma only_desired:
  assumes "\<forall>x \<in> set existing. x \<in> set schedules \<and> rps_owner x = ''cassandra-operator''"
  shows "only (ownedRequest schedules) (reconcileDesired E clock zone existing d)"
  unfolding reconcileDesired_def using assms by (intro only_intros only_existing only_create) auto

lemma only_rest:
  "only (ownedRequest schedules)
    (if \<not> b then forEach (\<lambda>s. wrapErr m (removeRepairSchedule E (rps_id s))) (filterOperatorRepairSchedules schedules)
     else andThen (forEach (\<lambda>s. removeRepairSchedule E (rps_id s))
              (repairsToDelete (filterOperatorRepairSchedules schedules) desired)) (\<lambda>_.
          forEach (reconcileDesired E clock zone (filterOperatorRepairSchedules schedules)) desired))"
  by (intro only_intros only_desired only_remove)
    (auto simp: filterOperatorRepairSchedules_def repairsToDelete_def OwnerCassandraOperator_def)

theorem others_schedules_untouched:
  assumes "q \<in> set (trace (reconcileRepairSchedules E clock zone cc) w)"
    and "q = Reaper (DeleteSchedule i) \<or> q = Reaper (SetScheduleState i b)"
  shows "\<exists>schedules. result (call (Reaper ReaperSchedules) (r_repairSchedules (e_reaper E))) w = Inr schedules \<and>
    (\<exists>s \<in> set schedules. rps_id s = i \<and> rps_owner s = ''cassandra-operator'')"
proof -
  let ?list = "call (Reaper ReaperSchedules) (r_repairSchedules (e_reaper E))"
  show ?thesis
  proof (cases "result ?list w")
    case (Inl e)
    then show ?thesis using assms by (auto simp: reconcileRepairSchedules_def)
  next
    case (Inr schedules)
    let ?rest = "\<lambda>rea. if \<not> rss_enabled (rea_repairSchedules rea)
       then forEach (\<lambda>s. wrapErr ''failed to remove a repair schedule'' (removeRepairSchedule E (rps_id s)))
              (filterOperatorRepairSchedules schedules)
       else andThen (forEach (\<lambda>s. removeRepairSchedule E (rps_id s))
                (repairsToDelete (filterOperatorRepairSchedules schedules) (slice (rss_repairs (rea_repairSchedules rea))))) (\<lambda>_.
              forEach (reconcileDesired E clock zone (filterOperatorRepairSchedules schedules))
                (slice (rss_repairs (rea_repairSchedules rea))))"
    from Inr obtain rea where rea: "reaperSpec (cc_spec cc) = Some rea"
      using assms by (cases "reaperSpec (cc_spec cc)") (auto simp: reconcileRepairSchedules_def deref_def Let_def)
    with assms Inr have "q \<in> set (trace (?rest rea) (world ?list w))"
      by (auto simp: reconcileRepairSchedules_def deref_def Let_def)
    from onlyD [OF only_rest this] assms(2) Inr show ?thesis by (auto simp: ownedRequest_def)
  qed
qed

theorem others_schedules_untouched_witness:
  "\<exists>s \<in> {sampleSchedule\<lparr>rps_owner := ''cassandra-operator''\<rparr>, sampleSchedule}.
     rps_id s = ''s'' \<and> rps_owner s = ''cassandra-operator''"
proof -
  have "Reaper (DeleteSchedule ''s'') \<in> set (trace (reconcileRepairSchedules schedulesEnv (\<lambda>_. 0) 0 repairingCluster) ())"
    using schedules_trace_example by (auto simp: removal_def)
  from others_schedules_untouched [OF this] schedulesEnv_lists show ?thesis by simp
qed

end
