(* ===== verification/Nodectl.thy ===== *)
theory Nodectl
  imports Prober Env
begin

text \<open>
  Node operations through Jolokia: \<open>controllers/nodectl\<close> and its HTTP client \<open>controllers/nodectl/jolokia\<close>.
  A request names a bean and reads attributes of it or executes an operation; the answer carries a value in JSON.
  The transport and the JSON codec are parameters (record \<open>nodeHttp\<close>). Debug logging, which adds the raw answer to
  one error text, is off.
\<close>

section \<open>The Jolokia client\<close>

record jolokiaRequest =
  jq_type :: string
  jq_mbean :: string
  jq_attributes :: "string list"
  jq_operation :: string
  jq_arguments :: "string list"

record jolokiaTarget =
  jt_url :: string
  jt_user :: string
  jt_password :: string

record jolokiaResponse =
  jr_value :: string
  jr_status :: int
  jr_error :: string

record 'w nodeHttp =
  nh_marshal :: "jolokiaTarget \<Rightarrow> jolokiaRequest \<Rightarrow> go_error + string"
  nh_newRequest :: "string \<Rightarrow> go_error + unit"
  nh_do :: "string \<Rightarrow> string \<Rightarrow> 'w \<Rightarrow> (go_error + httpAnswer) \<times> 'w"
  nh_decodeResponse :: "string \<Rightarrow> go_error + jolokiaResponse"
  nh_decodeStrings :: "string \<Rightarrow> go_error + strmap"
  nh_decodeView :: "string \<Rightarrow> go_error + clusterView"

record nodeClient =
  nc_url :: string
  nc_username :: string
  nc_password :: string

definition NewNodeClient :: "string \<Rightarrow> string \<Rightarrow> string \<Rightarrow> nodeClient" where
  "NewNodeClient u user pw = \<lparr>nc_url = u, nc_username = user, nc_password = pw\<rparr>"

text \<open>A request on the wire is the URL with the body.\<close>

type_synonym nodeRequest = "string \<times> string"

definition liftN :: "go_error + 'a \<Rightarrow> ('w, nodeRequest, 'a) act" where
  "liftN r = (case r of Inl e \<Rightarrow> raise e | Inr x \<Rightarrow> ret x)"

lemma liftN_simps [act_simps, simp]:
  "result (liftN r) w = r" "trace (liftN r) w = []" "world (liftN r) w = w"
  by (simp_all add: liftN_def split: sum.splits)

definition jmxAddress :: "string \<Rightarrow> int \<Rightarrow> string" where
  "jmxAddress ip port = ''service:jmx:rmi:///jndi/rmi://'' @ ip @ '':'' @ itoa port @ ''/jmxrmi''"

definition Post :: "'w nodeHttp \<Rightarrow> nodeClient \<Rightarrow> jolokiaRequest \<Rightarrow> string \<Rightarrow> ('w, nodeRequest, jolokiaResponse) act" where
  "Post H c q ip =
     andThen (liftN (nh_marshal H \<lparr>jt_url = jmxAddress ip JmxPort, jt_user = nc_username c, jt_password = nc_password c\<rparr> q)) (\<lambda>b.
     andThen (liftN (nh_newRequest H (nc_url c))) (\<lambda>_.
     andThen (call (nc_url c, b) (nh_do H (nc_url c) b)) (\<lambda>ans.
     andThen (liftN (ans_body ans)) (\<lambda>responseBody.
       if ans_code ans \<noteq> 200 then raise (Err (ans_status ans @ '': '' @ responseBody))
       else case nh_decodeResponse H responseBody of
         Inl _ \<Rightarrow> raise (Err (''cannot unmarshall response. Raw body: '' @ responseBody))
       | Inr response \<Rightarrow>
           if length (jr_error response) \<noteq> 0
           then raise (Err (''received error JMX response; error: '' @ jr_error response))
           else ret response))))"

section \<open>Node operations\<close>

definition jmxRequestTypeExec :: string where "jmxRequestTypeExec = ''exec''"
definition jmxRequestTypeRead :: string where "jmxRequestTypeRead = ''read''"
definition mbeanCassandraDBStorageService :: string where
  "mbeanCassandraDBStorageService = ''org.apache.cassandra.db:type=StorageService''"
definition mbeanCassandraNetGossiper :: string where
  "mbeanCassandraNetGossiper = ''org.apache.cassandra.net:type=Gossiper''"

definition readAttributes :: "string list \<Rightarrow> jolokiaRequest" where
  "readAttributes as = \<lparr>jq_type = jmxRequestTypeRead, jq_mbean = mbeanCassandraDBStorageService, jq_attributes = as,
     jq_operation = '''', jq_arguments = []\<rparr>"

definition Decommission :: "'w nodeHttp \<Rightarrow> nodeClient \<Rightarrow> string \<Rightarrow> ('w, nodeRequest, unit) act" where
  "Decommission H c nodeIP =
     andThen (Post H c \<lparr>jq_type = jmxRequestTypeExec, jq_mbean = mbeanCassandraDBStorageService, jq_attributes = [],
         jq_operation = ''decommission'', jq_arguments = []\<rparr> nodeIP) (\<lambda>_. ret ())"

definition Assassinate :: "'w nodeHttp \<Rightarrow> nodeClient \<Rightarrow> string \<Rightarrow> string \<Rightarrow> ('w, nodeRequest, unit) act" where
  "Assassinate H c execNodeIP assassinateNodeIP =
     andThen (Post H c \<lparr>jq_type = jmxRequestTypeExec, jq_mbean = mbeanCassandraNetGossiper, jq_attributes = [],
         jq_operation = ''assassinateEndpoint'', jq_arguments = [assassinateNodeIP]\<rparr> execNodeIP) (\<lambda>resp.
       if jr_status resp \<noteq> 200
       then raise (Err (''unexpected status code: '' @ itoa (jr_status resp) @ ''. Error: '' @ jr_error resp))
       else ret ())"

definition clusterViewOf :: "'w nodeHttp \<Rightarrow> nodeClient \<Rightarrow> string \<Rightarrow> ('w, nodeRequest, clusterView) act" where
  "clusterViewOf H c nodeIP =
     andThen (Post H c (readAttributes [''LiveNodes'', ''LeavingNodes'', ''JoiningNodes'', ''UnreachableNodes'', ''MovingNodes''])
         nodeIP) (\<lambda>resp. liftN (nh_decodeView H (jr_value resp)))"

definition allowedOpModes :: "string list" where
  "allowedOpModes = [''STARTING'', ''NORMAL'', ''JOINING'', ''LEAVING'', ''DECOMMISSIONED'', ''MOVING'', ''DRAINING'', ''DRAINED'']"

definition operationModeOf :: "'w nodeHttp \<Rightarrow> nodeClient \<Rightarrow> string \<Rightarrow> ('w, nodeRequest, string) act" where
  "operationModeOf H c nodeIP =
     andThen (Post H c (readAttributes [''OperationMode'']) nodeIP) (\<lambda>resp.
     andThen (liftN (nh_decodeStrings H (jr_value resp))) (\<lambda>m.
       case m ''OperationMode'' of
         None \<Rightarrow> raise (Err (''couldn't find operation mode field, raw response: '' @ jr_value resp))
       | Some opMode \<Rightarrow>
           if \<not> Contains allowedOpModes opMode then raise (Err (''unknown operation mode '' @ opMode)) else ret opMode))"

text \<open>\<open>strconv.Atoi\<close>: an optional sign and digits, within 64 bits.\<close>

definition Atoi :: "string \<Rightarrow> int option" where
  "Atoi s =
     (let neg = (s \<noteq> [] \<and> hd s = CHR ''-'');
          t = (if s \<noteq> [] \<and> (hd s = CHR ''-'' \<or> hd s = CHR ''+'') then tl s else s);
          v = (if neg then - int (stringToNat t) else int (stringToNat t)) in
      if t = [] \<or> \<not> list_all isDigit t \<or> v < - (2 ^ 63) \<or> v \<ge> 2 ^ 63 then None else Some v)"

text \<open>Major, minor and patch of a release; only the major version must be readable. \<open>strings.Split\<close> never returns
  an empty list, so the check for one is left out.\<close>

definition parseVersion :: "string \<Rightarrow> (int \<times> int \<times> int) option" where
  "parseVersion releaseVersion =
     (let semVer = splitOn (CHR ''.'') releaseVersion;
          part = (\<lambda>i. if length semVer > i then (case Atoi (semVer ! i) of None \<Rightarrow> - 1 | Some v \<Rightarrow> v) else 0) in
      case Atoi (semVer ! 0) of None \<Rightarrow> None | Some major \<Rightarrow> Some (major, part 1, part 2))"

definition Version :: "'w nodeHttp \<Rightarrow> nodeClient \<Rightarrow> string \<Rightarrow> ('w, nodeRequest, int \<times> int \<times> int) act" where
  "Version H c nodeIP =
     andThen (Post H c (readAttributes [''ReleaseVersion'']) nodeIP) (\<lambda>resp.
     andThen (wrapErr (''can't unmarshal version info, raw body: '' @ jr_value resp)
         (liftN (nh_decodeStrings H (jr_value resp)))) (\<lambda>versionInfo.
       case versionInfo ''ReleaseVersion'' of
         None \<Rightarrow> raise (Err (''version is empty, raw body: '' @ jr_value resp))
       | Some releaseVersion \<Rightarrow>
           (case parseVersion releaseVersion of
              None \<Rightarrow> raise (Err (''can't parse major version. Raw string: '' @ quoted (jr_value resp)))
            | Some v \<Rightarrow> ret v)))"

section \<open>Properties\<close>

text \<open>What the decommission relies on: an answer for the operation mode is one of the eight modes of Cassandra, and it
  comes from an answer with status 200 and no error of the agent.\<close>

theorem operation_mode_known:
  assumes "result (operationModeOf H c ip) w = Inr mode"
  shows "mode \<in> set allowedOpModes"
  using assms
  by (auto simp: operationModeOf_def andThen_Inr Contains_iff simp del: result_andThen split: option.splits if_splits)

text \<open>The decimal notation of a number is read back.\<close>

lemma isDigit_natToString: "list_all isDigit (natToString n)"
  using natToString_digits by (auto simp: list_all_iff isDigit_def)

lemma natToString_nonempty: "natToString n \<noteq> []"
  by (simp add: natToString.simps [of n])

lemma hd_natToString: "isDigit (hd (natToString n))"
  using isDigit_natToString natToString_nonempty by (metis hd_in_set list_all_iff)

lemma Atoi_natToString: "n < 2 ^ 63 \<Longrightarrow> Atoi (natToString n) = Some (int n)"
proof -
  assume "n < 2 ^ 63"
  then have "int n < int (2 ^ 63)" by (rule iffD2 [OF of_nat_less_iff])
  moreover have "hd (natToString n) \<noteq> CHR ''-''" "hd (natToString n) \<noteq> CHR ''+''"
    using hd_natToString [of n] by (auto simp: isDigit_def)
  ultimately show ?thesis
    by (simp add: Atoi_def isDigit_natToString natToString_nonempty stringToNat_natToString)
qed

lemma dot_natToString: "CHR ''.'' \<notin> set (natToString n)"
  using isDigit_natToString [of n] by (auto simp: list_all_iff isDigit_def dest: bspec [of _ _ "CHR ''.''"])

lemma splitOn_plain: "c \<notin> set s \<Longrightarrow> splitOn c s = [s]"
  by (induction s) auto

lemma splitOn_sep: "c \<notin> set s \<Longrightarrow> splitOn c (s @ c # t) = s # splitOn c t"
  by (induction s) auto

text \<open>A release is read back: major, minor and patch of the decimal notation of three numbers are these numbers, and a
  suffix without a dot that is not a number, such as a snapshot tag, gives -1 for the minor version.\<close>

theorem version_read_back:
  assumes "a < 2 ^ 63" "b < 2 ^ 63" "p < 2 ^ 63"
  shows "parseVersion (natToString a @ ''.'' @ natToString b @ ''.'' @ natToString p) = Some (int a, int b, int p) \<and>
    (Atoi s = None \<and> CHR ''.'' \<notin> set s \<longrightarrow>
      parseVersion (natToString a @ ''.'' @ s) = Some (int a, - 1, 0))"
  using assms by (auto simp: parseVersion_def splitOn_plain splitOn_sep dot_natToString Atoi_natToString)


text \<open>An agent that answers every request with the same value.\<close>

definition modeAgent :: "string \<Rightarrow> unit nodeHttp" where
  "modeAgent mode = \<lparr>nh_marshal = (\<lambda>t q. Inr ''''), nh_newRequest = (\<lambda>u. Inr ()),
     nh_do = (\<lambda>u b w. (Inr \<lparr>ans_code = 200, ans_status = ''200 OK'', ans_body = Inr ''''\<rparr>, w)),
     nh_decodeResponse = (\<lambda>b. Inr \<lparr>jr_value = '''', jr_status = 200, jr_error = ''''\<rparr>),
     nh_decodeStrings = (\<lambda>v. Inr [''OperationMode'' \<mapsto> mode]),
     nh_decodeView = (\<lambda>v. Inl (Err ''not a view''))\<rparr>"

theorem operation_mode_known_witness:
  "result (operationModeOf (modeAgent ''LEAVING'') (NewNodeClient ''u'' ''a'' ''b'') ''10.0.0.1'') () = Inr ''LEAVING'' \<and>
   ''LEAVING'' \<in> set allowedOpModes"
proof -
  have "result (operationModeOf (modeAgent ''LEAVING'') (NewNodeClient ''u'' ''a'' ''b'') ''10.0.0.1'') () = Inr ''LEAVING''"
    by (simp add: operationModeOf_def Post_def modeAgent_def allowedOpModes_def)
  from this operation_mode_known [OF this] show ?thesis by blast
qed

theorem version_read_back_witness:
  "parseVersion (natToString 3 @ ''.'' @ natToString 11 @ ''.'' @ natToString 13) = Some (3, 11, 13)"
  using version_read_back [of 3 11 13 "''''"] by simp

end
