(* ===== verification/Rbac.thy ===== *)
theory Rbac
  imports Objects
begin

text \<open>
  Roles, role bindings and service accounts of the Cassandra pods and of the prober: \<open>controllers/cassandra_rbac.go\<close>
  and \<open>controllers/prober_rbac.go\<close>. All six reconcilers follow \<open>createOrUpdate\<close>.
  The lemmas say what the accounts may do, and when a pass over existing objects rests.
\<close>

section \<open>Objects\<close>

definition secretsReaderRules :: "policyRule list" where
  "secretsReaderRules = [\<lparr>rul_apiGroups = [''''], rul_resources = [''secrets''], rul_verbs = [''get'', ''list'', ''watch'']\<rparr>]"

definition componentRole :: "cassandraCluster \<Rightarrow> string \<Rightarrow> string \<Rightarrow> string list \<Rightarrow> k8sRole" where
  "componentRole cc rname cname owners =
     \<lparr>kr_name = rname, kr_namespace = cc_namespace cc, kr_labels = CombinedComponentLabels cc cname,
      kr_annotations = None, kr_ownerReferences = owners, kr_rules = secretsReaderRules\<rparr>"

definition componentBinding :: "cassandraCluster \<Rightarrow> string \<Rightarrow> string \<Rightarrow> string \<Rightarrow> string \<Rightarrow> string list \<Rightarrow> k8sRoleBinding" where
  "componentBinding cc bname account rname cname owners =
     \<lparr>krb_name = bname, krb_namespace = cc_namespace cc, krb_labels = CombinedComponentLabels cc cname,
      krb_annotations = None, krb_ownerReferences = owners,
      krb_subjects = [\<lparr>sub_kind = ''ServiceAccount'', sub_name = account, sub_namespace = cc_namespace cc\<rparr>],
      krb_roleRef = \<lparr>ref_kind = ''Role'', ref_name = rname, ref_apiGroup = ''rbac.authorization.k8s.io''\<rparr>\<rparr>"

definition componentAccount :: "cassandraCluster \<Rightarrow> string \<Rightarrow> string \<Rightarrow> string list \<Rightarrow> k8sServiceAccount" where
  "componentAccount cc aname cname owners =
     \<lparr>ksa_name = aname, ksa_namespace = cc_namespace cc, ksa_labels = CombinedComponentLabels cc cname,
      ksa_annotations = None, ksa_ownerReferences = owners, ksa_secrets = None\<rparr>"

definition roleTexts :: "string \<Rightarrow> texts" where
  "roleTexts c = \<lparr>tx_get = ''Could not Get '' @ c @ '' role'', tx_create = ''Unable to create '' @ c @ '' role'',
     tx_update = ''Could not Update '' @ c @ '' role''\<rparr>"

definition bindingTexts :: "string \<Rightarrow> texts" where
  "bindingTexts c = \<lparr>tx_get = ''Could not Get '' @ c @ '' roleBinding'', tx_create = ''Unable to create '' @ c @ '' roleBinding'',
     tx_update = ''Could not Update '' @ c @ '' roleBinding''\<rparr>"

section \<open>Cassandra\<close>

definition reconcileCassandraRole :: "'w env \<Rightarrow> cassandraCluster \<Rightarrow> ('w, unit) run" where
  "reconcileCassandraRole E cc =
     withOwners E cc (\<lambda>owners.
       createOrUpdate (roleKind E) (roleTexts ''cassandra'') keepNothing EqualRole adoptRole
         (componentRole cc (CassandraRole (cc_name cc)) ComponentCassandra owners))"

definition reconcileCassandraRoleBinding :: "'w env \<Rightarrow> cassandraCluster \<Rightarrow> ('w, unit) run" where
  "reconcileCassandraRoleBinding E cc =
     withOwners E cc (\<lambda>owners.
       createOrUpdate (bindingKind E) (bindingTexts ''cassandra'') keepNothing EqualRoleBinding adoptBinding
         (componentBinding cc (CassandraRoleBinding (cc_name cc)) (CassandraServiceAccount (cc_name cc))
            (CassandraRole (cc_name cc)) ComponentCassandra owners))"

definition reconcileCassandraServiceAccount :: "'w env \<Rightarrow> cassandraCluster \<Rightarrow> ('w, unit) run" where
  "reconcileCassandraServiceAccount E cc =
     withOwners E cc (\<lambda>owners.
       createOrUpdate (accountKind E)
         \<lparr>tx_get = ''Could not get cassandra Service account'', tx_create = ''Unable to create cassandra Service account'',
          tx_update = ''Unable to update cassandra service account''\<rparr>
         keepNothing (\<lambda>wanted actual. EqualServiceAccount actual wanted) adoptAccount
         (componentAccount cc (CassandraServiceAccount (cc_name cc)) ComponentCassandra owners))"

definition reconcileCassandraRBAC :: "'w env \<Rightarrow> cassandraCluster \<Rightarrow> ('w, unit) run" where
  "reconcileCassandraRBAC E cc =
     andThen (reconcileCassandraRole E cc) (\<lambda>_.
     andThen (reconcileCassandraRoleBinding E cc) (\<lambda>_. reconcileCassandraServiceAccount E cc))"

section \<open>Prober\<close>

definition reconcileProberRole :: "'w env \<Rightarrow> cassandraCluster \<Rightarrow> ('w, unit) run" where
  "reconcileProberRole E cc =
     withOwners E cc (\<lambda>owners.
       createOrUpdate (roleKind E) (roleTexts ''prober'') keepNothing EqualRole adoptRole
         (componentRole cc (ProberRole (cc_name cc)) ComponentProber owners))"

definition reconcileProberRoleBinding :: "'w env \<Rightarrow> cassandraCluster \<Rightarrow> ('w, unit) run" where
  "reconcileProberRoleBinding E cc =
     withOwners E cc (\<lambda>owners.
       createOrUpdate (bindingKind E) (bindingTexts ''prober'') keepNothing EqualRoleBinding adoptBinding
         (componentBinding cc (ProberRoleBinding (cc_name cc)) (ProberServiceAccount (cc_name cc))
            (ProberRole (cc_name cc)) ComponentProber owners))"

definition reconcileProberServiceAccount :: "'w env \<Rightarrow> cassandraCluster \<Rightarrow> ('w, unit) run" where
  "reconcileProberServiceAccount E cc =
     withOwners E cc (\<lambda>owners.
       createOrUpdate (accountKind E)
         \<lparr>tx_get = ''Could not get prober Service account'', tx_create = ''Unable to create prober Service account'',
          tx_update = ''Unable to update prober service account''\<rparr>
         keepNothing (\<lambda>wanted actual. EqualServiceAccount actual wanted) adoptAccount
         (componentAccount cc (ProberServiceAccount (cc_name cc)) ComponentProber owners))"


section \<open>Properties\<close>

text \<open>What is there after a pass: the object that was there, if the comparison holds, or one that took over the fields.\<close>

lemma role_after:
  assumes "kindApi (roleKind E) store" "result (createOrUpdate (roleKind E) T keepNothing EqualRole adoptRole d) w = Inr ()"
  shows "\<exists>r. store (world (createOrUpdate (roleKind E) T keepNothing EqualRole adoptRole d) w) (kr_namespace d, kr_name d) = Some r \<and>
    kr_rules r = kr_rules d \<and> kr_labels r = kr_labels d"
  using role.held [OF assms(1) roleKind_key assms(2)]
  by (elim ex_forward) (auto simp: keepNothing_def adoptRole_def EqualRole_def split: option.splits if_splits)

lemma binding_after:
  assumes "kindApi (bindingKind E) store"
    and "result (createOrUpdate (bindingKind E) T keepNothing EqualRoleBinding adoptBinding d) w = Inr ()"
  shows "\<exists>r. store (world (createOrUpdate (bindingKind E) T keepNothing EqualRoleBinding adoptBinding d) w)
      (krb_namespace d, krb_name d) = Some r \<and> krb_subjects r = krb_subjects d \<and> krb_roleRef r = krb_roleRef d"
  using binding.held [OF assms(1) bindingKind_key assms(2)]
  by (elim ex_forward) (auto simp: keepNothing_def adoptBinding_def EqualRoleBinding_def split: option.splits if_splits)

lemma account_after:
  assumes "kindApi (accountKind E) store"
    and "result (createOrUpdate (accountKind E) T keepNothing (\<lambda>wanted actual. EqualServiceAccount actual wanted) adoptAccount d) w = Inr ()"
  shows "store (world (createOrUpdate (accountKind E) T keepNothing (\<lambda>wanted actual. EqualServiceAccount actual wanted) adoptAccount d) w)
      (ksa_namespace d, ksa_name d) \<noteq> None"
  using account.held [OF assms(1) accountKind_key assms(2)] by auto

text \<open>What the Cassandra pods may do: after a successful pass there are the service account, the role and the binding of
  the cluster, in its namespace; the role allows to get, list and watch secrets and nothing else, and the binding
  grants this role to this account only, whatever the role and the binding said before.\<close>

theorem cassandra_account_reads_secrets:
  assumes "kindApi (roleKind E) roles" "kindApi (bindingKind E) bindings" "kindApi (accountKind E) accounts"
    and "untouched (bindingKind E) roles" "untouched (accountKind E) roles" "untouched (accountKind E) bindings"
    and "result (reconcileCassandraRBAC E cc) w = Inr ()"
    and "w' = world (reconcileCassandraRBAC E cc) w"
  shows "\<exists>r b. roles w' (cc_namespace cc, CassandraRole (cc_name cc)) = Some r \<and>
      bindings w' (cc_namespace cc, CassandraRoleBinding (cc_name cc)) = Some b \<and>
      accounts w' (cc_namespace cc, CassandraServiceAccount (cc_name cc)) \<noteq> None \<and>
      kr_rules r = [\<lparr>rul_apiGroups = [''''], rul_resources = [''secrets''], rul_verbs = [''get'', ''list'', ''watch'']\<rparr>] \<and>
      ref_name (krb_roleRef b) = CassandraRole (cc_name cc) \<and>
      krb_subjects b = [\<lparr>sub_kind = ''ServiceAccount'', sub_name = CassandraServiceAccount (cc_name cc), sub_namespace = cc_namespace cc\<rparr>]"
proof -
  from assms(7) obtain owners where o: "e_controllerReference E cc = Inr owners"
    by (auto simp: reconcileCassandraRBAC_def reconcileCassandraRole_def andThen_Inr withOwners_Inr simp del: result_andThen)
  note run = withOwners_run [OF o]
  let ?v = "world (reconcileCassandraRole E cc) w" let ?u = "world (reconcileCassandraRoleBinding E cc) ?v"
  from assms(7,8) have ok: "result (reconcileCassandraRole E cc) w = Inr ()" "result (reconcileCassandraRoleBinding E cc) ?v = Inr ()"
    "result (reconcileCassandraServiceAccount E cc) ?u = Inr ()" and w': "w' = world (reconcileCassandraServiceAccount E cc) ?u"
    by (auto simp: reconcileCassandraRBAC_def split: sum.splits)
  from role_after [OF assms(1) ok(1) [unfolded reconcileCassandraRole_def, unfolded run]] obtain r where
    r: "roles ?v (cc_namespace cc, CassandraRole (cc_name cc)) = Some r" "kr_rules r = secretsReaderRules"
    by (auto simp: reconcileCassandraRole_def run componentRole_def)
  from binding_after [OF assms(2) ok(2) [unfolded reconcileCassandraRoleBinding_def, unfolded run]] obtain b where
    b: "bindings ?u (cc_namespace cc, CassandraRoleBinding (cc_name cc)) = Some b"
      "krb_subjects b = [\<lparr>sub_kind = ''ServiceAccount'', sub_name = CassandraServiceAccount (cc_name cc), sub_namespace = cc_namespace cc\<rparr>]"
      "ref_name (krb_roleRef b) = CassandraRole (cc_name cc)"
    by (auto simp: reconcileCassandraRoleBinding_def run componentBinding_def)
  have a: "accounts w' (cc_namespace cc, CassandraServiceAccount (cc_name cc)) \<noteq> None"
    using account_after [OF assms(3) ok(3) [unfolded reconcileCassandraServiceAccount_def, unfolded run]]
    by (simp add: w' reconcileCassandraServiceAccount_def run componentAccount_def)
  have "roles w' = roles ?v" "bindings w' = bindings ?u"
    by (simp_all add: w' reconcileCassandraServiceAccount_def reconcileCassandraRoleBinding_def run
        createOrUpdate_untouched [OF assms(4)] createOrUpdate_untouched [OF assms(5)] createOrUpdate_untouched [OF assms(6)])
  with r b a show ?thesis by (simp add: secretsReaderRules_def)
qed


text \<open>An API server whose state are the maps of its roles, bindings and accounts.\<close>

definition roleKey :: "k8sRole \<Rightarrow> key" where "roleKey r = (kr_namespace r, kr_name r)"
definition bindingKey :: "k8sRoleBinding \<Rightarrow> key" where "bindingKey r = (krb_namespace r, krb_name r)"
definition accountKey :: "k8sServiceAccount \<Rightarrow> key" where "accountKey r = (ksa_namespace r, ksa_name r)"

type_synonym rbacWorld = "(key \<rightharpoonup> k8sRole) \<times> (key \<rightharpoonup> k8sRoleBinding) \<times> (key \<rightharpoonup> k8sServiceAccount)"

definition rbacServer :: "rbacWorld env" where
  "rbacServer = quietEnv\<lparr>e_controllerReference := (\<lambda>cc. Inr [cc_name cc]), e_objects := (e_objects quietEnv)\<lparr>
     o_getK8sRole := (\<lambda>k w. (answer (keyed roleKey (fst w) k), w)),
     o_createK8sRole := (\<lambda>x (r, b, a). (Inr (), (r(roleKey x \<mapsto> x), b, a))),
     o_updateK8sRole := (\<lambda>x (r, b, a). (Inr (), (r(roleKey x \<mapsto> x), b, a))),
     o_getRoleBinding := (\<lambda>k w. (answer (keyed bindingKey (fst (snd w)) k), w)),
     o_createRoleBinding := (\<lambda>x (r, b, a). (Inr (), (r, b(bindingKey x \<mapsto> x), a))),
     o_updateRoleBinding := (\<lambda>x (r, b, a). (Inr (), (r, b(bindingKey x \<mapsto> x), a))),
     o_getServiceAccount := (\<lambda>k w. (answer (keyed accountKey (snd (snd w)) k), w)),
     o_createServiceAccount := (\<lambda>x (r, b, a). (Inr (), (r, b, a(accountKey x \<mapsto> x)))),
     o_updateServiceAccount := (\<lambda>x (r, b, a). (Inr (), (r, b, a(accountKey x \<mapsto> x))))\<rparr>\<rparr>"

abbreviation rolesOf :: "rbacWorld \<Rightarrow> key \<rightharpoonup> k8sRole" where "rolesOf w \<equiv> keyed roleKey (fst w)"
abbreviation bindingsOf :: "rbacWorld \<Rightarrow> key \<rightharpoonup> k8sRoleBinding" where "bindingsOf w \<equiv> keyed bindingKey (fst (snd w))"
abbreviation accountsOf :: "rbacWorld \<Rightarrow> key \<rightharpoonup> k8sServiceAccount" where "accountsOf w \<equiv> keyed accountKey (snd (snd w))"

lemma keyed_upds:
  "keyed roleKey (rm((kr_namespace r, kr_name r) \<mapsto> r)) = (keyed roleKey rm)((kr_namespace r, kr_name r) \<mapsto> r)"
  "keyed bindingKey (bm((krb_namespace b, krb_name b) \<mapsto> b)) = (keyed bindingKey bm)((krb_namespace b, krb_name b) \<mapsto> b)"
  "keyed accountKey (am((ksa_namespace a, ksa_name a) \<mapsto> a)) = (keyed accountKey am)((ksa_namespace a, ksa_name a) \<mapsto> a)"
  using keyed_upd [of roleKey] keyed_upd [of bindingKey] keyed_upd [of accountKey]
  by (simp_all add: roleKey_def bindingKey_def accountKey_def del: fun_upd_apply)

lemma rbacServer_api:
  "kindApi (roleKind rbacServer) rolesOf" "kindApi (bindingKind rbacServer) bindingsOf" "kindApi (accountKind rbacServer) accountsOf"
  unfolding kindApi_def roleKind_def bindingKind_def accountKind_def rbacServer_def
  using keyed_key [of roleKey] keyed_key [of bindingKey] keyed_key [of accountKey]
  by (auto simp: answer_cases roleKey_def bindingKey_def accountKey_def keyed_upds split: prod.splits simp del: fun_upd_apply)

lemma rbacServer_untouched:
  "untouched (bindingKind rbacServer) rolesOf" "untouched (accountKind rbacServer) rolesOf" "untouched (accountKind rbacServer) bindingsOf"
  by (auto simp: untouched_def bindingKind_def accountKind_def rbacServer_def split: prod.splits)

lemma rbacServer_step:
  "result (createOrUpdate (roleKind rbacServer) T keep1 equal1 adopt1 d1) w = Inr ()"
  "result (createOrUpdate (bindingKind rbacServer) T keep2 equal2 adopt2 d2) w = Inr ()"
  "result (createOrUpdate (accountKind rbacServer) T keep3 equal3 adopt3 d3) w = Inr ()"
  by (rule createOrUpdate_succeeds;
      auto simp: roleKind_def bindingKind_def accountKind_def rbacServer_def split: prod.splits dest: answer_Inl)+

lemma rbacServer_owner: "e_controllerReference rbacServer cc = Inr [cc_name cc]"
  by (simp add: rbacServer_def)

lemma rbacServer_succeeds: "result (reconcileCassandraRBAC rbacServer cc) w = Inr ()"
  by (simp add: reconcileCassandraRBAC_def reconcileCassandraRole_def reconcileCassandraRoleBinding_def
        reconcileCassandraServiceAccount_def withOwners_def rbacServer_step rbacServer_owner)

theorem cassandra_account_reads_secrets_witness:
  "\<exists>r. rolesOf (world (reconcileCassandraRBAC rbacServer sampleCluster) (Map.empty, Map.empty, Map.empty))
      (''ns'', ''c-cassandra-role'') = Some r \<and> length (kr_rules r) = 1"
proof -
  have k: "cc_namespace sampleCluster = ''ns''" "CassandraRole (cc_name sampleCluster) = ''c-cassandra-role''"
    by (simp_all add: sampleCluster_def CassandraRole_def)
  show ?thesis
    using cassandra_account_reads_secrets [OF rbacServer_api rbacServer_untouched rbacServer_succeeds refl,
        where cc = sampleCluster and w = "(Map.empty, Map.empty, Map.empty)"]
    unfolding k by fastforce
qed

text \<open>When a pass over a role rests: the pass after a successful one only reads exactly if the role that was there has the
  owner of the desired one and no annotations. The operator takes over rules and labels but compares the whole object,
  so a role that someone annotated is written in every pass.\<close>

theorem annotated_role_never_rests:
  assumes "kindApi (roleKind E) store" "result (reconcileCassandraRole E cc) w = Inr ()"
    and "w' = world (reconcileCassandraRole E cc) w"
    and "k = (cc_namespace cc, CassandraRole (cc_name cc))"
    and "fst (o_getK8sRole (e_objects E) k w') = Inr b" "e_controllerReference E cc = Inr owners"
  shows "trace (reconcileCassandraRole E cc) w' = [Objects (GetK8sRole k)] \<longleftrightarrow>
    (\<forall>a. store w k = Some a \<longrightarrow> kr_ownerReferences a = owners \<and> kr_annotations a = None)"
proof -
  let ?d = "componentRole cc (CassandraRole (cc_name cc)) ComponentCassandra owners"
  have fields: "kr_namespace ?d = cc_namespace cc" "kr_name ?d = CassandraRole (cc_name cc)"
    "kr_ownerReferences ?d = owners" "kr_annotations ?d = None"
    by (simp_all add: componentRole_def)
  note run = withOwners_run [OF assms(6)]
  show ?thesis
    using role.second_pass [OF assms(1) _ assms(2) [unfolded reconcileCassandraRole_def, unfolded run]] assms(5)
    by (simp add: assms(3,4) reconcileCassandraRole_def run fields foreignRole_def roleKind_def del: split_paired_All)
qed

theorem annotated_role_never_rests_witness:
  "trace (reconcileCassandraRole rbacServer sampleCluster)
     (world (reconcileCassandraRole rbacServer sampleCluster) (Map.empty, Map.empty, Map.empty)) =
   [Objects (GetK8sRole (''ns'', ''c-cassandra-role''))]"
proof -
  let ?m = "reconcileCassandraRole rbacServer sampleCluster" and ?w = "(Map.empty, Map.empty, Map.empty) :: rbacWorld"
  have k: "(cc_namespace sampleCluster, CassandraRole (cc_name sampleCluster)) = (''ns'', ''c-cassandra-role'')"
    by (simp add: sampleCluster_def CassandraRole_def)
  have ok: "result ?m ?w = Inr ()"
    using rbacServer_succeeds [of sampleCluster ?w] by (auto simp: reconcileCassandraRBAC_def split: sum.splits)
  have "e_controllerReference rbacServer sampleCluster = Inr [''c'']" by (simp add: rbacServer_def sampleCluster_def)
  moreover have "\<exists>b. fst (o_getK8sRole (e_objects rbacServer) (''ns'', ''c-cassandra-role'') (world ?m ?w)) = Inr b"
    by (simp add: reconcileCassandraRole_def withOwners_def createOrUpdate_def roleKind_def componentRole_def rbacServer_def
        answer_def keyed_def roleKey_def isNotFound_def Let_def sampleCluster_def CassandraRole_def)
  ultimately show ?thesis
    using annotated_role_never_rests [OF rbacServer_api(1) ok refl k [symmetric]] by (auto simp: keyed_def)
qed

end
