(* ===== verification/Certs.thy ===== *)
theory Certs
  imports Prelude
begin

text \<open>
  Certificates: \<open>controllers/certs\<close>. A new authority, a key pair signed by it, and the key and trust stores of
  Cassandra. The cryptographic library is a parameter (record \<open>cryptoLib\<close>): its generators draw on randomness and
  the clock, so they are functions of the state of the world. Keys and encoded values are opaque strings.
  A step of this theory sends no request.
\<close>

section \<open>The library\<close>

text \<open>The fields of \<open>x509.Certificate\<close> that the code sets or reads; \<open>crt_raw\<close> stands for the rest of a parsed one.\<close>

record certificate =
  crt_isCA :: bool
  crt_notBefore :: int
  crt_notAfter :: int
  crt_serialNumber :: int
  crt_keyUsage :: "string list"
  crt_extKeyUsage :: "string list"
  crt_basicConstraintsValid :: bool
  crt_organization :: "string list"
  crt_commonName :: string
  crt_dnsNames :: "string list"
  crt_raw :: string

record 'w cryptoLib =
  cy_now :: "'w \<Rightarrow> int"
  cy_generateKey :: "int \<Rightarrow> 'w \<Rightarrow> (go_error + string) \<times> 'w"
  cy_publicKey :: "string \<Rightarrow> string"
  cy_createCertificate :: "certificate \<Rightarrow> certificate \<Rightarrow> string \<Rightarrow> string \<Rightarrow> 'w \<Rightarrow> (go_error + string) \<times> 'w"
  cy_marshalKey :: "string \<Rightarrow> string"
  cy_pemEncode :: "string \<Rightarrow> string \<Rightarrow> string"
  cy_pemDecode :: "string \<Rightarrow> string option"
  cy_parseCertificate :: "string \<Rightarrow> go_error + certificate"
  cy_parseKey :: "string \<Rightarrow> go_error + string"
  cy_encodeKeystore :: "string \<Rightarrow> certificate \<Rightarrow> certificate list \<Rightarrow> string \<Rightarrow> 'w \<Rightarrow> (go_error + string) \<times> 'w"
  cy_decodeChain :: "string \<Rightarrow> string \<Rightarrow> go_error + unit"
  cy_encodeTrustStore :: "certificate list \<Rightarrow> string \<Rightarrow> 'w \<Rightarrow> (go_error + string) \<times> 'w"
  cy_decodeTrustStore :: "string \<Rightarrow> string \<Rightarrow> go_error + unit"
  cy_range :: "(string \<rightharpoonup> string) \<Rightarrow> string list"

text \<open>\<open>cy_range m\<close> is the order in which a range visits the keys of the map \<open>m\<close>.\<close>

text \<open>A step that changes the world and sends nothing, and a pure one.\<close>

definition compute :: "('w \<Rightarrow> (go_error + 'a) \<times> 'w) \<Rightarrow> ('w, 'q, 'a) act" where
  "compute f = (\<lambda>w. (fst (f w), [], snd (f w)))"

definition pureResult :: "go_error + 'a \<Rightarrow> ('w, 'q, 'a) act" where
  "pureResult r = (\<lambda>w. (r, [], w))"

lemma compute_simps [act_simps, simp]:
  "result (compute f) w = fst (f w)" "trace (compute f) w = []" "world (compute f) w = snd (f w)"
  by (simp_all add: compute_def result_def trace_def world_def)

lemma pureResult_simps [act_simps, simp]:
  "result (pureResult r) w = r" "trace (pureResult r) w = []" "world (pureResult r) w = w"
  by (simp_all add: pureResult_def result_def trace_def world_def)

section \<open>Key pairs\<close>

record keypair =
  kp_crt :: string
  kp_pk :: string

record certOpts =
  opt_keySize :: int
  opt_dnsNames :: "string list"
  opt_expire :: int
  opt_org :: string
  opt_serialNum :: int

text \<open>The expiry is ten years, in nanoseconds.\<close>

definition MakeDefaultOptions :: certOpts where
  "MakeDefaultOptions = \<lparr>opt_keySize = 4096, opt_dnsNames = [], opt_expire = 3600000000000 * 24 * 365 * 10,
     opt_org = ''Self-Signed Issuer'', opt_serialNum = 1\<rparr>"

definition encodeToPemFormat :: "'w cryptoLib \<Rightarrow> string \<Rightarrow> string \<Rightarrow> string" where
  "encodeToPemFormat C kType bytes = cy_pemEncode C kType bytes"

definition ErrInvalidPEMBlock :: go_error where "ErrInvalidPEMBlock = Err ''Invalid PEM block''"

definition ParseCertificate :: "'w cryptoLib \<Rightarrow> string \<Rightarrow> go_error + certificate" where
  "ParseCertificate C pem =
     (case cy_pemDecode C pem of
        None \<Rightarrow> Inl (Wrap ''failed to decode CA certificate'' ErrInvalidPEMBlock)
      | Some block \<Rightarrow> (case cy_parseCertificate C block of
          Inl e \<Rightarrow> Inl (wrap ''failed to parse certificate'' e) | Inr c \<Rightarrow> Inr c))"

definition ParsePrivateKey :: "'w cryptoLib \<Rightarrow> string \<Rightarrow> go_error + string" where
  "ParsePrivateKey C pem =
     (case cy_pemDecode C pem of
        None \<Rightarrow> Inl (Wrap ''failed to decode private key'' ErrInvalidPEMBlock)
      | Some block \<Rightarrow> (case cy_parseKey C block of
          Inl e \<Rightarrow> Inl (wrap ''failed to parse private key'' e) | Inr k \<Rightarrow> Inr k))"

definition keypairOf :: "'w cryptoLib \<Rightarrow> string \<Rightarrow> string \<Rightarrow> keypair" where
  "keypairOf C crtBytes pk =
     \<lparr>kp_crt = encodeToPemFormat C ''CERTIFICATE'' crtBytes, kp_pk = encodeToPemFormat C ''RSA PRIVATE KEY'' (cy_marshalKey C pk)\<rparr>"

definition CreateCA :: "'w cryptoLib \<Rightarrow> certOpts \<Rightarrow> ('w, 'q, keypair) act" where
  "CreateCA C options =
     andThen (compute (\<lambda>w. (Inr (cy_now C w), w))) (\<lambda>now.
     let ca = \<lparr>crt_isCA = True, crt_notBefore = now, crt_notAfter = now + opt_expire options,
           crt_serialNumber = opt_serialNum options, crt_keyUsage = [''DigitalSignature'', ''CertSign''],
           crt_extKeyUsage = [''ServerAuth'', ''ClientAuth''], crt_basicConstraintsValid = True,
           crt_organization = [opt_org options], crt_commonName = '''', crt_dnsNames = [], crt_raw = ''''\<rparr> in
     andThen (wrapErr ''failed to generate private key for CA'' (compute (cy_generateKey C (opt_keySize options)))) (\<lambda>pk.
     andThen (wrapErr ''failed to generate certificate for CA''
         (compute (cy_createCertificate C ca ca (cy_publicKey C pk) pk))) (\<lambda>crtBytes.
       ret (keypairOf C crtBytes pk))))"

definition CreateCertificate :: "'w cryptoLib \<Rightarrow> keypair \<Rightarrow> certOpts \<Rightarrow> ('w, 'q, keypair) act" where
  "CreateCertificate C caKp options =
     andThen (wrapErr ''failed to parse CA certificate'' (pureResult (ParseCertificate C (kp_crt caKp)))) (\<lambda>caCrt.
     andThen (wrapErr ''failed to parse CA private key'' (pureResult (ParsePrivateKey C (kp_pk caKp)))) (\<lambda>caPk.
     andThen (compute (\<lambda>w. (Inr (cy_now C w), w))) (\<lambda>now.
     let crt = \<lparr>crt_isCA = False, crt_notBefore = now, crt_notAfter = crt_notAfter caCrt,
           crt_serialNumber = opt_serialNum options, crt_keyUsage = [''DigitalSignature''],
           crt_extKeyUsage = [''ServerAuth'', ''ClientAuth''], crt_basicConstraintsValid = True,
           crt_organization = crt_organization caCrt,
           crt_commonName = (if length (opt_dnsNames options) > 0 then opt_dnsNames options ! 0 else crt_commonName caCrt),
           crt_dnsNames = opt_dnsNames options, crt_raw = ''''\<rparr> in
     andThen (wrapErr ''failed to generate private key'' (compute (cy_generateKey C (opt_keySize options)))) (\<lambda>pk.
     andThen (wrapErr ''failed to create certificate''
         (compute (cy_createCertificate C crt caCrt (cy_publicKey C pk) caPk))) (\<lambda>crtBytes.
       ret (keypairOf C crtBytes pk))))))"

section \<open>Stores\<close>

definition GeneratePFXKeystore ::
  "'w cryptoLib \<Rightarrow> string \<Rightarrow> certificate \<Rightarrow> certificate list \<Rightarrow> string \<Rightarrow> ('w, 'q, string) act" where
  "GeneratePFXKeystore C privateKey crt caCertificates keystorePassword =
     andThen (wrapErr ''Cannot encode PFX Keystore'' (compute (cy_encodeKeystore C privateKey crt caCertificates keystorePassword))) (\<lambda>pfx.
     andThen (wrapErr ''Cannot validate PFX Keystore'' (pureResult (cy_decodeChain C pfx keystorePassword))) (\<lambda>_. ret pfx))"

definition GeneratePFXTruststore :: "'w cryptoLib \<Rightarrow> certificate list \<Rightarrow> string \<Rightarrow> ('w, 'q, string) act" where
  "GeneratePFXTruststore C caCertificates keystorePassword =
     andThen (wrapErr ''Cannot encode PFX Truststore'' (compute (cy_encodeTrustStore C caCertificates keystorePassword))) (\<lambda>pfx.
     andThen (wrapErr ''Cannot validate PFX Truststore'' (pureResult (cy_decodeTrustStore C pfx keystorePassword))) (\<lambda>_. ret pfx))"

end
