(* ===== verification/Tls.thy ===== *)
theory Tls
  imports Helpers Certs
begin

text \<open>
  The TLS secrets of a cluster: \<open>controllers/cassandra_tls.go\<close>. For traffic between nodes (server) and for clients
  there is a secret with the authority and one with the key and trust stores of the nodes; missing ones are generated.
  The Go code writes the names it falls back to through pointers into the specification; here the functions return
  the changed cluster.
  The lemmas say when a secret is generated, replaced or left alone.
\<close>

section \<open>The four secrets\<close>

definition EventTLSSecretNotFound :: string where "EventTLSSecretNotFound = ''TLSSecretNotFound''"
definition EventTLSSecretInvalid :: string where "EventTLSSecretInvalid = ''TLSSecretInvalid''"

datatype tlsSecretType = ClientCA | ClientNode | ServerCA | ServerNode

record tlsSecret =
  ts_secretName :: string
  ts_defaultName :: string
  ts_fieldPath :: string
  ts_annotation :: string
  ts_secretType :: tlsSecretType

definition serverTLS :: "cassandraCluster \<Rightarrow> serverEncryption" where
  "serverTLS cc = enc_server (encryptionSpec (cc_spec cc))"
definition clientTLS :: "cassandraCluster \<Rightarrow> clientEncryption" where
  "clientTLS cc = enc_client (encryptionSpec (cc_spec cc))"

fun newTLSSecret :: "cassandraCluster \<Rightarrow> tlsSecretType \<Rightarrow> tlsSecret" where
  "newTLSSecret cc ClientCA =
     \<lparr>ts_secretName = ca_name (ce_caTLSSecret (clientTLS cc)), ts_defaultName = CassandraClientTLSCA (cc_name cc),
      ts_fieldPath = ''encryption.client.caTLSSecret.name'', ts_annotation = ''client-ca-tls-secret'', ts_secretType = ClientCA\<rparr>"
| "newTLSSecret cc ClientNode =
     \<lparr>ts_secretName = node_name (ce_nodeTLSSecret (clientTLS cc)), ts_defaultName = CassandraClientTLSNode (cc_name cc),
      ts_fieldPath = ''encryption.client.nodeTLSSecret.name'', ts_annotation = ''client-node-tls-secret'', ts_secretType = ClientNode\<rparr>"
| "newTLSSecret cc ServerCA =
     \<lparr>ts_secretName = ca_name (se_caTLSSecret (serverTLS cc)), ts_defaultName = CassandraClusterTLSCA (cc_name cc),
      ts_fieldPath = ''encryption.server.caTLSSecret.name'', ts_annotation = ''cluster-ca-tls-secret'', ts_secretType = ServerCA\<rparr>"
| "newTLSSecret cc ServerNode =
     \<lparr>ts_secretName = node_name (se_nodeTLSSecret (serverTLS cc)), ts_defaultName = CassandraClusterTLSNode (cc_name cc),
      ts_fieldPath = ''encryption.server.nodeTLSSecret.name'', ts_annotation = ''cluster-node-tls-secret'', ts_secretType = ServerNode\<rparr>"

text \<open>Writing a name through the pointer of a TLS secret.\<close>

definition updServer :: "(serverEncryption \<Rightarrow> serverEncryption) \<Rightarrow> cassandraCluster \<Rightarrow> cassandraCluster" where
  "updServer f cc = cc\<lparr>cc_spec := (cc_spec cc)\<lparr>encryptionSpec := (encryptionSpec (cc_spec cc))\<lparr>enc_server := f (serverTLS cc)\<rparr>\<rparr>\<rparr>"
definition updClient :: "(clientEncryption \<Rightarrow> clientEncryption) \<Rightarrow> cassandraCluster \<Rightarrow> cassandraCluster" where
  "updClient f cc = cc\<lparr>cc_spec := (cc_spec cc)\<lparr>encryptionSpec := (encryptionSpec (cc_spec cc))\<lparr>enc_client := f (clientTLS cc)\<rparr>\<rparr>\<rparr>"

fun setTLSName :: "tlsSecretType \<Rightarrow> string \<Rightarrow> cassandraCluster \<Rightarrow> cassandraCluster" where
  "setTLSName ClientCA n cc = updClient (\<lambda>c. c\<lparr>ce_caTLSSecret := (ce_caTLSSecret c)\<lparr>ca_name := n\<rparr>\<rparr>) cc"
| "setTLSName ClientNode n cc = updClient (\<lambda>c. c\<lparr>ce_nodeTLSSecret := (ce_nodeTLSSecret c)\<lparr>node_name := n\<rparr>\<rparr>) cc"
| "setTLSName ServerCA n cc = updServer (\<lambda>c. c\<lparr>se_caTLSSecret := (se_caTLSSecret c)\<lparr>ca_name := n\<rparr>\<rparr>) cc"
| "setTLSName ServerNode n cc = updServer (\<lambda>c. c\<lparr>se_nodeTLSSecret := (se_nodeTLSSecret c)\<lparr>node_name := n\<rparr>\<rparr>) cc"

fun newTLSSecretRequiredFields :: "cassandraCluster \<Rightarrow> tlsSecretType \<Rightarrow> go_error + string list" where
  "newTLSSecretRequiredFields cc ty =
     (if ty = ClientCA \<or> ty = ServerCA then Inl (Err (''only node secrets should check required fields. secretType: '' @ (if ty = ClientCA then ''0'' else ''2'')))
      else let n = (if ty = ClientNode then ce_nodeTLSSecret (clientTLS cc) else se_nodeTLSSecret (serverTLS cc)) in
        Inr [node_caCrtFileKey n, node_crtFileKey n, node_fileKey n, node_keystoreFileKey n, node_truststoreFileKey n,
             node_keystorePasswordKey n, node_truststorePasswordKey n])"

definition printList :: "string list \<Rightarrow> string" where
  "printList xs = ''['' @ join '' '' xs @ '']''"

definition validateTLSFields :: "cassandraCluster \<Rightarrow> secret \<Rightarrow> tlsSecretType \<Rightarrow> ('w, unit) run" where
  "validateTLSFields cc s ty =
     andThen (lift (newTLSSecretRequiredFields cc ty)) (\<lambda>requiredFields.
       let emptyFields = EmptySecretFields s requiredFields in
       if sec_data s = None \<or> length emptyFields \<noteq> 0
       then let errMsg = ''TLS Secret `'' @ sec_name s @ ''` has some empty or missing fields: '' @ printList emptyFields in
            andThen (emit EventTLSSecretInvalid errMsg) (\<lambda>_. raise (Err errMsg))
       else ret ())"

definition emptySecret :: secret where
  "emptySecret = \<lparr>sec_name = '''', sec_namespace = '''', sec_labels = Map.empty, sec_annotations = None,
     sec_ownerReferences = [], sec_data = None\<rparr>"

text \<open>A secret that is not found is not an error: the empty object is returned. The name that the pointer holds
  afterwards is the second component.\<close>

definition getTLSSecret :: "'w env \<Rightarrow> cassandraCluster \<Rightarrow> tlsSecret \<Rightarrow> bool \<Rightarrow> ('w, secret \<times> string) run" where
  "getTLSSecret E cc s allowDefaulting =
     (let n = ts_secretName s; k = (cc_namespace cc, n) in
      andThen (attempt (call (GetSecret k) (e_getSecret E k))) (\<lambda>r.
        case r of
          Inl e \<Rightarrow>
            if isNotFound e
            then let errMsg = ts_fieldPath s @ '': '' @ n @ '' was not found'';
                     errMsg' = (if allowDefaulting then errMsg @ ''. falling back to default secret, '' @ ts_defaultName s @
                                  '', and generating it'' else errMsg);
                     n' = (if allowDefaulting then ts_defaultName s else n) in
                 andThen (emit EventTLSSecretNotFound errMsg') (\<lambda>_. ret (emptySecret, n'))
            else raise (Wrap (''failed to get secret: '' @ ts_fieldPath s @ '': '' @ n) e)
        | Inr x \<Rightarrow> ret (x, n)))"

definition annotated :: "secret \<Rightarrow> strmap \<Rightarrow> secret" where
  "annotated object annotations =
     object\<lparr>sec_annotations := (case sec_annotations object of None \<Rightarrow> Some annotations
       | Some cur \<Rightarrow> MergeMap (Some cur) (Some annotations))\<rparr>"

definition reconcileNodeTLSSecret ::
  "'w env \<Rightarrow> cassandraCluster \<Rightarrow> strmap \<Rightarrow> tlsSecretType \<Rightarrow> ('w, secret \<times> strmap) run" where
  "reconcileNodeTLSSecret E cc restartChecksum ty =
     (let s = newTLSSecret cc ty; annotations = [ClusterInstanceLabel \<mapsto> cc_name cc] in
      andThen (getTLSSecret E cc s False) (\<lambda>(k8sTLSSecret, n).
      andThen (wrapErr (''failed to validate '' @ ts_fieldPath s @ '': '' @ n @ '' fields'') (validateTLSFields cc k8sTLSSecret ty)) (\<lambda>_.
      andThen (wrapErr (''failed to reconcile annotations for secret `'' @ sec_name k8sTLSSecret @ ''`'')
          (reconcileAnnotations E k8sTLSSecret annotations)) (\<lambda>_.
        ret (annotated k8sTLSSecret annotations,
             restartChecksum(ts_annotation s \<mapsto> e_printMap E (sec_data k8sTLSSecret)))))))"

section \<open>Generated secrets\<close>

text \<open>\<open>^.*.crt\<close>: at least one character and \<open>crt\<close>, anywhere in the key.\<close>

definition caEntry :: "string \<Rightarrow> bool" where
  "caEntry k \<longleftrightarrow> (\<exists>i \<in> set [1..<length k]. take 3 (drop i k) = ''crt'')"

definition newSecret :: "cassandraCluster \<Rightarrow> string \<Rightarrow> strmap \<Rightarrow> secret" where
  "newSecret cc n d = \<lparr>sec_name = n, sec_namespace = cc_namespace cc, sec_labels = CombinedComponentLabels cc ComponentCassandra,
     sec_annotations = None, sec_ownerReferences = [], sec_data = Some d\<rparr>"

definition genCASecret :: "'w cryptoLib \<Rightarrow> cassandraCluster \<Rightarrow> caTLSSecret \<Rightarrow> ('w, secret) run" where
  "genCASecret C cc ca =
     andThen (wrapErr ''Failed to generate CA keypair'' (CreateCA C (MakeDefaultOptions\<lparr>opt_org := ''cassandra_operator''\<rparr>))) (\<lambda>caKp.
       ret (newSecret cc (ca_name ca) ([ca_crtFileKey ca \<mapsto> kp_crt caKp](ca_fileKey ca \<mapsto> kp_pk caKp))))"

text \<open>The certificates among the entries of the authority's secret, in the order of the range over its data.\<close>

definition parseCAs :: "'w cryptoLib \<Rightarrow> strmap \<Rightarrow> ('w, certificate list) run" where
  "parseCAs C d =
     foldAct (\<lambda>crtKey parsed.
        if caEntry crtKey
        then andThen (wrapErr (''cannot parse CA certificate: `'' @ crtKey @ ''`'') (lift (ParseCertificate C (mget d crtKey))))
               (\<lambda>c. ret (parsed @ [c]))
        else ret parsed) (cy_range C d) []"

definition secretData :: "secret \<Rightarrow> strmap" where
  "secretData s = (case sec_data s of None \<Rightarrow> Map.empty | Some d \<Rightarrow> d)"

definition genNodeSecret :: "'w cryptoLib \<Rightarrow> cassandraCluster \<Rightarrow> nodeTLSSecret \<Rightarrow> caTLSSecret \<Rightarrow> secret \<Rightarrow> ('w, secret) run" where
  "genNodeSecret C cc node ca actualTLSCA =
     (let caKp = \<lparr>kp_crt = mget (secretData actualTLSCA) (ca_crtFileKey ca), kp_pk = mget (secretData actualTLSCA) (ca_fileKey ca)\<rparr>;
          password = node_generateKeystorePassword node in
      andThen (wrapErr ''Failed to create TLS Node keypair'' (CreateCertificate C caKp (MakeDefaultOptions\<lparr>opt_dnsNames := [''localhost'']\<rparr>))) (\<lambda>kp.
      andThen (parseCAs C (secretData actualTLSCA)) (\<lambda>parsedCAs.
      andThen (wrapErr ''Cannot parse certificate'' (lift (ParseCertificate C (kp_crt kp)))) (\<lambda>parsedCrt.
      andThen (wrapErr ''Cannot parse private key'' (lift (ParsePrivateKey C (kp_pk kp)))) (\<lambda>parsedKey.
      andThen (wrapErr ''Cannot create PFX keystore'' (GeneratePFXKeystore C parsedKey parsedCrt parsedCAs password)) (\<lambda>keystore.
      andThen (wrapErr ''Cannot create PFX trustore'' (GeneratePFXTruststore C parsedCAs password)) (\<lambda>truststore.
        ret (newSecret cc (node_name node)
          (Map.empty(node_caCrtFileKey node \<mapsto> kp_crt caKp, node_crtFileKey node \<mapsto> kp_crt kp, node_fileKey node \<mapsto> kp_pk kp,
             node_keystoreFileKey node \<mapsto> keystore, node_keystorePasswordKey node \<mapsto> password,
             node_truststoreFileKey node \<mapsto> truststore, node_truststorePasswordKey node \<mapsto> password))))))))))"

section \<open>Authority and node secrets\<close>

definition ownedSecret :: "'w env \<Rightarrow> cassandraCluster \<Rightarrow> secret \<Rightarrow> ('w, secret) run" where
  "ownedSecret E cc s =
     andThen (wrapErr ''Cannot set controller reference'' (lift (e_controllerReference E cc))) (\<lambda>owners.
       ret (s\<lparr>sec_ownerReferences := owners\<rparr>))"

definition handleCASecret :: "'w env \<Rightarrow> 'w cryptoLib \<Rightarrow> cassandraCluster \<Rightarrow> caTLSSecret \<Rightarrow> ('w, unit) run" where
  "handleCASecret E C cc ca =
     (let n = ca_name ca; k = (cc_namespace cc, n); failed = ''Failed to get TLS CA Secret `'' @ n @ ''`'' in
      andThen (attempt (call (GetSecret k) (e_getSecret E k))) (\<lambda>r.
      andThen (case r of
          Inl e \<Rightarrow>
            if isNotFound e
            then andThen (wrapErr (''Unable to handle TLS CA Secret `'' @ n @ ''`'') (genCASecret C cc ca)) (\<lambda>s.
                 andThen (ownedSecret E cc s) (\<lambda>desired.
                   wrapErr (''Unable to create Secret `'' @ sec_name desired @ ''`'') (call (CreateSecret desired) (e_createSecret E desired))))
            else raise (Wrap failed e)
        | Inr _ \<Rightarrow> ret ()) (\<lambda>_.
      andThen (wrapErr failed (call (GetSecret k) (e_getSecret E k))) (\<lambda>_. ret ()))))"

definition handleNodeSecret :: "'w env \<Rightarrow> 'w cryptoLib \<Rightarrow> cassandraCluster \<Rightarrow> caTLSSecret \<Rightarrow> nodeTLSSecret \<Rightarrow> ('w, unit) run" where
  "handleNodeSecret E C cc ca node =
     (let kn = (cc_namespace cc, node_name node); kc = (cc_namespace cc, ca_name ca);
          failedCA = ''Failed to get TLS CA Secret `'' @ ca_name ca @ ''`'' in
      andThen (attempt (call (GetSecret kn) (e_getSecret E kn))) (\<lambda>r.
        case r of
          Inl e \<Rightarrow>
            if isNotFound e
            then andThen (attempt (call (GetSecret kc) (e_getSecret E kc))) (\<lambda>rc.
                 case rc of
                   Inl e' \<Rightarrow> if isNotFound e' then raise (Wrap (''TLS CA Secret `'' @ ca_name ca @ ''` not found'') e')
                            else raise (Wrap failedCA e')
                 | Inr actualTLSCA \<Rightarrow>
                     andThen (wrapErr ''Failed to generate TLS Node Secret'' (genNodeSecret C cc node ca actualTLSCA)) (\<lambda>s.
                     andThen (ownedSecret E cc s) (\<lambda>desired.
                       wrapErr ''Failed to create TLS Node Secret'' (call (CreateSecret desired) (e_createSecret E desired)))))
            else raise (Wrap (''Failed to get TLS Node Secret `'' @ node_name node @ ''`'') e)
        | Inr actualTLSNode \<Rightarrow>
            andThen (attempt (call (GetSecret kc) (e_getSecret E kc))) (\<lambda>rc.
            case rc of
              Inl e \<Rightarrow> if isNotFound e then ret () else raise (Wrap failedCA e)
            | Inr actualTLSCA \<Rightarrow>
                let checksum = e_sha1 E (sec_data actualTLSCA) in
                if mget (case sec_annotations actualTLSCA of None \<Rightarrow> Map.empty | Some a \<Rightarrow> a) ClusterChecksumLabel \<noteq> checksum
                then andThen (wrapErr ''Failed to generate TLS Node Secret'' (genNodeSecret C cc node ca actualTLSCA)) (\<lambda>s.
                     let node' = actualTLSNode\<lparr>sec_data := sec_data s\<rparr> in
                     andThen (wrapErr ''Failed to update TLS Node Secret'' (call (UpdateSecret node') (e_updateSecret E node'))) (\<lambda>_.
                       wrapErr (''failed to reconcile annotations for secret `'' @ sec_name actualTLSCA @ ''`'')
                         (reconcileAnnotations E actualTLSCA
                           [ClusterChecksumLabel \<mapsto> checksum, ClusterInstanceLabel \<mapsto> cc_name cc])))
                else ret ())))"

section \<open>Server and client\<close>

text \<open>\<open>if name == "" \<dots> else getTLSSecret(\<dots>, true)\<close>: the default name, or the name after a fallback.\<close>

definition chooseName :: "'w env \<Rightarrow> cassandraCluster \<Rightarrow> tlsSecretType \<Rightarrow> ('w, cassandraCluster) run" where
  "chooseName E cc ty =
     (let s = newTLSSecret cc ty in
      if ts_secretName s = '''' then ret (setTLSName ty (ts_defaultName s) cc)
      else andThen (getTLSSecret E cc s True) (\<lambda>(_, n). ret (setTLSName ty n cc)))"

definition reconcileServerEncryption :: "'w env \<Rightarrow> 'w cryptoLib \<Rightarrow> cassandraCluster \<Rightarrow> ('w, cassandraCluster) run" where
  "reconcileServerEncryption E C cc =
     (if se_internodeEncryption (serverTLS cc) = InternodeEncryptionNone then ret cc
      else andThen (chooseName E cc ServerCA) (\<lambda>cc1.
           andThen (if node_name (se_nodeTLSSecret (serverTLS cc1)) = ''''
                    then wrapErr ''Failed to handle Cluster TLS CA Secret'' (handleCASecret E C cc1 (se_caTLSSecret (serverTLS cc1)))
                    else ret ()) (\<lambda>_.
           andThen (chooseName E cc1 ServerNode) (\<lambda>cc2.
           andThen (wrapErr ''Failed to handle Cluster TLS Node Secret''
               (handleNodeSecret E C cc2 (se_caTLSSecret (serverTLS cc2)) (se_nodeTLSSecret (serverTLS cc2)))) (\<lambda>_. ret cc2)))))"

text \<open>\<open>home\<close> is the home directory of the operator's process.\<close>

definition OperatorClientTLSDir :: "string \<Rightarrow> cassandraCluster \<Rightarrow> string" where
  "OperatorClientTLSDir home cc = home @ ''/'' @ cc_namespace cc @ ''-'' @ cc_name cc"

definition writeClientFile :: "'w env \<Rightarrow> string \<Rightarrow> cassandraCluster \<Rightarrow> secret \<Rightarrow> string \<Rightarrow> string \<Rightarrow> ('w, unit) run" where
  "writeClientFile E home cc s what fileKey =
     (let path = OperatorClientTLSDir home cc @ ''/'' @ fileKey; content = mget (secretData s) fileKey in
      wrapErr (''failed to write '' @ what @ '' into file '' @ path)
        (call (Objects (WriteFile path content)) (o_writeFile (e_objects E) path content)))"

definition setupClientTLSFiles :: "'w env \<Rightarrow> string \<Rightarrow> cassandraCluster \<Rightarrow> ('w, unit) run" where
  "setupClientTLSFiles E home cc =
     (let node = ce_nodeTLSSecret (clientTLS cc); k = (cc_namespace cc, node_name node); dir = OperatorClientTLSDir home cc in
      andThen (wrapErr (''failed to get Client TLS Secret: '' @ node_name node) (call (GetSecret k) (e_getSecret E k))) (\<lambda>s.
      andThen (wrapErr (''failed to create directory: '' @ dir) (call (Objects (MakeDir dir)) (o_mkdir (e_objects E) dir))) (\<lambda>_.
      andThen (writeClientFile E home cc s ''CA certificate'' (node_caCrtFileKey node)) (\<lambda>_.
      andThen (writeClientFile E home cc s ''private key'' (node_fileKey node)) (\<lambda>_.
        writeClientFile E home cc s ''certificate'' (node_crtFileKey node))))))"

definition cleanupClientTLSDir :: "'w env \<Rightarrow> string \<Rightarrow> cassandraCluster \<Rightarrow> ('w, unit) run" where
  "cleanupClientTLSDir E home cc =
     (let dir = OperatorClientTLSDir home cc in
      andThen (attempt (call (Objects (RemoveDir dir)) (o_removeDir (e_objects E) dir))) (\<lambda>_. ret ()))"

definition reconcileClientEncryption :: "'w env \<Rightarrow> 'w cryptoLib \<Rightarrow> string \<Rightarrow> cassandraCluster \<Rightarrow> ('w, cassandraCluster) run" where
  "reconcileClientEncryption E C home cc =
     (if \<not> ce_enabled (clientTLS cc) then ret cc
      else andThen (chooseName E cc ClientCA) (\<lambda>cc1.
           andThen (if node_name (ce_nodeTLSSecret (clientTLS cc1)) = ''''
                    then wrapErr ''Failed to handle Client TLS CA Secret'' (handleCASecret E C cc1 (ce_caTLSSecret (clientTLS cc1)))
                    else ret ()) (\<lambda>_.
           andThen (chooseName E cc1 ClientNode) (\<lambda>cc2.
           andThen (wrapErr ''Failed to handle Client TLS Node Secret''
               (handleNodeSecret E C cc2 (ce_caTLSSecret (clientTLS cc2)) (ce_nodeTLSSecret (clientTLS cc2)))) (\<lambda>_.
           andThen (wrapErr ''failed to obtain Client TLS'' (setupClientTLSFiles E home cc2)) (\<lambda>_. ret cc2))))))"

definition reconcileTLSSecrets :: "'w env \<Rightarrow> 'w cryptoLib \<Rightarrow> string \<Rightarrow> cassandraCluster \<Rightarrow> ('w, cassandraCluster) run" where
  "reconcileTLSSecrets E C home cc =
     andThen (reconcileServerEncryption E C cc) (\<lambda>cc1. reconcileClientEncryption E C home cc1)"

section \<open>What the steps change\<close>

text \<open>The cryptographic library does not touch the objects of the API server.\<close>

definition cryptoQuiet :: "'w cryptoLib \<Rightarrow> ('w \<Rightarrow> 's) \<Rightarrow> bool" where
  "cryptoQuiet C store \<longleftrightarrow>
     (\<forall>n w. store (snd (cy_generateKey C n w)) = store w) \<and>
     (\<forall>t p k s w. store (snd (cy_createCertificate C t p k s w)) = store w) \<and>
     (\<forall>k c cs pw w. store (snd (cy_encodeKeystore C k c cs pw w)) = store w) \<and>
     (\<forall>cs pw w. store (snd (cy_encodeTrustStore C cs pw w)) = store w)"

lemma store_andThen:
  "store (world m w) = store w \<Longrightarrow> (\<And>x v. store (world (f x) v) = store v) \<Longrightarrow> store (world (andThen m f) w) = store w"
  by (auto split: sum.splits)

lemma store_foldAct:
  "(\<And>x s v. store (world (f x s) v) = store v) \<Longrightarrow> store (world (foldAct f xs s) w) = store w"
  by (induction xs arbitrary: s w) (auto split: sum.splits)

lemma CreateCA_store: "cryptoQuiet C store \<Longrightarrow> store (world (CreateCA C o') w) = store w"
  unfolding CreateCA_def Let_def cryptoQuiet_def by (intro store_andThen) auto

lemma CreateCertificate_store: "cryptoQuiet C store \<Longrightarrow> store (world (CreateCertificate C k o') w) = store w"
  unfolding CreateCertificate_def Let_def cryptoQuiet_def by (intro store_andThen) auto

lemma GeneratePFXKeystore_store: "cryptoQuiet C store \<Longrightarrow> store (world (GeneratePFXKeystore C k c cs pw) w) = store w"
  unfolding GeneratePFXKeystore_def cryptoQuiet_def by (intro store_andThen) auto

lemma GeneratePFXTruststore_store: "cryptoQuiet C store \<Longrightarrow> store (world (GeneratePFXTruststore C cs pw) w) = store w"
  unfolding GeneratePFXTruststore_def cryptoQuiet_def by (intro store_andThen) auto

lemma parseCAs_store: "store (world (parseCAs C d) w) = store w"
  unfolding parseCAs_def by (intro store_foldAct) (auto split: sum.splits)

lemma genCASecret_store: "cryptoQuiet C store \<Longrightarrow> store (world (genCASecret C cc ca) w) = store w"
  unfolding genCASecret_def by (intro store_andThen) (auto simp: CreateCA_store)

lemma genNodeSecret_store: "cryptoQuiet C store \<Longrightarrow> store (world (genNodeSecret C cc n ca a) w) = store w"
  unfolding genNodeSecret_def Let_def
  by (intro store_andThen)
    (auto simp: CreateCertificate_store GeneratePFXKeystore_store GeneratePFXTruststore_store parseCAs_store)

text \<open>The generators send nothing.\<close>

lemma only_silent: "(\<And>w. trace m w = []) \<Longrightarrow> only P m"
  by (simp add: only_def)

lemma trace_andThen_silent: "trace m w = [] \<Longrightarrow> (\<And>x v. trace (f x) v = []) \<Longrightarrow> trace (andThen m f) w = []"
  by (auto split: sum.splits)

lemma trace_foldAct_silent: "(\<And>x s v. trace (f x s) v = []) \<Longrightarrow> trace (foldAct f xs s) w = []"
  by (induction xs arbitrary: s w) (auto split: sum.splits)

lemma CreateCertificate_silent [simp]: "trace (CreateCertificate C k o') w = []"
  unfolding CreateCertificate_def Let_def by (intro trace_andThen_silent) auto

lemma CreateCA_silent [simp]: "trace (CreateCA C o') w = []"
  unfolding CreateCA_def Let_def by (intro trace_andThen_silent) auto

lemma stores_silent [simp]:
  "trace (GeneratePFXKeystore C k c cs pw) w = []" "trace (GeneratePFXTruststore C cs pw) w = []"
  unfolding GeneratePFXKeystore_def GeneratePFXTruststore_def by (rule trace_andThen_silent; auto split: sum.splits)+

lemma parseCAs_silent [simp]: "trace (parseCAs C d) w = []"
  unfolding parseCAs_def by (intro trace_foldAct_silent) (auto split: sum.splits)

lemma genCASecret_silent [simp]: "trace (genCASecret C cc ca) w = []"
  unfolding genCASecret_def by (intro trace_andThen_silent) auto

lemma genNodeSecret_silent [simp]: "trace (genNodeSecret C cc n ca a) w = []"
  unfolding genNodeSecret_def Let_def by (intro trace_andThen_silent) auto

lemma genNodeSecret_shape: "result (genNodeSecret C cc n ca a) w = Inr s \<Longrightarrow> \<exists>d. s = newSecret cc (node_name n) d"
  by (auto simp: genNodeSecret_def Let_def andThen_Inr simp del: result_andThen)

lemma genCASecret_shape: "result (genCASecret C cc ca) w = Inr s \<Longrightarrow> \<exists>d. s = newSecret cc (ca_name ca) d"
  by (auto simp: genCASecret_def andThen_Inr simp del: result_andThen)

lemma ownedSecret_Inr [simp]:
  "trace (ownedSecret E cc s) w = []" "world (ownedSecret E cc s) w = w"
  "result (ownedSecret E cc s) w = Inr d \<longleftrightarrow>
     (\<exists>owners. e_controllerReference E cc = Inr owners \<and> d = s\<lparr>sec_ownerReferences := owners\<rparr>)"
  by (auto simp: ownedSecret_def split: sum.splits)

lemma missing_secret:
  "secretApi E store \<Longrightarrow> store w k = None \<Longrightarrow> \<exists>e. fst (e_getSecret E k w) = Inl e"
  using secretApi_found [of E store k w] by (cases "fst (e_getSecret E k w)") auto

lemma missing_answer: "secretApi E store \<Longrightarrow> fst (e_getSecret E k w) = Inl NotFound \<Longrightarrow> store w k = None"
  by (metis (mono_tags, lifting) secretApi_def sum.simps(5))

lemma secKey_newSecret [simp]: "secKey (newSecret cc n d) = (cc_namespace cc, n)"
  by (simp add: secKey_def newSecret_def)

lemma secKey_annotated [simp]: "secKey (annotated a m) = secKey a"
  by (simp add: annotated_def)

lemma reconcileAnnotations_annotated:
  "reconcileAnnotations E a m = call (UpdateSecret (annotated a m)) (e_updateSecret E (annotated a m))"
  by (simp add: reconcileAnnotations_def annotated_def Let_def)

lemma handleCASecret_effect:
  assumes api: "secretApi E store" and quiet: "cryptoQuiet C store" and ok: "result (handleCASecret E C cc ca) w = Inr ()"
  shows "\<exists>d owners. store (world (handleCASecret E C cc ca) w) =
    (if store w (cc_namespace cc, ca_name ca) = None
     then (store w)((cc_namespace cc, ca_name ca) \<mapsto> (newSecret cc (ca_name ca) d)\<lparr>sec_ownerReferences := owners\<rparr>)
     else store w)"
proof (cases "fst (e_getSecret E (cc_namespace cc, ca_name ca) w)")
  case (Inr a)
  with ok show ?thesis
    by (auto simp: handleCASecret_def Let_def secretApi_get [OF api] secretApi_found [OF api Inr] split: sum.splits)
next
  case (Inl e)
  with ok have e: "e = NotFound" by (auto simp: handleCASecret_def Let_def isNotFound_def split: if_splits)
  let ?w = "snd (e_getSecret E (cc_namespace cc, ca_name ca) w)" and ?gen = "genCASecret C cc ca"
  from ok Inl e obtain s owners where s: "result ?gen ?w = Inr s" and o: "e_controllerReference E cc = Inr owners"
    and c: "fst (e_createSecret E (s\<lparr>sec_ownerReferences := owners\<rparr>) (world ?gen ?w)) = Inr ()"
    by (auto simp: handleCASecret_def Let_def isNotFound_def andThen_Inr wrapErr_Inr simp del: result_andThen result_wrapErr)
  from genCASecret_shape [OF s] obtain d where d: "s = newSecret cc (ca_name ca) d" by blast
  have "store (world (handleCASecret E C cc ca) w) = (store w)((cc_namespace cc, ca_name ca) \<mapsto> s\<lparr>sec_ownerReferences := owners\<rparr>)"
    using Inl e s o c d
    by (simp add: handleCASecret_def Let_def isNotFound_def ownedSecret_def secretApi_get [OF api] secretApi_write [OF api]
        genCASecret_store [OF quiet] split: sum.splits)
  with d missing_answer [OF api] Inl e show ?thesis by auto
qed

lemma handleNodeSecret_effect:
  assumes api: "secretApi E store" and quiet: "cryptoQuiet C store" and ok: "result (handleNodeSecret E C cc ca node) w = Inr ()"
  defines "kn \<equiv> (cc_namespace cc, node_name node)" and "kc \<equiv> (cc_namespace cc, ca_name ca)"
  shows "(case store w kn of
      None \<Rightarrow> store w kc \<noteq> None \<and> (\<exists>d owners. store (world (handleNodeSecret E C cc ca node) w) =
                (store w)(kn \<mapsto> (newSecret cc (node_name node) d)\<lparr>sec_ownerReferences := owners\<rparr>))
    | Some n \<Rightarrow> (case store w kc of
          None \<Rightarrow> store (world (handleNodeSecret E C cc ca node) w) = store w
        | Some a \<Rightarrow>
            (let sum = e_sha1 E (sec_data a) in
             if mget (case sec_annotations a of None \<Rightarrow> Map.empty | Some m \<Rightarrow> m) ClusterChecksumLabel = sum
             then store (world (handleNodeSecret E C cc ca node) w) = store w \<and>
                  writes (trace (handleNodeSecret E C cc ca node) w) = []
             else \<exists>d. store (world (handleNodeSecret E C cc ca node) w) =
                    (store w)(kn \<mapsto> n\<lparr>sec_data := Some d\<rparr>,
                      kc \<mapsto> annotated a [ClusterChecksumLabel \<mapsto> sum, ClusterInstanceLabel \<mapsto> cc_name cc]) \<and>
                  writes (trace (handleNodeSecret E C cc ca node) w) =
                    [UpdateSecret (n\<lparr>sec_data := Some d\<rparr>),
                     UpdateSecret (annotated a [ClusterChecksumLabel \<mapsto> sum, ClusterInstanceLabel \<mapsto> cc_name cc])])))"
proof (cases "fst (e_getSecret E kn w)")
  case (Inl e)
  with ok have e: "e = NotFound" by (auto simp: handleNodeSecret_def Let_def isNotFound_def kn_def split: if_splits)
  let ?w = "snd (e_getSecret E kn w)"
  show ?thesis
  proof (cases "fst (e_getSecret E kc ?w)")
    case (Inl e')
    with ok e \<open>fst (e_getSecret E kn w) = Inl e\<close> show ?thesis
      by (auto simp: handleNodeSecret_def Let_def isNotFound_def kn_def kc_def split: if_splits)
  next
    case (Inr a)
    let ?v = "snd (e_getSecret E kc ?w)" and ?gen = "genNodeSecret C cc node ca a"
    from ok Inr e \<open>fst (e_getSecret E kn w) = Inl e\<close> obtain s owners where
        s: "result ?gen ?v = Inr s" and o: "e_controllerReference E cc = Inr owners"
        and c: "fst (e_createSecret E (s\<lparr>sec_ownerReferences := owners\<rparr>) (world ?gen ?v)) = Inr ()"
      by (auto simp: handleNodeSecret_def Let_def isNotFound_def kn_def kc_def andThen_Inr wrapErr_Inr
          simp del: result_andThen result_wrapErr)
    from genNodeSecret_shape [OF s] obtain d where d: "s = newSecret cc (node_name node) d" by blast
    have "store w kc = Some a" using secretApi_found [OF api Inr] secretApi_get [OF api] by simp
    moreover have "store w kn = None" using missing_answer [OF api] \<open>fst (e_getSecret E kn w) = Inl e\<close> e by simp
    moreover have "store (world (handleNodeSecret E C cc ca node) w) = (store w)(kn \<mapsto> s\<lparr>sec_ownerReferences := owners\<rparr>)"
      using Inr e \<open>fst (e_getSecret E kn w) = Inl e\<close> s o c d
      by (simp add: handleNodeSecret_def Let_def isNotFound_def kn_def kc_def ownedSecret_def secretApi_get [OF api]
          secretApi_write [OF api] genNodeSecret_store [OF quiet])
    ultimately show ?thesis using d by auto
  qed
next
  case (Inr n)
  let ?w = "snd (e_getSecret E kn w)"
  have n: "store w kn = Some n" by (rule secretApi_found [OF api Inr])
  show ?thesis
  proof (cases "fst (e_getSecret E kc ?w)")
    case (Inl e)
    with ok \<open>fst (e_getSecret E kn w) = Inr n\<close> have "e = NotFound"
      by (auto simp: handleNodeSecret_def Let_def isNotFound_def kn_def kc_def split: if_splits)
    with missing_answer [OF api] Inl secretApi_get [OF api] have "store w kc = None" by metis
    with n Inl \<open>e = NotFound\<close> \<open>fst (e_getSecret E kn w) = Inr n\<close> show ?thesis
      by (simp add: handleNodeSecret_def Let_def isNotFound_def kn_def kc_def secretApi_get [OF api])
  next
    case a: (Inr a)
    let ?v = "snd (e_getSecret E kc ?w)" and ?gen = "genNodeSecret C cc node ca a" and ?sum = "e_sha1 E (sec_data a)"
    let ?a = "annotated a [ClusterChecksumLabel \<mapsto> ?sum, ClusterInstanceLabel \<mapsto> cc_name cc]"
    have ca: "store w kc = Some a" using secretApi_found [OF api a] secretApi_get [OF api] by simp
    show ?thesis
    proof (cases "mget (case sec_annotations a of None \<Rightarrow> Map.empty | Some m \<Rightarrow> m) ClusterChecksumLabel = ?sum")
      case True
      with n ca a Inr show ?thesis
        by (simp add: handleNodeSecret_def Let_def kn_def kc_def secretApi_get [OF api])
    next
      case False
      from ok Inr a False obtain s where s: "result ?gen ?v = Inr s"
        and u: "fst (e_updateSecret E (n\<lparr>sec_data := sec_data s\<rparr>) (world ?gen ?v)) = Inr ()"
        and r: "fst (e_updateSecret E ?a (snd (e_updateSecret E (n\<lparr>sec_data := sec_data s\<rparr>) (world ?gen ?v)))) = Inr ()"
        by (auto simp: handleNodeSecret_def Let_def kn_def kc_def andThen_Inr wrapErr_Inr reconcileAnnotations_annotated
            simp del: result_andThen result_wrapErr)
      from genNodeSecret_shape [OF s] obtain d where d: "sec_data s = Some d" by (auto simp: newSecret_def)
      have keys: "secKey n = kn" "secKey a = kc" using secretApi_key [OF api n] secretApi_key [OF api ca] by auto
      have "store (world (handleNodeSecret E C cc ca node) w) = (store w)(kn \<mapsto> n\<lparr>sec_data := Some d\<rparr>, kc \<mapsto> ?a) \<and>
          writes (trace (handleNodeSecret E C cc ca node) w) = [UpdateSecret (n\<lparr>sec_data := Some d\<rparr>), UpdateSecret ?a]"
        using Inr a False s u r d keys
        by (simp add: handleNodeSecret_def Let_def kn_def kc_def reconcileAnnotations_annotated secretApi_get [OF api]
            secretApi_write [OF api] genNodeSecret_store [OF quiet])
      with n ca False show ?thesis by (auto simp: Let_def)
    qed
  qed
qed

section \<open>Properties\<close>

text \<open>The checksum recorded at an authority is that of its data.\<close>

definition checksumRecorded :: "'w env \<Rightarrow> secret \<Rightarrow> bool" where
  "checksumRecorded E a \<longleftrightarrow>
     mget (case sec_annotations a of None \<Rightarrow> Map.empty | Some m \<Rightarrow> m) ClusterChecksumLabel = e_sha1 E (sec_data a)"

lemma checksumRecorded_annotated:
  "checksumRecorded E (annotated a [ClusterChecksumLabel \<mapsto> e_sha1 E (sec_data a), ClusterInstanceLabel \<mapsto> c])"
proof -
  have "ClusterChecksumLabel \<noteq> ClusterInstanceLabel" by (simp add: ClusterChecksumLabel_def ClusterInstanceLabel_def)
  then show ?thesis by (simp add: checksumRecorded_def annotated_def mget_def split: option.splits)
qed

text \<open>An API server whose state is the map of its secrets and that never fails, and a library without randomness.\<close>

definition secretsOf :: "(key \<rightharpoonup> secret) \<Rightarrow> key \<rightharpoonup> secret" where
  "secretsOf w = (\<lambda>k. case w k of None \<Rightarrow> None | Some s \<Rightarrow> if secKey s = k then Some s else None)"

definition tlsServer :: "(key \<rightharpoonup> secret) env" where
  "tlsServer = quietEnv\<lparr>e_getSecret := (\<lambda>k w. (case secretsOf w k of None \<Rightarrow> Inl NotFound | Some s \<Rightarrow> Inr s, w)),
     e_createSecret := (\<lambda>s w. (Inr (), w(secKey s \<mapsto> s))), e_updateSecret := (\<lambda>s w. (Inr (), w(secKey s \<mapsto> s))),
     e_controllerReference := (\<lambda>cc. Inr [cc_name cc]), e_sha1 := (\<lambda>d. ''sum'')\<rparr>"

definition plainCrypto :: "(key \<rightharpoonup> secret) cryptoLib" where
  "plainCrypto = \<lparr>cy_now = (\<lambda>w. 0), cy_generateKey = (\<lambda>n w. (Inr ''key'', w)), cy_publicKey = (\<lambda>k. k),
     cy_createCertificate = (\<lambda>t p k s w. (Inr ''crt'', w)), cy_marshalKey = (\<lambda>k. k), cy_pemEncode = (\<lambda>t b. b),
     cy_pemDecode = (\<lambda>b. Some b),
     cy_parseCertificate = (\<lambda>b. Inr \<lparr>crt_isCA = True, crt_notBefore = 0, crt_notAfter = 1, crt_serialNumber = 1, crt_keyUsage = [],
        crt_extKeyUsage = [], crt_basicConstraintsValid = True, crt_organization = [], crt_commonName = '''', crt_dnsNames = [],
        crt_raw = b\<rparr>),
     cy_parseKey = (\<lambda>b. Inr b), cy_encodeKeystore = (\<lambda>k c cs pw w. (Inr ''keystore'', w)), cy_decodeChain = (\<lambda>b pw. Inr ()),
     cy_encodeTrustStore = (\<lambda>cs pw w. (Inr ''truststore'', w)), cy_decodeTrustStore = (\<lambda>b pw. Inr ()),
     cy_range = (\<lambda>m. [])\<rparr>"

lemma secretsOf_upd [simp]: "secretsOf (w(secKey s \<mapsto> s)) = (secretsOf w)(secKey s \<mapsto> s)"
  by (auto simp: secretsOf_def fun_eq_iff)

lemma tlsServer_api: "secretApi tlsServer secretsOf"
proof -
  have "secretsOf w k = Some s \<Longrightarrow> secKey s = k" for w k s
    by (auto simp: secretsOf_def split: option.splits if_splits)
  then show ?thesis
    unfolding secretApi_def by (auto simp: tlsServer_def quietEnv_def simp del: fun_upd_apply split: option.splits)
qed

lemma plainCrypto_quiet: "cryptoQuiet plainCrypto secretsOf"
  by (simp add: cryptoQuiet_def plainCrypto_def)

definition sampleCA :: caTLSSecret where
  "sampleCA = \<lparr>ca_name = ''ca'', ca_fileKey = ''ca.key'', ca_crtFileKey = ''ca.crt''\<rparr>"
definition sampleNode :: nodeTLSSecret where
  "sampleNode = \<lparr>node_name = ''node'', node_fileKey = ''tls.key'', node_crtFileKey = ''tls.crt'', node_caCrtFileKey = ''ca.crt'',
     node_keystoreFileKey = ''keystore.p12'', node_keystorePasswordKey = ''keystore.password'',
     node_truststoreFileKey = ''truststore.p12'', node_truststorePasswordKey = ''truststore.password'',
     node_generateKeystorePassword = ''cassandra''\<rparr>"

lemmas tls_run_simps =
  handleNodeSecret_def handleCASecret_def genNodeSecret_def genCASecret_def parseCAs_def CreateCA_def CreateCertificate_def
  ParseCertificate_def ParsePrivateKey_def GeneratePFXKeystore_def GeneratePFXTruststore_def ownedSecret_def
  reconcileAnnotations_annotated Let_def isNotFound_def tlsServer_def quietEnv_def plainCrypto_def sampleCA_def sampleNode_def
  sampleCluster_def secretsOf_def

lemma sample_pair_handled:
  "result (handleNodeSecret tlsServer plainCrypto sampleCluster sampleCA sampleNode) w = Inr ()"
  if "secretsOf w (''ns'', ''ca'') = Some a"
  using that by (cases "secretsOf w (''ns'', ''node'')") (simp_all add: tls_run_simps split: option.splits if_splits)

text \<open>The node secret follows its authority. A missing one is generated, for which there must be an authority; an
  existing one without an authority is taken as given; with one its data is replaced exactly when the authority's data
  is not the one whose checksum is recorded at it, and then the checksum is recorded. No other secret changes.\<close>

theorem node_secret_follows_authority:
  assumes "secretApi E store" "cryptoQuiet C store" "result (handleNodeSecret E C cc ca node) w = Inr ()"
    and "kn = (cc_namespace cc, node_name node)" "kc = (cc_namespace cc, ca_name ca)"
    and "w' = world (handleNodeSecret E C cc ca node) w"
  shows "case store w kn of
      None \<Rightarrow> store w kc \<noteq> None \<and> (\<exists>s. store w' = (store w)(kn \<mapsto> s) \<and> sec_name s = node_name node)
    | Some n \<Rightarrow> (case store w kc of
        None \<Rightarrow> store w' = store w
      | Some a \<Rightarrow>
          if checksumRecorded E a then store w' = store w
          else \<exists>d a'. store w' = (store w)(kn \<mapsto> n\<lparr>sec_data := Some d\<rparr>, kc \<mapsto> a') \<and>
                 sec_data a' = sec_data a \<and> checksumRecorded E a')"
proof -
  note eff = handleNodeSecret_effect [OF assms(1-3), folded assms(4,5), folded assms(6)]
  show ?thesis
  proof (cases "store w kn")
    case None
    with eff show ?thesis by (fastforce simp: newSecret_def)
  next
    case (Some n)
    show ?thesis
    proof (cases "store w kc")
      case None
      with Some eff show ?thesis by simp
    next
      case a: (Some a)
      have data: "sec_data (annotated a m) = sec_data a" for m by (simp add: annotated_def)
      show ?thesis
      proof (cases "checksumRecorded E a")
        case True
        with Some a eff show ?thesis by (simp add: Let_def checksumRecorded_def)
      next
        case False
        with Some a eff obtain d where
          "store w' = (store w)(kn \<mapsto> n\<lparr>sec_data := Some d\<rparr>,
             kc \<mapsto> annotated a [ClusterChecksumLabel \<mapsto> e_sha1 E (sec_data a), ClusterInstanceLabel \<mapsto> cc_name cc])"
          by (auto simp: Let_def checksumRecorded_def)
        with Some a False data checksumRecorded_annotated [of E a "cc_name cc"] show ?thesis
          unfolding Some a option.case if_not_P [OF False] by (intro exI conjI) assumption+
      qed
    qed
  qed
qed

theorem node_secret_follows_authority_witness:
  "\<exists>d a'. secretsOf (world (handleNodeSecret tlsServer plainCrypto sampleCluster sampleCA sampleNode)
      [(''ns'', ''ca'') \<mapsto> newSecret sampleCluster ''ca'' Map.empty, (''ns'', ''node'') \<mapsto> newSecret sampleCluster ''node'' Map.empty])
      (''ns'', ''node'') = Some ((newSecret sampleCluster ''node'' Map.empty)\<lparr>sec_data := Some d\<rparr>) \<and> checksumRecorded tlsServer a'"
proof -
  let ?a = "newSecret sampleCluster ''ca'' Map.empty" and ?n = "newSecret sampleCluster ''node'' Map.empty"
  let ?w = "[(''ns'', ''ca'') \<mapsto> ?a, (''ns'', ''node'') \<mapsto> ?n]"
  have ns: "cc_namespace sampleCluster = ''ns''" "ca_name sampleCA = ''ca''" "node_name sampleNode = ''node''"
    by (simp_all add: sampleCluster_def sampleCA_def sampleNode_def)
  have st: "secretsOf ?w (''ns'', ''ca'') = Some ?a" "secretsOf ?w (''ns'', ''node'') = Some ?n"
    by (simp_all add: secretsOf_def ns)
  have "\<not> checksumRecorded tlsServer ?a"
    by (simp add: checksumRecorded_def newSecret_def mget_def tlsServer_def)
  with node_secret_follows_authority [OF tlsServer_api plainCrypto_quiet sample_pair_handled [OF st(1)] refl refl refl] st
  show ?thesis by (auto simp: ns)
qed

lemma newSecret_owned [simp]:
  "sec_annotations ((newSecret cc n d)\<lparr>sec_ownerReferences := owners\<rparr>) = None"
  "sec_data ((newSecret cc n d)\<lparr>sec_ownerReferences := owners\<rparr>) = Some d"
  "secKey ((newSecret cc n d)\<lparr>sec_ownerReferences := owners\<rparr>) = (cc_namespace cc, n)"
  by (simp_all add: newSecret_def secKey_def)

text \<open>A node secret is replaced when there is an authority without a recorded checksum.\<close>

lemma replaced_without_checksum:
  assumes "secretApi E store" "cryptoQuiet C store" "result (handleNodeSecret E C cc ca node) w = Inr ()"
    and "store w (cc_namespace cc, node_name node) = Some n" "store w (cc_namespace cc, ca_name ca) = Some a"
    and "\<not> checksumRecorded E a"
  shows "\<exists>d. UpdateSecret (n\<lparr>sec_data := Some d\<rparr>) \<in> set (trace (handleNodeSecret E C cc ca node) w)"
proof -
  from handleNodeSecret_effect [OF assms(1-3)] assms(4-6) obtain d a' where
    "writes (trace (handleNodeSecret E C cc ca node) w) = [UpdateSecret (n\<lparr>sec_data := Some d\<rparr>), a']"
    by (auto simp: Let_def checksumRecorded_def)
  then have "UpdateSecret (n\<lparr>sec_data := Some d\<rparr>) \<in> set (writes (trace (handleNodeSecret E C cc ca node) w))" by simp
  then show ?thesis by (auto simp: writes_def)
qed

text \<open>A pair that the operator generates is generated twice. The authority is created without the annotation for its
  checksum, so the pass after the one that created both secrets takes the authority for a changed one and replaces the
  node secret, with which the nodes are restarted.\<close>

theorem generated_pair_regenerated:
  assumes "secretApi E store" "cryptoQuiet C store" "\<forall>d. e_sha1 E d \<noteq> ''''"
    and "store w (cc_namespace cc, node_name node) = None" "store w (cc_namespace cc, ca_name ca) = None"
    and "node_name node \<noteq> ca_name ca"
    and "result (andThen (handleCASecret E C cc ca) (\<lambda>_. handleNodeSecret E C cc ca node)) w = Inr ()"
    and "w' = world (andThen (handleCASecret E C cc ca) (\<lambda>_. handleNodeSecret E C cc ca node)) w"
    and "result (handleNodeSecret E C cc ca node) w' = Inr ()"
  shows "\<exists>n d. UpdateSecret (n\<lparr>sec_data := Some d\<rparr>) \<in> set (trace (handleNodeSecret E C cc ca node) w') \<and>
    secKey n = (cc_namespace cc, node_name node)"
proof -
  let ?kn = "(cc_namespace cc, node_name node)" and ?kc = "(cc_namespace cc, ca_name ca)"
  let ?w1 = "world (handleCASecret E C cc ca) w"
  from assms(7) have ca: "result (handleCASecret E C cc ca) w = Inr ()" and node: "result (handleNodeSecret E C cc ca node) ?w1 = Inr ()"
    by (auto split: sum.splits)
  with assms(8) have w': "w' = world (handleNodeSecret E C cc ca node) ?w1" by simp
  from handleCASecret_effect [OF assms(1,2) ca] assms(5) obtain d owners where
    st1: "store ?w1 = (store w)(?kc \<mapsto> (newSecret cc (ca_name ca) d)\<lparr>sec_ownerReferences := owners\<rparr>)" by auto
  with assms(4,6) have none: "store ?w1 ?kn = None" by simp
  from handleNodeSecret_effect [OF assms(1,2) node, unfolded none] obtain d' owners' where
    "store w' = (store ?w1)(?kn \<mapsto> (newSecret cc (node_name node) d')\<lparr>sec_ownerReferences := owners'\<rparr>)" by (auto simp only: w' option.case)
  with st1 assms(6) have st: "store w' ?kn = Some ((newSecret cc (node_name node) d')\<lparr>sec_ownerReferences := owners'\<rparr>)"
    "store w' ?kc = Some ((newSecret cc (ca_name ca) d)\<lparr>sec_ownerReferences := owners\<rparr>)" by simp_all
  have "\<not> checksumRecorded E ((newSecret cc (ca_name ca) d)\<lparr>sec_ownerReferences := owners\<rparr>)"
    using assms(3) by (simp add: checksumRecorded_def mget_def) metis
  from replaced_without_checksum [OF assms(1,2,9) st this] show ?thesis
    using newSecret_owned(3) by blast
qed

theorem generated_pair_regenerated_witness:
  "\<exists>n d. UpdateSecret (n\<lparr>sec_data := Some d\<rparr>) \<in> set (trace (handleNodeSecret tlsServer plainCrypto sampleCluster sampleCA sampleNode)
     (world (andThen (handleCASecret tlsServer plainCrypto sampleCluster sampleCA)
        (\<lambda>_. handleNodeSecret tlsServer plainCrypto sampleCluster sampleCA sampleNode)) Map.empty))"
proof -
  let ?both = "andThen (handleCASecret tlsServer plainCrypto sampleCluster sampleCA)
        (\<lambda>_. handleNodeSecret tlsServer plainCrypto sampleCluster sampleCA sampleNode)"
  have ok: "result ?both Map.empty = Inr ()" and st: "secretsOf (world ?both Map.empty) (''ns'', ''ca'') \<noteq> None"
    by (simp_all add: tls_run_simps newSecret_def secKey_def)
  from st obtain a where "secretsOf (world ?both Map.empty) (''ns'', ''ca'') = Some a" by blast
  from generated_pair_regenerated [OF tlsServer_api plainCrypto_quiet _ _ _ _ ok refl sample_pair_handled [OF this]]
  show ?thesis by (auto simp: tlsServer_def secretsOf_def sampleCA_def sampleNode_def)
qed

lemma setTLSName_fields [simp]:
  "cc_name (setTLSName ty n cc) = cc_name cc" "cc_namespace (setTLSName ty n cc) = cc_namespace cc"
  "se_caTLSSecret (serverTLS (setTLSName ServerCA n cc)) = (se_caTLSSecret (serverTLS cc))\<lparr>ca_name := n\<rparr>"
  "se_nodeTLSSecret (serverTLS (setTLSName ServerCA n cc)) = se_nodeTLSSecret (serverTLS cc)"
  "se_caTLSSecret (serverTLS (setTLSName ServerNode n cc)) = se_caTLSSecret (serverTLS cc)"
  "se_nodeTLSSecret (serverTLS (setTLSName ServerNode n cc)) = (se_nodeTLSSecret (serverTLS cc))\<lparr>node_name := n\<rparr>"
  by (cases ty; simp add: updServer_def updClient_def serverTLS_def clientTLS_def)+

declare setTLSName.simps [simp del]

lemma chooseName_missing:
  assumes "secretApi E store" "ts_secretName (newTLSSecret cc ty) \<noteq> ''''"
    and "store w (cc_namespace cc, ts_secretName (newTLSSecret cc ty)) = None"
  shows "writes (trace (chooseName E cc ty) w) = []"
    and "store (world (chooseName E cc ty) w) = store w"
    and "(\<exists>e. result (chooseName E cc ty) w = Inl e) \<or>
      result (chooseName E cc ty) w = Inr (setTLSName ty (ts_defaultName (newTLSSecret cc ty)) cc)"
proof -
  from missing_secret [OF assms(1,3)] obtain e where
    e: "fst (e_getSecret E (cc_namespace cc, ts_secretName (newTLSSecret cc ty)) w) = Inl e" by blast
  show "writes (trace (chooseName E cc ty) w) = []" "store (world (chooseName E cc ty) w) = store w"
    "(\<exists>e. result (chooseName E cc ty) w = Inl e) \<or>
      result (chooseName E cc ty) w = Inr (setTLSName ty (ts_defaultName (newTLSSecret cc ty)) cc)"
    using assms(2) e by (simp_all add: chooseName_def getTLSSecret_def Let_def secretApi_get [OF assms(1)])
qed

lemma handleNodeSecret_both_missing:
  assumes "secretApi E store" "store w (cc_namespace cc, node_name node) = None" "store w (cc_namespace cc, ca_name ca) = None"
  shows "(\<exists>e. result (handleNodeSecret E C cc ca node) w = Inl e) \<and> writes (trace (handleNodeSecret E C cc ca node) w) = []"
proof -
  from missing_secret [OF assms(1,2)] obtain e where e: "fst (e_getSecret E (cc_namespace cc, node_name node) w) = Inl e" by blast
  have "store (snd (e_getSecret E (cc_namespace cc, node_name node) w)) (cc_namespace cc, ca_name ca) = None"
    using assms(3) secretApi_get [OF assms(1)] by simp
  from missing_secret [OF assms(1) this] e show ?thesis
    by (auto simp: handleNodeSecret_def Let_def)
qed

text \<open>The fallback does not work when both secrets are named. If the specification names an authority and a node secret
  that do not exist, the names fall back to the defaults, with an event that announces their generation, but an
  authority is only generated for a node secret without a name: the reconciliation fails in every pass and creates
  nothing.\<close>

theorem named_secrets_not_generated:
  assumes "secretApi E store" "se_internodeEncryption (serverTLS cc) \<noteq> InternodeEncryptionNone"
    and "ca_name (se_caTLSSecret (serverTLS cc)) \<noteq> ''''" "node_name (se_nodeTLSSecret (serverTLS cc)) \<noteq> ''''"
    and "\<forall>n \<in> {ca_name (se_caTLSSecret (serverTLS cc)), node_name (se_nodeTLSSecret (serverTLS cc)),
            CassandraClusterTLSCA (cc_name cc), CassandraClusterTLSNode (cc_name cc)}. store w (cc_namespace cc, n) = None"
  shows "(\<exists>e. result (reconcileServerEncryption E C cc) w = Inl e) \<and>
    writes (trace (reconcileServerEncryption E C cc) w) = []"
proof -
  let ?w1 = "world (chooseName E cc ServerCA) w"
  note ca = chooseName_missing [OF assms(1), where w = w and cc = cc and ty = ServerCA]
  have ca': "writes (trace (chooseName E cc ServerCA) w) = []" "store ?w1 = store w"
    "(\<exists>e. result (chooseName E cc ServerCA) w = Inl e) \<or>
     result (chooseName E cc ServerCA) w = Inr (setTLSName ServerCA (CassandraClusterTLSCA (cc_name cc)) cc)"
    using ca assms(3,5) by simp_all
  from ca'(3) show ?thesis
  proof
    assume "\<exists>e. result (chooseName E cc ServerCA) w = Inl e"
    with ca'(1) assms(2) show ?thesis by (auto simp: reconcileServerEncryption_def)
  next
    assume r: "result (chooseName E cc ServerCA) w = Inr (setTLSName ServerCA (CassandraClusterTLSCA (cc_name cc)) cc)"
    let ?cc1 = "setTLSName ServerCA (CassandraClusterTLSCA (cc_name cc)) cc" and ?ch = "chooseName E (setTLSName ServerCA (CassandraClusterTLSCA (cc_name cc)) cc) ServerNode"
    have n: "writes (trace ?ch ?w1) = []" "store (world ?ch ?w1) = store w"
      "(\<exists>e. result ?ch ?w1 = Inl e) \<or>
       result ?ch ?w1 = Inr (setTLSName ServerNode (CassandraClusterTLSNode (cc_name cc)) ?cc1)"
      using chooseName_missing [OF assms(1), where w = ?w1 and cc = ?cc1 and ty = ServerNode] ca'(2) assms(4,5) by simp_all
    have step: "reconcileServerEncryption E C cc = andThen (chooseName E cc ServerCA) (\<lambda>cc1.
           andThen (if node_name (se_nodeTLSSecret (serverTLS cc1)) = ''''
                    then wrapErr ''Failed to handle Cluster TLS CA Secret'' (handleCASecret E C cc1 (se_caTLSSecret (serverTLS cc1)))
                    else ret ()) (\<lambda>_.
           andThen (chooseName E cc1 ServerNode) (\<lambda>cc2.
           andThen (wrapErr ''Failed to handle Cluster TLS Node Secret''
               (handleNodeSecret E C cc2 (se_caTLSSecret (serverTLS cc2)) (se_nodeTLSSecret (serverTLS cc2)))) (\<lambda>_. ret cc2))))"
      using assms(2) by (simp add: reconcileServerEncryption_def)
    from n(3) show ?thesis
    proof
      assume "\<exists>e. result ?ch ?w1 = Inl e"
      with r n(1) ca'(1) assms(4) show ?thesis unfolding step by auto
    next
      assume r2: "result ?ch ?w1 = Inr (setTLSName ServerNode (CassandraClusterTLSNode (cc_name cc)) ?cc1)"
      let ?cc2 = "setTLSName ServerNode (CassandraClusterTLSNode (cc_name cc)) ?cc1"
      have "(\<exists>e. result (handleNodeSecret E C ?cc2 (se_caTLSSecret (serverTLS ?cc2)) (se_nodeTLSSecret (serverTLS ?cc2))) (world ?ch ?w1) = Inl e) \<and>
        writes (trace (handleNodeSecret E C ?cc2 (se_caTLSSecret (serverTLS ?cc2)) (se_nodeTLSSecret (serverTLS ?cc2))) (world ?ch ?w1)) = []"
        by (rule handleNodeSecret_both_missing [OF assms(1)]) (use n(2) assms(5) in simp_all)
      with r r2 n(1) ca'(1) assms(4) show ?thesis unfolding step
        by (auto simp del: setTLSName.simps)
    qed
  qed
qed

definition namedCluster :: cassandraCluster where
  "namedCluster = setTLSName ServerNode ''my-node'' (setTLSName ServerCA ''my-ca'' (updServer (\<lambda>s. s\<lparr>se_internodeEncryption := ''all''\<rparr>) sampleCluster))"

theorem named_secrets_not_generated_witness:
  "(\<exists>e. result (reconcileServerEncryption tlsServer plainCrypto namedCluster) Map.empty = Inl e) \<and>
   writes (trace (reconcileServerEncryption tlsServer plainCrypto namedCluster) Map.empty) = []"
  by (rule named_secrets_not_generated [OF tlsServer_api])
    (simp_all add: namedCluster_def updServer_def serverTLS_def sampleCluster_def setTLSName.simps secretsOf_def InternodeEncryptionNone_def)

end
