(* ===== verification/Cassandra_Workload.thy ===== *)
theory Cassandra_Workload
  imports Objects Tls Defaults Network_Policies Admin_Auth Pods_Config
begin

text \<open>
  The stateful set and the service of a datacentre: \<open>controllers/cassandra_statefulset.go\<close>,
  \<open>cassandra_container.go\<close>, \<open>cassandra_init_containers.go\<close>, \<open>cassandra_icarus_container.go\<close>,
  \<open>cassandra_service.go\<close>, and the volumes of \<open>cassandra_configmap.go\<close>, \<open>prometheus_configmap.go\<close> and
  \<open>collectd_configmap.go\<close>.
  The builders are functions of the specification; the lemmas state that the objects fit together: every mount has
  its volume, ports and names agree, and what the service selects are the pods of the stateful set.
\<close>

section \<open>Constants\<close>

definition maintenanceDir :: string where "maintenanceDir = ''/etc/maintenance''"
definition cassandraCommitLogDir :: string where "cassandraCommitLogDir = ''/var/lib/cassandra-commitlog''"
definition cassandraServerTLSDir :: string where "cassandraServerTLSDir = ''/etc/cassandra-server-tls''"
definition cassandraServerTLSVolumeName :: string where "cassandraServerTLSVolumeName = ''server-keystore''"
definition cassandraClientTLSVolumeName :: string where "cassandraClientTLSVolumeName = ''client-keystore''"
definition ProtocolTCP :: string where "ProtocolTCP = ''TCP''"
definition terminationLog :: string where "terminationLog = ''/dev/termination-log''"
definition terminationFile :: string where "terminationFile = ''File''"

text \<open>\<open>v1.ConfigMapVolumeSourceDefaultMode\<close> and \<open>v1.SecretVolumeSourceDefaultMode\<close> are both octal 0644.\<close>

definition defaultMode :: int where "defaultMode = 420"

text \<open>A shell script: the lines of a list, where a back quote stands for a double quote and a tilde for a backslash. The
  scripts of the operator contain neither.\<close>

definition script :: "string list \<Rightarrow> string" where
  "script ls = map (\<lambda>c. if c = CHR 0x60 then CHR 0x22 else if c = CHR 0x7E then CHR 0x5C else c) (join LF ls)"

section \<open>Volumes and mounts\<close>

definition configMapVolume :: "string \<Rightarrow> string \<Rightarrow> int \<Rightarrow> volume" where
  "configMapVolume name cm mode = \<lparr>vol_name = name, vol_source = ConfigMapVolume cm mode\<rparr>"

definition volMount :: "string \<Rightarrow> string \<Rightarrow> volumeMount" where
  "volMount name path = \<lparr>vm_name = name, vm_mountPath = path, vm_subPath = ''''\<rparr>"

definition sameKeys :: "string list \<Rightarrow> (string \<times> string) list" where
  "sameKeys ks = map (\<lambda>k. (k, k)) ks"

definition cassandraConfigVolume :: "cassandraCluster \<Rightarrow> volume" where
  "cassandraConfigVolume cc = configMapVolume ''config'' (ConfigMapName (cc_name cc)) defaultMode"

definition cassandraDCConfigVolumeMount :: volumeMount where
  "cassandraDCConfigVolumeMount = volMount ''config'' ''/etc/cassandra-configmaps''"

definition prometheusVolume :: "cassandraCluster \<Rightarrow> volume" where
  "prometheusVolume cc = configMapVolume ''prometheus-config'' (PrometheusConfigMap (cc_name cc)) defaultMode"

definition prometheusVolumeMount :: volumeMount where
  "prometheusVolumeMount = \<lparr>vm_name = ''prometheus-config'', vm_mountPath = ''/prometheus/prometheus.yaml'',
     vm_subPath = ''prometheus.yaml''\<rparr>"

definition collectdVolume :: "cassandraCluster \<Rightarrow> volume" where
  "collectdVolume cc = configMapVolume ''collectd-config'' (CollectdConfigMap (cc_name cc)) defaultMode"

definition collectdVolumeMount :: volumeMount where
  "collectdVolumeMount = volMount ''collectd-config'' ''/prometheus/datastax-mcac-agent/config''"

definition emptyDirDataVolume :: volume where
  "emptyDirDataVolume = \<lparr>vol_name = ''data'', vol_source = EmptyDir\<rparr>"

definition commitLogVolumeMount :: volumeMount where
  "commitLogVolumeMount = volMount ''commitlog'' cassandraCommitLogDir"

text \<open>Octal 0700.\<close>

definition maintenanceVolume :: "cassandraCluster \<Rightarrow> volume" where
  "maintenanceVolume cc = configMapVolume ''maintenance-config'' (MaintenanceConfigMap (cc_name cc)) 448"

definition maintenanceVolumeMount :: volumeMount where
  "maintenanceVolumeMount = volMount ''maintenance-config'' maintenanceDir"

definition podsConfigVolume :: "cassandraCluster \<Rightarrow> volume" where
  "podsConfigVolume cc = configMapVolume ''pods-config'' (PodsConfigConfigmap (cc_name cc)) defaultMode"

definition podsConfigVolumeMount :: volumeMount where
  "podsConfigVolumeMount = volMount ''pods-config'' ''/etc/pods-config''"

definition authVolume :: "cassandraCluster \<Rightarrow> volume" where
  "authVolume cc =
     (let items = sameKeys [OperatorAdminRole, OperatorAdminPassword, ''icarus-jmx''] @
            (if ce_enabled (enc_client (encryptionSpec (cc_spec cc)))
             then sameKeys [''nodetool-ssl.properties'', ''cqlshrc''] else []) @
            (if jmxAuth (cc_spec cc) = jmxAuthenticationLocalFiles
             then sameKeys [''jmxremote.password'', ''jmxremote.access''] else []) in
      \<lparr>vol_name = ''auth-config'', vol_source = SecretVolume (AdminAuthConfigSecret (cc_name cc)) items defaultMode\<rparr>)"

definition authVolumeMount :: volumeMount where
  "authVolumeMount = volMount ''auth-config'' ''/etc/cassandra-auth-config/''"

definition cassandraServerTLSVolume :: "cassandraCluster \<Rightarrow> volume" where
  "cassandraServerTLSVolume cc =
     (let s = se_nodeTLSSecret (enc_server (encryptionSpec (cc_spec cc))) in
      \<lparr>vol_name = cassandraServerTLSVolumeName,
       vol_source = SecretVolume (node_name s) (sameKeys [node_keystoreFileKey s, node_truststoreFileKey s]) defaultMode\<rparr>)"

definition cassandraServerTLSVolumeMount :: volumeMount where
  "cassandraServerTLSVolumeMount = volMount cassandraServerTLSVolumeName cassandraServerTLSDir"

definition cassandraClientTLSVolume :: "cassandraCluster \<Rightarrow> volume" where
  "cassandraClientTLSVolume cc =
     (let s = ce_nodeTLSSecret (enc_client (encryptionSpec (cc_spec cc))) in
      \<lparr>vol_name = cassandraClientTLSVolumeName,
       vol_source = SecretVolume (node_name s)
         (sameKeys [node_caCrtFileKey s, node_crtFileKey s, node_fileKey s, node_keystoreFileKey s, node_truststoreFileKey s])
         defaultMode\<rparr>)"

definition cassandraClientTLSVolumeMount :: volumeMount where
  "cassandraClientTLSVolumeMount = volMount cassandraClientTLSVolumeName cassandraClientTLSDir"

definition cassandraDataVolumeMount :: volumeMount where
  "cassandraDataVolumeMount = volMount ''data'' ''/var/lib/cassandra''"

definition cassandraVolumeClaims :: "cassandraCluster \<Rightarrow> cassandra \<Rightarrow> volumeClaim list" where
  "cassandraVolumeClaims cc cas =
     (let p = cas_persistence cas;
          pvcLabels = pst_labels p ++ ComponentLabels cc ComponentCassandra;
          claim = (\<lambda>name spec. \<lparr>vc_name = name, vc_labels = pvcLabels, vc_annotations = pst_annotations p, vc_spec = spec\<rparr>) in
      claim ''data'' (pst_dataVolumeClaimSpec p) #
      (if pst_commitLogVolume p then [claim ''commitlog'' (pst_commitLogVolumeClaimSpec p)] else []))"

definition imagePullSecrets :: "cassandraCluster \<Rightarrow> string list" where
  "imagePullSecrets cc = [imagePullSecretName (cc_spec cc)]"

section \<open>Containers\<close>

definition fieldEnv :: "string \<Rightarrow> string \<Rightarrow> envVar" where
  "fieldEnv n path = \<lparr>ev_name = n, ev_source = FieldRef ''v1'' path\<rparr>"

definition valueEnv :: "string \<Rightarrow> string \<Rightarrow> envVar" where
  "valueEnv n v = \<lparr>ev_name = n, ev_source = EnvValue v\<rparr>"

definition secretEnv :: "string \<Rightarrow> string \<Rightarrow> string \<Rightarrow> envVar" where
  "secretEnv n s k = \<lparr>ev_name = n, ev_source = SecretKeyRef s k\<rparr>"

definition tcpPort :: "string \<Rightarrow> int \<Rightarrow> containerPort" where
  "tcpPort n p = \<lparr>cp_name = n, cp_containerPort = p, cp_hostPort = 0, cp_protocol = ProtocolTCP\<rparr>"

text \<open>\<open>jmx\<close> is needed by Jolokia and \<open>intra\<close> by the other nodes, so they are exposed with the ports of the specification.\<close>

definition cassandraContainerPorts :: "cassandraCluster \<Rightarrow> containerPort list" where
  "cassandraContainerPorts cc =
     (let containerPorts = [tcpPort ''intra'' IntraPort, tcpPort ''tls'' TlsPort, tcpPort ''jmx'' JmxPort,
            tcpPort ''cql'' CqlPort, tcpPort ''thrift'' ThriftPort];
          portsToExpose = hp_ports (hostPortSpec (cc_spec cc)) @ [''jmx'', ''intra''] @
            (if se_internodeEncryption (serverTLS cc) \<noteq> InternodeEncryptionNone then [''tls''] else []) in
      if hp_enabled (hostPortSpec (cc_spec cc))
      then map (\<lambda>p. if Contains portsToExpose (cp_name p) then p\<lparr>cp_hostPort := cp_containerPort p\<rparr> else p) containerPorts
      else containerPorts)"

definition replaceAddressScript :: string where
  "replaceAddressScript = script
     [''replace_address=``'',
      ''old_ip=$CASSANDRA_NODE_PREVIOUS_IP'',
      ''if [[ `${old_ip}` != `` ]]; then'',
      ''  if [ ! -d `/var/lib/cassandra/data` ] || [ -z `$(ls -A /var/lib/cassandra/data)` ]; then'',
      ''    replace_address=`-Dcassandra.replace_address_first_boot=${old_ip}`'',
      ''    echo replacing old Cassandra node - adding arg $replace_address'',
      ''  else'',
      ''    echo not using replace address since the storage directory is not empty'',
      ''  fi'',
      ''else'',
      ''  echo not using replace address since the node IP hasn~'t changed'',
      ''fi'']"

definition getCassandraRunCommand :: "cassandraCluster \<Rightarrow> cassandra \<Rightarrow> secret \<Rightarrow> go_error + string" where
  "getCassandraRunCommand cc cas clientTLSSecret =
     (let clientEnabled = ce_enabled (clientTLS cc);
          args = (if cas_purgeGossip cas = Some True then [''rm -rf /var/lib/cassandra/data/system/peers*''] else []) @
            [script [''echo `prefer_local=true` >> $CASSANDRA_CONF/cassandra-rackdc.properties''],
             ''cp /etc/cassandra-configmaps/* $CASSANDRA_CONF/'',
             ''cp /etc/cassandra-configmaps/jvm.options $CASSANDRA_HOME/'',
             ''source /etc/pods-config/${POD_NAME}_${POD_UID}.sh'',
             replaceAddressScript] @
            (if clientEnabled
             then [''mkdir -p /home/cassandra/.cassandra/'',
                   ''cp /etc/cassandra-auth-config/nodetool-ssl.properties /home/cassandra/.cassandra/'',
                   ''cp /etc/cassandra-auth-config/cqlshrc /home/cassandra/.cassandra/''] else []);
          run = [''/docker-entrypoint.sh -f -R'',
             ''-Dcassandra.jmx.remote.port='' @ itoa JmxPort,
             ''-Dcom.sun.management.jmxremote.rmi.port='' @ itoa JmxPort,
             ''-Djava.rmi.server.hostname=$POD_IP'',
             ''-Dcom.sun.management.jmxremote.authenticate=true'',
             ''-Dcassandra.storagedir=/var/lib/cassandra'',
             ''${replace_address}''] @
            (if jmxAuth (cc_spec cc) = jmxAuthenticationLocalFiles
             then [''-Dcom.sun.management.jmxremote.password.file=/etc/cassandra-auth-config/jmxremote.password'',
                   ''-Dcom.sun.management.jmxremote.access.file=/etc/cassandra-auth-config/jmxremote.access''] else []) @
            (if jmxAuth (cc_spec cc) = jmxAuthenticationInternal
             then [''-Dcassandra.jmx.remote.login.config=CassandraLogin'',
                   ''-Djava.security.auth.login.config=$CASSANDRA_HOME/conf/cassandra-jaas.config'',
                   ''-Dcassandra.jmx.authorizer=org.apache.cassandra.auth.jmx.AuthorizationProxy''] else []) in
      bindE (if clientEnabled
             then bindE (deref (ce_requireClientAuth (clientTLS cc))) (\<lambda>clientAuth.
                  Inr [''-Dcom.sun.management.jmxremote.ssl=true'',
                       ''-Dcom.sun.management.jmxremote.ssl.need.client.auth='' @ formatBool clientAuth,
                       ''-Dcom.sun.management.jmxremote.registry.ssl=true'',
                       tlsJVMArgs cc clientTLSSecret])
             else Inr []) (\<lambda>tls. Inr (join LF (args @ [join '' '' (run @ tls)]))))"

definition getJavaAgent :: "string \<Rightarrow> string" where
  "getJavaAgent agent =
     (if agent = CassandraAgentInstaclustr then ''-javaagent:/prometheus/cassandra-exporter-agent.jar''
      else if agent = CassandraAgentDatastax then ''-javaagent:/prometheus/datastax-mcac-agent/lib/datastax-mcac-agent.jar''
      else if agent = CassandraAgentTlp
      then ''-javaagent:/prometheus/jmx_prometheus_javaagent.jar='' @ itoa TlpPort @ '':/prometheus/prometheus.yaml''
      else '''')"

definition checksum :: "'w env \<Rightarrow> strmap \<Rightarrow> string" where
  "checksum E restartChecksum = e_sha1 E (Some restartChecksum)"

definition cassandraMounts :: "cassandraCluster \<Rightarrow> cassandra \<Rightarrow> volumeMount list" where
  "cassandraMounts cc cas =
     [cassandraDCConfigVolumeMount, cassandraDataVolumeMount, podsConfigVolumeMount, authVolumeMount] @
     (if mon_enabled (cas_monitoring cas)
      then (if mon_agent (cas_monitoring cas) = CassandraAgentTlp then [prometheusVolumeMount] else []) @
           (if mon_agent (cas_monitoring cas) = CassandraAgentDatastax then [collectdVolumeMount] else []) else []) @
     (if pst_enabled (cas_persistence cas) \<and> pst_commitLogVolume (cas_persistence cas) then [commitLogVolumeMount] else []) @
     (if se_internodeEncryption (serverTLS cc) \<noteq> InternodeEncryptionNone then [cassandraServerTLSVolumeMount] else []) @
     (if ce_enabled (clientTLS cc) then [cassandraClientTLSVolumeMount] else [])"

definition cassandraContainer ::
  "'w env \<Rightarrow> cassandraCluster \<Rightarrow> cassandra \<Rightarrow> dc \<Rightarrow> strmap \<Rightarrow> secret \<Rightarrow> go_error + container" where
  "cassandraContainer E cc cas d restartChecksum clientTLSSecret =
     bindE (getCassandraRunCommand cc cas clientTLSSecret) (\<lambda>runCommand. Inr
       \<lparr>co_name = ''cassandra'', co_image = cas_image cas, co_imagePullPolicy = cas_imagePullPolicy cas,
        co_command = [], co_args = [''bash'', ''-c'', runCommand], co_workingDir = '''',
        co_env =
          [fieldEnv ''POD_NAME'' ''metadata.name'', fieldEnv ''POD_UID'' ''metadata.uid'',
           fieldEnv ''POD_IP'' ''status.podIP'', valueEnv ''LOG_LEVEL'' (cas_logLevel cas),
           valueEnv ''CASSANDRA_CLUSTER_NAME'' (cc_name cc), valueEnv ''CASSANDRA_DC'' (dc_name d),
           valueEnv ''CASSANDRA_LISTEN_ADDRESS'' ''$(POD_IP)'',
           valueEnv ''POD_RESTART_CHECKSUM'' (checksum E restartChecksum)] @
          (if mon_enabled (cas_monitoring cas)
           then [valueEnv ''JVM_EXTRA_OPTS'' (getJavaAgent (mon_agent (cas_monitoring cas)))] else []) @
          [valueEnv ''TLS_ARG'' (if ce_enabled (clientTLS cc) then ''--ssl'' else '''')],
        co_resources = SpecResources (cas_resources cas),
        co_livenessProbe = Some \<lparr>pr_handler = TCPSocket (FromString ''cql''), pr_initialDelaySeconds = 60,
          pr_timeoutSeconds = 20, pr_periodSeconds = 20, pr_successThreshold = 1, pr_failureThreshold = 3\<rparr>,
        co_readinessProbe = Some \<lparr>pr_handler = ExecAction [''bash'', ''-c'',
            ''source /etc/pods-config/${POD_NAME}_${POD_UID}.sh && http --check-status --timeout 2 GET '' @
            ProberService (cc_name cc) @ ''/healthz/$CASSANDRA_BROADCAST_ADDRESS''],
          pr_initialDelaySeconds = 40, pr_timeoutSeconds = 20, pr_periodSeconds = 10, pr_successThreshold = 2,
          pr_failureThreshold = 3\<rparr>,
        co_preStop = Some [''bash'', ''-c'', ''source /home/cassandra/.bashrc && nodetool drain''],
        co_volumeMounts = cassandraMounts cc cas,
        co_ports = cassandraContainerPorts cc, co_securityContext = None,
        co_terminationMessagePath = terminationLog, co_terminationMessagePolicy = terminationFile\<rparr>)"

definition smallResources :: resources where
  "smallResources = RequestsLimits [(''memory'', ''200Mi''), (''cpu'', ''0.5'')] [(''memory'', ''200Mi''), (''cpu'', ''0.5'')]"

definition initScript :: string where
  "initScript = script
     [''function sigterm_handler {'',
      ''  echo -en `~nReceived SIGTERM; Exiting~n`'',
      ''  exit 0'',
      ''}'',
      '''',
      ''trap sigterm_handler SIGTERM'',
      '''',
      ''config_path=/etc/pods-config/${POD_NAME}_${POD_UID}.sh'',
      ''COUNT=1'',
      ''until [ -f `$config_path` ]; do'',
      ''  echo Waiting for the operator to mount pod config $config_path. Attempt $(( COUNT++ ))...'',
      ''  sleep 10'',
      ''done'',
      '''',
      ''source $config_path'',
      '''',
      ''until [[ `$PAUSE_INIT` == `false` ]]; do'',
      ''  echo Pod init is paused by the operator: ${PAUSE_REASON}'',
      ''  sleep 10'',
      ''  source $config_path'',
      ''done'',
      '''']"

definition initContainer :: "cassandra \<Rightarrow> container" where
  "initContainer cas =
     \<lparr>co_name = ''init'', co_image = cas_image cas, co_imagePullPolicy = cas_imagePullPolicy cas,
      co_command = [''bash'', ''-c''], co_args = [initScript], co_workingDir = '''',
      co_env = [fieldEnv ''POD_NAME'' ''metadata.name'', fieldEnv ''POD_UID'' ''metadata.uid''],
      co_resources = smallResources, co_livenessProbe = None, co_readinessProbe = None, co_preStop = None,
      co_volumeMounts = [podsConfigVolumeMount], co_ports = [], co_securityContext = None,
      co_terminationMessagePath = terminationLog, co_terminationMessagePolicy = terminationFile\<rparr>"

text \<open>\<open>ord\<close> is the order in which a range visits the keys of a map; the lines are sorted.\<close>

definition privilegedInitContainer :: "(strmap \<Rightarrow> string list) \<Rightarrow> cassandra \<Rightarrow> container" where
  "privilegedInitContainer ord cas =
     (let sysctls = (case cas_sysctls cas of None \<Rightarrow> Map.empty | Some m \<Rightarrow> m);
          sysctlArgs = sort (map (\<lambda>k. k @ ''='' @ quoted (mget sysctls k)) (ord sysctls)) in
      \<lparr>co_name = ''privileged-init'', co_image = cas_image cas, co_imagePullPolicy = cas_imagePullPolicy cas,
       co_command = [''bash'', ''-c'', join LF ([''chown cassandra:cassandra /var/lib/cassandra''] @
         (if length (ord sysctls) > 0 then [''sysctl -w '' @ join '' '' sysctlArgs] else []))],
       co_args = [], co_workingDir = '''', co_env = [], co_resources = smallResources, co_livenessProbe = None,
       co_readinessProbe = None, co_preStop = None, co_volumeMounts = [cassandraDataVolumeMount], co_ports = [],
       co_securityContext = Some \<lparr>sc_privileged = True, sc_runAsUser = 0, sc_runAsGroup = 0\<rparr>,
       co_terminationMessagePath = terminationLog, co_terminationMessagePolicy = terminationFile\<rparr>)"

definition maintenanceContainer :: "cassandra \<Rightarrow> container" where
  "maintenanceContainer cas =
     \<lparr>co_name = ''maintenance-mode'', co_image = cas_image cas, co_imagePullPolicy = cas_imagePullPolicy cas,
      co_command = [''bash'', ''-c''],
      co_args = [''while [[ -f '' @ maintenanceDir @ ''/${HOSTNAME} ]]; do sleep 10; done''], co_workingDir = '''',
      co_env = [], co_resources = smallResources, co_livenessProbe = None, co_readinessProbe = None, co_preStop = None,
      co_volumeMounts = [cassandraDataVolumeMount, maintenanceVolumeMount], co_ports = [], co_securityContext = None,
      co_terminationMessagePath = terminationLog, co_terminationMessagePolicy = terminationFile\<rparr>"

definition icarusContainer :: "cassandraCluster \<Rightarrow> container" where
  "icarusContainer cc =
     (let i = icarusOf (cc_spec cc); clientEnabled = ce_enabled (clientTLS cc); n = ce_nodeTLSSecret (clientTLS cc) in
      \<lparr>co_name = ''icarus'', co_image = ica_image i, co_imagePullPolicy = ica_imagePullPolicy i, co_command = [],
       co_args = [''--jmx-credentials=/etc/cassandra-auth-config/icarus-jmx'', ''--jmx-client-auth=true''] @
         (if clientEnabled
          then [''--jmx-truststore=/etc/cassandra-client-tls/'' @ node_truststoreFileKey n,
                ''--jmx-truststore-password=$(ICARUS_TRUSTSTORE_PASSWORD)'',
                ''--jmx-keystore=/etc/cassandra-client-tls/'' @ node_keystoreFileKey n,
                ''--jmx-keystore-password=$(ICARUS_KEYSTORE_PASSWORD)''] else []),
       co_workingDir = '''',
       co_env = (if clientEnabled
         then [secretEnv ''ICARUS_TRUSTSTORE_PASSWORD'' (node_name n) (node_truststorePasswordKey n),
               secretEnv ''ICARUS_KEYSTORE_PASSWORD'' (node_name n) (node_keystorePasswordKey n)] else []),
       co_resources = SpecResources '''', co_livenessProbe = None, co_readinessProbe = None, co_preStop = None,
       co_volumeMounts = [cassandraDataVolumeMount, authVolumeMount] @
         (if clientEnabled then [cassandraClientTLSVolumeMount] else []),
       co_ports = [(tcpPort ''icarus'' IcarusPort)
         \<lparr>cp_hostPort := (if hp_enabled (hostPortSpec (cc_spec cc)) then IcarusPort else 0)\<rparr>],
       co_securityContext = None, co_terminationMessagePath = terminationLog,
       co_terminationMessagePolicy = terminationFile\<rparr>)"


section \<open>The stateful set\<close>

definition stsLabelsOf :: "cassandraCluster \<Rightarrow> cassandra \<Rightarrow> dc \<Rightarrow> strmap" where
  "stsLabelsOf cc cas d =
     (let l = WithDCLabel (CombinedComponentLabels cc ComponentCassandra) (dc_name d) in
      if mon_agent (cas_monitoring cas) = CassandraAgentTlp
      then l(''environment'' \<mapsto> cc_namespace cc, ''datacenter'' \<mapsto> dc_name d, ''app.kubernetes.io/name'' \<mapsto> cc_name cc)
      else l)"

definition stsVolumes :: "cassandraCluster \<Rightarrow> cassandra \<Rightarrow> volume list" where
  "stsVolumes cc cas =
     [maintenanceVolume cc, cassandraConfigVolume cc, podsConfigVolume cc, authVolume cc] @
     (if mon_enabled (cas_monitoring cas)
      then (if mon_agent (cas_monitoring cas) = CassandraAgentTlp then [prometheusVolume cc] else []) @
           (if mon_agent (cas_monitoring cas) = CassandraAgentDatastax then [collectdVolume cc] else []) else []) @
     (if pst_enabled (cas_persistence cas) then [] else [emptyDirDataVolume]) @
     (if se_internodeEncryption (serverTLS cc) \<noteq> InternodeEncryptionNone then [cassandraServerTLSVolume cc] else []) @
     (if ce_enabled (clientTLS cc) then [cassandraClientTLSVolume cc] else [])"

definition cassandraPodSpec ::
  "(strmap \<Rightarrow> string list) \<Rightarrow> cassandraCluster \<Rightarrow> cassandra \<Rightarrow> dc \<Rightarrow> container \<Rightarrow> podSpec" where
  "cassandraPodSpec ord cc cas d container =
     \<lparr>ps_containers = [container, icarusContainer cc],
      ps_initContainers = [privilegedInitContainer ord cas, maintenanceContainer cas, initContainer cas],
      ps_volumes = stsVolumes cc cas, ps_imagePullSecrets = imagePullSecrets cc,
      ps_serviceAccountName = CassandraServiceAccount (cc_name cc), ps_affinity = dc_affinity d,
      ps_tolerations = dc_tolerations d, ps_nodeSelector = Map.empty, ps_restartPolicy = ''Always'',
      ps_terminationGracePeriodSeconds = cas_terminationGracePeriodSeconds cas, ps_dnsPolicy = ''ClusterFirst'',
      ps_topologySpreadConstraints =
        (if topologySpreadByZone (cc_spec cc) = Some True
         then [\<lparr>tsc_maxSkew = 1, tsc_topologyKey = ''topology.kubernetes.io/zone'', tsc_whenUnsatisfiable = ''ScheduleAnyway'',
                tsc_labelSelector = ComponentLabels cc ComponentCassandra\<rparr>] else [])\<rparr>"

definition cassandraStatefulSet ::
  "'w env \<Rightarrow> (strmap \<Rightarrow> string list) \<Rightarrow> cassandraCluster \<Rightarrow> cassandra \<Rightarrow> dc \<Rightarrow> strmap \<Rightarrow> secret \<Rightarrow> go_error + statefulSet" where
  "cassandraStatefulSet E ord cc cas d restartChecksum clientTLSSecret =
     (let stsLabels = stsLabelsOf cc cas d in
      bindE (cassandraContainer E cc cas d restartChecksum clientTLSSecret) (\<lambda>container. Inr
        \<lparr>sts_name = DC (cc_name cc) (dc_name d), sts_labels = stsLabels, sts_namespace = cc_namespace cc,
         sts_annotations = None, sts_ownerReferences = [], sts_replicas = dc_replicas d,
         sts_spec = \<lparr>ss_serviceName = DCService (cc_name cc) (dc_name d), ss_selector = stsLabels,
           ss_podManagementPolicy = ''Parallel'', ss_updateStrategy = ''RollingUpdate'', ss_partition = 0,
           ss_revisionHistoryLimit = 10,
           ss_template = \<lparr>pt_labels = stsLabels,
             pt_annotations = Some [''kubectl.kubernetes.io/default-container'' \<mapsto> ''cassandra''],
             pt_spec = cassandraPodSpec ord cc cas d container\<rparr>,
           ss_volumeClaimTemplates = (if pst_enabled (cas_persistence cas) then cassandraVolumeClaims cc cas else [])\<rparr>,
         sts_readyReplicas = 0\<rparr>))"


definition stsTexts :: texts where
  "stsTexts = \<lparr>tx_get = ''Failed to get statefulset'', tx_create = ''Failed to create statefulset'',
     tx_update = ''failed to update statefulset''\<rparr>"

text \<open>The container of the restart checksum is a map that the callee writes to: the new one is returned.\<close>

definition reconcileDCStatefulSet ::
  "'w env \<Rightarrow> (strmap \<Rightarrow> string list) \<Rightarrow> cassandraCluster \<Rightarrow> dc \<Rightarrow> strmap \<Rightarrow> ('w, strmap) run" where
  "reconcileDCStatefulSet E ord cc d restartChecksum =
     andThen (if se_internodeEncryption (serverTLS cc) \<noteq> InternodeEncryptionNone
              then andThen (reconcileNodeTLSSecret E cc restartChecksum ServerNode) (\<lambda>(_, c). ret c)
              else ret restartChecksum) (\<lambda>c1.
     andThen (if ce_enabled (clientTLS cc) then reconcileNodeTLSSecret E cc c1 ClientNode else ret (emptySecret, c1))
       (\<lambda>(clientTLSSecret, c2).
     andThen (if hp_enabled (hostPortSpec (cc_spec cc)) \<and> Contains (hp_ports (hostPortSpec (cc_spec cc))) ''cql'' \<and>
                 \<not> ce_enabled (clientTLS cc)
              then emit EventInsecureSetup (''Exposing cql port ('' @ itoa CqlPort @
                     '') as hostPort without client encryption enabled is not secure'')
              else ret ()) (\<lambda>_.
     andThen (lift (bindE (deref (cassandraSpec (cc_spec cc))) (\<lambda>cas.
                cassandraStatefulSet E ord cc cas d c2 clientTLSSecret))) (\<lambda>sts.
     andThen (wrapErr ''Cannot set controller reference'' (lift (e_controllerReference E cc))) (\<lambda>owners.
     andThen (createOrUpdate (stsKind E) stsTexts keepSts EqualStatefulSet adoptSts (sts\<lparr>sts_ownerReferences := owners\<rparr>)) (\<lambda>_.
       ret c2))))))"

section \<open>The service\<close>

definition targetPort :: "string \<Rightarrow> int \<Rightarrow> servicePort" where
  "targetPort n p = \<lparr>sp_name = n, sp_protocol = ProtocolTCP, sp_port = p, sp_targetPort = FromInt p\<rparr>"

definition dcService :: "cassandraCluster \<Rightarrow> cassandra \<Rightarrow> dc \<Rightarrow> service" where
  "dcService cc cas d =
     (let svcLabels = WithDCLabel (CombinedComponentLabels cc ComponentCassandra) (dc_name d) in
      \<lparr>svc_name = DCService (cc_name cc) (dc_name d), svc_namespace = cc_namespace cc, svc_labels = svcLabels,
       svc_annotations = None, svc_ownerReferences = [],
       svc_spec = \<lparr>svs_ports =
           [targetPort ''intra'' IntraPort, targetPort ''tls'' TlsPort, targetPort ''jmx'' JmxPort, targetPort ''cql'' CqlPort,
            targetPort ''thrift'' ThriftPort, targetPort ''icarus'' IcarusPort] @
           (if mon_enabled (cas_monitoring cas) then [targetPort ''agent'' (getJavaAgentPort (mon_agent (cas_monitoring cas)))]
            else []),
         svs_clusterIP = ''None'', svs_clusterIPs = [], svs_ipFamilies = [], svs_ipFamilyPolicy = None,
         svs_internalTrafficPolicy = None, svs_type = ''ClusterIP'', svs_sessionAffinity = ''None'',
         svs_publishNotReadyAddresses = True, svs_selector = svcLabels\<rparr>\<rparr>)"

definition reconcileDCService :: "'w env \<Rightarrow> cassandraCluster \<Rightarrow> dc \<Rightarrow> ('w, unit) run" where
  "reconcileDCService E cc d =
     andThen (lift (deref (cassandraSpec (cc_spec cc)))) (\<lambda>cas.
     andThen (wrapErr ''Cannot set controller reference'' (lift (e_controllerReference E cc))) (\<lambda>owners.
       createOrUpdate (serviceKind E)
         \<lparr>tx_get = ''Failed to get service for DC '' @ quoted (dc_name d), tx_create = ''Failed to create service for DC '' @ quoted (dc_name d),
          tx_update = ''failed to update service for DC '' @ quoted (dc_name d)\<rparr>
         keepService EqualService adoptService ((dcService cc cas d)\<lparr>svc_ownerReferences := owners\<rparr>)))"

definition reconcileCassandra :: "'w env \<Rightarrow> (strmap \<Rightarrow> string list) \<Rightarrow> cassandraCluster \<Rightarrow> strmap \<Rightarrow> ('w, unit) run" where
  "reconcileCassandra E ord cc restartChecksum =
     andThen (foldAct (\<lambda>d c. wrapErr (''failed to reconcile dc '' @ quoted (dc_name d))
        (andThen (reconcileDCService E cc d) (\<lambda>_. reconcileDCStatefulSet E ord cc d c))) (spec_dcs (cc_spec cc)) restartChecksum)
       (\<lambda>_. wrapErr ''Failed to reconcile cassandra pods labels'' (reconcileCassandraPodLabels E cc))"


section \<open>Properties\<close>

text \<open>The volumes and claims from which a pod of the stateful set can mount.\<close>

definition mountable :: "statefulSet \<Rightarrow> string list" where
  "mountable s = map vol_name (ps_volumes (pt_spec (ss_template (sts_spec s)))) @
     map vc_name (ss_volumeClaimTemplates (sts_spec s))"

definition podContainers :: "statefulSet \<Rightarrow> container list" where
  "podContainers s = ps_containers (pt_spec (ss_template (sts_spec s))) @ ps_initContainers (pt_spec (ss_template (sts_spec s)))"

lemmas mount_defs =
  cassandraDCConfigVolumeMount_def prometheusVolumeMount_def collectdVolumeMount_def commitLogVolumeMount_def
  maintenanceVolumeMount_def podsConfigVolumeMount_def authVolumeMount_def cassandraServerTLSVolumeMount_def
  cassandraClientTLSVolumeMount_def cassandraDataVolumeMount_def volMount_def

lemmas volume_defs =
  cassandraConfigVolume_def prometheusVolume_def collectdVolume_def emptyDirDataVolume_def maintenanceVolume_def
  podsConfigVolume_def authVolume_def cassandraServerTLSVolume_def cassandraClientTLSVolume_def configMapVolume_def
  cassandraServerTLSVolumeName_def cassandraClientTLSVolumeName_def

lemma stsVolumes_names:
  "map vol_name (stsVolumes cc cas) =
     [''maintenance-config'', ''config'', ''pods-config'', ''auth-config''] @
     (if mon_enabled (cas_monitoring cas)
      then (if mon_agent (cas_monitoring cas) = CassandraAgentTlp then [''prometheus-config''] else []) @
           (if mon_agent (cas_monitoring cas) = CassandraAgentDatastax then [''collectd-config''] else []) else []) @
     (if pst_enabled (cas_persistence cas) then [] else [''data'']) @
     (if se_internodeEncryption (serverTLS cc) \<noteq> InternodeEncryptionNone then [''server-keystore''] else []) @
     (if ce_enabled (clientTLS cc) then [''client-keystore''] else [])"
  by (simp add: stsVolumes_def volume_defs Let_def if_distrib [of "map vol_name"] del: if_split cong: if_cong)

lemma claims_names:
  "map vc_name (cassandraVolumeClaims cc cas) =
     ''data'' # (if pst_commitLogVolume (cas_persistence cas) then [''commitlog''] else [])"
  by (simp add: cassandraVolumeClaims_def Let_def)

lemma cassandraStatefulSet_Inr:
  "cassandraStatefulSet E ord cc cas d c s = Inr sts \<longleftrightarrow>
     (\<exists>co. cassandraContainer E cc cas d c s = Inr co \<and>
        sts = \<lparr>sts_name = DC (cc_name cc) (dc_name d), sts_labels = stsLabelsOf cc cas d, sts_namespace = cc_namespace cc,
         sts_annotations = None, sts_ownerReferences = [], sts_replicas = dc_replicas d,
         sts_spec = \<lparr>ss_serviceName = DCService (cc_name cc) (dc_name d), ss_selector = stsLabelsOf cc cas d,
           ss_podManagementPolicy = ''Parallel'', ss_updateStrategy = ''RollingUpdate'', ss_partition = 0,
           ss_revisionHistoryLimit = 10,
           ss_template = \<lparr>pt_labels = stsLabelsOf cc cas d,
             pt_annotations = Some [''kubectl.kubernetes.io/default-container'' \<mapsto> ''cassandra''],
             pt_spec = cassandraPodSpec ord cc cas d co\<rparr>,
           ss_volumeClaimTemplates = (if pst_enabled (cas_persistence cas) then cassandraVolumeClaims cc cas else [])\<rparr>,
         sts_readyReplicas = 0\<rparr>)"
  unfolding cassandraStatefulSet_def Let_def bindE_Inr_iff by (simp add: eq_commute [of _ sts] del: if_split cong: if_cong)

lemma cassandraStatefulSet_fields:
  assumes "cassandraStatefulSet E ord cc cas d c s = Inr sts"
  shows "sts_name sts = DC (cc_name cc) (dc_name d)" "sts_namespace sts = cc_namespace cc" "sts_replicas sts = dc_replicas d"
    "ss_selector (sts_spec sts) = stsLabelsOf cc cas d" "pt_labels (ss_template (sts_spec sts)) = stsLabelsOf cc cas d"
    "pt_annotations (ss_template (sts_spec sts)) = Some [''kubectl.kubernetes.io/default-container'' \<mapsto> ''cassandra'']"
  using assms unfolding cassandraStatefulSet_Inr by (elim exE conjE, simp del: if_split)+

lemma cassandraContainer_mounts:
  "cassandraContainer E cc cas d c s = Inr co \<Longrightarrow> map vm_name (co_volumeMounts co) =
     [''config'', ''data'', ''pods-config'', ''auth-config''] @
     (if mon_enabled (cas_monitoring cas)
      then (if mon_agent (cas_monitoring cas) = CassandraAgentTlp then [''prometheus-config''] else []) @
           (if mon_agent (cas_monitoring cas) = CassandraAgentDatastax then [''collectd-config''] else []) else []) @
     (if pst_enabled (cas_persistence cas) \<and> pst_commitLogVolume (cas_persistence cas) then [''commitlog''] else []) @
     (if se_internodeEncryption (serverTLS cc) \<noteq> InternodeEncryptionNone then [''server-keystore''] else []) @
     (if ce_enabled (clientTLS cc) then [''client-keystore''] else [])"
  unfolding cassandraContainer_def bindE_Inr_iff
  by (elim exE conjE, drule Inr_inject, hypsubst)
    (simp add: cassandraMounts_def mount_defs volume_defs if_distrib [of "map vm_name"] del: if_split cong: if_cong)

lemma side_mounts:
  "map vm_name (co_volumeMounts (icarusContainer cc)) = [''data'', ''auth-config''] @ (if ce_enabled (clientTLS cc) then [''client-keystore''] else [])"
  "map vm_name (co_volumeMounts (privilegedInitContainer ord cas)) = [''data'']"
  "map vm_name (co_volumeMounts (maintenanceContainer cas)) = [''data'', ''maintenance-config'']"
  "map vm_name (co_volumeMounts (initContainer cas)) = [''pods-config'']"
  by (simp_all add: icarusContainer_def privilegedInitContainer_def maintenanceContainer_def initContainer_def Let_def
      mount_defs volume_defs)

text \<open>C25: The pods of a datacentre can start: every mount of each of their five containers names a volume of the pod or a
  claim of the stateful set, and no two of these have the same name, whichever of monitoring, persistence and
  encryption are switched on.\<close>

theorem every_mount_has_its_volume:
  assumes "cassandraStatefulSet E ord cc cas d c s = Inr sts"
  shows "(\<forall>co \<in> set (podContainers sts). \<forall>m \<in> set (co_volumeMounts co). vm_name m \<in> set (mountable sts)) \<and>
    distinct (mountable sts) \<and> length (podContainers sts) = 5"
proof -
  from assms obtain co where co: "cassandraContainer E cc cas d c s = Inr co"
    and sts: "podContainers sts = [co, icarusContainer cc, privilegedInitContainer ord cas, maintenanceContainer cas, initContainer cas]"
      "mountable sts = map vol_name (stsVolumes cc cas) @
         (if pst_enabled (cas_persistence cas) then map vc_name (cassandraVolumeClaims cc cas) else [])"
    unfolding cassandraStatefulSet_Inr
    by (elim exE conjE) (simp add: podContainers_def mountable_def cassandraPodSpec_def)
  have "vm_name ` set (co_volumeMounts co) \<subseteq> set (mountable sts)"
    unfolding sts(2) stsVolumes_names claims_names set_map [symmetric] cassandraContainer_mounts [OF co] by auto
  moreover have "set (map vm_name (co_volumeMounts (icarusContainer cc))) \<subseteq> set (mountable sts)"
    unfolding sts(2) stsVolumes_names claims_names side_mounts by auto
  moreover have "vm_name ` set (co_volumeMounts (privilegedInitContainer ord cas)) \<subseteq> set (mountable sts)"
    "vm_name ` set (co_volumeMounts (maintenanceContainer cas)) \<subseteq> set (mountable sts)"
    "vm_name ` set (co_volumeMounts (initContainer cas)) \<subseteq> set (mountable sts)"
    unfolding sts(2) stsVolumes_names claims_names set_map [symmetric] side_mounts by auto
  moreover have "distinct (mountable sts)"
    unfolding sts(2) stsVolumes_names claims_names by (simp add: CassandraAgentTlp_def CassandraAgentDatastax_def)
  ultimately show ?thesis unfolding sts(1) by (simp add: image_subset_iff)
qed


text \<open>The calls on secrets leave another part of the state as it is.\<close>

definition secretsApart :: "'w env \<Rightarrow> ('w \<Rightarrow> 's) \<Rightarrow> bool" where
  "secretsApart E store \<longleftrightarrow>
     (\<forall>k w. store (snd (e_getSecret E k w)) = store w) \<and> (\<forall>s w. store (snd (e_updateSecret E s w)) = store w)"

lemma secretsApart_calls [keeps_intros]:
  "secretsApart E store \<Longrightarrow> keeps store (call q (e_getSecret E k))"
  "secretsApart E store \<Longrightarrow> keeps store (call q (e_updateSecret E s))"
  by (simp_all add: secretsApart_def keeps_def del: split_paired_All)

lemma reconcileNodeTLSSecret_keeps [keeps_intros]:
  "secretsApart E store \<Longrightarrow> keeps store (reconcileNodeTLSSecret E cc c ty)"
  unfolding reconcileNodeTLSSecret_def getTLSSecret_def validateTLSFields_def reconcileAnnotations_annotated Let_def
  by (intro keeps_intros)

text \<open>What a successful pass over a stateful set does: it reads the secrets, and then creates or updates.\<close>

lemma reconcileDCStatefulSet_Inr:
  assumes "secretsApart E store" "result (reconcileDCStatefulSet E ord cc d c) w = Inr c'"
  obtains cas sec sts owners v where "cassandraSpec (cc_spec cc) = Some cas"
    "cassandraStatefulSet E ord cc cas d c' sec = Inr sts" "store v = store w"
    "result (createOrUpdate (stsKind E) stsTexts keepSts EqualStatefulSet adoptSts (sts\<lparr>sts_ownerReferences := owners\<rparr>)) v = Inr ()"
    "world (reconcileDCStatefulSet E ord cc d c) w =
      world (createOrUpdate (stsKind E) stsTexts keepSts EqualStatefulSet adoptSts (sts\<lparr>sts_ownerReferences := owners\<rparr>)) v"
proof -
  define server where "server = (if se_internodeEncryption (serverTLS cc) \<noteq> InternodeEncryptionNone
    then andThen (reconcileNodeTLSSecret E cc c ServerNode) (\<lambda>(_, c). ret c) else ret c)"
  define client where "client = (\<lambda>c1. if ce_enabled (clientTLS cc) then reconcileNodeTLSSecret E cc c1 ClientNode else ret (emptySecret, c1))"
  define warn where "warn = (if hp_enabled (hostPortSpec (cc_spec cc)) \<and> Contains (hp_ports (hostPortSpec (cc_spec cc))) ''cql'' \<and>
       \<not> ce_enabled (clientTLS cc)
     then emit EventInsecureSetup (''Exposing cql port ('' @ itoa CqlPort @
            '') as hostPort without client encryption enabled is not secure'') else (ret () :: ('a, unit) run))"
  define put where "put = (\<lambda>sts owners. createOrUpdate (stsKind E) stsTexts keepSts EqualStatefulSet adoptSts (sts\<lparr>sts_ownerReferences := owners\<rparr>))"
  have def: "reconcileDCStatefulSet E ord cc d c =
     andThen server (\<lambda>c1. andThen (client c1) (\<lambda>(s, c2). andThen warn (\<lambda>_.
     andThen (lift (bindE (deref (cassandraSpec (cc_spec cc))) (\<lambda>cas. cassandraStatefulSet E ord cc cas d c2 s))) (\<lambda>sts.
     andThen (wrapErr ''Cannot set controller reference'' (lift (e_controllerReference E cc))) (\<lambda>owners.
     andThen (put sts owners) (\<lambda>_. ret c2))))))"
    by (simp add: reconcileDCStatefulSet_def server_def client_def warn_def put_def)
  have "keeps store server" "keeps store (client c1)" "keeps store warn" for c1
    unfolding server_def client_def warn_def by (intro keeps_intros assms(1))+
  note st = this [THEN keepsD]
  from assms(2) obtain c1 s where r: "result server w = Inr c1" "result (client c1) (world server w) = Inr (s, c')"
    and rest: "result (andThen warn (\<lambda>_.
     andThen (lift (bindE (deref (cassandraSpec (cc_spec cc))) (\<lambda>cas. cassandraStatefulSet E ord cc cas d c' s))) (\<lambda>sts.
     andThen (wrapErr ''Cannot set controller reference'' (lift (e_controllerReference E cc))) (\<lambda>owners.
     andThen (put sts owners) (\<lambda>_. ret c'))))) (world (client c1) (world server w)) = Inr c'"
    unfolding def by (auto simp: andThen_Inr simp del: result_andThen)
  let ?v = "world warn (world (client c1) (world server w))"
  have warn: "result warn v = Inr ()" for v by (simp add: warn_def)
  from rest obtain cas sts owners where f: "cassandraSpec (cc_spec cc) = Some cas"
    "cassandraStatefulSet E ord cc cas d c' s = Inr sts" "e_controllerReference E cc = Inr owners"
    "result (put sts owners) ?v = Inr ()"
    by (cases "cassandraSpec (cc_spec cc)") (auto simp: andThen_Inr wrapErr_Inr bindE_Inr_iff simp del: result_andThen result_wrapErr)
  have "world (reconcileDCStatefulSet E ord cc d c) w = world (put sts owners) ?v"
    using r f by (simp add: def warn)
  with f st show ?thesis by (intro that [of cas s sts ?v owners]) (auto simp: put_def)
qed


text \<open>The stateful set after a pass: the desired one if there was none, otherwise with the replicas, the selector and the
  labels of the pods of the old one.\<close>

lemma sts_after:
  assumes api: "kindApi (stsKind E) store" and secrets: "secretsApart E store"
    and ok: "result (reconcileDCStatefulSet E ord cc d c) w = Inr c'"
  obtains cas sec desired owners s where "cassandraSpec (cc_spec cc) = Some cas"
    "cassandraStatefulSet E ord cc cas d c' sec = Inr desired"
    "store (world (reconcileDCStatefulSet E ord cc d c) w) (cc_namespace cc, DC (cc_name cc) (dc_name d)) = Some s"
    "case store w (cc_namespace cc, DC (cc_name cc) (dc_name d)) of
       None \<Rightarrow> s = desired\<lparr>sts_ownerReferences := owners\<rparr>
     | Some old \<Rightarrow> s = old \<and> EqualStatefulSet (keepSts old (desired\<lparr>sts_ownerReferences := owners\<rparr>)) old \<or>
                  s = adoptSts old (keepSts old (desired\<lparr>sts_ownerReferences := owners\<rparr>))"
proof -
  obtain cas sec desired owners v where
    1: "cassandraSpec (cc_spec cc) = Some cas" "cassandraStatefulSet E ord cc cas d c' sec = Inr desired" "store v = store w"
    and put: "result (createOrUpdate (stsKind E) stsTexts keepSts EqualStatefulSet adoptSts (desired\<lparr>sts_ownerReferences := owners\<rparr>)) v = Inr ()"
    "world (reconcileDCStatefulSet E ord cc d c) w =
      world (createOrUpdate (stsKind E) stsTexts keepSts EqualStatefulSet adoptSts (desired\<lparr>sts_ownerReferences := owners\<rparr>)) v"
    by (rule reconcileDCStatefulSet_Inr [OF secrets ok])
  have key: "stsKey (desired\<lparr>sts_ownerReferences := owners\<rparr>) = (cc_namespace cc, DC (cc_name cc) (dc_name d))"
    using cassandraStatefulSet_fields [OF 1(2)] by (simp add: stsKey_def)
  from sts.held [OF api stsKind_key put(1)] obtain s where
    s: "store (world (reconcileDCStatefulSet E ord cc d c) w) (cc_namespace cc, DC (cc_name cc) (dc_name d)) = Some s"
    and "case store w (cc_namespace cc, DC (cc_name cc) (dc_name d)) of
       None \<Rightarrow> s = desired\<lparr>sts_ownerReferences := owners\<rparr>
     | Some old \<Rightarrow> if EqualStatefulSet (keepSts old (desired\<lparr>sts_ownerReferences := owners\<rparr>)) old then s = old
                  else s = adoptSts old (keepSts old (desired\<lparr>sts_ownerReferences := owners\<rparr>))"
    unfolding key put(2) 1(3) by blast
  then have "case store w (cc_namespace cc, DC (cc_name cc) (dc_name d)) of
       None \<Rightarrow> s = desired\<lparr>sts_ownerReferences := owners\<rparr>
     | Some old \<Rightarrow> s = old \<and> EqualStatefulSet (keepSts old (desired\<lparr>sts_ownerReferences := owners\<rparr>)) old \<or>
                  s = adoptSts old (keepSts old (desired\<lparr>sts_ownerReferences := owners\<rparr>))"
    by (cases "store w (cc_namespace cc, DC (cc_name cc) (dc_name d))") (simp_all split: if_splits)
  with 1(1,2) s show ?thesis by (rule that)
qed

text \<open>C26: A pass over an existing stateful set of a datacentre brings its pods to the specification (the pod template is that
  of the desired stateful set) and keeps what others are responsible for: the number of replicas, which only the
  scaling changes, the selector, the labels of the pods, the annotations, and those of the pods that the operator does
  not set, such as the time of a \<open>kubectl rollout restart\<close>.\<close>

theorem workload_keeps_replicas:
  assumes "kindApi (stsKind E) store" "secretsApart E store"
    and "result (reconcileDCStatefulSet E ord cc d c) w = Inr c'"
    and "w' = world (reconcileDCStatefulSet E ord cc d c) w"
    and "k = (cc_namespace cc, DC (cc_name cc) (dc_name d))" "store w k = Some old"
  shows "\<exists>s cas sec desired. store w' k = Some s \<and> cassandraSpec (cc_spec cc) = Some cas \<and>
    cassandraStatefulSet E ord cc cas d c' sec = Inr desired \<and>
    pt_spec (ss_template (sts_spec s)) = pt_spec (ss_template (sts_spec desired)) \<and>
    sts_replicas s = sts_replicas old \<and> ss_selector (sts_spec s) = ss_selector (sts_spec old) \<and>
    pt_labels (ss_template (sts_spec s)) = pt_labels (ss_template (sts_spec old)) \<and> sts_annotations s = sts_annotations old \<and>
    (\<forall>a x. pt_annotations (ss_template (sts_spec old)) = Some a \<and> x \<noteq> ''kubectl.kubernetes.io/default-container'' \<longrightarrow>
      (\<exists>b. pt_annotations (ss_template (sts_spec s)) = Some b \<and> b x = a x))"
proof -
  obtain cas sec desired owners s where
    1: "cassandraSpec (cc_spec cc) = Some cas" "cassandraStatefulSet E ord cc cas d c' sec = Inr desired" "store w' k = Some s"
    and after: "case store w k of
       None \<Rightarrow> s = desired\<lparr>sts_ownerReferences := owners\<rparr>
     | Some old \<Rightarrow> s = old \<and> EqualStatefulSet (keepSts old (desired\<lparr>sts_ownerReferences := owners\<rparr>)) old \<or>
                  s = adoptSts old (keepSts old (desired\<lparr>sts_ownerReferences := owners\<rparr>))"
    unfolding assms(4,5) by (rule sts_after [OF assms(1-3)])
  then have 2: "s = old \<and> EqualStatefulSet (keepSts old (desired\<lparr>sts_ownerReferences := owners\<rparr>)) old \<or>
       s = adoptSts old (keepSts old (desired\<lparr>sts_ownerReferences := owners\<rparr>))"
    by (simp add: assms(6))
  have ann: "pt_annotations (ss_template (sts_spec desired)) = Some [''kubectl.kubernetes.io/default-container'' \<mapsto> ''cassandra'']"
    by (rule cassandraStatefulSet_fields(6) [OF 1(2)])
  have same: "pt_spec (ss_template (sts_spec s)) = pt_spec (ss_template (sts_spec desired))"
    using 2 by (auto simp: EqualStatefulSet_def keepSts_def adoptSts_def object_iffs)
  from 2 have "sts_replicas s = sts_replicas old" "ss_selector (sts_spec s) = ss_selector (sts_spec old)"
    "pt_labels (ss_template (sts_spec s)) = pt_labels (ss_template (sts_spec old))" "sts_annotations s = sts_annotations old"
    by (auto simp: keepSts_def adoptSts_def)
  moreover have "\<exists>b. pt_annotations (ss_template (sts_spec s)) = Some b \<and> b x = a x"
    if "pt_annotations (ss_template (sts_spec old)) = Some a" "x \<noteq> ''kubectl.kubernetes.io/default-container''" for a x
    using 2 that ann by (auto simp: keepSts_def adoptSts_def map_add_def)
  ultimately show ?thesis using 1 same by blast
qed

text \<open>C27: Whether the service of a datacentre reaches its pods: after a successful pass over both objects the service selects
  the pods of the stateful set exactly if the labels of the cluster resource, with those of the component and the
  datacentre, are among the labels of the pods. The pods of an existing stateful set keep their labels, while the
  selector of the service follows the cluster resource: a label added to the resource later leaves the service
  without endpoints. The pods of a new one have the labels, unless the metrics agent \<open>tlp\<close> overwrites one of them.\<close>

theorem service_reaches_pods_iff:
  assumes "kindApi (serviceKind E) svcs" "kindApi (stsKind E) stss" "secretsApart E svcs" "secretsApart E stss"
    and "untouched (stsKind E) svcs" "untouched (serviceKind E) stss"
    and "result (andThen (reconcileDCService E cc d) (\<lambda>_. reconcileDCStatefulSet E ord cc d c)) w = Inr c'"
    and "w' = world (andThen (reconcileDCService E cc d) (\<lambda>_. reconcileDCStatefulSet E ord cc d c)) w"
    and "k = (cc_namespace cc, DC (cc_name cc) (dc_name d))"
    and "wanted = WithDCLabel (CombinedComponentLabels cc ComponentCassandra) (dc_name d)"
    and "cassandraSpec (cc_spec cc) = Some cas"
  shows "\<exists>svc s. svcs w' k = Some svc \<and> stss w' k = Some s \<and> svs_selector (svc_spec svc) = wanted \<and>
    (svs_selector (svc_spec svc) \<subseteq>\<^sub>m pt_labels (ss_template (sts_spec s)) \<longleftrightarrow>
     (case stss w k of
        None \<Rightarrow> wanted \<subseteq>\<^sub>m stsLabelsOf cc cas d
      | Some old \<Rightarrow> wanted \<subseteq>\<^sub>m pt_labels (ss_template (sts_spec old))))"
proof -
  let ?v = "world (reconcileDCService E cc d) w"
  from assms(7,8) have ok: "result (reconcileDCService E cc d) w = Inr ()" "result (reconcileDCStatefulSet E ord cc d c) ?v = Inr c'"
    and w': "w' = world (reconcileDCStatefulSet E ord cc d c) ?v"
    by (auto split: sum.splits)
  from ok(1) assms(11) obtain owners where o: "e_controllerReference E cc = Inr owners"
    by (auto simp: reconcileDCService_def andThen_Inr wrapErr_Inr simp del: result_andThen result_wrapErr)
  let ?T = "\<lparr>tx_get = ''Failed to get service for DC '' @ quoted (dc_name d), tx_create = ''Failed to create service for DC '' @ quoted (dc_name d),
          tx_update = ''failed to update service for DC '' @ quoted (dc_name d)\<rparr>"
  let ?d = "(dcService cc cas d)\<lparr>svc_ownerReferences := owners\<rparr>"
  let ?put = "createOrUpdate (serviceKind E) ?T keepService EqualService adoptService ?d"
  have run: "result (reconcileDCService E cc d) w = result ?put w" "?v = world ?put w"
    by (simp_all add: reconcileDCService_def assms(11) o)
  have key: "svcKey ?d = k" by (simp add: svcKey_def dcService_def Let_def DCService_def assms(9))
  have sel: "svs_selector (svc_spec (dcService cc cas d)) = wanted" by (simp add: dcService_def Let_def assms(10))
  from svc.held [OF assms(1) serviceKind_key ok(1) [unfolded run(1)]] obtain svc where
    svc: "svcs ?v k = Some svc" "svs_selector (svc_spec svc) = wanted"
    unfolding key run(2) by (elim exE conjE) (drule service_selects(1), simp add: sel)
  have st: "stss ?v = stss w" unfolding run(2) by (rule createOrUpdate_untouched [OF assms(6)])
  obtain cas' sec' x owners' u where "svcs u = svcs ?v" "w' = world (createOrUpdate (stsKind E) stsTexts keepSts EqualStatefulSet adoptSts
      (x\<lparr>sts_ownerReferences := owners'\<rparr>)) u"
    unfolding w' by (rule reconcileDCStatefulSet_Inr [OF assms(3) ok(2)])
  with createOrUpdate_untouched [OF assms(5)] have svcs: "svcs w' = svcs ?v" by simp
  obtain cas'' sec desired owners' s where c: "cassandraSpec (cc_spec cc) = Some cas''"
    and s: "cassandraStatefulSet E ord cc cas'' d c' sec = Inr desired" "stss w' k = Some s"
    "case stss w k of
       None \<Rightarrow> s = desired\<lparr>sts_ownerReferences := owners'\<rparr>
     | Some old \<Rightarrow> s = old \<and> EqualStatefulSet (keepSts old (desired\<lparr>sts_ownerReferences := owners'\<rparr>)) old \<or>
                  s = adoptSts old (keepSts old (desired\<lparr>sts_ownerReferences := owners'\<rparr>))"
    unfolding w' assms(9) st [symmetric] by (rule sts_after [OF assms(2,4) ok(2)])
  have lab: "pt_labels (ss_template (sts_spec desired)) = stsLabelsOf cc cas d"
    using cassandraStatefulSet_fields(5) [OF s(1)] c assms(11) by simp
  have "pt_labels (ss_template (sts_spec s)) = (case stss w k of None \<Rightarrow> stsLabelsOf cc cas d | Some old \<Rightarrow> pt_labels (ss_template (sts_spec old)))"
    using s(3) lab by (auto simp: keepSts_def adoptSts_def split: option.splits)
  with svc s(2) svcs show ?thesis by (auto split: option.splits)
qed


section \<open>Examples\<close>

text \<open>An API server whose state are the maps of its stateful sets and services, a cluster without encryption, and the stateful
  set that an earlier pass has created for it.\<close>

type_synonym workloadWorld = "(key \<rightharpoonup> statefulSet) \<times> (key \<rightharpoonup> service)"

definition workloadServer :: "workloadWorld env" where
  "workloadServer = quietEnv\<lparr>
     e_getSts := (\<lambda>k w. (answer (keyed stsKey (fst w) k), w)),
     e_updateSts := (\<lambda>x (s, v). (Inr (), (s(stsKey x \<mapsto> x), v))),
     e_getService := (\<lambda>k w. (answer (keyed svcKey (snd w) k), w)),
     e_objects := (e_objects quietEnv)\<lparr>
       o_createSts := (\<lambda>x (s, v). (Inr (), (s(stsKey x \<mapsto> x), v))),
       o_createService := (\<lambda>x (s, v). (Inr (), (s, v(svcKey x \<mapsto> x)))),
       o_updateService := (\<lambda>x (s, v). (Inr (), (s, v(svcKey x \<mapsto> x))))\<rparr>\<rparr>"

abbreviation stsOf :: "workloadWorld \<Rightarrow> key \<rightharpoonup> statefulSet" where "stsOf w \<equiv> keyed stsKey (fst w)"
abbreviation svcOf :: "workloadWorld \<Rightarrow> key \<rightharpoonup> service" where "svcOf w \<equiv> keyed svcKey (snd w)"

lemma workloadServer_api: "kindApi (stsKind workloadServer) stsOf" "kindApi (serviceKind workloadServer) svcOf"
  unfolding kindApi_def stsKind_def serviceKind_def workloadServer_def
  using keyed_key [of stsKey] keyed_key [of svcKey]
  by (auto simp: answer_cases split: prod.splits simp del: fun_upd_apply)

lemma workloadServer_apart:
  "untouched (stsKind workloadServer) svcOf" "untouched (serviceKind workloadServer) stsOf"
  "secretsApart workloadServer stsOf" "secretsApart workloadServer svcOf"
  by (auto simp: untouched_def secretsApart_def stsKind_def serviceKind_def workloadServer_def quietEnv_def split: prod.splits)

lemma workloadServer_step:
  "result (createOrUpdate (stsKind workloadServer) T keep1 equal1 adopt1 d1) w = Inr ()"
  "result (createOrUpdate (serviceKind workloadServer) T keep2 equal2 adopt2 d2) w = Inr ()"
  by (rule createOrUpdate_succeeds;
      auto simp: stsKind_def serviceKind_def workloadServer_def split: prod.splits dest: answer_Inl)+

definition plainCluster :: cassandraCluster where
  "plainCluster = updServer (\<lambda>s. s\<lparr>se_internodeEncryption := InternodeEncryptionNone\<rparr>) runningCluster"

definition sampleDC :: dc where
  "sampleDC = \<lparr>dc_name = ''dc1'', dc_replicas = Some 3, dc_affinity = None, dc_tolerations = []\<rparr>"

definition oldSts :: statefulSet where
  "oldSts = \<lparr>sts_name = ''c-cassandra-dc1'', sts_labels = stsLabelsOf plainCluster sampleCassandra sampleDC,
     sts_namespace = ''ns'', sts_annotations = None, sts_ownerReferences = [''c''], sts_replicas = Some 2,
     sts_spec = plainStsSpec\<lparr>ss_template := plainTemplate\<lparr>pt_labels := stsLabelsOf plainCluster sampleCassandra sampleDC\<rparr>\<rparr>,
     sts_readyReplicas = 2\<rparr>"

lemma plainCluster_simps [simp]:
  "cc_name plainCluster = ''c''" "cc_namespace plainCluster = ''ns''" "cc_labels plainCluster = Map.empty"
  "cassandraSpec (cc_spec plainCluster) = Some sampleCassandra"
  "se_internodeEncryption (serverTLS plainCluster) = InternodeEncryptionNone" "ce_enabled (clientTLS plainCluster) = False"
  "hp_enabled (hostPortSpec (cc_spec plainCluster)) = False" "spec_dcs (cc_spec plainCluster) = [sampleDC]"
  by (simp_all add: plainCluster_def updServer_def serverTLS_def clientTLS_def sampleDC_def runningCluster_def sampleCluster_def)

lemma getCassandraRunCommand_plain:
  "\<not> ce_enabled (clientTLS cc) \<Longrightarrow> \<exists>cmd. getCassandraRunCommand cc cas s = Inr cmd"
  by (simp add: getCassandraRunCommand_def Let_def)

lemma plain_sts:
  assumes "cc = plainCluster\<lparr>cc_labels := l\<rparr>"
  shows "result (reconcileDCStatefulSet workloadServer ord cc d c) w = Inr c"
proof -
  have cc: "cassandraSpec (cc_spec cc) = Some sampleCassandra" "\<not> ce_enabled (clientTLS cc)"
    "se_internodeEncryption (serverTLS cc) = InternodeEncryptionNone" "hp_enabled (hostPortSpec (cc_spec cc)) = False"
    using plainCluster_simps by (simp_all add: assms serverTLS_def clientTLS_def)
  obtain cmd where "getCassandraRunCommand cc sampleCassandra emptySecret = Inr cmd"
    using getCassandraRunCommand_plain [OF cc(2)] by blast
  then have "\<exists>co. cassandraContainer workloadServer cc sampleCassandra d c emptySecret = Inr co"
    by (simp add: cassandraContainer_def del: if_split)
  then obtain sts where "cassandraStatefulSet workloadServer ord cc sampleCassandra d c emptySecret = Inr sts"
    unfolding cassandraStatefulSet_Inr by blast
  moreover have "e_controllerReference workloadServer cc = Inr [cc_name cc]"
    by (simp add: workloadServer_def quietEnv_def)
  ultimately show ?thesis
    using cc by (simp add: reconcileDCStatefulSet_def workloadServer_step)
qed

theorem every_mount_has_its_volume_witness:
  "\<exists>sts. cassandraStatefulSet workloadServer (\<lambda>_. []) plainCluster sampleCassandra sampleDC Map.empty emptySecret = Inr sts \<and>
     distinct (mountable sts) \<and> length (podContainers sts) = 5"
proof -
  obtain cmd where "getCassandraRunCommand plainCluster sampleCassandra emptySecret = Inr cmd"
    using getCassandraRunCommand_plain [of plainCluster] by auto
  then have "\<exists>co. cassandraContainer workloadServer plainCluster sampleCassandra sampleDC Map.empty emptySecret = Inr co"
    by (simp add: cassandraContainer_def del: if_split)
  then obtain sts where "cassandraStatefulSet workloadServer (\<lambda>_. []) plainCluster sampleCassandra sampleDC Map.empty emptySecret = Inr sts"
    unfolding cassandraStatefulSet_Inr by blast
  with every_mount_has_its_volume [OF this] show ?thesis by blast
qed

theorem workload_keeps_replicas_witness:
  "\<exists>s. stsOf (world (reconcileDCStatefulSet workloadServer (\<lambda>_. []) plainCluster sampleDC Map.empty)
       ([(''ns'', ''c-cassandra-dc1'') \<mapsto> oldSts], Map.empty)) (''ns'', ''c-cassandra-dc1'') = Some s \<and> sts_replicas s = Some 2"
proof -
  let ?w = "([(''ns'', ''c-cassandra-dc1'') \<mapsto> oldSts], Map.empty) :: workloadWorld"
  have ok: "result (reconcileDCStatefulSet workloadServer (\<lambda>_. []) plainCluster sampleDC Map.empty) ?w = Inr Map.empty"
    by (rule plain_sts [of _ Map.empty]) simp
  have k: "(''ns'', ''c-cassandra-dc1'') = (cc_namespace plainCluster, DC (cc_name plainCluster) (dc_name sampleDC))"
    by (simp add: DC_def sampleDC_def)
  have "stsOf ?w (''ns'', ''c-cassandra-dc1'') = Some oldSts" by (simp add: keyed_def oldSts_def stsKey_def)
  note * = workload_keeps_replicas [where store = stsOf, OF workloadServer_api(1) workloadServer_apart(3) ok refl k this]
  have "sts_replicas oldSts = Some 2" by (simp add: oldSts_def)
  with * show ?thesis by (elim exE conjE, intro exI conjI) (assumption, simp only:)
qed

text \<open>The label \<open>team\<close>, added to a running cluster, leaves the service without pods.\<close>

theorem service_reaches_pods_iff_witness:
  "\<exists>svc s. svcOf (world (andThen (reconcileDCService workloadServer (plainCluster\<lparr>cc_labels := [''team'' \<mapsto> ''a'']\<rparr>) sampleDC)
        (\<lambda>_. reconcileDCStatefulSet workloadServer (\<lambda>_. []) (plainCluster\<lparr>cc_labels := [''team'' \<mapsto> ''a'']\<rparr>) sampleDC Map.empty))
       ([(''ns'', ''c-cassandra-dc1'') \<mapsto> oldSts], Map.empty)) (''ns'', ''c-cassandra-dc1'') = Some svc \<and>
     stsOf (world (andThen (reconcileDCService workloadServer (plainCluster\<lparr>cc_labels := [''team'' \<mapsto> ''a'']\<rparr>) sampleDC)
        (\<lambda>_. reconcileDCStatefulSet workloadServer (\<lambda>_. []) (plainCluster\<lparr>cc_labels := [''team'' \<mapsto> ''a'']\<rparr>) sampleDC Map.empty))
       ([(''ns'', ''c-cassandra-dc1'') \<mapsto> oldSts], Map.empty)) (''ns'', ''c-cassandra-dc1'') = Some s \<and>
     svs_selector (svc_spec svc) ''team'' = Some ''a'' \<and> \<not> svs_selector (svc_spec svc) \<subseteq>\<^sub>m pt_labels (ss_template (sts_spec s))"
proof -
  let ?cc = "plainCluster\<lparr>cc_labels := [''team'' \<mapsto> ''a'']\<rparr>"
  let ?w = "([(''ns'', ''c-cassandra-dc1'') \<mapsto> oldSts], Map.empty) :: workloadWorld"
  let ?m = "andThen (reconcileDCService workloadServer ?cc sampleDC)
    (\<lambda>_. reconcileDCStatefulSet workloadServer (\<lambda>_. []) ?cc sampleDC Map.empty)"
  have "e_controllerReference workloadServer ?cc = Inr [''c'']" by (simp add: workloadServer_def quietEnv_def)
  then have ok: "result ?m ?w = Inr Map.empty"
    by (simp add: reconcileDCService_def workloadServer_step plain_sts [OF refl])
  have k: "(''ns'', ''c-cassandra-dc1'') = (cc_namespace ?cc, DC (cc_name ?cc) (dc_name sampleDC))"
    by (simp add: DC_def sampleDC_def)
  have st: "stsOf ?w (''ns'', ''c-cassandra-dc1'') = Some oldSts" by (simp add: keyed_def oldSts_def stsKey_def)
  have wanted: "WithDCLabel (CombinedComponentLabels ?cc ComponentCassandra) (dc_name sampleDC) ''team'' = Some ''a''"
    by (simp add: WithDCLabel_def CombinedComponentLabels_def ComponentLabels_def InheritLabels_def ClusterDCLabel_def ClusterInstanceLabel_def ClusterComponentLabel_def map_add_def)
  have had: "pt_labels (ss_template (sts_spec oldSts)) ''team'' = None"
    by (simp add: oldSts_def stsLabelsOf_def Let_def WithDCLabel_def CombinedComponentLabels_def ComponentLabels_def InheritLabels_def
      ClusterDCLabel_def ClusterInstanceLabel_def ClusterComponentLabel_def map_add_def CassandraAgentTlp_def)
  have cas: "cassandraSpec (cc_spec ?cc) = Some sampleCassandra" by simp
  note * = service_reaches_pods_iff [where svcs = svcOf and stss = stsOf, OF workloadServer_api(2,1) workloadServer_apart(4,3,1,2) ok refl k refl cas]
  then obtain svc s where svc: "svcOf (world ?m ?w) (''ns'', ''c-cassandra-dc1'') = Some svc"
    and s: "stsOf (world ?m ?w) (''ns'', ''c-cassandra-dc1'') = Some s"
    and sel: "svs_selector (svc_spec svc) = WithDCLabel (CombinedComponentLabels ?cc ComponentCassandra) (dc_name sampleDC)"
    and iff: "svs_selector (svc_spec svc) \<subseteq>\<^sub>m pt_labels (ss_template (sts_spec s)) \<longleftrightarrow>
      WithDCLabel (CombinedComponentLabels ?cc ComponentCassandra) (dc_name sampleDC) \<subseteq>\<^sub>m pt_labels (ss_template (sts_spec oldSts))"
    unfolding st option.case by (elim exE conjE) (rule that)
  have "\<not> svs_selector (svc_spec svc) \<subseteq>\<^sub>m pt_labels (ss_template (sts_spec s))"
    unfolding iff using wanted had by (auto simp: map_le_def dom_def)
  moreover have "svs_selector (svc_spec svc) ''team'' = Some ''a''" unfolding sel by (rule wanted)
  ultimately show ?thesis using svc s by (intro exI conjI)
qed

end
