(* ===== verification/Config_Maps.thy ===== *)
theory Config_Maps
  imports Cassandra_Workload
begin

text \<open>
  The configmaps with which the pods start: \<open>controllers/cassandra_configmap.go\<close>, \<open>prometheus_configmap.go\<close>,
  \<open>collectd_configmap.go\<close> and \<open>shiro_configmap.go\<close>. Three copy a configmap of the operator's own namespace; the
  fourth, \<open>cassandra.yaml\<close>, is put together from the operator's settings, the user's overrides and what the
  specification demands of volumes and encryption.
  The YAML library is a parameter (record \<open>yamlCodec\<close>). The lemmas say which of the three sources decides a setting,
  that the pods restart when it changes, and when the reconciliation panics.
\<close>

section \<open>YAML documents\<close>

text \<open>A value of the map to which a document is decoded: what the operator puts there, or something else that it only
  copies. A pointer to a flag may be null.\<close>

datatype yamlValue =
    YText string | YFlag bool | YFlagPointer "bool option" | YTexts "string list"
  | YMap "string \<rightharpoonup> yamlValue" | YOther k8s_value

type_synonym yamlMap = "string \<rightharpoonup> yamlValue"

text \<open>Decoding an empty document, like \<open>null\<close>, succeeds and makes the target a nil map: the result is \<open>None\<close>.\<close>

record yamlCodec =
  yc_unmarshal :: "string \<Rightarrow> string + yamlMap option"
  yc_marshal :: "yamlMap option \<Rightarrow> go_error + string"

text \<open>An assignment to a key of a map, which panics if the map is nil.\<close>

definition assign :: "string \<Rightarrow> 'v \<Rightarrow> (string \<rightharpoonup> 'v) option \<Rightarrow> go_error + (string \<rightharpoonup> 'v) option" where
  "assign k v m = bindE (deref m) (\<lambda>m. Inr (Some (m(k \<mapsto> v))))"

text \<open>The assignments of all entries of a map, whose keys are distinct, so that their order does not matter.\<close>

definition assignAll :: "(string \<rightharpoonup> 'v) \<Rightarrow> (string \<rightharpoonup> 'v) option \<Rightarrow> go_error + (string \<rightharpoonup> 'v) option" where
  "assignAll new m = (case m of None \<Rightarrow> if dom new = {} then Inr None else Inl Panic | Some m \<Rightarrow> Inr (Some (m ++ new)))"

section \<open>cassandra.yaml\<close>

definition CassandraConfigInvalid :: string where "CassandraConfigInvalid = ''InvalidCassandraConfig''"

definition configErrMsg :: "string \<Rightarrow> string" where
  "configErrMsg err = ''Invalid Cassandra configs. Not valid YAML: '' @ err"

definition overrideSettings :: "'w env \<Rightarrow> yamlCodec \<Rightarrow> cassandra \<Rightarrow> yamlMap option \<Rightarrow> ('w, yamlMap option) run" where
  "overrideSettings E Y cas y =
     (if length (cas_configOverrides cas) > 0
      then (case yc_unmarshal Y (cas_configOverrides cas) of
              Inl err \<Rightarrow> andThen (emit CassandraConfigInvalid (configErrMsg err)) (\<lambda>_. ret y)
            | Inr overrides \<Rightarrow> lift (assignAll (case overrides of None \<Rightarrow> Map.empty | Some m \<Rightarrow> m) y))
      else ret y)"

definition serverEncryptionOptions :: "serverEncryption \<Rightarrow> secret \<Rightarrow> yamlMap" where
  "serverEncryptionOptions s sec =
     [''internode_encryption'' \<mapsto> YText (se_internodeEncryption s),
      ''require_client_auth'' \<mapsto> YFlagPointer (se_requireClientAuth s),
      ''require_endpoint_verification'' \<mapsto> YFlag (se_requireEndpointVerification s),
      ''keystore'' \<mapsto> YText (cassandraServerTLSDir @ ''/'' @ node_keystoreFileKey (se_nodeTLSSecret s)),
      ''keystore_password'' \<mapsto> YText (chomp (secretValue sec (node_keystorePasswordKey (se_nodeTLSSecret s)))),
      ''truststore'' \<mapsto> YText (cassandraServerTLSDir @ ''/'' @ node_truststoreFileKey (se_nodeTLSSecret s)),
      ''truststore_password'' \<mapsto> YText (chomp (secretValue sec (node_truststorePasswordKey (se_nodeTLSSecret s)))),
      ''protocol'' \<mapsto> YText (se_protocol s), ''algorithm'' \<mapsto> YText (se_algorithm s),
      ''store_type'' \<mapsto> YText (se_storeType s), ''cipher_suites'' \<mapsto> YTexts (se_cipherSuites s)]"

definition clientEncryptionOptions :: "clientEncryption \<Rightarrow> secret \<Rightarrow> yamlMap" where
  "clientEncryptionOptions c sec =
     [''enabled'' \<mapsto> YFlag (ce_enabled c), ''optional'' \<mapsto> YFlag (ce_optional c),
      ''require_client_auth'' \<mapsto> YFlagPointer (ce_requireClientAuth c),
      ''keystore'' \<mapsto> YText (cassandraClientTLSDir @ ''/'' @ node_keystoreFileKey (ce_nodeTLSSecret c)),
      ''keystore_password'' \<mapsto> YText (chomp (secretValue sec (node_keystorePasswordKey (ce_nodeTLSSecret c)))),
      ''truststore'' \<mapsto> YText (cassandraClientTLSDir @ ''/'' @ node_truststoreFileKey (ce_nodeTLSSecret c)),
      ''truststore_password'' \<mapsto> YText (chomp (secretValue sec (node_truststorePasswordKey (ce_nodeTLSSecret c)))),
      ''protocol'' \<mapsto> YText (ce_protocol c), ''algorithm'' \<mapsto> YText (ce_algorithm c),
      ''store_type'' \<mapsto> YText (ce_storeType c), ''cipher_suites'' \<mapsto> YTexts (ce_cipherSuites c)]"

definition addServerOptions :: "'w env \<Rightarrow> cassandraCluster \<Rightarrow> yamlMap option \<Rightarrow> ('w, yamlMap option) run" where
  "addServerOptions E cc y =
     (if se_internodeEncryption (serverTLS cc) \<noteq> InternodeEncryptionNone
      then andThen (getSecret E (node_name (se_nodeTLSSecret (serverTLS cc))) (cc_namespace cc)) (\<lambda>sec.
             lift (assign ''server_encryption_options'' (YMap (serverEncryptionOptions (serverTLS cc) sec)) y))
      else ret y)"

definition addClientOptions :: "'w env \<Rightarrow> cassandraCluster \<Rightarrow> yamlMap option \<Rightarrow> ('w, yamlMap option) run" where
  "addClientOptions E cc y =
     (if ce_enabled (clientTLS cc)
      then andThen (getSecret E (node_name (ce_nodeTLSSecret (clientTLS cc))) (cc_namespace cc)) (\<lambda>sec.
             lift (assign ''client_encryption_options'' (YMap (clientEncryptionOptions (clientTLS cc) sec)) y))
      else ret y)"

definition addCommitLog :: "cassandra \<Rightarrow> yamlMap option \<Rightarrow> go_error + yamlMap option" where
  "addCommitLog cas y =
     (if pst_enabled (cas_persistence cas) \<and> pst_commitLogVolume (cas_persistence cas)
      then assign ''commitlog_directory'' (YText cassandraCommitLogDir) y else Inr y)"

text \<open>The options of the Java machine are appended to those of the operator.\<close>

definition withJVMOptions :: "cassandra \<Rightarrow> strmap \<Rightarrow> strmap \<Rightarrow> strmap \<times> strmap" where
  "withJVMOptions cas d restartChecksum =
     (if length (cas_jvmOptions cas) > 0
      then (let o1 = mget d ''jvm.options'' @ LF @ LF @ ''### OVERRIDES PROVIDED BY THE USER'' @ LF @ LF @ LF @
                  join LF (cas_jvmOptions cas) @ LF
            in (d(''jvm.options'' \<mapsto> o1), restartChecksum(''jvm.options'' \<mapsto> o1)))
      else (d, restartChecksum))"

definition cassandraConfigMap :: "cassandraCluster \<Rightarrow> strmap \<Rightarrow> string list \<Rightarrow> configMap" where
  "cassandraConfigMap cc d owners =
     \<lparr>cm_name = ConfigMapName (cc_name cc), cm_namespace = cc_namespace cc,
      cm_labels = CombinedComponentLabels cc ComponentCassandra, cm_annotations = None, cm_ownerReferences = owners,
      cm_data = Some d\<rparr>"

text \<open>The name of the file in single quotes, as the messages have it.\<close>

definition cassandraYamlFile :: string where
  "cassandraYamlFile = CHR 0x27 # ''cassandra.yaml'' @ [CHR 0x27]"

text \<open>The callee writes to the map of the restart checksum: the new one is returned.\<close>

definition reconcileCassandraConfigMap ::
  "'w env \<Rightarrow> operatorConfig \<Rightarrow> yamlCodec \<Rightarrow> cassandraCluster \<Rightarrow> strmap \<Rightarrow> ('w, strmap) run" where
  "reconcileCassandraConfigMap E cfg Y cc restartChecksum =
     andThen (getConfigMap E OperatorCassandraConfigCM (cfg_namespace cfg)) (\<lambda>operatorCM.
     (let d = (case cm_data operatorCM of None \<Rightarrow> Map.empty | Some m \<Rightarrow> m) in
      andThen (case yc_unmarshal Y (mget d ''cassandra.yaml'') of
                 Inl err \<Rightarrow> raise (Wrap (''can't unmarshal '' @ cassandraYamlFile) (Err err)) | Inr y \<Rightarrow> ret y) (\<lambda>y0.
      andThen (lift (deref (cassandraSpec (cc_spec cc)))) (\<lambda>cas.
      andThen (overrideSettings E Y cas y0) (\<lambda>y1.
      andThen (lift (addCommitLog cas y1)) (\<lambda>y2.
      andThen (addServerOptions E cc y2) (\<lambda>y3.
      andThen (addClientOptions E cc y3) (\<lambda>y4.
      andThen (wrapErr (''can't marshal '' @ cassandraYamlFile) (lift (yc_marshal Y y4))) (\<lambda>t.
      (let (d', c') = withJVMOptions cas (d(''cassandra.yaml'' \<mapsto> t)) (restartChecksum(''cassandra.yaml'' \<mapsto> t)) in
       andThen (withOwners E cc (\<lambda>owners. reconcileConfigMap E (cassandraConfigMap cc d' owners))) (\<lambda>_. ret c')))))))))))"

section \<open>Copied configmaps\<close>

definition copiedConfigMap ::
  "'w env \<Rightarrow> operatorConfig \<Rightarrow> cassandraCluster \<Rightarrow> string \<Rightarrow> string \<Rightarrow> string \<Rightarrow> ('w, unit) run" where
  "copiedConfigMap E cfg cc from n component =
     andThen (getConfigMap E from (cfg_namespace cfg)) (\<lambda>operatorCM.
       withOwners E cc (\<lambda>owners. reconcileConfigMap E
         \<lparr>cm_name = n, cm_namespace = cc_namespace cc, cm_labels = CombinedComponentLabels cc component,
          cm_annotations = None, cm_ownerReferences = owners, cm_data = cm_data operatorCM\<rparr>))"

definition reconcilePrometheusConfigMap :: "'w env \<Rightarrow> operatorConfig \<Rightarrow> cassandraCluster \<Rightarrow> ('w, unit) run" where
  "reconcilePrometheusConfigMap E cfg cc =
     andThen (lift (deref (cassandraSpec (cc_spec cc)))) (\<lambda>cas.
       if \<not> mon_enabled (cas_monitoring cas) then ret ()
       else copiedConfigMap E cfg cc OperatorPrometheusCM (PrometheusConfigMap (cc_name cc)) ComponentCassandra)"

definition reconcileCollectdConfigMap :: "'w env \<Rightarrow> operatorConfig \<Rightarrow> cassandraCluster \<Rightarrow> ('w, unit) run" where
  "reconcileCollectdConfigMap E cfg cc =
     andThen (lift (deref (cassandraSpec (cc_spec cc)))) (\<lambda>cas.
       if \<not> mon_enabled (cas_monitoring cas) \<or> mon_agent (cas_monitoring cas) \<noteq> CassandraAgentDatastax then ret ()
       else copiedConfigMap E cfg cc OperatorCollectdCM (CollectdConfigMap (cc_name cc)) ComponentCassandra)"

definition reconcileShiroConfigMap :: "'w env \<Rightarrow> operatorConfig \<Rightarrow> cassandraCluster \<Rightarrow> ('w, unit) run" where
  "reconcileShiroConfigMap E cfg cc = copiedConfigMap E cfg cc OperatorShiroCM (ShiroConfigMap (cc_name cc)) ComponentReaper"


section \<open>Properties\<close>

text \<open>What decides a setting: the operator for the directory of the commit log and the encryption, if these are switched
  on, then the user, then the configmap of the operator.\<close>

definition intendedSetting ::
  "cassandraCluster \<Rightarrow> cassandra \<Rightarrow> secret \<Rightarrow> secret \<Rightarrow> yamlMap \<Rightarrow> yamlMap \<Rightarrow> string \<Rightarrow> yamlValue option" where
  "intendedSetting cc cas serverSecret clientSecret user base k =
     (if ce_enabled (clientTLS cc) \<and> k = ''client_encryption_options''
      then Some (YMap (clientEncryptionOptions (clientTLS cc) clientSecret))
      else if se_internodeEncryption (serverTLS cc) \<noteq> InternodeEncryptionNone \<and> k = ''server_encryption_options''
      then Some (YMap (serverEncryptionOptions (serverTLS cc) serverSecret))
      else if pst_enabled (cas_persistence cas) \<and> pst_commitLogVolume (cas_persistence cas) \<and> k = ''commitlog_directory''
      then Some (YText cassandraCommitLogDir)
      else case user k of Some v \<Rightarrow> Some v | None \<Rightarrow> base k)"

definition entriesOf :: "(string \<rightharpoonup> 'v) option \<Rightarrow> string \<rightharpoonup> 'v" where
  "entriesOf m = (case m of None \<Rightarrow> Map.empty | Some m \<Rightarrow> m)"

text \<open>The overrides of the user, none if they are not YAML.\<close>

definition userOverrides :: "yamlCodec \<Rightarrow> cassandra \<Rightarrow> yamlMap" where
  "userOverrides Y cas =
     (if length (cas_configOverrides cas) > 0
      then (case yc_unmarshal Y (cas_configOverrides cas) of Inl _ \<Rightarrow> Map.empty | Inr m \<Rightarrow> entriesOf m)
      else Map.empty)"

lemma entriesOf_simps [simp]: "entriesOf None = Map.empty" "entriesOf (Some m) = m"
  by (simp_all add: entriesOf_def)

lemma assign_Inr: "assign k v m = Inr m' \<Longrightarrow> entriesOf m' = (entriesOf m)(k \<mapsto> v)"
  by (cases m) (auto simp: assign_def)

lemma assignAll_Inr: "assignAll new m = Inr m' \<Longrightarrow> entriesOf m' = entriesOf m ++ new"
  by (cases m) (auto simp: assignAll_def split: if_splits)

lemma overrideSettings_Inr:
  "result (overrideSettings E Y cas y) w = Inr y' \<Longrightarrow> entriesOf y' = entriesOf y ++ userOverrides Y cas"
  by (auto simp: overrideSettings_def userOverrides_def entriesOf_def [symmetric] dest: assignAll_Inr split: if_splits sum.splits)

lemma addServerOptions_Inr:
  assumes "result (addServerOptions E cc y) w = Inr y'"
  obtains s where "entriesOf y' = (\<lambda>k. if se_internodeEncryption (serverTLS cc) \<noteq> InternodeEncryptionNone \<and>
      k = ''server_encryption_options'' then Some (YMap (serverEncryptionOptions (serverTLS cc) s)) else entriesOf y k)"
    "se_internodeEncryption (serverTLS cc) \<noteq> InternodeEncryptionNone \<longrightarrow>
      (\<exists>v. fst (e_getSecret E (cc_namespace cc, node_name (se_nodeTLSSecret (serverTLS cc))) v) = Inr s)"
proof (cases "se_internodeEncryption (serverTLS cc) = InternodeEncryptionNone")
  case True
  with assms that [of undefined] show ?thesis by (simp add: addServerOptions_def)
next
  case False
  with assms obtain s where "fst (e_getSecret E (cc_namespace cc, node_name (se_nodeTLSSecret (serverTLS cc))) w) = Inr s"
    "assign ''server_encryption_options'' (YMap (serverEncryptionOptions (serverTLS cc) s)) y = Inr y'"
    by (auto simp: addServerOptions_def getSecret_def split: sum.splits if_splits)
  with False show ?thesis by (intro that [of s]) (auto simp: assign_Inr fun_eq_iff)
qed

lemma addClientOptions_Inr:
  assumes "result (addClientOptions E cc y) w = Inr y'"
  obtains s where "entriesOf y' = (\<lambda>k. if ce_enabled (clientTLS cc) \<and>
      k = ''client_encryption_options'' then Some (YMap (clientEncryptionOptions (clientTLS cc) s)) else entriesOf y k)"
    "ce_enabled (clientTLS cc) \<longrightarrow>
      (\<exists>v. fst (e_getSecret E (cc_namespace cc, node_name (ce_nodeTLSSecret (clientTLS cc))) v) = Inr s)"
proof (cases "ce_enabled (clientTLS cc)")
  case False
  with assms that [of undefined] show ?thesis by (simp add: addClientOptions_def)
next
  case True
  with assms obtain s where "fst (e_getSecret E (cc_namespace cc, node_name (ce_nodeTLSSecret (clientTLS cc))) w) = Inr s"
    "assign ''client_encryption_options'' (YMap (clientEncryptionOptions (clientTLS cc) s)) y = Inr y'"
    by (auto simp: addClientOptions_def getSecret_def split: sum.splits if_splits)
  with True show ?thesis by (intro that [of s]) (auto simp: assign_Inr fun_eq_iff)
qed

lemma addCommitLog_Inr:
  "addCommitLog cas y = Inr y' \<Longrightarrow> entriesOf y' = (\<lambda>k. if pst_enabled (cas_persistence cas) \<and>
     pst_commitLogVolume (cas_persistence cas) \<and> k = ''commitlog_directory'' then Some (YText cassandraCommitLogDir) else entriesOf y k)"
  by (auto simp: addCommitLog_def fun_eq_iff dest: assign_Inr split: if_splits)

lemma getConfigMap_Inr:
  "cmApi E store \<Longrightarrow> result (getConfigMap E n ns) w = Inr cm \<Longrightarrow> store w (ns, n) = Some cm"
  using cmApi_found by (fastforce simp: getConfigMap_def split: sum.splits if_splits)

lemma withJVMOptions_yaml:
  "withJVMOptions cas d c = (d', c') \<Longrightarrow> d' ''cassandra.yaml'' = d ''cassandra.yaml'' \<and> c' ''cassandra.yaml'' = c ''cassandra.yaml''"
  by (auto simp: withJVMOptions_def Let_def split: if_splits)

text \<open>C28: Which settings the nodes run with: after a successful pass the file \<open>cassandra.yaml\<close> of the configmap is the
  document in which the operator decides the directory of the commit log and the encryption, where these are
  switched on, the user every other setting that he mentions, and the operator's own configmap the rest; overrides
  that are not YAML count as none. The same text enters the restart checksum, so the pods restart when it changes.\<close>

theorem settings_take_effect:
  assumes "cmApi E store" "cassandraSpec (cc_spec cc) = Some cas"
    and "result (reconcileCassandraConfigMap E cfg Y cc c) w = Inr c'"
    and "w' = world (reconcileCassandraConfigMap E cfg Y cc c) w"
  shows "\<exists>old base y doc cm ss cs.
    store w (cfg_namespace cfg, OperatorCassandraConfigCM) = Some old \<and>
    yc_unmarshal Y (mget (entriesOf (cm_data old)) ''cassandra.yaml'') = Inr base \<and> yc_marshal Y y = Inr doc \<and>
    store w' (cc_namespace cc, ConfigMapName (cc_name cc)) = Some cm \<and>
    entriesOf (cm_data cm) ''cassandra.yaml'' = Some doc \<and> c' ''cassandra.yaml'' = Some doc \<and>
    (\<forall>k. entriesOf y k = intendedSetting cc cas ss cs (userOverrides Y cas) (entriesOf base) k) \<and>
    (se_internodeEncryption (serverTLS cc) \<noteq> InternodeEncryptionNone \<longrightarrow>
      (\<exists>v. fst (e_getSecret E (cc_namespace cc, node_name (se_nodeTLSSecret (serverTLS cc))) v) = Inr ss)) \<and>
    (ce_enabled (clientTLS cc) \<longrightarrow>
      (\<exists>v. fst (e_getSecret E (cc_namespace cc, node_name (ce_nodeTLSSecret (clientTLS cc))) v) = Inr cs))"
proof -
  let ?get = "getConfigMap E OperatorCassandraConfigCM (cfg_namespace cfg)"
  from assms(3,4) have "yields (reconcileCassandraConfigMap E cfg Y cc c) w c' w'" by (simp add: yields_def)
  then have "\<exists>old base y1 y2 y3 y4 doc owners v1 v2 v3 v4 d' v0.
      yields ?get w old v0 \<and> yc_unmarshal Y (mget (entriesOf (cm_data old)) ''cassandra.yaml'') = Inr base \<and>
      yields (overrideSettings E Y cas base) v1 y1 v2 \<and> addCommitLog cas y1 = Inr y2 \<and>
      yields (addServerOptions E cc y2) v2 y3 v3 \<and> yields (addClientOptions E cc y3) v3 y4 v4 \<and>
      yc_marshal Y y4 = Inr doc \<and>
      withJVMOptions cas ((entriesOf (cm_data old))(''cassandra.yaml'' \<mapsto> doc)) (c(''cassandra.yaml'' \<mapsto> doc)) = (d', c') \<and>
      yields (reconcileConfigMap E (cassandraConfigMap cc d' owners)) v4 () w'"
    unfolding reconcileCassandraConfigMap_def entriesOf_def [symmetric] Let_def using assms(2)
    by (simp add: yields_simps) blast
  then obtain old base y1 y2 y3 y4 doc owners v1 v2 v3 v4 d' v0 where
    old: "yields ?get w old v0" and
    base: "yc_unmarshal Y (mget (entriesOf (cm_data old)) ''cassandra.yaml'') = Inr base"
    and y: "yields (overrideSettings E Y cas base) v1 y1 v2" "addCommitLog cas y1 = Inr y2"
      "yields (addServerOptions E cc y2) v2 y3 v3" "yields (addClientOptions E cc y3) v3 y4 v4"
    and doc: "yc_marshal Y y4 = Inr doc"
    and jvm: "withJVMOptions cas ((entriesOf (cm_data old))(''cassandra.yaml'' \<mapsto> doc)) (c(''cassandra.yaml'' \<mapsto> doc)) = (d', c')"
    and put: "yields (reconcileConfigMap E (cassandraConfigMap cc d' owners)) v4 () w'"
    by (elim exE conjE) (rule that)
  from cmRec.reaches [OF assms(1) yields_result [OF put]] obtain cm where
    "store w' (cc_namespace cc, ConfigMapName (cc_name cc)) = Some cm" "cm_data cm = Some d'"
    unfolding yields_world [OF put] by (auto simp: cmAgrees_def cmKey_def cassandraConfigMap_def)
  moreover from withJVMOptions_yaml [OF jvm] have "d' ''cassandra.yaml'' = Some doc" "c' ''cassandra.yaml'' = Some doc"
    by simp_all
  moreover obtain ss where ss: "entriesOf y3 = (\<lambda>k. if se_internodeEncryption (serverTLS cc) \<noteq> InternodeEncryptionNone \<and>
      k = ''server_encryption_options'' then Some (YMap (serverEncryptionOptions (serverTLS cc) ss)) else entriesOf y2 k)"
    "se_internodeEncryption (serverTLS cc) \<noteq> InternodeEncryptionNone \<longrightarrow>
      (\<exists>v. fst (e_getSecret E (cc_namespace cc, node_name (se_nodeTLSSecret (serverTLS cc))) v) = Inr ss)"
    by (rule addServerOptions_Inr [OF yields_result [OF y(3)]]) (rule that)
  moreover obtain cs where cs: "entriesOf y4 = (\<lambda>k. if ce_enabled (clientTLS cc) \<and>
      k = ''client_encryption_options'' then Some (YMap (clientEncryptionOptions (clientTLS cc) cs)) else entriesOf y3 k)"
    "ce_enabled (clientTLS cc) \<longrightarrow>
      (\<exists>v. fst (e_getSecret E (cc_namespace cc, node_name (ce_nodeTLSSecret (clientTLS cc))) v) = Inr cs)"
    by (rule addClientOptions_Inr [OF yields_result [OF y(4)]]) (rule that)
  moreover have "entriesOf y4 k = intendedSetting cc cas ss cs (userOverrides Y cas) (entriesOf base) k" for k
    unfolding cs(1) ss(1) addCommitLog_Inr [OF y(2)] overrideSettings_Inr [OF yields_result [OF y(1)]] intendedSetting_def
    by (auto simp: map_add_def)
  ultimately show ?thesis
    using getConfigMap_Inr [OF assms(1) yields_result [OF old]] base doc
    by (intro exI [of _ old] exI [of _ base] exI [of _ y4] exI [of _ doc] exI [of _ cm] exI [of _ ss] exI [of _ cs] conjI) auto
qed

text \<open>An operator configmap without the doc, or with an empty one, makes the reconciliation panic as soon as the
  operator has a setting of its own to add.\<close>

lemma empty_config_panics:
  assumes "result (getConfigMap E OperatorCassandraConfigCM (cfg_namespace cfg)) w = Inr old"
    and "yc_unmarshal Y (mget (entriesOf (cm_data old)) ''cassandra.yaml'') = Inr None"
    and "cassandraSpec (cc_spec cc) = Some cas" "userOverrides Y cas = Map.empty"
    and "pst_enabled (cas_persistence cas)" "pst_commitLogVolume (cas_persistence cas)"
  shows "result (reconcileCassandraConfigMap E cfg Y cc c) w = Inl Panic"
proof -
  have "result (overrideSettings E Y cas None) v = Inr None \<and> world (overrideSettings E Y cas None) v = v" for v
    using assms(4) by (auto simp: overrideSettings_def userOverrides_def assignAll_def entriesOf_def [symmetric] split: sum.splits)
  with assms show ?thesis
    by (simp add: reconcileCassandraConfigMap_def Let_def addCommitLog_def assign_def entriesOf_def)
qed


section \<open>Examples\<close>

text \<open>A codec that knows two documents, and a cluster with a volume for the commit log and an override of the tokens.\<close>

definition sampleYaml :: yamlCodec where
  "sampleYaml = \<lparr>yc_unmarshal = (\<lambda>s. if s = '''' then Inr None else Inr (Some [''num_tokens'' \<mapsto> YText s])),
     yc_marshal = (\<lambda>y. Inr (case entriesOf y ''num_tokens'' of Some (YText s) \<Rightarrow> s | _ \<Rightarrow> ''''))\<rparr>"

definition tunedCassandra :: cassandra where
  "tunedCassandra = sampleCassandra\<lparr>cas_configOverrides := ''8'',
     cas_persistence := (cas_persistence sampleCassandra)\<lparr>pst_enabled := True, pst_commitLogVolume := True\<rparr>\<rparr>"

definition tunedCluster :: cassandraCluster where
  "tunedCluster = plainCluster\<lparr>cc_spec := (cc_spec plainCluster)\<lparr>cassandraSpec := Some tunedCassandra\<rparr>\<rparr>"

definition operatorSettings :: configMap where
  "operatorSettings = (sampleCM OperatorCassandraConfigCM)\<lparr>cm_namespace := ''op'', cm_data := Some [''cassandra.yaml'' \<mapsto> ''256'']\<rparr>"

lemma cmServer_put: "result (reconcileConfigMap cmServer d) v = Inr ()"
  by (auto simp: reconcileConfigMap_def cmServer_def quietEnv_def isNotFound_def Let_def split: option.splits)

theorem settings_take_effect_witness:
  "\<exists>y cm. yc_marshal sampleYaml y = Inr ''8'' \<and>
     cmsOf (world (reconcileCassandraConfigMap cmServer sampleConfig sampleYaml tunedCluster Map.empty)
       [(''op'', OperatorCassandraConfigCM) \<mapsto> operatorSettings]) (''ns'', ConfigMapName ''c'') = Some cm \<and>
     entriesOf (cm_data cm) ''cassandra.yaml'' = Some ''8'' \<and>
     entriesOf y ''num_tokens'' = Some (YText ''8'') \<and> entriesOf y ''commitlog_directory'' = Some (YText cassandraCommitLogDir)"
proof -
  let ?w = "[(''op'', OperatorCassandraConfigCM) \<mapsto> operatorSettings]"
  have cc: "cassandraSpec (cc_spec tunedCluster) = Some tunedCassandra" "cc_name tunedCluster = ''c''" "cc_namespace tunedCluster = ''ns''"
    "serverTLS tunedCluster = serverTLS plainCluster" "clientTLS tunedCluster = clientTLS plainCluster"
    by (simp_all add: tunedCluster_def serverTLS_def clientTLS_def)
  have cas: "cas_configOverrides tunedCassandra = ''8''" "cas_jvmOptions tunedCassandra = []"
    "pst_enabled (cas_persistence tunedCassandra)" "pst_commitLogVolume (cas_persistence tunedCassandra)"
    by (simp_all add: tunedCassandra_def sampleCassandra_def)
  have "fst (e_getCM cmServer (''op'', OperatorCassandraConfigCM) ?w) = Inr operatorSettings"
    by (simp add: cmServer_def cmsOf_def cmKey_def operatorSettings_def sampleCM_def)
  moreover have "e_controllerReference cmServer tunedCluster = Inr [''c'']" by (simp add: cmServer_def quietEnv_def cc)
  moreover have "cm_data operatorSettings = Some [''cassandra.yaml'' \<mapsto> ''256'']" "cfg_namespace sampleConfig = ''op''"
    by (simp_all add: operatorSettings_def sampleConfig_def)
  ultimately have "\<exists>c'. result (reconcileCassandraConfigMap cmServer sampleConfig sampleYaml tunedCluster Map.empty) ?w = Inr c'"
    by (simp add: reconcileCassandraConfigMap_def getConfigMap_def cc cas overrideSettings_def addCommitLog_def
        addServerOptions_def addClientOptions_def withJVMOptions_def sampleYaml_def mget_def assign_def assignAll_def Let_def
        cmServer_put withOwners_run)
  then obtain c' where r: "result (reconcileCassandraConfigMap cmServer sampleConfig sampleYaml tunedCluster Map.empty) ?w = Inr c'" ..
  have user: "userOverrides sampleYaml tunedCassandra = [''num_tokens'' \<mapsto> YText ''8'']"
    by (simp add: userOverrides_def cas sampleYaml_def)
  have intended: "intendedSetting tunedCluster tunedCassandra ss cs [''num_tokens'' \<mapsto> YText ''8''] b ''num_tokens'' = Some (YText ''8'')"
    "intendedSetting tunedCluster tunedCassandra ss cs [''num_tokens'' \<mapsto> YText ''8''] b ''commitlog_directory'' = Some (YText cassandraCommitLogDir)"
    for ss cs b
    by (simp_all add: intendedSetting_def cas)
  from settings_take_effect [OF cmServer_api cc(1) r refl] obtain y doc cm where
    1: "yc_marshal sampleYaml y = Inr doc" "entriesOf (cm_data cm) ''cassandra.yaml'' = Some doc"
      "cmsOf (world (reconcileCassandraConfigMap cmServer sampleConfig sampleYaml tunedCluster Map.empty) ?w) (''ns'', ConfigMapName ''c'') = Some cm"
    and 2: "entriesOf y ''num_tokens'' = Some (YText ''8'')" "entriesOf y ''commitlog_directory'' = Some (YText cassandraCommitLogDir)"
    unfolding user cc(2,3) by (elim exE conjE) (rule that, assumption, assumption, assumption, simp_all add: intended)
  from 1(1) 2(1) have "doc = ''8''" by (simp add: sampleYaml_def)
  with 1 2 show ?thesis by blast
qed

end
