(* ===== verification/Service_Monitors.thy ===== *)
theory Service_Monitors
  imports Config_Maps
begin

text \<open>
  The service monitors, resources of the Prometheus operator that tell it what to scrape:
  \<open>controllers/cassandra_service_monitor.go\<close>, \<open>prober_service_monitor.go\<close> and \<open>reaper_service_monitor.go\<close>. They are
  unstructured objects: trees whose maps are compared as maps. A cluster's monitor can be installed in a namespace of
  its own, and the old ones elsewhere are deleted.
  The lemmas say which monitors remain after a pass, and that the ones of another cluster with the same name do not.
\<close>

section \<open>Relabelings\<close>

record relabelConfig =
  rc_sourceLabels :: "string list"
  rc_separator :: string
  rc_targetLabel :: string
  rc_regex :: string
  rc_modulus :: int
  rc_replacement :: string
  rc_action :: string

text \<open>The zero value of the Go structure.\<close>

definition relabelConfig0 :: relabelConfig where
  "relabelConfig0 = \<lparr>rc_sourceLabels = [], rc_separator = '''', rc_targetLabel = '''', rc_regex = '''', rc_modulus = 0,
     rc_replacement = '''', rc_action = ''''\<rparr>"

definition setUnless :: "bool \<Rightarrow> string \<Rightarrow> tree \<Rightarrow> (string \<rightharpoonup> tree) \<Rightarrow> string \<rightharpoonup> tree" where
  "setUnless b k v m = (if b then m else m(k \<mapsto> v))"

definition textSeq :: "string list \<Rightarrow> tree" where
  "textSeq xs = Sequence (map Text xs)"

definition createRelabeling :: "relabelConfig \<Rightarrow> tree" where
  "createRelabeling c = Object
     (setUnless (rc_modulus c = 0) ''modulus'' (Number (rc_modulus c))
     (setUnless (rc_action c = '''') ''action'' (Text (rc_action c))
     (setUnless (rc_replacement c = '''') ''replacement'' (Text (rc_replacement c))
     (setUnless (rc_regex c = '''') ''regex'' (Text (rc_regex c))
     (setUnless (rc_targetLabel c = '''') ''targetLabel'' (Text (rc_targetLabel c))
     (setUnless (rc_separator c = '''') ''separator'' (Text (rc_separator c))
     (setUnless (length (rc_sourceLabels c) = 0) ''sourceLabels'' (textSeq (rc_sourceLabels c)) Map.empty)))))))"

definition getCassandraServiceMonitorRelabelings :: "cassandra \<Rightarrow> tree list" where
  "getCassandraServiceMonitorRelabelings cas =
     (let agent = mon_agent (cas_monitoring cas);
          labelmap = createRelabeling (relabelConfig0\<lparr>rc_action := ''labelmap'', rc_regex := ''__meta_kubernetes_pod_label_(.+)''\<rparr>);
          podName = (\<lambda>target. createRelabeling (relabelConfig0\<lparr>rc_action := ''replace'', rc_targetLabel := target,
            rc_sourceLabels := [''__meta_kubernetes_pod_name'']\<rparr>)) in
      if agent = CassandraAgentDatastax then [labelmap, podName ''instance'']
      else if agent = CassandraAgentInstaclustr then [labelmap, podName ''cassandra_node'']
      else if agent = CassandraAgentTlp then [labelmap, podName ''host''] else [])"

text \<open>The two frequent forms: a metric whose label matches a pattern is dropped, or another label is set from it. A tilde
  stands for a backslash.\<close>

definition dropping :: "string \<Rightarrow> string \<Rightarrow> tree" where
  "dropping source regex = createRelabeling (relabelConfig0\<lparr>rc_sourceLabels := [source], rc_regex := script [regex],
     rc_action := ''drop''\<rparr>)"

definition rewrite :: "string \<Rightarrow> string \<Rightarrow> string \<Rightarrow> string \<Rightarrow> tree" where
  "rewrite source regex target replacement = createRelabeling (relabelConfig0\<lparr>rc_sourceLabels := [source],
     rc_regex := script [regex], rc_targetLabel := target, rc_replacement := replacement\<rparr>)"

definition formattedNameRelabelings :: "tree list" where
  "formattedNameRelabelings =
     [dropping ''__name__'' ''.*rate_(mean|1m|5m|15m)'',
      rewrite ''__name__'' ''(collectd_mcac_.+)'' ''prom_name'' ''${1}'',
      rewrite ''prom_name'' ''.+_bucket_(~d+)'' ''le'' ''${1}'',
      rewrite ''prom_name'' ''.+_bucket_inf'' ''le'' ''+Inf'',
      rewrite ''prom_name'' ''.*_histogram_p(~d+)'' ''quantile'' ''.${1}'',
      rewrite ''prom_name'' ''.*_histogram_min'' ''quantile'' ''0'',
      rewrite ''prom_name'' ''.*_histogram_max'' ''quantile'' ''1'']"

definition tableRelabelings :: "tree list" where
  "tableRelabelings =
     [dropping ''mcac'' ''org~.apache~.cassandra~.metrics~.table~.(~w+)'',
      rewrite ''mcac'' ''org~.apache~.cassandra~.metrics~.table~.(~w+)~.(~w+)~.(~w+)'' ''table'' ''${3}'',
      rewrite ''mcac'' ''org~.apache~.cassandra~.metrics~.table~.(~w+)~.(~w+)~.(~w+)'' ''keyspace'' ''${2}'',
      rewrite ''mcac'' ''org~.apache~.cassandra~.metrics~.table~.(~w+)~.(~w+)~.(~w+)'' ''__name__'' ''mcac_table_${1}'',
      rewrite ''mcac'' ''org~.apache~.cassandra~.metrics~.keyspace~.(~w+)~.(~w+)'' ''keyspace'' ''${2}'',
      rewrite ''mcac'' ''org~.apache~.cassandra~.metrics~.keyspace~.(~w+)~.(~w+)'' ''__name__'' ''mcac_keyspace_${1}'',
      rewrite ''mcac'' ''org~.apache~.cassandra~.metrics~.thread_pools~.(~w+)~.(~w+)~.(~w+).*'' ''pool_type'' ''${2}'',
      rewrite ''mcac'' ''org~.apache~.cassandra~.metrics~.thread_pools~.(~w+)~.(~w+)~.(~w+).*'' ''pool_name'' ''${3}'',
      rewrite ''mcac'' ''org~.apache~.cassandra~.metrics~.thread_pools~.(~w+)~.(~w+)~.(~w+).*'' ''__name__'' ''mcac_thread_pools_${1}'']"

definition requestRelabelings :: "tree list" where
  "requestRelabelings =
     [rewrite ''mcac'' ''org~.apache~.cassandra~.metrics~.client_request~.(~w+)~.(~w+)$'' ''request_type'' ''${2}'',
      rewrite ''mcac'' ''org~.apache~.cassandra~.metrics~.client_request~.(~w+)~.(~w+)$'' ''__name__'' ''mcac_client_request_${1}'',
      rewrite ''mcac'' ''org~.apache~.cassandra~.metrics~.client_request~.(~w+)~.(~w+)~.(~w+)$'' ''cl'' ''${3}'',
      rewrite ''mcac'' ''org~.apache~.cassandra~.metrics~.client_request~.(~w+)~.(~w+)~.(~w+)$'' ''request_type'' ''${2}'',
      rewrite ''mcac'' ''org~.apache~.cassandra~.metrics~.client_request~.(~w+)~.(~w+)~.(~w+)$'' ''__name__'' ''mcac_client_request_${1}_cl'',
      rewrite ''mcac'' ''org~.apache~.cassandra~.metrics~.cache~.(~w+)~.(~w+)'' ''cache_name'' ''${2}'',
      rewrite ''mcac'' ''org~.apache~.cassandra~.metrics~.cache~.(~w+)~.(~w+)'' ''__name__'' ''mcac_cache_${1}'',
      rewrite ''mcac'' ''org~.apache~.cassandra~.metrics~.cql~.(~w+)'' ''__name__'' ''mcac_cql_${1}'',
      rewrite ''mcac'' ''org~.apache~.cassandra~.metrics~.dropped_message~.(~w+)~.(~w+)'' ''message_type'' ''${2}'',
      rewrite ''mcac'' ''org~.apache~.cassandra~.metrics~.dropped_message~.(~w+)~.(~w+)'' ''__name__'' ''mcac_dropped_message_${1}'']"

definition storageRelabelings :: "tree list" where
  "storageRelabelings =
     [rewrite ''mcac'' ''org~.apache~.cassandra~.metrics~.streaming~.(~w+)~.(.+)$'' ''peer_ip'' ''${2}'',
      rewrite ''mcac'' ''org~.apache~.cassandra~.metrics~.streaming~.(~w+)~.(.+)$'' ''__name__'' ''mcac_streaming_${1}'',
      rewrite ''mcac'' ''org~.apache~.cassandra~.metrics~.streaming~.(~w+)$'' ''__name__'' ''mcac_streaming_${1}'',
      rewrite ''mcac'' ''org~.apache~.cassandra~.metrics~.commit_log~.(~w+)'' ''__name__'' ''mcac_commit_log_${1}'',
      rewrite ''mcac'' ''org~.apache~.cassandra~.metrics~.compaction~.(~w+)'' ''__name__'' ''mcac_compaction_${1}'',
      rewrite ''mcac'' ''org~.apache~.cassandra~.metrics~.storage~.(~w+)'' ''__name__'' ''mcac_storage_${1}'',
      rewrite ''mcac'' ''org~.apache~.cassandra~.metrics~.batch~.(~w+)'' ''__name__'' ''mcac_batch_${1}'',
      rewrite ''mcac'' ''org~.apache~.cassandra~.metrics~.client~.(~w+)'' ''__name__'' ''mcac_client_${1}'',
      rewrite ''mcac'' ''org~.apache~.cassandra~.metrics~.buffer_pool~.(~w+)'' ''__name__'' ''mcac_buffer_pool_${1}'',
      rewrite ''mcac'' ''org~.apache~.cassandra~.metrics~.index~.(~w+)'' ''__name__'' ''mcac_sstable_index_${1}'']"

definition hintRelabelings :: "tree list" where
  "hintRelabelings =
     [rewrite ''mcac'' ''org~.apache~.cassandra~.metrics~.hinted_hand_off_manager~.([^~-]+)-(~w+)'' ''peer_ip'' ''${2}'',
      rewrite ''mcac'' ''org~.apache~.cassandra~.metrics~.hinted_hand_off_manager~.([^~-]+)-(~w+)'' ''__name__'' ''mcac_hints_${1}'',
      rewrite ''mcac'' ''org~.apache~.cassandra~.metrics~.hints_service~.hints_delays~-(~w+)'' ''peer_ip'' ''${1}'',
      rewrite ''mcac'' ''org~.apache~.cassandra~.metrics~.hints_service~.hints_delays~-(~w+)'' ''__name__'' ''mcac_hints_hints_delays'',
      rewrite ''mcac'' ''org~.apache~.cassandra~.metrics~.hints_service~.([^~-]+)'' ''__name__'' ''mcac_hints_${1}'',
      rewrite ''mcac'' ''org~.apache~.cassandra~.metrics~.hints_service~.hints_created~.([^~-]+)'' ''peer_ip'' ''${1}'',
      rewrite ''mcac'' ''org~.apache~.cassandra~.metrics~.hints_service~.hints_created~.([^~-]+)'' ''__name__'' ''mcac_hints_created'',
      rewrite ''mcac'' ''org~.apache~.cassandra~.metrics~.memtable_pool~.(~w+)'' ''__name__'' ''mcac_memtable_pool_${1}'',
      rewrite ''mcac'' ''com~.datastax~.bdp~.type~.performance_objects~.name~.cql_slow_log~.metrics~.queries_latency'' ''__name__'' ''mcac_cql_slow_log_query_latency'',
      rewrite ''mcac'' ''org~.apache~.cassandra~.metrics~.read_coordination~.(.*)'' ''read_type'' ''$1'',
      rewrite ''mcac'' ''org~.apache~.cassandra~.metrics~.read_coordination~.(.*)'' ''__name__'' ''mcac_read_coordination_requests'']"

definition jvmRelabelings :: "tree list" where
  "jvmRelabelings =
     [rewrite ''mcac'' ''jvm~.gc~.(~w+)~.(~w+)'' ''collector_type'' ''${1}'',
      rewrite ''mcac'' ''jvm~.gc~.(~w+)~.(~w+)'' ''__name__'' ''mcac_jvm_gc_${2}'',
      rewrite ''mcac'' ''jvm~.memory~.(~w+)~.(~w+)'' ''memory_type'' ''${1}'',
      rewrite ''mcac'' ''jvm~.memory~.(~w+)~.(~w+)'' ''__name__'' ''mcac_jvm_memory_${2}'',
      rewrite ''mcac'' ''jvm~.memory~.pools~.(~w+)~.(~w+)'' ''pool_name'' ''${2}'',
      rewrite ''mcac'' ''jvm~.memory~.pools~.(~w+)~.(~w+)'' ''__name__'' ''mcac_jvm_memory_pool_${2}'',
      rewrite ''mcac'' ''jvm~.fd~.usage'' ''__name__'' ''mcac_jvm_fd_usage'',
      rewrite ''mcac'' ''jvm~.buffers~.(~w+)~.(~w+)'' ''buffer_type'' ''${1}'',
      rewrite ''mcac'' ''jvm~.buffers~.(~w+)~.(~w+)'' ''__name__'' ''mcac_jvm_buffer_${2}'',
      createRelabeling (relabelConfig0\<lparr>rc_sourceLabels := [''__name__'', ''prom_name''],
        rc_regex := ''(mcac_.*);.*(_micros_bucket|_bucket|_micros_count_total|_count_total|_total|_micros_sum|_sum|_stddev).*'',
        rc_separator := '';'', rc_targetLabel := ''__name__'', rc_replacement := ''${1}${2}''\<rparr>),
      createRelabeling (relabelConfig0\<lparr>rc_regex := ''prom_name'', rc_action := ''labeldrop''\<rparr>)]"

definition datastaxMetricRelabelings :: "tree list" where
  "datastaxMetricRelabelings = formattedNameRelabelings @ tableRelabelings @ requestRelabelings @
     storageRelabelings @ hintRelabelings @ jvmRelabelings"

definition getCassandraServiceMonitorMetricRelabelings :: "cassandra \<Rightarrow> tree list" where
  "getCassandraServiceMonitorMetricRelabelings cas =
     (if mon_agent (cas_monitoring cas) = CassandraAgentDatastax then datastaxMetricRelabelings else [])"

definition getReaperServiceMonitorMetricRelabelings :: "tree list" where
  "getReaperServiceMonitorMetricRelabelings =
     [dropping ''__name__'' ''(.*)_RepairRunner_millisSinceLastRepair_([^_]+)_([^_]+)$'',
      rewrite ''__name__'' ''(.*)_RepairRunner_millisSinceLastRepair_(.*)_(.*)_(.*)'' ''cluster'' ''${2}'',
      rewrite ''__name__'' ''(.*)_RepairRunner_millisSinceLastRepair_(.*)_(.*)_(.*)'' ''keyspace'' ''${3}'',
      rewrite ''__name__'' ''(.*)_RepairRunner_millisSinceLastRepair_(.*)_(.*)_(.*)'' ''runid'' ''${4}'',
      rewrite ''__name__'' ''(.*)_RepairRunner_millisSinceLastRepair_.*'' ''__name__'' ''RepairRunner_millisSinceLastRepair'',
      dropping ''__name__'' ''(.*)_RepairRunner_repairProgress_([^_]+)_([^_]+)$'',
      rewrite ''__name__'' ''(.*)_RepairRunner_repairProgress_(.*)_(.*)_(.*)'' ''cluster'' ''${2}'',
      rewrite ''__name__'' ''(.*)_RepairRunner_repairProgress_(.*)_(.*)_(.*)'' ''keyspace'' ''${3}'',
      rewrite ''__name__'' ''(.*)_RepairRunner_repairProgress_(.*)_(.*)_(.*)'' ''runid'' ''${4}'',
      rewrite ''__name__'' ''.*_RepairRunner_repairProgress_.*'' ''__name__'' ''RepairRunner_repairProgress'',
      rewrite ''__name__'' ''com_datastax_driver_core_Cluster_([^_]+)_(.*)'' ''cluster'' ''${1}'',
      rewrite ''__name__'' ''com_datastax_driver_core_Cluster_([^_]+)_(.*)'' ''metric'' ''${2}'',
      rewrite ''__name__'' ''com_datastax_driver_core_Cluster_.*'' ''__name__'' ''core_Cluster'']"

section \<open>Calls\<close>

definition monitorKey :: "serviceMonitorObject \<Rightarrow> key" where
  "monitorKey m = (smo_namespace m, smo_name m)"

definition monitorKind :: "'w env \<Rightarrow> ('w, serviceMonitorObject) kind" where
  "monitorKind E = \<lparr>kd_get = o_getServiceMonitor (e_objects E), kd_create = o_createServiceMonitor (e_objects E),
     kd_update = o_updateServiceMonitor (e_objects E), kd_getReq = (\<lambda>k. Objects (GetServiceMonitor k)),
     kd_createReq = (\<lambda>m. Objects (CreateServiceMonitor m)), kd_updateReq = (\<lambda>m. Objects (UpdateServiceMonitor m)),
     kd_key = monitorKey\<rparr>"

definition EqualServiceMonitor :: "serviceMonitorObject \<Rightarrow> serviceMonitorObject \<Rightarrow> bool" where
  "EqualServiceMonitor actual desired \<longleftrightarrow> smo_labels actual = smo_labels desired \<and> smo_spec actual = smo_spec desired"

definition applyServiceMonitor :: "'w env \<Rightarrow> serviceMonitorObject \<Rightarrow> ('w, unit) run" where
  "applyServiceMonitor E desiredSM =
     andThen (attempt (call (Objects (GetServiceMonitor (monitorKey desiredSM)))
         (o_getServiceMonitor (e_objects E) (monitorKey desiredSM)))) (\<lambda>r.
       case r of
         Inl e \<Rightarrow>
           if isNotFound e
           then wrapErr ''Unable to create ServiceMonitor''
                  (call (Objects (CreateServiceMonitor desiredSM)) (o_createServiceMonitor (e_objects E) desiredSM))
           else if cause e = NoKindMatch then ret ()
           else raise (Wrap ''Could not get ServiceMonitor'' e)
       | Inr actualSM \<Rightarrow>
           if \<not> EqualServiceMonitor actualSM desiredSM
           then (let new = actualSM\<lparr>smo_spec := smo_spec desiredSM, smo_labels := smo_labels desiredSM\<rparr> in
                 wrapErr ''Unable to update ServiceMonitor''
                   (call (Objects (UpdateServiceMonitor new)) (o_updateServiceMonitor (e_objects E) new)))
           else ret ())"

text \<open>The list has no namespace: it is of all namespaces.\<close>

definition listMonitors :: "'w env \<Rightarrow> cassandraCluster \<Rightarrow> string \<Rightarrow> ('w, serviceMonitorObject list) run" where
  "listMonitors E cc label =
     (let ls = CombinedComponentLabels cc label in
      andThen (attempt (call (Objects (ListServiceMonitors ls)) (o_listServiceMonitors (e_objects E) ls))) (\<lambda>r.
        case r of Inl e \<Rightarrow> if cause e = NoKindMatch then ret [] else raise e | Inr items \<Rightarrow> ret items))"

definition deleteMonitor :: "'w env \<Rightarrow> serviceMonitorObject \<Rightarrow> ('w, unit) run" where
  "deleteMonitor E m = call (Objects (DeleteServiceMonitor m)) (o_deleteServiceMonitor (e_objects E) m)"

definition removeOldServiceMonitors :: "'w env \<Rightarrow> cassandraCluster \<Rightarrow> string \<Rightarrow> string \<Rightarrow> ('w, unit) run" where
  "removeOldServiceMonitors E cc label serviceMonitorNamespace =
     andThen (listMonitors E cc label)
       (forEach (\<lambda>m. if smo_namespace m \<noteq> serviceMonitorNamespace then deleteMonitor E m else ret ()))"

definition removeServiceMonitors :: "'w env \<Rightarrow> cassandraCluster \<Rightarrow> string \<Rightarrow> ('w, unit) run" where
  "removeServiceMonitors E cc label = andThen (listMonitors E cc label) (forEach (deleteMonitor E))"

section \<open>The monitors of a component\<close>

text \<open>What the monitors of the three components have in common; the texts of the code differ only in the name, the labels
  and the endpoint.\<close>

definition monitorNamespace :: "cassandraCluster \<Rightarrow> serviceMonitor \<Rightarrow> string" where
  "monitorNamespace cc sm = (if sm_namespace sm \<noteq> '''' then sm_namespace sm else cc_namespace cc)"

definition cleanupOldMonitors :: "'w env \<Rightarrow> cassandraCluster \<Rightarrow> bool \<Rightarrow> serviceMonitor \<Rightarrow> string \<Rightarrow> ('w, unit) run" where
  "cleanupOldMonitors E cc enabled sm label =
     (if \<not> enabled then removeServiceMonitors E cc label
      else removeOldServiceMonitors E cc label (monitorNamespace cc sm))"

definition monitorObject ::
  "cassandraCluster \<Rightarrow> serviceMonitor \<Rightarrow> string \<Rightarrow> string \<Rightarrow> tree \<Rightarrow> string list \<Rightarrow> serviceMonitorObject" where
  "monitorObject cc sm name label endpoint owners =
     \<lparr>smo_name = name, smo_namespace = monitorNamespace cc sm,
      smo_labels = CombinedComponentLabels cc label ++ sm_labels sm, smo_ownerReferences = owners,
      smo_spec = Object [
        ''selector'' \<mapsto> Object [''matchLabels'' \<mapsto> Object (\<lambda>k. map_option Text (ComponentLabels cc label k))],
        ''endpoints'' \<mapsto> Sequence [endpoint],
        ''namespaceSelector'' \<mapsto> Object [''matchNames'' \<mapsto> textSeq [cc_namespace cc]]]\<rparr>"

text \<open>An owner in another namespace is not possible.\<close>

definition monitorOwners :: "'w env \<Rightarrow> cassandraCluster \<Rightarrow> serviceMonitor \<Rightarrow> go_error + string list" where
  "monitorOwners E cc sm = (if sm_namespace sm = '''' then e_controllerReference E cc else Inr [])"

definition reconcileMonitor ::
  "'w env \<Rightarrow> cassandraCluster \<Rightarrow> bool \<Rightarrow> serviceMonitor \<Rightarrow> string \<Rightarrow> (go_error + serviceMonitorObject) \<Rightarrow> ('w, unit) run" where
  "reconcileMonitor E cc enabled sm label m =
     andThen (cleanupOldMonitors E cc enabled sm label) (\<lambda>_.
       if \<not> enabled then ret ()
       else andThen
         (if sm_namespace sm \<noteq> ''''
          then andThen (attempt (call (Objects (GetNamespace (sm_namespace sm)))
                  (o_getNamespace (e_objects E) (sm_namespace sm)))) (\<lambda>r.
                 case r of Inl e \<Rightarrow> if isNotFound e then ret False else raise e | Inr _ \<Rightarrow> ret True)
          else ret True) (\<lambda>exists.
         if \<not> exists then ret () else andThen (lift m) (applyServiceMonitor E)))"

definition createCassandraServiceMonitor :: "'w env \<Rightarrow> cassandraCluster \<Rightarrow> cassandra \<Rightarrow> go_error + serviceMonitorObject" where
  "createCassandraServiceMonitor E cc cas =
     (let sm = mon_serviceMonitor (cas_monitoring cas);
          relabelings = getCassandraServiceMonitorRelabelings cas;
          metricRelabelings = getCassandraServiceMonitorMetricRelabelings cas in
      bindE (monitorOwners E cc sm) (\<lambda>owners. Inr (monitorObject cc sm (cc_name cc) ComponentCassandra
        (Object (setUnless (length metricRelabelings = 0) ''metricRelabelings'' (Sequence metricRelabelings)
          (setUnless (length relabelings = 0) ''relabelings'' (Sequence relabelings)
            [''port'' \<mapsto> Text ''agent'', ''interval'' \<mapsto> Text (sm_scrapeInterval sm)]))) owners)))"

definition reconcileCassandraServiceMonitor :: "'w env \<Rightarrow> cassandraCluster \<Rightarrow> ('w, unit) run" where
  "reconcileCassandraServiceMonitor E cc =
     andThen (lift (deref (cassandraSpec (cc_spec cc)))) (\<lambda>cas.
       let mon = cas_monitoring cas in
       reconcileMonitor E cc (mon_enabled mon \<and> sm_enabled (mon_serviceMonitor mon)) (mon_serviceMonitor mon) ComponentCassandra
         (createCassandraServiceMonitor E cc cas))"

definition createProberServiceMonitor :: "'w env \<Rightarrow> cassandraCluster \<Rightarrow> go_error + serviceMonitorObject" where
  "createProberServiceMonitor E cc =
     (let sm = prb_serviceMonitor (proberOf (cc_spec cc)) in
      bindE (monitorOwners E cc sm) (\<lambda>owners. Inr (monitorObject cc sm (ProberService (cc_name cc)) ComponentProber
        (Object [''port'' \<mapsto> Text ''prober'', ''path'' \<mapsto> Text ''/metrics'', ''interval'' \<mapsto> Text (sm_scrapeInterval sm)]) owners)))"

definition reconcileProberServiceMonitor :: "'w env \<Rightarrow> cassandraCluster \<Rightarrow> ('w, unit) run" where
  "reconcileProberServiceMonitor E cc =
     (let sm = prb_serviceMonitor (proberOf (cc_spec cc)) in
      reconcileMonitor E cc (sm_enabled sm) sm ComponentProber (createProberServiceMonitor E cc))"

definition createReaperServiceMonitor :: "'w env \<Rightarrow> cassandraCluster \<Rightarrow> reaper \<Rightarrow> go_error + serviceMonitorObject" where
  "createReaperServiceMonitor E cc rea =
     (let sm = rea_serviceMonitor rea in
      bindE (monitorOwners E cc sm) (\<lambda>owners. Inr (monitorObject cc sm (ReaperService (cc_name cc)) ComponentReaper
        (Object [''port'' \<mapsto> Text ''admin'', ''path'' \<mapsto> Text ''/prometheusMetrics'', ''interval'' \<mapsto> Text (sm_scrapeInterval sm),
           ''metricRelabelings'' \<mapsto> Sequence getReaperServiceMonitorMetricRelabelings]) owners)))"

definition reconcileReaperServiceMonitor :: "'w env \<Rightarrow> cassandraCluster \<Rightarrow> ('w, unit) run" where
  "reconcileReaperServiceMonitor E cc =
     andThen (lift (deref (reaperSpec (cc_spec cc)))) (\<lambda>rea.
       reconcileMonitor E cc (sm_enabled (rea_serviceMonitor rea)) (rea_serviceMonitor rea) ComponentReaper
         (createReaperServiceMonitor E cc rea))"


section \<open>Properties\<close>

text \<open>What the API server promises: the list is of all namespaces and has exactly the monitors with the labels.\<close>

definition monitorApi :: "'w env \<Rightarrow> ('w \<Rightarrow> key \<rightharpoonup> serviceMonitorObject) \<Rightarrow> bool" where
  "monitorApi E store \<longleftrightarrow> kindApi (monitorKind E) store \<and>
     (\<forall>ls w. store (snd (o_listServiceMonitors (e_objects E) ls w)) = store w \<and>
        (\<forall>items. fst (o_listServiceMonitors (e_objects E) ls w) = Inr items \<longrightarrow>
          set items = {m \<in> ran (store w). ls \<subseteq>\<^sub>m smo_labels m})) \<and>
     (\<forall>m w. store (snd (o_deleteServiceMonitor (e_objects E) m w)) =
        (if fst (o_deleteServiceMonitor (e_objects E) m w) = Inr () then (store w)(monitorKey m := None) else store w)) \<and>
     (\<forall>n w. store (snd (o_getNamespace (e_objects E) n w)) = store w)"

text \<open>The Prometheus operator is installed, so that the server knows the kind.\<close>

definition monitorsInstalled :: "'w env \<Rightarrow> bool" where
  "monitorsInstalled E \<longleftrightarrow>
     (\<forall>ls w e. fst (o_listServiceMonitors (e_objects E) ls w) = Inl e \<longrightarrow> cause e \<noteq> NoKindMatch) \<and>
     (\<forall>k w e. fst (o_getServiceMonitor (e_objects E) k w) = Inl e \<longrightarrow> cause e \<noteq> NoKindMatch)"

lemma monitorApi_simps:
  assumes "monitorApi E store"
  shows "kindApi (monitorKind E) store" "store (snd (o_listServiceMonitors (e_objects E) ls w)) = store w"
    "fst (o_listServiceMonitors (e_objects E) ls w) = Inr items \<Longrightarrow> set items = {m \<in> ran (store w). ls \<subseteq>\<^sub>m smo_labels m}"
    "store (snd (o_deleteServiceMonitor (e_objects E) m w)) =
        (if fst (o_deleteServiceMonitor (e_objects E) m w) = Inr () then (store w)(monitorKey m := None) else store w)"
    "store (snd (o_getNamespace (e_objects E) n w)) = store w"
  using assms unfolding monitorApi_def by blast+

lemma monitor_key: "monitorApi E store \<Longrightarrow> store w k = Some m \<Longrightarrow> k = monitorKey m"
  using kindApi_key [OF monitorApi_simps(1)] by (fastforce simp: monitorKind_def)

lemma delete_run:
  "monitorApi E store \<Longrightarrow> yields (deleteMonitor E m) w () v \<Longrightarrow> store v = (store w)(monitorKey m := None)"
  using monitorApi_simps(4) [of E store m w] by (auto simp: deleteMonitor_def yields_def)

lemma deletes_run:
  assumes api: "monitorApi E store"
  shows "yields (forEach (\<lambda>m. if p m then deleteMonitor E m else ret ()) items) w () v \<Longrightarrow>
    store v = store w |` (- monitorKey ` {m \<in> set items. p m})"
proof (induction items arbitrary: w)
  case (Cons m items)
  then obtain u where u: "yields (if p m then deleteMonitor E m else ret ()) w () u"
    "yields (forEach (\<lambda>m. if p m then deleteMonitor E m else ret ()) items) u () v"
    by (auto simp: yields_def split: sum.splits)
  from Cons.IH [OF u(2)] u(1) show ?case
    by (cases "p m") (auto simp: yields_simps restrict_map_def fun_eq_iff delete_run [OF api])
qed (simp add: yields_simps yields_def restrict_map_def)

lemma list_run:
  assumes "monitorApi E store" "monitorsInstalled E" "yields (listMonitors E cc label) w items u"
  shows "store u = store w \<and> set items = {m \<in> ran (store w). CombinedComponentLabels cc label \<subseteq>\<^sub>m smo_labels m}"
  using assms(2,3) monitorApi_simps(2,3) [OF assms(1), of "CombinedComponentLabels cc label" w]
  by (auto simp: listMonitors_def Let_def yields_simps monitorsInstalled_def)

text \<open>What is left by the clean-up: the monitors without the labels of the component, and, if the monitor is wanted, those
  in its namespace.\<close>

lemma cleanup_run:
  assumes api: "monitorApi E store" "monitorsInstalled E"
    and run: "yields (cleanupOldMonitors E cc enabled sm label) w () v"
  shows "store v = (\<lambda>k. case store w k of None \<Rightarrow> None
     | Some m \<Rightarrow> if CombinedComponentLabels cc label \<subseteq>\<^sub>m smo_labels m \<and> (enabled \<longrightarrow> smo_namespace m \<noteq> monitorNamespace cc sm)
                then None else Some m)"
proof -
  let ?p = "\<lambda>m. enabled \<longrightarrow> smo_namespace m \<noteq> monitorNamespace cc sm"
  have "cleanupOldMonitors E cc enabled sm label = andThen (listMonitors E cc label)
    (forEach (\<lambda>m. if ?p m then deleteMonitor E m else ret ()))"
    by (simp add: cleanupOldMonitors_def removeServiceMonitors_def removeOldServiceMonitors_def)
  with run obtain items u where u: "yields (listMonitors E cc label) w items u"
    "yields (forEach (\<lambda>m. if ?p m then deleteMonitor E m else ret ()) items) u () v"
    by (auto simp: yields_simps)
  note l = list_run [OF api u(1)] and d = deletes_run [OF api(1) u(2)]
  show ?thesis
  proof
    fix k
    show "store v k = (case store w k of None \<Rightarrow> None
     | Some m \<Rightarrow> if CombinedComponentLabels cc label \<subseteq>\<^sub>m smo_labels m \<and> ?p m then None else Some m)"
    proof (cases "store w k")
      case None
      with l d show ?thesis by (auto simp: restrict_map_def)
    next
      case (Some m)
      have "k \<in> monitorKey ` {m \<in> set items. ?p m} \<longleftrightarrow> CombinedComponentLabels cc label \<subseteq>\<^sub>m smo_labels m \<and> ?p m" (is "?deleted = _")
      proof
        assume ?deleted
        with l obtain m' k' where "store w k' = Some m'" "k = monitorKey m'" "?p m'" "CombinedComponentLabels cc label \<subseteq>\<^sub>m smo_labels m'"
          by (auto simp: ran_def)
        with Some monitor_key [OF api(1)] show "CombinedComponentLabels cc label \<subseteq>\<^sub>m smo_labels m \<and> ?p m" by fastforce
      next
        assume "CombinedComponentLabels cc label \<subseteq>\<^sub>m smo_labels m \<and> ?p m"
        with Some l monitor_key [OF api(1) Some] show ?deleted by (intro image_eqI [of _ _ m]) (auto intro: ranI)
      qed
      with Some l d show ?thesis by (auto simp: restrict_map_def)
    qed
  qed
qed

lemma apply_run:
  assumes api: "monitorApi E store" "monitorsInstalled E" and run: "yields (applyServiceMonitor E d) w () v"
  shows "\<exists>m. store v = (store w)(monitorKey d \<mapsto> m) \<and> smo_labels m = smo_labels d \<and> smo_spec m = smo_spec d"
proof -
  let ?g = "o_getServiceMonitor (e_objects E) (monitorKey d) w"
  have kind: "kd_get (monitorKind E) = o_getServiceMonitor (e_objects E)" "kd_create (monitorKind E) = o_createServiceMonitor (e_objects E)"
    "kd_update (monitorKind E) = o_updateServiceMonitor (e_objects E)" "kd_key (monitorKind E) = monitorKey"
    by (simp_all add: monitorKind_def)
  note api' = monitorApi_simps(1) [OF api(1)]
  have get: "store (snd ?g) = store w" using kindApi_get [OF api'] by (simp add: kind)
  show ?thesis
  proof (cases "fst ?g")
    case (Inl e)
    with run api(2) have "yields (call (Objects (CreateServiceMonitor d)) (o_createServiceMonitor (e_objects E) d)) (snd ?g) () v"
      by (auto simp: applyServiceMonitor_def monitorsInstalled_def yields_simps simp del: split_paired_All split: if_splits)
    with kindApi_write(1) [OF api', of d "snd ?g"] get show ?thesis by (auto simp: yields_def kind split: if_splits)
  next
    case (Inr a)
    with kindApi_found [OF api', of "monitorKey d" w a] have a: "store w (monitorKey d) = Some a" by (simp add: kind)
    with monitor_key [OF api(1)] have k: "monitorKey a = monitorKey d" by simp
    show ?thesis
    proof (cases "EqualServiceMonitor a d")
      case True
      with Inr run have "v = snd ?g" by (auto simp: applyServiceMonitor_def yields_simps)
      with True a get show ?thesis by (intro exI [of _ a]) (auto simp: EqualServiceMonitor_def)
    next
      case False
      let ?n = "a\<lparr>smo_spec := smo_spec d, smo_labels := smo_labels d\<rparr>"
      from False Inr run have "yields (call (Objects (UpdateServiceMonitor ?n)) (o_updateServiceMonitor (e_objects E) ?n)) (snd ?g) () v"
        by (auto simp: applyServiceMonitor_def Let_def yields_simps)
      moreover have "monitorKey ?n = monitorKey d" using k by (simp add: monitorKey_def)
      ultimately show ?thesis
        using kindApi_write(2) [OF api', of ?n "snd ?g"] get by (intro exI [of _ ?n]) (auto simp: yields_def kind split: if_splits)
    qed
  qed
qed

text \<open>The state after a successful pass: a wanted monitor is there, unless its namespace is missing.\<close>

lemma reconcileMonitor_run [consumes 4, case_names off missing written]:
  assumes api: "monitorApi E store" "monitorsInstalled E"
    and run: "yields (reconcileMonitor E cc enabled sm label d) w () v"
    and d: "\<forall>x. d = Inr x \<longrightarrow> smo_namespace x = monitorNamespace cc sm"
  obtains (off) "\<not> enabled" "store v = (\<lambda>k. case store w k of None \<Rightarrow> None
     | Some m \<Rightarrow> if CombinedComponentLabels cc label \<subseteq>\<^sub>m smo_labels m then None else Some m)"
  | (missing) "enabled" "sm_namespace sm \<noteq> ''''" "store v = (\<lambda>k. case store w k of None \<Rightarrow> None
     | Some m \<Rightarrow> if CombinedComponentLabels cc label \<subseteq>\<^sub>m smo_labels m \<and> smo_namespace m \<noteq> monitorNamespace cc sm then None else Some m)"
  | (written) x m where "enabled" "d = Inr x" "smo_labels m = smo_labels x" "smo_spec m = smo_spec x"
     "store v = (\<lambda>k. case store w k of None \<Rightarrow> None
     | Some m \<Rightarrow> if CombinedComponentLabels cc label \<subseteq>\<^sub>m smo_labels m \<and> smo_namespace m \<noteq> monitorNamespace cc sm then None else Some m)
       (monitorKey x \<mapsto> m)"
proof -
  from run obtain u where u: "yields (cleanupOldMonitors E cc enabled sm label) w () u"
    and rest: "yields (if \<not> enabled then ret () else andThen
         (if sm_namespace sm \<noteq> ''''
          then andThen (attempt (call (Objects (GetNamespace (sm_namespace sm)))
                  (o_getNamespace (e_objects E) (sm_namespace sm)))) (\<lambda>r.
                 case r of Inl e \<Rightarrow> if isNotFound e then ret False else raise e | Inr _ \<Rightarrow> ret True)
          else ret True) (\<lambda>exists.
         if \<not> exists then ret () else andThen (lift d) (applyServiceMonitor E))) u () v"
    unfolding reconcileMonitor_def by (auto simp: yields_simps)
  note clean = cleanup_run [OF api u]
  show thesis
  proof (cases enabled)
    case False
    then have e: "enabled = False" by simp
    from rest have "v = u" unfolding e by (simp add: yields_simps)
    then show thesis using clean unfolding e simp_thms by (intro off [OF False]) simp
  next
    case True
    then have e: "enabled = True" by simp
    note clean = clean [unfolded e simp_thms]
    let ?ns = "if sm_namespace sm \<noteq> ''''
          then andThen (attempt (call (Objects (GetNamespace (sm_namespace sm)))
                  (o_getNamespace (e_objects E) (sm_namespace sm)))) (\<lambda>r.
                 case r of Inl e \<Rightarrow> if isNotFound e then ret False else raise e | Inr _ \<Rightarrow> ret True)
          else ret True"
    from True rest obtain exists u' where ns: "yields ?ns u exists u'"
      and put: "yields (if \<not> exists then ret () else andThen (lift d) (applyServiceMonitor E)) u' () v"
      by (simp add: yields_andThen del: if_split) blast
    have st: "store u' = store u" and ex: "exists \<or> sm_namespace sm \<noteq> ''''"
      using ns monitorApi_simps(5) [OF api(1)] by (auto simp: yields_simps split: if_splits)
    show thesis
    proof (cases exists)
      case False
      with ex put st True clean show thesis by (intro missing) (auto simp: yields_simps)
    next
      case e: True
      with put obtain x where x: "d = Inr x" "yields (applyServiceMonitor E x) u' () v"
        by (auto simp: yields_simps)
      from apply_run [OF api x(2)] obtain m where "store v = (store u')(monitorKey x \<mapsto> m)" "smo_labels m = smo_labels x"
        "smo_spec m = smo_spec x" by blast
      with x(1) True clean st show thesis by (intro written [of x m]) auto
    qed
  qed
qed

text \<open>After a successful pass over the monitor of the Cassandra pods: if it is wanted, no monitor with the labels of the
  component is left outside the namespace chosen for it, and, unless that namespace is missing, there is one in it with
  the desired labels and specification; if it is not wanted, none is left in any namespace.\<close>

theorem monitors_only_where_wanted:
  assumes "monitorApi E store" "monitorsInstalled E" "cassandraSpec (cc_spec cc) = Some cas"
    and "result (reconcileCassandraServiceMonitor E cc) w = Inr ()" "w' = world (reconcileCassandraServiceMonitor E cc) w"
    and "sm = mon_serviceMonitor (cas_monitoring cas)" "wanted \<longleftrightarrow> mon_enabled (cas_monitoring cas) \<and> sm_enabled sm"
  shows "(\<forall>k m. store w' k = Some m \<and> CombinedComponentLabels cc ComponentCassandra \<subseteq>\<^sub>m smo_labels m \<longrightarrow>
      wanted \<and> fst k = monitorNamespace cc sm) \<and>
    (wanted \<and> sm_namespace sm = '''' \<longrightarrow> (\<exists>d m. createCassandraServiceMonitor E cc cas = Inr d \<and>
      store w' (cc_namespace cc, cc_name cc) = Some m \<and> smo_labels m = smo_labels d \<and> smo_spec m = smo_spec d))"
proof -
  have run: "yields (reconcileMonitor E cc wanted sm ComponentCassandra (createCassandraServiceMonitor E cc cas)) w () w'"
    using assms(3-7) by (auto simp: reconcileCassandraServiceMonitor_def Let_def yields_def)
  have d: "smo_namespace x = monitorNamespace cc sm" "smo_name x = cc_name cc" if "createCassandraServiceMonitor E cc cas = Inr x" for x
    using that by (auto simp: createCassandraServiceMonitor_def Let_def bindE_Inr_iff monitorObject_def assms(6))
  then have ns: "\<forall>x. createCassandraServiceMonitor E cc cas = Inr x \<longrightarrow> smo_namespace x = monitorNamespace cc sm" by simp
  have k: "fst k = smo_namespace m" if "store w k = Some m" for k m
    using monitor_key [OF assms(1) that] by (simp add: monitorKey_def)
  from assms(1,2) run ns show ?thesis
  proof (cases rule: reconcileMonitor_run)
    case off
    then show ?thesis by (auto split: option.splits if_splits)
  next
    case missing
    then show ?thesis using k by (auto split: option.splits if_splits)
  next
    case (written x m)
    have "monitorKey x = (monitorNamespace cc sm, cc_name cc)" using d [OF written(2)] by (simp add: monitorKey_def)
    then show ?thesis using written k by (auto simp: monitorNamespace_def split: option.splits if_splits)
  qed
qed

text \<open>Clusters of the same name in two namespaces delete each other's monitors: the labels that decide what is old name
  the cluster but not its namespace, so once the second cluster has been reconciled the monitor that the first one has
  just created is gone.\<close>

theorem same_name_clusters_fight:
  assumes "monitorApi E store" "monitorsInstalled E"
    and "cc_name cc2 = cc_name cc1" "cc_labels cc2 = cc_labels cc1" "cc_namespace cc2 \<noteq> cc_namespace cc1"
    and "cassandraSpec (cc_spec cc1) = Some cas" "cassandraSpec (cc_spec cc2) = Some cas"
    and "mon_enabled (cas_monitoring cas)" "sm_enabled (mon_serviceMonitor (cas_monitoring cas))"
    and "sm_namespace (mon_serviceMonitor (cas_monitoring cas)) = ''''" "sm_labels (mon_serviceMonitor (cas_monitoring cas)) = Map.empty"
    and "result (reconcileCassandraServiceMonitor E cc1) w = Inr ()" "v = world (reconcileCassandraServiceMonitor E cc1) w"
    and "result (reconcileCassandraServiceMonitor E cc2) v = Inr ()" "u = world (reconcileCassandraServiceMonitor E cc2) v"
  shows "store v (cc_namespace cc1, cc_name cc1) \<noteq> None \<and> store u (cc_namespace cc1, cc_name cc1) = None"
proof -
  let ?sm = "mon_serviceMonitor (cas_monitoring cas)"
  have run: "yields (reconcileMonitor E cc1 True ?sm ComponentCassandra (createCassandraServiceMonitor E cc1 cas)) w () v"
    "yields (reconcileMonitor E cc2 True ?sm ComponentCassandra (createCassandraServiceMonitor E cc2 cas)) v () u"
    using assms(6-15) by (auto simp: reconcileCassandraServiceMonitor_def Let_def yields_def)
  have d: "smo_namespace x = monitorNamespace cc ?sm" "smo_name x = cc_name cc"
    "smo_labels x = CombinedComponentLabels cc ComponentCassandra"
    if "createCassandraServiceMonitor E cc cas = Inr x" for cc x
    using that assms(11) by (auto simp: createCassandraServiceMonitor_def Let_def bindE_Inr_iff monitorObject_def)
  have nsd: "\<forall>x. createCassandraServiceMonitor E cc cas = Inr x \<longrightarrow> smo_namespace x = monitorNamespace cc ?sm" for cc
    by (simp add: d(1))
  have ns: "monitorNamespace cc ?sm = cc_namespace cc" for cc by (simp add: monitorNamespace_def assms(10))
  have same: "CombinedComponentLabels cc2 c = CombinedComponentLabels cc1 c" for c
    by (simp add: CombinedComponentLabels_def InheritLabels_def ComponentLabels_def assms(3,4))
  obtain x m where x: "createCassandraServiceMonitor E cc1 cas = Inr x" "smo_labels m = smo_labels x"
    "store v (monitorKey x) = Some m"
    by (rule reconcileMonitor_run [OF assms(1,2) run(1) nsd]) (auto simp: assms(10))
  have kx: "monitorKey x = (cc_namespace cc1, cc_name cc1)" using d [OF x(1)] by (simp add: monitorKey_def ns)
  have m: "smo_namespace m = cc_namespace cc1" "CombinedComponentLabels cc2 ComponentCassandra \<subseteq>\<^sub>m smo_labels m"
    using monitor_key [OF assms(1) x(3)] kx x(2) d(3) [OF x(1)] by (auto simp: monitorKey_def same)
  from assms(1,2) run(2) nsd have "store u (cc_namespace cc1, cc_name cc1) = None"
  proof (cases rule: reconcileMonitor_run)
    case (written y m')
    have "monitorKey y = (cc_namespace cc2, cc_name cc2)" using d [OF written(2)] by (simp add: monitorKey_def ns)
    then show ?thesis using written(5) m x(3) assms(5) by (simp add: kx ns)
  qed (simp_all add: assms(10))
  with x(3) kx show ?thesis by simp
qed


section \<open>Examples\<close>

text \<open>A server whose state is the list of its monitors, the last written first.\<close>

definition monitorsOf :: "serviceMonitorObject list \<Rightarrow> key \<rightharpoonup> serviceMonitorObject" where
  "monitorsOf w k = find (\<lambda>m. monitorKey m = k) w"

definition monitorServer :: "serviceMonitorObject list env" where
  "monitorServer = quietEnv\<lparr>e_objects := (e_objects quietEnv)\<lparr>
     o_getServiceMonitor := (\<lambda>k w. (answer (monitorsOf w k), w)),
     o_createServiceMonitor := (\<lambda>m w. (Inr (), m # w)), o_updateServiceMonitor := (\<lambda>m w. (Inr (), m # w)),
     o_deleteServiceMonitor := (\<lambda>m w. (Inr (), filter (\<lambda>x. monitorKey x \<noteq> monitorKey m) w)),
     o_listServiceMonitors := (\<lambda>ls w. (Inr (filter (\<lambda>m. monitorsOf w (monitorKey m) = Some m \<and> ls \<subseteq>\<^sub>m smo_labels m) w), w))\<rparr>\<rparr>"

lemma monitorsOf_Some: "monitorsOf w k = Some m \<Longrightarrow> m \<in> set w \<and> monitorKey m = k"
  by (auto simp: monitorsOf_def find_Some_iff)

lemma monitorsOf_Cons: "monitorsOf (m # w) = (monitorsOf w)(monitorKey m \<mapsto> m)"
  by (auto simp: monitorsOf_def fun_eq_iff)

lemma monitorsOf_delete: "monitorsOf (filter (\<lambda>x. monitorKey x \<noteq> k) w) = (monitorsOf w)(k := None)"
proof
  fix k'
  show "monitorsOf (filter (\<lambda>x. monitorKey x \<noteq> k) w) k' = ((monitorsOf w)(k := None)) k'"
    by (induction w) (auto simp: monitorsOf_def)
qed

lemma monitorsOf_list:
  "set (filter (\<lambda>m. monitorsOf w (monitorKey m) = Some m \<and> P m) w) = {m \<in> ran (monitorsOf w). P m}"
proof -
  have "\<exists>k. monitorsOf w k = Some m" if "monitorsOf w (monitorKey m) = Some m" for m using that by blast
  then show ?thesis using monitorsOf_Some by (auto simp: ran_def simp del: split_paired_Ex split_paired_All)
qed

lemma monitorServer_calls:
  "o_getServiceMonitor (e_objects monitorServer) = (\<lambda>k w. (answer (monitorsOf w k), w))"
  "o_createServiceMonitor (e_objects monitorServer) = (\<lambda>m w. (Inr (), m # w))"
  "o_updateServiceMonitor (e_objects monitorServer) = (\<lambda>m w. (Inr (), m # w))"
  "o_deleteServiceMonitor (e_objects monitorServer) = (\<lambda>m w. (Inr (), filter (\<lambda>x. monitorKey x \<noteq> monitorKey m) w))"
  "o_listServiceMonitors (e_objects monitorServer) =
     (\<lambda>ls w. (Inr (filter (\<lambda>m. monitorsOf w (monitorKey m) = Some m \<and> ls \<subseteq>\<^sub>m smo_labels m) w), w))"
  "o_getNamespace (e_objects monitorServer) = (\<lambda>n w. (Inl NotFound, w))"
  "e_controllerReference monitorServer cc = Inr [cc_name cc]"
  by (simp_all add: monitorServer_def quietEnv_def quietObjects_def)

lemma monitorServer_api: "monitorApi monitorServer monitorsOf" "monitorsInstalled monitorServer"
proof -
  have "kindApi (monitorKind monitorServer) monitorsOf"
    unfolding kindApi_def using monitorsOf_Some
    by (auto simp: monitorKind_def monitorServer_calls answer_cases monitorsOf_Cons simp del: fun_upd_apply split_paired_All)
  then show "monitorApi monitorServer monitorsOf"
    unfolding monitorApi_def monitorServer_calls fst_conv snd_conv monitorsOf_delete using monitorsOf_list
    by (auto simp del: fun_upd_apply split_paired_All set_filter)
qed (auto simp: monitorsInstalled_def monitorServer_calls dest: answer_Inl)

lemma monitorServer_succeeds:
  "result (reconcileMonitor monitorServer cc b sm label (Inr d)) w = Inr ()"
proof -
  have del: "result (forEach (deleteMonitor monitorServer) ms) v = Inr ()"
    "result (forEach (\<lambda>m. if p m then deleteMonitor monitorServer m else ret ()) ms) v = Inr ()" for ms v p
    by (induction ms arbitrary: v) (auto simp: deleteMonitor_def monitorServer_calls)
  have put: "result (applyServiceMonitor monitorServer d) v = Inr ()" for v
    by (cases "monitorsOf v (monitorKey d)")
      (auto simp: applyServiceMonitor_def monitorServer_calls answer_def isNotFound_def Let_def)
  have "result (cleanupOldMonitors monitorServer cc b sm label) w = Inr ()"
    unfolding cleanupOldMonitors_def removeServiceMonitors_def removeOldServiceMonitors_def listMonitors_def Let_def
    by (simp add: del monitorServer_calls)
  then show ?thesis
    by (simp add: reconcileMonitor_def put monitorServer_calls isNotFound_def)
qed

definition monitoredCassandra :: cassandra where
  "monitoredCassandra = sampleCassandra\<lparr>cas_monitoring := \<lparr>mon_enabled = True, mon_agent = CassandraAgentTlp,
     mon_serviceMonitor = \<lparr>sm_enabled = True, sm_namespace = '''', sm_labels = Map.empty, sm_scrapeInterval = ''30s''\<rparr>\<rparr>\<rparr>"

definition monitoredCluster :: "string \<Rightarrow> cassandraCluster" where
  "monitoredCluster ns = plainCluster\<lparr>cc_namespace := ns, cc_spec := (cc_spec plainCluster)\<lparr>cassandraSpec := Some monitoredCassandra\<rparr>\<rparr>"

lemma monitored_succeeds: "result (reconcileCassandraServiceMonitor monitorServer (monitoredCluster ns)) w = Inr ()"
proof -
  obtain d where "createCassandraServiceMonitor monitorServer (monitoredCluster ns) monitoredCassandra = Inr d"
    by (simp add: createCassandraServiceMonitor_def Let_def monitorOwners_def monitorServer_calls monitoredCassandra_def)
  then show ?thesis
    by (simp add: reconcileCassandraServiceMonitor_def monitoredCluster_def monitorServer_succeeds Let_def)
qed

theorem monitors_only_where_wanted_witness:
  "\<exists>m. monitorsOf (world (reconcileCassandraServiceMonitor monitorServer (monitoredCluster ''a'')) []) (''a'', ''c'') = Some m \<and>
     smo_labels m ClusterInstanceLabel = Some ''c''"
proof -
  have "cassandraSpec (cc_spec (monitoredCluster ''a'')) = Some monitoredCassandra" by (simp add: monitoredCluster_def)
  from monitors_only_where_wanted [OF monitorServer_api this monitored_succeeds refl refl refl, of "[]"]
  obtain d m where dm: "createCassandraServiceMonitor monitorServer (monitoredCluster ''a'') monitoredCassandra = Inr d"
    "monitorsOf (world (reconcileCassandraServiceMonitor monitorServer (monitoredCluster ''a'')) [])
      (cc_namespace (monitoredCluster ''a''), cc_name (monitoredCluster ''a'')) = Some m" "smo_labels m = smo_labels d"
    by (auto simp: monitoredCassandra_def)
  from dm(1) have "smo_labels d ClusterInstanceLabel = Some ''c''"
    by (auto simp: createCassandraServiceMonitor_def Let_def bindE_Inr_iff monitorObject_def monitoredCassandra_def
        CombinedComponentLabels_def ComponentLabels_def monitoredCluster_def ClusterInstanceLabel_def ClusterComponentLabel_def)
  with dm(2,3) show ?thesis by (simp add: monitoredCluster_def)
qed

theorem same_name_clusters_fight_witness:
  "monitorsOf (world (reconcileCassandraServiceMonitor monitorServer (monitoredCluster ''a'')) []) (''a'', ''c'') \<noteq> None \<and>
   monitorsOf (world (reconcileCassandraServiceMonitor monitorServer (monitoredCluster ''b''))
     (world (reconcileCassandraServiceMonitor monitorServer (monitoredCluster ''a'')) [])) (''a'', ''c'') = None"
proof -
  have 1: "cc_name (monitoredCluster ''b'') = cc_name (monitoredCluster ''a'')"
    "cc_labels (monitoredCluster ''b'') = cc_labels (monitoredCluster ''a'')"
    "cc_namespace (monitoredCluster ''b'') \<noteq> cc_namespace (monitoredCluster ''a'')"
    "cassandraSpec (cc_spec (monitoredCluster ns)) = Some monitoredCassandra" for ns
    by (simp_all add: monitoredCluster_def)
  have 2: "mon_enabled (cas_monitoring monitoredCassandra)" "sm_enabled (mon_serviceMonitor (cas_monitoring monitoredCassandra))"
    "sm_namespace (mon_serviceMonitor (cas_monitoring monitoredCassandra)) = ''''"
    "sm_labels (mon_serviceMonitor (cas_monitoring monitoredCassandra)) = Map.empty"
    by (simp_all add: monitoredCassandra_def)
  from same_name_clusters_fight [OF monitorServer_api 1(1-3) 1(4) 1(4) 2 monitored_succeeds refl monitored_succeeds refl, of "[]"]
  show ?thesis by (simp add: monitoredCluster_def)
qed

end
