(* ===== verification/Prober_Workload.thy ===== *)
theory Prober_Workload
  imports Service_Monitors Rbac
begin

text \<open>
  The prober as a workload: its deployment, service, ingress and what belongs to them, \<open>controllers/prober.go\<close> and
  \<open>controllers/prober_ingress.go\<close>. The pod has two containers, the prober and the Jolokia proxy through which the prober
  and the operator ask the Cassandra nodes.
  The lemmas say whether the service reaches the pod, and which of its ports the network policies leave open.
\<close>

section \<open>Containers\<close>

definition httpProbe :: "string \<Rightarrow> string \<Rightarrow> int \<Rightarrow> probe" where
  "httpProbe port path delay = \<lparr>pr_handler = HTTPGet (FromString port) path ''HTTP'', pr_initialDelaySeconds = delay,
     pr_timeoutSeconds = 1, pr_periodSeconds = 10, pr_successThreshold = 1, pr_failureThreshold = 3\<rparr>"

definition proberContainer :: "cassandraCluster \<Rightarrow> container" where
  "proberContainer cc =
     (let p = proberOf (cc_spec cc);
          adminSecret = (if jmxAuth (cc_spec cc) = jmxAuthenticationLocalFiles then adminRoleSecretName (cc_spec cc)
                         else ActiveAdminSecret (cc_name cc)) in
      \<lparr>co_name = ''prober'', co_image = prb_image p, co_imagePullPolicy = prb_imagePullPolicy p, co_command = [], co_args = [],
       co_workingDir = ''/'',
       co_env = [fieldEnv ''POD_NAMESPACE'' ''metadata.namespace'', valueEnv ''LOGLEVEL'' (prb_logLevel p),
         valueEnv ''LOGFORMAT'' (prb_logFormat p), valueEnv ''JOLOKIA_PORT'' (itoa JolokiaContainerPort),
         valueEnv ''SERVER_PORT'' (itoa ProberContainerPort), valueEnv ''JMX_POLLING_INTERVAL'' ''10s'',
         valueEnv ''JMX_PORT'' (itoa JmxPort), valueEnv ''ADMIN_SECRET_NAME'' adminSecret,
         valueEnv ''BASE_ADMIN_SECRET_NAME'' (adminRoleSecretName (cc_spec cc))],
       co_resources = SpecResources (prb_resources p), co_livenessProbe = None,
       co_readinessProbe = Some (httpProbe ''prober-server'' ''/ping'' 0), co_preStop = None, co_volumeMounts = [],
       co_ports = [tcpPort ''prober-server'' ProberContainerPort], co_securityContext = None,
       co_terminationMessagePath = terminationLog, co_terminationMessagePolicy = terminationFile\<rparr>)"

definition jolokiaContainer :: "cassandraCluster \<Rightarrow> secret \<Rightarrow> container" where
  "jolokiaContainer cc clientTLSSecret =
     (let j = prb_jolokia (proberOf (cc_spec cc)) in
      \<lparr>co_name = ''jolokia'', co_image = jol_image j, co_imagePullPolicy = jol_imagePullPolicy j, co_command = [], co_args = [],
       co_workingDir = '''',
       co_env = (if ce_enabled (clientTLS cc) then [valueEnv ''CATALINA_OPTS'' (tlsJVMArgs cc clientTLSSecret)] else []),
       co_resources = SpecResources (jol_resources j), co_livenessProbe = None,
       co_readinessProbe = Some (httpProbe ''jolokia'' ''/jolokia'' 0), co_preStop = None,
       co_volumeMounts = (if ce_enabled (clientTLS cc) then [volMount cassandraClientTLSVolumeName cassandraClientTLSDir] else []),
       co_ports = [tcpPort ''jolokia'' JolokiaContainerPort], co_securityContext = None,
       co_terminationMessagePath = terminationLog, co_terminationMessagePolicy = terminationFile\<rparr>)"

text \<open>The volume of the stores of the client encryption, which the prober and Reaper mount.\<close>

definition clientStoresVolume :: "cassandraCluster \<Rightarrow> volume" where
  "clientStoresVolume cc =
     (let n = ce_nodeTLSSecret (clientTLS cc) in
      \<lparr>vol_name = cassandraClientTLSVolumeName,
       vol_source = SecretVolume (node_name n) (sameKeys [node_keystoreFileKey n, node_truststoreFileKey n]) defaultMode\<rparr>)"

section \<open>Deployment\<close>

definition proberDeployment :: "cassandraCluster \<Rightarrow> secret \<Rightarrow> deployment" where
  "proberDeployment cc clientTLSSecret =
     (let proberLabels = ComponentLabels cc ComponentProber; p = proberOf (cc_spec cc) in
      \<lparr>dep_name = ProberDeployment (cc_name cc), dep_namespace = cc_namespace cc,
       dep_labels = CombinedComponentLabels cc ComponentProber, dep_annotations = None, dep_ownerReferences = [],
       dep_spec = \<lparr>ds_replicas = 1, ds_selector = proberLabels, ds_strategy = ''RollingUpdate'',
         ds_maxUnavailable = FromInt 25, ds_maxSurge = FromInt 25, ds_revisionHistoryLimit = 10, ds_progressDeadlineSeconds = 600,
         ds_template = \<lparr>pt_labels = proberLabels, pt_annotations = None,
           pt_spec = \<lparr>ps_containers = [proberContainer cc, jolokiaContainer cc clientTLSSecret], ps_initContainers = [],
             ps_volumes = (if ce_enabled (clientTLS cc) then [clientStoresVolume cc] else []),
             ps_imagePullSecrets = imagePullSecrets cc, ps_serviceAccountName = ProberServiceAccount (cc_name cc),
             ps_affinity = prb_affinity p, ps_tolerations = prb_tolerations p, ps_nodeSelector = prb_nodeSelector p,
             ps_restartPolicy = ''Always'', ps_terminationGracePeriodSeconds = Some 30, ps_dnsPolicy = ''ClusterFirst'',
             ps_topologySpreadConstraints = []\<rparr>\<rparr>\<rparr>,
       dep_readyReplicas = 0\<rparr>)"

definition deploymentTexts :: texts where
  "deploymentTexts = \<lparr>tx_get = ''Failed to get deployment'', tx_create = ''Failed to create deployment'',
     tx_update = ''failed to update deployment''\<rparr>"

definition getClientSecret :: "'w env \<Rightarrow> cassandraCluster \<Rightarrow> ('w, secret) run" where
  "getClientSecret E cc =
     (if ce_enabled (clientTLS cc) then getSecret E (node_name (ce_nodeTLSSecret (clientTLS cc))) (cc_namespace cc)
      else ret emptySecret)"

definition reconcileProberDeployment :: "'w env \<Rightarrow> cassandraCluster \<Rightarrow> ('w, unit) run" where
  "reconcileProberDeployment E cc =
     andThen (getClientSecret E cc) (\<lambda>clientTLSSecret.
     withOwners E cc (\<lambda>owners.
       createOrUpdate (deploymentKind E) deploymentTexts keepDeployment EqualDeployment adoptDeployment
         ((proberDeployment cc clientTLSSecret)\<lparr>dep_ownerReferences := owners\<rparr>)))"

section \<open>Service\<close>

definition proberService :: "cassandraCluster \<Rightarrow> service" where
  "proberService cc =
     \<lparr>svc_name = ProberService (cc_name cc), svc_namespace = cc_namespace cc,
      svc_labels = CombinedComponentLabels cc ComponentProber, svc_annotations = None, svc_ownerReferences = [],
      svc_spec = \<lparr>svs_ports =
          [\<lparr>sp_name = ''prober'', sp_protocol = ProtocolTCP, sp_port = ProberServicePort, sp_targetPort = FromString ''prober-server''\<rparr>,
           \<lparr>sp_name = ''jolokia'', sp_protocol = ProtocolTCP, sp_port = JolokiaContainerPort, sp_targetPort = FromString ''jolokia''\<rparr>],
        svs_clusterIP = '''', svs_clusterIPs = [], svs_ipFamilies = [], svs_ipFamilyPolicy = None,
        svs_internalTrafficPolicy = None, svs_type = ''ClusterIP'', svs_sessionAffinity = ''None'',
        svs_publishNotReadyAddresses = False, svs_selector = CombinedComponentLabels cc ComponentProber\<rparr>\<rparr>"

definition serviceTexts :: texts where
  "serviceTexts = \<lparr>tx_get = ''Failed to get service'', tx_create = ''Failed to create service'',
     tx_update = ''failed to update service''\<rparr>"

definition reconcileProberService :: "'w env \<Rightarrow> cassandraCluster \<Rightarrow> ('w, unit) run" where
  "reconcileProberService E cc =
     withOwners E cc (\<lambda>owners.
       createOrUpdate (serviceKind E) serviceTexts keepService EqualService adoptService
         ((proberService cc)\<lparr>svc_ownerReferences := owners\<rparr>))"

section \<open>Ingress\<close>

definition proberIngress :: "cassandraCluster \<Rightarrow> ingressObject" where
  "proberIngress cc =
     (let i = ingressSpec (cc_spec cc); ingressHost = ProberIngressHost (cc_name cc) (cc_namespace cc) (ing_domain i) in
      \<lparr>ig_name = ProberIngress (cc_name cc), ig_namespace = cc_namespace cc,
       ig_labels = CombinedComponentLabels cc ComponentProber, ig_annotations = ing_annotations i, ig_ownerReferences = [],
       ig_spec = \<lparr>is_ingressClassName = ing_ingressClassName i, is_tls = [([ingressHost], ing_secret i)],
         is_rules = [(ingressHost, [\<lparr>ip_pathType = ''ImplementationSpecific'', ip_path = ''/'',
           ip_serviceName = ProberService (cc_name cc), ip_servicePort = ProberServicePort\<rparr>])]\<rparr>\<rparr>)"

definition reconcileProberIngress :: "'w env \<Rightarrow> cassandraCluster \<Rightarrow> ('w, unit) run" where
  "reconcileProberIngress E cc =
     withOwners E cc (\<lambda>owners.
       createOrUpdate (ingressKind E)
         \<lparr>tx_get = ''Failed to get ingress'', tx_create = ''Failed to create ingress'', tx_update = ''failed to updagte ingress''\<rparr>
         keepNothing EqualIngress adoptIngress ((proberIngress cc)\<lparr>ig_ownerReferences := owners\<rparr>))"

section \<open>All of it\<close>

definition reconcileProber :: "'w env \<Rightarrow> cassandraCluster \<Rightarrow> ('w, unit) run" where
  "reconcileProber E cc =
     andThen (wrapErr ''Error reconciling prober serviceaccount'' (reconcileProberServiceAccount E cc)) (\<lambda>_.
     andThen (wrapErr ''Error reconciling prober role'' (reconcileProberRole E cc)) (\<lambda>_.
     andThen (wrapErr ''Error reconciling prober rolebinding'' (reconcileProberRoleBinding E cc)) (\<lambda>_.
     andThen (wrapErr ''failed to reconcile prober deployment'' (reconcileProberDeployment E cc)) (\<lambda>_.
     andThen (wrapErr ''failed to reconcile prober service'' (reconcileProberService E cc)) (\<lambda>_.
     andThen (wrapErr ''Failed to reconcile prober service monitor'' (reconcileProberServiceMonitor E cc)) (\<lambda>_.
       if length (ing_domain (ingressSpec (cc_spec cc))) > 0
       then wrapErr ''failed to reconcile prober ingress'' (reconcileProberIngress E cc) else ret ()))))))"

definition proberURL :: "cassandraCluster \<Rightarrow> string" where
  "proberURL cc = ''http://'' @ ProberService (cc_name cc) @ ''.'' @ cc_namespace cc @ ''.svc.cluster.local''"

definition jolokiaURL :: "cassandraCluster \<Rightarrow> string" where
  "jolokiaURL cc = ''http://'' @ ProberService (cc_name cc) @ ''.'' @ cc_namespace cc @ ''.svc.cluster.local:'' @
     itoa JolokiaContainerPort @ ''/jolokia''"

section \<open>Properties\<close>

lemma extra_labels:
  "CombinedComponentLabels cc c \<subseteq>\<^sub>m ComponentLabels cc c \<longleftrightarrow> dom (cc_labels cc) \<subseteq> {ClusterInstanceLabel, ClusterComponentLabel}"
proof
  assume "CombinedComponentLabels cc c \<subseteq>\<^sub>m ComponentLabels cc c"
  then have "dom (CombinedComponentLabels cc c) \<subseteq> dom (ComponentLabels cc c)" by (rule map_le_implies_dom_le)
  then show "dom (cc_labels cc) \<subseteq> {ClusterInstanceLabel, ClusterComponentLabel}"
    by (auto simp: CombinedComponentLabels_def InheritLabels_def ComponentLabels_def split: if_splits)
next
  assume "dom (cc_labels cc) \<subseteq> {ClusterInstanceLabel, ClusterComponentLabel}"
  then show "CombinedComponentLabels cc c \<subseteq>\<^sub>m ComponentLabels cc c"
    by (auto simp: map_le_def CombinedComponentLabels_def InheritLabels_def ComponentLabels_def map_add_def split: option.splits if_splits)
qed

text \<open>Whether the service of the prober reaches it: after a successful pass over deployment and service the service
  selects the prober's pods exactly if the cluster resource has no labels of its own. Its selector has the inherited
  labels, which the pods never get, so one label on the resource leaves the prober, and with it the readiness probes of
  all Cassandra pods, without an endpoint.\<close>

theorem prober_service_reaches_pods_iff:
  assumes "kindApi (deploymentKind E) deps" "kindApi (serviceKind E) svcs" "untouched (serviceKind E) deps"
    and "result (andThen (reconcileProberDeployment E cc) (\<lambda>_. reconcileProberService E cc)) w = Inr ()"
    and "w' = world (andThen (reconcileProberDeployment E cc) (\<lambda>_. reconcileProberService E cc)) w"
  shows "\<exists>d s. deps w' (cc_namespace cc, ProberDeployment (cc_name cc)) = Some d \<and>
    svcs w' (cc_namespace cc, ProberService (cc_name cc)) = Some s \<and>
    (svs_selector (svc_spec s) \<subseteq>\<^sub>m pt_labels (ds_template (dep_spec d)) \<longleftrightarrow>
      dom (cc_labels cc) \<subseteq> {ClusterInstanceLabel, ClusterComponentLabel})"
proof -
  from assms(4,5) have "yields (andThen (reconcileProberDeployment E cc) (\<lambda>_. reconcileProberService E cc)) w () w'"
    by (simp add: yields_def)
  then obtain sec owners u v where
    dep: "yields (createOrUpdate (deploymentKind E) deploymentTexts keepDeployment EqualDeployment adoptDeployment
         ((proberDeployment cc sec)\<lparr>dep_ownerReferences := owners\<rparr>)) u () v"
    and svc: "yields (createOrUpdate (serviceKind E) serviceTexts keepService EqualService adoptService
         ((proberService cc)\<lparr>svc_ownerReferences := owners\<rparr>)) v () w'"
    unfolding reconcileProberDeployment_def reconcileProberService_def by (auto simp: yields_simps)
  have key: "depKey ((proberDeployment cc sec)\<lparr>dep_ownerReferences := owners\<rparr>) = (cc_namespace cc, ProberDeployment (cc_name cc))"
    "svcKey ((proberService cc)\<lparr>svc_ownerReferences := owners\<rparr>) = (cc_namespace cc, ProberService (cc_name cc))"
    by (simp_all add: depKey_def svcKey_def proberDeployment_def proberService_def Let_def)
  have want: "pt_labels (ds_template (dep_spec (proberDeployment cc sec))) = ComponentLabels cc ComponentProber"
    "svs_selector (svc_spec (proberService cc)) = CombinedComponentLabels cc ComponentProber"
    by (simp_all add: proberDeployment_def proberService_def Let_def)
  from deploy.held [OF assms(1) deploymentKind_key yields_result [OF dep]] obtain d where
    d: "deps v (cc_namespace cc, ProberDeployment (cc_name cc)) = Some d"
      "dep_spec d = dep_spec ((proberDeployment cc sec)\<lparr>dep_ownerReferences := owners\<rparr>)"
    unfolding key yields_world [OF dep] by (elim exE conjE) (drule deployment_runs, simp)
  from svc.held [OF assms(2) serviceKind_key yields_result [OF svc]] obtain s where
    s: "svcs w' (cc_namespace cc, ProberService (cc_name cc)) = Some s"
      "svs_selector (svc_spec s) = svs_selector (svc_spec ((proberService cc)\<lparr>svc_ownerReferences := owners\<rparr>))"
    unfolding key yields_world [OF svc] by (elim exE conjE) (drule service_selects(1), simp)
  have "deps w' = deps v" unfolding yields_world [OF svc] by (rule createOrUpdate_untouched [OF assms(3)])
  with d s want show ?thesis by (simp add: extra_labels)
qed

text \<open>A policy that is written has the pods and the rules of the desired one.\<close>

definition policyWrite :: "networkPolicy \<Rightarrow> req \<Rightarrow> bool" where
  "policyWrite d q \<longleftrightarrow> (\<forall>p. q = CreateNetworkPolicy p \<or> q = UpdateNetworkPolicy p \<longrightarrow>
     nwp_podSelector p = nwp_podSelector d \<and> nwp_ingress p = nwp_ingress d)"

lemma only_policyWrite [only_intros]: "only (policyWrite d) (writePolicy E cc d)"
  unfolding writePolicy_def reconcileNetworkPolicy_def Let_def
  by (intro only_intros) (auto simp: policyWrite_def)

lemma only_policyEvent [only_intros]: "only (policyWrite d) (emit r t)"
  by (intro only_intros) (auto simp: policyWrite_def)

text \<open>The network policies close Jolokia: whatever policy for the prober's pods the reconciler writes, none of its rules
  opens the port of the Jolokia container, although the service of the prober has that port and the operator sends to it
  what it asks the Cassandra nodes when it decommissions one.\<close>

theorem policy_closes_jolokia:
  assumes "q \<in> set (trace (reconcileProberNetworkPolicies E opNs cc) w)" "q = CreateNetworkPolicy p \<or> q = UpdateNetworkPolicy p"
  shows "nwp_podSelector p = [ClusterComponentLabel \<mapsto> ComponentProber] \<and>
    (\<forall>r \<in> set (nwp_ingress p). JolokiaContainerPort \<notin> set (ir_ports r)) \<and>
    JolokiaContainerPort \<in> sp_port ` set (svs_ports (svc_spec (proberService cc)))"
proof -
  have "JolokiaContainerPort \<noteq> ProberContainerPort" by (simp add: JolokiaContainerPort_def ProberContainerPort_def)
  then have ports: "\<forall>r \<in> set (proberRules opNs cc extra). JolokiaContainerPort \<notin> set (ir_ports r)" for extra
    by (auto simp: proberRules_def Let_def split: if_splits)
  obtain extra where "nwp_podSelector p = [ClusterComponentLabel \<mapsto> ComponentProber]" "nwp_ingress p = proberRules opNs cc extra"
  proof (cases "np_extraIngressRules (networkPoliciesSpec (cc_spec cc))")
    case None
    with assms show ?thesis by (auto simp: reconcileProberNetworkPolicies_def)
  next
    case (Some extra)
    let ?d = "policyFor cc (ProberNetworkPolicyName (cc_name cc)) ComponentProber (proberRules opNs cc extra)"
    have "policyWrite ?d q"
      using assms(1) only_policyWrite [of ?d E cc] Some by (simp add: reconcileProberNetworkPolicies_def only_def)
    with assms(2) that [of extra] show ?thesis by (auto simp: policyWrite_def policyFor_def)
  qed
  with ports show ?thesis by (simp add: proberService_def)
qed

section \<open>Examples\<close>

text \<open>A server whose state are its deployments and services.\<close>

type_synonym proberWorld = "(key \<rightharpoonup> deployment) \<times> (key \<rightharpoonup> service)"

definition proberServerEnv :: "proberWorld env" where
  "proberServerEnv = quietEnv\<lparr>
     e_getDeployment := (\<lambda>k w. (answer (keyed depKey (fst w) k), w)),
     e_getService := (\<lambda>k w. (answer (keyed svcKey (snd w) k), w)),
     e_objects := (e_objects quietEnv)\<lparr>
       o_createDeployment := (\<lambda>x (d, v). (Inr (), (d(depKey x \<mapsto> x), v))),
       o_updateDeployment := (\<lambda>x (d, v). (Inr (), (d(depKey x \<mapsto> x), v))),
       o_createService := (\<lambda>x (d, v). (Inr (), (d, v(svcKey x \<mapsto> x)))),
       o_updateService := (\<lambda>x (d, v). (Inr (), (d, v(svcKey x \<mapsto> x))))\<rparr>\<rparr>"

abbreviation depOf :: "proberWorld \<Rightarrow> key \<rightharpoonup> deployment" where "depOf w \<equiv> keyed depKey (fst w)"
abbreviation svcAt :: "proberWorld \<Rightarrow> key \<rightharpoonup> service" where "svcAt w \<equiv> keyed svcKey (snd w)"

lemma proberServerEnv_api: "kindApi (deploymentKind proberServerEnv) depOf" "kindApi (serviceKind proberServerEnv) svcAt"
  unfolding kindApi_def deploymentKind_def serviceKind_def proberServerEnv_def
  using keyed_key [of depKey] keyed_key [of svcKey]
  by (auto simp: answer_cases split: prod.splits simp del: fun_upd_apply)

lemma proberServerEnv_apart: "untouched (serviceKind proberServerEnv) depOf" "untouched (deploymentKind proberServerEnv) svcAt"
  by (auto simp: untouched_def serviceKind_def deploymentKind_def proberServerEnv_def split: prod.splits)

lemma proberServerEnv_step:
  "result (createOrUpdate (deploymentKind proberServerEnv) T keep1 equal1 adopt1 d1) w = Inr ()"
  "result (createOrUpdate (serviceKind proberServerEnv) T keep2 equal2 adopt2 d2) w = Inr ()"
  by (rule createOrUpdate_succeeds;
      auto simp: deploymentKind_def serviceKind_def proberServerEnv_def split: prod.splits dest: answer_Inl)+

text \<open>One label on the cluster resource suffices.\<close>

theorem prober_service_reaches_pods_iff_witness:
  "\<exists>d s. depOf (world (andThen (reconcileProberDeployment proberServerEnv (plainCluster\<lparr>cc_labels := [''team'' \<mapsto> ''a'']\<rparr>))
         (\<lambda>_. reconcileProberService proberServerEnv (plainCluster\<lparr>cc_labels := [''team'' \<mapsto> ''a'']\<rparr>))) (Map.empty, Map.empty))
       (''ns'', ''c-cassandra-prober'') = Some d \<and>
     svcAt (world (andThen (reconcileProberDeployment proberServerEnv (plainCluster\<lparr>cc_labels := [''team'' \<mapsto> ''a'']\<rparr>))
         (\<lambda>_. reconcileProberService proberServerEnv (plainCluster\<lparr>cc_labels := [''team'' \<mapsto> ''a'']\<rparr>))) (Map.empty, Map.empty))
       (''ns'', ''c-cassandra-prober'') = Some s \<and>
     \<not> svs_selector (svc_spec s) \<subseteq>\<^sub>m pt_labels (ds_template (dep_spec d))"
proof -
  let ?cc = "plainCluster\<lparr>cc_labels := [''team'' \<mapsto> ''a'']\<rparr>"
  have "e_controllerReference proberServerEnv ?cc = Inr [''c'']" by (simp add: proberServerEnv_def quietEnv_def)
  moreover have "getClientSecret proberServerEnv ?cc = ret emptySecret"
    using plainCluster_simps by (simp add: getClientSecret_def clientTLS_def)
  ultimately have ok: "result (andThen (reconcileProberDeployment proberServerEnv ?cc) (\<lambda>_. reconcileProberService proberServerEnv ?cc))
    (Map.empty, Map.empty) = Inr ()"
    by (simp add: reconcileProberDeployment_def reconcileProberService_def withOwners_run proberServerEnv_step)
  have "\<not> dom (cc_labels ?cc) \<subseteq> {ClusterInstanceLabel, ClusterComponentLabel}"
    by (simp add: ClusterInstanceLabel_def ClusterComponentLabel_def)
  moreover have "cc_namespace ?cc = ''ns''" "ProberDeployment (cc_name ?cc) = ''c-cassandra-prober''" "ProberService (cc_name ?cc) = ''c-cassandra-prober''"
    by (simp_all add: ProberDeployment_def ProberService_def)
  ultimately show ?thesis
    using prober_service_reaches_pods_iff [where deps = depOf and svcs = svcAt, OF proberServerEnv_api proberServerEnv_apart(1) ok refl]
    by (simp only:) blast
qed

definition closedCluster :: cassandraCluster where
  "closedCluster = plainCluster\<lparr>cc_spec := (cc_spec plainCluster)\<lparr>networkPoliciesSpec :=
     (networkPoliciesSpec (cc_spec plainCluster))\<lparr>np_enabled := True, np_extraIngressRules := Some []\<rparr>\<rparr>\<rparr>"

theorem policy_closes_jolokia_witness:
  "\<exists>p. CreateNetworkPolicy p \<in> set (trace (reconcileProberNetworkPolicies (quietEnv :: unit env) ''op'' closedCluster) ()) \<and>
     (\<forall>r \<in> set (nwp_ingress p). JolokiaContainerPort \<notin> set (ir_ports r))"
proof -
  have "np_extraIngressRules (networkPoliciesSpec (cc_spec closedCluster)) = Some []" by (simp add: closedCluster_def)
  then obtain p where "CreateNetworkPolicy p \<in> set (trace (reconcileProberNetworkPolicies (quietEnv :: unit env) ''op'' closedCluster) ())"
    by (simp add: reconcileProberNetworkPolicies_def writePolicy_def reconcileNetworkPolicy_def Let_def)
      (simp add: quietEnv_def isNotFound_def)
  with policy_closes_jolokia [OF this] show ?thesis by blast
qed

end
