(* ===== verification/Reaper_Workload.thy ===== *)
theory Reaper_Workload
  imports Prober_Workload
begin

text \<open>
  Reaper as a workload, one deployment per datacentre and one service, and its initialisation:
  \<open>controllers/reaper.go\<close> and \<open>controllers/reaper_environment.go\<close>.
  \<open>ord\<close> lists the keys of a map in the order in which a loop of Go visits them.
  The lemmas say that the first deployment is ready before the others are written, which labels keep a deployment from
  settling, whom the service selects, and which repairs the initialisation starts.
\<close>

definition ReaperReplicasNumber :: int where "ReaperReplicasNumber = 1"
definition repairCauseReaperInit :: string where "repairCauseReaperInit = ''reaper-init''"

text \<open>\<open>ctrl.Result\<close>; durations are in nanoseconds.\<close>

record ctrlResult =
  cr_requeue :: bool
  cr_requeueAfter :: int

definition noRequeue :: ctrlResult where "noRequeue = \<lparr>cr_requeue = False, cr_requeueAfter = 0\<rparr>"
definition requeueAfter :: "int \<Rightarrow> ctrlResult" where "requeueAfter t = \<lparr>cr_requeue = False, cr_requeueAfter = t\<rparr>"

section \<open>Environment\<close>

definition jmxAddrTranslator :: "(strmap \<Rightarrow> string list) \<Rightarrow> cassandraCluster \<Rightarrow> dc \<Rightarrow> strmap \<Rightarrow> envVar list" where
  "jmxAddrTranslator ord cc d broadcastAddresses =
     (let mapping = map (\<lambda>k. mget broadcastAddresses k @ '':'' @ DCService (cc_name cc) (dc_name d) @ ''.'' @ cc_namespace cc @
            ''.svc.cluster.local'') (ord broadcastAddresses) in
      [valueEnv ''JMX_ADDRESS_TRANSLATOR_TYPE'' ''multiIpPerNode'',
       valueEnv ''JMX_ADDRESS_TRANSLATOR_MAPPING'' (join '','' (sort (Uniq mapping)))])"

definition incrementalRepairOpts :: "reaper \<Rightarrow> envVar list" where
  "incrementalRepairOpts rea =
     (if rea_incrementalRepair rea
      then [valueEnv ''REAPER_INCREMENTAL_REPAIR'' ''true'', valueEnv ''REAPER_REPAIR_PARALELLISM'' ''PARALLEL'']
      else [valueEnv ''REAPER_INCREMENTAL_REPAIR'' ''false'', valueEnv ''REAPER_REPAIR_PARALELLISM'' (rea_repairParallelism rea)])"

definition autoSchedulingOpts :: "reaper \<Rightarrow> envVar list" where
  "autoSchedulingOpts rea =
     (let a = rea_autoScheduling rea in
      if as_enabled a
      then [valueEnv ''REAPER_AUTO_SCHEDULING_INITIAL_DELAY_PERIOD'' (as_initialDelayPeriod a),
            valueEnv ''REAPER_AUTO_SCHEDULING_PERIOD_BETWEEN_POLLS'' (as_periodBetweenPolls a),
            valueEnv ''REAPER_AUTO_SCHEDULING_TIME_BEFORE_FIRST_SCHEDULE'' (as_timeBeforeFirstSchedule a),
            valueEnv ''REAPER_AUTO_SCHEDULING_SCHEDULE_SPREAD_PERIOD'' (as_scheduleSpreadPeriod a),
            valueEnv ''REAPER_AUTO_SCHEDULING_EXCLUDED_KEYSPACES'' (join '','' (as_excludedKeyspaces a))]
      else [])"

definition javaOpts :: "cassandraCluster \<Rightarrow> secret \<Rightarrow> string" where
  "javaOpts cc clientTLSSecret =
     (if ce_enabled (clientTLS cc) then ''-Dssl.enable=true '' @ tlsJVMArgs cc clientTLSSecret else '''')"

definition boolText :: "bool \<Rightarrow> string" where "boolText b = (if b then ''true'' else ''false'')"

definition reaperEnvironment ::
  "(strmap \<Rightarrow> string list) \<Rightarrow> cassandraCluster \<Rightarrow> reaper \<Rightarrow> dc \<Rightarrow> string \<Rightarrow> secret \<Rightarrow> strmap \<Rightarrow> envVar list" where
  "reaperEnvironment ord cc rea d adminSecretChecksum clientTLSSecret broadcastAddresses =
     (let positive = (\<lambda>n v. if v > 0 then [valueEnv n (itoa v)] else []); credentials = AdminAuthConfigSecret (cc_name cc) in
      [valueEnv ''ACTIVE_ADMIN_SECRET_SHA1'' adminSecretChecksum,
       valueEnv ''REAPER_CASS_ACTIVATE_QUERY_LOGGER'' ''true'',
       valueEnv ''REAPER_LOGGING_ROOT_LEVEL'' ''INFO'',
       valueEnv ''REAPER_LOGGING_APPENDERS_CONSOLE_THRESHOLD'' ''INFO'',
       valueEnv ''REAPER_DATACENTER_AVAILABILITY'' ''EACH'',
       valueEnv ''REAPER_REPAIR_INTENSITY'' (rea_repairIntensity rea),
       valueEnv ''REAPER_REPAIR_MANAGER_SCHEDULING_INTERVAL_SECONDS'' (itoa (rea_repairManagerSchedulingIntervalSeconds rea)),
       valueEnv ''REAPER_BLACKLIST_TWCS'' (boolText (rea_blacklistTWCS rea)),
       valueEnv ''REAPER_CASS_CONTACT_POINTS'' (''[ '' @ DC (cc_name cc) (dc_name d) @ '' ]''),
       valueEnv ''REAPER_CASS_CLUSTER_NAME'' (cc_name cc),
       valueEnv ''REAPER_STORAGE_TYPE'' ''cassandra'',
       valueEnv ''REAPER_CASS_KEYSPACE'' (rea_keyspace rea),
       valueEnv ''REAPER_CASS_PORT'' (itoa CqlPort),
       valueEnv ''JAVA_OPTS'' (javaOpts cc clientTLSSecret),
       valueEnv ''REAPER_CASS_AUTH_ENABLED'' ''true''] @
      positive ''REAPER_REPAIR_RUN_THREADS'' (rea_repairRunThreads rea) @
      positive ''REAPER_MAX_PARALLEL_REPAIRS'' (rea_maxParallelRepairs rea) @
      (if ce_enabled (clientTLS cc) then [valueEnv ''REAPER_CASS_NATIVE_PROTOCOL_SSL_ENCRYPTION_ENABLED'' ''true''] else []) @
      positive ''REAPER_HANGING_REPAIR_TIMEOUT_MINS'' (rea_hangingRepairTimeoutMins rea) @
      positive ''REAPER_SEGMENT_COUNT_PER_NODE'' (rea_segmentCountPerNode rea) @
      [valueEnv ''REAPER_SHIRO_INI'' ''/shiro/shiro.ini'',
       secretEnv ''REAPER_CASS_AUTH_USERNAME'' credentials OperatorAdminRole,
       secretEnv ''REAPER_CASS_AUTH_PASSWORD'' credentials OperatorAdminPassword,
       secretEnv ''REAPER_JMX_AUTH_USERNAME'' credentials OperatorAdminRole,
       secretEnv ''REAPER_JMX_AUTH_PASSWORD'' credentials OperatorAdminPassword] @
      autoSchedulingOpts rea @ incrementalRepairOpts rea @
      (if hp_enabled (hostPortSpec (cc_spec cc)) then jmxAddrTranslator ord cc d broadcastAddresses else []))"

section \<open>Container and volumes\<close>

definition reaperContainer ::
  "(strmap \<Rightarrow> string list) \<Rightarrow> cassandraCluster \<Rightarrow> reaper \<Rightarrow> dc \<Rightarrow> string \<Rightarrow> secret \<Rightarrow> strmap \<Rightarrow> container" where
  "reaperContainer ord cc rea d adminSecretChecksum clientTLSSecret broadcastAddresses =
     \<lparr>co_name = ''reaper'', co_image = rea_image rea, co_imagePullPolicy = rea_imagePullPolicy rea, co_command = [], co_args = [],
      co_workingDir = '''',
      co_env = reaperEnvironment ord cc rea d adminSecretChecksum clientTLSSecret broadcastAddresses,
      co_resources = SpecResources (rea_resources rea), co_livenessProbe = Some (httpProbe ''admin'' ''/ping'' 600),
      co_readinessProbe = Some (httpProbe ''admin'' ''/ping'' 60), co_preStop = None,
      co_volumeMounts = \<lparr>vm_name = ''shiro-config'', vm_mountPath = ''/shiro/shiro.ini'', vm_subPath = ''shiro.ini''\<rparr> #
        (if ce_enabled (clientTLS cc) then [volMount cassandraClientTLSVolumeName cassandraClientTLSDir] else []),
      co_ports = [tcpPort ''app'' ReaperAppPort, tcpPort ''admin'' ReaperAdminPort], co_securityContext = None,
      co_terminationMessagePath = terminationLog, co_terminationMessagePolicy = terminationFile\<rparr>"

definition reaperVolumes :: "cassandraCluster \<Rightarrow> volume list" where
  "reaperVolumes cc =
     [\<lparr>vol_name = ''reaper-auth'', vol_source = EmptyDir\<rparr>,
      configMapVolume ''shiro-config'' (ShiroConfigMap (cc_name cc)) defaultMode] @
     (if ce_enabled (clientTLS cc) then [clientStoresVolume cc] else [])"

section \<open>Deployments\<close>

definition filterPodsByDCName :: "pod list \<Rightarrow> string \<Rightarrow> pod list" where
  "filterPodsByDCName ps dcName = filter (\<lambda>p. podDC p = dcName) ps"

definition reaperDeployment ::
  "(strmap \<Rightarrow> string list) \<Rightarrow> cassandraCluster \<Rightarrow> reaper \<Rightarrow> dc \<Rightarrow> string \<Rightarrow> secret \<Rightarrow> strmap \<Rightarrow> deployment" where
  "reaperDeployment ord cc rea d adminSecretChecksum clientTLSSecret broadcastAddresses =
     (let reaperLabels = WithDCLabel (ComponentLabels cc ComponentReaper) (dc_name d) in
      \<lparr>dep_name = ReaperDeployment (cc_name cc) (dc_name d), dep_namespace = cc_namespace cc,
       dep_labels = reaperLabels, dep_annotations = None, dep_ownerReferences = [],
       dep_spec = \<lparr>ds_replicas = ReaperReplicasNumber, ds_selector = reaperLabels, ds_strategy = ''RollingUpdate'',
         ds_maxUnavailable = FromInt 25, ds_maxSurge = FromInt 25, ds_revisionHistoryLimit = 10, ds_progressDeadlineSeconds = 1200,
         ds_template = \<lparr>pt_labels = reaperLabels, pt_annotations = None,
           pt_spec = \<lparr>ps_containers = [reaperContainer ord cc rea d adminSecretChecksum clientTLSSecret broadcastAddresses],
             ps_initContainers = [], ps_volumes = reaperVolumes cc @ [cassandraConfigVolume cc],
             ps_imagePullSecrets = imagePullSecrets cc, ps_serviceAccountName = '''',
             ps_affinity = None, ps_tolerations = rea_tolerations rea, ps_nodeSelector = rea_nodeSelector rea,
             ps_restartPolicy = ''Always'', ps_terminationGracePeriodSeconds = Some 30, ps_dnsPolicy = ''ClusterFirst'',
             ps_topologySpreadConstraints = []\<rparr>\<rparr>\<rparr>,
       dep_readyReplicas = 0\<rparr>)"

definition reaperDeploymentTexts :: texts where
  "reaperDeploymentTexts = \<lparr>tx_get = ''Failed to get deployment'', tx_create = ''Failed to create deployment'',
     tx_update = ''Failed to update deployment''\<rparr>"

definition reconcileReaperDeployment ::
  "'w env \<Rightarrow> (strmap \<Rightarrow> string list) \<Rightarrow> cassandraCluster \<Rightarrow> dc \<Rightarrow> pod list \<Rightarrow> k8sNode list \<Rightarrow> ('w, unit) run" where
  "reconcileReaperDeployment E ord cc d ps ns =
     (let k = (cc_namespace cc, ActiveAdminSecret (cc_name cc)) in
      andThen (wrapErr ''can't get admin role secret'' (call (GetSecret k) (e_getSecret E k))) (\<lambda>adminRoleSecret.
      andThen (getClientSecret E cc) (\<lambda>clientTLSSecret.
      andThen (if hp_enabled (hostPortSpec (cc_spec cc))
               then wrapErr ''error getting broadcast addresses''
                      (lift (getBroadcastAddresses cc (filterPodsByDCName ps (dc_name d)) ns))
               else ret Map.empty) (\<lambda>broadcastAddresses.
      andThen (lift (deref (reaperSpec (cc_spec cc)))) (\<lambda>rea.
      withOwners E cc (\<lambda>owners.
        createOrUpdate (deploymentKind E) reaperDeploymentTexts keepReaperDeployment EqualDeployment adoptReaperDeployment
          ((reaperDeployment ord cc rea d (e_sha1 E (sec_data adminRoleSecret)) clientTLSSecret broadcastAddresses)
             \<lparr>dep_ownerReferences := owners\<rparr>)))))))"

section \<open>Service\<close>

definition reaperService :: "cassandraCluster \<Rightarrow> service" where
  "reaperService cc =
     \<lparr>svc_name = ReaperService (cc_name cc), svc_namespace = cc_namespace cc,
      svc_labels = CombinedComponentLabels cc ComponentReaper, svc_annotations = None, svc_ownerReferences = [],
      svc_spec = \<lparr>svs_ports =
          [\<lparr>sp_name = ''app'', sp_protocol = ProtocolTCP, sp_port = ReaperAppPort, sp_targetPort = FromInt ReaperAppPort\<rparr>,
           \<lparr>sp_name = ''admin'', sp_protocol = ProtocolTCP, sp_port = ReaperAdminPort, sp_targetPort = FromInt ReaperAdminPort\<rparr>],
        svs_clusterIP = ''None'', svs_clusterIPs = [], svs_ipFamilies = [], svs_ipFamilyPolicy = None,
        svs_internalTrafficPolicy = None, svs_type = ''ClusterIP'', svs_sessionAffinity = ''None'',
        svs_publishNotReadyAddresses = True, svs_selector = ComponentLabels cc ComponentReaper\<rparr>\<rparr>"

definition reconcileReaperService :: "'w env \<Rightarrow> cassandraCluster \<Rightarrow> ('w, unit) run" where
  "reconcileReaperService E cc =
     withOwners E cc (\<lambda>owners.
       createOrUpdate (serviceKind E)
         \<lparr>tx_get = ''Failed to get reaper service'', tx_create = ''Failed to create reaper service'',
          tx_update = ''failed to update reaper service''\<rparr>
         keepService EqualService adoptService ((reaperService cc)\<lparr>svc_ownerReferences := owners\<rparr>))"

definition reaperServiceURL :: "cassandraCluster \<Rightarrow> string" where
  "reaperServiceURL cc = ''http://'' @ ReaperService (cc_name cc) @ ''.'' @ cc_namespace cc @ ''.svc.cluster.local:'' @ itoa ReaperAppPort"

section \<open>All datacentres\<close>

definition reconcileReaperOf ::
  "'w env \<Rightarrow> (strmap \<Rightarrow> string list) \<Rightarrow> cassandraCluster \<Rightarrow> pod list \<Rightarrow> k8sNode list \<Rightarrow> dc \<Rightarrow> ('w, unit) run" where
  "reconcileReaperOf E ord cc ps ns d =
     andThen (wrapErr ''Failed to reconcile reaper deployment'' (reconcileReaperDeployment E ord cc d ps ns)) (\<lambda>_.
     andThen (wrapErr ''Failed to reconcile reaper service'' (reconcileReaperService E cc)) (\<lambda>_.
       wrapErr ''Failed to reconcile reaper service monitor'' (reconcileReaperServiceMonitor E cc)))"

text \<open>The loop over the datacentres; after the first one the deployment must be ready, because two instances must not migrate
  the schema at the same time.\<close>

definition reconcileReaper ::
  "'w env \<Rightarrow> operatorConfig \<Rightarrow> (strmap \<Rightarrow> string list) \<Rightarrow> cassandraCluster \<Rightarrow> pod list \<Rightarrow> k8sNode list \<Rightarrow> ('w, ctrlResult) run" where
  "reconcileReaper E cfg ord cc ps ns =
     andThen (wrapErr ''Error reconciling shiro configmap'' (reconcileShiroConfigMap E cfg cc)) (\<lambda>_.
       case spec_dcs (cc_spec cc) of
         [] \<Rightarrow> ret noRequeue
       | d # ds \<Rightarrow>
           (let k = (cc_namespace cc, ReaperDeployment (cc_name cc) (dc_name d)) in
            andThen (reconcileReaperOf E ord cc ps ns d) (\<lambda>_.
            andThen (wrapErr ''Failed to get reaper deployment'' (call (GetDeployment k) (e_getDeployment E k))) (\<lambda>first.
              if dep_readyReplicas first \<noteq> ReaperReplicasNumber then ret (requeueAfter (cfg_retryDelay cfg))
              else andThen (forEach (reconcileReaperOf E ord cc ps ns) ds) (\<lambda>_. ret noRequeue)))))"

section \<open>Initialisation\<close>

definition clustersOfReaper :: "'w env \<Rightarrow> ('w, string list) run" where
  "clustersOfReaper E = call (Reaper ReaperClusters) (r_reaperClusters (e_reaper E))"

definition addClusterToReaper :: "'w env \<Rightarrow> string \<Rightarrow> ('w, unit) run" where
  "addClusterToReaper E seed = call (Reaper (ReaperAddCluster seed)) (r_reaperAddCluster (e_reaper E) seed)"

definition reInitReaperIfNeeded :: "'w env \<Rightarrow> cassandraCluster \<Rightarrow> string \<Rightarrow> ('w, unit) run" where
  "reInitReaperIfNeeded E cc seed =
     andThen (wrapErr ''can't get list of clusters from reaper'' (clustersOfReaper E)) (\<lambda>clusters.
       if \<not> Contains clusters (cc_name cc)
       then raise (Err (''cluster '' @ cc_name cc @ '' not found in the list of clusters''))
       else
         andThen (wrapErr (''can't delete cluster '' @ cc_name cc @ '' from reaper'')
             (call (Reaper ReaperDeleteCluster) (r_reaperDeleteCluster (e_reaper E)))) (\<lambda>_.
         andThen (wrapErr ''failed to remove cluster from reaper'' (doWithRetry
             (andThen (clustersOfReaper E) (\<lambda>existingClusters.
                if Contains existingClusters (cc_name cc) then raise (Err ''cluster still exists'') else ret ())))) (\<lambda>_.
         andThen (addClusterToReaper E seed) (\<lambda>_.
           wrapErr ''couldn't restart reaper pods by deleting them''
             (call (Objects DeleteReaperPods) (o_deleteReaperPods (e_objects E)))))))"

text \<open>When the answer to the first question times out the error of the repair of that, if it fails, is replaced by the
  timeout.\<close>

definition reaperInitialization :: "'w env \<Rightarrow> cassandraCluster \<Rightarrow> ('w, unit) run" where
  "reaperInitialization E cc =
     (case spec_dcs (cc_spec cc) of
        [] \<Rightarrow> raise Panic
      | d # _ \<Rightarrow>
          (let seed = getSeedHostname cc (dc_name d) 0 True in
           andThen (attempt (call (Reaper ReaperClusterExists) (r_reaperClusterExists (e_reaper E)))) (\<lambda>r.
             case r of
               Inl err \<Rightarrow>
                 if err = NetTimeout
                 then andThen (attempt (reInitReaperIfNeeded E cc seed)) (\<lambda>re.
                        case re of Inl _ \<Rightarrow> raise (Wrap ''failed to re-init reaper'' err) | Inr _ \<Rightarrow> ret ())
                 else raise err
             | Inr exists \<Rightarrow>
                 if exists then ret ()
                 else
                   andThen (addClusterToReaper E seed) (\<lambda>_.
                   andThen (lift (deref (reaperSpec (cc_spec cc)))) (\<lambda>rea.
                   andThen (wrapErr (''failed to run repair on '' @ rea_keyspace rea @ '' keyspace'')
                       (runRepair E (rea_keyspace rea) repairCauseReaperInit)) (\<lambda>_.
                     wrapErr ''failed to run repair on system_auth keyspace''
                       (runRepair E keyspaceSystemAuth repairCauseReaperInit)))))))"


section \<open>Properties\<close>

subsection \<open>The first deployment\<close>

text \<open>The calls of the other steps leave the deployments as they are.\<close>

definition deploymentsApart :: "'w env \<Rightarrow> ('w \<Rightarrow> 's) \<Rightarrow> bool" where
  "deploymentsApart E deps \<longleftrightarrow>
     untouched (serviceKind E) deps \<and> untouched (monitorKind E) deps \<and>
     (\<forall>ls w. deps (snd (o_listServiceMonitors (e_objects E) ls w)) = deps w) \<and>
     (\<forall>m w. deps (snd (o_deleteServiceMonitor (e_objects E) m w)) = deps w) \<and>
     (\<forall>n w. deps (snd (o_getNamespace (e_objects E) n w)) = deps w) \<and>
     (\<forall>k w. deps (snd (e_getSecret E k w)) = deps w) \<and>
     (\<forall>k w. deps (snd (e_getCM E k w)) = deps w) \<and>
     (\<forall>m w. deps (snd (e_createCM E m w)) = deps w) \<and> (\<forall>m w. deps (snd (e_updateCM E m w)) = deps w)"

lemma deploymentsApart_calls:
  assumes "deploymentsApart E deps"
  shows "untouched (serviceKind E) deps" "deps (snd (o_getServiceMonitor (e_objects E) k w)) = deps w"
    "deps (snd (o_createServiceMonitor (e_objects E) s w)) = deps w"
    "deps (snd (o_updateServiceMonitor (e_objects E) s w)) = deps w"
    "deps (snd (o_listServiceMonitors (e_objects E) ls w)) = deps w"
    "deps (snd (o_deleteServiceMonitor (e_objects E) s w)) = deps w"
    "deps (snd (o_getNamespace (e_objects E) n w)) = deps w" "deps (snd (e_getSecret E k w)) = deps w"
    "deps (snd (e_getCM E k w)) = deps w" "deps (snd (e_createCM E c w)) = deps w" "deps (snd (e_updateCM E c w)) = deps w"
  using assms unfolding deploymentsApart_def untouched_def [of "monitorKind E"]
  by (simp_all add: monitorKind_def del: split_paired_All)

lemma keeps_createOrUpdate [keeps_intros]: "untouched K store \<Longrightarrow> keeps store (createOrUpdate K T keep equal adopt d)"
  by (simp add: keeps_def createOrUpdate_untouched)

lemma keeps_withOwners [keeps_intros]: "(\<And>owners. keeps store (f owners)) \<Longrightarrow> keeps store (withOwners E cc f)"
  unfolding withOwners_def by (intro keeps_intros)

lemma keeps_configMap:
  assumes "deploymentsApart E deps"
  shows "keeps deps (reconcileConfigMap E m)" "keeps deps (getConfigMap E n ns)"
  unfolding reconcileConfigMap_def getConfigMap_def Let_def
  by (intro keeps_intros keeps_call deploymentsApart_calls [OF assms])+

lemma keeps_monitor:
  assumes "deploymentsApart E deps"
  shows "keeps deps (reconcileMonitor E cc enabled sm label m)"
proof -
  have "keeps deps (applyServiceMonitor E s)" for s
    unfolding applyServiceMonitor_def Let_def by (intro keeps_intros keeps_call deploymentsApart_calls [OF assms])
  moreover have "keeps deps (listMonitors E cc label)" "keeps deps (deleteMonitor E s)" for s
    unfolding listMonitors_def Let_def deleteMonitor_def
    by (intro keeps_intros keeps_call deploymentsApart_calls [OF assms])+
  moreover have "keeps deps (call (Objects (GetNamespace n)) (o_getNamespace (e_objects E) n))" for n
    by (intro keeps_call deploymentsApart_calls [OF assms])
  ultimately show ?thesis
    unfolding reconcileMonitor_def cleanupOldMonitors_def removeServiceMonitors_def removeOldServiceMonitors_def
    by (intro keeps_intros)
qed

lemma keeps_around:
  assumes "deploymentsApart E deps"
  shows "keeps deps (reconcileShiroConfigMap E cfg cc)" "keeps deps (reconcileReaperService E cc)"
    "keeps deps (reconcileReaperServiceMonitor E cc)"
  unfolding reconcileShiroConfigMap_def copiedConfigMap_def reconcileReaperService_def reconcileReaperServiceMonitor_def
  by (intro keeps_intros keeps_configMap keeps_monitor deploymentsApart_calls [OF assms] assms)+

text \<open>Whatever the outcome, what is under a key was there, is the desired object or has taken over its fields.\<close>

lemma createOrUpdate_outcome:
  assumes "kindApi K store" "store (world (createOrUpdate K T keep equal adopt d) w) k = Some x"
  shows "store w k = Some x \<or> x = d \<or> (\<exists>a. store w (kd_key K d) = Some a \<and> x = adopt a (keep a d))"
  using assms(2)
  by (cases "fst (kd_get K (kd_key K d) w)")
    (auto simp: createOrUpdate_def Let_def kindApi_write [OF assms(1)] kindApi_get [OF assms(1)]
      kindApi_found [OF assms(1)] split: if_splits)

text \<open>The deployment under a key is missing or not ready.\<close>

definition unready :: "('w \<Rightarrow> key \<rightharpoonup> deployment) \<Rightarrow> key \<Rightarrow> 'w \<Rightarrow> bool" where
  "unready deps k w \<longleftrightarrow> (\<forall>x. deps w k = Some x \<longrightarrow> dep_readyReplicas x \<noteq> ReaperReplicasNumber)"

definition deploymentAt :: "key \<Rightarrow> req \<Rightarrow> bool" where
  "deploymentAt k q \<longleftrightarrow> (\<forall>x. q = Objects (CreateDeployment x) \<or> q = Objects (UpdateDeployment x) \<longrightarrow> depKey x = k)"

lemma reaperDeployment_key:
  "depKey ((reaperDeployment ord cc rea d chk sec addrs)\<lparr>dep_ownerReferences := owners\<rparr>) =
     (cc_namespace cc, ReaperDeployment (cc_name cc) (dc_name d))"
  "dep_labels (reaperDeployment ord cc rea d chk sec addrs) = WithDCLabel (ComponentLabels cc ComponentReaper) (dc_name d)"
  "dep_readyReplicas (reaperDeployment ord cc rea d chk sec addrs) = 0"
  by (simp_all add: depKey_def reaperDeployment_def Let_def)

lemma getClientSecret_keeps: "deploymentsApart E deps \<Longrightarrow> keeps deps (getClientSecret E cc)"
  unfolding getClientSecret_def getSecret_def by (intro keeps_intros keeps_call deploymentsApart_calls)


lemma unready_createOrUpdate:
  assumes "kindApi (deploymentKind E) deps" "depKey d = k" "dep_readyReplicas d = 0" "unready deps k w"
  shows "unready deps k (world (createOrUpdate (deploymentKind E) T keepReaperDeployment equal adoptReaperDeployment d) w)"
proof -
  have "dep_readyReplicas x \<noteq> ReaperReplicasNumber"
    if "deps (world (createOrUpdate (deploymentKind E) T keepReaperDeployment equal adoptReaperDeployment d) w) k = Some x" for x
    using createOrUpdate_outcome [OF assms(1) that] assms(2-4)
    by (auto simp: unready_def deploymentKind_key adoptReaperDeployment_def ReaperReplicasNumber_def)
  then show ?thesis by (simp add: unready_def)
qed

text \<open>An action keeps a property of the state, whether it succeeds or not.\<close>

definition preserves :: "('w \<Rightarrow> bool) \<Rightarrow> ('w, 'q, 'a) act \<Rightarrow> bool" where
  "preserves P m \<longleftrightarrow> (\<forall>w. P w \<longrightarrow> P (world m w))"

lemma preserves_rules:
  "preserves P (lift r)"
  "preserves P m \<Longrightarrow> (\<And>x. preserves P (f x)) \<Longrightarrow> preserves P (andThen m f)"
  "preserves P n \<Longrightarrow> preserves P (wrapErr msg n)"
  "(\<And>owners. preserves P (g owners)) \<Longrightarrow> preserves P (withOwners E cc g)"
  by (auto simp: preserves_def withOwners_def split: sum.splits)

lemma preserves_keeps: "keeps deps m \<Longrightarrow> preserves (unready deps k) m"
  by (simp add: preserves_def unready_def keeps_def)

lemma unready_deployment:
  assumes "kindApi (deploymentKind E) deps" "deploymentsApart E deps"
    and "k = (cc_namespace cc, ReaperDeployment (cc_name cc) (dc_name d))"
  shows "preserves (unready deps k) (reconcileReaperDeployment E ord cc d ps ns)"
proof -
  have put: "preserves (unready deps k) (createOrUpdate (deploymentKind E) reaperDeploymentTexts keepReaperDeployment
      EqualDeployment adoptReaperDeployment ((reaperDeployment ord cc rea d chk sec addrs)\<lparr>dep_ownerReferences := owners\<rparr>))"
    for rea chk sec addrs owners
    unfolding preserves_def using unready_createOrUpdate [OF assms(1) reaperDeployment_key(1)] assms(3)
    by (simp add: reaperDeployment_key(3))
  have secret: "keeps deps (call (GetSecret j) (e_getSecret E j))" for j
    by (intro keeps_call deploymentsApart_calls [OF assms(2)])
  have addrs: "keeps deps (if b then wrapErr msg (lift r) else ret x)" for b msg r and x :: strmap
    by (intro keeps_intros)
  show ?thesis
    unfolding reconcileReaperDeployment_def Let_def
    by (intro preserves_rules preserves_keeps [OF secret] preserves_keeps [OF addrs]
        preserves_keeps [OF getClientSecret_keeps [OF assms(2)]] put)
qed

lemma unready_reaperOf:
  assumes "kindApi (deploymentKind E) deps" "deploymentsApart E deps"
    and "k = (cc_namespace cc, ReaperDeployment (cc_name cc) (dc_name d))"
  shows "preserves (unready deps k) (reconcileReaperOf E ord cc ps ns d)"
  unfolding reconcileReaperOf_def
  by (intro preserves_rules(2,3) unready_deployment [OF assms] preserves_keeps [OF keeps_around(2)]
      preserves_keeps [OF keeps_around(3)] assms(2))

text \<open>Which deployments are written.\<close>

lemma deploymentAt_other [simp]:
  "(\<And>x. q \<noteq> Objects (CreateDeployment x)) \<Longrightarrow> (\<And>x. q \<noteq> Objects (UpdateDeployment x)) \<Longrightarrow> deploymentAt k q"
  by (simp add: deploymentAt_def)

lemma writes_deployment:
  "depKey d = k \<Longrightarrow> kindApi (deploymentKind E) deps \<Longrightarrow>
   only (deploymentAt k) (createOrUpdate (deploymentKind E) T keepReaperDeployment equal adoptReaperDeployment d)"
  unfolding only_def
proof (intro allI ballI)
  fix w q
  assume d: "depKey d = k" and api: "kindApi (deploymentKind E) deps"
    and q: "q \<in> set (trace (createOrUpdate (deploymentKind E) T keepReaperDeployment equal adoptReaperDeployment d) w)"
  have adopt: "depKey (adoptReaperDeployment a x) = depKey a" for a x by (simp add: depKey_def adoptReaperDeployment_def)
  show "deploymentAt k q"
  proof (cases "fst (kd_get (deploymentKind E) (kd_key (deploymentKind E) d) w)")
    case (Inl e)
    with q d show ?thesis
      by (auto simp: createOrUpdate_def Let_def deploymentKind_def deploymentAt_def split: if_splits)
  next
    case (Inr a)
    from kindApi_key [OF api kindApi_found [OF api Inr]] d have "depKey a = k" by (simp add: deploymentKind_key)
    with Inr q adopt show ?thesis
      by (auto simp: createOrUpdate_def Let_def deploymentKind_def deploymentAt_def split: if_splits)
  qed
qed

lemma writes_around:
  "only (deploymentAt k) (reconcileReaperService E cc)" "only (deploymentAt k) (reconcileReaperServiceMonitor E cc)"
  "only (deploymentAt k) (reconcileShiroConfigMap E cfg cc)"
  unfolding reconcileReaperService_def reconcileReaperServiceMonitor_def reconcileMonitor_def cleanupOldMonitors_def
    removeServiceMonitors_def removeOldServiceMonitors_def listMonitors_def deleteMonitor_def applyServiceMonitor_def
    reconcileShiroConfigMap_def copiedConfigMap_def getConfigMap_def reconcileConfigMap_def createOrUpdate_def withOwners_def
    serviceKind_def Let_def
  by (intro only_intros; simp)+

lemma writes_reaperOf:
  assumes "kindApi (deploymentKind E) deps" "k = (cc_namespace cc, ReaperDeployment (cc_name cc) (dc_name d))"
  shows "only (deploymentAt k) (reconcileReaperOf E ord cc ps ns d)"
proof -
  have put: "only (deploymentAt k) (createOrUpdate (deploymentKind E) reaperDeploymentTexts keepReaperDeployment
      EqualDeployment adoptReaperDeployment ((reaperDeployment ord cc rea d chk sec addrs)\<lparr>dep_ownerReferences := owners\<rparr>))"
    for rea chk sec addrs owners
    using writes_deployment [OF reaperDeployment_key(1) assms(1)] assms(2) by simp
  show ?thesis
    unfolding reconcileReaperOf_def reconcileReaperDeployment_def getClientSecret_def getSecret_def withOwners_def Let_def
    by (intro only_intros put writes_around; simp)
qed

text \<open>C29: Reaper waits for its first instance: as long as the deployment of the first datacentre is missing or its pod is not
  ready a pass writes no other deployment of Reaper, and if the pass succeeds it asks to be run again after the delay.\<close>

theorem other_reapers_wait:
  assumes "kindApi (deploymentKind E) deps" "deploymentsApart E deps" "spec_dcs (cc_spec cc) = d # ds"
    and "unready deps (cc_namespace cc, ReaperDeployment (cc_name cc) (dc_name d)) w"
    and "q \<in> set (trace (reconcileReaper E cfg ord cc ps ns) w)"
  shows "deploymentAt (cc_namespace cc, ReaperDeployment (cc_name cc) (dc_name d)) q \<and>
    (\<forall>r. result (reconcileReaper E cfg ord cc ps ns) w = Inr r \<longrightarrow> r = requeueAfter (cfg_retryDelay cfg))"
proof -
  let ?k = "(cc_namespace cc, ReaperDeployment (cc_name cc) (dc_name d))"
  let ?u = "world (reconcileShiroConfigMap E cfg cc) w"
  let ?v = "world (reconcileReaperOf E ord cc ps ns d) ?u"
  have "unready deps ?k ?v"
    using assms(4) preserves_keeps [OF keeps_around(1) [OF assms(2)]] unready_reaperOf [OF assms(1,2) refl]
    by (simp add: preserves_def)
  then have first: "fst (e_getDeployment E ?k ?v) = Inr x \<Longrightarrow> dep_readyReplicas x \<noteq> ReaperReplicasNumber" for x
    using kindApi_found [OF assms(1), of ?k ?v x] by (simp add: unready_def deploymentKind_def)
  have "deploymentAt ?k q"
    using assms(5) writes_around(3) [of ?k E cfg cc] writes_reaperOf [OF assms(1) refl, of cc d ord ps ns] first
    by (auto simp: reconcileReaper_def assms(3) Let_def only_def split: sum.splits if_splits)
  moreover have "r = requeueAfter (cfg_retryDelay cfg)" if "result (reconcileReaper E cfg ord cc ps ns) w = Inr r" for r
    using that first by (auto simp: reconcileReaper_def assms(3) Let_def split: sum.splits if_splits)
  ultimately show ?thesis by blast
qed

subsection \<open>Labels\<close>

lemma yields_trace: "yields m w x u \<Longrightarrow> trace (andThen m f) w = trace m w @ trace (f x) u"
  by (auto simp: yields_def)

lemma reconcileReaperDeployment_run:
  assumes "deploymentsApart E deps" "yields (reconcileReaperDeployment E ord cc d ps ns) w () v"
  obtains rea chk sec addrs owners u where "deps u = deps w"
    "yields (createOrUpdate (deploymentKind E) reaperDeploymentTexts keepReaperDeployment EqualDeployment adoptReaperDeployment
      ((reaperDeployment ord cc rea d chk sec addrs)\<lparr>dep_ownerReferences := owners\<rparr>)) u () v"
    "set (trace (createOrUpdate (deploymentKind E) reaperDeploymentTexts keepReaperDeployment EqualDeployment adoptReaperDeployment
      ((reaperDeployment ord cc rea d chk sec addrs)\<lparr>dep_ownerReferences := owners\<rparr>)) u)
        \<subseteq> set (trace (reconcileReaperDeployment E ord cc d ps ns) w)"
proof -
  let ?j = "(cc_namespace cc, ActiveAdminSecret (cc_name cc))"
  let ?a = "wrapErr ''can't get admin role secret'' (call (GetSecret ?j) (e_getSecret E ?j))"
  let ?b = "if hp_enabled (hostPortSpec (cc_spec cc))
     then wrapErr ''error getting broadcast addresses'' (lift (getBroadcastAddresses cc (filterPodsByDCName ps (dc_name d)) ns))
     else ret Map.empty"
  let ?put = "\<lambda>rea s sec addrs owners. createOrUpdate (deploymentKind E) reaperDeploymentTexts keepReaperDeployment EqualDeployment
     adoptReaperDeployment ((reaperDeployment ord cc rea d (e_sha1 E (sec_data s)) sec addrs)\<lparr>dep_ownerReferences := owners\<rparr>)"
  from assms(2) obtain s u1 sec u2 addrs u3 rea u4 owners where
    y: "yields ?a w s u1" "yields (getClientSecret E cc) u1 sec u2" "yields ?b u2 addrs u3"
      "yields (lift (deref (reaperSpec (cc_spec cc)))) u3 rea u4" "e_controllerReference E cc = Inr owners"
      "yields (?put rea s sec addrs owners) u4 () v"
    unfolding reconcileReaperDeployment_def Let_def yields_andThen yields_withOwners by blast
  have "keeps deps ?a" by (intro keeps_wrapErr keeps_call deploymentsApart_calls [OF assms(1)])
  then have "deps u1 = deps w" unfolding yields_world [OF y(1)] by (rule keepsD)
  moreover have "deps u2 = deps u1"
    using getClientSecret_keeps [OF assms(1)] unfolding yields_world [OF y(2)] by (rule keepsD)
  moreover have "u3 = u2" "u4 = u3" using y(3,4) by (auto simp: yields_simps split: if_splits)
  ultimately have st: "deps u4 = deps w" by simp
  have "set (trace (?put rea s sec addrs owners) u4) \<subseteq> set (trace (reconcileReaperDeployment E ord cc d ps ns) w)"
    unfolding reconcileReaperDeployment_def Let_def yields_trace [OF y(1)] yields_trace [OF y(2)] yields_trace [OF y(3)]
      yields_trace [OF y(4)]
    by (auto simp: y(5) withOwners_run)
  then show thesis by (rule that [OF st y(6)])
qed

text \<open>A deployment of Reaper with a label that the operator does not set never settles. The comparison takes the label for a
  difference, the update merges the labels and leaves it: after every successful pass it is still there, and every pass
  sends an update.\<close>

theorem labelled_reaper_never_settles:
  assumes "kindApi (deploymentKind E) deps" "deploymentsApart E deps"
    and "result (reconcileReaperDeployment E ord cc d ps ns) w = Inr ()"
    and "deps w (cc_namespace cc, ReaperDeployment (cc_name cc) (dc_name d)) = Some a" "dep_labels a l = Some v"
    and "WithDCLabel (ComponentLabels cc ComponentReaper) (dc_name d) l = None"
  shows "\<exists>x. Objects (UpdateDeployment x) \<in> set (trace (reconcileReaperDeployment E ord cc d ps ns) w) \<and>
    deps (world (reconcileReaperDeployment E ord cc d ps ns) w)
      (cc_namespace cc, ReaperDeployment (cc_name cc) (dc_name d)) = Some x \<and> dep_labels x l = Some v"
proof -
  let ?k = "(cc_namespace cc, ReaperDeployment (cc_name cc) (dc_name d))"
  obtain rea chk sec addrs owners u where st: "deps u = deps w"
    and run: "yields (createOrUpdate (deploymentKind E) reaperDeploymentTexts keepReaperDeployment EqualDeployment
      adoptReaperDeployment ((reaperDeployment ord cc rea d chk sec addrs)\<lparr>dep_ownerReferences := owners\<rparr>)) u ()
        (world (reconcileReaperDeployment E ord cc d ps ns) w)"
    and tr: "set (trace (createOrUpdate (deploymentKind E) reaperDeploymentTexts keepReaperDeployment EqualDeployment
      adoptReaperDeployment ((reaperDeployment ord cc rea d chk sec addrs)\<lparr>dep_ownerReferences := owners\<rparr>)) u)
        \<subseteq> set (trace (reconcileReaperDeployment E ord cc d ps ns) w)"
    by (rule reconcileReaperDeployment_run [OF assms(2) yieldsI [OF assms(3) refl]])
  define D where "D = (reaperDeployment ord cc rea d chk sec addrs)\<lparr>dep_ownerReferences := owners\<rparr>"
  have D: "depKey D = ?k" "dep_labels D l = None"
    using assms(6) reaperDeployment_key(2) [of ord cc rea d chk sec addrs]
    by (simp_all add: D_def reaperDeployment_key(1))
  define x where "x = adoptReaperDeployment a (keepReaperDeployment a D)"
  have differ: "\<not> EqualDeployment (keepReaperDeployment a D) a"
    using D(2) assms(5) by (auto simp: EqualDeployment_def keepReaperDeployment_def deployment_iff)
  have label: "dep_labels x l = Some v"
    using D(2) assms(5) by (simp add: x_def adoptReaperDeployment_def keepReaperDeployment_def map_add_def)
  note run = run [folded D_def] and tr = tr [folded D_def]
  from reaperDeploy.held [OF assms(1) deploymentKind_key yields_result [OF run], folded yields_world [OF run]]
  have held: "deps (world (reconcileReaperDeployment E ord cc d ps ns) w) ?k = Some x"
    using D(1) st assms(4) differ by (auto simp: x_def)
  have "fst (e_getDeployment E ?k u) = Inr a"
    using kindApi_answer [OF assms(1), where k = ?k and w = u] yields_result [OF run] st assms(4) D(1)
    by (auto simp: deploymentKind_def createOrUpdate_def Let_def isNotFound_def split: sum.splits if_splits)
  then have "Objects (UpdateDeployment x) \<in> set (trace (createOrUpdate (deploymentKind E) reaperDeploymentTexts
      keepReaperDeployment EqualDeployment adoptReaperDeployment D) u)"
    using differ D(1) by (simp add: createOrUpdate_def Let_def deploymentKind_def x_def)
  with tr held label show ?thesis by blast
qed

subsection \<open>The first repairs\<close>

text \<open>What Reaper promises about its clusters: \<open>known w\<close> says that it has the cluster.\<close>

definition reaperKnows :: "'w env \<Rightarrow> ('w \<Rightarrow> bool) \<Rightarrow> bool" where
  "reaperKnows E known \<longleftrightarrow>
     (\<forall>w. known (snd (r_reaperClusterExists (e_reaper E) w)) = known w \<and>
        (\<forall>b. fst (r_reaperClusterExists (e_reaper E) w) = Inr b \<longrightarrow> b = known w)) \<and>
     (\<forall>s w. fst (r_reaperAddCluster (e_reaper E) s w) = Inr () \<longrightarrow> known (snd (r_reaperAddCluster (e_reaper E) s w))) \<and>
     (\<forall>k why w. known (snd (e_runRepair E k why w)) = known w)"

lemma reInit_repairs_nothing: "only (\<lambda>q. \<forall>k why. q \<noteq> RunRepair k why) (reInitReaperIfNeeded E cc seed)"
  unfolding reInitReaperIfNeeded_def clustersOfReaper_def addClusterToReaper_def
  by (intro only_intros; simp)

text \<open>A first repair that fails is lost. The initialisation adds the cluster to Reaper before it starts the two repairs that
  the keyspaces need; if one of them is refused the pass ends with the error, but the next one finds the cluster in Reaper,
  asks for nothing else and succeeds.\<close>

theorem failed_first_repair_is_lost:
  assumes "reaperKnows E known" "RunRepair k why \<in> set (trace (reaperInitialization E cc) w)"
    and "w' = world (reaperInitialization E cc) w" "fst (r_reaperClusterExists (e_reaper E) w') = Inr b"
  shows "trace (reaperInitialization E cc) w' = [Reaper ReaperClusterExists] \<and> result (reaperInitialization E cc) w' = Inr ()"
proof -
  obtain d ds where dcs: "spec_dcs (cc_spec cc) = d # ds"
    using assms(2) by (cases "spec_dcs (cc_spec cc)") (auto simp: reaperInitialization_def)
  let ?seed = "getSeedHostname cc (dc_name d) 0 True"
  let ?u = "snd (r_reaperClusterExists (e_reaper E) w)"
  have quiet: "RunRepair k why \<notin> set (trace (reInitReaperIfNeeded E cc ?seed) v)" for v
    using reInit_repairs_nothing [of E cc ?seed] unfolding only_def by blast
  have fresh: "fst (r_reaperClusterExists (e_reaper E) w) = Inr False"
  proof (cases "fst (r_reaperClusterExists (e_reaper E) w)")
    case (Inl e)
    with assms(2) quiet show ?thesis
      by (cases "e = Panic"; cases "e = NetTimeout"; cases "result (reInitReaperIfNeeded E cc ?seed) ?u")
        (simp_all add: reaperInitialization_def dcs Let_def split: if_splits)
  next
    case (Inr b)
    with assms(2) show ?thesis by (cases b) (simp_all add: reaperInitialization_def dcs Let_def)
  qed
  have added: "fst (r_reaperAddCluster (e_reaper E) ?seed ?u) = Inr ()"
    using assms(2)
    by (cases "fst (r_reaperAddCluster (e_reaper E) ?seed ?u)")
      (simp_all add: reaperInitialization_def dcs Let_def fresh addClusterToReaper_def)
  obtain rea where rea: "deref (reaperSpec (cc_spec cc)) = Inr rea"
    using assms(2)
    by (cases "deref (reaperSpec (cc_spec cc))")
      (simp_all add: reaperInitialization_def dcs Let_def fresh addClusterToReaper_def added)
  have "known w'"
    unfolding assms(3) using assms(1) added
    by (auto simp: reaperInitialization_def dcs Let_def fresh addClusterToReaper_def rea runRepair_def reaperKnows_def
        split: sum.splits)
  with assms(1,4) have "b" by (simp add: reaperKnows_def)
  with assms(4) show ?thesis by (simp add: reaperInitialization_def dcs Let_def)
qed

section \<open>Examples\<close>

text \<open>A server with deployments, services, the secret of the administrator and the configmap of Shiro.\<close>

definition reaperServer :: "proberWorld env" where
  "reaperServer = proberServerEnv\<lparr>e_getSecret := (\<lambda>_ w. (Inr emptySecret, w)), e_getCM := (\<lambda>_ w. (Inr (sampleCM ''shiro''), w))\<rparr>"

lemma reaperServer_kinds:
  "deploymentKind reaperServer = deploymentKind proberServerEnv" "serviceKind reaperServer = serviceKind proberServerEnv"
  "e_controllerReference reaperServer cc = Inr [cc_name cc]" "e_getSecret reaperServer k w = (Inr emptySecret, w)"
  "e_getDeployment reaperServer k w = (answer (depOf w k), w)"
  by (simp_all add: reaperServer_def deploymentKind_def serviceKind_def proberServerEnv_def quietEnv_def)

lemma reaperServer_apart: "deploymentsApart reaperServer depOf"
  using proberServerEnv_apart(1)
  by (simp add: deploymentsApart_def reaperServer_kinds)
    (simp add: untouched_def monitorKind_def reaperServer_def proberServerEnv_def quietEnv_def quietObjects_def)

definition twoDCs :: cassandraCluster where
  "twoDCs = plainCluster\<lparr>cc_spec := (cc_spec plainCluster)\<lparr>spec_dcs := [sampleDC, sampleDC\<lparr>dc_name := ''dc2''\<rparr>]\<rparr>\<rparr>"

definition labelledReaper :: deployment where
  "labelledReaper = (reaperDeployment (\<lambda>_. []) plainCluster emptyReaper sampleDC ''sum'' emptySecret Map.empty)
     \<lparr>dep_ownerReferences := [''c''], dep_labels := [''team'' \<mapsto> ''a'']\<rparr>"

abbreviation oldReapers :: proberWorld where
  "oldReapers \<equiv> ([(''ns'', ''c-cassandra-dc1-reaper'') \<mapsto> labelledReaper], Map.empty)"

theorem other_reapers_wait_witness:
  "Objects (CreateDeployment (labelledReaper\<lparr>dep_name := ''c-cassandra-dc2-reaper''\<rparr>))
     \<notin> set (trace (reconcileReaper reaperServer sampleConfig (\<lambda>_. []) twoDCs [] []) oldReapers)"
proof
  let ?q = "Objects (CreateDeployment (labelledReaper\<lparr>dep_name := ''c-cassandra-dc2-reaper''\<rparr>))"
  assume "?q \<in> set (trace (reconcileReaper reaperServer sampleConfig (\<lambda>_. []) twoDCs [] []) oldReapers)"
  moreover have "spec_dcs (cc_spec twoDCs) = [sampleDC, sampleDC\<lparr>dc_name := ''dc2''\<rparr>]" by (simp add: twoDCs_def)
  moreover have "unready depOf (cc_namespace twoDCs, ReaperDeployment (cc_name twoDCs) (dc_name sampleDC)) oldReapers"
    by (simp add: unready_def keyed_def labelledReaper_def reaperDeployment_key(3) ReaperReplicasNumber_def)
  ultimately have "deploymentAt (cc_namespace twoDCs, ReaperDeployment (cc_name twoDCs) (dc_name sampleDC)) ?q"
    using other_reapers_wait [where deps = depOf, OF proberServerEnv_api(1) [folded reaperServer_kinds(1)] reaperServer_apart]
    by blast
  then show False
    by (simp add: deploymentAt_def depKey_def twoDCs_def ReaperDeployment_def DC_def sampleDC_def)
qed

theorem labelled_reaper_never_settles_witness:
  "\<exists>x. Objects (UpdateDeployment x) \<in> set (trace (reconcileReaperDeployment reaperServer (\<lambda>_. []) plainCluster sampleDC [] []) oldReapers) \<and>
     dep_labels x ''team'' = Some ''a''"
proof -
  have reaper: "deref (reaperSpec (cc_spec plainCluster)) \<noteq> Inl e" for e
    by (simp add: plainCluster_def updServer_def runningCluster_def sampleCluster_def)
  then obtain rea where rea: "deref (reaperSpec (cc_spec plainCluster)) = Inr rea"
    by (cases "deref (reaperSpec (cc_spec plainCluster))") auto
  have ok: "result (reconcileReaperDeployment reaperServer (\<lambda>_. []) plainCluster sampleDC [] []) oldReapers = Inr ()"
    by (simp add: reconcileReaperDeployment_def Let_def reaperServer_kinds getClientSecret_def rea withOwners_run
        proberServerEnv_step)
  have old: "depOf oldReapers (cc_namespace plainCluster, ReaperDeployment (cc_name plainCluster) (dc_name sampleDC)) = Some labelledReaper"
    by (simp add: keyed_def ReaperDeployment_def DC_def sampleDC_def labelledReaper_def reaperDeployment_def depKey_def Let_def)
  have "dep_labels labelledReaper ''team'' = Some ''a''" by (simp add: labelledReaper_def)
  moreover have "WithDCLabel (ComponentLabels plainCluster ComponentReaper) (dc_name sampleDC) ''team'' = None"
    by (simp add: WithDCLabel_def ComponentLabels_def ClusterDCLabel_def ClusterInstanceLabel_def ClusterComponentLabel_def)
  ultimately show ?thesis
    using labelled_reaper_never_settles [where deps = depOf,
        OF proberServerEnv_api(1) [folded reaperServer_kinds(1)] reaperServer_apart ok old]
    by blast
qed

text \<open>A Reaper that refuses every repair.\<close>

definition busyReaperServer :: "bool env" where
  "busyReaperServer = quietEnv\<lparr>e_runRepair := (\<lambda>_ _ w. (Inl (Err ''busy''), w)),
     e_reaper := quietReaper\<lparr>r_reaperClusterExists := (\<lambda>w. (Inr w, w)), r_reaperAddCluster := (\<lambda>_ _. (Inr (), True))\<rparr>\<rparr>"

theorem failed_first_repair_is_lost_witness:
  "result (reaperInitialization busyReaperServer plainCluster) False \<noteq> Inr () \<and>
   trace (reaperInitialization busyReaperServer plainCluster) (world (reaperInitialization busyReaperServer plainCluster) False)
     = [Reaper ReaperClusterExists]"
proof -
  have knows: "reaperKnows busyReaperServer (\<lambda>w. w)" by (simp add: reaperKnows_def busyReaperServer_def)
  obtain rea where rea: "deref (reaperSpec (cc_spec plainCluster)) = Inr rea"
    by (simp add: plainCluster_def updServer_def runningCluster_def sampleCluster_def)
  have calls: "r_reaperClusterExists (e_reaper busyReaperServer) = (\<lambda>w. (Inr w, w))"
    "r_reaperAddCluster (e_reaper busyReaperServer) s = (\<lambda>_. (Inr (), True))"
    "e_runRepair busyReaperServer k why = (\<lambda>w. (Inl (Err ''busy''), w))" for s k why
    by (simp_all add: busyReaperServer_def)
  have "RunRepair (rea_keyspace rea) repairCauseReaperInit \<in> set (trace (reaperInitialization busyReaperServer plainCluster) False)"
    by (simp add: reaperInitialization_def Let_def calls addClusterToReaper_def rea runRepair_def)
  moreover have "result (reaperInitialization busyReaperServer plainCluster) False \<noteq> Inr ()"
    by (simp add: reaperInitialization_def Let_def calls addClusterToReaper_def rea runRepair_def)
  ultimately show ?thesis using failed_first_repair_is_lost [OF knows _ refl, of _ _ plainCluster False] calls(1) by simp
qed

end
