(* ===== verification/Controller.thy ===== *)
theory Controller
  imports Reaper_Workload Cql_Scripts Roles Maintenance Repair_Schedules Readiness Scaling
begin

text \<open>
  The reconciler of clusters: \<open>controllers/controller.go\<close>. One pass runs the steps of the other theories in the order of
  the code; each step can end the pass, with an error, or with a result that says when to run again.
  The steps come in two parts, before and after the cluster is found ready; the deferred functions of Go run after them.
  The lemmas say what may happen before the cluster is ready, when a pass is run again, and what it writes to the status.
\<close>

section \<open>What the reconciler is given\<close>

text \<open>The libraries, the configuration, the clock and the orders in which Go visits its maps.\<close>

record 'w surroundings =
  su_crypto :: "'w cryptoLib"
  su_home :: string
  su_cfg :: operatorConfig
  su_yaml :: yamlCodec
  su_role :: "string \<Rightarrow> go_error + userRole"
  su_mapOrder :: "strmap \<Rightarrow> string list"
  su_roleOrder :: "string list"
  su_optionOrder :: "string list"
  su_scriptOrder :: "configMap \<Rightarrow> string list"
  su_stsOrder :: "statefulSet list"
  su_clock :: "'w \<Rightarrow> int"
  su_zone :: int

definition EventAdminRoleSecretNotFound :: string where "EventAdminRoleSecretNotFound = ''AdminRoleSecretNotFound''"
definition EventAdminRoleSecretInvalid :: string where "EventAdminRoleSecretInvalid = ''AdminRoleSecretInvalid''"

section \<open>Steps that can end the pass\<close>

text \<open>\<open>Done r\<close> is \<open>return r, nil\<close>; \<open>Go x\<close> goes on.\<close>

datatype 'a phase = Done ctrlResult | Go 'a

definition nextStep :: "('w, 'a phase) run \<Rightarrow> ('a \<Rightarrow> ('w, 'b phase) run) \<Rightarrow> ('w, 'b phase) run" where
  "nextStep m f = andThen m (\<lambda>p. case p of Done r \<Rightarrow> ret (Done r) | Go x \<Rightarrow> f x)"

definition step :: "('w, 'a) run \<Rightarrow> ('w, 'a phase) run" where
  "step m = andThen m (\<lambda>x. ret (Go x))"

definition retryLater :: "operatorConfig \<Rightarrow> ('w, 'a phase) run" where
  "retryLater cfg = ret (Done (requeueAfter (cfg_retryDelay cfg)))"

text \<open>A step some of whose errors, by their cause, only delay the pass.\<close>

definition delayedBy :: "operatorConfig \<Rightarrow> go_error set \<Rightarrow> (go_error \<Rightarrow> go_error) \<Rightarrow> ('w, 'a) run \<Rightarrow> ('w, 'a phase) run" where
  "delayedBy cfg causes wrapping m =
     andThen (attempt m) (\<lambda>r. case r of
         Inr x \<Rightarrow> ret (Go x)
       | Inl e \<Rightarrow> if cause e \<in> causes then retryLater cfg else raise (wrapping e))"

section \<open>Before the cluster is ready\<close>

text \<open>The error of \<open>extractCredentials\<close> is its text.\<close>

definition plainText :: "go_error \<Rightarrow> string" where
  "plainText e = (case e of Err s \<Rightarrow> s | _ \<Rightarrow> '''')"

definition adminSecretStep :: "'w env \<Rightarrow> operatorConfig \<Rightarrow> cassandraCluster \<Rightarrow> ('w, secret phase) run" where
  "adminSecretStep E cfg cc =
     (let n = adminRoleSecretName (cc_spec cc); k = (cc_namespace cc, n) in
      andThen (attempt (call (GetSecret k) (e_getSecret E k))) (\<lambda>r. case r of
          Inl e \<Rightarrow>
            if isNotFound e
            then andThen (emit EventAdminRoleSecretNotFound (''admin secret '' @ n @ '' not found'')) (\<lambda>_. retryLater cfg)
            else raise (Wrap (''Failed to get secret: '' @ ActiveAdminSecret (cc_name cc)) e)
        | Inr s \<Rightarrow>
            step (andThen (wrapErr ''failed to reconcile annotations''
              (reconcileAnnotations E s [ClusterInstanceLabel \<mapsto> cc_name cc])) (\<lambda>_. ret s))))"

definition credentialsStep :: "operatorConfig \<Rightarrow> cassandraCluster \<Rightarrow> secret \<Rightarrow> ('w, (string \<times> string) phase) run" where
  "credentialsStep cfg cc s =
     (case extractCredentials s of
        Inl e \<Rightarrow> andThen (emit EventAdminRoleSecretInvalid (''admin secret '' @ quoted (adminRoleSecretName (cc_spec cc)) @
            '' is invalid: '' @ plainText e)) (\<lambda>_. retryLater cfg)
      | Inr c \<Rightarrow> ret (Go c))"

definition configStep :: "'w env \<Rightarrow> operatorConfig \<Rightarrow> cassandraCluster \<Rightarrow> ('w, unit) run" where
  "configStep E cfg cc =
     andThen (wrapErr ''Error reconciling maintenance configmap'' (reconcileMaintenanceConfigMap E cc)) (\<lambda>_.
     andThen (wrapErr ''Error reconciling prometheus configmap'' (reconcilePrometheusConfigMap E cfg cc)) (\<lambda>_.
     andThen (wrapErr ''Failed to reconcile collectd configmap'' (reconcileCollectdConfigMap E cfg cc)) (\<lambda>_.
     andThen (wrapErr ''Failed to reconcile service monitor'' (reconcileCassandraServiceMonitor E cc)) (\<lambda>_.
       wrapErr ''Error reconciling prober'' (reconcileProber E cc)))))"

definition proberStep :: "'w env \<Rightarrow> operatorConfig \<Rightarrow> cassandraCluster \<Rightarrow> ('w, unit phase) run" where
  "proberStep E cfg cc =
     andThen (attempt (call ProberPing (e_proberPing E))) (\<lambda>r. case r of
         Inl _ \<Rightarrow> retryLater cfg
       | Inr proberReady \<Rightarrow>
           if \<not> proberReady then retryLater cfg
           else (let dcs = spec_dcs (cc_spec cc) in step (call (PutDCs dcs) (e_putDCs E dcs))))"

text \<open>The nodes are needed with host ports or racks by zone only.\<close>

definition nodesStep :: "'w env \<Rightarrow> cassandraCluster \<Rightarrow> ('w, k8sNode list) run" where
  "nodesStep E cc =
     andThen (if hp_enabled (hostPortSpec (cc_spec cc)) then ret True
              else andThen (lift (deref (cassandraSpec (cc_spec cc)))) (\<lambda>cas. ret (cas_zonesAsRacks cas))) (\<lambda>needed.
       if needed then wrapErr ''can't get list of nodes'' (call ListNodes (e_listNodes E)) else ret [])"

definition podsStep ::
  "'w env \<Rightarrow> 'w surroundings \<Rightarrow> cassandraCluster \<Rightarrow> ('w, (pod list \<times> k8sNode list \<times> dc list) phase) run" where
  "podsStep E S cc =
     (let cfg = su_cfg S in
      nextStep (step (wrapErr ''Error reconciling cassandra configmaps''
          (reconcileCassandraConfigMap E cfg (su_yaml S) cc Map.empty))) (\<lambda>restartChecksum.
      nextStep (step (wrapErr ''Cannot get Cassandra pods list'' (getCassandraPods E))) (\<lambda>ps.
      nextStep (step (nodesStep E cc)) (\<lambda>ns.
      nextStep (delayedBy cfg {ErrPodNotScheduled, ErrRegionNotReady} (Wrap ''Error reconciling cassandra pods configmap'')
          (reconcileCassandraPodsConfigMap E cc ps ns)) (\<lambda>_.
      nextStep (delayedBy cfg {ErrTLSSecretNotFound, ErrTLSSecretInvalid} (Wrap ''Error reconciling statefulsets'')
          (reconcileCassandra E (su_mapOrder S) cc restartChecksum)) (\<lambda>_.
      nextStep (delayedBy cfg {ErrRegionNotReady} (Wrap ''can't get all dcs across regions'') (getAllDCs E cc)) (\<lambda>allDCs.
        ret (Go (ps, ns, allDCs)))))))))"

text \<open>While a scaling is in progress the pass ends without a requeue: the events of the objects start the next one.\<close>

definition scalingStep ::
  "'w env \<Rightarrow> 'w surroundings \<Rightarrow> cassandraCluster \<Rightarrow> pod list \<Rightarrow> k8sNode list \<Rightarrow> dc list \<Rightarrow> secret \<Rightarrow> ('w, unit phase) run" where
  "scalingStep E S cc ps ns allDCs baseSecret =
     nextStep (delayedBy (su_cfg S) {ErrDCDecommissionBlocked} (\<lambda>e. e)
         (reconcileCassandraScaling E (su_stsOrder S) cc ps ns allDCs baseSecret)) (\<lambda>scalingInProgress.
       if scalingInProgress then ret (Done noRequeue) else ret (Go ()))"

definition readyStep :: "'w env \<Rightarrow> operatorConfig \<Rightarrow> cassandraCluster \<Rightarrow> dc list \<Rightarrow> ('w, unit phase) run" where
  "readyStep E cfg cc allDCs =
     andThen (wrapErr ''Failed to reconcile maintenance'' (reconcileMaintenance E cc)) (\<lambda>_.
     andThen (if length (managedRegions cc) > 0 then reconcileSystemAuthIfReady E cc allDCs else ret ()) (\<lambda>_.
     andThen (clusterReady E cc) (\<lambda>ready. if \<not> ready then retryLater cfg else ret (Go ()))))"

record passState =
  pa_pods :: "pod list"
  pa_nodes :: "k8sNode list"
  pa_allDCs :: "dc list"
  pa_auth :: credentials

definition beforeReady :: "'w env \<Rightarrow> 'w surroundings \<Rightarrow> cassandraCluster \<Rightarrow> ('w, passState phase) run" where
  "beforeReady E S cc =
     (let cfg = su_cfg S in
      nextStep (adminSecretStep E cfg cc) (\<lambda>baseSecret.
      nextStep (credentialsStep cfg cc baseSecret) (\<lambda>(role, pw).
      nextStep (step (wrapErr ''Error reconciling Admin Auth Secrets'' (reconcileAdminAuth E cc role pw))) (\<lambda>auth.
      nextStep (step (configStep E cfg cc)) (\<lambda>_.
      nextStep (proberStep E cfg cc) (\<lambda>_.
      nextStep (podsStep E S cc) (\<lambda>(ps, ns, allDCs).
      nextStep (scalingStep E S cc ps ns allDCs baseSecret) (\<lambda>_.
      nextStep (readyStep E cfg cc allDCs) (\<lambda>_.
        ret (Go \<lparr>pa_pods = ps, pa_nodes = ns, pa_allDCs = allDCs, pa_auth = auth\<rparr>))))))))))"

section \<open>Once it is ready\<close>

definition needsRequeue :: "ctrlResult \<Rightarrow> bool" where
  "needsRequeue r \<longleftrightarrow> cr_requeue r \<or> cr_requeueAfter r > 0"

text \<open>Deferring a method of a nil session panics at once.\<close>

definition rolesStep :: "'w env \<Rightarrow> 'w surroundings \<Rightarrow> cassandraCluster \<Rightarrow> passState \<Rightarrow> ('w, unit) run" where
  "rolesStep E S cc p =
     andThen (wrapErr ''Failed to reconcile Admin Role'' (reconcileAdminRole E cc (pa_auth p) (pa_allDCs p))) (\<lambda>session.
       if \<not> session then raise Panic else reconcileRoles E (su_role S) (su_roleOrder S) cc)"

definition reaperStep :: "'w env \<Rightarrow> 'w surroundings \<Rightarrow> cassandraCluster \<Rightarrow> passState \<Rightarrow> ('w, unit phase) run" where
  "reaperStep E S cc p =
     (let cfg = su_cfg S in
      andThen (wrapErr ''Error checking for first region reaper readiness'' (waitForFirstRegionReaper E cc)) (\<lambda>wait.
      if wait then retryLater cfg
      else
        andThen (wrapErr ''Error reconciling reaper keyspace''
            (reconcileReaperKeyspace E (su_optionOrder S) cc (pa_allDCs p))) (\<lambda>_.
        andThen (reconcileReaper E cfg (su_mapOrder S) cc (pa_pods p) (pa_nodes p)) (\<lambda>res.
          if needsRequeue res then ret (Done res) else ret (Go ())))))"

definition tellReaperStatus :: "'w env \<Rightarrow> bool \<Rightarrow> ('w, unit) run" where
  "tellReaperStatus E b = call (PutReaperStatus b) (e_putReaperStatus E b)"

definition runningStep :: "'w env \<Rightarrow> operatorConfig \<Rightarrow> ('w, unit phase) run" where
  "runningStep E cfg =
     andThen (attempt (call ReaperIsRunning (e_reaperIsRunning E))) (\<lambda>r.
       if r = Inr True then ret (Go ()) else andThen (tellReaperStatus E False) (\<lambda>_. retryLater cfg))"

definition lastSteps :: "'w env \<Rightarrow> 'w surroundings \<Rightarrow> cassandraCluster \<Rightarrow> passState \<Rightarrow> ('w, unit) run" where
  "lastSteps E S cc p =
     andThen (wrapErr ''Failed to initialize reaper'' (reaperInitialization E cc)) (\<lambda>_.
     andThen (tellReaperStatus E True) (\<lambda>_.
     andThen (wrapErr ''Failed to reconcile repair schedules'' (reconcileRepairSchedules E (su_clock S) (su_zone S) cc)) (\<lambda>_.
     andThen (wrapErr ''Failed to reconcile keyspaces'' (reconcileKeyspaces E cc (pa_allDCs p))) (\<lambda>_.
     andThen (wrapErr ''Failed to reconcile CQL configmaps'' (reconcileCQLConfigMaps E (su_scriptOrder S) cc)) (\<lambda>_.
     andThen (removeDefaultRoleIfExists E cc) (\<lambda>_.
       wrapErr ''Error reconciling network policies''
         (reconcileNetworkPolicies E (cfg_namespace (su_cfg S)) cc (pa_pods p))))))))"

definition minute :: int where "minute = 60000000000"

definition onceReady :: "'w env \<Rightarrow> 'w surroundings \<Rightarrow> cassandraCluster \<Rightarrow> passState \<Rightarrow> ('w, ctrlResult) run" where
  "onceReady E S cc p =
     andThen
       (nextStep (step (rolesStep E S cc p)) (\<lambda>_.
        nextStep (reaperStep E S cc p) (\<lambda>_.
        nextStep (runningStep E (su_cfg S)) (\<lambda>_. step (lastSteps E S cc p)))))
       (\<lambda>q. case q of Done r \<Rightarrow> ret r | Go _ \<Rightarrow> ret (requeueAfter minute))"

section \<open>The pass\<close>

text \<open>An action whose outcome, a panic included, is kept for the deferred functions.\<close>

definition captured :: "('w, 'q, 'a) act \<Rightarrow> ('w, 'q, go_error + 'a) act" where
  "captured m = (\<lambda>w. (Inr (result m w), trace m w, world m w))"

text \<open>The outcome of the steps and the variable \<open>clusterReady\<close>.\<close>

definition allSteps :: "'w env \<Rightarrow> 'w surroundings \<Rightarrow> cassandraCluster \<Rightarrow> ('w, (go_error + ctrlResult) \<times> bool) run" where
  "allSteps E S cc =
     andThen (captured (beforeReady E S cc)) (\<lambda>r. case r of
         Inl e \<Rightarrow> ret (Inl e, False)
       | Inr (Done res) \<Rightarrow> ret (Inr res, False)
       | Inr (Go p) \<Rightarrow> andThen (captured (onceReady E S cc p)) (\<lambda>out. ret (out, True)))"

text \<open>The first deferred function: the copy of the cluster was made before the steps, and an error of the update is only
  logged.\<close>

definition updateReadiness :: "'w env \<Rightarrow> cassandraCluster \<Rightarrow> bool \<Rightarrow> ('w, unit) run" where
  "updateReadiness E ccStatus ready =
     (if st_ready (cc_status ccStatus) \<noteq> ready
      then (let new = ccStatus\<lparr>cc_status := (cc_status ccStatus)\<lparr>st_ready := ready\<rparr>\<rparr> in
            andThen (attempt (call (UpdateClusterStatus new) (e_updateStatus E new))) (\<lambda>_. ret ()))
      else ret ())"

definition trackedSteps :: "'w env \<Rightarrow> 'w surroundings \<Rightarrow> cassandraCluster \<Rightarrow> ('w, (go_error + ctrlResult) \<times> bool) run" where
  "trackedSteps E S cc =
     andThen (captured (andThen (reconcileCassandraRBAC E cc) (\<lambda>_.
         wrapErr ''Error reconciling TLS Secrets'' (reconcileTLSSecrets E (su_crypto S) (su_home S) cc)))) (\<lambda>r. case r of
       Inl e \<Rightarrow> ret (Inl e, False)
     | Inr cc' \<Rightarrow>
         andThen (allSteps E S cc') (\<lambda>out. andThen (cleanupClientTLSDir E (su_home S) cc') (\<lambda>_. ret out)))"

definition reconcileWithContext :: "'w env \<Rightarrow> 'w surroundings \<Rightarrow> key \<Rightarrow> ('w, ctrlResult) run" where
  "reconcileWithContext E S k =
     andThen (attempt (call (GetCluster k) (e_getCluster E k))) (\<lambda>r. case r of
         Inl e \<Rightarrow> if isNotFound e then ret noRequeue else raise e
       | Inr found \<Rightarrow>
           andThen (lift (defaultCassandraCluster (su_cfg S) found)) (\<lambda>cc.
           andThen (wrapErr ''Failed to cleanup network policies'' (cleanupNetworkPolicies E cc)) (\<lambda>_.
           andThen (trackedSteps E S cc) (\<lambda>(out, ready).
           andThen (updateReadiness E cc ready) (\<lambda>_. lift out)))))"

definition Reconcile :: "'w env \<Rightarrow> 'w surroundings \<Rightarrow> key \<Rightarrow> ('w, ctrlResult) run" where
  "Reconcile E S k =
     andThen (attempt (reconcileWithContext E S k)) (\<lambda>r. case r of
         Inr res \<Rightarrow> ret res
       | Inl e \<Rightarrow> if cause e = Conflict then ret \<lparr>cr_requeue = True, cr_requeueAfter = 0\<rparr> else raise e)"

end
