(* ===== verification/Ready_Gate.thy ===== *)
theory Ready_Gate
  imports Controller
begin

text \<open>
  What the reconciler does not do before the cluster is ready: no keyspace of Reaper and no script is created in Cassandra,
  the default role stays, Reaper is not asked for anything, and no network policy is written. One lemma per step says so.
\<close>

fun gated :: "req \<Rightarrow> bool" where
  "gated (CqlQuery _) = True"
| "gated (CqlDropRole _) = True"
| "gated (CreateNetworkPolicy _) = True"
| "gated (UpdateNetworkPolicy _) = True"
| "gated (PutReaperStatus _) = True"
| "gated (Reaper _) = True"
| "gated _ = False"

abbreviation ungated :: "('w, 'a) run \<Rightarrow> bool" where "ungated m \<equiv> only (\<lambda>q. \<not> gated q) m"

lemma only_case_prod: "(\<And>a b. only P (f a b)) \<Longrightarrow> only P (case p of (a, b) \<Rightarrow> f a b)"
  by (cases p) simp

section \<open>Secrets, accounts and configmaps\<close>

lemma ungated_helpers [only_intros]:
  "ungated (getConfigMap E n ns)" "ungated (getSecret E n ns)" "ungated (reconcileConfigMap E m)"
  "ungated (reconcileSecret E s)" "ungated (reconcileAnnotations E s a)"
  unfolding getConfigMap_def getSecret_def reconcileConfigMap_def reconcileSecret_def reconcileAnnotations_def Let_def
  by (intro only_intros; simp)+

lemma ungated_withOwners [only_intros]: "(\<And>owners. ungated (f owners)) \<Longrightarrow> ungated (withOwners E cc f)"
  unfolding withOwners_def by (intro only_intros)

lemma ungated_createOrUpdate [only_intros]:
  assumes "\<And>k. \<not> gated (kd_getReq K k)" "\<And>x. \<not> gated (kd_createReq K x)" "\<And>x. \<not> gated (kd_updateReq K x)"
  shows "ungated (createOrUpdate K T keep equal adopt d)"
  unfolding createOrUpdate_def Let_def by (intro only_intros; simp add: assms)

lemmas kinds = serviceKind_def stsKind_def deploymentKind_def ingressKind_def roleKind_def bindingKind_def accountKind_def

lemma ungated_rbac [only_intros]: "ungated (reconcileCassandraRBAC E cc)"
  unfolding reconcileCassandraRBAC_def reconcileCassandraRole_def reconcileCassandraRoleBinding_def
    reconcileCassandraServiceAccount_def kinds
  by (intro only_intros; simp)

lemma ungated_reconcileMonitor [only_intros]: "ungated (reconcileMonitor E cc enabled sm label m)"
  unfolding reconcileMonitor_def cleanupOldMonitors_def removeServiceMonitors_def removeOldServiceMonitors_def
    listMonitors_def deleteMonitor_def applyServiceMonitor_def Let_def
  by (intro only_intros; simp)

lemma ungated_prober [only_intros]: "ungated (reconcileProber E cc)"
  unfolding reconcileProber_def reconcileProberServiceAccount_def reconcileProberRole_def reconcileProberRoleBinding_def
    reconcileProberDeployment_def getClientSecret_def reconcileProberService_def reconcileProberServiceMonitor_def
    reconcileProberIngress_def kinds Let_def
  by (intro only_intros; simp)

lemma ungated_generators [only_intros]: "ungated (genCASecret C cc ca)" "ungated (genNodeSecret C cc n ca a)"
  by (rule only_silent; simp)+

lemma ungated_nodeTLS [only_intros]: "ungated (reconcileNodeTLSSecret E cc c ty)"
  unfolding reconcileNodeTLSSecret_def getTLSSecret_def validateTLSFields_def Let_def
  by (intro only_intros only_case_prod; simp)

lemma ungated_encryption [only_intros]:
  "ungated (chooseName E cc ty)" "ungated (handleCASecret E C cc ca)" "ungated (handleNodeSecret E C cc ca node)"
  unfolding chooseName_def getTLSSecret_def handleCASecret_def handleNodeSecret_def ownedSecret_def Let_def
  by (intro only_intros only_case_prod; simp)+


lemma ungated_configMaps [only_intros]:
  "ungated (reconcileMaintenanceConfigMap E cc)" "ungated (reconcilePrometheusConfigMap E cfg cc)"
  "ungated (reconcileCollectdConfigMap E cfg cc)" "ungated (reconcileCassandraServiceMonitor E cc)"
  unfolding reconcileMaintenanceConfigMap_def reconcilePrometheusConfigMap_def reconcileCollectdConfigMap_def
    copiedConfigMap_def reconcileCassandraServiceMonitor_def Let_def
  by (intro only_intros; simp)+

lemma ungated_cassandraConfigMap [only_intros]: "ungated (reconcileCassandraConfigMap E cfg Y cc c)"
  unfolding reconcileCassandraConfigMap_def overrideSettings_def addServerOptions_def addClientOptions_def Let_def
  by (intro only_intros only_case_prod; simp)

lemma ungated_someRegionReady [only_intros]: "ungated (someRegionReady E cc rs)"
  by (induction rs) (simp_all add: Let_def only_intros)

lemma ungated_adminAuth [only_intros]: "ungated (reconcileAdminAuth E cc role pw)"
  unfolding reconcileAdminAuth_def createClusterAdminSecrets_def handleAdminRoleChange_def reconcileAdminSecrets_def
    reconcileActiveAdminSecret_def reconcileAdminAuthConfigSecret_def authConfigData_def updateAdminRoleInCassandra_def
    createRole_def Let_def
  by (intro only_intros only_case_prod; simp)

section \<open>Pods and stateful sets\<close>

lemma ungated_podsConfig [only_intros]: "ungated (reconcileCassandraPodsConfigMap E cc ps ns)"
  unfolding reconcileCassandraPodsConfigMap_def podsConfigMapData_def getInitOrderInfo_def fetchRegionStatus_def
    getRemoteClusterRegionsStatuses_def getSeedsList_def fetchRegionSeeds_def reconcilePodIPsConfigMap_def Let_def
  by (intro only_intros only_case_prod; simp)

lemma ungated_cassandra [only_intros]: "ungated (reconcileCassandra E ord cc c)"
  unfolding reconcileCassandra_def reconcileDCService_def reconcileDCStatefulSet_def reconcileCassandraPodLabels_def
    relabelPod_def getCassandraPods_def kinds Let_def
  by (intro only_intros only_case_prod; simp)

lemma ungated_allDCs [only_intros]: "ungated (getAllDCs E cc)"
  unfolding getAllDCs_def fetchRegionDCs_def Let_def by (intro only_intros; simp)

lemma ungated_decommission [only_intros]:
  "ungated (handlePodDecommission E cc sts addrs n ps)" "ungated (removeDC E cc sts)"
  unfolding handlePodDecommission_def removeDC_def Let_def by (intro only_intros; simp)+

lemma ungated_decommissionLoop [only_intros]: "ungated (decommissionLoop E cc addrs ps m ns)"
  by (induction ns) (auto intro!: only_intros split: option.split)

lemma ungated_scaleLoop [only_intros]: "ungated (scaleLoop E cc addrs ps r m ns)"
  by (induction ns) (auto simp: Let_def intro!: only_intros split: option.split)

lemma ungated_scaling [only_intros]: "ungated (reconcileCassandraScaling E ord cc ps ns dcs s)"
  unfolding reconcileCassandraScaling_def handleDCsDecommission_def prepareKeyspace_def cqlUpdateRF_def Let_def
  by (intro only_intros only_case_prod; simp)

section \<open>Readiness\<close>

lemma ungated_requestLoop [only_intros]: "ungated (requestLoop E cc ps)"
proof -
  have "ungated (updateMaintenanceMode E cc b p)" for b p
    unfolding updateMaintenanceMode_def updateMaintenanceConfigMap_def patchConfigMap_def patchPodStatusPhase_def
      getPod_def Let_def
    by (intro only_intros; simp)
  then show ?thesis by (induction ps) (simp_all add: Let_def)
qed

lemma ungated_maintenance [only_intros]: "ungated (reconcileMaintenance E cc)"
  unfolding reconcileMaintenance_def processMaintenanceRequest_def generateMaintenanceStatus_def getCassandraPods_def Let_def
  by (intro only_intros; simp)

lemma ungated_systemAuth [only_intros]: "ungated (reconcileSystemAuthIfReady E cc dcs)"
  unfolding reconcileSystemAuthIfReady_def reconcileSystemAuthKeyspace_def cqlUpdateRF_def runRepair_def Let_def
  by (intro only_intros; simp)

lemma ungated_clusterReady [only_intros]: "ungated (clusterReady E cc)"
  unfolding clusterReady_def putRegionStatus_def by (intro only_intros; simp)

section \<open>The steps of a pass\<close>

lemma only_nextStep [only_intros]: "only P m \<Longrightarrow> (\<And>x. only P (f x)) \<Longrightarrow> only P (nextStep m f)"
  unfolding nextStep_def by (rule only_andThen) (auto split: phase.split)

lemma only_step [only_intros]: "only P m \<Longrightarrow> only P (step m)"
  unfolding step_def by (intro only_intros)

lemma only_delayedBy [only_intros]: "only P m \<Longrightarrow> only P (delayedBy cfg cs f m)"
  unfolding delayedBy_def retryLater_def by (intro only_intros)


section \<open>The pass up to the check of the readiness\<close>

text \<open>
  The parts of a pass before the check, as specifications over the code's steps: \<open>passOpening\<close> reads the cluster, with the
  defaults and then with the names of its TLS secrets; \<open>beforeScaling\<close> runs to the list of all datacentres, and
  \<open>beforeCheck\<close> to the point where the readiness is asked for. The properties speak of one pass: \<open>yields\<close> gives the exact
  world in which each part starts and ends.
\<close>

definition passOpening :: "'w env \<Rightarrow> 'w surroundings \<Rightarrow> key \<Rightarrow> ('w, cassandraCluster \<times> cassandraCluster) run" where
  "passOpening E S k =
     andThen (call (GetCluster k) (e_getCluster E k)) (\<lambda>found.
     andThen (lift (defaultCassandraCluster (su_cfg S) found)) (\<lambda>cc.
     andThen (cleanupNetworkPolicies E cc) (\<lambda>_.
     andThen (reconcileCassandraRBAC E cc) (\<lambda>_.
     andThen (reconcileTLSSecrets E (su_crypto S) (su_home S) cc) (\<lambda>cc'. ret (cc, cc'))))))"

definition beforeScaling ::
  "'w env \<Rightarrow> 'w surroundings \<Rightarrow> cassandraCluster \<Rightarrow> ('w, (secret \<times> passState) phase) run" where
  "beforeScaling E S cc =
     nextStep (adminSecretStep E (su_cfg S) cc) (\<lambda>baseSecret.
     nextStep (credentialsStep (su_cfg S) cc baseSecret) (\<lambda>(role, pw).
     nextStep (step (wrapErr ''Error reconciling Admin Auth Secrets'' (reconcileAdminAuth E cc role pw))) (\<lambda>auth.
     nextStep (step (configStep E (su_cfg S) cc)) (\<lambda>_.
     nextStep (proberStep E (su_cfg S) cc) (\<lambda>_.
     nextStep (podsStep E S cc) (\<lambda>(ps, ns, dcs).
       ret (Go (baseSecret, \<lparr>pa_pods = ps, pa_nodes = ns, pa_allDCs = dcs, pa_auth = auth\<rparr>))))))))"

definition beforeCheck :: "'w env \<Rightarrow> 'w surroundings \<Rightarrow> cassandraCluster \<Rightarrow> ('w, passState phase) run" where
  "beforeCheck E S cc =
     nextStep (beforeScaling E S cc) (\<lambda>(baseSecret, p).
     nextStep (scalingStep E S cc (pa_pods p) (pa_nodes p) (pa_allDCs p) baseSecret) (\<lambda>_.
     andThen (wrapErr ''Failed to reconcile maintenance'' (reconcileMaintenance E cc)) (\<lambda>_.
     andThen (if length (managedRegions cc) > 0 then reconcileSystemAuthIfReady E cc (pa_allDCs p) else ret ()) (\<lambda>_.
       ret (Go p)))))"

text \<open>The check of this pass: it succeeds, for the cluster that was read, in the world that the steps before it left.\<close>

definition checkSucceeds :: "'w env \<Rightarrow> 'w surroundings \<Rightarrow> cassandraCluster \<Rightarrow> 'w \<Rightarrow> passState \<Rightarrow> 'w \<Rightarrow> bool" where
  "checkSucceeds E S cc w p v \<longleftrightarrow> (\<exists>u. yields (beforeCheck E S cc) w (Go p) u \<and> yields (clusterReady E cc) u True v)"

subsection \<open>Composition\<close>

lemma nextStep_ret: "nextStep (ret (Go x)) f = f x"
  by (simp add: nextStep_def)

lemma nextStep_andThen: "nextStep (andThen m f) g = andThen m (\<lambda>x. nextStep (f x) g)"
  by (simp add: nextStep_def andThen_assoc)

lemma nextStep_assoc: "nextStep (nextStep m f) g = nextStep m (\<lambda>x. nextStep (f x) g)"
proof -
  have "andThen (case p of Done r \<Rightarrow> ret (Done r) | Go x \<Rightarrow> f x) (\<lambda>p. case p of Done r \<Rightarrow> ret (Done r) | Go x \<Rightarrow> g x) =
      (case p of Done r \<Rightarrow> ret (Done r) | Go x \<Rightarrow> andThen (f x) (\<lambda>p. case p of Done r \<Rightarrow> ret (Done r) | Go x \<Rightarrow> g x))" for p
    by (cases p) simp_all
  then show ?thesis by (simp add: nextStep_def andThen_assoc)
qed

lemma nextStep_retryLater: "nextStep (retryLater cfg) f = retryLater cfg"
  by (simp add: nextStep_def retryLater_def)

lemma nextStep_if: "nextStep (if b then m else n) f = (if b then nextStep m f else nextStep n f)"
  by simp

lemma nextStep_prod: "nextStep (case p of (a, b) \<Rightarrow> f a b) g = (case p of (a, b) \<Rightarrow> nextStep (f a b) g)"
  by (cases p) simp

lemma beforeReady_split:
  "beforeReady E S cc = nextStep (beforeCheck E S cc) (\<lambda>p.
     andThen (clusterReady E cc) (\<lambda>ready. if \<not> ready then retryLater (su_cfg S) else ret (Go p)))"
  unfolding beforeReady_def beforeCheck_def beforeScaling_def readyStep_def Let_def
    nextStep_assoc nextStep_andThen nextStep_prod nextStep_ret nextStep_if nextStep_retryLater prod.case passState.select_convs
  by simp

lemma yields_nextStep:
  "yields (nextStep m f) w (Go y) v \<longleftrightarrow> (\<exists>x u. yields m w (Go x) u \<and> yields (f x) u (Go y) v)"
  unfolding nextStep_def yields_andThen
proof (intro iffI; elim exE conjE)
  fix p u
  assume "yields m w p u" "yields (case p of Done r \<Rightarrow> ret (Done r) | Go x \<Rightarrow> f x) u (Go y) v"
  then show "\<exists>x u. yields m w (Go x) u \<and> yields (f x) u (Go y) v" by (cases p) (auto simp: yields_basic)
next
  fix x u
  assume "yields m w (Go x) u" "yields (f x) u (Go y) v"
  then show "\<exists>p u. yields m w p u \<and> yields (case p of Done r \<Rightarrow> ret (Done r) | Go x \<Rightarrow> f x) u (Go y) v"
    by (intro exI [of _ "Go x"] exI [of _ u]) simp
qed

lemma nextStep_Done:
  "result (nextStep m f) w = Inr (Done r) \<longleftrightarrow> result m w = Inr (Done r) \<or>
     (\<exists>x u. yields m w (Go x) u \<and> result (f x) u = Inr (Done r))"
  by (auto simp: nextStep_def yields_def split: sum.splits phase.splits)

lemma beforeReady_Go: "yields (beforeReady E S cc) w (Go p) v \<longleftrightarrow> checkSucceeds E S cc w p v"
proof -
  have last: "yields (andThen (clusterReady E cc) (\<lambda>ready. if \<not> ready then retryLater (su_cfg S) else ret (Go x))) u (Go p) v \<longleftrightarrow>
      x = p \<and> yields (clusterReady E cc) u True v" for x u
    by (auto simp: yields_andThen yields_basic retryLater_def split: if_splits)
  show ?thesis unfolding beforeReady_split yields_nextStep last checkSucceeds_def by blast
qed

lemma yields_captured: "yields (captured m) w r v \<longleftrightarrow> r = result m w \<and> v = world m w"
  by (auto simp: captured_def yields_def result_def world_def)

lemma captured_run [simp]:
  "result (captured m) w = Inr (result m w)" "trace (captured m) w = trace m w" "world (captured m) w = world m w"
  by (simp_all add: captured_def result_def trace_def world_def)

lemma allSteps_run:
  obtains (ready) p v where "checkSucceeds E S cc w p v"
      "result (allSteps E S cc) w = Inr (result (onceReady E S cc p) v, True)"
      "trace (allSteps E S cc) w = trace (beforeReady E S cc) w @ trace (onceReady E S cc p) v"
  | (unready) out where "\<nexists>p v. checkSucceeds E S cc w p v" "result (allSteps E S cc) w = Inr (out, False)"
      "trace (allSteps E S cc) w = trace (beforeReady E S cc) w"
      "\<And>r. out = Inr r \<Longrightarrow> result (beforeReady E S cc) w = Inr (Done r)"
proof (cases "\<exists>p. result (beforeReady E S cc) w = Inr (Go p)")
  case True
  then obtain p where p: "result (beforeReady E S cc) w = Inr (Go p)" by blast
  then have "checkSucceeds E S cc w p (world (beforeReady E S cc) w)"
    by (simp add: beforeReady_Go [symmetric] yields_def)
  then show thesis by (rule ready) (simp_all add: allSteps_def p)
next
  case False
  then have "\<nexists>p v. checkSucceeds E S cc w p v" by (auto simp: beforeReady_Go [symmetric] yields_def)
  then show thesis
  proof (cases "result (beforeReady E S cc) w")
    case (Inl e)
    show thesis by (rule unready [OF \<open>\<nexists>p v. checkSucceeds E S cc w p v\<close>]) (auto simp: allSteps_def Inl)
  next
    case (Inr ph)
    with False obtain r where r: "result (beforeReady E S cc) w = Inr (Done r)" by (cases ph) auto
    show thesis by (rule unready [OF \<open>\<nexists>p v. checkSucceeds E S cc w p v\<close>]) (auto simp: allSteps_def r)
  qed
qed




abbreviation prepared :: "'w env \<Rightarrow> 'w surroundings \<Rightarrow> cassandraCluster \<Rightarrow> ('w, cassandraCluster) run" where
  "prepared E S cc \<equiv> andThen (reconcileCassandraRBAC E cc) (\<lambda>_.
     wrapErr ''Error reconciling TLS Secrets'' (reconcileTLSSecrets E (su_crypto S) (su_home S) cc))"

lemma passOpening_iff:
  assumes "e_getCluster E k w = (Inr found, w1)" "defaultCassandraCluster (su_cfg S) found = Inr cc"
    and "yields (cleanupNetworkPolicies E cc) w1 () u"
  shows "yields (passOpening E S k) w (c, cc') v \<longleftrightarrow> c = cc \<and> yields (prepared E S cc) u cc' v"
proof -
  have "yields (cleanupNetworkPolicies E cc) w1 x u' \<longleftrightarrow> u' = u" for x u'
    using assms(3) by (auto simp: yields_def)
  then show ?thesis
    using assms(1,2) by (auto simp: passOpening_def yields_simps)
qed








section \<open>How a pass ends\<close>

text \<open>\<open>ends R m\<close>: if \<open>m\<close> ends the pass without an error, its result has \<open>R\<close>.\<close>

definition ends :: "(ctrlResult \<Rightarrow> bool) \<Rightarrow> ('w, 'a phase) run \<Rightarrow> bool" where
  "ends R m \<longleftrightarrow> (\<forall>w r. result m w = Inr (Done r) \<longrightarrow> R r)"

named_theorems ends_intros \<open>how a composed step can end the pass\<close>

lemma ends_basic [ends_intros]:
  "ends R (ret (Go x))" "ends R (raise e)" "R r \<Longrightarrow> ends R (ret (Done r))" "ends R (step n)"
  by (auto simp: ends_def step_def split: sum.splits)

lemma ends_andThen [ends_intros]: "(\<And>x. ends R (f x)) \<Longrightarrow> ends R (andThen m f)"
  by (auto simp: ends_def split: sum.splits)

lemma ends_nextStep [ends_intros]: "ends R m \<Longrightarrow> (\<And>x. ends R (f x)) \<Longrightarrow> ends R (nextStep m f)"
  by (auto simp: ends_def nextStep_def split: sum.splits phase.splits)

lemma ends_cases [ends_intros]:
  "(b \<Longrightarrow> ends R m) \<Longrightarrow> (\<not> b \<Longrightarrow> ends R n) \<Longrightarrow> ends R (if b then m else n)"
  "(\<And>e. r = Inl e \<Longrightarrow> ends R (f e)) \<Longrightarrow> (\<And>x. r = Inr x \<Longrightarrow> ends R (g x)) \<Longrightarrow> ends R (case r of Inl e \<Rightarrow> f e | Inr x \<Rightarrow> g x)"
  by (auto split: sum.splits)

lemma ends_prod [ends_intros]: "(\<And>a b. ends R (f a b)) \<Longrightarrow> ends R (case p of (a, b) \<Rightarrow> f a b)"
  by (cases p) simp

lemma ends_retryLater: "0 < cfg_retryDelay cfg \<Longrightarrow> ends needsRequeue (retryLater cfg)"
  unfolding retryLater_def by (intro ends_intros) (simp add: needsRequeue_def requeueAfter_def)

lemma ends_delayedBy: "0 < cfg_retryDelay cfg \<Longrightarrow> ends needsRequeue (delayedBy cfg cs f m)"
  unfolding delayedBy_def by (intro ends_intros ends_retryLater)

lemma ends_mono: "ends R m \<Longrightarrow> (\<And>r. R r \<Longrightarrow> Q r) \<Longrightarrow> ends Q m"
  by (auto simp: ends_def)

text \<open>A pass that ends early asks for a delay, or its own scaling is in progress.\<close>

definition scalingSeen :: "'w env \<Rightarrow> 'w surroundings \<Rightarrow> cassandraCluster \<Rightarrow> 'w \<Rightarrow> bool" where
  "scalingSeen E S cc w \<longleftrightarrow> (\<exists>s p v. yields (beforeScaling E S cc) w (Go (s, p)) v \<and>
     result (reconcileCassandraScaling E (su_stsOrder S) cc (pa_pods p) (pa_nodes p) (pa_allDCs p) s) v = Inr True)"

lemma scalingStep_Done:
  assumes "0 < cfg_retryDelay (su_cfg S)" "result (scalingStep E S cc ps ns dcs s) w = Inr (Done r)"
  shows "needsRequeue r \<or> r = noRequeue \<and> result (reconcileCassandraScaling E (su_stsOrder S) cc ps ns dcs s) w = Inr True"
  using assms
  by (auto simp: scalingStep_def nextStep_def delayedBy_def retryLater_def needsRequeue_def requeueAfter_def
      split: sum.splits phase.splits if_splits)

lemma beforeScaling_ends:
  assumes "0 < cfg_retryDelay (su_cfg S)"
  shows "ends needsRequeue (beforeScaling E S cc)"
  unfolding beforeScaling_def adminSecretStep_def credentialsStep_def proberStep_def podsStep_def Let_def
  by (intro ends_intros assms ends_retryLater ends_delayedBy)

lemma beforeReady_ends:
  assumes "0 < cfg_retryDelay (su_cfg S)" "result (beforeReady E S cc) w = Inr (Done r)"
  shows "needsRequeue r \<or> r = noRequeue \<and> scalingSeen E S cc w"
proof -
  have last: "ends needsRequeue (andThen (clusterReady E cc) (\<lambda>ready. if \<not> ready then retryLater (su_cfg S) else ret (Go p)))" for p :: passState
    by (intro ends_intros ends_retryLater assms(1))
  have "needsRequeue r \<or> result (beforeCheck E S cc) w = Inr (Done r)"
  proof (cases "result (beforeCheck E S cc) w = Inr (Done r)")
    case False
    with assms(2) obtain p :: passState and u where "result (andThen (clusterReady E cc) (\<lambda>ready. if \<not> ready then retryLater (su_cfg S)
        else ret (Go p))) u = Inr (Done r)" unfolding beforeReady_split nextStep_Done by blast
    with last [of p] show ?thesis unfolding ends_def by blast
  qed simp
  moreover have "needsRequeue r \<or> r = noRequeue \<and> scalingSeen E S cc w" if ended: "result (beforeCheck E S cc) w = Inr (Done r)"
  proof (cases "result (beforeScaling E S cc) w = Inr (Done r)")
    case True
    then show ?thesis using beforeScaling_ends [OF assms(1)] by (auto simp: ends_def)
  next
    case False
    with ended obtain s p u where y: "yields (beforeScaling E S cc) w (Go (s, p)) u"
      and rest: "result (nextStep (scalingStep E S cc (pa_pods p) (pa_nodes p) (pa_allDCs p) s) (\<lambda>_.
        andThen (wrapErr ''Failed to reconcile maintenance'' (reconcileMaintenance E cc)) (\<lambda>_.
        andThen (if length (managedRegions cc) > 0 then reconcileSystemAuthIfReady E cc (pa_allDCs p) else ret ()) (\<lambda>_.
          ret (Go p))))) u = Inr (Done r)"
      unfolding beforeCheck_def nextStep_Done [of "beforeScaling E S cc"] split_paired_Ex prod.case by blast
    have "ends (\<lambda>_. False) (andThen (wrapErr ''Failed to reconcile maintenance'' (reconcileMaintenance E cc)) (\<lambda>_.
        andThen (if length (managedRegions cc) > 0 then reconcileSystemAuthIfReady E cc (pa_allDCs p) else ret ()) (\<lambda>_.
          ret (Go p))))"
      by (intro ends_intros)
    with rest have "result (scalingStep E S cc (pa_pods p) (pa_nodes p) (pa_allDCs p) s) u = Inr (Done r)"
      unfolding nextStep_Done ends_def by blast
    from scalingStep_Done [OF assms(1) this] y show ?thesis by (auto simp: scalingSeen_def)
  qed
  ultimately show ?thesis by blast
qed

lemma onceReady_requeues:
  assumes "0 < cfg_retryDelay (su_cfg S)" "result (onceReady E S cc p) w = Inr r"
  shows "needsRequeue r"
proof -
  have "ends needsRequeue (nextStep (step (rolesStep E S cc p)) (\<lambda>_. nextStep (reaperStep E S cc p) (\<lambda>_.
      nextStep (runningStep E (su_cfg S)) (\<lambda>_. step (lastSteps E S cc p)))))"
    unfolding reaperStep_def runningStep_def Let_def by (intro ends_intros ends_retryLater assms(1))
  with assms(2) show ?thesis
    by (auto simp: onceReady_def ends_def needsRequeue_def requeueAfter_def minute_def
        split: sum.splits phase.splits)
qed

lemma allSteps_requeues:
  assumes "0 < cfg_retryDelay (su_cfg S)" "result (allSteps E S cc) w = Inr (Inr r, b)"
  shows "needsRequeue r \<or> r = noRequeue \<and> scalingSeen E S cc w"
  by (rule allSteps_run [of E S cc w])
    (use assms(2) onceReady_requeues [OF assms(1)] beforeReady_ends [OF assms(1)] in auto)

lemma cleanupClientTLSDir_result: "result (cleanupClientTLSDir E home cc) w \<noteq> Inl Panic \<Longrightarrow> result (cleanupClientTLSDir E home cc) w = Inr ()"
  by (auto simp: cleanupClientTLSDir_def Let_def split: if_splits)

lemma trackedSteps_result:
  "result (trackedSteps E S cc) u = Inr (out, b) \<Longrightarrow>
     (\<exists>e. result (prepared E S cc) u = Inl e \<and> out = Inl e \<and> \<not> b) \<or>
     (\<exists>cc' v. yields (prepared E S cc) u cc' v \<and> result (allSteps E S cc') v = Inr (out, b))"
  unfolding trackedSteps_def yields_def
  by (cases "result (prepared E S cc) u") (auto simp: result_andThen simp del: result_wrapErr split: sum.splits)

text \<open>C31: A pass that ends without an error is run again: it asks for it, or the cluster is gone, or in this very pass the
  steps before the scaling succeeded and the scaling that followed them reported that it is in progress; then the events of
  the scaled objects start the next pass. Only a delay of zero could break this.\<close>

theorem pass_runs_again:
  assumes "0 < cfg_retryDelay (su_cfg S)" "result (Reconcile E S k) w = Inr r" "\<not> needsRequeue r"
  shows "r = noRequeue \<and> (fst (e_getCluster E k w) = Inl NotFound \<or>
    (\<exists>cc cc' v s p v'. yields (passOpening E S k) w (cc, cc') v \<and> yields (beforeScaling E S cc') v (Go (s, p)) v' \<and>
       result (reconcileCassandraScaling E (su_stsOrder S) cc' (pa_pods p) (pa_nodes p) (pa_allDCs p) s) v' = Inr True))"
proof -
  obtain g w1 where get: "e_getCluster E k w = (g, w1)" by fastforce
  have run: "result (reconcileWithContext E S k) w = Inr r"
    using assms(2,3) by (auto simp: Reconcile_def needsRequeue_def split: if_splits sum.splits)
  show ?thesis
  proof (cases g)
    case (Inl e)
    with run get show ?thesis
      by (auto simp: reconcileWithContext_def isNotFound_def split: if_splits)
  next
    case (Inr found)
    with run get obtain cc b where d: "defaultCassandraCluster (su_cfg S) found = Inr cc"
      and cl: "result (cleanupNetworkPolicies E cc) w1 = Inr ()"
      and st: "result (trackedSteps E S cc) (world (cleanupNetworkPolicies E cc) w1) = Inr (Inr r, b)"
      by (auto simp: reconcileWithContext_def split: sum.splits)
    from trackedSteps_result [OF st] obtain cc' v where pre: "yields (prepared E S cc) (world (cleanupNetworkPolicies E cc) w1) cc' v"
      and all: "result (allSteps E S cc') v = Inr (Inr r, b)" by auto
    have "yields (cleanupNetworkPolicies E cc) w1 () (world (cleanupNetworkPolicies E cc) w1)" using cl by (simp add: yields_def)
    with pre have "yields (passOpening E S k) w (cc, cc') v"
      using passOpening_iff [OF get [unfolded Inr] d] by simp
    with allSteps_requeues [OF assms(1) all] assms(3) show ?thesis unfolding scalingSeen_def by blast
  qed
qed

lemma beforeReady_Done:
  assumes "result (beforeReady E S cc) w = Inr (Done r)"
  shows "r = requeueAfter (cfg_retryDelay (su_cfg S)) \<or> r = noRequeue"
proof -
  let ?R = "\<lambda>r. r = requeueAfter (cfg_retryDelay (su_cfg S)) \<or> r = noRequeue"
  have later: "ends ?R (retryLater (su_cfg S))" by (simp add: ends_def retryLater_def)
  then have delayed: "ends ?R (delayedBy (su_cfg S) cs f m)" for cs f m
    unfolding delayedBy_def by (intro ends_intros)
  have "ends ?R (beforeReady E S cc)"
    unfolding beforeReady_def adminSecretStep_def credentialsStep_def proberStep_def podsStep_def scalingStep_def
      readyStep_def Let_def
    by (intro ends_intros later delayed; simp)
  with assms show ?thesis by (simp add: ends_def)
qed

lemma allSteps_flag:
  assumes "result (allSteps E S cc) w = Inr (out, b)"
  shows "b \<longleftrightarrow> (\<exists>p v. checkSucceeds E S cc w p v)"
    and "out = Inr r \<Longrightarrow> \<not> b \<Longrightarrow> r = requeueAfter (cfg_retryDelay (su_cfg S)) \<or> r = noRequeue"
proof -
  show "b \<longleftrightarrow> (\<exists>p v. checkSucceeds E S cc w p v)"
    by (rule allSteps_run [of E S cc w]) (use assms in auto)
  show "out = Inr r \<Longrightarrow> \<not> b \<Longrightarrow> r = requeueAfter (cfg_retryDelay (su_cfg S)) \<or> r = noRequeue"
    by (rule allSteps_run [of E S cc w]) (use assms beforeReady_Done [of E S cc w] in auto)
qed

lemma allSteps_total: "\<exists>out b. result (allSteps E S cc) w = Inr (out, b)"
  by (auto simp: allSteps_def split: sum.split phase.split)

lemma trackedSteps_outcome:
  assumes "\<And>dir v. fst (o_removeDir (e_objects E) dir v) \<noteq> Inl Panic"
  obtains out b where "result (trackedSteps E S cc) w = Inr (out, b)"
    "b \<longleftrightarrow> (\<exists>cc' v p v'. yields (prepared E S cc) w cc' v \<and> checkSucceeds E S cc' v p v')"
    "\<not> b \<longrightarrow> (\<forall>r. out = Inr r \<longrightarrow> r = requeueAfter (cfg_retryDelay (su_cfg S)) \<or> r = noRequeue)"
proof (cases "result (prepared E S cc) w")
  case (Inl e)
  have "result (trackedSteps E S cc) w = Inr (Inl e, False)"
    unfolding trackedSteps_def by (subst result_andThen) (simp add: Inl del: result_andThen)
  then show thesis by (rule that) (simp_all add: yields_def Inl del: result_andThen)
next
  case (Inr cc')
  let ?v = "world (prepared E S cc) w"
  obtain out b where run: "result (allSteps E S cc') ?v = Inr (out, b)" using allSteps_total by metis
  have clean: "result (cleanupClientTLSDir E home c) v = Inr ()" for home c v
    using assms by (simp add: cleanupClientTLSDir_def Let_def)
  have "result (allSteps E S cc') v = Inr (out, b) \<Longrightarrow> result (andThen (allSteps E S cc')
      (\<lambda>out. andThen (cleanupClientTLSDir E (su_home S) cc') (\<lambda>_. ret out))) v = Inr (out, b)" for v
    by (simp add: clean)
  note rest = this [OF run]
  have res: "result (trackedSteps E S cc) w = Inr (out, b)"
    unfolding trackedSteps_def by (subst result_andThen) (simp add: Inr rest del: result_andThen world_andThen)
  have "yields (prepared E S cc) w c v \<longleftrightarrow> c = cc' \<and> v = ?v" for c v
    unfolding yields_def Inr by auto
  then show thesis
    using allSteps_flag [OF run] by (intro that [OF res]) auto
qed

text \<open>C32: The status tells whether the cluster is ready. Once the cluster is read, its defaults are set and the policies are
  cleaned up, the pass sets the flag to whether its own check of the readiness succeeded, after the steps before it and for
  the cluster it read: to true exactly then, also when a later step fails or panics, and to false whenever the check fails or
  is not reached. The request is the last one of the pass, and it is left out exactly when the flag already has this value.
  A pass with its full result has set it to true. The object that is sent is the one that was read at the beginning: what
  maintenance wrote to the status in the pass is not in it.\<close>

theorem status_tells_readiness:
  assumes "e_getCluster E k w = (Inr found, w1)" "defaultCassandraCluster (su_cfg S) found = Inr cc"
    and "yields (cleanupNetworkPolicies E cc) w1 () u"
    and "\<And>dir v. fst (o_removeDir (e_objects E) dir v) \<noteq> Inl Panic"
  shows "\<exists>b. trace (Reconcile E S k) w =
      [GetCluster k] @ trace (cleanupNetworkPolicies E cc) w1 @ trace (trackedSteps E S cc) u @
        (if st_ready (cc_status cc) \<noteq> b
         then [UpdateClusterStatus (cc\<lparr>cc_status := (cc_status cc)\<lparr>st_ready := b\<rparr>\<rparr>)] else []) \<and>
      (b \<longleftrightarrow> (\<exists>cc' v p v1 v2. yields (passOpening E S k) w (cc, cc') v \<and> yields (beforeCheck E S cc') v (Go p) v1 \<and>
         yields (clusterReady E cc') v1 True v2)) \<and>
      (result (Reconcile E S k) w = Inr (requeueAfter minute) \<and> cfg_retryDelay (su_cfg S) \<noteq> minute \<longrightarrow> b)"
proof -
  obtain out b where run: "result (trackedSteps E S cc) u = Inr (out, b)"
    and ready: "b \<longleftrightarrow> (\<exists>cc' v p v'. yields (prepared E S cc) u cc' v \<and> checkSucceeds E S cc' v p v')"
    and unready: "\<not> b \<longrightarrow> (\<forall>r. out = Inr r \<longrightarrow> r = requeueAfter (cfg_retryDelay (su_cfg S)) \<or> r = noRequeue)"
    by (rule trackedSteps_outcome [OF assms(4)])
  have cl: "result (cleanupNetworkPolicies E cc) w1 = Inr ()" "world (cleanupNetworkPolicies E cc) w1 = u"
    using assms(3) by (simp_all add: yields_def)
  have tr: "trace (Reconcile E S k) w = ([GetCluster k] @ trace (cleanupNetworkPolicies E cc) w1 @
      trace (trackedSteps E S cc) u) @ trace (updateReadiness E cc b) (world (trackedSteps E S cc) u)"
    using assms(1,2) cl run by (simp add: Reconcile_def reconcileWithContext_def split: sum.split)
  moreover have "trace (updateReadiness E cc b) v = (if st_ready (cc_status cc) \<noteq> b
      then [UpdateClusterStatus (cc\<lparr>cc_status := (cc_status cc)\<lparr>st_ready := b\<rparr>\<rparr>)] else [])" for v
    by (simp add: updateReadiness_def Let_def split: sum.split)
  moreover have "b" if "result (Reconcile E S k) w = Inr (requeueAfter minute)" "cfg_retryDelay (su_cfg S) \<noteq> minute"
  proof -
    from that(1) have "result (reconcileWithContext E S k) w = Inr (requeueAfter minute)"
      by (auto simp: Reconcile_def requeueAfter_def split: if_splits sum.splits)
    with assms(1,2) cl run have "out = Inr (requeueAfter minute)"
      by (auto simp: reconcileWithContext_def split: sum.splits)
    with unready that(2) show b by (auto simp: requeueAfter_def noRequeue_def minute_def)
  qed
  moreover have "b \<longleftrightarrow> (\<exists>cc' v p v1 v2. yields (passOpening E S k) w (cc, cc') v \<and> yields (beforeCheck E S cc') v (Go p) v1 \<and>
         yields (clusterReady E cc') v1 True v2)"
    unfolding ready checkSucceeds_def passOpening_iff [OF assms(1-3)] by blast
  ultimately show ?thesis by (intro exI [of _ b]) simp
qed

section \<open>Examples\<close>

text \<open>A server on which every step succeeds: the cluster and its stateful set are there, so are the secret of the administrator
  and the configuration of the operator; Cassandra has \<open>system_auth\<close> but no keyspace of Reaper. The list of the stateful
  sets of the cluster is a parameter: empty, or with one of a datacentre that goes away.\<close>

definition readySts :: statefulSet where
  "readySts = \<lparr>sts_name = ''c-cassandra-dc1'', sts_labels = Map.empty, sts_namespace = ''ns'', sts_annotations = None,
     sts_ownerReferences = [''c''], sts_replicas = Some 3, sts_spec = plainStsSpec, sts_readyReplicas = 3\<rparr>"

definition gateEnv :: "statefulSet list \<Rightarrow> unit env" where
  "gateEnv ss = quietEnv\<lparr>e_getCluster := (\<lambda>_ w. (Inr plainCluster, w)), e_getSecret := (\<lambda>_ w. (Inr sampleSecret, w)),
     e_getCM := (\<lambda>_ w. (Inr operatorSettings, w)), e_getSts := (\<lambda>_ w. (Inr readySts, w)),
     e_cqlKeyspaces := (\<lambda>w. (Inr [\<lparr>ks_name = keyspaceSystemAuth, ks_replication = Map.empty\<rparr>], w)),
     e_listSts := (\<lambda>w. (Inr ss, w))\<rparr>"

definition unitCrypto :: "unit cryptoLib" where
  "unitCrypto = \<lparr>cy_now = (\<lambda>w. 0), cy_generateKey = (\<lambda>n w. (Inr ''key'', w)), cy_publicKey = (\<lambda>k. k),
     cy_createCertificate = (\<lambda>t p k s w. (Inr ''crt'', w)), cy_marshalKey = (\<lambda>k. k), cy_pemEncode = (\<lambda>t b. b),
     cy_pemDecode = (\<lambda>b. Some b), cy_parseCertificate = (\<lambda>_. Inl NotFound), cy_parseKey = Inr,
     cy_encodeKeystore = (\<lambda>_ _ _ _ w. (Inr ''p12'', w)), cy_decodeChain = (\<lambda>_ _. Inr ()),
     cy_encodeTrustStore = (\<lambda>_ _ w. (Inr ''p12'', w)), cy_decodeTrustStore = (\<lambda>_ _. Inr ()), cy_range = (\<lambda>_. [])\<rparr>"

definition gateSurroundings :: "unit surroundings" where
  "gateSurroundings = \<lparr>su_crypto = unitCrypto, su_home = ''/tls'', su_cfg = sampleConfig, su_yaml = sampleYaml,
     su_role = (\<lambda>_. Inl NotFound), su_mapOrder = (\<lambda>_. []), su_roleOrder = [], su_optionOrder = [],
     su_scriptOrder = (\<lambda>_. []), su_stsOrder = [], su_clock = (\<lambda>_. 0), su_zone = 0\<rparr>"

lemma gateSurroundings_simps [simp]:
  "su_cfg gateSurroundings = sampleConfig" "su_yaml gateSurroundings = sampleYaml" "su_home gateSurroundings = ''/tls''"
  "su_mapOrder gateSurroundings = (\<lambda>_. [])" "su_optionOrder gateSurroundings = []" "su_stsOrder gateSurroundings = []"
  by (simp_all add: gateSurroundings_def)

lemma gate_calls:
  "e_getCluster (gateEnv ss) k w = (Inr plainCluster, w)" "e_getSecret (gateEnv ss) k w = (Inr sampleSecret, w)"
  "e_getCM (gateEnv ss) k w = (Inr operatorSettings, w)" "e_getSts (gateEnv ss) k w = (Inr readySts, w)"
  "e_cqlKeyspaces (gateEnv ss) w = (Inr [\<lparr>ks_name = keyspaceSystemAuth, ks_replication = Map.empty\<rparr>], w)"
  "e_updateSecret (gateEnv ss) s w = (Inr (), w)" "e_createSecret (gateEnv ss) s w = (Inr (), w)" "e_deleteSecret (gateEnv ss) s w = (Inr (), w)"
  "e_updateCM (gateEnv ss) c w = (Inr (), w)" "e_controllerReference (gateEnv ss) cc = Inr [cc_name cc]"
  "e_proberPing (gateEnv ss) w = (Inr True, w)" "e_putDCs (gateEnv ss) dcs w = (Inr (), w)" "e_listPods (gateEnv ss) w = (Inr [], w)"
  "e_listSts (gateEnv ss) w = (Inr ss, w)" "e_updateStatus (gateEnv ss) cc w = (Inr (), w)" "e_putRegionStatus (gateEnv ss) b w = (Inr (), w)"
  "e_cqlConnect (gateEnv ss) r p w = (Inr (), w)" "e_cqlUpdateRF (gateEnv ss) ks m w = (Inr (), w)"
  "e_reaperIsRunning (gateEnv ss) w = (Inr False, w)" "e_cqlQuery (gateEnv ss) t w = (Inr (), w)"
  "o_listServiceMonitors (e_objects (gateEnv ss)) ls w = (Inr [], w)"
  by (simp_all add: gateEnv_def quietEnv_def quietObjects_def)

text \<open>The cluster with the defaults.\<close>

definition gateCluster :: cassandraCluster where
  "gateCluster = (case defaultCassandraCluster sampleConfig plainCluster of Inr cc \<Rightarrow> cc | Inl _ \<Rightarrow> plainCluster)"

definition gateCassandra :: cassandra where
  "gateCassandra = defaultSysctls (defaultCassandra sampleConfig (Some sampleCassandra))"

lemma plainCluster_spec:
  "maintenanceSpec (cc_spec plainCluster) = []" "encryptionSpec (cc_spec plainCluster) = \<lparr>enc_server = serverTLS plainCluster, enc_client = clientTLS plainCluster\<rparr>"
  "externalRegionsSpec (cc_spec plainCluster) = \<lparr>er_managed = None, er_unmanaged = []\<rparr>" "rolesSecretName (cc_spec plainCluster) = ''''"
  "np_enabled (networkPoliciesSpec (cc_spec plainCluster)) = False"
  "sm_enabled (prb_serviceMonitor (proberOf (cc_spec plainCluster))) = False"
  by (simp_all add: plainCluster_def updServer_def serverTLS_def clientTLS_def runningCluster_def sampleCluster_def)

lemma gateCluster_default: "defaultCassandraCluster sampleConfig plainCluster = Inr gateCluster"
  by (simp add: gateCluster_def defaultCassandraCluster_def Let_def plainCluster_spec)

lemma gateCluster_simps [simp]:
  "cc_name gateCluster = ''c''" "cc_namespace gateCluster = ''ns''" "cassandraSpec (cc_spec gateCluster) = Some gateCassandra"
  "spec_dcs (cc_spec gateCluster) = [sampleDC]" "managedRegions gateCluster = []" "unmanagedRegions gateCluster = []"
  "hp_enabled (hostPortSpec (cc_spec gateCluster)) = False" "rolesSecretName (cc_spec gateCluster) = ''''"
  "np_enabled (networkPoliciesSpec (cc_spec gateCluster)) = False" "maintenanceSpec (cc_spec gateCluster) = []"
  "sm_enabled (prb_serviceMonitor (proberOf (cc_spec gateCluster))) = False" "\<exists>rea. reaperSpec (cc_spec gateCluster) = Some rea"
  "st_ready (cc_status gateCluster) = False"
  using plainCluster_spec
  by (simp_all add: gateCluster_def defaultCassandraCluster_def Let_def gateCassandra_def managedRegions_def unmanagedRegions_def
      defaultProber_def defaultInterval_def)
    (simp add: plainCluster_def updServer_def runningCluster_def sampleCluster_def)

lemma gateCluster_tls [simp]:
  "se_internodeEncryption (serverTLS gateCluster) = InternodeEncryptionNone" "ce_enabled (clientTLS gateCluster) = False"
  using plainCluster_simps(5,6)
  by (simp_all add: gateCluster_def defaultCassandraCluster_def Let_def plainCluster_spec serverTLS_def [of "_\<lparr>cc_spec := _\<rparr>"]
      clientTLS_def [of "_\<lparr>cc_spec := _\<rparr>"] defaultServerTLS_def defaultClientTLS_def orDefault_def)

lemma gateCassandra_simps [simp]:
  "mon_enabled (cas_monitoring gateCassandra) = False" "cas_zonesAsRacks gateCassandra = False"
  "cas_configOverrides gateCassandra = ''''" "pst_enabled (cas_persistence gateCassandra) = False"
  "cas_jvmOptions gateCassandra = []"
  by (simp_all add: gateCassandra_def defaultSysctls_def defaultCassandra_def sampleCassandra_def defaultMonitoring_def
      defaultPersistence_def Let_def)

lemma gate_put:
  "result (createOrUpdate (serviceKind (gateEnv ss)) T keep1 equal1 adopt1 d1) w = Inr ()"
  "result (createOrUpdate (stsKind (gateEnv ss)) T keep2 equal2 adopt2 d2) w = Inr ()"
  "result (createOrUpdate (deploymentKind (gateEnv ss)) T keep3 equal3 adopt3 d3) w = Inr ()"
  "result (createOrUpdate (ingressKind (gateEnv ss)) T keep4 equal4 adopt4 d4) w = Inr ()"
  "result (createOrUpdate (roleKind (gateEnv ss)) T keep5 equal5 adopt5 d5) w = Inr ()"
  "result (createOrUpdate (bindingKind (gateEnv ss)) T keep6 equal6 adopt6 d6) w = Inr ()"
  "result (createOrUpdate (accountKind (gateEnv ss)) T keep7 equal7 adopt7 d7) w = Inr ()"
  by (rule createOrUpdate_succeeds; simp add: kinds gateEnv_def quietEnv_def quietObjects_def)+

lemma gate_cm: "result (reconcileConfigMap (gateEnv ss) c) w = Inr ()" "result (getConfigMap (gateEnv ss) n ns) w = Inr operatorSettings"
  by (simp_all add: reconcileConfigMap_def getConfigMap_def Let_def gate_calls)


lemma gate_monitor: "result (reconcileMonitor (gateEnv ss) cc False sm l m) w = Inr ()"
  by (simp add: reconcileMonitor_def cleanupOldMonitors_def removeServiceMonitors_def listMonitors_def Let_def gate_calls)

lemma gate_first:
  "result (reconcileCassandraRBAC (gateEnv ss) gateCluster) w = Inr ()"
  "reconcileTLSSecrets (gateEnv ss) C home gateCluster = ret gateCluster"
  "result (adminSecretStep (gateEnv ss) sampleConfig gateCluster) w = Inr (Go sampleSecret)"
  "result (credentialsStep sampleConfig gateCluster sampleSecret) w = Inr (Go (''admin'', ''pw''))"
  subgoal by (simp add: reconcileCassandraRBAC_def reconcileCassandraRole_def reconcileCassandraRoleBinding_def
      reconcileCassandraServiceAccount_def withOwners_run gate_calls gate_put)
  subgoal by (simp add: reconcileTLSSecrets_def reconcileServerEncryption_def reconcileClientEncryption_def)
  subgoal by (simp add: adminSecretStep_def step_def reconcileAnnotations_def Let_def gate_calls)
  subgoal by (simp add: credentialsStep_def extractCredentials_def secretValue_def sampleSecret_def Let_def OperatorAdminRole_def
      OperatorAdminPassword_def)
  done

lemma gate_auth: "\<exists>auth. result (reconcileAdminAuth (gateEnv ss) gateCluster ''admin'' ''pw'') w = Inr auth"
  by (simp add: reconcileAdminAuth_def Let_def gate_calls secretValue_def sampleSecret_def DefaultRole_def OperatorAdminRole_def
      OperatorAdminPassword_def)

lemma gate_config: "result (configStep (gateEnv ss) sampleConfig gateCluster) w = Inr ()"
  by (simp add: configStep_def reconcileMaintenanceConfigMap_def reconcilePrometheusConfigMap_def reconcileCollectdConfigMap_def
      reconcileCassandraServiceMonitor_def reconcileProber_def reconcileProberServiceAccount_def reconcileProberRole_def
      reconcileProberRoleBinding_def reconcileProberDeployment_def getClientSecret_def reconcileProberService_def
      reconcileProberServiceMonitor_def reconcileProberIngress_def withOwners_run gate_calls gate_put gate_monitor Let_def)

lemma gate_prober: "result (proberStep (gateEnv ss) sampleConfig gateCluster) w = Inr (Go ())"
  by (simp add: proberStep_def step_def Let_def gate_calls)

lemma gate_dc: "result (reconcileDCService (gateEnv ss) gateCluster sampleDC) w = Inr ()"
    "result (reconcileDCStatefulSet (gateEnv ss) ord gateCluster sampleDC c) w = Inr c"
proof -
  show "result (reconcileDCService (gateEnv ss) gateCluster sampleDC) w = Inr ()"
    by (simp add: reconcileDCService_def withOwners_run gate_calls gate_put)
  obtain cmd where "getCassandraRunCommand gateCluster gateCassandra emptySecret = Inr cmd"
    using getCassandraRunCommand_plain [OF gateCluster_tls(2) [THEN eq_False [THEN iffD1]]] by blast
  then have "\<exists>co. cassandraContainer (gateEnv ss) gateCluster gateCassandra sampleDC c emptySecret = Inr co"
    by (simp add: cassandraContainer_def del: if_split)
  then obtain sts where "cassandraStatefulSet (gateEnv ss) ord gateCluster gateCassandra sampleDC c emptySecret = Inr sts"
    unfolding cassandraStatefulSet_Inr by blast
  then show "result (reconcileDCStatefulSet (gateEnv ss) ord gateCluster sampleDC c) w = Inr c"
    by (simp add: reconcileDCStatefulSet_def gate_put gate_calls withOwners_run)
qed

lemma gate_cassandra: "result (reconcileCassandra (gateEnv ss) ord gateCluster c) w = Inr ()"
  by (simp add: reconcileCassandra_def gate_dc reconcileCassandraPodLabels_def getCassandraPods_def gate_calls)

lemma gate_cassandraConfig: "\<exists>c. result (reconcileCassandraConfigMap (gateEnv ss) sampleConfig sampleYaml gateCluster Map.empty) w = Inr c"
  by (simp add: reconcileCassandraConfigMap_def overrideSettings_def addServerOptions_def addClientOptions_def addCommitLog_def
      withJVMOptions_def gate_cm gate_calls withOwners_run operatorSettings_def sampleYaml_def Let_def)

lemma gate_pods: "result (podsStep (gateEnv ss) gateSurroundings gateCluster) w = Inr (Go ([], [], [sampleDC]))"
proof -
  obtain c where c: "result (reconcileCassandraConfigMap (gateEnv ss) sampleConfig sampleYaml gateCluster Map.empty) () = Inr c"
    using gate_cassandraConfig by blast
  show ?thesis
    by (simp add: podsStep_def nextStep_def step_def c nodesStep_def getCassandraPods_def delayedBy_def
        reconcileCassandraPodsConfigMap_def podsConfigMapData_def getAllDCs_def gate_cm gate_calls gate_cassandra Let_def)
qed

lemma gate_scaling: "result (scalingStep (gateEnv []) gateSurroundings gateCluster [] [] dcs s) w = Inr (Go ())"
  by (simp add: scalingStep_def nextStep_def delayedBy_def reconcileCassandraScaling_def getBroadcastAddresses_def gate_calls)

lemma gate_ready: "result (clusterReady (gateEnv []) gateCluster) w = Inr True"
  by (simp add: clusterReady_def unreadyDCs_def checkDC_def dcReady_def readySts_def sampleDC_def putRegionStatus_def
      unreadyRegions_def gate_calls Let_def)

lemma gate_maintenance: "result (reconcileMaintenance (gateEnv []) gateCluster) w = Inr ()"
  by (simp add: reconcileMaintenance_def processMaintenanceRequest_def generateMaintenanceStatus_def getCassandraPods_def
      gate_calls Let_def)

lemma unit_yields: "yields m () x () \<longleftrightarrow> result m () = Inr x"
  by (simp add: yields_def)

lemma gate_beforeScaling:
  "\<exists>auth. yields (beforeScaling (gateEnv ss) gateSurroundings gateCluster) ()
     (Go (sampleSecret, \<lparr>pa_pods = [], pa_nodes = [], pa_allDCs = [sampleDC], pa_auth = auth\<rparr>)) ()"
proof -
  obtain auth where "result (reconcileAdminAuth (gateEnv ss) gateCluster ''admin'' ''pw'') () = Inr auth" using gate_auth by blast
  then show ?thesis
    by (simp add: unit_yields beforeScaling_def nextStep_def step_def gate_first gate_config gate_prober gate_pods)
qed

lemma gate_check: "\<exists>p. checkSucceeds (gateEnv []) gateSurroundings gateCluster () p ()"
proof -
  obtain auth where b: "yields (beforeScaling (gateEnv []) gateSurroundings gateCluster) ()
     (Go (sampleSecret, \<lparr>pa_pods = [], pa_nodes = [], pa_allDCs = [sampleDC], pa_auth = auth\<rparr>)) ()" using gate_beforeScaling by blast
  have "yields (beforeCheck (gateEnv []) gateSurroundings gateCluster) ()
      (Go \<lparr>pa_pods = [], pa_nodes = [], pa_allDCs = [sampleDC], pa_auth = auth\<rparr>) ()"
    unfolding beforeCheck_def yields_nextStep
    by (intro exI conjI, rule b)
      (simp add: unit_yields nextStep_def gate_scaling gate_maintenance)
  then show ?thesis
    unfolding checkSucceeds_def by (intro exI conjI, assumption) (simp add: unit_yields gate_ready)
qed

lemma gate_cleanup: "result (cleanupNetworkPolicies (gateEnv ss) gateCluster) w = Inr ()"
  by (simp add: cleanupNetworkPolicies_def) (simp add: gateEnv_def quietEnv_def)

lemma gate_opened: "yields (passOpening (gateEnv ss) gateSurroundings (''ns'', ''c'')) () (gateCluster, gateCluster) ()"
  by (simp add: unit_yields passOpening_def gate_calls gateCluster_default gate_first gate_cleanup)





text \<open>The datacentre \<open>dc0\<close> is no longer in the specification and its stateful set has no replicas: the pass deletes it.\<close>

abbreviation leavingSets :: "statefulSet list" where "leavingSets \<equiv> [emptiedSts]"

lemma leaving_in_progress:
  "result (reconcileCassandraScaling (gateEnv leavingSets) [] gateCluster [] [] dcs sampleSecret) () = Inr True"
proof -
  have spec: "inSpec gateCluster d \<longleftrightarrow> d = ''dc1''" for d by (auto simp: inSpec_def sampleDC_def)
  have sets: "desiredDCsSTS gateCluster leavingSets = ([], Map.empty)"
    "decommissionDCsSTS gateCluster leavingSets = ([''c-cassandra-dc0''], [''c-cassandra-dc0'' \<mapsto> emptiedSts])"
    by (simp_all add: desiredDCsSTS_def decommissionDCsSTS_def spec byName_def stsDC_def emptiedSts_def wideSts_def)
  have creds: "extractCredentials sampleSecret = Inr (''admin'', ''pw'')"
    by (simp add: extractCredentials_def secretValue_def sampleSecret_def Let_def OperatorAdminRole_def OperatorAdminPassword_def)
  have "\<exists>ks. desiredKeyspacesToReconcile gateCluster = Inr ks"
  proof -
    obtain rea where "reaperSpec (cc_spec gateCluster) = Some rea" using gateCluster_simps(12) by blast
    then show ?thesis by (simp add: desiredKeyspacesToReconcile_def reaperKeyspaceName_def Let_def)
  qed
  then obtain ks where ks: "desiredKeyspacesToReconcile gateCluster = Inr ks" ..
  have none: "result (forEach (prepareKeyspace (gateEnv leavingSets) gateCluster dcs
      [\<lparr>ks_name = keyspaceSystemAuth, ks_replication = Map.empty\<rparr>]) l) v = Inr ()" for l v
    by (induction l arbitrary: v) (auto simp: prepareKeyspace_def)
  have rm: "result (removeDC (gateEnv leavingSets) gateCluster emptiedSts) v = Inr ()" for v
    by (simp add: removeDC_def Let_def) (simp add: gateEnv_def quietEnv_def)
  have "\<exists>m. dcsMap gateCluster = Inr m" by (simp add: dcsMap_def sampleDC_def)
  then obtain m where m: "dcsMap gateCluster = Inr m" ..
  have addrs: "getBroadcastAddresses gateCluster [] [] = Inr Map.empty"
    by (simp add: getBroadcastAddresses_def)
  have zero: "sts_replicas emptiedSts = Some 0" by (simp add: emptiedSts_def)
  show ?thesis
    by (simp add: reconcileCassandraScaling_def addrs sets m handleDCsDecommission_def ks creds none rm zero gate_calls)
qed

lemma leaving_pass: "result (Reconcile (gateEnv leavingSets) gateSurroundings (''ns'', ''c'')) () = Inr noRequeue"
proof -
  let ?E = "gateEnv leavingSets"
  obtain auth where b: "yields (beforeScaling ?E gateSurroundings gateCluster) ()
     (Go (sampleSecret, \<lparr>pa_pods = [], pa_nodes = [], pa_allDCs = [sampleDC], pa_auth = auth\<rparr>)) ()" using gate_beforeScaling by blast
  have "result (scalingStep ?E gateSurroundings gateCluster [] [] [sampleDC] sampleSecret) () = Inr (Done noRequeue)"
    by (simp add: scalingStep_def nextStep_def delayedBy_def leaving_in_progress)
  then have "result (beforeCheck ?E gateSurroundings gateCluster) () = Inr (Done noRequeue)"
    using b unfolding beforeCheck_def nextStep_Done [of "beforeScaling ?E gateSurroundings gateCluster"]
    by (intro disjI2 exI conjI) (assumption, simp add: nextStep_def)
  then have "result (beforeReady ?E gateSurroundings gateCluster) () = Inr (Done noRequeue)"
    unfolding beforeReady_split nextStep_Done [of "beforeCheck ?E gateSurroundings gateCluster"] by blast
  then have "result (allSteps ?E gateSurroundings gateCluster) () = Inr (Inr noRequeue, False)"
    by (simp add: allSteps_def)
  then have "result (trackedSteps ?E gateSurroundings gateCluster) () = Inr (Inr noRequeue, False)"
    by (simp add: trackedSteps_def gate_first cleanupClientTLSDir_def Let_def)
      (simp add: gateEnv_def quietEnv_def quietObjects_def)
  moreover have "result (cleanupNetworkPolicies ?E gateCluster) () = Inr ()"
    by (simp add: cleanupNetworkPolicies_def gateEnv_def quietEnv_def)
  ultimately show ?thesis
    by (simp add: Reconcile_def reconcileWithContext_def gate_calls gateCluster_default updateReadiness_def)
qed

theorem pass_runs_again_witness:
  "result (Reconcile (gateEnv leavingSets) gateSurroundings (''ns'', ''c'')) () = Inr noRequeue \<and>
   (\<exists>cc cc' v s p v'. yields (passOpening (gateEnv leavingSets) gateSurroundings (''ns'', ''c'')) () (cc, cc') v \<and>
      yields (beforeScaling (gateEnv leavingSets) gateSurroundings cc') v (Go (s, p)) v' \<and>
      result (reconcileCassandraScaling (gateEnv leavingSets) [] cc' (pa_pods p) (pa_nodes p) (pa_allDCs p) s) v' = Inr True)"
proof -
  have "0 < cfg_retryDelay (su_cfg gateSurroundings)" by (simp add: sampleConfig_def)
  from pass_runs_again [OF this leaving_pass] leaving_pass show ?thesis
    by (simp add: needsRequeue_def noRequeue_def gate_calls)
qed

theorem status_tells_readiness_witness:
  "\<exists>t. trace (Reconcile (gateEnv []) gateSurroundings (''ns'', ''c'')) () =
     t @ [UpdateClusterStatus (gateCluster\<lparr>cc_status := (cc_status gateCluster)\<lparr>st_ready := True\<rparr>\<rparr>)]"
proof -
  let ?E = "gateEnv []"
  have get: "e_getCluster ?E (''ns'', ''c'') () = (Inr plainCluster, ())" by (simp add: gate_calls)
  have default: "defaultCassandraCluster (su_cfg gateSurroundings) plainCluster = Inr gateCluster" by (simp add: gateCluster_default)
  have cl: "yields (cleanupNetworkPolicies ?E gateCluster) () () ()"
    by (simp add: unit_yields cleanupNetworkPolicies_def gateEnv_def quietEnv_def)
  have rm: "fst (o_removeDir (e_objects ?E) dir v) \<noteq> Inl Panic" for dir v
    by (simp add: gateEnv_def quietEnv_def quietObjects_def)
  obtain p where "checkSucceeds ?E gateSurroundings gateCluster () p ()" using gate_check by blast
  then have check: "\<exists>cc' v p v1 v2. yields (passOpening ?E gateSurroundings (''ns'', ''c'')) () (gateCluster, cc') v \<and>
      yields (beforeCheck ?E gateSurroundings cc') v (Go p) v1 \<and> yields (clusterReady ?E cc') v1 True v2"
    using gate_opened unfolding checkSucceeds_def by blast
  let ?front = "[GetCluster (''ns'', ''c'')] @ trace (cleanupNetworkPolicies ?E gateCluster) () @ trace (trackedSteps ?E gateSurroundings gateCluster) ()"
  from status_tells_readiness [OF get default cl rm] obtain b where
    tr: "trace (Reconcile ?E gateSurroundings (''ns'', ''c'')) () = [GetCluster (''ns'', ''c'')] @
      trace (cleanupNetworkPolicies ?E gateCluster) () @ trace (trackedSteps ?E gateSurroundings gateCluster) () @
      (if st_ready (cc_status gateCluster) \<noteq> b
       then [UpdateClusterStatus (gateCluster\<lparr>cc_status := (cc_status gateCluster)\<lparr>st_ready := b\<rparr>\<rparr>)] else [])"
    and b: "b \<longleftrightarrow> (\<exists>cc' v p v1 v2. yields (passOpening ?E gateSurroundings (''ns'', ''c'')) () (gateCluster, cc') v \<and>
      yields (beforeCheck ?E gateSurroundings cc') v (Go p) v1 \<and> yields (clusterReady ?E cc') v1 True v2)" by blast
  from b check have b by blast
  then show ?thesis unfolding tr by (intro exI [of _ ?front]) simp
qed

end
