(* ===== verification/Region_Register.thy ===== *)
theory Region_Register
  imports Prober
begin

text \<open>
  What the prober is to the operators of the other regions: six registers behind one pair of
  credentials. \<open>board\<close> is that specification: it knows no HTTP, no JSON, no table of nodes, no Jolokia
  and no counters. \<open>serverStep\<close> is one stimulus of the running server (\<open>Run\<close> in \<open>prober.go\<close>: a request,
  a tick of the poller, an event of a watcher), and the server refines the board: through every history
  its answers are those of the board and its state shows the board's.
\<close>

section \<open>Refinement, step by step\<close>

text \<open>Histories of a machine that answers each stimulus with some outputs.\<close>

inductive history ::
  "('s \<Rightarrow> 'a \<Rightarrow> 'o list \<Rightarrow> 's \<Rightarrow> bool) \<Rightarrow> 's \<Rightarrow> 'a list \<Rightarrow> 'o list \<Rightarrow> 's \<Rightarrow> bool"
  for step :: "'s \<Rightarrow> 'a \<Rightarrow> 'o list \<Rightarrow> 's \<Rightarrow> bool" where
  start: "history step s [] [] s"
| more: "step s a os s1 \<Longrightarrow> history step s1 as os' s' \<Longrightarrow> history step s (a # as) (os @ os') s'"

text \<open>The same stimuli, answered by a specification that is a function.\<close>

fun specified :: "('a \<Rightarrow> 'b \<Rightarrow> 'x list \<times> 'b) \<Rightarrow> 'a list \<Rightarrow> 'b \<Rightarrow> 'x list \<times> 'b" where
  "specified spec [] b = ([], b)"
| "specified spec (a # as) b =
     (case spec a b of (xs, b') \<Rightarrow> case specified spec as b' of (ys, b'') \<Rightarrow> (xs @ ys, b''))"

locale refinement =
  fixes step :: "'s \<Rightarrow> 'a \<Rightarrow> 'o list \<Rightarrow> 's \<Rightarrow> bool"
    and spec :: "'a \<Rightarrow> 'b \<Rightarrow> 'x list \<times> 'b"
    and abstraction :: "'s \<Rightarrow> 'b"
    and allows :: "'x \<Rightarrow> 'o \<Rightarrow> bool"
  assumes simulates: "step s a os s' \<Longrightarrow>
      list_all2 allows (fst (spec a (abstraction s))) os \<and> snd (spec a (abstraction s)) = abstraction s'"
begin

lemma histories:
  "history step s as os s' \<Longrightarrow>
     list_all2 allows (fst (specified spec as (abstraction s))) os \<and>
     snd (specified spec as (abstraction s)) = abstraction s'"
proof (induction rule: history.induct)
  case (more s a os s1 as os' s')
  then show ?case
    using simulates [OF more.hyps(1)] by (auto simp: list_all2_appendI split: prod.split)
qed simp

end

section \<open>The specification\<close>

datatype register = SeedsOf | RegionReadyOf | ReaperReadyOf | DCsOf | RegionIPsOf | ReaperIPsOf

datatype cell = Flag bool | Addresses "string list" | Replicas "proberDC list"

record board =
  bd_user :: string
  bd_password :: string
  bd_cell :: "register \<Rightarrow> cell"

type_synonym credentials = "(string \<times> string) option"

text \<open>A write either carries a value or is malformed, with the status it is refused with.\<close>

datatype event =
  Read register credentials
| Write register credentials "int + cell"
| Rekey string string
| Unrelated
| Internal

datatype answer = Shown cell | Stored | Refused int | Anything

definition admits :: "board \<Rightarrow> credentials \<Rightarrow> bool" where
  "admits b c \<longleftrightarrow> c = Some (bd_user b, bd_password b)"

fun boardStep :: "event \<Rightarrow> board \<Rightarrow> answer list \<times> board" where
  "boardStep (Read g c) b = ([if admits b c then Shown (bd_cell b g) else Refused 401], b)"
| "boardStep (Write g c v) b =
     (if admits b c
      then case v of
          Inl n \<Rightarrow> ([Refused n], b)
        | Inr x \<Rightarrow> ([Stored], b\<lparr>bd_cell := (bd_cell b)(g := x)\<rparr>)
      else ([Refused 401], b))"
| "boardStep (Rekey u pw) b = ([], b\<lparr>bd_user := u, bd_password := pw\<rparr>)"
| "boardStep Unrelated b = ([Anything], b)"
| "boardStep Internal b = ([], b)"

section \<open>The server\<close>

datatype stimulus =
  Incoming request
| PollTick
| AdminSecretAdded strmap
| BaseSecretUpdated strmap strmap

text \<open>
  A request is answered through the routes of \<open>setupRoutes\<close>; the poller ranges over the nodes in some
  order; the watchers call their handlers.
\<close>

inductive serverStep ::
  "'w jolokiaEnv \<Rightarrow> codec \<Rightarrow> proberServer \<Rightarrow> stimulus \<Rightarrow> response list \<Rightarrow> proberServer \<Rightarrow> bool"
  for E :: "'w jolokiaEnv" and C :: codec where
  incoming: "serverStep E C p (Incoming r) [fst (dispatch C ks r p)] (snd (dispatch C ks r p))"
| polled: "result (updateNodeStates E ks ks2 p) w = Inr p' \<Longrightarrow> serverStep E C p PollTick [] p'"
| adminSecretAdded: "serverStep E C p (AdminSecretAdded d) [] (handleAddAuthSecret d p)"
| baseSecretUpdated: "serverStep E C p (BaseSecretUpdated d d') [] (handleUpdateBaseSecret d d' p)"

section \<open>How the server shows the board\<close>

fun registerOf :: "route \<Rightarrow> register option" where
  "registerOf Seeds = Some SeedsOf"
| "registerOf RegionReady = Some RegionReadyOf"
| "registerOf ReaperReady = Some ReaperReadyOf"
| "registerOf DCs = Some DCsOf"
| "registerOf RegionIPs = Some RegionIPsOf"
| "registerOf ReaperIPs = Some ReaperIPsOf"
| "registerOf _ = None"

fun cellOf :: "proberState \<Rightarrow> register \<Rightarrow> cell" where
  "cellOf s SeedsOf = Addresses (ps_seeds s)"
| "cellOf s RegionReadyOf = Flag (ps_regionReady s)"
| "cellOf s ReaperReadyOf = Flag (ps_reaperReady s)"
| "cellOf s DCsOf = Replicas (ps_dcs s)"
| "cellOf s RegionIPsOf = Addresses (ps_regionIPs s)"
| "cellOf s ReaperIPsOf = Addresses (ps_reaperIPs s)"

definition boardOf :: "proberServer \<Rightarrow> board" where
  "boardOf p = \<lparr>bd_user = authUser p, bd_password = authPassword p, bd_cell = cellOf (pstate p)\<rparr>"

fun encodeCell :: "codec \<Rightarrow> cell \<Rightarrow> string" where
  "encodeCell C (Flag b) = formatBool b"
| "encodeCell C (Addresses xs) = marshalStrings C xs"
| "encodeCell C (Replicas ds) = marshalDCs C ds"

fun decodeCell :: "codec \<Rightarrow> register \<Rightarrow> string \<Rightarrow> cell option" where
  "decodeCell C RegionReadyOf s = map_option Flag (parseBool s)"
| "decodeCell C ReaperReadyOf s = map_option Flag (parseBool s)"
| "decodeCell C DCsOf s = map_option Replicas (unmarshalDCs C s)"
| "decodeCell C _ s = map_option Addresses (unmarshalStrings C s)"

definition requestEvent :: "codec \<Rightarrow> request \<Rightarrow> event" where
  "requestEvent C r =
     (case (registerOf (rq_route r), rq_method r) of
        (None, _) \<Rightarrow> Unrelated
      | (Some g, GET) \<Rightarrow> Read g (rq_basicAuth r)
      | (Some g, PUT) \<Rightarrow> Write g (rq_basicAuth r)
          (case rq_body r of
             Inl e \<Rightarrow> Inl 500
           | Inr body \<Rightarrow> (case decodeCell C g body of None \<Rightarrow> Inl 400 | Some x \<Rightarrow> Inr x)))"

fun eventOf :: "codec \<Rightarrow> stimulus \<Rightarrow> event" where
  "eventOf C (Incoming r) = requestEvent C r"
| "eventOf C PollTick = Internal"
| "eventOf C (AdminSecretAdded d) = Internal"
| "eventOf C (BaseSecretUpdated d d') =
     (if d = d' then Internal else Rekey (mget d' ''admin-role'') (mget d' ''admin-password''))"

fun allowed :: "codec \<Rightarrow> answer \<Rightarrow> response \<Rightarrow> bool" where
  "allowed C (Shown x) rsp \<longleftrightarrow> rsp = reply 200 (encodeCell C x)"
| "allowed C Stored rsp \<longleftrightarrow> rsp = reply 200 ''''"
| "allowed C (Refused n) rsp \<longleftrightarrow> rsp_code rsp = n"
| "allowed C Anything rsp \<longleftrightarrow> True"

section \<open>The server refines the board\<close>

lemma admits_authorized [simp]:
  "admits \<lparr>bd_user = authUser p, bd_password = authPassword p, bd_cell = cells\<rparr> (rq_basicAuth r) \<longleftrightarrow>
     authorized r p"
  by (simp add: admits_def authorized_def)

lemma cellOf_registerNode [simp]: "cellOf (registerNode a b s) = cellOf s"
proof
  show "cellOf (registerNode a b s) g = cellOf s g" for g by (cases g) simp_all
qed

lemma cellOf_put:
  "cellOf (s\<lparr>ps_seeds := xs\<rparr>) = (cellOf s)(SeedsOf := Addresses xs)"
  "cellOf (s\<lparr>ps_regionReady := f\<rparr>) = (cellOf s)(RegionReadyOf := Flag f)"
  "cellOf (s\<lparr>ps_reaperReady := f\<rparr>) = (cellOf s)(ReaperReadyOf := Flag f)"
  "cellOf (s\<lparr>ps_dcs := ds\<rparr>) = (cellOf s)(DCsOf := Replicas ds)"
  "cellOf (s\<lparr>ps_regionIPs := xs\<rparr>) = (cellOf s)(RegionIPsOf := Addresses xs)"
  "cellOf (s\<lparr>ps_reaperIPs := xs\<rparr>) = (cellOf s)(ReaperIPsOf := Addresses xs)"
proof -
  have ext: "(\<And>g. f g = h g) \<Longrightarrow> f = h" for f h :: "register \<Rightarrow> cell" by (rule ext)
  show "cellOf (s\<lparr>ps_seeds := xs\<rparr>) = (cellOf s)(SeedsOf := Addresses xs)"
    "cellOf (s\<lparr>ps_regionReady := f\<rparr>) = (cellOf s)(RegionReadyOf := Flag f)"
    "cellOf (s\<lparr>ps_reaperReady := f\<rparr>) = (cellOf s)(ReaperReadyOf := Flag f)"
    "cellOf (s\<lparr>ps_dcs := ds\<rparr>) = (cellOf s)(DCsOf := Replicas ds)"
    "cellOf (s\<lparr>ps_regionIPs := xs\<rparr>) = (cellOf s)(RegionIPsOf := Addresses xs)"
    "cellOf (s\<lparr>ps_reaperIPs := xs\<rparr>) = (cellOf s)(ReaperIPsOf := Addresses xs)"
    by (rule ext, rename_tac g, case_tac g, simp_all)+
qed

lemma request_refines:
  "list_all2 (allowed C) (fst (boardStep (requestEvent C r) (boardOf p))) [fst (dispatch C ks r p)]"
  by (cases "rq_method r"; cases "rq_route r")
    (auto simp: requestEvent_def BasicAuth_if middleware_fst handler_defs boardOf_def
      split: sum.split option.split)

lemma request_changes_board:
  "snd (boardStep (requestEvent C r) (boardOf p)) = boardOf (snd (dispatch C ks r p))"
  by (cases "rq_method r"; cases "rq_route r")
    (auto simp: requestEvent_def BasicAuth_if healthCheck_state handler_defs boardOf_def cellOf_put
      split: sum.split option.split)

lemma cellOf_nodes [simp]: "cellOf (s\<lparr>ps_nodes := m\<rparr>) = cellOf s"
proof
  show "cellOf (s\<lparr>ps_nodes := m\<rparr>) g = cellOf s g" for g by (cases g) simp_all
qed

interpretation prober: refinement "serverStep E C" "\<lambda>a. boardStep (eventOf C a)" boardOf "allowed C"
proof
  fix s a os s'
  assume "serverStep E C s a os s'"
  then show "list_all2 (allowed C) (fst (boardStep (eventOf C a) (boardOf s))) os \<and>
      snd (boardStep (eventOf C a) (boardOf s)) = boardOf s'"
  proof cases
    case (incoming r ks)
    then show ?thesis
      unfolding incoming eventOf.simps by (blast intro: request_refines request_changes_board)
  qed (auto simp: updateNodeStates_def updateNodesRequest_def handleAddAuthSecret_def SetAuth_def
      handleUpdateBaseSecret_def boardOf_def split: if_splits sum.splits)
qed

text \<open>C33: Through every history of requests, ticks of the poller and events of the watchers, the prober
  answers as the board of six registers does: a read shows the value last written, a write stores or is
  refused, credentials other than those of the base secret are refused, and nothing else - health checks,
  polls of the nodes, a new administrator secret for Jolokia - touches a register or the credentials.\<close>

theorem prober_refines_board:
  assumes "history (serverStep E C) p as rsps p'"
  shows "list_all2 (allowed C) (fst (specified (\<lambda>a. boardStep (eventOf C a)) as (boardOf p))) rsps \<and>
     snd (specified (\<lambda>a. boardStep (eventOf C a)) as (boardOf p)) = boardOf p'"
  by (rule prober.histories [OF assms])

text \<open>A region reports itself ready, the base secret changes, and the old credentials no longer read.\<close>

definition readyPut :: request where
  "readyPut = \<lparr>rq_method = PUT, rq_route = RegionReady, rq_basicAuth = Some (''u'', ''p''),
     rq_remoteAddr = ''172.0.0.2:4711'', rq_body = Inr ''true''\<rparr>"

definition registerStimuli :: "stimulus list" where
  "registerStimuli =
     [Incoming readyPut, BaseSecretUpdated Map.empty [''admin-role'' \<mapsto> ''v'', ''admin-password'' \<mapsto> ''q''],
      Incoming (readyPut\<lparr>rq_method := GET\<rparr>), Incoming (readyPut\<lparr>rq_method := GET, rq_basicAuth := Some (''v'', ''q'')\<rparr>)]"

theorem prober_refines_board_witness:
  "\<forall>C. \<exists>rsps p'. history (serverStep ringEnv C) sampleServer registerStimuli rsps p' \<and>
     map rsp_code rsps = [200, 401, 200] \<and> rsp_body (rsps ! 2) = ''true'' \<and> authUser p' = ''v''"
proof
  fix C
  obtain rsps p' where h: "history (serverStep ringEnv C) sampleServer registerStimuli rsps p'"
    unfolding registerStimuli_def by (blast intro: history.intros serverStep.intros)
  let ?spec = "specified (\<lambda>a. boardStep (eventOf C a)) registerStimuli (boardOf sampleServer)"
  have changed: "Map.empty \<noteq> [''admin-role'' \<mapsto> ''v'', ''admin-password'' \<mapsto> ''q'']"
    by (metis fun_upd_same option.distinct(1))
  have "boardOf sampleServer = \<lparr>bd_user = ''u'', bd_password = ''p'', bd_cell = cellOf sampleState\<rparr>"
    by (simp add: boardOf_def sampleServer_def sample_defs)
  then have spec: "fst ?spec = [Stored, Refused 401, Shown (Flag True)]" "bd_user (snd ?spec) = ''v''"
    using changed by (simp_all add: registerStimuli_def readyPut_def requestEvent_def parseBool_def
        admits_def mget_def)
  from prober_refines_board [OF h] have "map rsp_code rsps = [200, 401, 200] \<and> rsp_body (rsps ! 2) = ''true''"
    by (auto simp: spec list_all2_Cons1 reply_def formatBool_def)
  moreover from prober_refines_board [OF h] have "authUser p' = ''v''"
    using spec(2) by (simp add: boardOf_def)
  ultimately show "\<exists>rsps p'. history (serverStep ringEnv C) sampleServer registerStimuli rsps p' \<and>
     map rsp_code rsps = [200, 401, 200] \<and> rsp_body (rsps ! 2) = ''true'' \<and> authUser p' = ''v''"
    using h by (intro exI [of _ rsps] exI [of _ p']) simp
qed

end
