(* ===== verification/Backup_Types.thy ===== *)
theory Backup_Types
  imports Scaling
begin

text \<open>
  Backups and restores: the custom resources (\<open>api/v1alpha1/cassandrabackup_types.go\<close>,
  \<open>cassandrarestore_types.go\<close>), the checks of their webhooks, the choice of the storage provider and the check of the
  credentials for it.
  A nil map differs from an empty one where the code compares requests, so \<open>Rename\<close> is an option. The lemmas relate
  the webhook to the choice of the provider.
\<close>

section \<open>Resources\<close>

record retry =
  rt_enabled :: bool
  rt_interval :: int
  rt_strategy :: string
  rt_maxAttempts :: int

record dataRate =
  dr_value :: int
  dr_unit :: string

record backupSpec =
  bs_cassandraCluster :: string
  bs_storageLocation :: string
  bs_secretName :: string
  bs_snapshotTag :: string
  bs_duration :: string
  bs_bandwidth :: "dataRate option"
  bs_concurrentConnections :: int
  bs_dc :: string
  bs_entities :: string
  bs_timeout :: int
  bs_metadataDirective :: string
  bs_insecure :: bool
  bs_createMissingBucket :: bool
  bs_skipBucketVerification :: bool
  bs_skipRefreshing :: bool
  bs_retry :: retry

text \<open>An error is its source and its message.\<close>

record operationStatus =
  os_state :: string
  os_errors :: "(string \<times> string) list"
  os_progress :: int

record cassandraBackup =
  cb_name :: string
  cb_namespace :: string
  cb_spec :: backupSpec
  cb_status :: operationStatus

record restoreImport =
  ri_keepLevel :: bool
  ri_noVerify :: bool
  ri_noVerifyTokens :: bool
  ri_noInvalidateCaches :: bool
  ri_quick :: bool
  ri_extendedVerify :: bool
  ri_keepRepaired :: bool

record restoreSpec =
  rsp_cassandraCluster :: string
  rsp_cassandraBackup :: string
  rsp_storageLocation :: string
  rsp_snapshotTag :: string
  rsp_secretName :: string
  rsp_concurrentConnections :: int
  rsp_dc :: string
  rsp_entities :: string
  rsp_noDeleteTruncates :: bool
  rsp_noDeleteDownloads :: bool
  rsp_noDownloadData :: bool
  rsp_import :: restoreImport
  rsp_timeout :: int
  rsp_resolveHostIdFromTopology :: bool
  rsp_insecure :: bool
  rsp_skipBucketVerification :: bool
  rsp_retry :: retry
  rsp_rename :: "strmap option"
  rsp_schemaVersion :: string
  rsp_exactSchemaVersion :: bool

record cassandraRestore =
  crs_name :: string
  crs_namespace :: string
  crs_spec :: restoreSpec
  crs_status :: operationStatus

text \<open>The zero values.\<close>

definition noStatus :: operationStatus where
  "noStatus = \<lparr>os_state = '''', os_errors = [], os_progress = 0\<rparr>"

definition noRetry :: retry where
  "noRetry = \<lparr>rt_enabled = False, rt_interval = 0, rt_strategy = '''', rt_maxAttempts = 0\<rparr>"

definition noBackup :: cassandraBackup where
  "noBackup = \<lparr>cb_name = '''', cb_namespace = '''',
     cb_spec = \<lparr>bs_cassandraCluster = '''', bs_storageLocation = '''', bs_secretName = '''', bs_snapshotTag = '''',
       bs_duration = '''', bs_bandwidth = None, bs_concurrentConnections = 0, bs_dc = '''', bs_entities = '''',
       bs_timeout = 0, bs_metadataDirective = '''', bs_insecure = False, bs_createMissingBucket = False,
       bs_skipBucketVerification = False, bs_skipRefreshing = False, bs_retry = noRetry\<rparr>,
     cb_status = noStatus\<rparr>"

section \<open>Storage\<close>

definition StorageProviderS3 :: string where "StorageProviderS3 = ''s3''"
definition StorageProviderGCP :: string where "StorageProviderGCP = ''gcp''"
definition StorageProviderAzure :: string where "StorageProviderAzure = ''azure''"
definition StorageProviderMinio :: string where "StorageProviderMinio = ''minio''"
definition StorageProviderCeph :: string where "StorageProviderCeph = ''ceph''"
definition StorageProviderOracle :: string where "StorageProviderOracle = ''oracle''"

lemmas provider_names = StorageProviderS3_def StorageProviderGCP_def StorageProviderAzure_def StorageProviderMinio_def
  StorageProviderCeph_def StorageProviderOracle_def

definition storageProvider :: "string \<Rightarrow> string" where
  "storageProvider location =
     (if hasPrefix location ''gcp://'' then StorageProviderGCP
      else if hasPrefix location ''s3://'' then StorageProviderS3
      else if hasPrefix location ''azure://'' then StorageProviderAzure
      else if hasPrefix location ''oracle://'' then StorageProviderOracle
      else if hasPrefix location ''minio://'' then StorageProviderMinio
      else if hasPrefix location ''ceph://'' then StorageProviderCeph
      else '''')"

definition BackupStorageProvider :: "cassandraBackup \<Rightarrow> string" where
  "BackupStorageProvider cb = storageProvider (bs_storageLocation (cb_spec cb))"

definition RestoreStorageProvider :: "cassandraRestore \<Rightarrow> string" where
  "RestoreStorageProvider cr = storageProvider (rsp_storageLocation (crs_spec cr))"

text \<open>Single quotes around a key.\<close>

definition ticked :: "string \<Rightarrow> string" where
  "ticked s = [CHR 0x27] @ s @ [CHR 0x27]"

text \<open>The checks of the credentials, in the order of the code; a missing pair of AWS keys is only logged.\<close>

definition missingKey :: "secret \<Rightarrow> string \<Rightarrow> bool" where
  "missingKey s k \<longleftrightarrow> length (secretValue s k) = 0"

definition awsCompatible :: "string list" where
  "awsCompatible = [StorageProviderS3, StorageProviderMinio, StorageProviderOracle, StorageProviderCeph]"

definition ValidateStorageSecret :: "secret \<Rightarrow> string \<Rightarrow> go_error + unit" where
  "ValidateStorageSecret s provider =
     (let n = sec_name s in
      if Contains awsCompatible provider \<and> \<not> missingKey s ''awssecretaccesskey'' \<and> \<not> missingKey s ''awsaccesskeyid'' \<and>
         missingKey s ''awsregion''
      then Inl (Err (''there is no '' @ ticked ''awsregion'' @ '' property while you have set both '' @ ticked ''awssecretaccesskey'' @
             '' and '' @ [CHR 0x27] @ ''awsaccesskeyid in '' @ n @ '' secret''))
      else if Contains awsCompatible provider \<and> \<not> missingKey s ''awsendpoint'' \<and> missingKey s ''awsregion''
      then Inl (Err (ticked ''awsendpoint'' @ '' is specified but '' @ ticked ''awsregion'' @ '' is not set in '' @ n @ '' secret''))
      else if provider = StorageProviderGCP \<and> missingKey s ''gcp''
      then Inl (Err (''storage provider is GCP but key '' @ ticked ''gpc'' @ '' for secret '' @ n @ '' is not set''))
      else if provider = StorageProviderAzure \<and> missingKey s ''azurestorageaccount''
      then Inl (Err (ticked ''azurestorageaccount'' @ '' key for secret '' @ n @ '' is not set''))
      else if provider = StorageProviderAzure \<and> missingKey s ''azurestoragekey''
      then Inl (Err (ticked ''azurestoragekey'' @ '' key for secret '' @ n @ '' is not set''))
      else Inr ())"

section \<open>Webhooks\<close>

text \<open>What precedes the first occurrence of \<open>://\<close>, if there is one.\<close>

fun protocolOf :: "string \<Rightarrow> string option" where
  "protocolOf [] = None"
| "protocolOf (c # cs) = (if hasPrefix (c # cs) ''://'' then Some [] else map_option (Cons c) (protocolOf cs))"

definition supportedProtocols :: "string list" where
  "supportedProtocols = [StorageProviderS3, StorageProviderMinio, StorageProviderOracle, StorageProviderCeph,
     StorageProviderGCP, StorageProviderAzure]"

definition printed :: "string list \<Rightarrow> string" where
  "printed xs = ''['' @ join '' '' xs @ '']''"

definition validateStorageLocation :: "string \<Rightarrow> go_error option" where
  "validateStorageLocation location =
     (case protocolOf location of
        None \<Rightarrow> Some (Err (''storage location should be in format '' @ ticked ''protocol://backup/location''))
      | Some requested \<Rightarrow>
          if \<not> Contains supportedProtocols requested
          then Some (Err (''protocol '' @ requested @ '' is not supported. Should be one of the following: '' @ printed supportedProtocols))
          else None)"

text \<open>\<open>strconv.ParseInt(s, 10, 64)\<close> succeeds.\<close>

definition parsesInt64 :: "string \<Rightarrow> bool" where
  "parsesInt64 s \<longleftrightarrow>
     (let neg = s \<noteq> [] \<and> hd s = CHR ''-'';
          t = (if s \<noteq> [] \<and> (hd s = CHR ''-'' \<or> hd s = CHR ''+'') then tl s else s) in
      t \<noteq> [] \<and> list_all isDigit t \<and> (if neg then stringToNat t \<le> 2 ^ 63 else stringToNat t < 2 ^ 63))"

definition allowedDurationUnits :: "string list" where
  "allowedDurationUnits = [''days'', ''hours'', ''microseconds'', ''milliseconds'', ''minutes'', ''nanoseconds'', ''seconds'']"

definition durationErr :: go_error where
  "durationErr = Err (''duration should be in format '' @ quoted ''amount unit'' @
     '', where amount is an integer value and unit is one of the following values: '' @ printed allowedDurationUnits)"

definition validateDuration :: "string \<Rightarrow> go_error option" where
  "validateDuration durationStr =
     (if length durationStr = 0 then None
      else case splitOn (CHR '' '') durationStr of
          [amount, unit] \<Rightarrow>
            if \<not> parsesInt64 amount then Some durationErr
            else if \<not> Contains allowedDurationUnits (trimSpace (toLower unit)) then Some durationErr
            else None
        | _ \<Rightarrow> Some durationErr)"

definition errorList :: "go_error option \<Rightarrow> go_error list" where
  "errorList e = (case e of None \<Rightarrow> [] | Some x \<Rightarrow> [x])"

text \<open>The webhooks accept when the list of errors is empty, on creation and on update.\<close>

definition validateBackupCreateUpdate :: "cassandraBackup \<Rightarrow> go_error list" where
  "validateBackupCreateUpdate cb =
     errorList (validateStorageLocation (bs_storageLocation (cb_spec cb))) @ errorList (validateDuration (bs_duration (cb_spec cb)))"

definition validateRestoreCreateUpdate :: "cassandraRestore \<Rightarrow> go_error list" where
  "validateRestoreCreateUpdate cr =
     (let s = crs_spec cr in
      if length (rsp_cassandraBackup s) = 0
      then if length (rsp_storageLocation s) = 0 \<or> length (rsp_snapshotTag s) = 0 \<or> length (rsp_secretName s) = 0
           then [Err ''.spec.storageLocation, .spec.snapshotTag and .spec.secretName should be set if .spec.cassandraBackup is not set'']
           else errorList (validateStorageLocation (rsp_storageLocation s))
      else [])"

section \<open>The webhook and the provider\<close>

lemma hasPrefix_iff: "hasPrefix s p \<longleftrightarrow> (\<exists>r. s = p @ r)"
  by (auto simp: hasPrefix_def) (metis append_take_drop_id)

lemma protocolOf_append: "CHR '':'' \<notin> set p \<Longrightarrow> protocolOf (p @ ''://'' @ r) = Some p"
  by (induction p) (auto simp: hasPrefix_def)

lemma protocolOf_Some: "protocolOf s = Some p \<Longrightarrow> \<exists>r. s = p @ ''://'' @ r"
  by (induction s arbitrary: p) (fastforce simp: hasPrefix_iff split: if_splits)+

lemma protocolOf_iff: "CHR '':'' \<notin> set p \<Longrightarrow> protocolOf s = Some p \<longleftrightarrow> hasPrefix s (p @ ''://'')"
  using protocolOf_append protocolOf_Some by (fastforce simp: hasPrefix_iff)

lemma validateStorageLocation_None:
  "validateStorageLocation s = None \<longleftrightarrow> (\<exists>p \<in> set supportedProtocols. protocolOf s = Some p)"
  by (auto simp: validateStorageLocation_def split: option.splits)

text \<open>C36: A storage location passes the webhook exactly when the operator finds a provider for it: the two
  readings of the same string, one by the position of the separator and one by prefixes, agree.\<close>

theorem location_accepted_iff_provider:
  "validateStorageLocation location = None \<longleftrightarrow> storageProvider location \<noteq> ''''"
proof -
  have "protocolOf location = Some p \<longleftrightarrow> hasPrefix location (p @ ''://'')" if "p \<in> set supportedProtocols" for p
    using that by (intro protocolOf_iff) (auto simp: supportedProtocols_def provider_names)
  then have "validateStorageLocation location = None \<longleftrightarrow>
      (\<exists>p \<in> set supportedProtocols. hasPrefix location (p @ ''://''))"
    unfolding validateStorageLocation_None by blast
  also have "\<dots> \<longleftrightarrow> storageProvider location \<noteq> ''''"
    by (auto simp: supportedProtocols_def provider_names storageProvider_def)
  finally show ?thesis .
qed

end
