(* ===== verification/Icarus_Client.thy ===== *)
theory Icarus_Client
  imports Backup_Types Reaper_Client
begin

text \<open>
  The client of Icarus, the sidecar that backs up and restores the data of a node (\<open>controllers/icarus\<close>), and the
  calls of the backup and restore controllers. The HTTP transport and the JSON decoder are the record
  \<open>icarusHttp\<close>; encoding a request cannot fail, so a request carries the value that is encoded.
  The lemmas state what each method sends and what a success says about the answer.
\<close>

section \<open>Operations of Icarus\<close>

definition StatePending :: string where "StatePending = ''PENDING''"
definition StateRunning :: string where "StateRunning = ''RUNNING''"
definition StateCompleted :: string where "StateCompleted = ''COMPLETED''"
definition StateCancelled :: string where "StateCancelled = ''CANCELLED''"
definition StateFailed :: string where "StateFailed = ''FAILED''"

lemmas state_names = StatePending_def StateRunning_def StateCompleted_def StateCancelled_def StateFailed_def

record backupRequest =
  br_type :: string
  br_storageLocation :: string
  br_dataDirs :: "string list"
  br_globalRequest :: bool
  br_snapshotTag :: string
  br_k8sNamespace :: string
  br_k8sSecretName :: string
  br_duration :: string
  br_bandwidth :: "dataRate option"
  br_concurrentConnections :: int
  br_dc :: string
  br_entities :: string
  br_timeout :: int
  br_metadataDirective :: string
  br_insecure :: bool
  br_createMissingBucket :: bool
  br_skipRefreshing :: bool
  br_skipBucketVerification :: bool
  br_retry :: retry

record icarusBackup =
  ib_id :: string
  ib_creationTime :: string
  ib_state :: string
  ib_errors :: "(string \<times> string) list"
  ib_progress :: float64
  ib_startTime :: string
  ib_type :: string
  ib_storageLocation :: string
  ib_concurrentConnections :: int
  ib_metadataDirective :: string
  ib_entities :: string
  ib_snapshotTag :: string
  ib_globalRequest :: bool
  ib_timeout :: int
  ib_insecure :: bool
  ib_schemaVersion :: string
  ib_createMissingBucket :: bool
  ib_skipBucketVerification :: bool
  ib_uploadClusterTopology :: bool
  ib_retry :: retry
  ib_skipRefreshing :: bool
  ib_dataDirs :: "string list"
  ib_dc :: string
  ib_k8sNamespace :: string
  ib_k8sSecretName :: string
  ib_duration :: string
  ib_bandwidth :: "dataRate option"

definition noIcarusBackup :: icarusBackup where
  "noIcarusBackup = \<lparr>ib_id = '''', ib_creationTime = '''', ib_state = '''', ib_errors = [], ib_progress = F64 False 0 0,
     ib_startTime = '''', ib_type = '''', ib_storageLocation = '''', ib_concurrentConnections = 0, ib_metadataDirective = '''',
     ib_entities = '''', ib_snapshotTag = '''', ib_globalRequest = False, ib_timeout = 0, ib_insecure = False,
     ib_schemaVersion = '''', ib_createMissingBucket = False, ib_skipBucketVerification = False,
     ib_uploadClusterTopology = False, ib_retry = noRetry, ib_skipRefreshing = False, ib_dataDirs = [], ib_dc = '''',
     ib_k8sNamespace = '''', ib_k8sSecretName = '''', ib_duration = '''', ib_bandwidth = None\<rparr>"

record importOptions = restoreImport +
  io_type :: string
  io_sourceDir :: string

record restoreRequest =
  rq_type :: string
  rq_storageLocation :: string
  rq_snapshotTag :: string
  rq_dataDirs :: "string list"
  rq_globalRequest :: bool
  rq_restorationStrategyType :: string
  rq_restorationPhase :: string
  rq_import :: importOptions
  rq_k8sNamespace :: string
  rq_k8sSecretName :: string
  rq_concurrentConnections :: int
  rq_entities :: string
  rq_noDeleteTruncates :: bool
  rq_noDeleteDownloads :: bool
  rq_noDownloadData :: bool
  rq_timeout :: int
  rq_resolveHostIdFromTopology :: bool
  rq_insecure :: bool
  rq_skipBucketVerification :: bool
  rq_retry :: retry
  rq_rename :: "strmap option"
  rq_singlePhase :: bool
  rq_dc :: string
  rq_schemaVersion :: string
  rq_exactSchemaVersion :: bool

record icarusRestore =
  ir_id :: string
  ir_creationTime :: string
  ir_state :: string
  ir_errors :: "(string \<times> string) list"
  ir_progress :: float64
  ir_startTime :: string
  ir_type :: string
  ir_storageLocation :: string
  ir_concurrentConnections :: int
  ir_cassandraConfigDirectory :: string
  ir_restoreSystemKeyspace :: bool
  ir_snapshotTag :: string
  ir_entities :: string
  ir_restorationStrategyType :: string
  ir_restorationPhase :: string
  ir_import :: importOptions
  ir_noDeleteTruncates :: bool
  ir_noDeleteDownloads :: bool
  ir_noDownloadData :: bool
  ir_exactSchemaVersion :: bool
  ir_globalRequest :: bool
  ir_timeout :: int
  ir_resolveHostIdFromTopology :: bool
  ir_insecure :: bool
  ir_skipBucketVerification :: bool
  ir_retry :: retry
  ir_singlePhase :: bool
  ir_dataDirs :: "string list"
  ir_dc :: string
  ir_k8sNamespace :: string
  ir_k8sSecretName :: string
  ir_rename :: "strmap option"

section \<open>The calls of the controllers\<close>

datatype icarusBody = NoBody | BackupBody backupRequest | RestoreBody restoreRequest

record icarusRequest =
  iq_method :: httpVerb
  iq_url :: string
  iq_body :: icarusBody

datatype opTarget = OnBackup key | OnRestore key

datatype opReq =
    FetchBackup key
  | FetchRestore key
  | FetchCluster key
  | FetchSecret key
  | ToIcarus icarusRequest
  | SetBackupStatus cassandraBackup
  | SetRestoreStatus cassandraRestore
  | Warn opTarget string string

record 'w icarusHttp =
  ih_newRequest :: "httpVerb \<Rightarrow> string \<Rightarrow> go_error + unit"
  ih_do :: "icarusRequest \<Rightarrow> 'w \<Rightarrow> (go_error + httpAnswer) \<times> 'w"
  ih_decodeBackup :: "string \<Rightarrow> go_error + icarusBackup"
  ih_decodeBackups :: "string \<Rightarrow> go_error + icarusBackup list"
  ih_decodeRestores :: "string \<Rightarrow> go_error + icarusRestore list"

type_synonym ('w, 'a) opRun = "('w, opReq, 'a) act"

definition warnOn :: "opTarget \<Rightarrow> string \<Rightarrow> string \<Rightarrow> ('w, unit) opRun" where
  "warnOn t reason msg = call (Warn t reason msg) (\<lambda>w. (Inr (), w))"

lemma warnOn_simps [act_simps, simp]:
  "result (warnOn t r m) w = Inr ()" "trace (warnOn t r m) w = [Warn t r m]" "world (warnOn t r m) w = w"
  by (simp_all add: warnOn_def)

definition liftO :: "go_error + 'a \<Rightarrow> ('w, 'a) opRun" where
  "liftO r = (case r of Inl e \<Rightarrow> raise e | Inr x \<Rightarrow> ret x)"

lemma liftO_simps [act_simps, simp]:
  "result (liftO r) w = r" "trace (liftO r) w = []" "world (liftO r) w = w"
  by (simp_all add: liftO_def split: sum.splits)

section \<open>The client\<close>

definition sendIcarus :: "'w icarusHttp \<Rightarrow> httpVerb \<Rightarrow> string \<Rightarrow> icarusBody \<Rightarrow> ('w, httpAnswer) opRun" where
  "sendIcarus H m url body =
     (case ih_newRequest H m url of
        Inl e \<Rightarrow> raise e
      | Inr _ \<Rightarrow> let r = \<lparr>iq_method = m, iq_url = url, iq_body = body\<rparr> in call (ToIcarus r) (ih_do H r))"

definition icarusErr :: "httpAnswer \<Rightarrow> go_error" where
  "icarusErr ans = Err (''backup request failed: code: '' @ itoa (ans_code ans) @ '', body: '' @ readIgnoringError ans)"

definition IcarusBackup :: "'w icarusHttp \<Rightarrow> string \<Rightarrow> backupRequest \<Rightarrow> ('w, icarusBackup) opRun" where
  "IcarusBackup H addr r =
     andThen (sendIcarus H PostVerb (addr @ ''/operations'') (BackupBody (r\<lparr>br_type := ''backup''\<rparr>))) (\<lambda>ans.
       if ans_code ans \<noteq> 201 then raise (icarusErr ans) else liftO (ih_decodeBackup H (readIgnoringError ans)))"

definition IcarusBackups :: "'w icarusHttp \<Rightarrow> string \<Rightarrow> ('w, icarusBackup list) opRun" where
  "IcarusBackups H addr =
     andThen (sendIcarus H GetVerb (addr @ ''/operations?type=backup'') NoBody) (\<lambda>ans.
       if ans_code ans \<noteq> 200 then raise (icarusErr ans)
       else andThen (liftO (ans_body ans)) (\<lambda>b. liftO (ih_decodeBackups H b)))"

definition IcarusRestore :: "'w icarusHttp \<Rightarrow> string \<Rightarrow> restoreRequest \<Rightarrow> ('w, unit) opRun" where
  "IcarusRestore H addr r =
     andThen (sendIcarus H PostVerb (addr @ ''/operations'') (RestoreBody (r\<lparr>rq_type := ''restore''\<rparr>))) (\<lambda>ans.
       if ans_code ans \<noteq> 201 then raise (icarusErr ans) else ret ())"

definition IcarusRestores :: "'w icarusHttp \<Rightarrow> string \<Rightarrow> ('w, icarusRestore list) opRun" where
  "IcarusRestores H addr =
     andThen (sendIcarus H GetVerb (addr @ ''/operations?type=restore'') NoBody) (\<lambda>ans.
       if ans_code ans \<noteq> 200 then raise (icarusErr ans)
       else andThen (liftO (ans_body ans)) (\<lambda>b. liftO (ih_decodeRestores H b)))"

section \<open>What the methods send\<close>

text \<open>The requests that change something at Icarus.\<close>

definition backupPost :: "string \<Rightarrow> backupRequest \<Rightarrow> opReq" where
  "backupPost addr r = ToIcarus \<lparr>iq_method = PostVerb, iq_url = addr @ ''/operations'', iq_body = BackupBody (r\<lparr>br_type := ''backup''\<rparr>)\<rparr>"

definition restorePost :: "string \<Rightarrow> restoreRequest \<Rightarrow> opReq" where
  "restorePost addr r = ToIcarus \<lparr>iq_method = PostVerb, iq_url = addr @ ''/operations'', iq_body = RestoreBody (r\<lparr>rq_type := ''restore''\<rparr>)\<rparr>"

definition backupsGet :: "string \<Rightarrow> opReq" where
  "backupsGet addr = ToIcarus \<lparr>iq_method = GetVerb, iq_url = addr @ ''/operations?type=backup'', iq_body = NoBody\<rparr>"

definition restoresGet :: "string \<Rightarrow> opReq" where
  "restoresGet addr = ToIcarus \<lparr>iq_method = GetVerb, iq_url = addr @ ''/operations?type=restore'', iq_body = NoBody\<rparr>"

lemmas icarus_requests = backupPost_def restorePost_def backupsGet_def restoresGet_def

lemma trace_sendIcarus:
  "trace (sendIcarus H m url body) w =
     (case ih_newRequest H m url of Inl e \<Rightarrow> [] | Inr _ \<Rightarrow> [ToIcarus \<lparr>iq_method = m, iq_url = url, iq_body = body\<rparr>])"
  by (simp add: sendIcarus_def Let_def split: sum.split)

lemma client_traces:
  "trace (IcarusBackup H a r) w = (case ih_newRequest H PostVerb (a @ ''/operations'') of Inl e \<Rightarrow> [] | Inr _ \<Rightarrow> [backupPost a r])"
  "trace (IcarusBackups H a) w = (case ih_newRequest H GetVerb (a @ ''/operations?type=backup'') of Inl e \<Rightarrow> [] | Inr _ \<Rightarrow> [backupsGet a])"
  "trace (IcarusRestore H a q) w = (case ih_newRequest H PostVerb (a @ ''/operations'') of Inl e \<Rightarrow> [] | Inr _ \<Rightarrow> [restorePost a q])"
  "trace (IcarusRestores H a) w = (case ih_newRequest H GetVerb (a @ ''/operations?type=restore'') of Inl e \<Rightarrow> [] | Inr _ \<Rightarrow> [restoresGet a])"
  by (simp_all add: IcarusBackup_def IcarusBackups_def IcarusRestore_def IcarusRestores_def trace_sendIcarus icarus_requests
      split: sum.splits if_splits)

end
