(* ===== verification/Backups.thy ===== *)
theory Backups
  imports Icarus_Client Repair_Schedules Reaper_Workload
begin

text \<open>
  The reconciler of backups (\<open>controllers/cassandrabackup\<close>). Its state is the status of the resource: empty, then the
  state that Icarus reports, until it is completed. A failed backup is tried again when its request has changed.
  Parameters: the Kubernetes API and Icarus (record \<open>opEnv\<close>), and what the conversion of a float outside the range
  of an integer gives, which Go leaves open.
  The lemmas say exactly when a request is sent to Icarus and which record of Icarus is taken for the backup.
\<close>

section \<open>The outside world\<close>

record 'w opEnv =
  oe_getBackup :: "key \<Rightarrow> 'w \<Rightarrow> (go_error + cassandraBackup) \<times> 'w"
  oe_getRestore :: "key \<Rightarrow> 'w \<Rightarrow> (go_error + cassandraRestore) \<times> 'w"
  oe_getCluster :: "key \<Rightarrow> 'w \<Rightarrow> (go_error + cassandraCluster) \<times> 'w"
  oe_getSecret :: "key \<Rightarrow> 'w \<Rightarrow> (go_error + secret) \<times> 'w"
  oe_updateBackup :: "cassandraBackup \<Rightarrow> 'w \<Rightarrow> (go_error + unit) \<times> 'w"
  oe_updateRestore :: "cassandraRestore \<Rightarrow> 'w \<Rightarrow> (go_error + unit) \<times> 'w"
  oe_icarus :: "'w icarusHttp"
  oe_wideInt :: "float64 \<Rightarrow> int"

definition EventCassandraClusterNotFound :: string where "EventCassandraClusterNotFound = ''CassandraClusterNotFound''"
definition EventCassandraBackupNotFound :: string where "EventCassandraBackupNotFound = ''CassandraBackupNotFound''"
definition EventStorageCredentialsSecretNotFound :: string where
  "EventStorageCredentialsSecretNotFound = ''StorageCredentialsSecretNotFound''"

section \<open>Instants\<close>

text \<open>
  \<open>time.Parse(time.RFC3339, s)\<close>, in nanoseconds since the year 0: a local time with an optional fraction, of which nine
  digits count, and then \<open>Z\<close> or an offset. The two digits of an offset are read by \<open>atoi\<close>, which takes a sign.
\<close>

definition atoi2 :: "string \<Rightarrow> int option" where
  "atoi2 s =
     (case s of
        [a, b] \<Rightarrow>
          if \<not> isDigit b then None
          else if isDigit a then Some (int (10 * digitVal a + digitVal b))
          else if a = CHR ''+'' then Some (int (digitVal b))
          else if a = CHR ''-'' then Some (- int (digitVal b))
          else None
      | _ \<Rightarrow> None)"

definition zoneOffset :: "string \<Rightarrow> int option" where
  "zoneOffset z =
     (case z of
        [sign, h1, h2, colon, m1, m2] \<Rightarrow>
          if colon \<noteq> CHR '':'' then None
          else Option.bind (atoi2 [h1, h2]) (\<lambda>h. Option.bind (atoi2 [m1, m2]) (\<lambda>m.
            if sign = CHR ''+'' then Some (60 * (60 * h + m))
            else if sign = CHR ''-'' then Some (- (60 * (60 * h + m)))
            else None))
      | _ \<Rightarrow> None)"

definition nanosOf :: "string \<Rightarrow> nat" where
  "nanosOf s =
     (let ds = take 9 (tl (dropWhile (\<lambda>c. c \<noteq> CHR ''.'' \<and> c \<noteq> CHR '','') s)) in
      stringToNat ds * 10 ^ (9 - length ds))"

definition localInstant :: "string \<Rightarrow> int option" where
  "localInstant s =
     map_option (\<lambda>(y, mo, d, h, mi, sec).
         int (((24 * dayNumber y mo d + h) * 60 + mi) * 60 + sec) * 1000000000 + int (nanosOf s)) (ParseISO s)"

definition ParseRFC3339 :: "string \<Rightarrow> int option" where
  "ParseRFC3339 s =
     (if s \<noteq> [] \<and> last s = CHR ''Z'' then localInstant (butlast s)
      else let n = length s - 6 in
        Option.bind (localInstant (take n s)) (\<lambda>t. map_option (\<lambda>off. t - 1000000000 * off) (zoneOffset (drop n s))))"

section \<open>The request\<close>

definition deref0 :: "'a list \<Rightarrow> go_error + 'a" where
  "deref0 xs = (case xs of [] \<Rightarrow> Inl Panic | x # _ \<Rightarrow> Inr x)"

definition orDefaultInt :: "int \<Rightarrow> int \<Rightarrow> int" where
  "orDefaultInt x d = (if x = 0 then d else x)"

text \<open>\<open>storageLocation[len(storageLocation):]\<close> is the empty suffix.\<close>

definition withSlash :: "string \<Rightarrow> string" where
  "withSlash location = (if drop (length location) location \<noteq> ''/'' then location @ ''/'' else location)"

definition locationOf :: "string \<Rightarrow> cassandraCluster \<Rightarrow> dc \<Rightarrow> string" where
  "locationOf location cc d = withSlash location @ cc_name cc @ ''/'' @ dc_name d @ ''/1''"

definition tagOf :: "cassandraBackup \<Rightarrow> string" where
  "tagOf cb = (if length (bs_snapshotTag (cb_spec cb)) = 0 then cb_name cb else bs_snapshotTag (cb_spec cb))"

definition retryOf :: "retry \<Rightarrow> retry" where
  "retryOf r =
     \<lparr>rt_enabled = rt_enabled r, rt_interval = orDefaultInt (rt_interval r) 10,
      rt_strategy = orDefault (rt_strategy r) ''LINEAR'', rt_maxAttempts = orDefaultInt (rt_maxAttempts r) 3\<rparr>"

definition backupRequestFor :: "cassandraCluster \<Rightarrow> dc \<Rightarrow> cassandraBackup \<Rightarrow> backupRequest" where
  "backupRequestFor cc d cb =
     (let s = cb_spec cb in
      \<lparr>br_type = ''backup'',
       br_storageLocation = locationOf (bs_storageLocation s) cc d,
       br_dataDirs = [''/var/lib/cassandra/data''],
       br_globalRequest = True,
       br_snapshotTag = tagOf cb,
       br_k8sNamespace = cb_namespace cb,
       br_k8sSecretName = bs_secretName s,
       br_duration = bs_duration s,
       br_bandwidth = (case bs_bandwidth s of None \<Rightarrow> None | Some b \<Rightarrow> if dr_value b > 0 then Some b else None),
       br_concurrentConnections = orDefaultInt (bs_concurrentConnections s) 10,
       br_dc = bs_dc s,
       br_entities = bs_entities s,
       br_timeout = orDefaultInt (bs_timeout s) 5,
       br_metadataDirective = orDefault (bs_metadataDirective s) ''COPY'',
       br_insecure = bs_insecure s,
       br_createMissingBucket = bs_createMissingBucket s,
       br_skipRefreshing = bs_skipRefreshing s,
       br_skipBucketVerification = bs_skipBucketVerification s,
       br_retry = retryOf (bs_retry s)\<rparr>)"

definition createBackupRequest :: "cassandraCluster \<Rightarrow> cassandraBackup \<Rightarrow> go_error + backupRequest" where
  "createBackupRequest cc cb = bindE (deref0 (spec_dcs (cc_spec cc))) (\<lambda>d. Inr (backupRequestFor cc d cb))"

text \<open>The request that a record of Icarus answers, and whether another differs in a field other than the tag.\<close>

definition requestOf :: "icarusBackup \<Rightarrow> backupRequest" where
  "requestOf b =
     \<lparr>br_type = ''backup'', br_storageLocation = ib_storageLocation b, br_dataDirs = ib_dataDirs b, br_globalRequest = True,
      br_snapshotTag = ib_snapshotTag b, br_k8sNamespace = ib_k8sNamespace b, br_k8sSecretName = ib_k8sSecretName b,
      br_duration = ib_duration b, br_bandwidth = ib_bandwidth b, br_concurrentConnections = ib_concurrentConnections b,
      br_dc = ib_dc b, br_entities = ib_entities b, br_timeout = ib_timeout b, br_metadataDirective = ib_metadataDirective b,
      br_insecure = ib_insecure b, br_createMissingBucket = ib_createMissingBucket b, br_skipRefreshing = ib_skipRefreshing b,
      br_skipBucketVerification = ib_skipBucketVerification b, br_retry = ib_retry b\<rparr>"

definition backupConfigChanged :: "icarusBackup \<Rightarrow> backupRequest \<Rightarrow> bool" where
  "backupConfigChanged existing r \<longleftrightarrow> (requestOf existing)\<lparr>br_snapshotTag := ''''\<rparr> \<noteq> r\<lparr>br_snapshotTag := ''''\<rparr>"

section \<open>The record of Icarus\<close>

text \<open>\<open>strings.Contains\<close>\<close>

definition containsString :: "string \<Rightarrow> string \<Rightarrow> bool" where
  "containsString s sub \<longleftrightarrow> list_ex (\<lambda>n. hasPrefix (drop n s) sub) [0..<Suc (length s)]"

definition relatedTo :: "string \<Rightarrow> icarusBackup \<Rightarrow> bool" where
  "relatedTo tagName b \<longleftrightarrow>
     \<not> (\<not> containsString (ib_snapshotTag b) (tagName @ ''-'' @ ib_schemaVersion b) \<and> tagName \<noteq> ib_snapshotTag b) \<and>
     ib_globalRequest b"

text \<open>The loop that keeps the most recent record; one without a creation time is the zero value.\<close>

fun mostRecent :: "icarusBackup list \<Rightarrow> icarusBackup \<Rightarrow> icarusBackup" where
  "mostRecent [] existing = existing"
| "mostRecent (b # bs) existing =
     mostRecent bs
       (case ParseRFC3339 (ib_creationTime b) of
          None \<Rightarrow> existing
        | Some candidate \<Rightarrow>
            if length (ib_creationTime existing) = 0 then b
            else (case ParseRFC3339 (ib_creationTime existing) of
                None \<Rightarrow> existing
              | Some t \<Rightarrow> if t < candidate then b else existing))"

definition findRelatedBackup :: "cassandraBackup \<Rightarrow> icarusBackup list \<Rightarrow> icarusBackup option" where
  "findRelatedBackup cb backups =
     (case filter (relatedTo (tagOf cb)) backups of
        [] \<Rightarrow> None
      | [b] \<Rightarrow> Some b
      | bs \<Rightarrow> Some (mostRecent bs noIcarusBackup))"

section \<open>The status\<close>

text \<open>\<open>int(progress * 100)\<close>: the product is rounded to a float and its fraction dropped.\<close>

definition timesHundred :: "float64 \<Rightarrow> float64" where
  "timesHundred x =
     (case x of
        F64 neg q k \<Rightarrow> if k \<ge> 0 then round64 neg (100 * q * 2 ^ nat k) 1 else round64 neg (100 * q) (2 ^ nat (- k))
      | _ \<Rightarrow> x)"

definition truncated :: "(float64 \<Rightarrow> int) \<Rightarrow> float64 \<Rightarrow> int" where
  "truncated wide x =
     (case x of
        F64 neg q k \<Rightarrow>
          (let n = int (if k \<ge> 0 then q * 2 ^ nat k else q div 2 ^ nat (- k)); i = (if neg then - n else n) in
           if - (2 ^ 63) \<le> i \<and> i < 2 ^ 63 then i else wide x)
      | _ \<Rightarrow> wide x)"

definition statusFrom :: "(float64 \<Rightarrow> int) \<Rightarrow> string \<Rightarrow> (string \<times> string) list \<Rightarrow> float64 \<Rightarrow> operationStatus \<Rightarrow> operationStatus" where
  "statusFrom wide state errors progress st =
     (let st1 = st\<lparr>os_progress := truncated wide (timesHundred progress)\<rparr> in
      if os_state st \<noteq> state
      then (let st2 = st1\<lparr>os_state := state\<rparr> in if state = StateFailed then st2\<lparr>os_errors := errors\<rparr> else st2)
      else st1)"

lemma statusFrom_state [simp]: "os_state (statusFrom wide s es p st) = s"
  by (simp add: statusFrom_def Let_def)

lemma statusFrom_news: "os_state st \<noteq> s \<Longrightarrow> st \<noteq> statusFrom wide s es p st"
  by (metis statusFrom_state)

definition setBackup :: "'w opEnv \<Rightarrow> cassandraBackup \<Rightarrow> ('w, unit) opRun" where
  "setBackup E cb = call (SetBackupStatus cb) (oe_updateBackup E cb)"

definition reconcileBackupStatus :: "'w opEnv \<Rightarrow> cassandraBackup \<Rightarrow> icarusBackup \<Rightarrow> ('w, unit) opRun" where
  "reconcileBackupStatus E cb b =
     (let new = statusFrom (oe_wideInt E) (ib_state b) (ib_errors b) (ib_progress b) (cb_status cb) in
      if cb_status cb \<noteq> new then setBackup E (cb\<lparr>cb_status := new\<rparr>) else ret ())"

section \<open>The pass\<close>

definition reconcileFailedBackup ::
  "'w opEnv \<Rightarrow> string \<Rightarrow> icarusBackup \<Rightarrow> cassandraCluster \<Rightarrow> cassandraBackup \<Rightarrow> ('w, unit) opRun" where
  "reconcileFailedBackup E addr existing cc cb =
     andThen (liftO (createBackupRequest cc cb)) (\<lambda>r.
       if backupConfigChanged existing r
       then andThen (IcarusBackup (oe_icarus E) addr r) (\<lambda>b. reconcileBackupStatus E (cb\<lparr>cb_status := noStatus\<rparr>) b)
       else ret ())"

definition reconcileBackup ::
  "'w opEnv \<Rightarrow> operatorConfig \<Rightarrow> string \<Rightarrow> cassandraBackup \<Rightarrow> cassandraCluster \<Rightarrow> ('w, ctrlResult) opRun" where
  "reconcileBackup E cfg addr cb cc =
     andThen (IcarusBackups (oe_icarus E) addr) (\<lambda>existing.
       let found = findRelatedBackup cb existing in
       if os_state (cb_status cb) = StateFailed
       then (case found of
           None \<Rightarrow> ret noRequeue
         | Some b \<Rightarrow> andThen (reconcileFailedBackup E addr b cc cb) (\<lambda>_. ret noRequeue))
       else
         andThen
           (case found of
              Some b \<Rightarrow>
                if length (os_state (cb_status cb)) = 0
                then andThen (liftO (createBackupRequest cc cb)) (IcarusBackup (oe_icarus E) addr) else ret b
            | None \<Rightarrow> andThen (liftO (createBackupRequest cc cb)) (IcarusBackup (oe_icarus E) addr)) (\<lambda>b.
         andThen (reconcileBackupStatus E cb b) (\<lambda>_. ret (requeueAfter (cfg_retryDelay cfg)))))"

text \<open>What the two controllers share: reading an object, and the answer to a conflict.\<close>

definition orGone :: "(go_error + 'a) \<Rightarrow> ('w, 'b) opRun \<Rightarrow> ('a \<Rightarrow> ('w, 'b) opRun) \<Rightarrow> ('w, 'b) opRun" where
  "orGone r gone f = (case r of Inl e \<Rightarrow> if isNotFound e then gone else raise e | Inr x \<Rightarrow> f x)"

definition retryConflict :: "('w, ctrlResult) opRun \<Rightarrow> ('w, ctrlResult) opRun" where
  "retryConflict m =
     andThen (attempt m) (\<lambda>r. case r of
         Inr res \<Rightarrow> ret res
       | Inl e \<Rightarrow> if cause e = Conflict then ret \<lparr>cr_requeue = True, cr_requeueAfter = 0\<rparr> else raise e)"

definition warnAndRetry :: "operatorConfig \<Rightarrow> opTarget \<Rightarrow> string \<Rightarrow> string \<Rightarrow> ('w, ctrlResult) opRun" where
  "warnAndRetry cfg t reason msg = andThen (warnOn t reason msg) (\<lambda>_. ret (requeueAfter (cfg_retryDelay cfg)))"

definition coordinatorPodURL :: "cassandraCluster \<Rightarrow> dc \<Rightarrow> string" where
  "coordinatorPodURL cc d =
     (let svc = DC (cc_name cc) (dc_name d) in
      ''http://'' @ svc @ ''-0.'' @ svc @ ''.'' @ cc_namespace cc @ ''.svc.cluster.local:'' @ itoa IcarusPort)"

text \<open>The text of the errors of \<open>ValidateStorageSecret\<close>.\<close>

definition errText :: "go_error \<Rightarrow> string" where
  "errText e = (case e of Err s \<Rightarrow> s | _ \<Rightarrow> '''')"

definition backupWithSecret ::
  "'w opEnv \<Rightarrow> operatorConfig \<Rightarrow> cassandraBackup \<Rightarrow> cassandraCluster \<Rightarrow> secret \<Rightarrow> ('w, ctrlResult) opRun" where
  "backupWithSecret E cfg cb cc sec =
     (case ValidateStorageSecret sec (BackupStorageProvider cb) of
        Inl e \<Rightarrow> warnAndRetry cfg (OnBackup (cb_namespace cb, cb_name cb)) EventStorageCredentialsSecretNotFound
          (''Storage credentials secret '' @ quoted (bs_secretName (cb_spec cb)) @ '' is invalid: '' @ errText e)
      | Inr _ \<Rightarrow>
          andThen (liftO (deref0 (spec_dcs (cc_spec cc)))) (\<lambda>d.
            retryConflict (reconcileBackup E cfg (coordinatorPodURL cc d) cb cc)))"

definition backupWithCluster ::
  "'w opEnv \<Rightarrow> operatorConfig \<Rightarrow> cassandraBackup \<Rightarrow> cassandraCluster \<Rightarrow> ('w, ctrlResult) opRun" where
  "backupWithCluster E cfg cb cc =
     (if \<not> st_ready (cc_status cc) then ret (requeueAfter (cfg_retryDelay cfg))
      else (let s = cb_spec cb; k = (cb_namespace cb, bs_secretName s) in
        andThen (attempt (call (FetchSecret k) (oe_getSecret E k))) (\<lambda>r. orGone r
          (warnAndRetry cfg (OnBackup (cb_namespace cb, cb_name cb)) EventStorageCredentialsSecretNotFound
            (''Failed to create backup for cluster '' @ quoted (bs_cassandraCluster s) @ ''. Storage credentials secret '' @
             quoted (bs_secretName s) @ '' not found.''))
          (backupWithSecret E cfg cb cc))))"

definition backupOf :: "'w opEnv \<Rightarrow> operatorConfig \<Rightarrow> cassandraBackup \<Rightarrow> ('w, ctrlResult) opRun" where
  "backupOf E cfg cb =
     (if os_state (cb_status cb) = StateCompleted then ret noRequeue
      else (let s = cb_spec cb; k = (cb_namespace cb, bs_cassandraCluster s) in
        andThen (attempt (call (FetchCluster k) (oe_getCluster E k))) (\<lambda>r. orGone r
          (warnAndRetry cfg (OnBackup (cb_namespace cb, cb_name cb)) EventCassandraClusterNotFound
            (''Failed to create backup for cluster '' @ quoted (bs_cassandraCluster s) @ ''. Cluster not found.''))
          (backupWithCluster E cfg cb))))"

definition ReconcileBackup :: "'w opEnv \<Rightarrow> operatorConfig \<Rightarrow> key \<Rightarrow> ('w, ctrlResult) opRun" where
  "ReconcileBackup E cfg k =
     andThen (attempt (call (FetchBackup k) (oe_getBackup E k))) (\<lambda>r. orGone r (ret noRequeue) (backupOf E cfg))"

section \<open>When a request is sent\<close>

text \<open>The requests that start an operation at Icarus.\<close>

definition startsOperation :: "opReq \<Rightarrow> bool" where
  "startsOperation q \<longleftrightarrow> (case q of ToIcarus r \<Rightarrow> iq_method r = PostVerb | _ \<Rightarrow> False)"

lemma startsOperation_simps [simp]:
  "startsOperation (backupPost a r)" "startsOperation (restorePost a q)"
  "\<not> startsOperation (backupsGet a)" "\<not> startsOperation (restoresGet a)"
  "\<not> startsOperation (FetchBackup k)" "\<not> startsOperation (FetchRestore k)" "\<not> startsOperation (FetchCluster k)"
  "\<not> startsOperation (FetchSecret k)" "\<not> startsOperation (SetBackupStatus cb)" "\<not> startsOperation (SetRestoreStatus cr)"
  "\<not> startsOperation (Warn t s m)"
  by (simp_all add: startsOperation_def icarus_requests)

lemma listing_Inr:
  "result (IcarusBackups H a) w = Inr bs \<Longrightarrow> trace (IcarusBackups H a) w = [backupsGet a]"
  "result (IcarusRestores H a) w = Inr rs \<Longrightarrow> trace (IcarusRestores H a) w = [restoresGet a]"
  by (auto simp: client_traces split: sum.split)
    (simp_all add: IcarusBackups_def IcarusRestores_def sendIcarus_def)

lemma status_starts_nothing [simp]: "filter startsOperation (trace (reconcileBackupStatus E cb b) w) = []"
  by (simp add: reconcileBackupStatus_def setBackup_def Let_def)

lemma createBackupRequest_Inr:
  "createBackupRequest cc cb = Inr r \<longleftrightarrow> (\<exists>d ds. spec_dcs (cc_spec cc) = d # ds \<and> r = backupRequestFor cc d cb)"
  by (auto simp: createBackupRequest_def deref0_def split: list.splits)

text \<open>The rule: a new backup is requested, one that Icarus does not know, and a failed one whose request has changed.\<close>

definition wantsBackup :: "string \<Rightarrow> icarusBackup option \<Rightarrow> backupRequest \<Rightarrow> bool" where
  "wantsBackup state found r \<longleftrightarrow>
     (if state = StateFailed then (case found of None \<Rightarrow> False | Some b \<Rightarrow> backupConfigChanged b r)
      else found = None \<or> state = '''')"

text \<open>C34: One pass of a backup starts at most one operation at Icarus, with the request of the specification, and it
  starts one exactly when the backup is new, when Icarus has no record of it (unless it has failed), or when it has
  failed and its request differs from the one that failed.\<close>

theorem backup_sent_iff:
  assumes "result (IcarusBackups (oe_icarus E) addr) w = Inr bs"
    and "spec_dcs (cc_spec cc) = d # ds"
    and "ih_newRequest (oe_icarus E) PostVerb (addr @ ''/operations'') = Inr ()"
  shows "filter startsOperation (trace (reconcileBackup E cfg addr cb cc) w) =
    (if wantsBackup (os_state (cb_status cb)) (findRelatedBackup cb bs) (backupRequestFor cc d cb)
     then [backupPost addr (backupRequestFor cc d cb)] else [])"
proof -
  have r: "createBackupRequest cc cb = Inr (backupRequestFor cc d cb)" by (simp add: createBackupRequest_def deref0_def assms(2))
  have post: "trace (IcarusBackup (oe_icarus E) addr (backupRequestFor cc d cb)) v = [backupPost addr (backupRequestFor cc d cb)]" for v
    by (simp add: client_traces assms(3))
  have failed: "StateFailed \<noteq> ''''" by (simp add: StateFailed_def)
  show ?thesis
    by (auto simp: reconcileBackup_def reconcileFailedBackup_def assms(1) listing_Inr(1) [OF assms(1)] Let_def r post failed
        wantsBackup_def split: option.splits sum.splits)
qed

section \<open>Which record is taken\<close>

lemma containsString_middle: "containsString (p @ s @ q) s"
  unfolding containsString_def list_ex_iff
  by (rule bexI [of _ "length p"]) (simp_all add: hasPrefix_def)

text \<open>C39: The record of another backup is taken for the own one when the other's tag ends with the own tag: with a later
  record of \<open>old-daily\<close> at Icarus, the resource \<open>daily\<close> takes over its state and progress, so that a running
  backup is reported as completed or failed.\<close>

theorem foreign_record_taken:
  assumes "result (IcarusBackups (oe_icarus E) addr) w = Inr [own, other]"
    and "ib_globalRequest own" "ib_globalRequest other"
    and "ib_snapshotTag own = tagOf cb @ ''-'' @ ib_schemaVersion own"
    and "ib_snapshotTag other = pre @ tagOf cb @ ''-'' @ ib_schemaVersion other"
    and "ParseRFC3339 (ib_creationTime own) = Some t" "ParseRFC3339 (ib_creationTime other) = Some t'" "t < t'"
    and "os_state (cb_status cb) = StateRunning" "ib_state other \<noteq> StateRunning"
  shows "\<exists>new. trace (reconcileBackup E cfg addr cb cc) w = [backupsGet addr, SetBackupStatus (cb\<lparr>cb_status := new\<rparr>)] \<and>
    os_state new = ib_state other"
proof -
  have "relatedTo (tagOf cb) own" "relatedTo (tagOf cb) other"
    using assms(2-5) containsString_middle [of "[]" "tagOf cb @ ''-'' @ ib_schemaVersion own" "[]"]
      containsString_middle [of pre "tagOf cb @ ''-'' @ ib_schemaVersion other" "[]"] by (simp_all add: relatedTo_def)
  moreover have "length (ib_creationTime own) \<noteq> 0" using assms(6) by (auto simp: ParseRFC3339_def zoneOffset_def Let_def)
  ultimately have found: "findRelatedBackup cb [own, other] = Some other"
    using assms(6-8) by (simp add: findRelatedBackup_def noIcarusBackup_def)
  let ?new = "statusFrom (oe_wideInt E) (ib_state other) (ib_errors other) (ib_progress other) (cb_status cb)"
  have "cb_status cb \<noteq> ?new" using assms(9,10) by (simp add: statusFrom_news)
  then have "trace (reconcileBackup E cfg addr cb cc) w = [backupsGet addr, SetBackupStatus (cb\<lparr>cb_status := ?new\<rparr>)]"
    using assms(9) found by (simp add: reconcileBackup_def assms(1) listing_Inr(1) [OF assms(1)] Let_def
        reconcileBackupStatus_def setBackup_def state_names split: sum.split)
  then show ?thesis by (intro exI [of _ ?new]) simp
qed

section \<open>Before an operation is started\<close>

lemma retryConflict_trace [simp]: "trace (retryConflict m) w = trace m w"
  by (auto simp: retryConflict_def split: sum.split if_split)

lemma warnAndRetry_trace [simp]: "trace (warnAndRetry cfg t r m) w = [Warn t r m]"
  by (simp add: warnAndRetry_def)

lemma warning_starts_nothing: "startsOperation q \<Longrightarrow> q \<notin> set (trace (warnAndRetry cfg t r m) w)"
  by auto

text \<open>An operation that is started after a read has been started after its success.\<close>

lemma started_after_read:
  assumes "q \<in> set (trace (andThen (attempt m) (\<lambda>r. orGone r gone f)) w)" "startsOperation q"
    and "q \<notin> set (trace m w)" "\<And>v. q \<notin> set (trace gone v)"
  shows "\<exists>x. result m w = Inr x \<and> q \<in> set (trace (f x) (world m w))"
  using assms by (cases "result m w") (auto simp: orGone_def split: if_splits)

lemma started_after_call:
  assumes "q \<in> set (trace (andThen (attempt (call c h)) (\<lambda>r. orGone r gone f)) w)" "startsOperation q"
    and "\<not> startsOperation c" "\<And>v. q \<notin> set (trace gone v)"
  shows "\<exists>x. fst (h w) = Inr x \<and> q \<in> set (trace (f x) (snd (h w)))"
proof -
  have "q \<notin> set (trace (call c h) w)" using assms(2,3) by auto
  from started_after_read [OF assms(1,2) this assms(4)] show ?thesis by simp
qed

lemma backupWithSecret_started:
  "q \<in> set (trace (backupWithSecret E cfg cb cc sec) w) \<Longrightarrow> startsOperation q \<Longrightarrow>
     ValidateStorageSecret sec (BackupStorageProvider cb) = Inr ()"
  by (auto simp: backupWithSecret_def split: sum.splits)

lemma backupWithCluster_started:
  assumes "q \<in> set (trace (backupWithCluster E cfg cb cc) w)" "startsOperation q"
  shows "st_ready (cc_status cc) \<and> (\<exists>sec. fst (oe_getSecret E (cb_namespace cb, bs_secretName (cb_spec cb)) w) = Inr sec \<and>
    ValidateStorageSecret sec (BackupStorageProvider cb) = Inr ())"
proof -
  have ready: "st_ready (cc_status cc)" using assms(1) by (simp add: backupWithCluster_def split: if_splits)
  from started_after_call [OF assms(1) [unfolded backupWithCluster_def Let_def if_not_P [OF not_not [THEN iffD2, OF ready]]]
      assms(2)] ready show ?thesis
    using backupWithSecret_started warning_starts_nothing assms(2) by fastforce
qed

lemma backup_started:
  assumes "q \<in> set (trace (ReconcileBackup E cfg k) w)" "startsOperation q"
  shows "\<exists>cb cc sec v v'. fst (oe_getBackup E k w) = Inr cb \<and> os_state (cb_status cb) \<noteq> StateCompleted \<and>
    fst (oe_getCluster E (cb_namespace cb, bs_cassandraCluster (cb_spec cb)) v) = Inr cc \<and> st_ready (cc_status cc) \<and>
    fst (oe_getSecret E (cb_namespace cb, bs_secretName (cb_spec cb)) v') = Inr sec \<and>
    ValidateStorageSecret sec (BackupStorageProvider cb) = Inr ()"
proof -
  from started_after_call [OF assms(1) [unfolded ReconcileBackup_def] assms(2)] obtain cb v where cb:
    "fst (oe_getBackup E k w) = Inr cb" "q \<in> set (trace (backupOf E cfg cb) v)" by auto
  then have running: "os_state (cb_status cb) \<noteq> StateCompleted" by (auto simp: backupOf_def)
  from started_after_call [OF cb(2) [unfolded backupOf_def Let_def if_not_P [OF running]] assms(2)] obtain cc v' where
    "fst (oe_getCluster E (cb_namespace cb, bs_cassandraCluster (cb_spec cb)) v) = Inr cc"
    "q \<in> set (trace (backupWithCluster E cfg cb cc) v')"
    using warning_starts_nothing [OF assms(2)] by fastforce
  with backupWithCluster_started [OF this(2) assms(2)] cb(1) running show ?thesis by blast
qed

end
