(* ===== verification/Restores.thy ===== *)
theory Restores
  imports Backups
begin

text \<open>
  The reconciler of restores (\<open>controllers/cassandrarestore\<close>). A restore names a backup, or gives a location, a tag and
  the credentials itself; where it names none, the backup of the code is the zero value.
  The lemmas say when a restore is requested, when either controller starts an operation at all, and where the code
  does not do what its documentation says.
\<close>

section \<open>The request\<close>

definition restoreLocation :: "cassandraBackup \<Rightarrow> cassandraRestore \<Rightarrow> string" where
  "restoreLocation cb cr =
     orDefault (rsp_storageLocation (crs_spec cr)) (bs_storageLocation (cb_spec cb))"

definition restoreTag :: "cassandraBackup \<Rightarrow> cassandraRestore \<Rightarrow> string" where
  "restoreTag cb cr = orDefault (rsp_snapshotTag (crs_spec cr)) (cb_name cb)"

definition restoreSecret :: "cassandraBackup \<Rightarrow> cassandraRestore \<Rightarrow> string" where
  "restoreSecret cb cr = orDefault (rsp_secretName (crs_spec cr)) (bs_secretName (cb_spec cb))"

definition importOf :: "restoreImport \<Rightarrow> importOptions" where
  "importOf i =
     \<lparr>ri_keepLevel = ri_keepLevel i, ri_noVerify = ri_noVerify i, ri_noVerifyTokens = ri_noVerifyTokens i,
      ri_noInvalidateCaches = ri_noInvalidateCaches i, ri_quick = ri_quick i, ri_extendedVerify = ri_extendedVerify i,
      ri_keepRepaired = ri_keepRepaired i, io_type = ''import'', io_sourceDir = ''file:///var/lib/cassandra/downloadedsstables''\<rparr>"

definition restoreRequestFor :: "cassandraCluster \<Rightarrow> dc \<Rightarrow> cassandraBackup \<Rightarrow> cassandraRestore \<Rightarrow> restoreRequest" where
  "restoreRequestFor cc d cb cr =
     (let s = crs_spec cr in
      \<lparr>rq_type = ''restore'',
       rq_storageLocation = locationOf (restoreLocation cb cr) cc d,
       rq_snapshotTag = restoreTag cb cr,
       rq_dataDirs = [''/var/lib/cassandra/data''],
       rq_globalRequest = True,
       rq_restorationStrategyType = ''HARDLINKS'',
       rq_restorationPhase = ''INIT'',
       rq_import = importOf (rsp_import s),
       rq_k8sNamespace = crs_namespace cr,
       rq_k8sSecretName = restoreSecret cb cr,
       rq_concurrentConnections = orDefaultInt (rsp_concurrentConnections s) 10,
       rq_entities = rsp_entities s,
       rq_noDeleteTruncates = rsp_noDeleteTruncates s,
       rq_noDeleteDownloads = rsp_noDeleteDownloads s,
       rq_noDownloadData = rsp_noDownloadData s,
       rq_timeout = orDefaultInt (rsp_timeout s) 5,
       rq_resolveHostIdFromTopology = rsp_resolveHostIdFromTopology s,
       rq_insecure = rsp_insecure s,
       rq_skipBucketVerification = rsp_skipBucketVerification s,
       rq_retry = retryOf (rsp_retry s),
       rq_rename = (case rsp_rename s of None \<Rightarrow> Some Map.empty | Some m \<Rightarrow> Some m),
       rq_singlePhase = False,
       rq_dc = rsp_dc s,
       rq_schemaVersion = rsp_schemaVersion s,
       rq_exactSchemaVersion = rsp_exactSchemaVersion s\<rparr>)"

definition createRestoreReq ::
  "cassandraCluster \<Rightarrow> cassandraBackup \<Rightarrow> cassandraRestore \<Rightarrow> go_error + restoreRequest" where
  "createRestoreReq cc cb cr = bindE (deref0 (spec_dcs (cc_spec cc))) (\<lambda>d. Inr (restoreRequestFor cc d cb cr))"

text \<open>The request that a record of Icarus answers; the schema version and its flag are left at their zero values.\<close>

definition restoreRequestOf :: "icarusRestore \<Rightarrow> restoreRequest" where
  "restoreRequestOf r =
     \<lparr>rq_type = ''restore'', rq_storageLocation = ir_storageLocation r, rq_snapshotTag = ir_snapshotTag r,
      rq_dataDirs = ir_dataDirs r, rq_globalRequest = True, rq_restorationStrategyType = ir_restorationStrategyType r,
      rq_restorationPhase = ir_restorationPhase r, rq_import = ir_import r, rq_k8sNamespace = ir_k8sNamespace r,
      rq_k8sSecretName = ir_k8sSecretName r, rq_concurrentConnections = ir_concurrentConnections r,
      rq_entities = ir_entities r, rq_noDeleteTruncates = ir_noDeleteTruncates r,
      rq_noDeleteDownloads = ir_noDeleteDownloads r, rq_noDownloadData = ir_noDownloadData r, rq_timeout = ir_timeout r,
      rq_resolveHostIdFromTopology = ir_resolveHostIdFromTopology r, rq_insecure = ir_insecure r,
      rq_skipBucketVerification = ir_skipBucketVerification r, rq_retry = ir_retry r, rq_rename = ir_rename r,
      rq_singlePhase = ir_singlePhase r, rq_dc = ir_dc r, rq_schemaVersion = '''', rq_exactSchemaVersion = False\<rparr>"

definition restoreConfigChanged :: "icarusRestore \<Rightarrow> restoreRequest \<Rightarrow> bool" where
  "restoreConfigChanged existing r \<longleftrightarrow>
     (restoreRequestOf existing)\<lparr>rq_snapshotTag := ''''\<rparr> \<noteq> r\<lparr>rq_snapshotTag := ''''\<rparr>"

section \<open>The pass\<close>

fun findRelatedIcarusRestore :: "icarusRestore list \<Rightarrow> string \<Rightarrow> icarusRestore option" where
  "findRelatedIcarusRestore [] tag = None"
| "findRelatedIcarusRestore (r # rs) tag =
     (if \<not> ir_globalRequest r then findRelatedIcarusRestore rs tag
      else if ir_snapshotTag r \<noteq> tag then findRelatedIcarusRestore rs tag
      else Some r)"

definition setRestore :: "'w opEnv \<Rightarrow> cassandraRestore \<Rightarrow> ('w, unit) opRun" where
  "setRestore E cr = call (SetRestoreStatus cr) (oe_updateRestore E cr)"

definition reconcileRestoreStatus :: "'w opEnv \<Rightarrow> cassandraRestore \<Rightarrow> icarusRestore \<Rightarrow> ('w, unit) opRun" where
  "reconcileRestoreStatus E cr r =
     (let new = statusFrom (oe_wideInt E) (ir_state r) (ir_errors r) (ir_progress r) (crs_status cr) in
      if crs_status cr \<noteq> new then setRestore E (cr\<lparr>crs_status := new\<rparr>) else ret ())"

definition reconcileFailedRestore ::
  "'w opEnv \<Rightarrow> string \<Rightarrow> cassandraRestore \<Rightarrow> cassandraBackup \<Rightarrow> cassandraCluster \<Rightarrow> icarusRestore \<Rightarrow> ('w, unit) opRun" where
  "reconcileFailedRestore E addr cr cb cc existing =
     andThen (liftO (createRestoreReq cc cb cr)) (\<lambda>r.
       if restoreConfigChanged existing r
       then andThen (IcarusRestore (oe_icarus E) addr r) (\<lambda>_. setRestore E (cr\<lparr>crs_status := noStatus\<rparr>))
       else ret ())"

text \<open>The pointer to the backup is never nil.\<close>

definition reconcileRestore ::
  "'w opEnv \<Rightarrow> operatorConfig \<Rightarrow> string \<Rightarrow> cassandraRestore \<Rightarrow> cassandraBackup \<Rightarrow> cassandraCluster \<Rightarrow> ('w, ctrlResult) opRun" where
  "reconcileRestore E cfg addr cr cb cc =
     andThen (IcarusRestores (oe_icarus E) addr) (\<lambda>existing.
       let found = findRelatedIcarusRestore existing (restoreTag cb cr) in
       if os_state (crs_status cr) = StateFailed
       then (case found of
           None \<Rightarrow> ret noRequeue
         | Some r \<Rightarrow> andThen (reconcileFailedRestore E addr cr cb cc r) (\<lambda>_. ret noRequeue))
       else (case found of
           None \<Rightarrow>
             andThen (liftO (createRestoreReq cc cb cr)) (\<lambda>r.
             andThen (IcarusRestore (oe_icarus E) addr r) (\<lambda>_. ret (requeueAfter (cfg_retryDelay cfg))))
         | Some r \<Rightarrow> andThen (reconcileRestoreStatus E cr r) (\<lambda>_. ret (requeueAfter (cfg_retryDelay cfg)))))"

text \<open>The messages about the secret speak of the backup, and the events are recorded on it; the check takes the storage
  provider from the backup, too.\<close>

definition restoreWithSecret ::
  "'w opEnv \<Rightarrow> operatorConfig \<Rightarrow> cassandraRestore \<Rightarrow> cassandraCluster \<Rightarrow> cassandraBackup \<Rightarrow> secret \<Rightarrow> ('w, ctrlResult) opRun" where
  "restoreWithSecret E cfg cr cc cb sec =
     (case ValidateStorageSecret sec (BackupStorageProvider cb) of
        Inl e \<Rightarrow> warnAndRetry cfg (OnBackup (cb_namespace cb, cb_name cb)) EventStorageCredentialsSecretNotFound
          (''Storage credentials secret '' @ quoted (bs_secretName (cb_spec cb)) @ '' is invalid: '' @ errText e)
      | Inr _ \<Rightarrow>
          andThen (liftO (deref0 (spec_dcs (cc_spec cc)))) (\<lambda>d.
            retryConflict (reconcileRestore E cfg (coordinatorPodURL cc d) cr cb cc)))"

definition restoreWithBackup ::
  "'w opEnv \<Rightarrow> operatorConfig \<Rightarrow> cassandraRestore \<Rightarrow> cassandraCluster \<Rightarrow> cassandraBackup \<Rightarrow> ('w, ctrlResult) opRun" where
  "restoreWithBackup E cfg cr cc cb =
     (let k = (crs_namespace cr, restoreSecret cb cr) in
      andThen (attempt (call (FetchSecret k) (oe_getSecret E k))) (\<lambda>r. orGone r
        (warnAndRetry cfg (OnBackup (cb_namespace cb, cb_name cb)) EventStorageCredentialsSecretNotFound
          (''Failed to create backup for cluster '' @ quoted (bs_cassandraCluster (cb_spec cb)) @
           ''. Storage credentials secret '' @ quoted (bs_secretName (cb_spec cb)) @ '' not found.''))
        (restoreWithSecret E cfg cr cc cb)))"

text \<open>The backup is fetched if the restore names one and is the zero value otherwise.\<close>

definition restoreWithCluster ::
  "'w opEnv \<Rightarrow> operatorConfig \<Rightarrow> cassandraRestore \<Rightarrow> cassandraCluster \<Rightarrow> ('w, ctrlResult) opRun" where
  "restoreWithCluster E cfg cr cc =
     (if \<not> st_ready (cc_status cc) then ret (requeueAfter (cfg_retryDelay cfg))
      else if length (rsp_cassandraBackup (crs_spec cr)) > 0
      then (let k = (crs_namespace cr, rsp_cassandraBackup (crs_spec cr)) in
        andThen (attempt (call (FetchBackup k) (oe_getBackup E k))) (\<lambda>r. orGone r
          (warnAndRetry cfg (OnRestore (crs_namespace cr, crs_name cr)) EventCassandraBackupNotFound
            (''Restore failed. CassandraBackup '' @ rsp_cassandraBackup (crs_spec cr) @ '' not found''))
          (restoreWithBackup E cfg cr cc)))
      else restoreWithBackup E cfg cr cc noBackup)"

definition restoreOf :: "'w opEnv \<Rightarrow> operatorConfig \<Rightarrow> cassandraRestore \<Rightarrow> ('w, ctrlResult) opRun" where
  "restoreOf E cfg cr =
     (if os_state (crs_status cr) = StateCompleted then ret noRequeue
      else (let s = crs_spec cr; k = (crs_namespace cr, rsp_cassandraCluster s) in
        andThen (attempt (call (FetchCluster k) (oe_getCluster E k))) (\<lambda>r. orGone r
          (warnAndRetry cfg (OnRestore (crs_namespace cr, crs_name cr)) EventCassandraClusterNotFound
            (''Restore failed. CassandraCluster '' @ rsp_cassandraCluster s @ '' not found''))
          (restoreWithCluster E cfg cr))))"

definition ReconcileRestore :: "'w opEnv \<Rightarrow> operatorConfig \<Rightarrow> key \<Rightarrow> ('w, ctrlResult) opRun" where
  "ReconcileRestore E cfg k =
     andThen (attempt (call (FetchRestore k) (oe_getRestore E k))) (\<lambda>r. orGone r (ret noRequeue) (restoreOf E cfg))"

section \<open>When a restore is requested\<close>

lemma findRelatedIcarusRestore_Some:
  "findRelatedIcarusRestore rs tag = Some r \<Longrightarrow> r \<in> set rs \<and> ir_globalRequest r \<and> ir_snapshotTag r = tag"
  by (induction rs) (auto split: if_splits)

lemma createRestoreReq_dc: "spec_dcs (cc_spec cc) = d # ds \<Longrightarrow> createRestoreReq cc cb cr = Inr (restoreRequestFor cc d cb cr)"
  by (simp add: createRestoreReq_def deref0_def)

lemma restoreStatus_starts_nothing [simp]: "filter startsOperation (trace (reconcileRestoreStatus E cr r) w) = []"
  by (simp add: reconcileRestoreStatus_def setRestore_def Let_def)

lemma restoreStatus_new_state:
  "os_state (crs_status cr) \<noteq> ir_state r \<Longrightarrow>
   \<exists>new. trace (reconcileRestoreStatus E cr r) w = [SetRestoreStatus (cr\<lparr>crs_status := new\<rparr>)] \<and> os_state new = ir_state r"
  by (intro exI [of _ "statusFrom (oe_wideInt E) (ir_state r) (ir_errors r) (ir_progress r) (crs_status cr)"])
    (simp add: reconcileRestoreStatus_def setRestore_def statusFrom_news Let_def)

lemma restored_Inr: "result (IcarusRestore H a q) w = Inr () \<Longrightarrow> trace (IcarusRestore H a q) w = [restorePost a q]"
proof -
  assume "result (IcarusRestore H a q) w = Inr ()"
  then have "\<not> isl (ih_newRequest H PostVerb (a @ ''/operations''))" by (auto simp: IcarusRestore_def sendIcarus_def isl_def)
  then show ?thesis by (auto simp: client_traces isl_def split: sum.split)
qed

text \<open>A record never answers a request that names a schema version.\<close>

lemma restoreConfigChanged_schemaVersion:
  "rq_schemaVersion q \<noteq> '''' \<or> rq_exactSchemaVersion q \<Longrightarrow> restoreConfigChanged r q"
  by (auto simp: restoreConfigChanged_def restoreRequestOf_def dest: arg_cong [where f = rq_schemaVersion] arg_cong [where f = rq_exactSchemaVersion])

text \<open>C38: A failed restore that names a schema version, or asks for the exact one, is started over in every pass, whether
  or not its specification has changed since: the comparison with the record of Icarus leaves these two fields out.
  The pass sends the request again and empties the status, and the next pass, which finds the same failed record,
  reports the failure anew.\<close>

theorem schema_version_restarts_restore:
  assumes "rsp_schemaVersion (crs_spec cr) \<noteq> '''' \<or> rsp_exactSchemaVersion (crs_spec cr)"
    and "os_state (crs_status cr) = StateFailed" "spec_dcs (cc_spec cc) = d # ds"
    and "result (IcarusRestores (oe_icarus E) addr) w = Inr rs"
    and "findRelatedIcarusRestore rs (restoreTag cb cr) = Some r" "ir_state r = StateFailed"
    and "\<And>v. result (IcarusRestore (oe_icarus E) addr (restoreRequestFor cc d cb cr)) v = Inr ()"
    and "result (IcarusRestores (oe_icarus E) addr) w' = Inr rs"
  shows "trace (reconcileRestore E cfg addr cr cb cc) w =
      [restoresGet addr, restorePost addr (restoreRequestFor cc d cb cr), SetRestoreStatus (cr\<lparr>crs_status := noStatus\<rparr>)] \<and>
    (\<exists>new. trace (reconcileRestore E cfg addr (cr\<lparr>crs_status := noStatus\<rparr>) cb cc) w' =
        [restoresGet addr, SetRestoreStatus (cr\<lparr>crs_status := new\<rparr>)] \<and> os_state new = StateFailed)"
proof
  note again = assms(8)
  have changed: "restoreConfigChanged r (restoreRequestFor cc d cb cr)"
    using assms(1) by (intro restoreConfigChanged_schemaVersion) (simp add: restoreRequestFor_def Let_def)
  have post: "trace (IcarusRestore (oe_icarus E) addr (restoreRequestFor cc d cb cr)) v =
      [restorePost addr (restoreRequestFor cc d cb cr)]" for v
    by (rule restored_Inr [OF assms(7)])
  show "trace (reconcileRestore E cfg addr cr cb cc) w =
      [restoresGet addr, restorePost addr (restoreRequestFor cc d cb cr), SetRestoreStatus (cr\<lparr>crs_status := noStatus\<rparr>)]"
    using assms(2-5,7) changed
    by (simp add: reconcileRestore_def reconcileFailedRestore_def listing_Inr(2) [OF assms(4)] createRestoreReq_dc post setRestore_def
        Let_def split: sum.split)
  let ?cr = "cr\<lparr>crs_status := noStatus\<rparr>"
  have "os_state (crs_status ?cr) \<noteq> ir_state r" by (simp add: noStatus_def assms(6) StateFailed_def)
  from restoreStatus_new_state [OF this, of E "world (IcarusRestores (oe_icarus E) addr) w'"] obtain new where
    "trace (reconcileRestoreStatus E ?cr r) (world (IcarusRestores (oe_icarus E) addr) w') =
       [SetRestoreStatus (cr\<lparr>crs_status := new\<rparr>)]" "os_state new = StateFailed" by (auto simp: assms(6))
  then show "\<exists>new. trace (reconcileRestore E cfg addr ?cr cb cc) w' =
      [restoresGet addr, SetRestoreStatus (cr\<lparr>crs_status := new\<rparr>)] \<and> os_state new = StateFailed"
    using assms(5) by (intro exI [of _ new])
      (simp add: reconcileRestore_def again listing_Inr(2) [OF again] restoreTag_def noStatus_def StateFailed_def Let_def split: sum.split)
qed

text \<open>C37: A restore that only names a backup asks for the credentials of the backup. It reads where the backup wrote exactly
  when it goes into a cluster of the same name whose first datacentre has the same name, since the location is built from
  the cluster that is restored; and it asks for the tag that the backup was stored under exactly when that tag is the name
  of the backup. So a backup with a snapshot tag of its own cannot be restored by its name alone, nor any backup into a
  cluster with another name. Names of clusters and datacentres contain no slash, as Kubernetes requires.\<close>

theorem restore_reads_backup_iff:
  assumes "rsp_storageLocation (crs_spec cr) = ''''" "rsp_secretName (crs_spec cr) = ''''" "rsp_snapshotTag (crs_spec cr) = ''''"
    and "createBackupRequest cc cb = Inr b" "spec_dcs (cc_spec cc) = d # ds"
    and "createRestoreReq cc' cb cr = Inr q" "spec_dcs (cc_spec cc') = d' # ds'"
    and "CHR ''/'' \<notin> set (cc_name cc)" "CHR ''/'' \<notin> set (dc_name d)"
  shows "rq_k8sSecretName q = br_k8sSecretName b \<and>
    (rq_storageLocation q = br_storageLocation b \<longleftrightarrow> cc_name cc' = cc_name cc \<and> dc_name d' = dc_name d) \<and>
    (rq_snapshotTag q = br_snapshotTag b \<longleftrightarrow> bs_snapshotTag (cb_spec cb) \<in> {'''', cb_name cb})"
proof -
  have b: "b = backupRequestFor cc d cb" and q: "q = restoreRequestFor cc' d' cb cr"
    using assms(4-7) createRestoreReq_dc [OF assms(7)] by (auto simp: createBackupRequest_Inr)
  let ?at = "withSlash (bs_storageLocation (cb_spec cb))"
  have loc: "rq_storageLocation q = ?at @ (cc_name cc' @ ''/'' @ dc_name d') @ ''/1''"
    "br_storageLocation b = ?at @ (cc_name cc @ ''/'' @ dc_name d) @ ''/1''"
    unfolding b q by (simp_all add: restoreRequestFor_def backupRequestFor_def restoreLocation_def locationOf_def assms(1)
      orDefault_def Let_def)
  have "br_storageLocation b = rq_storageLocation q \<longleftrightarrow> cc_name cc = cc_name cc' \<and> dc_name d = dc_name d'"
    unfolding loc append_same_eq same_append_eq append_Cons append_Nil by (rule append_Cons_eq_iff [OF assms(8,9)])
  then have "rq_storageLocation q = br_storageLocation b \<longleftrightarrow> cc_name cc' = cc_name cc \<and> dc_name d' = dc_name d" by metis
  moreover have "rq_k8sSecretName q = br_k8sSecretName b" "rq_snapshotTag q = cb_name cb" "br_snapshotTag b = tagOf cb"
    unfolding b q by (simp_all add: restoreRequestFor_def backupRequestFor_def restoreSecret_def restoreTag_def assms(2,3)
      orDefault_def Let_def)
  ultimately show ?thesis by (auto simp: tagOf_def)
qed

section \<open>Before an operation is started\<close>

lemma restoreWithSecret_started:
  "q \<in> set (trace (restoreWithSecret E cfg cr cc cb sec) w) \<Longrightarrow> startsOperation q \<Longrightarrow>
     ValidateStorageSecret sec (BackupStorageProvider cb) = Inr ()"
  by (auto simp: restoreWithSecret_def split: sum.splits)

lemma restoreWithBackup_started:
  assumes "q \<in> set (trace (restoreWithBackup E cfg cr cc cb) w)" "startsOperation q"
  shows "\<exists>sec. fst (oe_getSecret E (crs_namespace cr, restoreSecret cb cr) w) = Inr sec \<and>
    ValidateStorageSecret sec (BackupStorageProvider cb) = Inr ()"
  using started_after_call [OF assms(1) [unfolded restoreWithBackup_def Let_def] assms(2)]
    restoreWithSecret_started warning_starts_nothing assms(2) by fastforce

lemma restoreWithCluster_started:
  assumes "q \<in> set (trace (restoreWithCluster E cfg cr cc) w)" "startsOperation q"
  shows "st_ready (cc_status cc) \<and> (\<exists>cb v. q \<in> set (trace (restoreWithBackup E cfg cr cc cb) v) \<and>
    (if rsp_cassandraBackup (crs_spec cr) = '''' then cb = noBackup
     else fst (oe_getBackup E (crs_namespace cr, rsp_cassandraBackup (crs_spec cr)) w) = Inr cb))"
proof -
  have ready: "st_ready (cc_status cc)" using assms(1) by (simp add: restoreWithCluster_def split: if_splits)
  show ?thesis
  proof (cases "rsp_cassandraBackup (crs_spec cr) = ''''")
    case True
    with ready assms(1) show ?thesis by (auto simp: restoreWithCluster_def)
  next
    case False
    with ready assms(1) have "q \<in> set (trace (let k = (crs_namespace cr, rsp_cassandraBackup (crs_spec cr)) in
        andThen (attempt (call (FetchBackup k) (oe_getBackup E k))) (\<lambda>r. orGone r
          (warnAndRetry cfg (OnRestore (crs_namespace cr, crs_name cr)) EventCassandraBackupNotFound
            (''Restore failed. CassandraBackup '' @ rsp_cassandraBackup (crs_spec cr) @ '' not found''))
          (restoreWithBackup E cfg cr cc))) w)" by (simp add: restoreWithCluster_def Let_def)
    from started_after_call [OF this [unfolded Let_def] assms(2)] ready False show ?thesis
      using warning_starts_nothing [OF assms(2)] by fastforce
  qed
qed

lemma restore_started:
  assumes "q \<in> set (trace (ReconcileRestore E cfg k) w)" "startsOperation q"
  shows "\<exists>cr cc cb sec v v' v''. fst (oe_getRestore E k w) = Inr cr \<and> os_state (crs_status cr) \<noteq> StateCompleted \<and>
    fst (oe_getCluster E (crs_namespace cr, rsp_cassandraCluster (crs_spec cr)) v) = Inr cc \<and> st_ready (cc_status cc) \<and>
    (if rsp_cassandraBackup (crs_spec cr) = '''' then cb = noBackup
     else fst (oe_getBackup E (crs_namespace cr, rsp_cassandraBackup (crs_spec cr)) v') = Inr cb) \<and>
    fst (oe_getSecret E (crs_namespace cr, restoreSecret cb cr) v'') = Inr sec \<and>
    ValidateStorageSecret sec (BackupStorageProvider cb) = Inr ()"
proof -
  from started_after_call [OF assms(1) [unfolded ReconcileRestore_def] assms(2)] obtain cr v where cr:
    "fst (oe_getRestore E k w) = Inr cr" "q \<in> set (trace (restoreOf E cfg cr) v)" by auto
  then have running: "os_state (crs_status cr) \<noteq> StateCompleted" by (auto simp: restoreOf_def)
  from started_after_call [OF cr(2) [unfolded restoreOf_def Let_def if_not_P [OF running]] assms(2)] obtain cc v' where
    "fst (oe_getCluster E (crs_namespace cr, rsp_cassandraCluster (crs_spec cr)) v) = Inr cc"
    "q \<in> set (trace (restoreWithCluster E cfg cr cc) v')"
    using warning_starts_nothing [OF assms(2)] by fastforce
  moreover from restoreWithCluster_started [OF this(2) assms(2)] obtain cb v'' where "st_ready (cc_status cc)"
    "q \<in> set (trace (restoreWithBackup E cfg cr cc cb) v'')"
    "if rsp_cassandraBackup (crs_spec cr) = '''' then cb = noBackup
     else fst (oe_getBackup E (crs_namespace cr, rsp_cassandraBackup (crs_spec cr)) v') = Inr cb" by blast
  moreover from restoreWithBackup_started [OF this(2) assms(2)] obtain sec where
    "fst (oe_getSecret E (crs_namespace cr, restoreSecret cb cr) v'') = Inr sec"
    "ValidateStorageSecret sec (BackupStorageProvider cb) = Inr ()" by blast
  ultimately show ?thesis using cr(1) running by blast
qed

text \<open>C35: Neither controller starts an operation at Icarus before it has found the resource not completed, its cluster
  present and ready, the named backup present, and the secret of the storage credentials present and in order for
  the provider of the backup.\<close>

theorem operations_only_when_ready:
  assumes "startsOperation q"
  shows "(q \<in> set (trace (ReconcileBackup E cfg k) w) \<longrightarrow>
      (\<exists>cb cc sec v v'. fst (oe_getBackup E k w) = Inr cb \<and> os_state (cb_status cb) \<noteq> StateCompleted \<and>
        fst (oe_getCluster E (cb_namespace cb, bs_cassandraCluster (cb_spec cb)) v) = Inr cc \<and> st_ready (cc_status cc) \<and>
        fst (oe_getSecret E (cb_namespace cb, bs_secretName (cb_spec cb)) v') = Inr sec \<and>
        ValidateStorageSecret sec (BackupStorageProvider cb) = Inr ())) \<and>
    (q \<in> set (trace (ReconcileRestore E cfg k) w) \<longrightarrow>
      (\<exists>cr cc cb sec v v' v''. fst (oe_getRestore E k w) = Inr cr \<and> os_state (crs_status cr) \<noteq> StateCompleted \<and>
        fst (oe_getCluster E (crs_namespace cr, rsp_cassandraCluster (crs_spec cr)) v) = Inr cc \<and> st_ready (cc_status cc) \<and>
        (if rsp_cassandraBackup (crs_spec cr) = '''' then cb = noBackup
         else fst (oe_getBackup E (crs_namespace cr, rsp_cassandraBackup (crs_spec cr)) v') = Inr cb) \<and>
        fst (oe_getSecret E (crs_namespace cr, restoreSecret cb cr) v'') = Inr sec \<and>
        ValidateStorageSecret sec (BackupStorageProvider cb) = Inr ()))"
  by (rule conjI; rule impI) (rule backup_started restore_started, assumption, rule assms)+

section \<open>Samples\<close>

text \<open>A ready cluster, the backup \<open>daily\<close> of it, and an Icarus that accepts every request and knows the given records.\<close>

definition readyCluster :: cassandraCluster where
  "readyCluster = sampleCluster\<lparr>cc_status := (cc_status sampleCluster)\<lparr>st_ready := True\<rparr>\<rparr>"

definition dailyBackup :: cassandraBackup where
  "dailyBackup = noBackup\<lparr>cb_name := ''daily'', cb_namespace := ''ns'',
     cb_spec := (cb_spec noBackup)\<lparr>bs_cassandraCluster := ''c'', bs_storageLocation := ''s3://b'', bs_secretName := ''s''\<rparr>\<rparr>"

definition noImport :: restoreImport where
  "noImport = \<lparr>ri_keepLevel = False, ri_noVerify = False, ri_noVerifyTokens = False, ri_noInvalidateCaches = False,
     ri_quick = False, ri_extendedVerify = False, ri_keepRepaired = False\<rparr>"

definition dailyRestore :: cassandraRestore where
  "dailyRestore = \<lparr>crs_name = ''r'', crs_namespace = ''ns'',
     crs_spec = \<lparr>rsp_cassandraCluster = ''c'', rsp_cassandraBackup = ''daily'', rsp_storageLocation = '''', rsp_snapshotTag = '''',
       rsp_secretName = '''', rsp_concurrentConnections = 0, rsp_dc = '''', rsp_entities = '''', rsp_noDeleteTruncates = False,
       rsp_noDeleteDownloads = False, rsp_noDownloadData = False, rsp_import = noImport, rsp_timeout = 0,
       rsp_resolveHostIdFromTopology = False, rsp_insecure = False, rsp_skipBucketVerification = False, rsp_retry = noRetry,
       rsp_rename = None, rsp_schemaVersion = ''v1'', rsp_exactSchemaVersion = False\<rparr>,
     crs_status = noStatus\<lparr>os_state := StateFailed\<rparr>\<rparr>"

definition ownRecord :: icarusBackup where
  "ownRecord = noIcarusBackup\<lparr>ib_creationTime := ''2024-01-01T00:00:00Z'', ib_state := StateRunning,
     ib_snapshotTag := ''daily-v1'', ib_schemaVersion := ''v1'', ib_globalRequest := True\<rparr>"

definition otherRecord :: icarusBackup where
  "otherRecord = ownRecord\<lparr>ib_creationTime := ''2024-01-02T00:00:00Z'', ib_state := StateCompleted,
     ib_snapshotTag := ''old-daily-v1''\<rparr>"

text \<open>The record of a failed restore that answers the given request in everything.\<close>

definition failedRecord :: "restoreRequest \<Rightarrow> icarusRestore" where
  "failedRecord q = \<lparr>ir_id = '''', ir_creationTime = '''', ir_state = StateFailed, ir_errors = [], ir_progress = F64 False 0 0,
     ir_startTime = '''', ir_type = rq_type q, ir_storageLocation = rq_storageLocation q,
     ir_concurrentConnections = rq_concurrentConnections q, ir_cassandraConfigDirectory = '''', ir_restoreSystemKeyspace = False,
     ir_snapshotTag = rq_snapshotTag q, ir_entities = rq_entities q, ir_restorationStrategyType = rq_restorationStrategyType q,
     ir_restorationPhase = rq_restorationPhase q, ir_import = rq_import q, ir_noDeleteTruncates = rq_noDeleteTruncates q,
     ir_noDeleteDownloads = rq_noDeleteDownloads q, ir_noDownloadData = rq_noDownloadData q,
     ir_exactSchemaVersion = rq_exactSchemaVersion q, ir_globalRequest = True, ir_timeout = rq_timeout q,
     ir_resolveHostIdFromTopology = rq_resolveHostIdFromTopology q, ir_insecure = rq_insecure q,
     ir_skipBucketVerification = rq_skipBucketVerification q, ir_retry = rq_retry q, ir_singlePhase = rq_singlePhase q,
     ir_dataDirs = rq_dataDirs q, ir_dc = rq_dc q, ir_k8sNamespace = rq_k8sNamespace q, ir_k8sSecretName = rq_k8sSecretName q,
     ir_rename = rq_rename q\<rparr>"

definition icarusWith :: "icarusBackup list \<Rightarrow> icarusRestore list \<Rightarrow> unit icarusHttp" where
  "icarusWith bs rs =
     \<lparr>ih_newRequest = (\<lambda>_ _. Inr ()),
      ih_do = (\<lambda>q w. (Inr \<lparr>ans_code = if iq_method q = PostVerb then 201 else 200, ans_status = '''', ans_body = Inr ''''\<rparr>, w)),
      ih_decodeBackup = (\<lambda>_. Inr ownRecord), ih_decodeBackups = (\<lambda>_. Inr bs), ih_decodeRestores = (\<lambda>_. Inr rs)\<rparr>"

definition opWorld :: "icarusBackup list \<Rightarrow> icarusRestore list \<Rightarrow> unit opEnv" where
  "opWorld bs rs =
     \<lparr>oe_getBackup = (\<lambda>_ w. (Inr dailyBackup, w)), oe_getRestore = (\<lambda>_ w. (Inr dailyRestore, w)),
      oe_getCluster = (\<lambda>_ w. (Inr readyCluster, w)), oe_getSecret = (\<lambda>_ w. (Inr sampleSecret, w)),
      oe_updateBackup = (\<lambda>_ w. (Inr (), w)), oe_updateRestore = (\<lambda>_ w. (Inr (), w)),
      oe_icarus = icarusWith bs rs, oe_wideInt = (\<lambda>_. 0)\<rparr>"

lemma opWorld_simps [simp]:
  "oe_getBackup (opWorld bs rs) k w = (Inr dailyBackup, w)" "oe_getRestore (opWorld bs rs) k w = (Inr dailyRestore, w)"
  "oe_getCluster (opWorld bs rs) k w = (Inr readyCluster, w)" "oe_getSecret (opWorld bs rs) k w = (Inr sampleSecret, w)"
  "oe_icarus (opWorld bs rs) = icarusWith bs rs"
  by (simp_all add: opWorld_def)

lemma icarusWith_simps [simp]:
  "ih_newRequest (icarusWith bs rs) m u = Inr ()"
  "result (IcarusBackups (icarusWith bs rs) a) w = Inr bs" "result (IcarusRestores (icarusWith bs rs) a) w = Inr rs"
  "result (IcarusBackup (icarusWith bs rs) a r) w = Inr ownRecord" "result (IcarusRestore (icarusWith bs rs) a q) w = Inr ()"
  by (simp_all add: IcarusBackups_def IcarusRestores_def IcarusBackup_def IcarusRestore_def sendIcarus_def icarusWith_def Let_def)

lemma readyCluster_simps [simp]:
  "st_ready (cc_status readyCluster)" "cc_name readyCluster = ''c''" "spec_dcs (cc_spec readyCluster) = spec_dcs (cc_spec sampleCluster)"
  by (simp_all add: readyCluster_def sampleCluster_def)

definition firstDC :: dc where "firstDC = hd (spec_dcs (cc_spec sampleCluster))"

lemma sampleCluster_dcs: "spec_dcs (cc_spec readyCluster) = firstDC # []"
  by (simp add: firstDC_def sampleCluster_def)

theorem backup_sent_iff_witness:
  "filter startsOperation (trace (reconcileBackup (opWorld [] []) sampleConfig ''http://i'' dailyBackup readyCluster) ()) =
     [backupPost ''http://i'' (backupRequestFor readyCluster firstDC dailyBackup)]"
proof -
  have "findRelatedBackup dailyBackup [] = None" by (simp add: findRelatedBackup_def)
  moreover have "os_state (cb_status dailyBackup) \<noteq> StateFailed"
    by (simp add: dailyBackup_def noBackup_def noStatus_def StateFailed_def)
  ultimately show ?thesis
    using backup_sent_iff [of "opWorld [] []" "''http://i''" "()" "[]" readyCluster firstDC "[]" sampleConfig dailyBackup]
    by (simp add: sampleCluster_dcs del: readyCluster_simps(3)) (simp add: wantsBackup_def)
qed

lemma records [simp]:
  "ib_globalRequest ownRecord" "ib_snapshotTag ownRecord = ''daily-v1''" "ib_schemaVersion ownRecord = ''v1''"
  "ib_state otherRecord = StateCompleted"
  "ib_globalRequest otherRecord" "ib_snapshotTag otherRecord = ''old-daily-v1''" "ib_schemaVersion otherRecord = ''v1''"
  by (simp_all add: ownRecord_def otherRecord_def)

lemma failedRecord_simps [simp]:
  "ir_globalRequest (failedRecord q)" "ir_snapshotTag (failedRecord q) = rq_snapshotTag q" "ir_state (failedRecord q) = StateFailed"
  by (simp_all add: failedRecord_def)

lemma two_days:
  "ParseRFC3339 ''2024-01-01T00:00:00Z'' = Some 63871286400000000000"
  "ParseRFC3339 ''2024-01-02T00:00:00Z'' = Some 63871372800000000000"
proof -
  have "ParseISO ''2024-01-01T00:00:00'' = Some (2024, 1, 1, 0, 0, 0)" "ParseISO ''2024-01-02T00:00:00'' = Some (2024, 1, 2, 0, 0, 0)"
    by (simp_all add: ParseISO_def year4_def expect_def daysIn_def leapYear_def afterFraction_def parse_simps)
  moreover have "nanosOf ''2024-01-01T00:00:00'' = 0" "nanosOf ''2024-01-02T00:00:00'' = 0"
    by (simp_all add: nanosOf_def stringToNat_def)
  ultimately show "ParseRFC3339 ''2024-01-01T00:00:00Z'' = Some 63871286400000000000"
      "ParseRFC3339 ''2024-01-02T00:00:00Z'' = Some 63871372800000000000"
    by (simp_all add: ParseRFC3339_def localInstant_def dayNumber_def daysBeforeYear_def daysBeforeMonth_def)
qed

lemma record_times:
  "ParseRFC3339 (ib_creationTime ownRecord) = Some 63871286400000000000"
  "ParseRFC3339 (ib_creationTime otherRecord) = Some 63871372800000000000"
  by (simp_all add: ownRecord_def otherRecord_def two_days)

theorem foreign_record_taken_witness:
  "\<exists>new. trace (reconcileBackup (opWorld [ownRecord, otherRecord] []) sampleConfig ''http://i''
      (dailyBackup\<lparr>cb_status := noStatus\<lparr>os_state := StateRunning\<rparr>\<rparr>) readyCluster) () =
    [backupsGet ''http://i'', SetBackupStatus (dailyBackup\<lparr>cb_status := new\<rparr>)] \<and> os_state new = StateCompleted"
proof -
  let ?cb = "dailyBackup\<lparr>cb_status := noStatus\<lparr>os_state := StateRunning\<rparr>\<rparr>"
  have tag: "tagOf (dailyBackup\<lparr>cb_status := st\<rparr>) = ''daily''" for st by (simp add: tagOf_def dailyBackup_def noBackup_def)
  have "\<exists>new. trace (reconcileBackup (opWorld [ownRecord, otherRecord] []) sampleConfig ''http://i'' ?cb readyCluster) () =
      [backupsGet ''http://i'', SetBackupStatus (?cb\<lparr>cb_status := new\<rparr>)] \<and> os_state new = ib_state otherRecord"
    by (rule foreign_record_taken [where own = ownRecord and pre = "''old-''", OF _ _ _ _ _ record_times])
      (simp_all add: tag state_names)
  then show ?thesis by simp
qed

theorem schema_version_restarts_restore_witness:
  "\<exists>q. trace (reconcileRestore (opWorld [] [failedRecord q]) sampleConfig ''http://i'' dailyRestore dailyBackup readyCluster) () =
     [restoresGet ''http://i'', restorePost ''http://i'' q, SetRestoreStatus (dailyRestore\<lparr>crs_status := noStatus\<rparr>)]"
proof
  let ?q = "restoreRequestFor readyCluster firstDC dailyBackup dailyRestore"
  have tag: "restoreTag dailyBackup dailyRestore = rq_snapshotTag ?q" by (simp add: restoreRequestFor_def Let_def)
  have failed: "rsp_schemaVersion (crs_spec dailyRestore) \<noteq> ''''" "os_state (crs_status dailyRestore) = StateFailed"
    by (simp_all add: dailyRestore_def)
  show "trace (reconcileRestore (opWorld [] [failedRecord ?q]) sampleConfig ''http://i'' dailyRestore dailyBackup readyCluster) () =
     [restoresGet ''http://i'', restorePost ''http://i'' ?q, SetRestoreStatus (dailyRestore\<lparr>crs_status := noStatus\<rparr>)]"
    by (rule schema_version_restarts_restore [where r = "failedRecord ?q" and w' = "()", THEN conjunct1, OF _ failed(2) sampleCluster_dcs])
      (simp_all add: failed(1) tag)
qed

definition taggedBackup :: cassandraBackup where
  "taggedBackup = dailyBackup\<lparr>cb_spec := (cb_spec dailyBackup)\<lparr>bs_snapshotTag := ''t''\<rparr>\<rparr>"

definition otherCluster :: cassandraCluster where
  "otherCluster = readyCluster\<lparr>cc_name := ''c2''\<rparr>"

theorem restore_reads_backup_iff_witness:
  "\<exists>b same other. createBackupRequest readyCluster taggedBackup = Inr b \<and>
     createRestoreReq readyCluster taggedBackup dailyRestore = Inr same \<and>
     createRestoreReq otherCluster taggedBackup dailyRestore = Inr other \<and>
     rq_storageLocation same = br_storageLocation b \<and> rq_snapshotTag same \<noteq> br_snapshotTag b \<and>
     rq_storageLocation other \<noteq> br_storageLocation b"
proof -
  let ?b = "backupRequestFor readyCluster firstDC taggedBackup"
  have dcs: "spec_dcs (cc_spec readyCluster) = firstDC # []" "spec_dcs (cc_spec otherCluster) = firstDC # []"
    using sampleCluster_dcs by (simp_all add: otherCluster_def)
  have b: "createBackupRequest readyCluster taggedBackup = Inr ?b" using dcs(1) unfolding createBackupRequest_Inr by blast
  note r = createRestoreReq_dc [OF dcs(1), of taggedBackup dailyRestore] createRestoreReq_dc [OF dcs(2), of taggedBackup dailyRestore]
  have names: "cc_name readyCluster = ''c''" "cc_name otherCluster = ''c2''" "dc_name firstDC = ''dc1''"
    by (simp_all add: otherCluster_def readyCluster_def firstDC_def sampleCluster_def)
  have fields: "rsp_storageLocation (crs_spec dailyRestore) = ''''" "rsp_secretName (crs_spec dailyRestore) = ''''"
    "rsp_snapshotTag (crs_spec dailyRestore) = ''''" "bs_snapshotTag (cb_spec taggedBackup) = ''t''" "cb_name taggedBackup = ''daily''"
    by (simp_all add: dailyRestore_def taggedBackup_def dailyBackup_def)
  from restore_reads_backup_iff [OF fields(1-3) b dcs(1) r(1) dcs(1)]
    restore_reads_backup_iff [OF fields(1-3) b dcs(1) r(2) dcs(2)] b r
  show ?thesis by (simp add: names fields)
qed

theorem operations_only_when_ready_witness:
  "\<exists>q. startsOperation q \<and> q \<in> set (trace (ReconcileBackup (opWorld [] []) sampleConfig (''ns'', ''daily'')) ()) \<and>
     ValidateStorageSecret sampleSecret (BackupStorageProvider dailyBackup) = Inr ()"
proof -
  let ?addr = "coordinatorPodURL readyCluster firstDC"
  let ?q = "backupPost ?addr (backupRequestFor readyCluster firstDC dailyBackup)"
  have running: "os_state (cb_status dailyBackup) = ''''" by (simp add: dailyBackup_def noBackup_def noStatus_def)
  have valid: "ValidateStorageSecret sampleSecret (BackupStorageProvider dailyBackup) = Inr ()"
    by (simp add: ValidateStorageSecret_def BackupStorageProvider_def dailyBackup_def noBackup_def storageProvider_def hasPrefix_def
        provider_names missingKey_def secretValue_def sampleSecret_def Let_def OperatorAdminRole_def OperatorAdminPassword_def awsCompatible_def)
  have "createBackupRequest readyCluster dailyBackup = Inr (backupRequestFor readyCluster firstDC dailyBackup)"
    by (simp add: createBackupRequest_def deref0_def sampleCluster_dcs del: readyCluster_simps(3))
  then have "?q \<in> set (trace (ReconcileBackup (opWorld [] []) sampleConfig (''ns'', ''daily'')) ())"
    using running valid
    by (simp add: ReconcileBackup_def orGone_def backupOf_def backupWithCluster_def backupWithSecret_def Let_def state_names
        sampleCluster_dcs deref0_def reconcileBackup_def findRelatedBackup_def client_traces del: readyCluster_simps(3))
  moreover from operations_only_when_ready [of ?q "opWorld [] []" sampleConfig "(''ns'', ''daily'')" "()"] this
  have "\<exists>sec. sec = sampleSecret \<and> ValidateStorageSecret sec (BackupStorageProvider dailyBackup) = Inr ()" by auto
  ultimately show ?thesis by (intro exI [of _ ?q]) simp
qed

end
