(* ===== verification/Webhook_Assets.thy ===== *)
theory Webhook_Assets
  imports Tls
begin

text \<open>
  What the operator sets up for its admission webhooks when it starts (\<open>controllers/webhooks\<close>): a certificate authority
  and a key pair in the container, the configuration through which the API server calls the webhooks, and the service
  in between; and their removal when the webhooks are switched off.
  Parameters: the cryptographic library of \<open>Certs\<close> and the Kubernetes API with the file system (record \<open>assetApi\<close>).
  The lemmas say that the three parts fit together.
\<close>

section \<open>Objects\<close>

record ownerReference =
  or_apiVersion :: string
  or_kind :: string
  or_name :: string
  or_uid :: string
  or_controller :: "bool option"

record webhookService =
  whs_name :: string
  whs_namespace :: string
  whs_labels :: "strmap option"
  whs_annotations :: "strmap option"
  whs_owners :: "ownerReference list"
  whs_spec :: serviceSpec

record validatingWebhook =
  vw_name :: string
  vw_serviceNamespace :: string
  vw_serviceName :: string
  vw_servicePath :: string
  vw_servicePort :: int
  vw_caBundle :: string
  vw_operations :: "string list"
  vw_apiGroups :: "string list"
  vw_apiVersions :: "string list"
  vw_resources :: "string list"
  vw_scope :: string
  vw_failurePolicy :: string
  vw_sideEffects :: string
  vw_reviewVersions :: "string list"

record webhookConfiguration =
  whc_name :: string
  whc_labels :: "strmap option"
  whc_annotations :: "strmap option"
  whc_owners :: "ownerReference list"
  whc_webhooks :: "validatingWebhook list"

text \<open>Of the operator's configuration the assets need the namespace and the port.\<close>

record webhookSettings =
  ws_namespace :: string
  ws_port :: int

datatype assetReq =
    FetchOperator key
  | FetchClusterRole string
  | FetchConfiguration string
  | CreateConfiguration webhookConfiguration
  | UpdateConfiguration webhookConfiguration
  | DeleteConfiguration string
  | FetchWebhookService key
  | CreateWebhookService webhookService
  | UpdateWebhookService webhookService
  | DeleteWebhookService key
  | MakeDirectory string
  | WriteCertificate string string

text \<open>The name and the UID of the deployment and of the cluster role.\<close>

record 'w assetApi =
  aa_operator :: "key \<Rightarrow> 'w \<Rightarrow> (go_error + string) \<times> 'w"
  aa_clusterRole :: "string \<Rightarrow> 'w \<Rightarrow> (go_error + string \<times> string) \<times> 'w"
  aa_getConfiguration :: "string \<Rightarrow> 'w \<Rightarrow> (go_error + webhookConfiguration) \<times> 'w"
  aa_createConfiguration :: "webhookConfiguration \<Rightarrow> 'w \<Rightarrow> (go_error + unit) \<times> 'w"
  aa_updateConfiguration :: "webhookConfiguration \<Rightarrow> 'w \<Rightarrow> (go_error + unit) \<times> 'w"
  aa_deleteConfiguration :: "string \<Rightarrow> 'w \<Rightarrow> (go_error + unit) \<times> 'w"
  aa_getService :: "key \<Rightarrow> 'w \<Rightarrow> (go_error + webhookService) \<times> 'w"
  aa_createService :: "webhookService \<Rightarrow> 'w \<Rightarrow> (go_error + unit) \<times> 'w"
  aa_updateService :: "webhookService \<Rightarrow> 'w \<Rightarrow> (go_error + unit) \<times> 'w"
  aa_deleteService :: "key \<Rightarrow> 'w \<Rightarrow> (go_error + unit) \<times> 'w"
  aa_mkdir :: "string \<Rightarrow> 'w \<Rightarrow> (go_error + unit) \<times> 'w"
  aa_writeFile :: "string \<Rightarrow> string \<Rightarrow> 'w \<Rightarrow> (go_error + unit) \<times> 'w"

type_synonym ('w, 'a) assetRun = "('w, assetReq, 'a) act"

section \<open>Certificates\<close>

definition OperatorWebhookTLSDir :: "string \<Rightarrow> string" where
  "OperatorWebhookTLSDir home = home @ ''/'' @ ''k8s-webhook-server/serving-certs''"

text \<open>\<open>filepath.Join\<close> on a clean path and a file name.\<close>

definition writeCertificate :: "'w assetApi \<Rightarrow> string \<Rightarrow> string \<Rightarrow> string \<Rightarrow> ('w, unit) assetRun" where
  "writeCertificate A dir f content =
     (let path = dir @ ''/'' @ f in call (WriteCertificate path content) (aa_writeFile A path content))"

definition writeWebhookTLS :: "'w assetApi \<Rightarrow> string \<Rightarrow> keypair \<Rightarrow> ('w, unit) assetRun" where
  "writeWebhookTLS A dir kp =
     andThen (wrapErr ''failed to create certs dir'' (call (MakeDirectory dir) (aa_mkdir A dir))) (\<lambda>_.
     andThen (wrapErr (''failed to write Webhook TLS certificate to container'' @ [CHR 0x27] @ ''s filesystem'')
         (writeCertificate A dir ''tls.crt'' (kp_crt kp))) (\<lambda>_.
       wrapErr (''failed to write Webhook TLS key to container'' @ [CHR 0x27] @ ''s filesystem'')
         (writeCertificate A dir ''tls.key'' (kp_pk kp))))"

definition webhookCAOptions :: certOpts where
  "webhookCAOptions = MakeDefaultOptions\<lparr>opt_org := ''cassandra_operator''\<rparr>"

definition webhookDnsNames :: "string \<Rightarrow> string list" where
  "webhookDnsNames ns =
     [WebhooksServiceName, WebhooksServiceName @ ''.'' @ ns, WebhooksServiceName @ ''.'' @ ns @ ''.svc'',
      WebhooksServiceName @ ''.'' @ ns @ ''.svc.cluster.local'']"

definition setupWebhookTLS :: "'w cryptoLib \<Rightarrow> 'w assetApi \<Rightarrow> string \<Rightarrow> webhookSettings \<Rightarrow> ('w, keypair) assetRun" where
  "setupWebhookTLS C A home cfg =
     andThen (wrapErr ''failed to create Webhook CA keypair'' (CreateCA C webhookCAOptions)) (\<lambda>ca.
     andThen (wrapErr ''failed to crate Webhook keypair''
         (CreateCertificate C ca (webhookCAOptions\<lparr>opt_dnsNames := webhookDnsNames (ws_namespace cfg)\<rparr>))) (\<lambda>kp.
     andThen (wrapErr ''failed to write webhook TLS certificates'' (writeWebhookTLS A (OperatorWebhookTLSDir home) kp)) (\<lambda>_.
       ret ca)))"

section \<open>Configuration of the API server\<close>

definition validatingWebhookFor :: "string \<Rightarrow> string \<Rightarrow> string \<Rightarrow> string \<Rightarrow> string \<Rightarrow> validatingWebhook" where
  "validatingWebhookFor ns ca name path resource =
     \<lparr>vw_name = name, vw_serviceNamespace = ns, vw_serviceName = WebhooksServiceName, vw_servicePath = path,
      vw_servicePort = 443, vw_caBundle = ca, vw_operations = [''CREATE'', ''UPDATE''], vw_apiGroups = [''db.ibm.com''],
      vw_apiVersions = [''v1alpha1''], vw_resources = [resource], vw_scope = ''Namespaced'', vw_failurePolicy = ''Fail'',
      vw_sideEffects = ''None'', vw_reviewVersions = [''v1'', ''v1beta1'']\<rparr>"

definition CreateValidatingWebhookConf :: "string \<Rightarrow> string \<times> string \<Rightarrow> string \<Rightarrow> webhookConfiguration" where
  "CreateValidatingWebhookConf ns clusterRole ca =
     \<lparr>whc_name = ValidatingWebhookName, whc_labels = Some CassandraOperatorPodLabels, whc_annotations = None,
      whc_owners = [\<lparr>or_apiVersion = ''rbac.authorization.k8s.io/v1'', or_kind = ''ClusterRole'', or_name = fst clusterRole,
        or_uid = snd clusterRole, or_controller = None\<rparr>],
      whc_webhooks =
        [validatingWebhookFor ns ca ''vcassandracluster.kb.io'' ''/validate-db-ibm-com-v1alpha1-cassandracluster'' ''cassandraclusters'',
         validatingWebhookFor ns ca ''vcassandrabackup.kb.io'' ''/validate-db-ibm-com-v1alpha1-cassandrabackup'' ''cassandrabackups'',
         validatingWebhookFor ns ca ''vcassandrarestore.kb.io'' ''/validate-db-ibm-com-v1alpha1-cassandrarestore'' ''cassandrarestores'']\<rparr>"

definition adoptConfiguration :: "webhookConfiguration \<Rightarrow> webhookConfiguration \<Rightarrow> webhookConfiguration" where
  "adoptConfiguration actual desired =
     actual\<lparr>whc_labels := MergeMap (whc_labels actual) (whc_labels desired),
       whc_annotations := MergeMap (whc_annotations actual) (whc_annotations desired),
       whc_webhooks := whc_webhooks desired, whc_owners := whc_owners desired\<rparr>"

definition setupValidatingWebhookConfig :: "'w assetApi \<Rightarrow> webhookSettings \<Rightarrow> keypair \<Rightarrow> ('w, unit) assetRun" where
  "setupValidatingWebhookConfig A cfg caKp =
     andThen (wrapErr ''failed to get ClusterRole: cassandra-operator''
         (call (FetchClusterRole ''cassandra-operator'') (aa_clusterRole A ''cassandra-operator''))) (\<lambda>clusterRole.
     let desired = CreateValidatingWebhookConf (ws_namespace cfg) clusterRole (kp_crt caKp) in
     andThen (attempt (call (FetchConfiguration ValidatingWebhookName) (aa_getConfiguration A ValidatingWebhookName))) (\<lambda>r.
       case r of
         Inl e \<Rightarrow>
           if isNotFound e
           then wrapErr (''failed to create Validating Webhooks Configuration: '' @ whc_name desired)
             (call (CreateConfiguration desired) (aa_createConfiguration A desired))
           else raise (Wrap (''failed to get Validating Webhooks Configuration: '' @ ValidatingWebhookName) e)
       | Inr actual \<Rightarrow> let new = adoptConfiguration actual desired in
           wrapErr (''failed to update Validating Webhooks Configuration: '' @ whc_name actual)
             (call (UpdateConfiguration new) (aa_updateConfiguration A new))))"

section \<open>Service\<close>

definition webhookServiceSpec :: "int \<Rightarrow> serviceSpec" where
  "webhookServiceSpec port =
     \<lparr>svs_ports = [\<lparr>sp_name = '''', sp_protocol = ''TCP'', sp_port = 443, sp_targetPort = FromInt port\<rparr>],
      svs_clusterIP = '''', svs_clusterIPs = [], svs_ipFamilies = [], svs_ipFamilyPolicy = None,
      svs_internalTrafficPolicy = None, svs_type = ''ClusterIP'', svs_sessionAffinity = '''',
      svs_publishNotReadyAddresses = False, svs_selector = CassandraOperatorPodLabels\<rparr>"

definition desiredWebhookService :: "webhookSettings \<Rightarrow> string \<Rightarrow> webhookService" where
  "desiredWebhookService cfg uid =
     \<lparr>whs_name = WebhooksServiceName, whs_namespace = ws_namespace cfg, whs_labels = Some CassandraOperatorPodLabels,
      whs_annotations = None,
      whs_owners = [\<lparr>or_apiVersion = ''apps/v1'', or_kind = ''Deployment'', or_name = ''cassandra-operator'', or_uid = uid,
        or_controller = Some True\<rparr>],
      whs_spec = webhookServiceSpec (ws_port cfg)\<rparr>"

definition adoptWebhookService :: "webhookService \<Rightarrow> webhookService \<Rightarrow> webhookService" where
  "adoptWebhookService actual desired =
     actual\<lparr>whs_labels := MergeMap (whs_labels actual) (whs_labels desired),
       whs_annotations := MergeMap (whs_annotations actual) (whs_annotations desired),
       whs_spec := whs_spec desired, whs_owners := whs_owners desired\<rparr>"

definition setupWebhookService :: "'w assetApi \<Rightarrow> webhookSettings \<Rightarrow> ('w, unit) assetRun" where
  "setupWebhookService A cfg =
     (let dk = (ws_namespace cfg, ''cassandra-operator''); sk = (ws_namespace cfg, WebhooksServiceName) in
      andThen (wrapErr ''failed to get deployment: cassandra-operator'' (call (FetchOperator dk) (aa_operator A dk))) (\<lambda>uid.
      let desired = desiredWebhookService cfg uid in
      andThen (attempt (call (FetchWebhookService sk) (aa_getService A sk))) (\<lambda>r.
        case r of
          Inl e \<Rightarrow>
            if isNotFound e
            then wrapErr (''failed to create webhooks service: '' @ whs_name desired)
              (call (CreateWebhookService desired) (aa_createService A desired))
            else raise (Wrap (''failed to get webhooks service: '' @ WebhooksServiceName) e)
        | Inr actual \<Rightarrow> let new = adoptWebhookService actual desired in
            wrapErr (''failed to update webhooks service: '' @ whs_name actual)
              (call (UpdateWebhookService new) (aa_updateService A new)))))"

section \<open>Setting up and removing\<close>

definition CreateWebhookAssets :: "'w cryptoLib \<Rightarrow> 'w assetApi \<Rightarrow> string \<Rightarrow> webhookSettings \<Rightarrow> ('w, unit) assetRun" where
  "CreateWebhookAssets C A home cfg =
     andThen (wrapErr ''failed to setup TLS for Admission Webhooks'' (setupWebhookTLS C A home cfg)) (\<lambda>ca.
     andThen (wrapErr ''failed to setup ValidatingWebhookConfiguration'' (setupValidatingWebhookConfig A cfg ca)) (\<lambda>_.
       wrapErr ''failed to setup Webhooks Service'' (setupWebhookService A cfg)))"

text \<open>A missing object counts as deleted.\<close>

definition deleted :: "('w, unit) assetRun \<Rightarrow> ('w, unit) assetRun" where
  "deleted m = andThen (attempt m) (\<lambda>r. case r of Inl e \<Rightarrow> if isNotFound e then ret () else raise e | Inr _ \<Rightarrow> ret ())"

definition deleteWebhookService :: "'w assetApi \<Rightarrow> webhookSettings \<Rightarrow> ('w, unit) assetRun" where
  "deleteWebhookService A cfg =
     (let k = (ws_namespace cfg, WebhooksServiceName) in deleted (call (DeleteWebhookService k) (aa_deleteService A k)))"

definition deleteValidatingWebhookConfig :: "'w assetApi \<Rightarrow> ('w, unit) assetRun" where
  "deleteValidatingWebhookConfig A =
     deleted (call (DeleteConfiguration ValidatingWebhookName) (aa_deleteConfiguration A ValidatingWebhookName))"

definition DeleteWebhookAssets :: "'w assetApi \<Rightarrow> webhookSettings \<Rightarrow> ('w, unit) assetRun" where
  "DeleteWebhookAssets A cfg =
     andThen (wrapErr ''failed to delete webhook service'' (deleteWebhookService A cfg)) (\<lambda>_.
       wrapErr ''failed to delete validating webhook config'' (deleteValidatingWebhookConfig A))"


section \<open>The parts fit together\<close>

lemma certificate_quiet [simp]: "trace (CreateCA C opts) w = []" "trace (CreateCertificate C ca opts) w = []"
  by (simp_all add: CreateCA_def CreateCertificate_def Let_def split: sum.split)

definition webhookKeypair :: "'w cryptoLib \<Rightarrow> string \<Rightarrow> keypair \<Rightarrow> ('w, assetReq, keypair) act" where
  "webhookKeypair C ns ca = CreateCertificate C ca (webhookCAOptions\<lparr>opt_dnsNames := webhookDnsNames ns\<rparr>)"

lemma writeWebhookTLS_Inr: "result (writeWebhookTLS A dir kp) w = Inr () \<Longrightarrow>
    trace (writeWebhookTLS A dir kp) w =
      [MakeDirectory dir, WriteCertificate (dir @ ''/tls.crt'') (kp_crt kp), WriteCertificate (dir @ ''/tls.key'') (kp_pk kp)]"
  by (simp add: writeWebhookTLS_def writeCertificate_def Let_def split: sum.splits)

lemma setupWebhookTLS_Inr:
  assumes "result (setupWebhookTLS C A home cfg) w = Inr ca"
  shows "\<exists>kp v. result (CreateCA C webhookCAOptions :: ('w, assetReq, keypair) act) w = Inr ca \<and>
    result (webhookKeypair C (ws_namespace cfg) ca) v = Inr kp \<and>
    {WriteCertificate (OperatorWebhookTLSDir home @ ''/tls.crt'') (kp_crt kp), WriteCertificate (OperatorWebhookTLSDir home @ ''/tls.key'') (kp_pk kp)} \<subseteq>
      set (trace (setupWebhookTLS C A home cfg) w)"
proof -
  from assms obtain kp where "result (CreateCA C webhookCAOptions :: ('w, assetReq, keypair) act) w = Inr ca"
    "result (webhookKeypair C (ws_namespace cfg) ca) (world (CreateCA C webhookCAOptions :: ('w, assetReq, keypair) act) w) = Inr kp"
    "result (writeWebhookTLS A (OperatorWebhookTLSDir home) kp)
       (world (webhookKeypair C (ws_namespace cfg) ca) (world (CreateCA C webhookCAOptions :: ('w, assetReq, keypair) act) w)) = Inr ()"
    unfolding setupWebhookTLS_def webhookKeypair_def andThen_Inr wrapErr_Inr by auto
  then show ?thesis
    using writeWebhookTLS_Inr by (fastforce simp: setupWebhookTLS_def webhookKeypair_def)
qed

lemma setupValidatingWebhookConfig_Inr:
  assumes "result (setupValidatingWebhookConfig A cfg ca) w = Inr ()"
  shows "\<exists>conf r. whc_webhooks conf = whc_webhooks (CreateValidatingWebhookConf (ws_namespace cfg) r (kp_crt ca)) \<and>
    (CreateConfiguration conf \<in> set (trace (setupValidatingWebhookConfig A cfg ca) w) \<or>
     UpdateConfiguration conf \<in> set (trace (setupValidatingWebhookConfig A cfg ca) w))"
proof -
  from assms obtain r where r: "fst (aa_clusterRole A ''cassandra-operator'' w) = Inr r"
    unfolding setupValidatingWebhookConfig_def andThen_Inr wrapErr_Inr result_call by blast
  let ?d = "CreateValidatingWebhookConf (ws_namespace cfg) r (kp_crt ca)"
  let ?v = "snd (aa_clusterRole A ''cassandra-operator'' w)"
  show ?thesis
  proof (cases "fst (aa_getConfiguration A ValidatingWebhookName ?v)")
    case (Inl e)
    with assms r show ?thesis
      by (intro exI [of _ ?d] exI [of _ r]) (auto simp: setupValidatingWebhookConfig_def Let_def split: if_splits sum.splits)
  next
    case (Inr actual)
    with assms r show ?thesis
      by (intro exI [of _ "adoptConfiguration actual ?d"] exI [of _ r])
        (auto simp: setupValidatingWebhookConfig_def Let_def adoptConfiguration_def split: sum.splits)
  qed
qed

lemma setupWebhookService_Inr:
  assumes "result (setupWebhookService A cfg) w = Inr ()"
  shows "\<exists>svc. whs_spec svc = webhookServiceSpec (ws_port cfg) \<and>
    (CreateWebhookService svc \<in> set (trace (setupWebhookService A cfg) w) \<or>
     UpdateWebhookService svc \<in> set (trace (setupWebhookService A cfg) w))"
proof -
  let ?k = "(ws_namespace cfg, ''cassandra-operator'')"
  from assms obtain uid where uid: "fst (aa_operator A ?k w) = Inr uid"
    unfolding setupWebhookService_def Let_def andThen_Inr wrapErr_Inr result_call by blast
  let ?d = "desiredWebhookService cfg uid" and ?v = "snd (aa_operator A ?k w)"
  have spec: "whs_spec ?d = webhookServiceSpec (ws_port cfg)" by (simp add: desiredWebhookService_def)
  show ?thesis
  proof (cases "fst (aa_getService A (ws_namespace cfg, WebhooksServiceName) ?v)")
    case (Inl e)
    with assms uid spec show ?thesis
      by (intro exI [of _ ?d]) (auto simp: setupWebhookService_def Let_def split: if_splits sum.splits)
  next
    case (Inr actual)
    with assms uid spec show ?thesis
      by (intro exI [of _ "adoptWebhookService actual ?d"])
        (auto simp: setupWebhookService_def Let_def adoptWebhookService_def split: sum.splits)
  qed
qed

text \<open>C40: When the assets have been set up, the API server can call each webhook: it trusts the authority that signed the
  certificate in the container, it addresses the service by a name the certificate is valid for, and the service
  forwards the port it calls to the port of the operator. There is a webhook for each of the three resources.\<close>

theorem webhooks_trusted_and_reached:
  assumes "result (CreateWebhookAssets C A home cfg) w = Inr ()"
  defines "T \<equiv> set (trace (CreateWebhookAssets C A home cfg) w)"
  shows "\<exists>ca kp conf svc v. result (CreateCA C webhookCAOptions :: ('w, assetReq, keypair) act) w = Inr ca \<and>
    result (webhookKeypair C (ws_namespace cfg) ca) v = Inr kp \<and>
    WriteCertificate (OperatorWebhookTLSDir home @ ''/tls.crt'') (kp_crt kp) \<in> T \<and>
    WriteCertificate (OperatorWebhookTLSDir home @ ''/tls.key'') (kp_pk kp) \<in> T \<and>
    (CreateConfiguration conf \<in> T \<or> UpdateConfiguration conf \<in> T) \<and>
    (CreateWebhookService svc \<in> T \<or> UpdateWebhookService svc \<in> T) \<and>
    map vw_resources (whc_webhooks conf) = [[''cassandraclusters''], [''cassandrabackups''], [''cassandrarestores'']] \<and>
    (\<forall>h \<in> set (whc_webhooks conf). vw_caBundle h = kp_crt ca \<and>
      vw_serviceName h @ ''.'' @ vw_serviceNamespace h @ ''.svc'' \<in> set (webhookDnsNames (ws_namespace cfg)) \<and>
      (\<exists>p \<in> set (svs_ports (whs_spec svc)). sp_port p = vw_servicePort h \<and> sp_targetPort p = FromInt (ws_port cfg)))"
proof -
  let ?tls = "setupWebhookTLS C A home cfg"
  from assms(1) obtain ca where ca: "result ?tls w = Inr ca"
    and conf: "result (setupValidatingWebhookConfig A cfg ca) (world ?tls w) = Inr ()"
    and svc: "result (setupWebhookService A cfg) (world (setupValidatingWebhookConfig A cfg ca) (world ?tls w)) = Inr ()"
    unfolding CreateWebhookAssets_def andThen_Inr wrapErr_Inr by auto
  then have T: "T = set (trace ?tls w) \<union> set (trace (setupValidatingWebhookConfig A cfg ca) (world ?tls w)) \<union>
      set (trace (setupWebhookService A cfg) (world (setupValidatingWebhookConfig A cfg ca) (world ?tls w)))"
    by (simp add: T_def CreateWebhookAssets_def Un_assoc)
  from setupWebhookTLS_Inr [OF ca] setupValidatingWebhookConfig_Inr [OF conf] setupWebhookService_Inr [OF svc]
  obtain kp v con r se where "result (CreateCA C webhookCAOptions :: ('w, assetReq, keypair) act) w = Inr ca"
    "result (webhookKeypair C (ws_namespace cfg) ca) v = Inr kp"
    "WriteCertificate (OperatorWebhookTLSDir home @ ''/tls.crt'') (kp_crt kp) \<in> T"
    "WriteCertificate (OperatorWebhookTLSDir home @ ''/tls.key'') (kp_pk kp) \<in> T"
    "whc_webhooks con = whc_webhooks (CreateValidatingWebhookConf (ws_namespace cfg) r (kp_crt ca))"
    "CreateConfiguration con \<in> T \<or> UpdateConfiguration con \<in> T"
    "whs_spec se = webhookServiceSpec (ws_port cfg)" "CreateWebhookService se \<in> T \<or> UpdateWebhookService se \<in> T"
    unfolding T by auto
  then show ?thesis
    by (intro exI [of _ ca] exI [of _ kp] exI [of _ con] exI [of _ se] exI [of _ v])
      (simp add: CreateValidatingWebhookConf_def validatingWebhookFor_def webhookDnsNames_def webhookServiceSpec_def)
qed

text \<open>A namespace without any of the assets, and a library whose certificates carry the names they are made for.\<close>

definition emptyAssets :: "unit assetApi" where
  "emptyAssets = \<lparr>aa_operator = (\<lambda>_ w. (Inr ''u1'', w)), aa_clusterRole = (\<lambda>n w. (Inr (n, ''u2''), w)),
     aa_getConfiguration = (\<lambda>_ w. (Inl NotFound, w)), aa_createConfiguration = (\<lambda>_ w. (Inr (), w)),
     aa_updateConfiguration = (\<lambda>_ w. (Inr (), w)), aa_deleteConfiguration = (\<lambda>_ w. (Inl NotFound, w)),
     aa_getService = (\<lambda>_ w. (Inl NotFound, w)), aa_createService = (\<lambda>_ w. (Inr (), w)),
     aa_updateService = (\<lambda>_ w. (Inr (), w)), aa_deleteService = (\<lambda>_ w. (Inl NotFound, w)),
     aa_mkdir = (\<lambda>_ w. (Inr (), w)), aa_writeFile = (\<lambda>_ _ w. (Inr (), w))\<rparr>"

definition plainCertificate :: certificate where
  "plainCertificate = \<lparr>crt_isCA = True, crt_notBefore = 0, crt_notAfter = 1, crt_serialNumber = 1, crt_keyUsage = [],
     crt_extKeyUsage = [], crt_basicConstraintsValid = True, crt_organization = [''o''], crt_commonName = '''',
     crt_dnsNames = [], crt_raw = ''''\<rparr>"

definition namingCrypto :: "unit cryptoLib" where
  "namingCrypto = \<lparr>cy_now = (\<lambda>w. 0), cy_generateKey = (\<lambda>n w. (Inr ''key'', w)), cy_publicKey = (\<lambda>k. k),
     cy_createCertificate = (\<lambda>t p k s w. (Inr (if crt_isCA t then ''ca'' else join '','' (crt_dnsNames t)), w)),
     cy_marshalKey = (\<lambda>k. k), cy_pemEncode = (\<lambda>t b. b), cy_pemDecode = Some, cy_parseCertificate = (\<lambda>_. Inr plainCertificate),
     cy_parseKey = Inr, cy_encodeKeystore = (\<lambda>_ _ _ _ w. (Inr ''p12'', w)), cy_decodeChain = (\<lambda>_ _. Inr ()),
     cy_encodeTrustStore = (\<lambda>_ _ w. (Inr ''p12'', w)), cy_decodeTrustStore = (\<lambda>_ _. Inr ()), cy_range = (\<lambda>_. [])\<rparr>"

definition sampleSettings :: webhookSettings where
  "sampleSettings = \<lparr>ws_namespace = ''ops'', ws_port = 9443\<rparr>"

lemma asset_answers:
  "result (CreateWebhookAssets namingCrypto emptyAssets ''/root'' sampleSettings) () = Inr ()"
  by (simp add: CreateWebhookAssets_def setupWebhookTLS_def CreateCA_def CreateCertificate_def ParseCertificate_def ParsePrivateKey_def
      writeWebhookTLS_def writeCertificate_def setupValidatingWebhookConfig_def setupWebhookService_def namingCrypto_def
      emptyAssets_def isNotFound_def Let_def)

theorem webhooks_trusted_and_reached_witness:
  "\<exists>conf. (CreateConfiguration conf \<in> set (trace (CreateWebhookAssets namingCrypto emptyAssets ''/root'' sampleSettings) ()) \<or>
      UpdateConfiguration conf \<in> set (trace (CreateWebhookAssets namingCrypto emptyAssets ''/root'' sampleSettings) ())) \<and>
    (\<forall>h \<in> set (whc_webhooks conf). vw_caBundle h = ''ca'')"
proof -
  have ca: "result (CreateCA namingCrypto webhookCAOptions :: (unit, assetReq, keypair) act) () = Inr ca \<Longrightarrow> kp_crt ca = ''ca''" for ca
    by (auto simp: CreateCA_def namingCrypto_def keypairOf_def encodeToPemFormat_def Let_def)
  from webhooks_trusted_and_reached [OF asset_answers] ca show ?thesis by fastforce
qed

text \<open>Removing what is not there succeeds.\<close>

lemma delete_missing_assets:
  fixes A :: "'w assetApi"
  assumes "\<And>k v. fst (aa_deleteService A k v) \<in> {Inl NotFound, Inr ()}" "\<And>n v. fst (aa_deleteConfiguration A n v) \<in> {Inl NotFound, Inr ()}"
  shows "result (DeleteWebhookAssets A cfg) w = Inr ()"
proof -
  have *: "fst (h v) \<in> {Inl NotFound, Inr ()} \<Longrightarrow> result (deleted (call q h)) v = Inr ()" for q h and v :: 'w
    by (auto simp: deleted_def isNotFound_def)
  have "result (deleteWebhookService A cfg) v = Inr ()" "result (deleteValidatingWebhookConfig A) v = Inr ()" for v
    unfolding deleteWebhookService_def deleteValidatingWebhookConfig_def Let_def using assms * by blast+
  then show ?thesis by (simp add: DeleteWebhookAssets_def)
qed

end
