(* ===== verification/Starts.thy ===== *)
theory Starts
  imports Prober Webhook_Assets
begin

text \<open>
  How the two processes start: \<open>main.go\<close> of the operator and \<open>prober/main.go\<close>.
  An exit with a status other than zero is an error; what a process serves once it runs is modelled elsewhere.
  Parameters: the environment variables, the Kubernetes clients and the manager of the controllers (records
  \<open>operatorStart\<close> and \<open>proberStart\<close>).
  The lemmas state the order in which the operator's parts come up, and which credentials a prober begins with.
\<close>

section \<open>Operator\<close>

record operatorOptions =
  oo_namespace :: string
  oo_leaderElection :: bool
  oo_webhooksEnabled :: bool
  oo_webhooksPort :: int
  oo_metricsPort :: int

record managerOptions =
  mo_metricsBindAddress :: string
  mo_leaderElection :: bool
  mo_leaderElectionID :: string
  mo_leaderElectionNamespace :: string
  mo_healthProbeBindAddress :: string

datatype startReq =
    NewManager managerOptions
  | AddReadyzCheck string
  | SetupController string
  | NewClientset
  | Assets assetReq
  | ServeWebhooks int string
  | SetupWebhook string
  | StartManager

record 'w operatorStart =
  op_newManager :: "managerOptions \<Rightarrow> 'w \<Rightarrow> (go_error + unit) \<times> 'w"
  op_addReadyzCheck :: "string \<Rightarrow> 'w \<Rightarrow> (go_error + unit) \<times> 'w"
  op_setupController :: "string \<Rightarrow> 'w \<Rightarrow> (go_error + unit) \<times> 'w"
  op_newClientset :: "'w \<Rightarrow> (go_error + unit) \<times> 'w"
  op_setupWebhook :: "string \<Rightarrow> 'w \<Rightarrow> (go_error + unit) \<times> 'w"
  op_startManager :: "'w \<Rightarrow> (go_error + unit) \<times> 'w"

text \<open>An action whose requests are part of a larger set of requests.\<close>

definition embed :: "('q \<Rightarrow> 'r) \<Rightarrow> ('w, 'q, 'a) act \<Rightarrow> ('w, 'r, 'a) act" where
  "embed g m = (\<lambda>w. case m w of (r, t, v) \<Rightarrow> (r, map g t, v))"

lemma embed_simps [simp]:
  "result (embed g m) w = result m w" "trace (embed g m) w = map g (trace m w)" "world (embed g m) w = world m w"
  by (simp_all add: embed_def result_def trace_def world_def split: prod.split)

definition healthCheckBindAddress :: int where "healthCheckBindAddress = 8042"

definition managerOptionsOf :: "operatorOptions \<Rightarrow> managerOptions" where
  "managerOptionsOf o' =
     \<lparr>mo_metricsBindAddress = '':'' @ itoa (oo_metricsPort o'), mo_leaderElection = oo_leaderElection o',
      mo_leaderElectionID = ''cassandra-operator-leader-election-lock'', mo_leaderElectionNamespace = oo_namespace o',
      mo_healthProbeBindAddress = '':'' @ itoa healthCheckBindAddress\<rparr>"

definition setupController :: "'w operatorStart \<Rightarrow> string \<Rightarrow> ('w, startReq, unit) act" where
  "setupController O' n = call (SetupController n) (op_setupController O' n)"

definition setupWebhook :: "'w operatorStart \<Rightarrow> string \<Rightarrow> ('w, startReq, unit) act" where
  "setupWebhook O' n = call (SetupWebhook n) (op_setupWebhook O' n)"

definition startWebhooks ::
  "'w operatorStart \<Rightarrow> 'w cryptoLib \<Rightarrow> 'w assetApi \<Rightarrow> string \<Rightarrow> operatorOptions \<Rightarrow> ('w, startReq, unit) act" where
  "startWebhooks O' C A home o' =
     (let cfg = \<lparr>ws_namespace = oo_namespace o', ws_port = oo_webhooksPort o'\<rparr> in
      if oo_webhooksEnabled o'
      then andThen (embed Assets (CreateWebhookAssets C A home cfg)) (\<lambda>_.
           andThen (call (ServeWebhooks (oo_webhooksPort o') (OperatorWebhookTLSDir home)) (\<lambda>w. (Inr (), w))) (\<lambda>_.
             forEach (setupWebhook O') [''CassandraCluster'', ''CassandraBackup'', ''CassandraRestore'']))
      else embed Assets (DeleteWebhookAssets A cfg))"

definition operatorMain ::
  "'w operatorStart \<Rightarrow> 'w cryptoLib \<Rightarrow> 'w assetApi \<Rightarrow> string \<Rightarrow> go_error + operatorOptions \<Rightarrow> ('w, startReq, unit) act" where
  "operatorMain O' C A home loaded =
     (case loaded of
        Inl e \<Rightarrow> raise e
      | Inr o' \<Rightarrow>
          let m = managerOptionsOf o' in
          andThen (call (NewManager m) (op_newManager O' m)) (\<lambda>_.
          andThen (call (AddReadyzCheck ''ready'') (op_addReadyzCheck O' ''ready'')) (\<lambda>_.
          andThen (forEach (setupController O') [''CassandraCluster'', ''CassandraBackup'', ''CassandraRestore'']) (\<lambda>_.
          andThen (call NewClientset (op_newClientset O')) (\<lambda>_.
          andThen (startWebhooks O' C A home o') (\<lambda>_.
            call StartManager (op_startManager O')))))))"

section \<open>Prober\<close>

record proberOptions =
  po_serverPort :: int
  po_podNamespace :: string
  po_adminRoleSecretName :: string
  po_baseAdminRoleSecretName :: string
  po_jmxPollingInterval :: int
  po_jmxPort :: int
  po_jolokiaPort :: int
  po_logFormat :: string

datatype proberStartReq = NewProberLogger string | InClusterConfig | NewProberClientset | FetchProberSecret key

text \<open>The client returns the data of an object beside its error.\<close>

record 'w proberStart =
  pr_newLogger :: "string \<Rightarrow> 'w \<Rightarrow> (go_error + unit) \<times> 'w"
  pr_inClusterConfig :: "'w \<Rightarrow> (go_error + unit) \<times> 'w"
  pr_newClientset :: "'w \<Rightarrow> (go_error + unit) \<times> 'w"
  pr_getSecret :: "key \<Rightarrow> 'w \<Rightarrow> (strmap \<times> go_error option) \<times> 'w"

definition fetchProberSecret :: "'w proberStart \<Rightarrow> key \<Rightarrow> ('w, proberStartReq, strmap \<times> go_error option) act" where
  "fetchProberSecret P k = call (FetchProberSecret k) (\<lambda>w. case pr_getSecret P k w of (r, v) \<Rightarrow> (Inr r, v))"

definition proberMain :: "'w proberStart \<Rightarrow> go_error + proberOptions \<Rightarrow> ('w, proberStartReq, proberServer) act" where
  "proberMain P loaded =
     (case loaded of
        Inl e \<Rightarrow> raise e
      | Inr o' \<Rightarrow>
          let active = (po_podNamespace o', po_adminRoleSecretName o'); base = (po_podNamespace o', po_baseAdminRoleSecretName o') in
          andThen (call (NewProberLogger (po_logFormat o')) (pr_newLogger P (po_logFormat o'))) (\<lambda>_.
          andThen (call InClusterConfig (pr_inClusterConfig P)) (\<lambda>_.
          andThen (call NewProberClientset (pr_newClientset P)) (\<lambda>_.
          andThen (fetchProberSecret P active) (\<lambda>(authData, e).
            case e of
              Some err \<Rightarrow> raise err
            | None \<Rightarrow>
                andThen (fetchProberSecret P base) (\<lambda>(adminData, _).
                  ret (NewProber (mget adminData ''admin-role'') (mget adminData ''admin-password'')
                    (mget authData ''admin-role'') (mget authData ''admin-password''))))))))"

section \<open>The order of the operator's parts\<close>

lemma setup_simps [simp]:
  "result (setupController O' n) w = fst (op_setupController O' n w)" "trace (setupController O' n) w = [SetupController n]"
  "trace (setupWebhook O' n) w = [SetupWebhook n]"
  by (simp_all add: setupController_def setupWebhook_def)

lemma setupController_trace:
  "result (forEach (setupController O') ns) w = Inr () \<Longrightarrow> trace (forEach (setupController O') ns) w = map SetupController ns"
  "set (trace (forEach (setupController O') ns) w) \<subseteq> range SetupController"
  by (induction ns arbitrary: w) (auto split: sum.splits)

lemma setupWebhook_trace: "set (trace (forEach (setupWebhook O') ns) w) \<subseteq> range SetupWebhook"
  by (induction ns arbitrary: w) (auto split: sum.splits)

lemma startWebhooks_trace: "StartManager \<notin> set (trace (startWebhooks O' C A home o') w)"
proof -
  have "StartManager \<notin> set (trace (forEach (setupWebhook O') ns) v)" for ns v
    using setupWebhook_trace [of O' ns v] by auto
  then show ?thesis by (auto simp: startWebhooks_def Let_def simp del: forEach.simps split: sum.split)
qed

lemma reached:
  assumes "q \<in> set (trace (andThen m f) w)" "\<And>v. q \<notin> set (trace m v)"
  shows "\<exists>x. result m w = Inr x \<and> q \<in> set (trace (f x) (world m w)) \<and>
    trace (andThen m f) w = trace m w @ trace (f x) (world m w)"
  using assms by (cases "result m w") auto

lemma reached_last:
  fixes a b S c W d :: "('w, 'q, unit) act"
  assumes "q \<in> set (trace (andThen a (\<lambda>_. andThen b (\<lambda>_. andThen S (\<lambda>_. andThen c (\<lambda>_. andThen W (\<lambda>_. d)))))) w)"
    and "\<And>v. q \<notin> set (trace a v)" "\<And>v. q \<notin> set (trace b v)" "\<And>v. q \<notin> set (trace S v)" "\<And>v. q \<notin> set (trace c v)"
      "\<And>v. q \<notin> set (trace W v)"
  shows "\<exists>w1 w2 w3 u w5. result S w2 = Inr () \<and> result W u = Inr () \<and>
    trace (andThen a (\<lambda>_. andThen b (\<lambda>_. andThen S (\<lambda>_. andThen c (\<lambda>_. andThen W (\<lambda>_. d)))))) w =
      trace a w @ trace b w1 @ trace S w2 @ trace c w3 @ trace W u @ trace d w5"
proof -
  note 1 = reached [OF assms(1,2)]
  then have "q \<in> set (trace (andThen b (\<lambda>_. andThen S (\<lambda>_. andThen c (\<lambda>_. andThen W (\<lambda>_. d))))) (world a w))" by blast
  note 2 = reached [OF this assms(3)]
  then have "q \<in> set (trace (andThen S (\<lambda>_. andThen c (\<lambda>_. andThen W (\<lambda>_. d)))) (world b (world a w)))" by blast
  note 3 = reached [OF this assms(4)]
  then have "q \<in> set (trace (andThen c (\<lambda>_. andThen W (\<lambda>_. d))) (world S (world b (world a w))))" by blast
  note 4 = reached [OF this assms(5)]
  then have "q \<in> set (trace (andThen W (\<lambda>_. d)) (world c (world S (world b (world a w)))))" by blast
  note 5 = reached [OF this assms(6)]
  from 1 2 3 4 5 show ?thesis
    by (intro exI [of _ "world a w"] exI [of _ "world b (world a w)"] exI [of _ "world S (world b (world a w))"]
      exI [of _ "world c (world S (world b (world a w)))"] exI [of _ "world W (world c (world S (world b (world a w))))"])
      (auto simp del: trace_andThen result_andThen)
qed

text \<open>The manager starts last, after the three controllers, and after the webhooks are set up or removed.\<close>

lemma manager_starts_last:
  assumes "StartManager \<in> set (trace (operatorMain O' C A home (Inr o')) w)"
  shows "\<exists>u before. trace (operatorMain O' C A home (Inr o')) w = before @ trace (startWebhooks O' C A home o') u @ [StartManager] \<and>
    result (startWebhooks O' C A home o') u = Inr () \<and>
    (\<forall>n \<in> {''CassandraCluster'', ''CassandraBackup'', ''CassandraRestore''}. SetupController n \<in> set before)"
proof -
  let ?ns = "[''CassandraCluster'', ''CassandraBackup'', ''CassandraRestore'']"
  let ?S = "forEach (setupController O') ?ns"
  have ctrl: "StartManager \<notin> set (trace ?S v)" for v
    using setupController_trace(2) [of O' ?ns v] by auto
  note main = operatorMain_def [of O' C A home "Inr o'", unfolded sum.case Let_def]
  from reached_last [OF assms [unfolded main] _ _ ctrl _ startWebhooks_trace] obtain s u where "result ?S s = Inr ()"
    "result (startWebhooks O' C A home o') u = Inr ()"
    and t: "trace (operatorMain O' C A home (Inr o')) w = [NewManager (managerOptionsOf o'), AddReadyzCheck ''ready''] @ trace ?S s @
      [NewClientset] @ trace (startWebhooks O' C A home o') u @ [StartManager]"
    unfolding main trace_call by auto
  moreover from this(1) have "trace ?S s = map SetupController ?ns" by (rule setupController_trace(1))
  ultimately show ?thesis
    by (intro exI [of _ u] exI [of _ "[NewManager (managerOptionsOf o'), AddReadyzCheck ''ready''] @ map SetupController ?ns @ [NewClientset]"])
      (simp only: t append_assoc, simp)
qed

text \<open>A prober that starts presents the active credentials to Jolokia and accepts the base ones.\<close>

lemma prober_starts_with:
  assumes "result (proberMain P (Inr o')) w = Inr p"
  shows "\<exists>authData adminData e u v. fst (pr_getSecret P (po_podNamespace o', po_adminRoleSecretName o') u) = (authData, None) \<and>
    fst (pr_getSecret P (po_podNamespace o', po_baseAdminRoleSecretName o') v) = (adminData, e) \<and>
    jolokiaUser p = mget authData ''admin-role'' \<and> jolokiaPassword p = mget authData ''admin-password'' \<and>
    authUser p = mget adminData ''admin-role'' \<and> authPassword p = mget adminData ''admin-password''"
proof -
  let ?active = "(po_podNamespace o', po_adminRoleSecretName o')" and ?base = "(po_podNamespace o', po_baseAdminRoleSecretName o')"
  have answer: "result (fetchProberSecret P k) u = Inr r \<longleftrightarrow> fst (pr_getSecret P k u) = r" for k u r
    by (simp add: fetchProberSecret_def split: prod.split)
  from assms obtain authData x u where 1: "fst (pr_getSecret P ?active u) = (authData, x)"
    and rest: "result (case x of Some err \<Rightarrow> raise err | None \<Rightarrow>
      andThen (fetchProberSecret P ?base) (\<lambda>(adminData, _). ret (NewProber (mget adminData ''admin-role'') (mget adminData ''admin-password'')
        (mget authData ''admin-role'') (mget authData ''admin-password'')))) (world (fetchProberSecret P ?active) u) = Inr p"
    unfolding proberMain_def Let_def sum.case andThen_Inr split_paired_Ex prod.case answer by blast
  from rest have x: "x = None" by (auto split: option.splits)
  from rest obtain adminData e v where "fst (pr_getSecret P ?base v) = (adminData, e)"
    "p = NewProber (mget adminData ''admin-role'') (mget adminData ''admin-password'') (mget authData ''admin-role'') (mget authData ''admin-password'')"
    unfolding x option.case andThen_Inr split_paired_Ex prod.case answer by auto
  with 1 x show ?thesis by (fastforce simp: NewProber_def)
qed

text \<open>Without a base secret the prober starts as well, and serves whoever sends an empty name and password.\<close>

lemma missing_base_secret_open:
  assumes "result (proberMain P (Inr o')) w = Inr p"
    and "\<And>v. fst (fst (pr_getSecret P (po_podNamespace o', po_baseAdminRoleSecretName o') v)) = Map.empty"
    and "rq_basicAuth r = Some ('''', '''')"
  shows "BasicAuth h r p = h r p"
proof -
  from prober_starts_with [OF assms(1)] obtain adminData e v where
    "fst (pr_getSecret P (po_podNamespace o', po_baseAdminRoleSecretName o') v) = (adminData, e)"
    "authUser p = mget adminData ''admin-role''" "authPassword p = mget adminData ''admin-password''" by blast
  moreover with assms(2) [of v] have "adminData = Map.empty" by simp
  ultimately show ?thesis using assms(3) by (simp add: BasicAuth_def mget_def)
qed

end
