(* ===== verification/Watches.thy ===== *)
theory Watches
  imports Roles Tls
begin

text \<open>
  Which clusters a change of a secret or configmap wakes (\<open>controllers/eventhandler\<close>,
  \<open>controllers/predicate\<close>): the operator watches the secrets that users provide, which it does not own, and finds the
  cluster in an annotation that its passes leave on them.
  A handler adds requests to the work queue of the controller; the queue is the list of the keys added.
  The library's \<open>handler.Funcs\<close> without functions ignores creations and deletions.
  The lemmas connect the annotations that the passes write with the passes that a later change requests.
\<close>

section \<open>Handlers\<close>

datatype 'o watchEvent = Created 'o | Updated 'o 'o | Deleted 'o | Generic 'o

record watched =
  wo_namespace :: string
  wo_name :: string
  wo_annotations :: "strmap option"

definition annotationsOf :: "strmap option \<Rightarrow> strmap" where
  "annotationsOf a = (case a of None \<Rightarrow> Map.empty | Some m \<Rightarrow> m)"

definition annotationUpdate :: "watched \<Rightarrow> key list \<Rightarrow> key list" where
  "annotationUpdate new q =
     (let annotations = annotationsOf (wo_annotations new) in
      if annotations = Map.empty then q
      else let ccInstanceName = mget annotations ClusterInstanceLabel in
        if ccInstanceName = '''' then q else q @ [(wo_namespace new, ccInstanceName)])"

definition annotationGeneric :: "watched \<Rightarrow> key list \<Rightarrow> key list" where
  "annotationGeneric obj q =
     (let annotations = annotationsOf (wo_annotations obj) in
      if annotations = Map.empty then q
      else let ccInstanceName = mget annotations ClusterInstanceLabel in
        if ccInstanceName = '''' then q else q @ [(wo_namespace obj, ccInstanceName)])"

fun AnnotationEventHandler :: "watched watchEvent \<Rightarrow> key list \<Rightarrow> key list" where
  "AnnotationEventHandler (Created _) q = q"
| "AnnotationEventHandler (Updated old new) q = annotationUpdate new q"
| "AnnotationEventHandler (Deleted _) q = q"
| "AnnotationEventHandler (Generic obj) q = annotationGeneric obj q"

text \<open>The filter that prints events and lets all of them pass; each case is a method.\<close>

fun clusterReconcilePredicate :: "'o watchEvent \<Rightarrow> bool" where
  "clusterReconcilePredicate (Created _) = True"
| "clusterReconcilePredicate (Deleted _) = True"
| "clusterReconcilePredicate (Updated _ _) = True"
| "clusterReconcilePredicate (Generic _) = True"

section \<open>Which passes are requested\<close>

definition watchedSecret :: "secret \<Rightarrow> watched" where
  "watchedSecret s = \<lparr>wo_namespace = sec_namespace s, wo_name = sec_name s, wo_annotations = sec_annotations s\<rparr>"

lemma annotationUpdate_eq:
  "annotationUpdate new q =
     (if mget (annotationsOf (wo_annotations new)) ClusterInstanceLabel = '''' then q
      else q @ [(wo_namespace new, mget (annotationsOf (wo_annotations new)) ClusterInstanceLabel)])"
  by (auto simp: annotationUpdate_def mget_def Let_def)

text \<open>The annotation that a pass leaves is the one the handler looks for.\<close>

lemma annotated_wakes:
  assumes "a ClusterInstanceLabel = Some n" "n \<noteq> ''''"
  shows "AnnotationEventHandler (Updated old (watchedSecret (annotated s a))) q = q @ [(sec_namespace s, n)]"
  using assms by (auto simp: annotationUpdate_eq watchedSecret_def annotated_def annotationsOf_def mget_def MergeMap_def split: option.splits)

lemma reconcileAnnotations_writes: "trace (reconcileAnnotations E s a) w = [UpdateSecret (annotated s a)]"
  by (simp add: reconcileAnnotations_def annotated_def Let_def)

text \<open>
  Every secret of a user that a pass annotates (with roles, with the certificate of a node) wakes the cluster of that pass
  when it changes later, as long as the change keeps the annotation.
\<close>

lemma node_secret_wakes_cluster:
  assumes "result (reconcileNodeTLSSecret E cc cs ty) w = Inr (s, cs')" "cc_name cc \<noteq> ''''"
  shows "UpdateSecret s \<in> set (trace (reconcileNodeTLSSecret E cc cs ty) w)"
    and "wo_annotations new = sec_annotations s \<Longrightarrow> wo_namespace new = sec_namespace s \<Longrightarrow>
      AnnotationEventHandler (Updated old new) q = q @ [(sec_namespace s, cc_name cc)]"
proof -
  define a where "a = [ClusterInstanceLabel \<mapsto> cc_name cc]"
  note step = reconcileNodeTLSSecret_def [of E cc cs ty, unfolded Let_def, folded a_def]
  from assms(1) obtain s0 n where get: "result (getTLSSecret E cc (newTLSSecret cc ty) False) w = Inr (s0, n)"
    and valid: "result (validateTLSFields cc s0 ty) (world (getTLSSecret E cc (newTLSSecret cc ty) False) w) = Inr ()"
    and s: "s = annotated s0 a"
    unfolding step andThen_Inr wrapErr_Inr split_paired_Ex prod.case result_ret by auto
  then show "UpdateSecret s \<in> set (trace (reconcileNodeTLSSecret E cc cs ty) w)"
    by (simp add: step reconcileAnnotations_writes split: sum.split)
  assume "wo_annotations new = sec_annotations s" "wo_namespace new = sec_namespace s"
  then have "AnnotationEventHandler (Updated old new) q = AnnotationEventHandler (Updated old (watchedSecret s)) q"
    unfolding AnnotationEventHandler.simps by (simp add: annotationUpdate_eq watchedSecret_def)
  with annotated_wakes [of a "cc_name cc" old s0 q] s assms(2) a_def
  show "AnnotationEventHandler (Updated old new) q = q @ [(sec_namespace s, cc_name cc)]"
    by (simp only: annotated_def) simp
qed

text \<open>The annotation holds one name: of two clusters that use the same secret only the last to annotate it is woken.\<close>

lemma shared_secret_wakes_one:
  assumes "a ClusterInstanceLabel = Some m" "b ClusterInstanceLabel = Some n" "n \<noteq> ''''" "m \<noteq> n"
  shows "(ns, m) \<notin> set (AnnotationEventHandler (Updated old (watchedSecret (annotated (annotated s a) b))) [])"
  using assms annotated_wakes [where a = b and n = n and s = "annotated s a" and q = "[]"] by auto

text \<open>A secret that a cluster waits for wakes it neither when it is created nor when it is changed without the annotation.\<close>

lemma awaited_secret_silent:
  "AnnotationEventHandler (Created s) q = q"
  "mget (annotationsOf (wo_annotations s)) ClusterInstanceLabel = '''' \<Longrightarrow> AnnotationEventHandler (Updated old s) q = q"
  by (simp_all add: annotationUpdate_eq)

end
