(* ===== verification/Cql_Client.thy ===== *)
theory Cql_Client
  imports Roles Tls
begin

text \<open>
  The CQL sessions of the operator: their configuration (\<open>controllers/cql.go\<close>) and the client over a session
  (\<open>controllers/cql/cql.go\<close>). The driver is the record \<open>cqlSession\<close>: it executes a statement with the values bound
  to it, and it delivers the rows of a query with the error of closing the iterator.
  The lemmas say which statements the methods send, and that the files of the configuration are those that the TLS step
  of the reconciler writes.
\<close>

section \<open>Configuration\<close>

record sslOptions =
  sso_certPath :: string
  sso_keyPath :: string
  sso_caPath :: string
  sso_enableHostVerification :: bool

text \<open>Durations are in nanoseconds.\<close>

record cqlConfig =
  cqc_host :: string
  cqc_username :: string
  cqc_password :: string
  cqc_timeout :: int
  cqc_connectTimeout :: int
  cqc_consistency :: string
  cqc_maxRetries :: int
  cqc_retryInterval :: int
  cqc_sslOpts :: "sslOptions option"

definition sslOptionsOf :: "string \<Rightarrow> cassandraCluster \<Rightarrow> sslOptions" where
  "sslOptionsOf home cc =
     (let node = ce_nodeTLSSecret (clientTLS cc); dir = OperatorClientTLSDir home cc in
      \<lparr>sso_certPath = dir @ ''/'' @ node_crtFileKey node, sso_keyPath = dir @ ''/'' @ node_fileKey node,
       sso_caPath = dir @ ''/'' @ node_caCrtFileKey node, sso_enableHostVerification = False\<rparr>)"

definition newCassandraConfig :: "string \<Rightarrow> cassandraCluster \<Rightarrow> string \<Rightarrow> string \<Rightarrow> go_error + cqlConfig" where
  "newCassandraConfig home cc role pw =
     (case spec_dcs (cc_spec cc) of
        [] \<Rightarrow> Inl Panic
      | d # _ \<Rightarrow> Inr
          \<lparr>cqc_host = DCService (cc_name cc) (dc_name d) @ ''.'' @ cc_namespace cc @ ''.svc.cluster.local'',
           cqc_username = role, cqc_password = pw, cqc_timeout = 6000000000, cqc_connectTimeout = 6000000000,
           cqc_consistency = ''LOCAL_QUORUM'', cqc_maxRetries = 3, cqc_retryInterval = 1000000000,
           cqc_sslOpts = (if ce_enabled (clientTLS cc) then Some (sslOptionsOf home cc) else None)\<rparr>)"

section \<open>The client\<close>

datatype cqlValue = TextValue string | ListValue "string list"

datatype cqlReq = Statement string "cqlValue list" | Select string

record 'w cqlSession =
  ses_exec :: "string \<Rightarrow> cqlValue list \<Rightarrow> 'w \<Rightarrow> (go_error + unit) \<times> 'w"
  ses_keyspaces :: "'w \<Rightarrow> ((string \<times> strmap) list \<times> go_error option) \<times> 'w"
  ses_roles :: "'w \<Rightarrow> ((string \<times> bool \<times> bool \<times> strmap) list \<times> go_error option) \<times> 'w"

definition execute :: "'w cqlSession \<Rightarrow> string \<Rightarrow> cqlValue list \<Rightarrow> ('w, cqlReq, unit) act" where
  "execute S stmt values = call (Statement stmt values) (ses_exec S stmt values)"

text \<open>\<open>Query\<close> hands the slice of its values to the driver as one value.\<close>

definition ClientQuery :: "'w cqlSession \<Rightarrow> string \<Rightarrow> string list \<Rightarrow> ('w, cqlReq, unit) act" where
  "ClientQuery S stmt values = execute S stmt [ListValue values]"

text \<open>Rows that were read before an error of the iterator are dropped.\<close>

definition rowsOf :: "string \<Rightarrow> ('w \<Rightarrow> ('a list \<times> go_error option) \<times> 'w) \<Rightarrow> string \<Rightarrow> ('w, cqlReq, 'a list) act" where
  "rowsOf query h msg =
     wrapErr msg (call (Select query) (\<lambda>w. case h w of ((rows, e), v) \<Rightarrow> (case e of None \<Rightarrow> Inr rows | Some err \<Rightarrow> Inl err, v)))"

definition GetKeyspacesInfo :: "'w cqlSession \<Rightarrow> ('w, cqlReq, keyspace list) act" where
  "GetKeyspacesInfo S =
     andThen (rowsOf ''SELECT keyspace_name,replication FROM system_schema.keyspaces'' (ses_keyspaces S) ''failed to close iterator'')
       (\<lambda>rows. ret (map (\<lambda>(n, r). \<lparr>ks_name = n, ks_replication = r\<rparr>) rows))"

text \<open>The login flag and the options of a role are scanned and not kept.\<close>

definition GetRoles :: "'w cqlSession \<Rightarrow> ('w, cqlReq, cqlRole list) act" where
  "GetRoles S =
     andThen (rowsOf ''LIST ROLES'' (ses_roles S) (''Can'' @ [CHR 0x27] @ ''t close iterator''))
       (\<lambda>rows. ret (map (\<lambda>(n, su, login, opts). \<lparr>role_name = n, role_super = su, role_login = False, role_password = ''''\<rparr>) rows))"

definition ClientUpdateRF :: "'w cqlSession \<Rightarrow> string list \<Rightarrow> string \<Rightarrow> strmap \<Rightarrow> ('w, cqlReq, unit) act" where
  "ClientUpdateRF S ord k opts = execute S (UpdateRFQuery k (inOrder ord opts)) []"

definition ClientCreateRole :: "'w cqlSession \<Rightarrow> cqlRole \<Rightarrow> ('w, cqlReq, unit) act" where
  "ClientCreateRole S r = execute S (CreateRoleQuery r) []"

definition ClientUpdateRole :: "'w cqlSession \<Rightarrow> cqlRole \<Rightarrow> ('w, cqlReq, unit) act" where
  "ClientUpdateRole S r = execute S (UpdateRoleQuery r) []"

definition ClientUpdateRolePassword :: "'w cqlSession \<Rightarrow> string \<Rightarrow> string \<Rightarrow> ('w, cqlReq, unit) act" where
  "ClientUpdateRolePassword S n pw = execute S (UpdateRolePasswordQuery n pw) []"

definition ClientDropRole :: "'w cqlSession \<Rightarrow> cqlRole \<Rightarrow> ('w, cqlReq, unit) act" where
  "ClientDropRole S r = execute S (DropRoleQuery r) []"

section \<open>What the methods do\<close>

lemma GetRoles_login:
  assumes "result (GetRoles S) w = Inr rs" "r \<in> set rs"
  shows "\<not> role_login r \<and> role_password r = ''''"
  using assms unfolding GetRoles_def andThen_Inr by auto

section \<open>The files of the configuration\<close>

text \<open>The files that a session with the configuration opens.\<close>

definition sslFiles :: "cqlConfig \<Rightarrow> string set" where
  "sslFiles c = (case cqc_sslOpts c of None \<Rightarrow> {} | Some s \<Rightarrow> {sso_certPath s, sso_keyPath s, sso_caPath s})"

lemma setupClientTLSFiles_writes:
  assumes "result (setupClientTLSFiles E home cc) w = Inr ()" "newCassandraConfig home cc role pw = Inr c" "f \<in> sslFiles c"
  shows "\<exists>content. Objects (WriteFile f content) \<in> set (trace (setupClientTLSFiles E home cc) w)"
proof -
  have "f \<in> {OperatorClientTLSDir home cc @ ''/'' @ node_crtFileKey (ce_nodeTLSSecret (clientTLS cc)),
      OperatorClientTLSDir home cc @ ''/'' @ node_fileKey (ce_nodeTLSSecret (clientTLS cc)),
      OperatorClientTLSDir home cc @ ''/'' @ node_caCrtFileKey (ce_nodeTLSSecret (clientTLS cc))}"
    using assms(2,3) by (auto simp: newCassandraConfig_def sslFiles_def sslOptionsOf_def Let_def split: list.splits if_splits)
  with assms(1) show ?thesis
    by (auto simp: setupClientTLSFiles_def writeClientFile_def Let_def split: sum.splits)
qed

lemma disabled_no_files: "\<not> ce_enabled (clientTLS cc) \<Longrightarrow> newCassandraConfig home cc role pw = Inr c \<Longrightarrow> sslFiles c = {}"
  by (auto simp: newCassandraConfig_def sslFiles_def split: list.splits)

lemma within_andThen:
  assumes "result (andThen m f) w = Inr y" "set (trace (andThen m f) w) \<subseteq> T"
    "\<And>x. result m w = Inr x \<Longrightarrow> set (trace m w) \<subseteq> T \<Longrightarrow> result (f x) (world m w) = Inr y \<Longrightarrow>
      set (trace (f x) (world m w)) \<subseteq> T \<Longrightarrow> P"
  shows P
  using assms by (cases "result m w") auto

lemma within_last:
  fixes x :: unit
  assumes "result (wrapErr msg m) u = Inr x" "set (trace (wrapErr msg m) u) \<subseteq> T"
  shows "\<exists>u. result m u = Inr () \<and> set (trace m u) \<subseteq> T"
  using assms unfolding wrapErr_Inr by (intro exI [of _ u]) simp

lemma client_files_last:
  assumes "ce_enabled (clientTLS cc)" "result (reconcileClientEncryption E C home cc) w = Inr cc'"
    "set (trace (reconcileClientEncryption E C home cc) w) \<subseteq> T"
  shows "\<exists>u. result (setupClientTLSFiles E home cc') u = Inr () \<and> set (trace (setupClientTLSFiles E home cc') u) \<subseteq> T"
  using assms unfolding reconcileClientEncryption_def
  apply (simp only: not_True_eq_False if_False simp_thms)
  apply (erule (1) within_andThen)+
  apply (unfold result_ret sum.inject, hypsubst)
  by (rule within_last)

text \<open>After the TLS step of a pass, every file that a session of the resulting cluster opens has been written.\<close>

lemma session_files_written:
  assumes "result (reconcileTLSSecrets E C home cc) w = Inr cc'" "newCassandraConfig home cc' role pw = Inr c" "f \<in> sslFiles c"
  shows "\<exists>content. Objects (WriteFile f content) \<in> set (trace (reconcileTLSSecrets E C home cc) w)"
proof -
  from assms(1) obtain cc1 where server: "result (reconcileServerEncryption E C cc) w = Inr cc1"
    and client: "result (reconcileClientEncryption E C home cc1) (world (reconcileServerEncryption E C cc) w) = Inr cc'"
    unfolding reconcileTLSSecrets_def andThen_Inr by blast
  let ?v = "world (reconcileServerEncryption E C cc) w"
  have enabled: "ce_enabled (clientTLS cc1)"
  proof (rule ccontr)
    assume "\<not> ce_enabled (clientTLS cc1)"
    with client have "cc' = cc1" by (simp add: reconcileClientEncryption_def)
    with \<open>\<not> ce_enabled (clientTLS cc1)\<close> disabled_no_files assms(2,3) show False by blast
  qed
  from client_files_last [OF enabled client order_refl]
  obtain u where "result (setupClientTLSFiles E home cc') u = Inr ()"
    "set (trace (setupClientTLSFiles E home cc') u) \<subseteq> set (trace (reconcileClientEncryption E C home cc1) ?v)" by blast
  with setupClientTLSFiles_writes [OF this(1) assms(2,3)] server show ?thesis
    by (auto simp: reconcileTLSSecrets_def)
qed

end
