(* ===== verification/Spec2Isabelle.thy ===== *)
theory Spec2Isabelle
  imports Prober_Client Jobs Cql_Scripts Roles Network_Policies Webhook Repair_Schedules Nodectl Rbac Service_Monitors Ready_Gate Region_Register Restores Starts Watches Cql_Client
begin

text \<open>
  \<^bold>\<open>mr-cassop: a Kubernetes operator for Cassandra clusters that span regions.\<close>

  The program has two executables. The \<^emph>\<open>operator\<close> (\<open>src/main.go\<close>, \<open>src/controllers\<close>) watches
  \<open>CassandraCluster\<close> resources (\<open>src/api/v1alpha1\<close>) and, for each, brings the Kubernetes objects, the Cassandra
  roles and keyspaces and the Reaper instances to the specification. The \<^emph>\<open>prober\<close> (\<open>src/prober\<close>) runs once per
  region: it polls the Cassandra nodes through a Jolokia agent, answers their readiness probes, and stores what the
  operators of the regions tell each other (seeds, readiness, datacentres, addresses).

  \<^bold>\<open>How effects are modelled.\<close>
  The prober is a server with a state of its own: a record and one function per handler (theory \<open>Prober\<close>).
  The operator's reconcilers act on services that are not part of the program: the API server, Cassandra, the probers,
  Reaper. Theory \<open>Env\<close> collects their documented operations in a record of functions over a world \<open>'w\<close>, a
  parameter of every reconciler; a reconciler is an action \<open>'w \<Rightarrow> (go_error + 'a) \<times> request list \<times> 'w\<close>
  (theory \<open>Prelude\<close>): it returns the error or the value, the requests it sent in order, and the new world. An early
  return, a wrapped error and a panic are values of the sum. What a theorem needs of a service is a hypothesis of the
  theorem or an assumption of a locale (\<open>Helpers\<close>, \<open>Prober\<close>, \<open>Prober_Client\<close>, \<open>Keyspaces\<close>), and
  theory \<open>Samples\<close> gives a concrete world, in which every witness computes.

  A few operations talk to other services with requests of their own type (Jolokia, Reaper, Icarus, the CQL driver, the
  API server at start-up); they are actions over the record of that service.

  \<^bold>\<open>Which theory models what.\<close>
  \<^item> \<open>Prelude\<close>: the action monad with its trace lemmas, Go's maps, sorting, string functions and formatting.
  \<^item> \<open>Go_Parse\<close>: \<open>time.ParseDuration\<close>, \<open>time.Parse\<close> of ISO dates and \<open>strconv.ParseFloat\<close>, as far as
    the webhook and the defaults use their answers.
  \<^item> \<open>Api_Types\<close>, \<open>K8s_Objects\<close>: the resource types of \<open>api/v1alpha1/cassandracluster_types.go\<close> and the
    Kubernetes objects, each with the fields that the modelled code reads or writes.
  \<^item> \<open>Names\<close>: \<open>names/names.go\<close>, \<open>labels/labels.go\<close>, \<open>util/utils.go\<close>.
  \<^item> \<open>Prober\<close>: the prober server; \<open>Prober_Client\<close>: the operator's client of it (\<open>controllers/prober\<close>);
    \<open>Region_Register\<close>: the server as a refinement of six registers behind one pair of credentials.
  \<^item> \<open>Jobs\<close>: the job manager (\<open>controllers/jobs\<close>), a step relation over the interleavings of its goroutines.
  \<^item> \<open>Helpers\<close>: configmaps, secrets, retries, the datacentres of all regions (\<open>helpers.go\<close>).
  \<^item> \<open>Objects\<close>: the pattern get, create, compare, adopt of every other kind of object, and \<open>compare/comparer.go\<close>.
    \<open>Cassandra_Workload\<close>, \<open>Prober_Workload\<close>, \<open>Reaper_Workload\<close>: the stateful sets, deployments, services and
    ingresses made with it, containers and start-up scripts included. \<open>Rbac\<close>: roles and accounts of the pods.
    \<open>Config_Maps\<close>: the configuration of Cassandra, Prometheus, collectd and Shiro. \<open>Service_Monitors\<close>: what
    Prometheus scrapes.
  \<^item> \<open>Certs\<close>, \<open>Tls\<close>: \<open>controllers/certs\<close> and the TLS secrets of servers and clients (\<open>cassandra_tls.go\<close>).
  \<^item> \<open>Cql_Client\<close>: the configuration of a CQL session and the client over it (\<open>cql.go\<close>, \<open>cql/cql.go\<close>).
    \<open>Keyspaces\<close>: replication of the system keyspaces and of the reaper keyspace.
  \<^item> \<open>Readiness\<close>: readiness of the datacentres, regions and cluster, and who waits for whom (\<open>readiness.go\<close>,
    \<open>prober.go\<close>).
  \<^item> \<open>Pods_Config\<close>: the configuration each pod starts with, seeds and the order of initialisation
    (\<open>cassandra_pods_config.go\<close>, \<open>cassandra_pod_ips.go\<close>, \<open>cassandra_pod_labels.go\<close>).
  \<^item> \<open>Scaling\<close>: scaling and decommissioning (\<open>cassandra_scaling.go\<close>); \<open>Nodectl\<close>: the node operations through
    Jolokia (\<open>controllers/nodectl\<close>); \<open>Maintenance\<close>: maintenance mode.
  \<^item> \<open>Cql_Scripts\<close>, \<open>Roles\<close>, \<open>Admin_Auth\<close>: scripts, user roles and the admin role.
  \<^item> \<open>Network_Policies\<close>: who may connect to which pod.
  \<^item> \<open>Reaper_Client\<close>: the client of Reaper (\<open>controllers/reaper\<close>); \<open>Repair_Schedules\<close>: its schedules, with the
    calendar of the Go library.
  \<^item> \<open>Defaults\<close>, \<open>Webhook\<close>: the defaults of a specification and what the webhook accepts;
    \<open>Webhook_Assets\<close>: certificates, configuration and service of the webhooks (\<open>controllers/webhooks\<close>).
  \<^item> \<open>Controller\<close>: one pass of the reconciler, from reading the cluster to the requeue (\<open>controller.go\<close>);
    \<open>Ready_Gate\<close>: the pass cut at the scaling and at the check of the readiness, what it does not do before this check
    succeeds, what it reports, and how passes go on;
    \<open>Watches\<close>: which clusters a changed secret wakes (\<open>controllers/eventhandler\<close>).
  \<^item> \<open>Backup_Types\<close>, \<open>Icarus_Client\<close>, \<open>Backups\<close>, \<open>Restores\<close>: backups and restores, their webhooks, the
    client of the sidecar and the two reconcilers (\<open>cassandrabackup\<close>, \<open>cassandrarestore\<close>, \<open>icarus\<close>).
  \<^item> \<open>Starts\<close>: the order in which the two processes set up their parts (\<open>main.go\<close>, \<open>prober/main.go\<close>).

  \<^bold>\<open>What the lemmas show.\<close>
  \<^item> Which requests an action may send (\<open>only\<close>, \<open>writes\<close>) and which part of the world it leaves alone
    (\<open>keeps\<close>): safety of scaling, of the secrets, of the order of the Reapers and of everything that waits for the
    cluster to be ready.
  \<^item> What holds after a successful action (\<open>yields\<close> takes a composed one apart): the contracts \<open>reconciler\<close> of
    \<open>Helpers\<close> and \<open>writer\<close> of \<open>Objects\<close>, once per kind of object, and the desired keyspaces, roles, schedules,
    volumes and webhooks.
  \<^item> Invariants over histories: the job manager's step relation, the prober's table of nodes, and the simulation of
    \<open>board\<close> by the prober with its ticks and secret events in between (locale \<open>refinement\<close>).
  \<^item> How a pass ends (\<open>ends\<close>): with an error, a requeue, a scaling in progress or everything done. The lemmas of
    \<open>Ready_Gate\<close> name the worlds between the parts of one pass, so its claims are about this pass and no other.
  \<^item> Specifications that do not use the code's own tests: \<open>reportsUp\<close> reads a node's report letter by letter,
    \<open>fewestNonSeeds\<close> is the largest admissible number of seeds, \<open>upToDate\<close> and \<open>forRepair\<close> compare a schedule with
    a desired repair field by field.
  \<^item> Round trips of scripts, registers and backups; equivalence of the validations with plain conditions; the errors and
    panics that the code can run into, stated as they are.

  \<^bold>\<open>Bounds.\<close>
  No definition uses fuel: a loop of the code is a recursion over a list, counts to a constant (the three attempts of a
  retry), or has a termination proof (parsing of durations, years and months of the calendar), and the loops that run for
  the life of a process are steps of relations. Go's machine integers are \<open>int\<close>, since the code compares, prints and
  adds small numbers; where a value from outside can leave the range (parsed numbers and durations, the progress of a
  backup, the counters of Cassandra) the limits \<open>2 ^ 63\<close> are part of the definition. The order in which Go visits a map
  is a list argument that a theorem quantifies over.

  \<^bold>\<open>Not modelled.\<close>
  \<^item> Logging, and the text of the events except where a decision depends on it.
  \<^item> The libraries: JSON, YAML, cryptography, HTTP, the CQL driver, the Kubernetes clients and their caches. They are
    parameters. Of Kubernetes values that the code only passes on (resources, tolerations, affinities) the content is opaque;
    so the comparison of stateful sets takes two quantities as equal only if they are the same value, where
    \<open>compare/comparer.go\<close> uses \<open>Quantity.Cmp\<close>: this decides only whether a write is skipped. A certificate is made
    with one reading of the clock, where \<open>certs/certificates.go\<close> reads it once for each end of the validity.
  \<^item> What the code takes from the schema of the custom resources (required fields such as the replicas of a datacentre) is a
    hypothesis of the theorems that need it.
  \<^item> Generated copies of the API types (values need no copies), the registration of types and controllers, and mocks.
  \<^item> Concurrency inside one reconciler: the library runs one pass of a cluster at a time. Between the requests of a pass
    other actors may change the world, because its answers are arbitrary.
\<close>

end
